(* ===== verification/Prelude.thy ===== *)
theory Prelude
  imports Main
begin

text \<open>
  Shared vocabulary of the development.

  \<^item> \<open>err\<close>: Go's error values. An error is a tree, because the code wraps errors
    (\<open>fmt.Errorf\<close> with a \<open>%w\<close> verb), joins them (\<open>errors.Join\<close>) and asks later whether
    a sentinel or a typed error is inside (\<open>errors.Is\<close>, \<open>errors.As\<close>). A function that
    returns only an error returns \<open>err option\<close> here (\<open>None\<close> is nil).
  \<^item> \<open>('s, 'a) act\<close>: an effectful operation over a state \<open>'s\<close> that returns a value or an
    error. The state survives an error, as it does in the code.
  \<^item> \<open>wp\<close>: the weakest precondition of an operation, with one postcondition for a normal
    return and one for an error. Its equations (collection \<open>wp_simps\<close>) turn a statement
    about an operation into a statement about the states in between.
  \<^item> \<open>keeps\<close>: an operation preserves a state predicate whether it returns or fails
    (collection \<open>keeps_intros\<close>).
\<close>

named_theorems wp_simps "weakest precondition equations"
named_theorems wp_intros "introduction rules for weakest preconditions"
named_theorems keeps_intros "preservation of a state predicate by operations"

named_theorems evaluate "definitions to unfold when a closed term is computed"

section \<open>Errors\<close>

datatype err =
    Msg string
  | IoFault
  | NotExist
  | Exist
  | DeadlineExceeded
  | Canceled
  | RunSettled
  | Authority err
  | Preflight err
  | Wrap string err
  | Join err err

text \<open>\<open>errors.Is e target\<close>: the target occurs in the chain of wrapped and joined errors.\<close>

fun err_is :: "err \<Rightarrow> err \<Rightarrow> bool" where
  "err_is (Authority e) t = (Authority e = t \<or> err_is e t)"
| "err_is (Preflight e) t = (Preflight e = t \<or> err_is e t)"
| "err_is (Wrap m e) t = (Wrap m e = t \<or> err_is e t)"
| "err_is (Join e f) t = (Join e f = t \<or> err_is e t \<or> err_is f t)"
| "err_is e t = (e = t)"

text \<open>\<open>errors.As\<close> for the two typed errors the program defines.\<close>

fun is_authority :: "err \<Rightarrow> bool" where
  "is_authority (Authority e) = True"
| "is_authority (Preflight e) = is_authority e"
| "is_authority (Wrap m e) = is_authority e"
| "is_authority (Join e f) = (is_authority e \<or> is_authority f)"
| "is_authority e = False"

fun is_preflight :: "err \<Rightarrow> bool" where
  "is_preflight (Preflight e) = True"
| "is_preflight (Authority e) = is_preflight e"
| "is_preflight (Wrap m e) = is_preflight e"
| "is_preflight (Join e f) = (is_preflight e \<or> is_preflight f)"
| "is_preflight e = False"

text \<open>\<open>errors.Join\<close>: nil arguments are dropped, and joining only nils is nil.\<close>

fun join_err :: "err option \<Rightarrow> err option \<Rightarrow> err option" where
  "join_err None f = f"
| "join_err e None = e"
| "join_err (Some e) (Some f) = Some (Join e f)"

lemma join_err_None [simp]: "join_err e f = None \<longleftrightarrow> e = None \<and> f = None"
  by (cases e; cases f) auto

text \<open>Sequenced checks: the first failing check is the result.\<close>

definition check :: "bool \<Rightarrow> string \<Rightarrow> err option" where
  "check bad m = (if bad then Some (Msg m) else None)"

definition or_else :: "err option \<Rightarrow> err option \<Rightarrow> err option" where
  "or_else a b = (case a of None \<Rightarrow> b | Some e \<Rightarrow> Some e)"

fun first_err :: "err option list \<Rightarrow> err option" where
  "first_err [] = None"
| "first_err (e # es) = or_else e (first_err es)"

lemma check_None [simp]: "check b m = None \<longleftrightarrow> \<not> b"
  by (simp add: check_def)

lemma check_simps [simp]: "check False m = None" "check True m = Some (Msg m)"
  by (simp_all add: check_def)

lemma or_else_None [simp]: "or_else a b = None \<longleftrightarrow> a = None \<and> b = None"
  by (simp add: or_else_def split: option.splits)

lemma or_else_simps [simp]: "or_else None b = b" "or_else (Some e) b = Some e"
  by (simp_all add: or_else_def)

lemma first_err_None [simp]: "first_err es = None \<longleftrightarrow> (\<forall>e\<in>set es. e = None)"
  by (induction es) auto

definition wrap_err :: "string \<Rightarrow> err option \<Rightarrow> err option" where
  "wrap_err m e = map_option (Wrap m) e"

lemma wrap_err_None [simp]: "wrap_err m e = None \<longleftrightarrow> e = None"
  by (simp add: wrap_err_def)

section \<open>Fallible pure results\<close>

definition bind_res :: "err + 'a \<Rightarrow> ('a \<Rightarrow> err + 'b) \<Rightarrow> err + 'b" where
  "bind_res m f = (case m of Inl e \<Rightarrow> Inl e | Inr a \<Rightarrow> f a)"

definition guard_res :: "err option \<Rightarrow> err + 'b \<Rightarrow> err + 'b" where
  "guard_res c m = (case c of Some e \<Rightarrow> Inl e | None \<Rightarrow> m)"

lemma bind_res_simps [simp]: "bind_res (Inl e) f = Inl e" "bind_res (Inr a) f = f a"
  by (simp_all add: bind_res_def)

lemma bind_res_Inr [simp]: "bind_res m f = Inr b \<longleftrightarrow> (\<exists>a. m = Inr a \<and> f a = Inr b)"
  by (cases m) auto

lemma guard_res_simps [simp]: "guard_res (Some e) m = Inl e" "guard_res None m = m"
  by (simp_all add: guard_res_def)

lemma guard_res_Inr [simp]: "guard_res c m = Inr b \<longleftrightarrow> c = None \<and> m = Inr b"
  by (cases c) auto

lemma guard_res_check [simp]:
  "guard_res (check b m) r = (if b then Inl (Msg m) else r)"
  by (simp add: check_def)

section \<open>Effectful operations\<close>

text \<open>What the environment does to a system call: it succeeds, fails without effect, fails after its
  effect, or fails with a part of it.\<close>

datatype fault = NoFault | FailBefore | FailAfter | FailTorn



type_synonym ('s, 'a) act = "'s \<Rightarrow> (err + 'a) \<times> 's"

definition ret :: "'a \<Rightarrow> ('s, 'a) act" where
  "ret a = (\<lambda>s. (Inr a, s))"

definition fail :: "err \<Rightarrow> ('s, 'a) act" where
  "fail e = (\<lambda>s. (Inl e, s))"

definition andthen :: "('s, 'a) act \<Rightarrow> ('a \<Rightarrow> ('s, 'b) act) \<Rightarrow> ('s, 'b) act" where
  "andthen m f = (\<lambda>s. case m s of (Inl e, t) \<Rightarrow> (Inl e, t) | (Inr a, t) \<Rightarrow> f a t)"

text \<open>\<open>attempt m\<close> runs \<open>m\<close> and hands its error to the caller as a value.\<close>

definition attempt :: "('s, 'a) act \<Rightarrow> ('s, err + 'a) act" where
  "attempt m = (\<lambda>s. (Inr (fst (m s)), snd (m s)))"

definition look :: "('s \<Rightarrow> 'a) \<Rightarrow> ('s, 'a) act" where
  "look f = (\<lambda>s. (Inr (f s), s))"

definition change :: "('s \<Rightarrow> 's) \<Rightarrow> ('s, unit) act" where
  "change f = (\<lambda>s. (Inr (), f s))"

definition of_res :: "err + 'a \<Rightarrow> ('s, 'a) act" where
  "of_res r = (\<lambda>s. (r, s))"

definition refuse :: "err option \<Rightarrow> ('s, unit) act" where
  "refuse c = (case c of Some e \<Rightarrow> fail e | None \<Rightarrow> ret ())"

fun each :: "('b \<Rightarrow> ('s, unit) act) \<Rightarrow> 'b list \<Rightarrow> ('s, unit) act" where
  "each f [] = ret ()"
| "each f (x # xs) = andthen (f x) (\<lambda>_. each f xs)"

abbreviation skip :: "('s, unit) act" where "skip \<equiv> ret ()"

text \<open>Sequencing an operation whose error the code ignores (\<open>_ = ...\<close>).\<close>

definition ignoring :: "('s, unit) act \<Rightarrow> ('s, 'a) act \<Rightarrow> ('s, 'a) act" where
  "ignoring m n = andthen (attempt m) (\<lambda>_. n)"

definition then_do :: "('s, unit) act \<Rightarrow> ('s, 'a) act \<Rightarrow> ('s, 'a) act" where
  "then_do m n = andthen m (\<lambda>_. n)"

text \<open>A deferred call whose error is ignored.\<close>

definition ensuring :: "('s, 'a) act \<Rightarrow> ('s, unit) act \<Rightarrow> ('s, 'a) act" where
  "ensuring m c s = (case m s of (r, t) \<Rightarrow> (r, snd (c t)))"

lemma andthen_assoc: "andthen (andthen m f) g = andthen m (\<lambda>a. andthen (f a) g)"
  by (auto simp: andthen_def fun_eq_iff split: prod.splits sum.splits)

lemma andthen_ret [simp]: "andthen (ret a) f = f a" "andthen m ret = m"
  by (auto simp: andthen_def ret_def fun_eq_iff split: prod.splits sum.splits)

text \<open>Applied to a state, for the evaluation of closed runs.\<close>

lemmas sequencing [evaluate] = ignoring_def then_do_def ensuring_def

lemma run_simps [evaluate]:
  "ret a s = (Inr a, s)" "fail e s = (Inl e, s)" "look g s = (Inr (g s), s)" "change h s = (Inr (), h s)"
  "of_res r s = (r, s)" "refuse None s = (Inr (), s)" "refuse (Some e) s = (Inl e, s)"
  "andthen m f s = (case m s of (r, t) \<Rightarrow> case r of Inl e \<Rightarrow> (Inl e, t) | Inr a \<Rightarrow> f a t)"
  "attempt m s = (case m s of (r, t) \<Rightarrow> (Inr r, t))"
  by (simp_all add: ret_def fail_def look_def change_def of_res_def refuse_def andthen_def attempt_def split: prod.splits sum.splits)

subsection \<open>Weakest preconditions\<close>

definition wp ::
  "('s, 'a) act \<Rightarrow> ('a \<Rightarrow> 's \<Rightarrow> bool) \<Rightarrow> (err \<Rightarrow> 's \<Rightarrow> bool) \<Rightarrow> 's \<Rightarrow> bool" where
  "wp m Q E s = (case m s of (Inr a, t) \<Rightarrow> Q a t | (Inl e, t) \<Rightarrow> E e t)"

lemma wp_ret [wp_simps]: "wp (ret a) Q E s = Q a s"
  by (simp add: wp_def ret_def)

lemma wp_fail [wp_simps]: "wp (fail e) Q E s = E e s"
  by (simp add: wp_def fail_def)

lemma wp_andthen [wp_simps]: "wp (andthen m f) Q E s = wp m (\<lambda>a. wp (f a) Q E) E s"
  by (auto simp: wp_def andthen_def split: prod.splits sum.splits)

lemma wp_attempt [wp_simps]:
  "wp (attempt m) Q E s = wp m (\<lambda>a. Q (Inr a)) (\<lambda>e. Q (Inl e)) s"
  by (auto simp: wp_def attempt_def split: prod.splits sum.splits)

lemma wp_look [wp_simps]: "wp (look f) Q E s = Q (f s) s"
  by (simp add: wp_def look_def)

lemma wp_change [wp_simps]: "wp (change f) Q E s = Q () (f s)"
  by (simp add: wp_def change_def)

lemma wp_of_res [wp_simps]:
  "wp (of_res r) Q E s = (case r of Inr a \<Rightarrow> Q a s | Inl e \<Rightarrow> E e s)"
  by (simp add: wp_def of_res_def split: sum.splits)

lemma wp_refuse [wp_simps]:
  "wp (refuse c) Q E s = (case c of Some e \<Rightarrow> E e s | None \<Rightarrow> Q () s)"
  by (simp add: wp_def refuse_def fail_def ret_def split: option.splits)

lemma wp_if [wp_simps]: "wp (if b then m else n) Q E s = (if b then wp m Q E s else wp n Q E s)"
  by simp

lemma wp_case_option [wp_simps]:
  "wp (case x of None \<Rightarrow> m | Some y \<Rightarrow> f y) Q E s =
    (case x of None \<Rightarrow> wp m Q E s | Some y \<Rightarrow> wp (f y) Q E s)"
  by (simp split: option.splits)

lemma wp_case_sum [wp_simps]:
  "wp (case x of Inl y \<Rightarrow> f y | Inr z \<Rightarrow> g z) Q E s =
    (case x of Inl y \<Rightarrow> wp (f y) Q E s | Inr z \<Rightarrow> wp (g z) Q E s)"
  by (simp split: sum.splits)

lemma wp_case_prod [wp_simps]:
  "wp (case x of (y, z) \<Rightarrow> f y z) Q E s = (case x of (y, z) \<Rightarrow> wp (f y z) Q E s)"
  by (simp split: prod.splits)

lemma wp_mono:
  assumes "wp m Q E s"
    and "\<And>a t. Q a t \<Longrightarrow> Q' a t" and "\<And>e t. E e t \<Longrightarrow> E' e t"
  shows "wp m Q' E' s"
  using assms by (auto simp: wp_def split: prod.splits sum.splits)

lemma wp_conj: "wp m Q E s \<Longrightarrow> wp m Q' E' s \<Longrightarrow> wp m (\<lambda>a t. Q a t \<and> Q' a t) (\<lambda>e t. E e t \<and> E' e t) s"
  by (auto simp: wp_def split: prod.splits sum.splits)

lemma wp_result: "wp m Q E s \<Longrightarrow> m s = (Inr a, t) \<Longrightarrow> Q a t"
  by (simp add: wp_def)

lemma wp_error: "wp m Q E s \<Longrightarrow> m s = (Inl e, t) \<Longrightarrow> E e t"
  by (simp add: wp_def)

lemma wp_eqI: "(\<And>a t. m s = (Inr a, t) \<Longrightarrow> Q a t) \<Longrightarrow> (\<And>e t. m s = (Inl e, t) \<Longrightarrow> E e t) \<Longrightarrow> wp m Q E s"
  by (auto simp: wp_def split: prod.splits sum.splits)

text \<open>As introduction rules, with one goal for each branch.\<close>

lemma wp_andthenI [wp_intros]: "wp m (\<lambda>a. wp (f a) Q E) E s \<Longrightarrow> wp (andthen m f) Q E s"
  by (simp add: wp_andthen)

lemma wp_attemptI [wp_intros]: "wp m (\<lambda>a. Q (Inr a)) (\<lambda>e. Q (Inl e)) s \<Longrightarrow> wp (attempt m) Q E s"
  by (simp add: wp_attempt)

lemma wp_retI [wp_intros]: "Q a s \<Longrightarrow> wp (ret a) Q E s"
  by (simp add: wp_ret)

lemma wp_failI [wp_intros]: "E e s \<Longrightarrow> wp (fail e) Q E s"
  by (simp add: wp_fail)

lemma wp_lookI [wp_intros]: "Q (g s) s \<Longrightarrow> wp (look g) Q E s"
  by (simp add: wp_look)

lemma wp_changeI [wp_intros]: "Q () (h s) \<Longrightarrow> wp (change h) Q E s"
  by (simp add: wp_change)

lemma wp_refuseI [wp_intros]:
  "(\<And>e. c = Some e \<Longrightarrow> E e s) \<Longrightarrow> (c = None \<Longrightarrow> Q () s) \<Longrightarrow> wp (refuse c) Q E s"
  by (simp add: wp_refuse split: option.split)

lemma wp_of_resI [wp_intros]:
  "(\<And>a. r = Inr a \<Longrightarrow> Q a s) \<Longrightarrow> (\<And>e. r = Inl e \<Longrightarrow> E e s) \<Longrightarrow> wp (of_res r) Q E s"
  by (simp add: wp_of_res split: sum.split)

lemma wp_ifI [wp_intros]:
  "(b \<Longrightarrow> wp m Q E s) \<Longrightarrow> (\<not> b \<Longrightarrow> wp n Q E s) \<Longrightarrow> wp (if b then m else n) Q E s"
  by simp

lemma wp_case_boolI [wp_intros]:
  "(b \<Longrightarrow> wp m Q E s) \<Longrightarrow> (\<not> b \<Longrightarrow> wp n Q E s) \<Longrightarrow> wp (case b of True \<Rightarrow> m | False \<Rightarrow> n) Q E s"
  by (simp split: bool.split)

lemma wp_case_optionI [wp_intros]:
  "(x = None \<Longrightarrow> wp m Q E s) \<Longrightarrow> (\<And>y. x = Some y \<Longrightarrow> wp (f y) Q E s) \<Longrightarrow>
     wp (case x of None \<Rightarrow> m | Some y \<Rightarrow> f y) Q E s"
  by (simp split: option.split)

lemma wp_case_sumI [wp_intros]:
  "(\<And>y. x = Inl y \<Longrightarrow> wp (f y) Q E s) \<Longrightarrow> (\<And>z. x = Inr z \<Longrightarrow> wp (g z) Q E s) \<Longrightarrow>
     wp (case x of Inl y \<Rightarrow> f y | Inr z \<Rightarrow> g z) Q E s"
  by (simp split: sum.split)

lemma wp_case_prodI [wp_intros]:
  "(\<And>y z. x = (y, z) \<Longrightarrow> wp (f y z) Q E s) \<Longrightarrow> wp (case x of (y, z) \<Rightarrow> f y z) Q E s"
  by (simp split: prod.split)

lemma wp_then_seq: "wp m (\<lambda>_. P) E s \<Longrightarrow> (\<And>t. P t \<Longrightarrow> wp n Q E t) \<Longrightarrow> wp (then_do m n) Q E s"
  unfolding then_do_def wp_andthen by (erule wp_mono)

lemma wp_then_doI: "wp m (\<lambda>_. wp n Q E) E s \<Longrightarrow> wp (then_do m n) Q E s"
  by (simp add: then_do_def wp_andthen)

subsection \<open>Preserved predicates\<close>

definition keeps :: "('s \<Rightarrow> bool) \<Rightarrow> ('s, 'a) act \<Rightarrow> bool" where
  "keeps P m \<longleftrightarrow> (\<forall>s. P s \<longrightarrow> P (snd (m s)))"

lemma keepsD: "keeps P m \<Longrightarrow> P s \<Longrightarrow> P (snd (m s))"
  by (simp add: keeps_def)

lemma keeps_wp: "keeps P m \<longleftrightarrow> (\<forall>s. P s \<longrightarrow> wp m (\<lambda>_. P) (\<lambda>_. P) s)"
proof -
  have "wp m (\<lambda>_. P) (\<lambda>_. P) s = P (snd (m s))" for s
    by (simp add: wp_def split: prod.splits sum.splits)
  then show ?thesis by (simp add: keeps_def)
qed

lemma keeps_basic [keeps_intros]:
  "keeps P (ret a)" "keeps P (fail e)" "keeps P (look f)" "keeps P (of_res r)" "keeps P (refuse c)"
  by (auto simp: keeps_def ret_def fail_def look_def of_res_def refuse_def split: option.splits)

lemma keeps_andthen [keeps_intros]:
  "keeps P m \<Longrightarrow> (\<And>a. keeps P (f a)) \<Longrightarrow> keeps P (andthen m f)"
  by (simp add: keeps_wp wp_andthen) (blast intro: wp_mono)

lemma keeps_attempt [keeps_intros]: "keeps P m \<Longrightarrow> keeps P (attempt m)"
  by (simp add: keeps_def attempt_def)

lemma keeps_if [keeps_intros]:
  "(b \<Longrightarrow> keeps P m) \<Longrightarrow> (\<not> b \<Longrightarrow> keeps P n) \<Longrightarrow> keeps P (if b then m else n)"
  by simp

lemma keeps_option [keeps_intros]:
  "(x = None \<Longrightarrow> keeps P m) \<Longrightarrow> (\<And>y. x = Some y \<Longrightarrow> keeps P (f y)) \<Longrightarrow>
     keeps P (case x of None \<Rightarrow> m | Some y \<Rightarrow> f y)"
  by (simp split: option.splits)

lemma keeps_sum [keeps_intros]:
  "(\<And>y. x = Inl y \<Longrightarrow> keeps P (f y)) \<Longrightarrow> (\<And>z. x = Inr z \<Longrightarrow> keeps P (g z)) \<Longrightarrow>
     keeps P (case x of Inl y \<Rightarrow> f y | Inr z \<Rightarrow> g z)"
  by (simp split: sum.splits)

lemma keeps_prod [keeps_intros]:
  "(\<And>y z. x = (y, z) \<Longrightarrow> keeps P (f y z)) \<Longrightarrow> keeps P (case x of (y, z) \<Rightarrow> f y z)"
  by (simp split: prod.splits)

lemma keeps_control [keeps_intros]:
  "keeps P m \<Longrightarrow> keeps P n \<Longrightarrow> keeps P (then_do m n)"
  "keeps P m \<Longrightarrow> keeps P n' \<Longrightarrow> keeps P (ignoring m n')"
  by (auto simp: then_do_def ignoring_def intro!: keeps_intros)

lemma keeps_change: "(\<And>s. P s \<Longrightarrow> P (f s)) \<Longrightarrow> keeps P (change f)"
  by (simp add: keeps_def change_def)

lemma keeps_each [keeps_intros]: "(\<And>x. x \<in> set xs \<Longrightarrow> keeps P (f x)) \<Longrightarrow> keeps P (each f xs)"
  by (induction xs) (auto intro!: keeps_intros)

subsection \<open>Triples\<close>

text \<open>
  \<open>hoare P m Q E\<close>: from a state with \<open>P\<close>, a normal return with \<open>a\<close> establishes \<open>Q a\<close> and an error
  establishes \<open>E\<close>. The rules follow the control structure; a fact about a returned value is
  carried as a conjunct and becomes a premise by \<open>hoare_pure\<close>.
\<close>

named_theorems hoare_intros "rules for triples"

definition hoare ::
  "('s \<Rightarrow> bool) \<Rightarrow> ('s, 'a) act \<Rightarrow> ('a \<Rightarrow> 's \<Rightarrow> bool) \<Rightarrow> ('s \<Rightarrow> bool) \<Rightarrow> bool" where
  "hoare P m Q E \<longleftrightarrow> (\<forall>s. P s \<longrightarrow> wp m Q (\<lambda>_. E) s)"

lemma hoareI: "(\<And>s. P s \<Longrightarrow> wp m Q (\<lambda>_. E) s) \<Longrightarrow> hoare P m Q E"
  by (simp add: hoare_def)

lemma hoareD: "hoare P m Q E \<Longrightarrow> P s \<Longrightarrow> wp m Q (\<lambda>_. E) s"
  by (simp add: hoare_def)

lemma hoare_pure: "(F \<Longrightarrow> hoare P m Q E) \<Longrightarrow> hoare (\<lambda>s. F \<and> P s) m Q E"
  by (simp add: hoare_def)

lemma hoare_weaken:
  "hoare P' m Q' E' \<Longrightarrow> (\<And>s. P s \<Longrightarrow> P' s) \<Longrightarrow> (\<And>a s. Q' a s \<Longrightarrow> Q a s) \<Longrightarrow> (\<And>s. E' s \<Longrightarrow> E s) \<Longrightarrow>
     hoare P m Q E"
  unfolding hoare_def by (blast intro: wp_mono)

lemma hoare_pre: "hoare P' m Q E \<Longrightarrow> (\<And>s. P s \<Longrightarrow> P' s) \<Longrightarrow> hoare P m Q E"
  by (rule hoare_weaken)

lemma hoare_bind: "hoare P m R E \<Longrightarrow> (\<And>a. hoare (R a) (f a) Q E) \<Longrightarrow> hoare P (andthen m f) Q E"
  unfolding hoare_def wp_andthen by (blast intro: wp_mono)

lemma hoare_attempt:
  "hoare P m Q E \<Longrightarrow> hoare P (attempt m) (\<lambda>r. case r of Inl e \<Rightarrow> E | Inr a \<Rightarrow> Q a) E'"
  unfolding hoare_def wp_attempt by (auto intro: wp_mono)

lemma hoare_ret [hoare_intros]: "(\<And>s. P s \<Longrightarrow> Q a s) \<Longrightarrow> hoare P (ret a) Q E"
  by (simp add: hoare_def wp_ret)

lemma hoare_fail [hoare_intros]: "(\<And>s. P s \<Longrightarrow> E s) \<Longrightarrow> hoare P (fail e) Q E"
  by (simp add: hoare_def wp_fail)

lemma hoare_if [hoare_intros]:
  "(b \<Longrightarrow> hoare P m Q E) \<Longrightarrow> (\<not> b \<Longrightarrow> hoare P n Q E) \<Longrightarrow> hoare P (if b then m else n) Q E"
  by simp

lemma hoare_option [hoare_intros]:
  "(x = None \<Longrightarrow> hoare P m Q E) \<Longrightarrow> (\<And>y. x = Some y \<Longrightarrow> hoare P (f y) Q E) \<Longrightarrow>
     hoare P (case x of None \<Rightarrow> m | Some y \<Rightarrow> f y) Q E"
  by (simp split: option.split)

lemma hoare_sum [hoare_intros]:
  "(\<And>y. x = Inl y \<Longrightarrow> hoare P (f y) Q E) \<Longrightarrow> (\<And>z. x = Inr z \<Longrightarrow> hoare P (g z) Q E) \<Longrightarrow>
     hoare P (case x of Inl y \<Rightarrow> f y | Inr z \<Rightarrow> g z) Q E"
  by (simp split: sum.split)

lemma hoare_prod [hoare_intros]:
  "(\<And>y z. x = (y, z) \<Longrightarrow> hoare P (f y z) Q E) \<Longrightarrow> hoare P (case x of (y, z) \<Rightarrow> f y z) Q E"
  by (simp split: prod.split)

lemma hoare_refuse [hoare_intros]:
  "(\<And>s. P s \<Longrightarrow> E s) \<Longrightarrow> (\<And>s. c = None \<Longrightarrow> P s \<Longrightarrow> Q () s) \<Longrightarrow> hoare P (refuse c) Q E"
  by (simp add: hoare_def wp_refuse split: option.split)

lemma hoare_of_res: "hoare P (of_res r) (\<lambda>a s. r = Inr a \<and> P s) P"
  by (simp add: hoare_def wp_of_res split: sum.split)

lemma hoare_keeps: "keeps P m \<Longrightarrow> hoare P m (\<lambda>_. P) P"
  by (simp add: hoare_def keeps_wp)

lemma keeps_hoare: "hoare P m (\<lambda>_. P) P \<Longrightarrow> keeps P m"
  by (simp add: hoare_def keeps_wp)

text \<open>After a successful \<open>refuse\<close> the check is known to have passed.\<close>

lemma hoare_checked:
  "(c = None \<Longrightarrow> hoare P m Q E) \<Longrightarrow> (\<And>s. P s \<Longrightarrow> E s) \<Longrightarrow> hoare P (andthen (refuse c) (\<lambda>_. m)) Q E"
  by (auto simp: hoare_def wp_andthen wp_refuse split: option.split)

lemma hoare_then: "keeps P m \<Longrightarrow> hoare P n Q E \<Longrightarrow> (\<And>s. P s \<Longrightarrow> E s) \<Longrightarrow> hoare P (then_do m n) Q E"
  unfolding then_do_def by (rule hoare_bind) (auto intro: hoare_weaken[OF hoare_keeps])

lemma hoare_then_check:
  "(c = None \<Longrightarrow> hoare P m Q E) \<Longrightarrow> (\<And>s. P s \<Longrightarrow> E s) \<Longrightarrow> hoare P (then_do (refuse c) m) Q E"
  unfolding then_do_def by (rule hoare_checked)

subsection \<open>Operations that make history\<close>

text \<open>
  \<open>R s t\<close> says what may have happened to the state between \<open>s\<close> and \<open>t\<close>, whoever acted. An operation
  makes history when it relates the state before it to the state after it, on success and on
  failure; facts that \<open>R\<close> preserves then hold on through any sequence of such operations.
\<close>

locale history =
  fixes R :: "'s \<Rightarrow> 's \<Rightarrow> bool"
  assumes refl: "R s s"
    and trans: "R s t \<Longrightarrow> R t u \<Longrightarrow> R s u"
begin

definition made :: "('s, 'a) act \<Rightarrow> ('a \<Rightarrow> 's \<Rightarrow> bool) \<Rightarrow> 's \<Rightarrow> bool" where
  "made m Q s \<longleftrightarrow> wp m (\<lambda>a t. R s t \<and> Q a t) (\<lambda>_ t. R s t) s"

lemma madeI: "wp m (\<lambda>a t. R s t \<and> Q a t) (\<lambda>_ t. R s t) s \<Longrightarrow> made m Q s"
  by (simp add: made_def)

lemma made_weaken: "made m Q s \<Longrightarrow> (\<And>a t. R s t \<Longrightarrow> Q a t \<Longrightarrow> Q' a t) \<Longrightarrow> made m Q' s"
  unfolding made_def by (erule wp_mono) auto

lemma made_state: "made m Q s \<Longrightarrow> R s (snd (m s))"
  by (auto simp: made_def wp_def split: prod.splits sum.splits)

lemma made_result: "made m Q s \<Longrightarrow> m s = (Inr a, t) \<Longrightarrow> R s t \<and> Q a t"
  by (simp add: made_def wp_def)

lemma made_bind:
  assumes "made m P s" and "\<And>a t. R s t \<Longrightarrow> P a t \<Longrightarrow> made (f a) Q t"
  shows "made (andthen m f) Q s"
  using assms unfolding made_def wp_andthen
  by (rule_tac wp_mono) (auto intro: trans wp_mono)

lemma made_then: "made m P s \<Longrightarrow> (\<And>t. R s t \<Longrightarrow> P () t \<Longrightarrow> made n Q t) \<Longrightarrow> made (then_do m n) Q s"
  unfolding then_do_def by (erule made_bind) simp

lemma made_check: "(c = None \<Longrightarrow> made m Q s) \<Longrightarrow> made (then_do (refuse c) m) Q s"
  by (cases c) (auto simp: made_def then_do_def wp_andthen wp_refuse refl)

lemma made_ret: "Q a s \<Longrightarrow> made (ret a) Q s"
  by (simp add: made_def wp_ret refl)

lemma made_fail: "made (fail e) Q s"
  by (simp add: made_def wp_fail refl)

lemma made_refuse: "(c = None \<Longrightarrow> Q () s) \<Longrightarrow> made (refuse c) Q s"
  by (cases c) (auto simp: made_def wp_refuse refl)

lemma made_attempt:
  "made m P s \<Longrightarrow> (\<And>a t. R s t \<Longrightarrow> P a t \<Longrightarrow> Q (Inr a) t) \<Longrightarrow> (\<And>e t. R s t \<Longrightarrow> Q (Inl e) t) \<Longrightarrow> made (attempt m) Q s"
  unfolding made_def wp_attempt by (erule wp_mono) auto

lemma made_ensuring:
  assumes "made m P s" and "\<And>t. R s t \<Longrightarrow> made c (\<lambda>_ _. True) t"
    and "\<And>a t u. P a t \<Longrightarrow> R t u \<Longrightarrow> Q a u"
  shows "made (ensuring m c) Q s"
proof -
  have "R s t \<Longrightarrow> R t (snd (c t))" for t using made_state[OF assms(2)] .
  with assms(1,3) show ?thesis
    by (auto simp: made_def wp_def ensuring_def intro: trans split: prod.splits sum.splits)
qed

lemma made_each: "(\<And>x t. x \<in> set xs \<Longrightarrow> R s t \<Longrightarrow> made (f x) (\<lambda>_ _. True) t) \<Longrightarrow> made (each f xs) (\<lambda>_ _. True) s"
proof (induction xs arbitrary: s)
  case (Cons x xs)
  show ?case unfolding each.simps
    by (rule made_bind[where P = "\<lambda>_ _. True"]) (auto intro!: Cons intro: trans refl)
qed (simp add: made_ret)

lemma made_each_all:
  assumes "\<And>x t. x \<in> set xs \<Longrightarrow> R s t \<Longrightarrow> made (f x) (\<lambda>_. P x) t" and "\<And>x t u. P x t \<Longrightarrow> R t u \<Longrightarrow> P x u"
  shows "made (each f xs) (\<lambda>_ u. \<forall>x\<in>set xs. P x u) s"
  using assms(1)
proof (induction xs arbitrary: s)
  case (Cons x xs s)
  have "made (f x) (\<lambda>_. P x) s" by (rule Cons.prems) (simp_all add: refl)
  moreover have "made (each f xs) (\<lambda>_ u. \<forall>y\<in>set (x # xs). P y u) t" if t: "R s t" "P x t" for t
    by (rule made_weaken[OF Cons.IH]) (use Cons.prems t in \<open>auto intro: trans assms(2)\<close>)
  ultimately show ?case unfolding each.simps by (rule made_bind)
qed (simp add: made_ret)

text \<open>One iteration of a loop that is a function of the state.\<close>

lemma made_unroll:
  assumes "m s = (case n s of (Inl e, t) \<Rightarrow> (Inl e, t) | (Inr a, t) \<Rightarrow> k a t)" and "made n P s"
    and "\<And>a t. n s = (Inr a, t) \<Longrightarrow> R s t \<Longrightarrow> P a t \<Longrightarrow> made (k a) Q t"
  shows "made m Q s"
  using assms by (auto simp: made_def wp_def intro: trans split: prod.splits sum.splits) 

lemma made_prod: "(\<And>x y. a = (x, y) \<Longrightarrow> made (f x y) Q s) \<Longrightarrow> made (case a of (x, y) \<Rightarrow> f x y) Q s"
  by (cases a) simp

lemma made_if: "(b \<Longrightarrow> made m Q s) \<Longrightarrow> (\<not> b \<Longrightarrow> made n Q s) \<Longrightarrow> made (if b then m else n) Q s"
  by simp

lemmas made_control = made_ret made_fail made_refuse

end

end
