(* ===== verification/GoStrings.thy ===== *)
theory GoStrings
  imports Prelude
begin

text \<open>
  The parts of Go's string library that the program uses, over byte strings (a Go string is
  a sequence of bytes, here a \<open>char list\<close>, one \<open>char\<close> per byte).

  \<^item> \<open>decode\<close> is the rune loop \<open>for _, r := range s\<close> with the decoding rules of
    \<open>unicode/utf8\<close>: an invalid byte yields U+FFFD and is consumed alone.
  \<^item> \<open>path_clean\<close> is \<open>path.Clean\<close>, \<open>split_on\<close> is \<open>strings.Split\<close> at a one-byte separator,
    \<open>fields\<close> is \<open>strings.Fields\<close> and \<open>to_upper\<close> is \<open>strings.ToUpper\<close>.
  \<^item> The Unicode upper-case table beyond ASCII is data of the Go runtime, not of this
    repository: it is the argument \<open>up\<close> of the functions that need it.
  \<^item> A regular expression of the source is a predicate built from character classes.
\<close>

section \<open>Bytes and runes\<close>

definition code :: "char \<Rightarrow> nat" where
  "code c = of_char c"

lemma code_lt: "code c < 256"
  by (simp add: code_def)

lemma code_inj [simp]: "code a = code b \<longleftrightarrow> a = b"
  by (simp add: code_def)

definition between :: "nat \<Rightarrow> nat \<Rightarrow> nat \<Rightarrow> bool" where
  "between lo hi n \<longleftrightarrow> lo \<le> n \<and> n \<le> hi"

definition multi_rune :: "nat \<Rightarrow> nat list \<Rightarrow> (nat \<times> nat) option" where
  "multi_rune b bs =
    (if between 0xC2 0xDF b then
       (case bs of b1 # _ \<Rightarrow>
          if between 0x80 0xBF b1 then Some ((b - 0xC0) * 64 + (b1 - 0x80), 1) else None
        | _ \<Rightarrow> None)
     else if between 0xE0 0xEF b then
       (case bs of b1 # b2 # _ \<Rightarrow>
          if between (if b = 0xE0 then 0xA0 else 0x80) (if b = 0xED then 0x9F else 0xBF) b1
             \<and> between 0x80 0xBF b2
          then Some ((b - 0xE0) * 4096 + (b1 - 0x80) * 64 + (b2 - 0x80), 2) else None
        | _ \<Rightarrow> None)
     else if between 0xF0 0xF4 b then
       (case bs of b1 # b2 # b3 # _ \<Rightarrow>
          if between (if b = 0xF0 then 0x90 else 0x80) (if b = 0xF4 then 0x8F else 0xBF) b1
             \<and> between 0x80 0xBF b2 \<and> between 0x80 0xBF b3
          then Some ((b - 0xF0) * 262144 + (b1 - 0x80) * 4096 + (b2 - 0x80) * 64 + (b3 - 0x80), 3)
          else None
        | _ \<Rightarrow> None)
     else None)"

text \<open>Each rune comes with the flag whether its bytes were valid, and with those bytes.\<close>

function decode :: "string \<Rightarrow> (bool \<times> nat \<times> string) list" where
  "decode [] = []"
| "decode (b # bs) =
    (if code b < 0x80 then (True, code b, [b]) # decode bs
     else (case multi_rune (code b) (map code bs) of
         Some (r, n) \<Rightarrow> (True, r, b # take n bs) # decode (drop n bs)
       | None \<Rightarrow> (False, 0xFFFD, [b]) # decode bs))"
  by pat_completeness auto
termination
  by (relation "measure length") auto

definition runes :: "string \<Rightarrow> nat list" where
  "runes s = map (\<lambda>(ok, r, bs). r) (decode s)"

definition valid_utf8 :: "string \<Rightarrow> bool" where
  "valid_utf8 s = list_all (\<lambda>(ok, r, bs). ok) (decode s)"

definition ascii :: "string \<Rightarrow> bool" where
  "ascii s = list_all (\<lambda>c. code c < 0x80) s"

lemma decode_ascii: "ascii s \<Longrightarrow> decode s = map (\<lambda>c. (True, code c, [c])) s"
  by (induction s) (auto simp: ascii_def)

lemma runes_ascii: "ascii s \<Longrightarrow> runes s = map code s"
  by (simp add: runes_def decode_ascii comp_def)

lemma decode_bytes: "concat (map (\<lambda>(ok, r, bs). bs) (decode s)) = s"
  by (induction s rule: decode.induct) (auto split: option.splits prod.splits)

text \<open>UTF-8 encoding of a rune (\<open>utf8.AppendRune\<close>).\<close>

definition rune_bytes :: "nat \<Rightarrow> nat list" where
  "rune_bytes r =
    (if r < 0x80 then [r]
     else if r < 0x800 then [0xC0 + r div 64, 0x80 + r mod 64]
     else if between 0xD800 0xDFFF r \<or> 0x10FFFF < r then [0xEF, 0xBF, 0xBD]
     else if r < 0x10000 then [0xE0 + r div 4096, 0x80 + r div 64 mod 64, 0x80 + r mod 64]
     else [0xF0 + r div 262144, 0x80 + r div 4096 mod 64, 0x80 + r div 64 mod 64, 0x80 + r mod 64])"

definition encode_runes :: "nat list \<Rightarrow> string" where
  "encode_runes rs = map char_of (concat (map rune_bytes rs))"

text \<open>\<open>len(utf16.Encode([]rune(s)))\<close>: a rune outside the basic plane takes two units.\<close>

definition utf16_len :: "string \<Rightarrow> nat" where
  "utf16_len s = sum_list (map (\<lambda>r. if 0x10000 \<le> r then 2 else 1) (runes s))"

lemma utf16_len_ascii: "ascii s \<Longrightarrow> utf16_len s = length s"
proof -
  assume a: "ascii s"
  then have "\<forall>c\<in>set s. code c < 0x80" by (simp add: ascii_def list_all_iff)
  then have "sum_list (map (\<lambda>r. if 0x10000 \<le> r then 2 else 1) (map code s)) = length s"
    by (induction s) auto
  with a show ?thesis by (simp add: utf16_len_def runes_ascii comp_def)
qed

section \<open>Case mapping and white space\<close>

definition upper_rune :: "(nat \<Rightarrow> nat) \<Rightarrow> nat \<Rightarrow> nat" where
  "upper_rune up r = (if r < 0x80 then (if between 97 122 r then r - 32 else r) else up r)"

definition to_upper :: "(nat \<Rightarrow> nat) \<Rightarrow> string \<Rightarrow> string" where
  "to_upper up s = encode_runes (map (upper_rune up) (runes s))"

definition is_space :: "nat \<Rightarrow> bool" where
  "is_space r \<longleftrightarrow> between 9 13 r \<or> r \<in> {32, 0x85, 0xA0, 0x1680, 0x2028, 0x2029, 0x202F, 0x205F, 0x3000}
     \<or> between 0x2000 0x200A r"

text \<open>\<open>strings.TrimSpace(s) == ""\<close>.\<close>

definition blank :: "string \<Rightarrow> bool" where
  "blank s = list_all is_space (runes s)"

lemma blank_Nil [simp]: "blank []"
  by (simp add: blank_def runes_def)

text \<open>\<open>strings.TrimSpace\<close>.\<close>

definition trim_space :: "string \<Rightarrow> string" where
  "trim_space s =
    (let drop_spaces = dropWhile (\<lambda>(ok, r, bs). is_space r) in
     concat (map (\<lambda>(ok, r, bs). bs) (rev (drop_spaces (rev (drop_spaces (decode s)))))))"

section \<open>Splitting and joining\<close>

fun split_on :: "'a \<Rightarrow> 'a list \<Rightarrow> 'a list list" where
  "split_on d [] = [[]]"
| "split_on d (x # xs) =
    (if x = d then [] # split_on d xs
     else (case split_on d xs of y # ys \<Rightarrow> (x # y) # ys | [] \<Rightarrow> [[x]]))"

fun join_with :: "'a \<Rightarrow> 'a list list \<Rightarrow> 'a list" where
  "join_with d [] = []"
| "join_with d [x] = x"
| "join_with d (x # y # zs) = x @ d # join_with d (y # zs)"

lemma split_on_not_Nil [simp]: "split_on d xs \<noteq> []"
  by (induction xs) (auto split: list.splits)

lemma join_split [simp]: "join_with d (split_on d xs) = xs"
proof (induction xs)
  case (Cons x xs)
  then show ?case
    by (cases "split_on d xs") (auto, metis append_Cons join_with.simps(2,3) list.exhaust)
qed simp

lemma split_no_sep: "ys \<in> set (split_on d xs) \<Longrightarrow> d \<notin> set ys"
proof (induction xs arbitrary: ys)
  case (Cons x xs)
  then show ?case by (cases "split_on d xs") (auto split: if_splits)
qed simp

lemma split_on_simple: "d \<notin> set xs \<Longrightarrow> split_on d xs = [xs]"
  by (induction xs) auto

lemma split_on_append: "d \<notin> set xs \<Longrightarrow> split_on d (xs @ d # ys) = xs # split_on d ys"
  by (induction xs) auto

lemma split_join:
  "zs \<noteq> [] \<Longrightarrow> (\<forall>z\<in>set zs. d \<notin> set z) \<Longrightarrow> split_on d (join_with d zs) = zs"
  by (induction d zs rule: join_with.induct) (auto simp: split_on_simple split_on_append)

lemma split_on_subset: "y \<in> set (split_on d xs) \<Longrightarrow> set y \<subseteq> set xs"
proof (induction xs arbitrary: y)
  case (Cons x xs)
  then show ?case by (cases "split_on d xs") (fastforce split: if_splits)+
qed simp

lemma split_on_append2: "split_on d (xs @ d # ys) = split_on d xs @ split_on d ys"
  by (induction xs) (auto split: list.splits)

lemma join_with_Cons: "zs \<noteq> [] \<Longrightarrow> join_with d (z # zs) = z @ d # join_with d zs"
  by (cases zs) auto

lemma join_with_append:
  "xs \<noteq> [] \<Longrightarrow> ys \<noteq> [] \<Longrightarrow> join_with d (xs @ ys) = join_with d xs @ d # join_with d ys"
  by (induction d xs rule: join_with.induct) (auto simp: join_with_Cons)

definition has_prefix :: "'a list \<Rightarrow> 'a list \<Rightarrow> bool" where
  "has_prefix s p \<longleftrightarrow> take (length p) s = p"

definition has_suffix :: "'a list \<Rightarrow> 'a list \<Rightarrow> bool" where
  "has_suffix s p \<longleftrightarrow> has_prefix (rev s) (rev p)"

lemma has_prefix_append [simp]: "has_prefix (p @ s) p"
  by (simp add: has_prefix_def)

lemma has_prefix_iff: "has_prefix s p \<longleftrightarrow> (\<exists>t. s = p @ t)"
  unfolding has_prefix_def by (metis append_eq_conv_conj append_take_drop_id)

text \<open>\<open>strings.Contains\<close>.\<close>

fun contains :: "'a list \<Rightarrow> 'a list \<Rightarrow> bool" where
  "contains [] p = (p = [])"
| "contains (x # xs) p = (has_prefix (x # xs) p \<or> contains xs p)"

lemma contains_iff: "contains s p \<longleftrightarrow> (\<exists>a b. s = a @ p @ b)"
proof (induction s)
  case (Cons x xs)
  have "(\<exists>a b. x # xs = a @ p @ b) \<longleftrightarrow> has_prefix (x # xs) p \<or> (\<exists>a b. xs = a @ p @ b)"
    by (metis append_Cons append_Nil has_prefix_iff list.exhaust list.inject)
  with Cons.IH show ?case by simp
qed simp

text \<open>\<open>strings.TrimRight\<close> with a cut set.\<close>

definition trim_right :: "'a list \<Rightarrow> 'a list \<Rightarrow> 'a list" where
  "trim_right s chars = rev (dropWhile (\<lambda>c. c \<in> set chars) (rev s))"

lemma trim_right_snoc:
  "trim_right (t @ [x]) chars = (if x \<in> set chars then trim_right t chars else t @ [x])"
  by (simp add: trim_right_def)

lemma trim_right_length: "length (trim_right s chars) \<le> length s"
  by (simp add: trim_right_def length_dropWhile_le[of _ "rev s", simplified])

lemma trim_right_id: "trim_right s chars = s \<longleftrightarrow> s = [] \<or> last s \<notin> set chars"
proof (cases s rule: rev_cases)
  case (snoc t x)
  have "trim_right t chars \<noteq> t @ [x]"
    using trim_right_length[of t chars] by (metis length_append_singleton not_less_eq_eq order_refl)
  with snoc show ?thesis by (simp add: trim_right_snoc)
qed (simp add: trim_right_def)

text \<open>\<open>strings.Fields\<close>: the maximal runs of runes that are not white space.\<close>

fun fields_of :: "string \<Rightarrow> (bool \<times> nat \<times> string) list \<Rightarrow> string list" where
  "fields_of word [] = (if word = [] then [] else [word])"
| "fields_of word ((ok, r, bs) # rest) =
    (if is_space r then (if word = [] then fields_of [] rest else word # fields_of [] rest)
     else fields_of (word @ bs) rest)"

definition fields :: "string \<Rightarrow> string list" where
  "fields s = fields_of [] (decode s)"

section \<open>path.Clean\<close>

definition clean_step :: "bool \<Rightarrow> string list \<Rightarrow> string \<Rightarrow> string list" where
  "clean_step rooted acc c =
    (if c = '''' \<or> c = ''.'' then acc
     else if c = ''..'' then
       (case acc of
          [] \<Rightarrow> if rooted then [] else [''..'']
        | x # xs \<Rightarrow> if x = ''..'' then ''..'' # acc else xs)
     else c # acc)"

definition path_clean :: "string \<Rightarrow> string" where
  "path_clean s =
    (if s = '''' then ''.''
     else
       (let rooted = (hd s = CHR ''/'');
            out = join_with CHR ''/'' (rev (foldl (clean_step rooted) [] (split_on CHR ''/'' s)))
        in if rooted then CHR ''/'' # out else if out = '''' then ''.'' else out))"

text \<open>\<open>path.Dir\<close>.\<close>

definition path_dir :: "string \<Rightarrow> string" where
  "path_dir s = path_clean (rev (dropWhile (\<lambda>c. c \<noteq> CHR ''/'') (rev s)))"

text \<open>\<open>filepath.Base\<close>.\<close>

definition path_base :: "string \<Rightarrow> string" where
  "path_base v =
    (let w = dropWhile (\<lambda>c. c = CHR ''/'') (rev v) in
     if v = '''' then ''.'' else if w = [] then ''/'' else rev (takeWhile (\<lambda>c. c \<noteq> CHR ''/'') w))"

section \<open>Character classes of the patterns\<close>

definition is_digit :: "char \<Rightarrow> bool" where "is_digit c = between 48 57 (code c)"
definition is_lower :: "char \<Rightarrow> bool" where "is_lower c = between 97 122 (code c)"
definition is_upper :: "char \<Rightarrow> bool" where "is_upper c = between 65 90 (code c)"
definition is_alnum :: "char \<Rightarrow> bool" where "is_alnum c \<longleftrightarrow> is_digit c \<or> is_lower c \<or> is_upper c"

definition hex_char :: "char \<Rightarrow> bool" where
  "hex_char c \<longleftrightarrow> is_digit c \<or> between 97 102 (code c)"

lemmas char_class_defs = is_digit_def is_lower_def is_upper_def is_alnum_def hex_char_def
  between_def code_def

text \<open>\<open>[class]{lo,hi}\<close>, anchored at both ends.\<close>

definition run_of :: "(char \<Rightarrow> bool) \<Rightarrow> nat \<Rightarrow> nat \<Rightarrow> string \<Rightarrow> bool" where
  "run_of p lo hi s \<longleftrightarrow> lo \<le> length s \<and> length s \<le> hi \<and> list_all p s"

text \<open>A literal prefix followed by a run.\<close>

definition tagged_run :: "string \<Rightarrow> (char \<Rightarrow> bool) \<Rightarrow> nat \<Rightarrow> nat \<Rightarrow> string \<Rightarrow> bool" where
  "tagged_run tag p lo hi s \<longleftrightarrow> has_prefix s tag \<and> run_of p lo hi (drop (length tag) s)"

text \<open>One character of the first class followed by a run of the second.\<close>

definition led_run :: "(char \<Rightarrow> bool) \<Rightarrow> (char \<Rightarrow> bool) \<Rightarrow> nat \<Rightarrow> string \<Rightarrow> bool" where
  "led_run p q hi s = (case s of [] \<Rightarrow> False | c # cs \<Rightarrow> p c \<and> run_of q 0 hi cs)"

text \<open>\<open>^[0-9a-f]{64}$\<close>.\<close>

definition hex64 :: "string \<Rightarrow> bool" where
  "hex64 s = run_of hex_char 64 64 s"

lemma char_of_nat_eq: "char_of (n :: nat) = c \<longleftrightarrow> n mod 256 = of_char c"
  by (simp add: char_of_eq_iff take_bit_eq_mod)

lemmas go_strings_evaluate [evaluate] =
  code_def between_def multi_rune_def runes_def valid_utf8_def rune_bytes_def encode_runes_def
  utf16_len_def trim_space_def upper_rune_def to_upper_def is_space_def blank_def has_prefix_def has_suffix_def
  trim_right_def fields_def clean_step_def path_clean_def is_digit_def is_lower_def is_upper_def
  is_alnum_def hex_char_def run_of_def tagged_run_def led_run_def hex64_def Let_def char_of_nat_eq

lemma tagged_run_not_Nil: "tagged_run tag p lo hi s \<Longrightarrow> tag \<noteq> [] \<Longrightarrow> s \<noteq> []"
  by (auto simp: tagged_run_def has_prefix_def)

end
