(* ===== verification/JsonTokens.thy ===== *)
theory JsonTokens
  imports GoStrings
begin

text \<open>
  The token-level scans that reject ambiguous JSON: \<open>strictjson.scan\<close>
  (\<open>internal/strictjson/decode.go\<close>), \<open>uniqueJSONFields\<close> (\<open>internal/uiaction/types.go\<close>) and
  \<open>scanMaintenanceJSON\<close> (\<open>internal/host/maintenance.go\<close>). A \<open>json.Decoder\<close> is the list of the
  tokens it still has to deliver; a decoder that meets malformed input or the end of the
  input delivers no more tokens, which the code sees as an error from \<open>Token\<close>.

  The recursion of the code has no structural argument here, so the scans carry fuel; the
  theorems show that the number of tokens is always enough fuel, and that on the tokens of a
  document the scans accept exactly the documents whose objects have distinct (and, for
  \<open>strictjson\<close>, canonical) keys at every depth.
\<close>

section \<open>Documents and their tokens\<close>

text \<open>A number literal is an integer or, with a fraction or an exponent, a \<open>JReal\<close>.\<close>

datatype json =
    JNull
  | JBool bool
  | JNum int
  | JReal string
  | JStr string
  | JArr "json list"
  | JObj "(string \<times> json) list"

datatype token = TOpenObj | TCloseObj | TOpenArr | TCloseArr | TStr string | TNum int | TReal string | TBool bool | TNull

fun tokens :: "json \<Rightarrow> token list" where
  "tokens JNull = [TNull]"
| "tokens (JBool b) = [TBool b]"
| "tokens (JNum n) = [TNum n]"
| "tokens (JReal n) = [TReal n]"
| "tokens (JStr s) = [TStr s]"
| "tokens (JArr vs) = TOpenArr # concat (map tokens vs) @ [TCloseArr]"
| "tokens (JObj kvs) = TOpenObj # concat (map (\<lambda>(k, v). TStr k # tokens v) kvs) @ [TCloseObj]"

text \<open>\<open>decoder.More()\<close>: there is a next token and it does not close the current value.\<close>

fun more :: "token list \<Rightarrow> bool" where
  "more [] = False"
| "more (TCloseObj # ts) = False"
| "more (TCloseArr # ts) = False"
| "more ts = True"

section \<open>The scans\<close>

definition token_err :: err where
  "token_err = Msg ''EOF''"

definition close_value :: "token list \<Rightarrow> err + token list" where
  "close_value ts = (case ts of [] \<Rightarrow> Inl token_err | t # rest \<Rightarrow> Inr rest)"

text \<open>
  \<open>strictjson.scan\<close> and \<open>uniqueJSONFields\<close> have the same body; they differ in the scalar they
  refuse (\<open>null\<close> or nothing) and in the keys they accept, which are the two parameters.
\<close>

fun scan_value :: "(token \<Rightarrow> bool) \<Rightarrow> (string \<Rightarrow> bool) \<Rightarrow> nat \<Rightarrow> token list \<Rightarrow> err + token list"
  and scan_object :: "(token \<Rightarrow> bool) \<Rightarrow> (string \<Rightarrow> bool) \<Rightarrow> nat \<Rightarrow> string set \<Rightarrow> token list \<Rightarrow> err + token list"
  and scan_array :: "(token \<Rightarrow> bool) \<Rightarrow> (string \<Rightarrow> bool) \<Rightarrow> nat \<Rightarrow> token list \<Rightarrow> err + token list"
  where
  "scan_value okt okk 0 ts = Inl (Msg ''out of fuel'')"
| "scan_value okt okk (Suc n) ts =
    (case ts of
       [] \<Rightarrow> Inl token_err
     | TOpenObj # rest \<Rightarrow> bind_res (scan_object okt okk n {} rest) close_value
     | TOpenArr # rest \<Rightarrow> bind_res (scan_array okt okk n rest) close_value
     | TCloseObj # rest \<Rightarrow> Inl (Msg ''invalid JSON delimiter'')
     | TCloseArr # rest \<Rightarrow> Inl (Msg ''invalid JSON delimiter'')
     | t # rest \<Rightarrow> if okt t then Inr rest else Inl (Msg ''null is not allowed''))"
| "scan_object okt okk 0 seen ts = Inl (Msg ''out of fuel'')"
| "scan_object okt okk (Suc n) seen ts =
    (if \<not> more ts then Inr ts
     else (case ts of
         TStr k # rest \<Rightarrow>
           if \<not> okk k \<or> k \<in> seen then Inl (Msg ''duplicate or invalid JSON key'')
           else bind_res (scan_value okt okk n rest) (scan_object okt okk n (insert k seen))
       | _ \<Rightarrow> Inl (Msg ''duplicate or invalid JSON key'')))"
| "scan_array okt okk 0 ts = Inl (Msg ''out of fuel'')"
| "scan_array okt okk (Suc n) ts =
    (if \<not> more ts then Inr ts
     else bind_res (scan_value okt okk n ts) (scan_array okt okk n))"

definition canonical_key :: "string \<Rightarrow> bool" where
  "canonical_key k \<longleftrightarrow> k \<noteq> '''' \<and> list_all (\<lambda>c. c = CHR ''_'' \<or> is_lower c \<or> is_digit c) k"

definition strict_scan :: "nat \<Rightarrow> token list \<Rightarrow> err + token list" where
  "strict_scan = scan_value (\<lambda>t. t \<noteq> TNull) canonical_key"

definition unique_json_fields :: "nat \<Rightarrow> token list \<Rightarrow> err + token list" where
  "unique_json_fields = scan_value (\<lambda>t. True) (\<lambda>k. True)"

text \<open>
  \<open>scanMaintenanceJSON\<close> runs one loop for both kinds of containers and reads a key only
  inside an object.
\<close>

fun scan_maintenance :: "nat \<Rightarrow> token list \<Rightarrow> err + token list"
  and scan_members :: "nat \<Rightarrow> bool \<Rightarrow> string set \<Rightarrow> token list \<Rightarrow> err + token list" where
  "scan_maintenance 0 ts = Inl (Msg ''out of fuel'')"
| "scan_maintenance (Suc n) ts =
    (case ts of
       [] \<Rightarrow> Inl token_err
     | t # rest \<Rightarrow>
         if t \<in> {TOpenObj, TOpenArr, TCloseObj, TCloseArr}
         then bind_res (scan_members n (t = TOpenObj) {} rest) close_value
         else Inr rest)"
| "scan_members 0 obj seen ts = Inl (Msg ''out of fuel'')"
| "scan_members (Suc n) obj seen ts =
    (if \<not> more ts then Inr ts
     else if obj then
       (case ts of
         TStr k # rest \<Rightarrow>
           if k \<in> seen then Inl (Msg ''duplicate JSON key'')
           else bind_res (scan_maintenance n rest) (scan_members n obj (insert k seen))
       | _ \<Rightarrow> Inl (Msg ''duplicate JSON key''))
     else bind_res (scan_maintenance n ts) (scan_members n obj seen))"

text \<open>
  \<open>strictjson.Decode\<close> up to the conversion into its result: a complete scan, after which the
  decoder must report the end of the input. A decoder that has no token left reports the end
  when the input was \<open>clean\<close> up to there, and else the malformed text that follows.
\<close>

definition admit_stream :: "token list \<Rightarrow> bool \<Rightarrow> err option" where
  "admit_stream ts clean =
    (case strict_scan (2 * length ts + 2) ts of
       Inl e \<Rightarrow> Some e
     | Inr rest \<Rightarrow> check (rest \<noteq> [] \<or> \<not> clean) ''trailing JSON value'')"

definition strict_admits :: "token list \<Rightarrow> err option" where
  "strict_admits ts = admit_stream ts True"

section \<open>What the scans accept\<close>

fun well_keyed :: "(token \<Rightarrow> bool) \<Rightarrow> (string \<Rightarrow> bool) \<Rightarrow> json \<Rightarrow> bool" where
  "well_keyed okt okk (JArr vs) = (\<forall>v\<in>set vs. well_keyed okt okk v)"
| "well_keyed okt okk (JObj kvs) =
    (distinct (map fst kvs) \<and> (\<forall>(k, v)\<in>set kvs. okk k \<and> well_keyed okt okk v))"
| "well_keyed okt okk v = okt (hd (tokens v))"

lemma tokens_not_Nil [simp]: "tokens v \<noteq> []"
  by (cases v) auto

lemma more_tokens [simp]: "more (tokens v @ ts)"
  by (cases v) auto

text \<open>One token of a document costs at most two units of fuel.\<close>

definition fuel_for :: "token list \<Rightarrow> nat" where
  "fuel_for ts = 2 * length ts"

definition scan_decides :: "(token \<Rightarrow> bool) \<Rightarrow> (string \<Rightarrow> bool) \<Rightarrow> json \<Rightarrow> bool" where
  "scan_decides okt okk v \<longleftrightarrow> (\<forall>n ts. fuel_for (tokens v) \<le> n \<longrightarrow>
     (if well_keyed okt okk v then scan_value okt okk n (tokens v @ ts) = Inr ts
      else (\<exists>e. scan_value okt okk n (tokens v @ ts) = Inl e)))"

lemma scan_decidesD:
  "scan_decides okt okk v \<Longrightarrow> fuel_for (tokens v) \<le> n \<Longrightarrow>
    if well_keyed okt okk v then scan_value okt okk n (tokens v @ ts) = Inr ts
    else (\<exists>e. scan_value okt okk n (tokens v @ ts) = Inl e)"
  unfolding scan_decides_def by blast

lemma tokens_length: "1 \<le> length (tokens v)"
  by (simp add: Suc_le_eq)

lemma scan_array_tokens:
  assumes "\<forall>v\<in>set vs. scan_decides okt okk v"
    and "fuel_for (concat (map tokens vs)) < n"
  shows "if \<forall>v\<in>set vs. well_keyed okt okk v
     then scan_array okt okk n (concat (map tokens vs) @ TCloseArr # ts) = Inr (TCloseArr # ts)
     else (\<exists>e. scan_array okt okk n (concat (map tokens vs) @ TCloseArr # ts) = Inl e)"
  using assms
proof (induction vs arbitrary: n)
  case Nil
  then show ?case by (cases n) auto
next
  case (Cons v vs)
  then obtain m where n: "n = Suc m" by (cases n) auto
  let ?rest = "concat (map tokens vs) @ TCloseArr # ts"
  from Cons.prems(2) n tokens_length[of v]
  have m: "fuel_for (tokens v) \<le> m" "fuel_for (concat (map tokens vs)) < m"
    by (auto simp: fuel_for_def)
  have v: "if well_keyed okt okk v then scan_value okt okk m (tokens v @ ?rest) = Inr ?rest
    else \<exists>e. scan_value okt okk m (tokens v @ ?rest) = Inl e"
    using Cons.prems(1) m(1) by (intro scan_decidesD) auto
  have rest: "if \<forall>v\<in>set vs. well_keyed okt okk v
     then scan_array okt okk m ?rest = Inr (TCloseArr # ts)
     else (\<exists>e. scan_array okt okk m ?rest = Inl e)"
    using Cons.prems(1) m(2) by (intro Cons.IH) auto
  show ?case using v rest by (auto simp: n split: if_splits)
qed

lemma scan_object_tokens:
  assumes "\<forall>kv\<in>set kvs. scan_decides okt okk (snd kv)"
    and "fuel_for (concat (map (\<lambda>(k, v). TStr k # tokens v) kvs)) < n"
  shows "if distinct (map fst kvs) \<and> set (map fst kvs) \<inter> seen = {}
        \<and> (\<forall>(k, v)\<in>set kvs. okk k \<and> well_keyed okt okk v)
     then scan_object okt okk n seen (concat (map (\<lambda>(k, v). TStr k # tokens v) kvs) @ TCloseObj # ts)
          = Inr (TCloseObj # ts)
     else (\<exists>e. scan_object okt okk n seen
            (concat (map (\<lambda>(k, v). TStr k # tokens v) kvs) @ TCloseObj # ts) = Inl e)"
  using assms
proof (induction kvs arbitrary: n seen)
  case Nil
  then show ?case by (cases n) auto
next
  case (Cons kv kvs)
  obtain k v where kv: "kv = (k, v)" by (cases kv)
  from Cons.prems obtain m where n: "n = Suc m" by (cases n) auto
  let ?rest = "concat (map (\<lambda>(k, v). TStr k # tokens v) kvs) @ TCloseObj # ts"
  from Cons.prems(2) n kv tokens_length[of v]
  have m: "fuel_for (tokens v) \<le> m"
      "fuel_for (concat (map (\<lambda>(k, v). TStr k # tokens v) kvs)) < m"
    by (auto simp: fuel_for_def)
  have v: "if well_keyed okt okk v then scan_value okt okk m (tokens v @ ?rest) = Inr ?rest
    else \<exists>e. scan_value okt okk m (tokens v @ ?rest) = Inl e"
    using Cons.prems(1) m(1) kv by (intro scan_decidesD) auto
  have rest: "if distinct (map fst kvs) \<and> set (map fst kvs) \<inter> insert k seen = {}
        \<and> (\<forall>(k, v)\<in>set kvs. okk k \<and> well_keyed okt okk v)
     then scan_object okt okk m (insert k seen) ?rest = Inr (TCloseObj # ts)
     else (\<exists>e. scan_object okt okk m (insert k seen) ?rest = Inl e)"
    using Cons.prems(1) m(2) by (intro Cons.IH) auto
  show ?case using v rest by (auto simp: n kv split: if_splits)
qed

lemma scan_decides_scalar:
  "tokens v = [t] \<Longrightarrow> t \<notin> {TOpenObj, TCloseObj, TOpenArr, TCloseArr} \<Longrightarrow> well_keyed okt okk v = okt t
    \<Longrightarrow> scan_decides okt okk v"
  unfolding scan_decides_def
proof (intro allI impI)
  fix n ts
  assume t: "tokens v = [t]" "t \<notin> {TOpenObj, TCloseObj, TOpenArr, TCloseArr}"
    "well_keyed okt okk v = okt t" "fuel_for (tokens v) \<le> n"
  then obtain m where "n = Suc m" by (cases n) (auto simp: fuel_for_def)
  with t show "if well_keyed okt okk v then scan_value okt okk n (tokens v @ ts) = Inr ts
     else \<exists>e. scan_value okt okk n (tokens v @ ts) = Inl e"
    by (cases t) auto
qed

theorem scan_decides_all: "scan_decides okt okk v"
proof (induction v)
  case (JArr vs)
  show ?case unfolding scan_decides_def
  proof (intro allI impI)
    fix n ts
    assume fuel: "fuel_for (tokens (JArr vs)) \<le> n"
    then obtain m where n: "n = Suc m" by (cases n) (auto simp: fuel_for_def)
    with fuel have m: "fuel_for (concat (map tokens vs)) < m" by (simp add: fuel_for_def)
    have "\<forall>v\<in>set vs. scan_decides okt okk v" using JArr by blast
    from scan_array_tokens[OF this m, of ts]
    show "if well_keyed okt okk (JArr vs) then scan_value okt okk n (tokens (JArr vs) @ ts) = Inr ts
       else \<exists>e. scan_value okt okk n (tokens (JArr vs) @ ts) = Inl e"
      by (auto simp: n close_value_def split: if_splits)
  qed
next
  case (JObj kvs)
  show ?case unfolding scan_decides_def
  proof (intro allI impI)
    fix n ts
    assume fuel: "fuel_for (tokens (JObj kvs)) \<le> n"
    then obtain m where n: "n = Suc m" by (cases n) (auto simp: fuel_for_def)
    with fuel have m: "fuel_for (concat (map (\<lambda>(k, v). TStr k # tokens v) kvs)) < m"
      by (simp add: fuel_for_def)
    have "\<forall>kv\<in>set kvs. scan_decides okt okk (snd kv)"
      using JObj by (metis prod.collapse snds.intros)
    from scan_object_tokens[OF this m, of "{}" ts]
    show "if well_keyed okt okk (JObj kvs) then scan_value okt okk n (tokens (JObj kvs) @ ts) = Inr ts
       else \<exists>e. scan_value okt okk n (tokens (JObj kvs) @ ts) = Inl e"
      by (auto simp: n close_value_def split: if_splits)
  qed
qed (rule scan_decides_scalar; auto)+

lemma strict_scan_tokens:
  "if well_keyed (\<lambda>t. t \<noteq> TNull) canonical_key v then strict_scan (2 * length (tokens v @ ts) + 2) (tokens v @ ts) = Inr ts
    else (\<exists>e. strict_scan (2 * length (tokens v @ ts) + 2) (tokens v @ ts) = Inl e)"
  unfolding strict_scan_def by (rule scan_decidesD[OF scan_decides_all]) (simp add: fuel_for_def)

lemma strict_admits_keyed: "well_keyed (\<lambda>t. t \<noteq> TNull) canonical_key v \<Longrightarrow> strict_admits (tokens v) = None"
  using strict_scan_tokens[of v "[]"] by (simp add: strict_admits_def admit_stream_def)

lemma unique_json_fields_iff:
  "fuel_for (tokens v) \<le> n \<Longrightarrow>
    (\<exists>rest. unique_json_fields n (tokens v @ ts) = Inr rest) \<longleftrightarrow> well_keyed (\<lambda>t. True) (\<lambda>k. True) v"
  using scan_decidesD[OF scan_decides_all[of "\<lambda>t. True" "\<lambda>k. True" v], of n ts]
  by (auto simp: unique_json_fields_def split: if_splits)

end
