(* ===== verification/JsonStream.thy ===== *)
theory JsonStream
  imports JsonTokens "HOL-Library.Sublist"
begin

text \<open>
  What \<open>strictjson.Decode\<close> (\<open>internal/strictjson/decode.go\<close>) admits of the streams of tokens that a
  \<open>json.Decoder\<close> can deliver for any input: complete documents, cut ones, and several in a row.
\<close>

section \<open>What a decoder can deliver\<close>

text \<open>
  The documentation of \<open>Decoder.Token\<close> guarantees that delimiters are nested and matched: the
  tokens it delivers are those of a sequence of documents, up to where the input ends or is
  malformed. A scan that reaches the end of such a stream inside a document fails.
\<close>

definition decoder_stream :: "token list \<Rightarrow> bool" where
  "decoder_stream ts \<longleftrightarrow> (\<exists>vs. prefix ts (concat (map tokens vs)))"

definition scan_fails_cut :: "(token \<Rightarrow> bool) \<Rightarrow> (string \<Rightarrow> bool) \<Rightarrow> json \<Rightarrow> bool" where
  "scan_fails_cut okt okk v \<longleftrightarrow>
     (\<forall>n ts. strict_prefix ts (tokens v) \<longrightarrow> fuel_for ts \<le> n \<longrightarrow> (\<exists>e. scan_value okt okk n ts = Inl e))"

lemma scan_fails_cutD:
  "scan_fails_cut okt okk v \<Longrightarrow> strict_prefix ts (tokens v) \<Longrightarrow> fuel_for ts \<le> n \<Longrightarrow> \<exists>e. scan_value okt okk n ts = Inl e"
  unfolding scan_fails_cut_def by blast

lemma more_prefix: "us \<noteq> [] \<Longrightarrow> prefix us (tokens v @ ts) \<Longrightarrow> more us"
  by (cases us; cases v) auto

text \<open>A cut sequence of documents is cut inside its first document or after it.\<close>

lemma prefix_tokensE:
  assumes "prefix us (tokens v @ ts)"
  obtains "strict_prefix us (tokens v)" | us' where "us = tokens v @ us'" "prefix us' ts"
proof (cases "strict_prefix us (tokens v)")
  case False
  from assms consider "prefix us (tokens v)" | us' where "us = tokens v @ us'" "prefix us' ts"
    unfolding prefix_append by blast
  then show ?thesis
  proof cases
    case 1
    with False have "us = tokens v @ []" by (simp add: strict_prefix_def)
    then show ?thesis by (rule that(2)) simp
  qed (rule that(2))
qed (rule that(1))

lemma cut_value:
  assumes "scan_fails_cut okt okk v" and "prefix us (tokens v @ ts)" and "fuel_for us \<le> n"
  obtains e where "scan_value okt okk n us = Inl e"
    | us' where "us = tokens v @ us'" "prefix us' ts" "scan_value okt okk n us = Inr us'"
  using assms(2)
proof (cases rule: prefix_tokensE)
  case 1
  with assms that show thesis by (meson scan_fails_cutD)
next
  case (2 us')
  with assms(3) scan_decidesD[OF scan_decides_all[of okt okk v], of n us'] that show thesis
    by (auto simp: fuel_for_def split: if_splits)
qed

lemma scan_array_cut:
  assumes "\<forall>v\<in>set vs. scan_fails_cut okt okk v"
    and "prefix us (concat (map tokens vs))" and "fuel_for us < n"
  shows "(\<exists>e. scan_array okt okk n us = Inl e) \<or> scan_array okt okk n us = Inr []"
  using assms
proof (induction vs arbitrary: n us)
  case Nil
  then show ?case by (cases n) auto
next
  case (Cons v vs)
  from Cons.prems(3) obtain m where n: "n = Suc m" by (cases n) auto
  show ?case
  proof (cases "us = []")
    case False
    have cut: "scan_fails_cut okt okk v" "prefix us (tokens v @ concat (map tokens vs))" "fuel_for us \<le> m"
      using Cons.prems n by auto
    note more = more_prefix[OF False cut(2)]
    from cut show ?thesis
    proof (cases rule: cut_value)
      case (2 us')
      moreover have "fuel_for us' < m" using 2(1) cut(3) tokens_length[of v] by (auto simp: fuel_for_def)
      ultimately show ?thesis using Cons.IH[of us' m] Cons.prems(1) more by (auto simp: n)
    qed (simp add: n more)
  qed (simp add: n)
qed

lemma scan_object_cut:
  assumes "\<forall>kv\<in>set kvs. scan_fails_cut okt okk (snd kv)"
    and "prefix us (concat (map (\<lambda>(k, v). TStr k # tokens v) kvs))" and "fuel_for us < n"
  shows "(\<exists>e. scan_object okt okk n seen us = Inl e) \<or> scan_object okt okk n seen us = Inr []"
  using assms
proof (induction kvs arbitrary: n us seen)
  case Nil
  then show ?case by (cases n) auto
next
  case (Cons kv kvs)
  obtain k v where kv: "kv = (k, v)" by (cases kv)
  from Cons.prems(3) obtain m where n: "n = Suc m" by (cases n) auto
  show ?case
  proof (cases us)
    case Nil
    then show ?thesis by (simp add: n)
  next
    case (Cons t ws)
    with \<open>prefix us _\<close> have t: "t = TStr k" and ws: "prefix ws (tokens v @ concat (map (\<lambda>(k, v). TStr k # tokens v) kvs))"
      by (auto simp: kv)
    have cut: "scan_fails_cut okt okk v" "fuel_for ws \<le> m"
      using Cons.prems(1,3) n kv Cons by (auto simp: fuel_for_def)
    from cut(1) ws cut(2) show ?thesis
    proof (cases rule: cut_value)
      case (2 us')
      moreover have "fuel_for us' < m" using 2(1) cut(2) tokens_length[of v] by (auto simp: fuel_for_def)
      ultimately show ?thesis using Cons.IH[of us' m "insert k seen"] Cons.prems(1) by (auto simp: n Cons t)
    qed (auto simp: n Cons t)
  qed
qed

theorem scan_fails_cut_all: "scan_fails_cut okt okk v"
proof (induction v)
  case (JArr vs)
  show ?case unfolding scan_fails_cut_def
  proof (intro allI impI)
    fix n ts
    assume cut: "strict_prefix ts (tokens (JArr vs))" and fuel: "fuel_for ts \<le> n"
    have IH: "\<forall>v\<in>set vs. scan_fails_cut okt okk v" using JArr by blast
    show "\<exists>e. scan_value okt okk n ts = Inl e"
    proof (cases ts)
      case (Cons t us)
      with fuel obtain m where n: "n = Suc m" by (cases n) (auto simp: fuel_for_def)
      from cut Cons have "t = TOpenArr" "prefix us (concat (map tokens vs))" by (auto simp: strict_prefix_def)
      with scan_array_cut[OF IH this(2), of m] fuel Cons n show ?thesis
        by (auto simp: fuel_for_def close_value_def)
    qed (cases n; simp)
  qed
next
  case (JObj kvs)
  show ?case unfolding scan_fails_cut_def
  proof (intro allI impI)
    fix n ts
    assume cut: "strict_prefix ts (tokens (JObj kvs))" and fuel: "fuel_for ts \<le> n"
    have IH: "\<forall>kv\<in>set kvs. scan_fails_cut okt okk (snd kv)" using JObj by (metis prod.collapse snds.intros)
    show "\<exists>e. scan_value okt okk n ts = Inl e"
    proof (cases ts)
      case (Cons t us)
      with fuel obtain m where n: "n = Suc m" by (cases n) (auto simp: fuel_for_def)
      from cut Cons have "t = TOpenObj" "prefix us (concat (map (\<lambda>(k, v). TStr k # tokens v) kvs))"
        by (auto simp: strict_prefix_def)
      with scan_object_cut[OF IH this(2), of m "{}"] fuel Cons n show ?thesis
        by (auto simp: fuel_for_def close_value_def)
    qed (cases n; simp)
  qed
qed (auto simp: scan_fails_cut_def strict_prefix_def prefix_Cons intro: exI[of _ token_err], (case_tac n; simp)+)

text \<open>C40: whatever tokens a decoder delivers, \<open>strictjson.Decode\<close> admits its input exactly when they
  are those of one document, complete and with nothing but the end of the input after it, in
  which no object at any depth repeats a key, every key is a nonempty word of lower-case
  letters, digits and underscores, and \<open>null\<close> occurs nowhere. A document that is cut short, a
  second value and malformed text after the first are all refused.\<close>

theorem strict_admits_iff:
  assumes "decoder_stream ts"
  shows "admit_stream ts clean = None \<longleftrightarrow>
    clean \<and> (\<exists>v. ts = tokens v \<and> well_keyed (\<lambda>t. t \<noteq> TNull) canonical_key v)"
proof
  assume admitted: "admit_stream ts clean = None"
  then have clean: "clean" and scan: "strict_scan (2 * length ts + 2) ts = Inr []"
    by (auto simp: admit_stream_def split: sum.splits)
  from assms obtain vs where vs: "prefix ts (concat (map tokens vs))" by (auto simp: decoder_stream_def)
  have "ts \<noteq> []" using scan by (auto simp: strict_scan_def)
  with vs obtain v ws where v: "prefix ts (tokens v @ concat (map tokens ws))" by (cases vs) auto
  from v show "clean \<and> (\<exists>v. ts = tokens v \<and> well_keyed (\<lambda>t. t \<noteq> TNull) canonical_key v)"
  proof (cases rule: prefix_tokensE)
    case 1
    from scan_fails_cutD[OF scan_fails_cut_all this, of "2 * length ts + 2"]
    obtain e where "strict_scan (2 * length ts + 2) ts = Inl e" unfolding strict_scan_def fuel_for_def by fastforce
    with scan show ?thesis by simp
  next
    case (2 us')
    with strict_scan_tokens[of v us'] scan clean show ?thesis by (auto split: if_splits)
  qed
next
  assume "clean \<and> (\<exists>v. ts = tokens v \<and> well_keyed (\<lambda>t. t \<noteq> TNull) canonical_key v)"
  with strict_admits_keyed show "admit_stream ts clean = None" by (auto simp: strict_admits_def)
qed

theorem strict_admits_iff_witness:
  "admit_stream (tokens (JObj [(''a'', JNum 1)])) True = None
   \<and> admit_stream (tokens (JNum 1) @ tokens (JNum 2)) True \<noteq> None
   \<and> admit_stream (tokens (JNum 1)) False \<noteq> None \<and> admit_stream [TOpenArr, TNum 1] True \<noteq> None"
proof -
  have streams: "decoder_stream (tokens (JObj [(''a'', JNum 1)]))" "decoder_stream (tokens (JNum 1) @ tokens (JNum 2))"
    "decoder_stream (tokens (JNum 1))" "decoder_stream [TOpenArr, TNum 1]"
    unfolding decoder_stream_def
    by (rule exI[of _ "[JObj [(''a'', JNum 1)]]"], simp, rule exI[of _ "[JNum 1, JNum 2]"], simp,
        rule exI[of _ "[JNum 1]"], simp, rule exI[of _ "[JArr [JNum 1]]"], simp)
  have no: "[TNum 1, TNum 2] \<noteq> tokens v" "[TOpenArr, TNum 1] \<noteq> tokens v" for v by (cases v; auto)+
  have "well_keyed (\<lambda>t. t \<noteq> TNull) canonical_key (JObj [(''a'', JNum 1)])" by (simp add: canonical_key_def evaluate)
  then have "\<exists>v. tokens (JObj [(''a'', JNum 1)]) = tokens v \<and> well_keyed (\<lambda>t. t \<noteq> TNull) canonical_key v" by blast
  then show ?thesis
    unfolding strict_admits_iff[OF streams(1)] strict_admits_iff[OF streams(2)] strict_admits_iff[OF streams(3)]
      strict_admits_iff[OF streams(4)]
    using no by (simp del: tokens.simps(7))
qed

end
