(* ===== verification/SafePath.thy ===== *)
theory SafePath
  imports GoStrings
begin

text \<open>
  \<open>internal/safepath\<close>: the portable relative-path grammar every path that crosses the host
  boundary must satisfy, and the case-insensitive key used to detect colliding file names.
  The lemmas show that an accepted path has no empty, dot or dot-dot component, is relative,
  and stays within the length limits, so joining it to a root stays below that root.
\<close>

definition windows_key :: "(nat \<Rightarrow> nat) \<Rightarrow> string \<Rightarrow> string" where
  "windows_key up v = to_upper up v"

definition windows_reserved_name :: "(nat \<Rightarrow> nat) \<Rightarrow> string \<Rightarrow> bool" where
  "windows_reserved_name up component =
    (let base = to_upper up (hd (split_on CHR ''.'' component));
         rs = runes base
     in base \<in> {''CON'', ''PRN'', ''AUX'', ''NUL'', ''CLOCK$'', ''CONIN$'', ''CONOUT$''}
        \<or> length rs = 4
          \<and> (encode_runes (take 3 rs) = ''COM'' \<or> encode_runes (take 3 rs) = ''LPT'')
          \<and> (between 49 57 (rs ! 3) \<or> rs ! 3 \<in> {0xB9, 0xB2, 0xB3}))"

definition bad_component :: "(nat \<Rightarrow> nat) \<Rightarrow> string \<Rightarrow> bool" where
  "bad_component up c \<longleftrightarrow>
     trim_right c ''. '' \<noteq> c \<or> windows_reserved_name up c \<or> 255 < utf16_len c
     \<or> \<not> list_all (\<lambda>r. 32 \<le> r) (runes c)"

definition validate_windows_relative :: "(nat \<Rightarrow> nat) \<Rightarrow> string \<Rightarrow> err option" where
  "validate_windows_relative up v =
    (let clean = path_clean v in
     first_err
      [check (v = '''' \<or> contains v [CHR 0x5C] \<or> has_prefix v ''/''
              \<or> \<not> list_all (\<lambda>c. c \<notin> set ''<>:\"|?*'') v) ''path is unsafe'',
       check (clean \<noteq> v \<or> clean = ''.'' \<or> clean = ''..'' \<or> has_prefix clean ''../'') ''path is unsafe'',
       check (240 < utf16_len v) ''path is unsafe'',
       check (\<not> list_all (\<lambda>c. \<not> bad_component up c) (split_on CHR ''/'' v)) ''path is unsafe''])"

lemmas safe_path_evaluate [evaluate] =
  windows_key_def windows_reserved_name_def bad_component_def validate_windows_relative_def

text \<open>What acceptance means, component by component.\<close>

definition safe_components :: "string list \<Rightarrow> bool" where
  "safe_components cs \<longleftrightarrow> cs \<noteq> [] \<and> (\<forall>c\<in>set cs. c \<noteq> '''' \<and> c \<noteq> ''.'' \<and> c \<noteq> ''..'')"

lemma clean_step_safe:
  "\<forall>c\<in>set cs. c \<noteq> '''' \<and> c \<noteq> ''.'' \<and> c \<noteq> ''..'' \<Longrightarrow> foldl (clean_step r) acc cs = rev cs @ acc"
  by (induction cs arbitrary: acc) (auto simp: clean_step_def)

text \<open>The accumulator of \<open>path.Clean\<close> never holds an empty or dot component, and
  dot-dot components only at its bottom.\<close>

definition clean_acc :: "string list \<Rightarrow> bool" where
  "clean_acc acc \<longleftrightarrow> (\<exists>xs n. acc = xs @ replicate n ''..'' \<and>
     (\<forall>c\<in>set xs. c \<noteq> '''' \<and> c \<noteq> ''.'' \<and> c \<noteq> ''..''))"

lemma clean_accI:
  "acc = xs @ replicate n ''..'' \<Longrightarrow> \<forall>c\<in>set xs. c \<noteq> '''' \<and> c \<noteq> ''.'' \<and> c \<noteq> ''..'' \<Longrightarrow> clean_acc acc"
  unfolding clean_acc_def by blast

lemma clean_acc_step:
  assumes "clean_acc acc"
  shows "clean_acc (clean_step False acc c)"
proof -
  from assms obtain xs n where acc: "acc = xs @ replicate n ''..''"
    and xs: "\<forall>c\<in>set xs. c \<noteq> '''' \<and> c \<noteq> ''.'' \<and> c \<noteq> ''..''"
    by (auto simp: clean_acc_def)
  consider (skip) "c = '''' \<or> c = ''.''" | (up) "c = ''..''"
    | (push) "c \<noteq> ''''" "c \<noteq> ''.''" "c \<noteq> ''..''" by blast
  then show ?thesis
  proof cases
    case skip
    with assms show ?thesis by (auto simp: clean_step_def)
  next
    case up
    show ?thesis
    proof (cases xs)
      case Nil
      have "clean_step False acc c = [] @ replicate (Suc n) ''..''"
        using up Nil acc by (cases n) (simp_all add: clean_step_def)
      then show ?thesis by (rule clean_accI) simp
    next
      case (Cons x ys)
      with up acc xs have "clean_step False acc c = ys @ replicate n ''..''"
        by (simp add: clean_step_def)
      then show ?thesis by (rule clean_accI) (use Cons xs in simp)
    qed
  next
    case push
    then have "clean_step False acc c = (c # xs) @ replicate n ''..''"
      by (simp add: clean_step_def acc)
    then show ?thesis by (rule clean_accI) (use push xs in simp)
  qed
qed

lemma clean_acc_foldl: "clean_acc acc \<Longrightarrow> clean_acc (foldl (clean_step False) acc cs)"
  by (induction cs arbitrary: acc) (auto intro: clean_acc_step)

lemma foldl_clean_subset:
  "set (foldl (clean_step r) acc cs) \<subseteq> set acc \<union> set cs"
proof (induction cs arbitrary: acc)
  case (Cons c cs)
  have "set (clean_step r acc c) \<subseteq> insert c (set acc)"
    by (auto simp: clean_step_def split: list.splits)
  with Cons show ?case by fastforce
qed simp

lemma clean_acc_proper:
  assumes "clean_acc acc" and v: "join_with CHR ''/'' (rev acc) = v"
    and "v \<noteq> ''..''" and "\<not> has_prefix v ''../''"
  shows "\<forall>c\<in>set acc. c \<noteq> '''' \<and> c \<noteq> ''.'' \<and> c \<noteq> ''..''"
proof -
  from assms(1) obtain xs n where acc: "acc = xs @ replicate n ''..''"
    and xs: "\<forall>c\<in>set xs. c \<noteq> '''' \<and> c \<noteq> ''.'' \<and> c \<noteq> ''..''"
    by (auto simp: clean_acc_def)
  have "n = 0"
  proof (rule ccontr)
    assume "n \<noteq> 0"
    then obtain m where "rev acc = ''..'' # (replicate m ''..'' @ rev xs)"
      by (cases n) (auto simp: acc replicate_append_same)
    with v have "v = ''..'' \<or> (\<exists>t. v = ''..'' @ CHR ''/'' # t)"
      by (cases "replicate m ''..'' @ rev xs") auto
    with assms(3,4) show False by (auto simp: has_prefix_def)
  qed
  with acc xs show ?thesis by simp
qed

lemma clean_fixed_relative:
  assumes "path_clean v = v" "v \<noteq> ''''" "v \<noteq> ''.''" "v \<noteq> ''..''"
    and "\<not> has_prefix v ''../''" "\<not> has_prefix v ''/''"
  shows "safe_components (split_on CHR ''/'' v)"
proof -
  define acc where "acc = foldl (clean_step False) [] (split_on CHR ''/'' v)"
  from assms(2,6) have "hd v \<noteq> CHR ''/''" by (cases v) (auto simp: has_prefix_def)
  with assms(1-3) have v: "join_with CHR ''/'' (rev acc) = v"
    unfolding path_clean_def Let_def by (simp add: acc_def split: if_splits)
  with assms(2) have ne: "rev acc \<noteq> []" by auto
  have "set acc \<subseteq> set (split_on CHR ''/'' v)"
    unfolding acc_def using foldl_clean_subset[of False "[]"] by simp
  then have "\<forall>z\<in>set (rev acc). CHR ''/'' \<notin> set z" by (auto dest: split_no_sep)
  from split_join[OF ne this] v have eq: "split_on CHR ''/'' v = rev acc" by simp
  have "clean_acc acc" unfolding acc_def by (rule clean_acc_foldl) (simp add: clean_acc_def)
  from clean_acc_proper[OF this v assms(4,5)] ne show ?thesis
    by (simp add: eq safe_components_def)
qed

lemma safe_components_clean:
  assumes "safe_components (split_on CHR ''/'' v)"
  shows "path_clean v = v" "v \<noteq> ''''" "v \<noteq> ''.''" "v \<noteq> ''..''"
    "\<not> has_prefix v ''../''" "\<not> has_prefix v ''/''"
proof -
  show nz: "v \<noteq> ''''" "v \<noteq> ''.''" "v \<noteq> ''..''"
    using assms unfolding safe_components_def by fastforce+
  show "\<not> has_prefix v ''../''"
  proof
    assume "has_prefix v ''../''"
    then obtain t where "v = ''..'' @ CHR ''/'' # t" by (auto simp: has_prefix_iff)
    then have "split_on CHR ''/'' v = ''..'' # split_on CHR ''/'' t"
      using split_on_append[of "CHR ''/''" "''..''" t] by simp
    with assms show False by (simp add: safe_components_def)
  qed
  show np: "\<not> has_prefix v ''/''"
  proof
    assume "has_prefix v ''/''"
    then obtain t where "v = CHR ''/'' # t" by (auto simp: has_prefix_iff)
    with assms show False by (simp add: safe_components_def)
  qed
  then have "hd v \<noteq> CHR ''/''" using nz by (cases v) (auto simp: has_prefix_def)
  moreover have "foldl (clean_step False) [] (split_on CHR ''/'' v) = rev (split_on CHR ''/'' v)"
    using assms clean_step_safe[of _ False "[]"] by (simp add: safe_components_def)
  ultimately show "path_clean v = v" using nz by (simp add: path_clean_def)
qed

lemmas safe_path_simps = validate_windows_relative_def Let_def list_all_iff

lemma accepted_components: "validate_windows_relative up v = None \<Longrightarrow> safe_components (split_on CHR ''/'' v)"
  using clean_fixed_relative[of v] by (auto simp: safe_path_simps contains_iff)

text \<open>C39: a path is accepted exactly when its slash-separated components are all proper names
  (none empty, dot or dot-dot), it uses no backslash or Windows meta character, it is at most
  240 UTF-16 units long and no component is a reserved or malformed Windows name.\<close>

theorem relative_path_accepted_iff:
  "validate_windows_relative up v = None \<longleftrightarrow>
    safe_components (split_on CHR ''/'' v)
    \<and> set v \<inter> set (CHR 0x5C # ''<>:\"|?*'') = {}
    \<and> utf16_len v \<le> 240
    \<and> list_all (\<lambda>c. \<not> bad_component up c) (split_on CHR ''/'' v)" (is "?L \<longleftrightarrow> ?R")
proof
  have bs: "contains v [CHR 0x5C] \<longleftrightarrow> CHR 0x5C \<in> set v"
    by (auto simp: contains_iff in_set_conv_decomp)
  show "?L \<Longrightarrow> ?R"
    using accepted_components[of up v] by (auto simp: safe_path_simps bs)
  assume R: ?R
  then have "safe_components (split_on CHR ''/'' v)" by blast
  note this safe_components_clean[OF this]
  with R show ?L by (auto simp: safe_path_simps bs)
qed

text \<open>\<open>filepath.Join\<close> with proper components below a rooted path.\<close>

lemma clean_below:
  assumes safe: "safe_components (split_on CHR ''/'' v)"
    and abs: "hd root = CHR ''/''" "root \<noteq> ''''" and below: "path_clean root \<noteq> ''/''"
  shows "path_clean (root @ CHR ''/'' # v) = path_clean root @ CHR ''/'' # v"
proof -
  let ?step = "clean_step True" and ?acc = "foldl (clean_step True) [] (split_on CHR ''/'' root)"
  from safe have "foldl ?step ?acc (split_on CHR ''/'' v) = rev (split_on CHR ''/'' v) @ ?acc"
    by (simp add: clean_step_safe safe_components_def)
  moreover from below abs have "?acc \<noteq> []"
    by (auto simp: path_clean_def)
  ultimately show ?thesis using abs
    by (simp add: path_clean_def split_on_append2 join_with_append)
qed

text \<open>\<open>filepath.Join(root, v)\<close> of an absolute root and an accepted path is the cleaned root
  followed by the path itself: the destination never leaves the root.\<close>

theorem join_stays_below_root:
  assumes ok: "validate_windows_relative up v = None"
    and abs: "hd root = CHR ''/''" "root \<noteq> ''''" and below: "path_clean root \<noteq> ''/''"
  shows "path_clean (root @ CHR ''/'' # v) = path_clean root @ CHR ''/'' # v"
  by (rule clean_below[OF accepted_components[OF ok] abs below])

theorem join_stays_below_root_witness:
  "path_clean (''/srv/./bbx'' @ CHR ''/'' # ''runs/out.json'') = ''/srv/bbx/runs/out.json''"
proof -
  have "validate_windows_relative id ''runs/out.json'' = None" by (simp add: evaluate)
  moreover have "path_clean ''/srv/./bbx'' = ''/srv/bbx''" by (simp add: evaluate)
  ultimately show ?thesis using join_stays_below_root[of id "''runs/out.json''" "''/srv/./bbx''"] by simp
qed

end
