(* ===== verification/Capture.thy ===== *)
theory Capture
  imports SafePath
begin

text \<open>
  \<open>internal/capture/catalog.go\<close>: the fixed catalog of capture kinds with the evidence path, the
  media type and the host capability of each. A kind is a Go string type, so it is a string
  here and unknown kinds exist.
\<close>

definition Viewport :: string where "Viewport = ''viewport''"
definition BlenderWindow :: string where "BlenderWindow = ''blender-window''"
definition Desktop :: string where "Desktop = ''desktop''"

record capture_definition =
  cd_kind :: string
  cd_evidence_path :: string
  cd_source_path :: string
  cd_media_type :: string
  cd_capability :: string
  cd_privacy_sensitive :: bool

definition capture_definitions :: "capture_definition list" where
  "capture_definitions =
    [\<lparr>cd_kind = Viewport, cd_evidence_path = ''screenshots/viewport.png'',
      cd_source_path = ''evidence/screenshots/viewport.png'', cd_media_type = ''image/png'',
      cd_capability = ''capture-viewport-v1'', cd_privacy_sensitive = False\<rparr>,
     \<lparr>cd_kind = BlenderWindow, cd_evidence_path = ''screenshots/blender-window.png'',
      cd_source_path = ''evidence/screenshots/blender-window.png'', cd_media_type = ''image/png'',
      cd_capability = ''capture-blender-window-v1'', cd_privacy_sensitive = False\<rparr>,
     \<lparr>cd_kind = Desktop, cd_evidence_path = ''screenshots/desktop.png'',
      cd_source_path = ''evidence/screenshots/desktop.png'', cd_media_type = ''image/png'',
      cd_capability = ''capture-desktop-v1'', cd_privacy_sensitive = True\<rparr>]"

text \<open>\<open>Describe\<close>: the first definition of the kind, if there is one.\<close>

definition describe :: "string \<Rightarrow> capture_definition option" where
  "describe kind = find (\<lambda>d. cd_kind d = kind) capture_definitions"

definition method_allowed :: "string \<Rightarrow> string \<Rightarrow> bool" where
  "method_allowed kind m =
    (if kind = Viewport then m = ''offscreen'' \<or> m = ''window_grab''
     else if kind = BlenderWindow then m = ''bpy.ops.screen.screenshot''
     else if kind = Desktop then m = ''windows-copy-from-screen''
     else False)"

lemmas capture_kind_defs [evaluate] = Viewport_def BlenderWindow_def Desktop_def
lemmas capture_evaluate [evaluate] = capture_definitions_def describe_def method_allowed_def

lemma kinds_distinct [simp]:
  "Viewport \<noteq> BlenderWindow" "BlenderWindow \<noteq> Viewport" "Viewport \<noteq> Desktop"
  "Desktop \<noteq> Viewport" "BlenderWindow \<noteq> Desktop" "Desktop \<noteq> BlenderWindow"
  by (simp_all add: capture_kind_defs)

lemma describe_known: "describe kind \<noteq> None \<longleftrightarrow> kind \<in> {Viewport, BlenderWindow, Desktop}"
  by (auto simp: describe_def capture_definitions_def)

lemma describe_kind: "describe kind = Some d \<Longrightarrow> cd_kind d = kind"
  by (auto simp: describe_def find_Some_iff)

lemma describe_source_path: "describe kind = Some d \<Longrightarrow> cd_source_path d = ''evidence/'' @ cd_evidence_path d"
  by (auto simp: describe_def capture_definitions_def split: if_splits)

end
