(* ===== verification/JsonDecode.thy ===== *)
theory JsonDecode
  imports JsonTokens "HOL-Library.Word"
begin

text \<open>
  How \<open>json.Unmarshal\<close> and \<open>json.Decoder.Decode\<close> read a struct from a parsed value, and the
  decoding that \<open>strictjson.Decode\<close> adds the admission scan to. The parser from texts to
  values is an argument \<open>parse\<close>.
\<close>

text \<open>
  \<open>encoding/json\<close> on a struct: each member of the object goes to the field whose name it equals
  up to case folding, the last one wins, and with \<open>DisallowUnknownFields\<close> any other member is
  an error. \<open>null\<close> leaves a plain field unchanged and clears a pointer field.
\<close>

definition fold_rune :: "nat \<Rightarrow> nat" where
  "fold_rune r = (if between 97 122 r then r - 32 else if r = 0x17F then 0x53
     else if r = 0x212A then 0x4B else r)"

definition fold_key :: "string \<Rightarrow> nat list" where
  "fold_key k = map fold_rune (runes k)"

definition field_of :: "string \<Rightarrow> (string \<times> json) list \<Rightarrow> json option" where
  "field_of name kvs = map_option snd (find (\<lambda>(k, v). fold_key k = fold_key name) (rev kvs))"

definition known_fields :: "string list \<Rightarrow> (string \<times> json) list \<Rightarrow> bool" where
  "known_fields names kvs = list_all (\<lambda>(k, v). fold_key k \<in> fold_key ` set names) kvs"

definition decode_err :: err where "decode_err = Msg ''cannot unmarshal''"

definition int_ok :: "int \<Rightarrow> bool" where
  "int_ok n \<longleftrightarrow> - (2 ^ 63) \<le> n \<and> n < 2 ^ 63"

definition get_str :: "json option \<Rightarrow> err + string" where
  "get_str j = (case j of None \<Rightarrow> Inr '''' | Some JNull \<Rightarrow> Inr '''' | Some (JStr s) \<Rightarrow> Inr s | _ \<Rightarrow> Inl decode_err)"

definition get_int_ptr :: "json option \<Rightarrow> err + int option" where
  "get_int_ptr j = (case j of None \<Rightarrow> Inr None | Some JNull \<Rightarrow> Inr None
     | Some (JNum n) \<Rightarrow> if int_ok n then Inr (Some n) else Inl decode_err | _ \<Rightarrow> Inl decode_err)"

fun get_strs :: "json list \<Rightarrow> err + string list" where
  "get_strs [] = Inr []"
| "get_strs (v # vs) = bind_res (get_str (Some v)) (\<lambda>s. bind_res (get_strs vs) (\<lambda>ss. Inr (s # ss)))"

definition get_str_list :: "json option \<Rightarrow> err + string list" where
  "get_str_list j = (case j of None \<Rightarrow> Inr [] | Some JNull \<Rightarrow> Inr [] | Some (JArr vs) \<Rightarrow> get_strs vs | _ \<Rightarrow> Inl decode_err)"

definition get_int :: "json option \<Rightarrow> err + int" where
  "get_int j = bind_res (get_int_ptr j) (\<lambda>n. Inr (case n of None \<Rightarrow> 0 | Some i \<Rightarrow> i))"

lemma get_strs_JStr [simp]: "get_strs (map JStr ss) = Inr ss"
  by (induction ss) (auto simp: get_str_def)

definition get_bool :: "json option \<Rightarrow> err + bool" where
  "get_bool j = (case j of None \<Rightarrow> Inr False | Some JNull \<Rightarrow> Inr False | Some (JBool b) \<Rightarrow> Inr b | _ \<Rightarrow> Inl decode_err)"

text \<open>Fixed-width unsigned numbers and nested structs.\<close>

definition get_word :: "json option \<Rightarrow> err + 'a::len word" where
  "get_word j = (case j of None \<Rightarrow> Inr 0 | Some JNull \<Rightarrow> Inr 0
     | Some (JNum n) \<Rightarrow> if 0 \<le> n \<and> n < 2 ^ LENGTH('a) then Inr (word_of_int n) else Inl decode_err
     | _ \<Rightarrow> Inl decode_err)"

definition get_struct :: "string list \<Rightarrow> json option \<Rightarrow> err + (string \<times> json) list" where
  "get_struct names j = (case j of None \<Rightarrow> Inr [] | Some JNull \<Rightarrow> Inr []
     | Some (JObj kvs) \<Rightarrow> if known_fields names kvs then Inr kvs else Inl decode_err
     | _ \<Rightarrow> Inl decode_err)"

text \<open>\<open>strictjson.Decode\<close> of a text, up to the struct it is read into.\<close>

definition strict_value :: "(string \<Rightarrow> json option) \<Rightarrow> string \<Rightarrow> err + json" where
  "strict_value parse text =
    (case parse text of
       None \<Rightarrow> Inl (Msg ''invalid JSON'')
     | Some v \<Rightarrow> guard_res (strict_admits (tokens v)) (Inr v))"

definition strict_struct :: "(string \<Rightarrow> json option) \<Rightarrow> string list \<Rightarrow> string \<Rightarrow> err + (string \<times> json) list" where
  "strict_struct parse names text = bind_res (strict_value parse text) (\<lambda>v. get_struct names (Some v))"

section \<open>Canonical objects\<close>

text \<open>Among canonical keys, case folding identifies nothing.\<close>

definition canonical_fields :: "(string \<times> json) list \<Rightarrow> bool" where
  "canonical_fields kvs \<longleftrightarrow> list_all canonical_key (map fst kvs) \<and> distinct (map fst kvs)"

definition key_char :: "char \<Rightarrow> bool" where
  "key_char c \<longleftrightarrow> c = CHR ''_'' \<or> is_lower c \<or> is_digit c"

lemma code_underscore: "code CHR ''_'' = 95"
  by (simp add: code_def)

lemma key_char_code: "key_char c \<Longrightarrow> code c = 95 \<or> 97 \<le> code c \<and> code c \<le> 122 \<or> 48 \<le> code c \<and> code c \<le> 57"
  using code_underscore by (auto simp: key_char_def is_lower_def is_digit_def between_def)

lemma fold_rune_inj:
  assumes "key_char c" and "key_char d" and "fold_rune (code c) = fold_rune (code d)"
  shows "c = d"
proof -
  have "code c = code d"
    using key_char_code[OF assms(1)] key_char_code[OF assms(2)] assms(3)
    unfolding fold_rune_def between_def by (simp del: code_inj split: if_splits) linarith+
  then show ?thesis by simp
qed

lemma canonical_chars: "canonical_key k \<Longrightarrow> c \<in> set k \<Longrightarrow> key_char c"
  by (simp add: canonical_key_def list_all_iff key_char_def)

lemma canonical_ascii: "canonical_key k \<Longrightarrow> ascii k"
  unfolding ascii_def list_all_iff using key_char_code[OF canonical_chars] by fastforce

lemma fold_canonical:
  assumes "canonical_key j" and "canonical_key k" and "fold_key j = fold_key k"
  shows "j = k"
proof -
  from assms have "map (fold_rune \<circ> code) j = map (fold_rune \<circ> code) k"
    by (simp add: fold_key_def runes_ascii canonical_ascii)
  moreover have "inj_on (fold_rune \<circ> code) (set j \<union> set k)"
    using canonical_chars[OF assms(1)] canonical_chars[OF assms(2)] by (intro inj_onI) (auto intro: fold_rune_inj)
  ultimately show ?thesis by (rule map_inj_on)
qed

lemma fold_canonical_iff: "canonical_key j \<Longrightarrow> canonical_key k \<Longrightarrow> fold_key j = fold_key k \<longleftrightarrow> j = k"
  using fold_canonical by blast

lemma find_canonical:
  assumes "canonical_key name"
  shows "list_all canonical_key (map fst xs) \<Longrightarrow>
    map_option snd (find (\<lambda>(k, v). fold_key k = fold_key name) xs) = map_of xs name"
proof (induction xs)
  case (Cons kv xs)
  obtain k v where kv: "kv = (k, v)" by (cases kv)
  with Cons.prems have "fold_key k = fold_key name \<longleftrightarrow> k = name" using assms by (simp add: fold_canonical_iff)
  with Cons kv show ?case by simp
qed simp

lemma field_of_canonical:
  assumes "canonical_fields kvs" and "canonical_key name"
  shows "field_of name kvs = map_of kvs name"
proof -
  have "field_of name kvs = map_of (rev kvs) name"
    unfolding field_of_def by (rule find_canonical[OF assms(2)]) (use assms(1) in \<open>simp add: canonical_fields_def list_all_iff\<close>)
  also have "map_of (rev kvs) = map_of kvs"
    using assms(1) by (subst map_of_inject_set) (simp_all add: canonical_fields_def rev_map[symmetric])
  finally show ?thesis .
qed

lemma known_fields_subset:
  assumes "set (map fst kvs) \<subseteq> set names"
  shows "known_fields names kvs"
  unfolding known_fields_def list_all_iff
proof clarify
  fix k v assume "(k, v) \<in> set kvs"
  then have "fst (k, v) \<in> set (map fst kvs)" unfolding list.set_map by (rule imageI)
  with assms have "k \<in> set names" by auto
  then show "fold_key k \<in> fold_key ` set names" by (rule imageI)
qed

lemma get_simps [simp]: "get_str (Some (JStr s)) = Inr s" "get_struct names (Some (JObj kvs)) = (if known_fields names kvs then Inr kvs else Inl decode_err)"
   "int_ok n \<Longrightarrow> get_int (Some (JNum n)) = Inr n"
  by (simp_all add: get_str_def get_struct_def get_int_def get_int_ptr_def)

lemma get_word_uint [simp]: "get_word (Some (JNum (uint w))) = Inr w"
  by (simp add: get_word_def)

lemma field_of_member:
  assumes "canonical_fields kvs" and "map_of kvs name = Some v"
  shows "field_of name kvs = Some v"
proof -
  from assms(2) have "name \<in> set (map fst kvs)" by (metis map_of_SomeD fst_conv image_eqI list.set_map)
  with assms(1) have "canonical_key name" by (simp only: canonical_fields_def list_all_iff)
  with assms show ?thesis by (simp add: field_of_canonical)
qed

lemma known_members: "map fst kvs = names \<Longrightarrow> known_fields names kvs"
  by (rule known_fields_subset) simp

end
