(* ===== verification/UiAction.thy ===== *)
theory UiAction
  imports JsonDecode
begin

text \<open>
  \<open>internal/uiaction/types.go\<close>: the UI action vocabulary with its JSON decoding, the receipts the
  host records for each action, the journal of receipts of one batch, and the rule by which
  a controller accepts a newer journal. An action keeps the fields of all its variants, as
  the Go struct does; decoding fills only those of its kind. Decoding starts from the parsed
  document (\<open>json\<close>), after the duplicate-key scan of theory JsonTokens.
\<close>

section \<open>Actions and batches\<close>

definition Click :: string where "Click = ''click''"
definition Key :: string where "Key = ''key''"
definition Text :: string where "Text = ''text''"

lemmas action_kind_defs [evaluate] = Click_def Key_def Text_def

lemma action_kinds_distinct [simp]:
  "Click \<noteq> Key" "Key \<noteq> Click" "Click \<noteq> Text" "Text \<noteq> Click" "Key \<noteq> Text" "Text \<noteq> Key"
  by (simp_all add: action_kind_defs)

definition max_actions :: nat where "max_actions = 64"
definition max_text_scalars :: nat where "max_text_scalars = 256"
definition max_total_text_scalars :: nat where "max_total_text_scalars = 1024"
definition max_timeout_seconds :: int where "max_timeout_seconds = 30"
definition max_coordinate :: int where "max_coordinate = 32767"

lemmas ui_limits [simp, evaluate] = max_actions_def max_text_scalars_def max_total_text_scalars_def
  max_timeout_seconds_def max_coordinate_def

definition ui_evidence_path :: string where "ui_evidence_path = ''result/ui-actions.json''"
definition ui_before_path :: string where
  "ui_before_path = ''screenshots/blender-window-before-actions.png''"
definition ui_after_path :: string where
  "ui_after_path = ''screenshots/blender-window-after-actions.png''"
definition ui_capability :: string where "ui_capability = ''blender-ui-events-v1''"

lemmas ui_path_defs [evaluate] = ui_evidence_path_def ui_before_path_def ui_after_path_def ui_capability_def

record click_action =
  ca_x :: int
  ca_y :: int
  ca_button :: string

record key_action =
  ka_key :: string
  ka_modifiers :: "string list"

record action =
  ac_kind :: string
  ac_click :: click_action
  ac_key :: key_action
  ac_text :: string

definition zero_action :: action where
  "zero_action = \<lparr>ac_kind = '''', ac_click = \<lparr>ca_x = 0, ca_y = 0, ca_button = ''''\<rparr>,
     ac_key = \<lparr>ka_key = '''', ka_modifiers = []\<rparr>, ac_text = ''''\<rparr>"

definition text_scalars :: "action \<Rightarrow> nat" where
  "text_scalars a = (if ac_kind a = Text then length (runes (ac_text a)) else 0)"

definition event_count :: "action \<Rightarrow> nat" where
  "event_count a =
    (if ac_kind a = Click then 3
     else if ac_kind a = Key then 2 + 2 * length (ka_modifiers (ac_key a))
     else if ac_kind a = Text then 2 * text_scalars a
     else 0)"

record batch =
  ba_schema_version :: int
  ba_timeout_seconds :: int
  ba_actions :: "action list"

text \<open>\<open>"F" + strconv.Itoa(n)\<close> for the function keys.\<close>

fun itoa :: "nat \<Rightarrow> string" where
  "itoa n = (if n < 10 then [char_of (48 + n)] else itoa (n div 10) @ [char_of (48 + n mod 10)])"

declare itoa.simps [simp del]

definition valid_key :: "string \<Rightarrow> bool" where
  "valid_key key =
    (if length key = 1 \<and> (is_upper (hd key) \<or> is_digit (hd key)) then True
     else if key \<in> {''ENTER'', ''ESC'', ''TAB'', ''SPACE'', ''BACKSPACE'', ''DELETE'', ''LEFT'', ''RIGHT'',
                    ''UP'', ''DOWN'', ''HOME'', ''END'', ''PAGEUP'', ''PAGEDOWN''} then True
     else if 1 < length key \<and> hd key = CHR ''F''
       then list_ex (\<lambda>n. key = ''F'' @ itoa n) [1..<13]
     else False)"

text \<open>The modifier loop with its \<open>seen\<close> set.\<close>

fun valid_modifiers :: "string set \<Rightarrow> string list \<Rightarrow> bool" where
  "valid_modifiers seen [] = True"
| "valid_modifiers seen (m # ms) =
    (if m \<notin> {''ctrl'', ''shift'', ''alt''} \<or> m \<in> seen then False else valid_modifiers (insert m seen) ms)"

text \<open>\<open>unicode.IsControl\<close> and the table of the Unicode category Cf.\<close>

definition is_control :: "nat \<Rightarrow> bool" where
  "is_control r \<longleftrightarrow> r \<le> 0x1F \<or> between 0x7F 0x9F r"

definition is_format :: "nat \<Rightarrow> bool" where
  "is_format r \<longleftrightarrow>
     r \<in> {0xAD, 0x61C, 0x6DD, 0x70F, 0x890, 0x891, 0x8E2, 0x180E, 0xFEFF, 0x110BD, 0x110CD, 0xE0001}
     \<or> list_ex (\<lambda>(lo, hi). between lo hi r)
       [(0x600, 0x605), (0x200B, 0x200F), (0x202A, 0x202E), (0x2060, 0x2064), (0x2066, 0x206F),
        (0xFFF9, 0xFFFB), (0x13430, 0x1343F), (0x1BCA0, 0x1BCA3), (0x1D173, 0x1D17A), (0xE0020, 0xE007F)]"

definition bad_scalar :: "nat \<Rightarrow> bool" where
  "bad_scalar r \<longleftrightarrow> is_control r \<or> is_format r \<or> r = 0x2028 \<or> r = 0x2029"

definition action_validate :: "action \<Rightarrow> err option" where
  "action_validate a =
    (if ac_kind a = Click then
       (let c = ac_click a in
        check (ca_x c < 0 \<or> ca_y c < 0 \<or> max_coordinate < ca_x c \<or> max_coordinate < ca_y c
               \<or> ca_button c \<notin> {''left'', ''middle'', ''right''})
          ''click requires client coordinates within 0..32767 and left, middle, or right button'')
     else if ac_kind a = Key then
       or_else (check (\<not> valid_key (ka_key (ac_key a))) ''unsupported UI key'')
         (check (\<not> valid_modifiers {} (ka_modifiers (ac_key a))) ''invalid or duplicate UI modifier'')
     else if ac_kind a = Text then
       or_else (check (\<not> valid_utf8 (ac_text a) \<or> text_scalars a < 1 \<or> max_text_scalars < text_scalars a)
           ''text requires 1..256 Unicode scalars'')
         (check (list_ex bad_scalar (runes (ac_text a))) ''text contains an unsupported scalar'')
     else Some (Msg ''invalid UI action''))"

definition batch_validate :: "batch \<Rightarrow> err option" where
  "batch_validate b =
    first_err
     [check (ba_schema_version b \<noteq> 1 \<or> ba_timeout_seconds b < 1
             \<or> max_timeout_seconds < ba_timeout_seconds b
             \<or> length (ba_actions b) < 1 \<or> max_actions < length (ba_actions b))
        ''UI batch requires version 1, 1..64 actions, and timeout_seconds within 1..30'',
      wrap_err ''UI action'' (first_err (map action_validate (ba_actions b))),
      check (max_total_text_scalars < sum_list (map text_scalars (ba_actions b)))
        ''UI batch exceeds 1024 text scalars'']"

lemma valid_modifiers_iff:
  "valid_modifiers seen ms \<longleftrightarrow>
    distinct ms \<and> set ms \<subseteq> {''ctrl'', ''shift'', ''alt''} \<and> set ms \<inter> seen = {}"
  by (induction ms arbitrary: seen) auto

lemma valid_modifiers_length: "valid_modifiers seen ms \<Longrightarrow> length ms \<le> 3"
proof -
  assume "valid_modifiers seen ms"
  then have "distinct ms" "set ms \<subseteq> {''ctrl'', ''shift'', ''alt''}" by (auto simp: valid_modifiers_iff)
  moreover have "card (set ms) \<le> card {''ctrl'', ''shift'', ''alt''}"
    using calculation(2) by (intro card_mono) simp_all
  ultimately show ?thesis by (simp add: distinct_card card_insert_if)
qed

lemma event_count_bounds:
  "action_validate a = None \<Longrightarrow> 1 \<le> event_count a \<and> event_count a \<le> 2 * max_text_scalars"
  using valid_modifiers_length[of "{}" "ka_modifiers (ac_key a)"]
  by (auto simp: action_validate_def event_count_def Let_def split: if_splits)

section \<open>JSON form of actions\<close>

definition strict_ui :: "json \<Rightarrow> err option" where
  "strict_ui v = (case unique_json_fields (fuel_for (tokens v)) (tokens v) of
     Inl e \<Rightarrow> Some e | Inr rest \<Rightarrow> None)"

definition unmarshal_click :: "(string \<times> json) list \<Rightarrow> err + click_action" where
  "unmarshal_click kvs =
    (if \<not> known_fields [''type'', ''x'', ''y'', ''button''] kvs then Inl (Msg ''invalid click action fields'')
     else
       (case (get_str (field_of ''type'' kvs), get_int_ptr (field_of ''x'' kvs),
              get_int_ptr (field_of ''y'' kvs), get_str (field_of ''button'' kvs)) of
          (Inr t, Inr (Some x), Inr (Some y), Inr b) \<Rightarrow> Inr \<lparr>ca_x = x, ca_y = y, ca_button = b\<rparr>
        | _ \<Rightarrow> Inl (Msg ''invalid click action fields'')))"

definition unmarshal_key :: "(string \<times> json) list \<Rightarrow> err + key_action" where
  "unmarshal_key kvs =
    (if \<not> known_fields [''type'', ''key'', ''modifiers''] kvs then Inl (Msg ''invalid key action fields'')
     else
       (case (get_str (field_of ''key'' kvs), get_str_list (field_of ''modifiers'' kvs)) of
          (Inr k, Inr ms) \<Rightarrow> Inr \<lparr>ka_key = k, ka_modifiers = ms\<rparr>
        | _ \<Rightarrow> Inl (Msg ''invalid key action fields'')))"

definition unmarshal_text :: "(string \<times> json) list \<Rightarrow> err + string" where
  "unmarshal_text kvs =
    (if \<not> known_fields [''type'', ''text''] kvs then Inl (Msg ''invalid text action fields'')
     else (case get_str (field_of ''text'' kvs) of Inr t \<Rightarrow> Inr t | Inl e \<Rightarrow> Inl (Msg ''invalid text action fields'')))"

text \<open>\<open>Action.UnmarshalJSON\<close>: the tag first, leniently, then the strict decoding of its variant.\<close>

definition unmarshal_tag :: "json \<Rightarrow> err + string" where
  "unmarshal_tag v =
    (case v of JNull \<Rightarrow> Inr ''''
     | JObj kvs \<Rightarrow> (case get_str (field_of ''type'' kvs) of Inr t \<Rightarrow> Inr t | Inl e \<Rightarrow> Inl (Msg ''invalid UI action JSON''))
     | _ \<Rightarrow> Inl (Msg ''invalid UI action JSON''))"

definition action_unmarshal :: "json \<Rightarrow> err + action" where
  "action_unmarshal v =
    bind_res (unmarshal_tag v) (\<lambda>tag.
      let kvs = (case v of JObj kvs \<Rightarrow> kvs | _ \<Rightarrow> []);
          next_action =
            (if tag = Click then
               bind_res (guard_res (map_option (\<lambda>_. Msg ''invalid click action fields'') (strict_ui v)) (unmarshal_click kvs))
                 (\<lambda>c. Inr (zero_action\<lparr>ac_kind := tag, ac_click := c\<rparr>))
             else if tag = Key then
               bind_res (guard_res (map_option (\<lambda>_. Msg ''invalid key action fields'') (strict_ui v)) (unmarshal_key kvs))
                 (\<lambda>k. Inr (zero_action\<lparr>ac_kind := tag, ac_key := k\<rparr>))
             else if tag = Text then
               bind_res (guard_res (map_option (\<lambda>_. Msg ''invalid text action fields'') (strict_ui v)) (unmarshal_text kvs))
                 (\<lambda>t. Inr (zero_action\<lparr>ac_kind := tag, ac_text := t\<rparr>))
             else Inl (Msg ''unknown UI action type''))
      in bind_res next_action (\<lambda>a. guard_res (action_validate a) (Inr a)))"

text \<open>\<open>Action.MarshalJSON\<close>; an empty modifier list is omitted.\<close>

definition action_marshal :: "action \<Rightarrow> err + json" where
  "action_marshal a =
    (if ac_kind a = Click then
       Inr (JObj [(''type'', JStr (ac_kind a)), (''x'', JNum (ca_x (ac_click a))),
                  (''y'', JNum (ca_y (ac_click a))), (''button'', JStr (ca_button (ac_click a)))])
     else if ac_kind a = Key then
       Inr (JObj ([(''type'', JStr (ac_kind a)), (''key'', JStr (ka_key (ac_key a)))]
             @ (if ka_modifiers (ac_key a) = [] then []
                else [(''modifiers'', JArr (map JStr (ka_modifiers (ac_key a))))])))
     else if ac_kind a = Text then
       Inr (JObj [(''type'', JStr (ac_kind a)), (''text'', JStr (ac_text a))])
     else Inl (Msg ''invalid UI action''))"

text \<open>
  \<open>Batch.UnmarshalJSON\<close>: the strict decoding of the three members, each action through its own
  decoder, then the validation of the whole batch.
\<close>

fun get_actions :: "json list \<Rightarrow> err + action list" where
  "get_actions [] = Inr []"
| "get_actions (v # vs) = bind_res (action_unmarshal v) (\<lambda>a. bind_res (get_actions vs) (\<lambda>as. Inr (a # as)))"

definition get_action_list :: "json option \<Rightarrow> err + action list" where
  "get_action_list j = (case j of None \<Rightarrow> Inr [] | Some JNull \<Rightarrow> Inr [] | Some (JArr vs) \<Rightarrow> get_actions vs
     | _ \<Rightarrow> Inl decode_err)"

definition batch_unmarshal :: "json \<Rightarrow> err + batch" where
  "batch_unmarshal v =
    (let invalid = Inl (Msg ''invalid UI action batch JSON'');
         decoded =
           (if strict_ui v \<noteq> None then invalid
            else case v of
              JNull \<Rightarrow> Inr \<lparr>ba_schema_version = 0, ba_timeout_seconds = 0, ba_actions = []\<rparr>
            | JObj kvs \<Rightarrow>
                (if \<not> known_fields [''schema_version'', ''timeout_seconds'', ''actions''] kvs then invalid
                 else case (get_int (field_of ''schema_version'' kvs), get_int (field_of ''timeout_seconds'' kvs),
                            get_action_list (field_of ''actions'' kvs)) of
                   (Inr n, Inr t, Inr as) \<Rightarrow> Inr \<lparr>ba_schema_version = n, ba_timeout_seconds = t, ba_actions = as\<rparr>
                 | _ \<Rightarrow> invalid)
            | _ \<Rightarrow> invalid)
     in bind_res decoded (\<lambda>b. guard_res (batch_validate b) (Inr b)))"

fun marshal_actions :: "action list \<Rightarrow> err + json list" where
  "marshal_actions [] = Inr []"
| "marshal_actions (a # as) = bind_res (action_marshal a) (\<lambda>v. bind_res (marshal_actions as) (\<lambda>vs. Inr (v # vs)))"

text \<open>The JSON of a batch, from the struct tags of \<open>Batch\<close>.\<close>

definition batch_marshal :: "batch \<Rightarrow> err + json" where
  "batch_marshal b =
    bind_res (marshal_actions (ba_actions b)) (\<lambda>vs.
      Inr (JObj [(''schema_version'', JNum (ba_schema_version b)),
                 (''timeout_seconds'', JNum (ba_timeout_seconds b)), (''actions'', JArr vs)]))"

section \<open>Round trips\<close>

lemma fold_keys [simp]:
  "fold_key ''type'' = [84, 89, 80, 69]" "fold_key ''x'' = [88]" "fold_key ''y'' = [89]"
  "fold_key ''button'' = [66, 85, 84, 84, 79, 78]" "fold_key ''key'' = [75, 69, 89]"
  "fold_key ''modifiers'' = [77, 79, 68, 73, 70, 73, 69, 82, 83]" "fold_key ''text'' = [84, 69, 88, 84]"
  "fold_key ''actions'' = [65, 67, 84, 73, 79, 78, 83]"
  "fold_key ''schema_version'' = [83, 67, 72, 69, 77, 65, 95, 86, 69, 82, 83, 73, 79, 78]"
  "fold_key ''timeout_seconds'' = [84, 73, 77, 69, 79, 85, 84, 95, 83, 69, 67, 79, 78, 68, 83]"
  by (simp_all add: fold_key_def fold_rune_def evaluate)

lemma strict_ui_ok: "well_keyed (\<lambda>t. True) (\<lambda>k. True) v \<Longrightarrow> strict_ui v = None"
  using unique_json_fields_iff[of v "fuel_for (tokens v)" "[]"]
  by (auto simp: strict_ui_def split: sum.splits)

lemmas decode_field_simps = field_of_def known_fields_def get_str_def get_int_ptr_def get_str_list_def

text \<open>An action whose fields outside its variant are empty, as its decoder leaves them.\<close>

definition canonical_action :: "action \<Rightarrow> bool" where
  "canonical_action a \<longleftrightarrow>
     (ac_kind a \<noteq> Click \<longrightarrow> ac_click a = ac_click zero_action)
   \<and> (ac_kind a \<noteq> Key \<longrightarrow> ac_key a = ac_key zero_action)
   \<and> (ac_kind a \<noteq> Text \<longrightarrow> ac_text a = ac_text zero_action)"

lemma action_kind_known: "action_validate a = None \<Longrightarrow> ac_kind a \<in> {Click, Key, Text}"
  by (auto simp: action_validate_def split: if_splits)

lemma unmarshal_click_members [simp]:
  "int_ok x \<Longrightarrow> int_ok y \<Longrightarrow>
     unmarshal_click [(''type'', JStr t), (''x'', JNum x), (''y'', JNum y), (''button'', JStr b)]
       = Inr \<lparr>ca_x = x, ca_y = y, ca_button = b\<rparr>"
  by (simp add: unmarshal_click_def decode_field_simps)

lemma unmarshal_key_members [simp]:
  "unmarshal_key [(''type'', JStr t), (''key'', JStr k)] = Inr \<lparr>ka_key = k, ka_modifiers = []\<rparr>"
  "unmarshal_key [(''type'', JStr t), (''key'', JStr k), (''modifiers'', JArr (map JStr ms))]
     = Inr \<lparr>ka_key = k, ka_modifiers = ms\<rparr>"
  by (simp_all add: unmarshal_key_def decode_field_simps)

lemma unmarshal_text_members [simp]: "unmarshal_text [(''type'', JStr t), (''text'', JStr u)] = Inr u"
  by (simp add: unmarshal_text_def decode_field_simps)

lemma unmarshal_tag_members [simp]:
  "unmarshal_tag (JObj [(''type'', JStr t), (''x'', a), (''y'', b), (''button'', c)]) = Inr t"
  "unmarshal_tag (JObj [(''type'', JStr t), (''key'', a)]) = Inr t"
  "unmarshal_tag (JObj [(''type'', JStr t), (''key'', a), (''modifiers'', b)]) = Inr t"
  "unmarshal_tag (JObj [(''type'', JStr t), (''text'', a)]) = Inr t"
  by (simp_all add: unmarshal_tag_def decode_field_simps)

lemma action_eq_variant:
  assumes "canonical_action a"
  shows "ac_kind a = Click \<Longrightarrow> zero_action\<lparr>ac_kind := Click, ac_click := ac_click a\<rparr> = a"
    and "ac_kind a = Key \<Longrightarrow> zero_action\<lparr>ac_kind := Key, ac_key := ac_key a\<rparr> = a"
    and "ac_kind a = Text \<Longrightarrow> zero_action\<lparr>ac_kind := Text, ac_text := ac_text a\<rparr> = a"
  using assms by (cases a; auto simp: canonical_action_def zero_action_def)+

lemma click_eta: "\<lparr>ca_x = ca_x c, ca_y = ca_y c, ca_button = ca_button c\<rparr> = c"
  by simp

lemma key_eta: "\<lparr>ka_key = ka_key k, ka_modifiers = ka_modifiers k\<rparr> = k"
  by simp

lemma key_eta_Nil: "ka_modifiers k = [] \<Longrightarrow> \<lparr>ka_key = ka_key k, ka_modifiers = []\<rparr> = k"
  by (cases k) simp

lemma well_keyed_strings [simp]: "\<forall>v\<in>set (map JStr ss). well_keyed (\<lambda>t. True) (\<lambda>k. True) v"
  by simp

lemma marshalled_action:
  assumes ok: "action_validate a = None" and canonical: "canonical_action a"
  shows "\<exists>v. action_marshal a = Inr v \<and> action_unmarshal v = Inr a \<and> well_keyed (\<lambda>t. True) (\<lambda>k. True) v"
proof -
  consider "ac_kind a = Click" | "ac_kind a = Key" | "ac_kind a = Text"
    using action_kind_known[OF ok] by blast
  then show ?thesis
  proof cases
    case 1
    have "int_ok (ca_x (ac_click a))" "int_ok (ca_y (ac_click a))"
      using ok 1 by (auto simp: action_validate_def int_ok_def Let_def)
    then show ?thesis
      using 1 ok action_eq_variant(1)[OF canonical 1]
      by (simp add: action_marshal_def action_unmarshal_def strict_ui_ok Let_def click_eta)
  next
    case 2
    then show ?thesis
      using ok action_eq_variant(2)[OF canonical 2]
      by (auto simp: action_marshal_def action_unmarshal_def strict_ui_ok Let_def key_eta key_eta_Nil)
  next
    case 3
    then show ?thesis
      using ok action_eq_variant(3)[OF canonical 3]
      by (simp add: action_marshal_def action_unmarshal_def strict_ui_ok Let_def)
  qed
qed

lemma marshalled_actions:
  "list_all (\<lambda>a. action_validate a = None \<and> canonical_action a) as \<Longrightarrow>
     \<exists>vs. marshal_actions as = Inr vs \<and> get_actions vs = Inr as
       \<and> (\<forall>v\<in>set vs. well_keyed (\<lambda>t. True) (\<lambda>k. True) v)"
proof (induction as)
  case (Cons a as)
  then obtain vs where vs: "marshal_actions as = Inr vs" "get_actions vs = Inr as"
    "\<forall>v\<in>set vs. well_keyed (\<lambda>t. True) (\<lambda>k. True) v" by auto
  obtain v where v: "action_marshal a = Inr v" "action_unmarshal v = Inr a"
    "well_keyed (\<lambda>t. True) (\<lambda>k. True) v"
    using Cons.prems marshalled_action[of a] by auto
  show ?case using vs v by (intro exI[of _ "v # vs"]) simp
qed simp

text \<open>C38: a valid batch whose actions carry only the fields of their kind is read back from
  its JSON form unchanged, through the strict decoder with all its checks.\<close>

theorem batch_round_trip:
  assumes valid: "batch_validate b = None" and canonical: "list_all canonical_action (ba_actions b)"
  shows "\<exists>v. batch_marshal b = Inr v \<and> batch_unmarshal v = Inr b"
proof -
  have acts: "list_all (\<lambda>a. action_validate a = None \<and> canonical_action a) (ba_actions b)"
    using valid canonical by (auto simp: batch_validate_def list_all_iff)
  obtain vs where vs: "marshal_actions (ba_actions b) = Inr vs" "get_actions vs = Inr (ba_actions b)"
    "\<forall>v\<in>set vs. well_keyed (\<lambda>t. True) (\<lambda>k. True) v"
    using marshalled_actions[OF acts] by blast
  have ints: "int_ok (ba_schema_version b)" "int_ok (ba_timeout_seconds b)"
    using valid by (auto simp: batch_validate_def int_ok_def)
  show ?thesis
    using vs ints valid
    by (simp add: batch_marshal_def batch_unmarshal_def strict_ui_ok decode_field_simps
        get_int_def get_action_list_def Let_def)
qed

definition sample_batch :: batch where
  "sample_batch = \<lparr>ba_schema_version = 1, ba_timeout_seconds = 5,
     ba_actions = [zero_action\<lparr>ac_kind := Click, ac_click := \<lparr>ca_x = 3, ca_y = 4, ca_button = ''left''\<rparr>\<rparr>,
       zero_action\<lparr>ac_kind := Key, ac_key := \<lparr>ka_key = ''TAB'', ka_modifiers = [''ctrl'']\<rparr>\<rparr>,
       zero_action\<lparr>ac_kind := Text, ac_text := ''hi''\<rparr>]\<rparr>"

lemma sample_batch_valid:
  "batch_validate sample_batch = None" "list_all canonical_action (ba_actions sample_batch)"
  by (simp_all add: sample_batch_def batch_validate_def action_validate_def canonical_action_def
      zero_action_def valid_key_def text_scalars_def bad_scalar_def is_control_def is_format_def
      evaluate del: valid_modifiers_iff)

theorem batch_round_trip_witness:
  "\<exists>v. batch_marshal sample_batch = Inr v \<and> batch_unmarshal v = Inr sample_batch"
  by (rule batch_round_trip[OF sample_batch_valid])

section \<open>Surrogates in string escapes\<close>

text \<open>
  \<open>validJSONScalars\<close> after its \<open>utf8.Valid\<close> and \<open>json.Valid\<close> tests: the scan over the bytes that
  refuses an escaped UTF-16 surrogate without its other half. \<open>strconv.ParseUint\<close> reads four
  hexadecimal digits, which \<open>json.Valid\<close> has already required.
\<close>

definition hex_value :: "char \<Rightarrow> nat" where
  "hex_value c = (let n = of_char c in if n \<le> 57 then n - 48 else if n \<le> 70 then n - 55 else n - 87)"

definition parse_hex :: "string \<Rightarrow> nat" where
  "parse_hex s = foldl (\<lambda>n c. 16 * n + hex_value c) 0 s"

fun valid_json_scalars :: "string \<Rightarrow> bool" where
  "valid_json_scalars [] = True"
| "valid_json_scalars (c # s) =
    (if c \<noteq> CHR 0x5C then valid_json_scalars s
     else case s of
       [] \<Rightarrow> False
     | e # t \<Rightarrow>
       if e \<noteq> CHR ''u'' then valid_json_scalars t
       else
         let scalar = parse_hex (take 4 t); r = drop 4 t in
         if 0xDC00 \<le> scalar \<and> scalar \<le> 0xDFFF then False
         else if 0xD800 \<le> scalar \<and> scalar \<le> 0xDBFF then
           (if length r < 6 \<or> r ! 0 \<noteq> CHR 0x5C \<or> r ! 1 \<noteq> CHR ''u'' then False
            else let low = parse_hex (take 4 (drop 2 r)) in
              if low < 0xDC00 \<or> 0xDFFF < low then False else valid_json_scalars (drop 6 r))
         else valid_json_scalars r)"

text \<open>The specification: the escapes of the text as lexemes, and pairing on the lexemes.\<close>

datatype lexeme = Plain char | Escape char | Unit nat

fun lexemes :: "string \<Rightarrow> lexeme list" where
  "lexemes [] = []"
| "lexemes (c # s) =
    (if c \<noteq> CHR 0x5C then Plain c # lexemes s
     else case s of
       [] \<Rightarrow> [Plain c]
     | e # t \<Rightarrow> if e \<noteq> CHR ''u'' then Escape e # lexemes t
               else Unit (parse_hex (take 4 t)) # lexemes (drop 4 t))"

fun paired :: "lexeme list \<Rightarrow> bool" where
  "paired [] = True"
| "paired (Unit h # Unit l # ls) =
    (if between 0xD800 0xDBFF h then between 0xDC00 0xDFFF l \<and> paired ls
     else \<not> between 0xDC00 0xDFFF h \<and> paired (Unit l # ls))"
| "paired (Unit h # ls) = (\<not> between 0xD800 0xDFFF h \<and> paired ls)"
| "paired (x # ls) = paired ls"

text \<open>Every escape sequence of a valid JSON text is complete.\<close>

fun complete_escapes :: "string \<Rightarrow> bool" where
  "complete_escapes [] = True"
| "complete_escapes (c # s) =
    (if c \<noteq> CHR 0x5C then complete_escapes s
     else case s of
       [] \<Rightarrow> False
     | e # t \<Rightarrow> if e \<noteq> CHR ''u'' then complete_escapes t else 4 \<le> length t \<and> complete_escapes (drop 4 t))"

lemma valid_json_scalars_cases [simp]:
  "c \<noteq> CHR 0x5C \<Longrightarrow> valid_json_scalars (c # s) = valid_json_scalars s"
  "valid_json_scalars [CHR 0x5C] = False"
  "e \<noteq> CHR ''u'' \<Longrightarrow> valid_json_scalars (CHR 0x5C # e # t) = valid_json_scalars t"
  by simp_all

lemma valid_json_scalars_unit:
  "valid_json_scalars (CHR 0x5C # CHR ''u'' # t) =
    (let h = parse_hex (take 4 t); r = drop 4 t in
     if between 0xDC00 0xDFFF h then False
     else if between 0xD800 0xDBFF h then
       6 \<le> length r \<and> r ! 0 = CHR 0x5C \<and> r ! 1 = CHR ''u''
       \<and> between 0xDC00 0xDFFF (parse_hex (take 4 (drop 2 r))) \<and> valid_json_scalars (drop 6 r)
     else valid_json_scalars r)"
  unfolding valid_json_scalars.simps(2)[of "CHR 0x5C"] Let_def between_def list.case
  by (simp only: simp_thms if_False) (intro if_cong refl, auto simp: not_less)

lemma lexemes_cases [simp]:
  "c \<noteq> CHR 0x5C \<Longrightarrow> lexemes (c # s) = Plain c # lexemes s"
  "e \<noteq> CHR ''u'' \<Longrightarrow> lexemes (CHR 0x5C # e # t) = Escape e # lexemes t"
  "lexemes (CHR 0x5C # CHR ''u'' # t) = Unit (parse_hex (take 4 t)) # lexemes (drop 4 t)"
  by simp_all

lemma complete_escapes_cases [simp]:
  "c \<noteq> CHR 0x5C \<Longrightarrow> complete_escapes (c # s) = complete_escapes s"
  "complete_escapes [CHR 0x5C] = False"
  "e \<noteq> CHR ''u'' \<Longrightarrow> complete_escapes (CHR 0x5C # e # t) = complete_escapes t"
  "complete_escapes (CHR 0x5C # CHR ''u'' # t) = (4 \<le> length t \<and> complete_escapes (drop 4 t))"
  by simp_all

declare valid_json_scalars.simps(2) [simp del] lexemes.simps(2) [simp del] complete_escapes.simps(2) [simp del]

text \<open>How a text can begin: at its end, with a plain byte, or with an escape.\<close>

lemma escape_cases:
  obtains "s = []" | c t where "s = c # t" "c \<noteq> CHR 0x5C" | "s = [CHR 0x5C]"
  | e t where "s = CHR 0x5C # e # t" "e \<noteq> CHR ''u''"
  | t where "s = CHR 0x5C # CHR ''u'' # t"
  by (cases s; cases "tl s"; cases "hd s = CHR 0x5C"; cases "hd (tl s) = CHR ''u''") auto

lemma paired_step:
  "paired (Unit h # ls) =
    (if between 0xDC00 0xDFFF h then False
     else if between 0xD800 0xDBFF h
       then (case ls of Unit l # ls' \<Rightarrow> between 0xDC00 0xDFFF l \<and> paired ls' | _ \<Rightarrow> False)
     else paired ls)"
  by (cases ls; cases "hd ls") (auto simp: between_def)

lemma low_half_needed:
  assumes "complete_escapes r"
  shows "(case lexemes r of Unit l # ls \<Rightarrow> between 0xDC00 0xDFFF l \<and> paired ls | _ \<Rightarrow> False)
    \<longleftrightarrow> 6 \<le> length r \<and> r ! 0 = CHR 0x5C \<and> r ! 1 = CHR ''u''
       \<and> between 0xDC00 0xDFFF (parse_hex (take 4 (drop 2 r))) \<and> paired (lexemes (drop 6 r))"
  using assms by (cases r rule: escape_cases) auto

lemma valid_json_scalars_paired:
  "complete_escapes s \<Longrightarrow> valid_json_scalars s = paired (lexemes s)"
proof (induction s rule: length_induct)
  case (1 s)
  have IH: "valid_json_scalars r = paired (lexemes r)"
    if "length r < length s" "complete_escapes r" for r using 1 that by blast
  show ?case
  proof (cases s rule: escape_cases)
    case (5 t)
    define r where "r = drop 4 t"
    have r: "complete_escapes r" "length r < length s" using 1(2) 5 by (simp_all add: r_def)
    have low: "valid_json_scalars (drop 6 r) = paired (lexemes (drop 6 r))"
      if "6 \<le> length r" "r ! 0 = CHR 0x5C" "r ! 1 = CHR ''u''"
    proof -
      have "complete_escapes (drop 6 r)"
        using r(1) that by (cases r rule: escape_cases) auto
      then show ?thesis using r(2) IH[of "drop 6 r"] by simp
    qed
    then have low_eq: "6 \<le> length r \<and> r ! 0 = CHR 0x5C \<and> r ! 1 = CHR ''u''
          \<and> between 0xDC00 0xDFFF (parse_hex (take 4 (drop 2 r))) \<and> valid_json_scalars (drop 6 r)
        \<longleftrightarrow> (case lexemes r of Unit l # ls \<Rightarrow> between 0xDC00 0xDFFF l \<and> paired ls | _ \<Rightarrow> False)"
      unfolding low_half_needed[OF r(1)] by metis
    show ?thesis
      unfolding 5 valid_json_scalars_unit lexemes_cases paired_step r_def[symmetric] Let_def
        low_eq IH[OF r(2,1)] ..
  qed (use 1(2) IH in auto)
qed

end
