(* ===== verification/JsonRender.thy ===== *)
theory JsonRender
  imports JsonTokens
begin

text \<open>
  The text \<open>json.Marshal\<close> produces from a value: no white space, members in the order of the
  struct, and the string escapes of \<open>encoding/json\<close> with HTML escaping on. The digests of
  requests and of target documents are taken over this text.
\<close>

text \<open>Decimal digits of a natural number, most significant first (\<open>strconv.Itoa\<close>).\<close>

fun digits :: "nat \<Rightarrow> string" where
  "digits n = (if n < 10 then [char_of (48 + n)] else digits (n div 10) @ [char_of (48 + n mod 10)])"

declare digits.simps [simp del]

definition render_int :: "int \<Rightarrow> string" where
  "render_int n = (if n < 0 then ''-'' @ digits (nat (- n)) else digits (nat n))"

definition hex_digit :: "nat \<Rightarrow> char" where
  "hex_digit n = char_of (if n < 10 then 48 + n else 87 + n)"

text \<open>One decoded rune with its bytes.\<close>

definition escape_rune :: "bool \<times> nat \<times> string \<Rightarrow> string" where
  "escape_rune d =
    (case d of (ok, r, bs) \<Rightarrow>
      if \<not> ok then CHR 0x5C # ''ufffd''
      else if r = 0x22 \<or> r = 0x5C then CHR 0x5C # bs
      else if r = 8 then CHR 0x5C # ''b''
      else if r = 12 then CHR 0x5C # ''f''
      else if r = 10 then CHR 0x5C # ''n''
      else if r = 13 then CHR 0x5C # ''r''
      else if r = 9 then CHR 0x5C # ''t''
      else if r < 32 \<or> r \<in> {0x3C, 0x3E, 0x26} then CHR 0x5C # ''u00'' @ [hex_digit (r div 16), hex_digit (r mod 16)]
      else if r = 0x2028 then CHR 0x5C # ''u2028''
      else if r = 0x2029 then CHR 0x5C # ''u2029''
      else bs)"

definition render_string :: "string \<Rightarrow> string" where
  "render_string s = CHR 0x22 # concat (map escape_rune (decode s)) @ [CHR 0x22]"

definition commas :: "string list \<Rightarrow> string" where
  "commas xs = join_with CHR '','' xs"

fun render :: "json \<Rightarrow> string" where
  "render JNull = ''null''"
| "render (JBool b) = (if b then ''true'' else ''false'')"
| "render (JNum n) = render_int n"
| "render (JReal s) = s"
| "render (JStr s) = render_string s"
| "render (JArr vs) = ''['' @ commas (map render vs) @ '']''"
| "render (JObj kvs) = ''{'' @ commas (map (\<lambda>(k, v). render_string k @ '':'' @ render v) kvs) @ ''}''"

text \<open>An \<open>omitempty\<close> member.\<close>

definition unless :: "bool \<Rightarrow> string \<Rightarrow> json \<Rightarrow> (string \<times> json) list" where
  "unless missing k v = (if missing then [] else [(k, v)])"

end
