(* ===== verification/UiJournal.thy ===== *)
theory UiJournal
  imports UiAction JsonRender
begin

text \<open>
  \<open>internal/uiaction/types.go\<close>, second half: the receipt of one UI action, the journal of a
  batch, the validation of both, \<open>MarkUncertain\<close>, and \<open>ValidateProgress\<close>, by which a
  controller decides whether a newly fetched journal continues the one it has.
\<close>

definition Pending :: string where "Pending = ''pending''"
definition Queued :: string where "Queued = ''queued''"
definition Rejected :: string where "Rejected = ''rejected''"
definition Uncertain :: string where "Uncertain = ''uncertain''"

lemmas ui_outcome_defs [evaluate] = Pending_def Queued_def Rejected_def Uncertain_def

lemma ui_outcomes_distinct [simp]:
  "Pending \<noteq> Queued" "Queued \<noteq> Pending" "Pending \<noteq> Rejected" "Rejected \<noteq> Pending"
  "Pending \<noteq> Uncertain" "Uncertain \<noteq> Pending" "Queued \<noteq> Rejected" "Rejected \<noteq> Queued"
  "Queued \<noteq> Uncertain" "Uncertain \<noteq> Queued" "Rejected \<noteq> Uncertain" "Uncertain \<noteq> Rejected"
  by (simp_all add: ui_outcome_defs)

record ui_window =
  uw_width :: int
  uw_height :: int

record ui_receipt =
  ur_index :: int
  ur_kind :: string
  ur_outcome :: string
  ur_session_id :: string
  ur_window :: "ui_window option"
  ur_event_count :: int
  ur_error_code :: string

record ui_journal =
  uj_schema_version :: int
  uj_receipts :: "ui_receipt list"

definition valid_error_code :: "string \<Rightarrow> bool" where
  "valid_error_code c \<longleftrightarrow> c \<in> {''focus-lost'', ''window-replaced'', ''window-ambiguous'', ''out-of-bounds'',
     ''stale-session'', ''cancelled'', ''timed-out'', ''delivery-failed'', ''delivery-unknown'',
     ''unsupported'', ''coordinate-mismatch''}"

definition ui_receipt_validate :: "string \<Rightarrow> ui_receipt \<Rightarrow> err option" where
  "ui_receipt_validate session r =
    first_err
     [check (ur_index r < 0 \<or> int max_actions \<le> ur_index r \<or> ur_session_id r \<noteq> session \<or> session = ''''
             \<or> (ur_kind r \<noteq> Click \<and> ur_kind r \<noteq> Key \<and> ur_kind r \<noteq> Text)
             \<or> ur_event_count r < 0 \<or> int max_text_scalars * 2 + 8 < ur_event_count r)
        ''invalid UI receipt identity or event count'',
      (case ur_window r of None \<Rightarrow> None
       | Some w \<Rightarrow> check (uw_width w < 1 \<or> uw_height w < 1 \<or> max_coordinate + 1 < uw_width w
                         \<or> max_coordinate + 1 < uw_height w) ''invalid UI window dimensions''),
      (if ur_outcome r = Queued then
         check (ur_error_code r \<noteq> '''' \<or> ur_event_count r = 0 \<or> ur_window r = None) ''invalid queued UI receipt''
       else if ur_outcome r = Pending then
         check (ur_error_code r \<noteq> '''' \<or> ur_event_count r \<noteq> 0) ''invalid pending UI receipt''
       else if ur_outcome r = Rejected \<or> ur_outcome r = Uncertain then
         or_else (check (ur_outcome r = Rejected \<and> ur_event_count r \<noteq> 0) ''rejected UI action has events'')
           (check (\<not> valid_error_code (ur_error_code r)) ''invalid failed UI receipt'')
       else Some (Msg ''invalid UI outcome''))]"

text \<open>The receipt loop of \<open>Journal.Validate\<close> at position \<open>i\<close> of \<open>n\<close> receipts.\<close>

fun ui_receipts_validate :: "string \<Rightarrow> nat \<Rightarrow> nat \<Rightarrow> ui_receipt list \<Rightarrow> err option" where
  "ui_receipts_validate session n i [] = None"
| "ui_receipts_validate session n i (r # rs) =
    first_err
     [ui_receipt_validate session r,
      check (ur_index r \<noteq> int i) ''UI journal indices are not contiguous'',
      check (ur_outcome r \<noteq> Queued \<and> i + 1 \<noteq> n) ''UI journal continues after an unsettled action'',
      ui_receipts_validate session n (Suc i) rs]"

definition journal_validate :: "string \<Rightarrow> ui_journal \<Rightarrow> err option" where
  "journal_validate session j =
    or_else (check (uj_schema_version j \<noteq> 1 \<or> max_actions < length (uj_receipts j)) ''invalid UI journal'')
      (ui_receipts_validate session (length (uj_receipts j)) 0 (uj_receipts j))"

definition mark_uncertain :: "ui_journal \<Rightarrow> ui_journal" where
  "mark_uncertain j =
    (case rev (uj_receipts j) of
       [] \<Rightarrow> j
     | l # front \<Rightarrow>
         if ur_outcome l = Pending then
           j\<lparr>uj_receipts := rev front @ [l\<lparr>ur_outcome := Uncertain, ur_error_code := ''delivery-unknown''\<rparr>]\<rparr>
         else j)"

text \<open>
  Two receipts have the same JSON form when their fields agree, strings up to the replacement
  of invalid UTF-8 that \<open>encoding/json\<close> makes.
\<close>

definition same_json :: "ui_receipt \<Rightarrow> ui_receipt \<Rightarrow> bool" where
  "same_json a b \<longleftrightarrow> ur_index a = ur_index b \<and> runes (ur_kind a) = runes (ur_kind b)
     \<and> runes (ur_outcome a) = runes (ur_outcome b) \<and> runes (ur_session_id a) = runes (ur_session_id b)
     \<and> ur_window a = ur_window b \<and> ur_event_count a = ur_event_count b
     \<and> runes (ur_error_code a) = runes (ur_error_code b)"

definition receipt_progress :: "ui_receipt \<Rightarrow> ui_receipt \<Rightarrow> err option" where
  "receipt_progress old current =
    (if ur_outcome old = Pending then
       check (ur_index old \<noteq> ur_index current \<or> ur_kind old \<noteq> ur_kind current
              \<or> ur_session_id old \<noteq> ur_session_id current) ''pending UI action identity changed''
     else check (\<not> same_json old current) ''UI journal history changed'')"

definition validate_progress :: "ui_journal option \<Rightarrow> ui_journal option \<Rightarrow> err option" where
  "validate_progress previous new =
    (case previous of
       None \<Rightarrow> None
     | Some p \<Rightarrow>
         (case new of
            None \<Rightarrow> Some (Msg ''UI journal prefix disappeared'')
          | Some n \<Rightarrow>
              or_else (check (length (uj_receipts n) < length (uj_receipts p)) ''UI journal prefix disappeared'')
                (first_err (map (\<lambda>(old, current). receipt_progress old current)
                  (zip (uj_receipts p) (uj_receipts n))))))"

text \<open>The JSON of a journal of UI receipts.\<close>

definition ui_receipt_json :: "ui_receipt \<Rightarrow> json" where
  "ui_receipt_json r = JObj
     ([(''index'', JNum (ur_index r)), (''kind'', JStr (ur_kind r)), (''outcome'', JStr (ur_outcome r)),
       (''session_id'', JStr (ur_session_id r))]
      @ (case ur_window r of None \<Rightarrow> []
         | Some w \<Rightarrow> [(''window'', JObj [(''width'', JNum (uw_width w)), (''height'', JNum (uw_height w))])])
      @ [(''event_count'', JNum (ur_event_count r))]
      @ unless (ur_error_code r = '''') ''error_code'' (JStr (ur_error_code r)))"

definition journal_json :: "ui_journal \<Rightarrow> json" where
  "journal_json j = JObj [(''schema_version'', JNum (uj_schema_version j)),
     (''receipts'', JArr (map ui_receipt_json (uj_receipts j)))]"

definition journal_bytes :: "ui_journal \<Rightarrow> string" where
  "journal_bytes j = render (journal_json j) @ [char_of (10 :: nat)]"

section \<open>What the validations mean\<close>

lemmas ui_journal_evaluate [evaluate] = valid_error_code_def ui_receipt_validate_def journal_validate_def
  mark_uncertain_def same_json_def receipt_progress_def validate_progress_def

lemma ui_receipts_validate_nth:
  "ui_receipts_validate session n i rs = None \<longleftrightarrow>
    (\<forall>k < length rs. ui_receipt_validate session (rs ! k) = None \<and> ur_index (rs ! k) = int (i + k)
       \<and> (ur_outcome (rs ! k) = Queued \<or> i + k + 1 = n))"
proof (induction rs arbitrary: i)
  case (Cons r rs)
  show ?case
    unfolding ui_receipts_validate.simps first_err.simps or_else_None Cons.IH
    by (auto simp: nth_Cons less_Suc_eq_0_disj split: nat.splits)
qed simp

lemma journal_valid_iff:
  "journal_validate session j = None \<longleftrightarrow>
    uj_schema_version j = 1 \<and> length (uj_receipts j) \<le> max_actions
    \<and> (\<forall>k < length (uj_receipts j).
        ui_receipt_validate session (uj_receipts j ! k) = None \<and> ur_index (uj_receipts j ! k) = int k
        \<and> (ur_outcome (uj_receipts j ! k) = Queued \<or> k + 1 = length (uj_receipts j)))"
  by (auto simp: journal_validate_def ui_receipts_validate_nth not_less)

lemma progress_iff:
  "validate_progress (Some p) (Some n) = None \<longleftrightarrow>
    length (uj_receipts p) \<le> length (uj_receipts n)
    \<and> (\<forall>k < length (uj_receipts p). receipt_progress (uj_receipts p ! k) (uj_receipts n ! k) = None)"
  by (auto simp: validate_progress_def all_set_conv_all_nth not_less)

lemma ui_kind_runes: "k \<in> {Click, Key, Text} \<Longrightarrow> l \<in> {Click, Key, Text} \<Longrightarrow> runes k = runes l \<longleftrightarrow> k = l"
proof -
  have "runes Click \<noteq> runes Key" "runes Click \<noteq> runes Text" "runes Key \<noteq> runes Text"
    by (simp_all add: evaluate)
  then show "k \<in> {Click, Key, Text} \<Longrightarrow> l \<in> {Click, Key, Text} \<Longrightarrow> runes k = runes l \<longleftrightarrow> k = l"
    by auto
qed

lemma valid_receipt_identity:
  "ui_receipt_validate session r = None \<Longrightarrow> ur_session_id r = session \<and> ur_kind r \<in> {Click, Key, Text}"
  by (auto simp: ui_receipt_validate_def)

lemma receipt_progress_trans:
  assumes "receipt_progress a b = None" "receipt_progress b c = None"
    and "ui_receipt_validate s a = None" "ui_receipt_validate s b = None" "ui_receipt_validate s c = None"
    and "ur_outcome a \<in> {Pending, Queued, Rejected, Uncertain}"
  shows "receipt_progress a c = None"
proof -
  have pending: "runes (ur_outcome b) \<noteq> runes (ur_outcome a)" if "ur_outcome a \<noteq> Pending" "ur_outcome b = Pending"
    using that assms(6) by (auto simp: evaluate)
  have "ur_kind b = ur_kind c" if "runes (ur_kind b) = runes (ur_kind c)"
    using that ui_kind_runes valid_receipt_identity assms(4,5) by blast
  moreover have "ur_session_id a = s" "ur_session_id b = s" "ur_session_id c = s"
    using assms(3-5) valid_receipt_identity by auto
  ultimately show ?thesis
    using assms(1,2) pending by (auto simp: receipt_progress_def same_json_def split: if_splits)
qed

lemma valid_receipt_outcome:
  "ui_receipt_validate session r = None \<Longrightarrow> ur_outcome r \<in> {Pending, Queued, Rejected, Uncertain}"
  by (auto simp: ui_receipt_validate_def split: if_splits)

text \<open>Among valid journals of one session, accepted progress composes: what a controller
  accepts step by step it would also accept in one step.\<close>

theorem progress_transitive:
  assumes "validate_progress (Some a) (Some b) = None" "validate_progress (Some b) (Some c) = None"
    and "journal_validate s a = None" "journal_validate s b = None" "journal_validate s c = None"
  shows "validate_progress (Some a) (Some c) = None"
  unfolding progress_iff
proof (intro conjI allI impI)
  show "length (uj_receipts a) \<le> length (uj_receipts c)" using assms(1,2) by (simp add: progress_iff)
  fix k assume k: "k < length (uj_receipts a)"
  then have "k < length (uj_receipts b)" "k < length (uj_receipts c)"
    using assms(1,2) by (auto simp: progress_iff)
  then have "ui_receipt_validate s (uj_receipts a ! k) = None" "ui_receipt_validate s (uj_receipts b ! k) = None"
      "ui_receipt_validate s (uj_receipts c ! k) = None"
    using k assms(3-5) unfolding journal_valid_iff by blast+
  moreover have "receipt_progress (uj_receipts a ! k) (uj_receipts b ! k) = None"
      "receipt_progress (uj_receipts b ! k) (uj_receipts c ! k) = None"
    using k \<open>k < length (uj_receipts b)\<close> assms(1,2) unfolding progress_iff by blast+
  ultimately show "receipt_progress (uj_receipts a ! k) (uj_receipts c ! k) = None"
    using receipt_progress_trans valid_receipt_outcome by blast
qed

definition sample_receipt :: "nat \<Rightarrow> string \<Rightarrow> ui_receipt" where
  "sample_receipt n outcome = \<lparr>ur_index = int n, ur_kind = Click, ur_outcome = outcome, ur_session_id = ''s1'',
     ur_window = Some \<lparr>uw_width = 640, uw_height = 480\<rparr>,
     ur_event_count = (if outcome = Queued then 3 else 0), ur_error_code = ''''\<rparr>"

definition sample_journal :: "string list \<Rightarrow> ui_journal" where
  "sample_journal os = \<lparr>uj_schema_version = 1,
     uj_receipts = map (\<lambda>(n, oc). sample_receipt n oc) (zip [0..<length os] os)\<rparr>"

lemmas sample_journal_evaluate = sample_journal_def sample_receipt_def

theorem progress_transitive_witness:
  "validate_progress (Some (sample_journal [Pending])) (Some (sample_journal [Queued, Pending])) = None"
  by (rule progress_transitive[of _ "sample_journal [Queued]" _ "''s1''"])
    (simp_all add: sample_journal_evaluate evaluate)

lemma journal_valid_snoc:
  assumes "uj_receipts j = front @ [l]"
  shows "journal_validate s j = None \<longleftrightarrow>
    uj_schema_version j = 1 \<and> Suc (length front) \<le> max_actions
    \<and> (\<forall>k < length front. ui_receipt_validate s (front ! k) = None \<and> ur_index (front ! k) = int k
         \<and> ur_outcome (front ! k) = Queued)
    \<and> ui_receipt_validate s l = None \<and> ur_index l = int (length front)"
  unfolding journal_valid_iff assms by (auto simp: nth_append less_Suc_eq simp del: ui_limits)

lemma mark_uncertain_snoc:
  assumes "uj_receipts j = front @ [l]"
  shows "uj_receipts (mark_uncertain j) = front @
    [if ur_outcome l = Pending then l\<lparr>ur_outcome := Uncertain, ur_error_code := ''delivery-unknown''\<rparr> else l]"
  using assms by (simp add: mark_uncertain_def)

lemma uncertain_receipt_valid:
  "ui_receipt_validate s l = None \<Longrightarrow> ur_outcome l = Pending \<Longrightarrow>
    ui_receipt_validate s (l\<lparr>ur_outcome := Uncertain, ur_error_code := ''delivery-unknown''\<rparr>) = None"
  by (auto simp: ui_receipt_validate_def valid_error_code_def split: option.splits)

lemma receipt_progress_refl: "receipt_progress r r = None"
  by (simp add: receipt_progress_def same_json_def)

text \<open>\<open>MarkUncertain\<close> turns a valid journal into a valid journal without a pending action,
  which the progress rule accepts as a continuation.\<close>

theorem mark_uncertain_settles:
  assumes valid: "journal_validate s j = None"
  shows "journal_validate s (mark_uncertain j) = None
    \<and> list_all (\<lambda>r. ur_outcome r \<noteq> Pending) (uj_receipts (mark_uncertain j))
    \<and> validate_progress (Some j) (Some (mark_uncertain j)) = None"
proof (cases "uj_receipts j" rule: rev_cases)
  case Nil
  then have "mark_uncertain j = j" by (simp add: mark_uncertain_def)
  then show ?thesis using Nil valid by (simp add: validate_progress_def)
next
  case (snoc front l)
  define l' where
    "l' = (if ur_outcome l = Pending then l\<lparr>ur_outcome := Uncertain, ur_error_code := ''delivery-unknown''\<rparr> else l)"
  have rs: "uj_receipts (mark_uncertain j) = front @ [l']"
    using mark_uncertain_snoc[OF snoc] by (simp add: l'_def)
  have version: "uj_schema_version (mark_uncertain j) = uj_schema_version j"
    by (simp add: mark_uncertain_def split: list.split)
  note old = valid[unfolded journal_valid_snoc[OF snoc]]
  have l': "ui_receipt_validate s l' = None" "ur_index l' = ur_index l" "ur_outcome l' \<noteq> Pending"
      "receipt_progress l l' = None"
    using old uncertain_receipt_valid[of s l] receipt_progress_refl
    by (auto simp: l'_def receipt_progress_def[of _ "_ \<lparr>ur_outcome := _\<rparr>"] receipt_progress_def same_json_def)
  have settled: "\<forall>r\<in>set front. ur_outcome r \<noteq> Pending"
    using old by (auto simp: in_set_conv_nth)
  have "journal_validate s (mark_uncertain j) = None"
    using old l' by (simp add: journal_valid_snoc[OF rs] version del: ui_limits)
  moreover have "validate_progress (Some j) (Some (mark_uncertain j)) = None"
    using l' by (auto simp: progress_iff snoc rs nth_append receipt_progress_refl less_Suc_eq)
  ultimately show ?thesis using settled l' by (simp add: rs list_all_iff)
qed

theorem mark_uncertain_settles_witness:
  "journal_validate ''s1'' (mark_uncertain (sample_journal [Queued, Pending])) = None"
  using mark_uncertain_settles[of "''s1''" "sample_journal [Queued, Pending]"]
  by (simp add: sample_journal_evaluate evaluate)

end
