(* ===== verification/Payload.thy ===== *)
theory Payload
  imports Capture UiJournal
begin

text \<open>
  \<open>internal/payload\<close>: the bounded input of one run. The theory models the validation of a
  manifest (the metadata that crosses to the host), the validation of a payload with its
  bytes, and \<open>Load\<close> from the decoded document on, down to the file reads.

  The file system is observed through a \<open>file_view\<close>: every system call happens at a time and
  other processes may change what it sees from one call to the next. An open file is followed
  by its identity, as a Unix descriptor is. The digest function is the argument \<open>sha\<close>
  (\<open>crypto/sha256\<close> with \<open>encoding/hex\<close>).
\<close>

section \<open>Data\<close>

definition max_document_bytes :: nat where "max_document_bytes = 2 ^ 20"
definition max_files :: nat where "max_files = 64"
definition max_file_bytes :: nat where "max_file_bytes = 8 * 2 ^ 20"
definition max_total_bytes :: nat where "max_total_bytes = 32 * 2 ^ 20"
definition default_timeout :: int where "default_timeout = 180"
definition max_timeout :: int where "max_timeout = 3600"

lemmas payload_limits [evaluate] =
  max_document_bytes_def max_files_def max_file_bytes_def max_total_bytes_def default_timeout_def max_timeout_def

record scenario =
  sc_ui_actions :: "batch option"
  sc_script :: string
  sc_read_timeout_seconds :: int
  sc_capture_viewport :: bool
  sc_capture_blender_window :: bool
  sc_capture_desktop :: bool

record payload_file =
  pf_source :: string
  pf_destination :: string
  pf_size :: int
  pf_sha256 :: string
  pf_local_path :: string
  pf_contents :: "string option"

record payload =
  pl_schema_version :: int
  pl_files :: "payload_file list"
  pl_scenario :: scenario

definition captures :: "scenario \<Rightarrow> string list" where
  "captures sc =
    (if sc_capture_viewport sc then [Viewport] else [])
    @ (if sc_capture_blender_window sc then [BlenderWindow] else [])
    @ (if sc_capture_desktop sc then [Desktop] else [])"

lemma captures_known: "k \<in> set (captures sc) \<Longrightarrow> describe k \<noteq> None"
  unfolding describe_known by (auto simp: captures_def split: if_splits)

lemma captures_distinct: "distinct (captures sc)"
  by (simp add: captures_def)

section \<open>Validation of a manifest\<close>

text \<open>The loop over the files with its destination set and running total.\<close>

fun manifest_files :: "(nat \<Rightarrow> nat) \<Rightarrow> string set \<Rightarrow> int \<Rightarrow> payload_file list \<Rightarrow> err + string set" where
  "manifest_files up seen used [] = Inr seen"
| "manifest_files up seen used (f # fs) =
    guard_res (validate_windows_relative up (pf_source f))
     (guard_res (validate_windows_relative up (pf_destination f))
       (let key = windows_key up (pf_destination f) in
        guard_res (check (key \<in> seen) ''duplicate destination'')
         (guard_res (check (pf_size f < 0 \<or> int max_file_bytes < pf_size f) ''source has invalid size'')
           (guard_res (check (\<not> hex64 (pf_sha256 f)) ''source has invalid SHA-256'')
             (guard_res (check (int max_total_bytes < used + pf_size f) ''payload exceeds the byte limit'')
               (manifest_files up (insert key seen) (used + pf_size f) fs))))))"

definition validate_manifest :: "(nat \<Rightarrow> nat) \<Rightarrow> payload \<Rightarrow> err option" where
  "validate_manifest up p =
    (let v = pl_schema_version p; sc = pl_scenario p in
     first_err
      [check (v \<noteq> 1 \<and> v \<noteq> 2 \<and> v \<noteq> 3) ''unsupported payload schema version'',
       check (v = 1 \<and> (sc_capture_blender_window sc \<or> sc_capture_desktop sc))
         ''Blender-window and desktop captures require payload schema version 2'',
       check (v = 3 \<and> sc_ui_actions sc = None) ''payload schema version 3 requires a UI action batch'',
       (case sc_ui_actions sc of None \<Rightarrow> None
        | Some b \<Rightarrow> or_else (check (v \<noteq> 3) ''UI actions require payload schema version 3'') (batch_validate b)),
       check (length (pl_files p) = 0 \<or> max_files < length (pl_files p)) ''payload file count is outside 1..64'',
       check (sc_read_timeout_seconds sc < 1 \<or> max_timeout < sc_read_timeout_seconds sc)
         ''scenario read timeout must be within 1..3600 seconds'',
       validate_windows_relative up (sc_script sc),
       (case manifest_files up {} 0 (pl_files p) of
          Inl e \<Rightarrow> Some e
        | Inr seen \<Rightarrow> check (windows_key up (sc_script sc) \<notin> seen)
            ''scenario script is not a declared destination'')])"

fun contents_match :: "(string \<Rightarrow> string) \<Rightarrow> payload_file list \<Rightarrow> err option" where
  "contents_match sha [] = None"
| "contents_match sha (f # fs) =
    (case pf_contents f of
       None \<Rightarrow> Some (Msg ''source has no validated contents'')
     | Some bs \<Rightarrow>
         first_err
          [check (int (length bs) \<noteq> pf_size f) ''source size does not match validated contents'',
           check (sha bs \<noteq> pf_sha256 f) ''source SHA-256 does not match validated contents'',
           contents_match sha fs])"

definition payload_validate :: "(nat \<Rightarrow> nat) \<Rightarrow> (string \<Rightarrow> string) \<Rightarrow> payload \<Rightarrow> err option" where
  "payload_validate up sha p = or_else (validate_manifest up p) (contents_match sha (pl_files p))"

section \<open>Reading a declared file\<close>

datatype node_kind = Regular | Symlink | Other

record file_view =
  fv_lstat :: "nat \<Rightarrow> string \<Rightarrow> (node_kind \<times> nat) option"
  fv_stat :: "nat \<Rightarrow> string \<Rightarrow> (node_kind \<times> nat) option"
  fv_open :: "nat \<Rightarrow> string \<Rightarrow> nat option"
  fv_kind :: "nat \<Rightarrow> nat \<Rightarrow> node_kind option"
  fv_read :: "nat \<Rightarrow> nat \<Rightarrow> string option"
  fv_size :: "nat \<Rightarrow> nat \<Rightarrow> nat"
  fv_mode :: "nat \<Rightarrow> nat \<Rightarrow> nat"
  fv_mtime :: "nat \<Rightarrow> nat \<Rightarrow> int"

definition changed :: err where "changed = Msg ''file changed during validation''"

text \<open>The component walk; the time advances by one for each system call.\<close>

fun walk :: "file_view \<Rightarrow> nat \<Rightarrow> string \<Rightarrow> string list \<Rightarrow> err + (nat \<times> string)" where
  "walk fv t current [] = Inr (t, current)"
| "walk fv t current (c # cs) =
    (let path = path_clean (current @ ''/'' @ c) in
     case fv_lstat fv t path of
       None \<Rightarrow> Inl IoFault
     | Some (kind, ident) \<Rightarrow>
         if kind = Symlink then Inl (Msg ''not a regular file without symlinks'')
         else walk fv (Suc t) path cs)"

definition regular_file_without_symlinks ::
  "file_view \<Rightarrow> nat \<Rightarrow> string \<Rightarrow> string \<Rightarrow> err + (nat \<times> string \<times> nat)" where
  "regular_file_without_symlinks fv t base portable =
    bind_res (walk fv t base (split_on CHR ''/'' portable)) (\<lambda>(t, current).
      case fv_stat fv t current of
        None \<Rightarrow> Inl IoFault
      | Some (kind, ident) \<Rightarrow>
          if kind \<noteq> Regular then Inl (Msg ''not a regular file'') else Inr (Suc t, current, ident))"

text \<open>\<open>fileInfoStable\<close> for two observations of the same descriptor.\<close>

definition file_info_stable :: "file_view \<Rightarrow> nat \<Rightarrow> nat \<Rightarrow> nat \<Rightarrow> bool" where
  "file_info_stable fv before after ident \<longleftrightarrow>
     fv_kind fv before ident = fv_kind fv after ident \<and> fv_mode fv before ident = fv_mode fv after ident
     \<and> fv_size fv before ident = fv_size fv after ident \<and> fv_mtime fv before ident = fv_mtime fv after ident"

definition read_validated_file ::
  "file_view \<Rightarrow> nat \<Rightarrow> string \<Rightarrow> string \<Rightarrow> err + (nat \<times> string \<times> string)" where
  "read_validated_file fv t0 base portable =
    bind_res (regular_file_without_symlinks fv t0 base portable) (\<lambda>(t1, path, before).
     case fv_open fv t1 path of None \<Rightarrow> Inl IoFault | Some opened \<Rightarrow>
     (let t2 = t1 + 1; t3 = t2 + 1; t4 = t3 + 1; t5 = t4 + 1; t6 = t5 + 1 in
      case fv_kind fv t2 opened of None \<Rightarrow> Inl IoFault | Some kind \<Rightarrow>
      guard_res (if kind \<noteq> Regular \<or> before \<noteq> opened then Some changed else None)
       (case fv_read fv t3 opened of None \<Rightarrow> Inl IoFault | Some bytes \<Rightarrow>
        (let contents = take (max_file_bytes + 1) bytes in
         guard_res (check (max_file_bytes < length contents) ''file exceeds the byte limit'')
          (guard_res (if length contents \<noteq> fv_size fv t2 opened then Some changed else None)
            (guard_res
              (case fv_read fv t4 opened of
                 None \<Rightarrow> Some changed
               | Some again \<Rightarrow> if contents \<noteq> take (max_file_bytes + 1) again then Some changed else None)
              (guard_res (if fv_kind fv t5 opened = None \<or> \<not> file_info_stable fv t2 t5 opened
                          then Some changed else None)
                (case regular_file_without_symlinks fv t6 base portable of
                   Inl e \<Rightarrow> Inl changed
                 | Inr (t7, path', after) \<Rightarrow>
                     if opened \<noteq> after then Inl changed else Inr (t7, path, contents)))))))))"

section \<open>Load\<close>

record declared_file =
  df_source :: string
  df_destination :: string

record payload_document =
  pd_schema_version :: int
  pd_files :: "declared_file list"
  pd_scenario :: scenario

text \<open>The loop of \<open>Load\<close>: destinations, running total and the files read so far.\<close>

fun load_files ::
  "(nat \<Rightarrow> nat) \<Rightarrow> (string \<Rightarrow> string) \<Rightarrow> file_view \<Rightarrow> string \<Rightarrow> nat \<Rightarrow> string set \<Rightarrow> nat \<Rightarrow> declared_file list
    \<Rightarrow> err + (string set \<times> payload_file list)" where
  "load_files up sha fv base t seen used [] = Inr (seen, [])"
| "load_files up sha fv base t seen used (d # ds) =
    guard_res (validate_windows_relative up (df_source d))
     (guard_res (validate_windows_relative up (df_destination d))
       (let key = windows_key up (df_destination d) in
        guard_res (check (key \<in> seen) ''duplicate destination'')
         (case read_validated_file fv t base (df_source d) of
            Inl e \<Rightarrow> Inl (Wrap ''source'' e)
          | Inr (t', path, bs) \<Rightarrow>
              guard_res (check (max_total_bytes < used + length bs) ''payload exceeds the byte limit'')
               (bind_res (load_files up sha fv base t' (insert key seen) (used + length bs) ds)
                 (\<lambda>(seen', files). Inr (seen',
                   \<lparr>pf_source = df_source d, pf_destination = df_destination d, pf_size = int (length bs),
                    pf_sha256 = sha bs, pf_local_path = path, pf_contents = Some bs\<rparr> # files))))))"

definition load ::
  "(nat \<Rightarrow> nat) \<Rightarrow> (string \<Rightarrow> string) \<Rightarrow> file_view \<Rightarrow> string \<Rightarrow> payload_document \<Rightarrow> err + payload" where
  "load up sha fv base d =
    (let v = pd_schema_version d;
         sc0 = pd_scenario d;
         sc = (if sc_read_timeout_seconds sc0 = 0 then sc0\<lparr>sc_read_timeout_seconds := default_timeout\<rparr> else sc0)
     in guard_res (first_err
          [check (v \<noteq> 1 \<and> v \<noteq> 2 \<and> v \<noteq> 3) ''unsupported payload schema version'',
           check (v = 3 \<and> sc_ui_actions sc0 = None) ''payload schema version 3 requires a UI action batch'',
           check (v = 1 \<and> (sc_capture_blender_window sc0 \<or> sc_capture_desktop sc0))
             ''Blender-window and desktop captures require payload schema version 2'',
           check (length (pd_files d) = 0 \<or> max_files < length (pd_files d)) ''payload file count is outside 1..64'',
           check (sc_read_timeout_seconds sc < 1 \<or> max_timeout < sc_read_timeout_seconds sc)
             ''scenario read timeout must be within 1..3600 seconds'',
           validate_windows_relative up (sc_script sc)])
        (bind_res (load_files up sha fv base 0 {} 0 (pd_files d)) (\<lambda>(seen, files).
          let p = \<lparr>pl_schema_version = v, pl_files = files, pl_scenario = sc\<rparr> in
          guard_res (check (windows_key up (sc_script sc) \<notin> seen) ''scenario script is not a declared destination'')
           (guard_res (payload_validate up sha p) (Inr p)))))"

lemmas payload_evaluate [evaluate] =
  captures_def validate_manifest_def payload_validate_def regular_file_without_symlinks_def
  file_info_stable_def read_validated_file_def load_def changed_def

section \<open>What validation establishes\<close>

text \<open>The declarative reading of the file loop.\<close>

definition manifest_file_ok :: "(nat \<Rightarrow> nat) \<Rightarrow> payload_file \<Rightarrow> bool" where
  "manifest_file_ok up f \<longleftrightarrow>
     validate_windows_relative up (pf_source f) = None \<and> validate_windows_relative up (pf_destination f) = None
     \<and> 0 \<le> pf_size f \<and> pf_size f \<le> int max_file_bytes \<and> hex64 (pf_sha256 f)"

definition destination_keys :: "(nat \<Rightarrow> nat) \<Rightarrow> payload_file list \<Rightarrow> string list" where
  "destination_keys up fs = map (\<lambda>f. windows_key up (pf_destination f)) fs"

lemma manifest_files_iff:
  "manifest_files up seen used fs = Inr ks \<longleftrightarrow>
    (\<forall>f\<in>set fs. manifest_file_ok up f) \<and> distinct (destination_keys up fs)
    \<and> set (destination_keys up fs) \<inter> seen = {}
    \<and> (fs \<noteq> [] \<longrightarrow> used + sum_list (map pf_size fs) \<le> int max_total_bytes)
    \<and> ks = seen \<union> set (destination_keys up fs)"
proof (induction fs arbitrary: seen used)
  case Nil
  then show ?case by (auto simp: destination_keys_def)
next
  case (Cons f fs)
  have pos: "(\<forall>f\<in>set fs. manifest_file_ok up f) \<Longrightarrow> 0 \<le> sum_list (map pf_size fs)"
    by (intro sum_list_nonneg) (auto simp: manifest_file_ok_def)
  show ?case
    using pos by (auto simp: Let_def Cons.IH destination_keys_def manifest_file_ok_def not_less)
qed

text \<open>The declarative reading of an accepted manifest.\<close>

definition manifest_ok :: "(nat \<Rightarrow> nat) \<Rightarrow> payload \<Rightarrow> bool" where
  "manifest_ok up p \<longleftrightarrow>
     pl_schema_version p \<in> {1, 2, 3}
     \<and> (pl_schema_version p = 1 \<longrightarrow> set (captures (pl_scenario p)) \<subseteq> {Viewport})
     \<and> (case sc_ui_actions (pl_scenario p) of
          None \<Rightarrow> pl_schema_version p \<noteq> 3
        | Some b \<Rightarrow> pl_schema_version p = 3 \<and> batch_validate b = None)
     \<and> length (pl_files p) \<in> {1..max_files}
     \<and> sc_read_timeout_seconds (pl_scenario p) \<in> {1..max_timeout}
     \<and> (\<forall>f\<in>set (pl_files p). manifest_file_ok up f)
     \<and> distinct (destination_keys up (pl_files p))
     \<and> sum_list (map pf_size (pl_files p)) \<le> int max_total_bytes
     \<and> validate_windows_relative up (sc_script (pl_scenario p)) = None
     \<and> windows_key up (sc_script (pl_scenario p)) \<in> set (destination_keys up (pl_files p))"

lemma captures_version_1:
  "set (captures sc) \<subseteq> {Viewport} \<longleftrightarrow> \<not> sc_capture_blender_window sc \<and> \<not> sc_capture_desktop sc"
  by (auto simp: captures_def)

lemma manifest_files_error_iff:
  "(case manifest_files up {} 0 fs of Inl e \<Rightarrow> Some e | Inr seen \<Rightarrow> check (k \<notin> seen) m) = None \<longleftrightarrow>
    (\<forall>f\<in>set fs. manifest_file_ok up f) \<and> distinct (destination_keys up fs)
    \<and> (fs \<noteq> [] \<longrightarrow> sum_list (map pf_size fs) \<le> int max_total_bytes) \<and> k \<in> set (destination_keys up fs)"
  using manifest_files_iff[of up "{}" 0 fs] manifest_files_iff[of up "{}" 0 fs "set (destination_keys up fs)"]
  by (cases "manifest_files up {} 0 fs") auto

text \<open>C37: an accepted manifest has a known version whose features match it, one to 64 files with
  safe paths, distinct destinations under Windows' case folding, sizes and digests within bounds,
  at most 32 MiB in all, and its script among the destinations.\<close>

theorem manifest_accepted_iff: "validate_manifest up p = None \<longleftrightarrow> manifest_ok up p"
  unfolding validate_manifest_def manifest_ok_def Let_def first_err_None captures_version_1
    manifest_files_error_iff list.set ball_simps
  by (cases "sc_ui_actions (pl_scenario p)"; cases "pl_files p") (auto simp: not_less max_files_def)

lemma contents_match_iff:
  "contents_match sha fs = None \<longleftrightarrow>
    (\<forall>f\<in>set fs. \<exists>bs. pf_contents f = Some bs \<and> pf_size f = int (length bs) \<and> pf_sha256 f = sha bs)"
  by (induction fs) (auto split: option.splits)

section \<open>What Load returns\<close>

text \<open>The file at \<open>portable\<close> below \<open>base\<close> was, when it was opened and again when it had been
  read, the same regular file reached without symbolic links, and it held \<open>bs\<close>.\<close>

definition walked :: "file_view \<Rightarrow> nat \<Rightarrow> string \<Rightarrow> string list \<Rightarrow> bool" where
  "walked fv t base cs \<longleftrightarrow>
     (\<forall>i < length cs. \<exists>kind ident.
        fv_lstat fv (t + i) (foldl (\<lambda>cur c. path_clean (cur @ ''/'' @ c)) base (take (Suc i) cs)) = Some (kind, ident)
        \<and> kind \<noteq> Symlink)"

lemma walk_walked:
  "walk fv t cur cs = Inr (t', p) \<Longrightarrow>
     walked fv t cur cs \<and> t' = t + length cs \<and> p = foldl (\<lambda>cur c. path_clean (cur @ ''/'' @ c)) cur cs"
proof (induction cs arbitrary: t cur)
  case Nil
  then show ?case by (auto simp: walked_def)
next
  case (Cons c cs)
  let ?p = "path_clean (cur @ ''/'' @ c)"
  from Cons.prems obtain kind ident where l: "fv_lstat fv t ?p = Some (kind, ident)" "kind \<noteq> Symlink"
    and rest: "walk fv (Suc t) ?p cs = Inr (t', p)"
    by (auto simp: Let_def split: option.splits if_splits)
  from Cons.IH[OF rest] have w: "walked fv (Suc t) ?p cs" "t' = Suc t + length cs"
      "p = foldl (\<lambda>cur c. path_clean (cur @ ''/'' @ c)) ?p cs" by auto
  have "walked fv t cur (c # cs)"
    unfolding walked_def
  proof (intro allI impI)
    fix i assume "i < length (c # cs)"
    then show "\<exists>kind ident. fv_lstat fv (t + i)
        (foldl (\<lambda>cur c. path_clean (cur @ ''/'' @ c)) cur (take (Suc i) (c # cs))) = Some (kind, ident)
        \<and> kind \<noteq> Symlink"
      using l w(1) by (cases i) (auto simp: walked_def)
  qed
  with w show ?case by simp
qed

definition stable_read :: "file_view \<Rightarrow> string \<Rightarrow> string \<Rightarrow> string \<Rightarrow> bool" where
  "stable_read fv base portable bs \<longleftrightarrow>
     (\<exists>t t' r s ident path. t < r \<and> r < s \<and> s < t'
       \<and> walked fv t base (split_on CHR ''/'' portable) \<and> walked fv t' base (split_on CHR ''/'' portable)
       \<and> path = foldl (\<lambda>cur c. path_clean (cur @ ''/'' @ c)) base (split_on CHR ''/'' portable)
       \<and> fv_stat fv (t' + length (split_on CHR ''/'' portable)) path = Some (Regular, ident)
       \<and> fv_read fv r ident = Some bs \<and> fv_read fv s ident = Some bs)"

lemma regular_walked:
  assumes "regular_file_without_symlinks fv t base portable = Inr (t', p, ident)"
  shows "walked fv t base (split_on CHR ''/'' portable)"
    and "t' = Suc (t + length (split_on CHR ''/'' portable))"
    and "p = foldl (\<lambda>cur c. path_clean (cur @ ''/'' @ c)) base (split_on CHR ''/'' portable)"
    and "fv_stat fv (t + length (split_on CHR ''/'' portable)) p = Some (Regular, ident)"
proof -
  obtain a q where w: "walk fv t base (split_on CHR ''/'' portable) = Inr (a, q)"
    using assms by (cases "walk fv t base (split_on CHR ''/'' portable)") (auto simp: regular_file_without_symlinks_def)
  then have "fv_stat fv a q = Some (Regular, ident)" "p = q" "t' = Suc a"
    using assms by (auto simp: regular_file_without_symlinks_def split: option.splits if_splits)
  with walk_walked[OF w] show "walked fv t base (split_on CHR ''/'' portable)"
    "t' = Suc (t + length (split_on CHR ''/'' portable))"
    "p = foldl (\<lambda>cur c. path_clean (cur @ ''/'' @ c)) base (split_on CHR ''/'' portable)"
    "fv_stat fv (t + length (split_on CHR ''/'' portable)) p = Some (Regular, ident)" by simp_all
qed

lemma read_validated_stable:
  assumes "read_validated_file fv t0 base portable = Inr (t, path, bs)"
  shows "stable_read fv base portable bs" "length bs \<le> max_file_bytes"
    and "path = foldl (\<lambda>cur c. path_clean (cur @ ''/'' @ c)) base (split_on CHR ''/'' portable)"
proof -
  let ?cs = "split_on CHR ''/'' portable"
  let ?path = "foldl (\<lambda>cur c. path_clean (cur @ ''/'' @ c)) base ?cs"
  obtain t1 p b where first: "regular_file_without_symlinks fv t0 base portable = Inr (t1, p, b)"
    using assms by (auto simp: read_validated_file_def)
  note rest = assms[unfolded read_validated_file_def first bind_res_simps prod.case]
  obtain opened where o: "fv_open fv t1 p = Some opened" using rest by (cases "fv_open fv t1 p") auto
  note rest = rest[unfolded o option.case Let_def]
  obtain bytes again where r: "fv_read fv (t1 + 1 + 1) opened = Some bytes"
      "fv_read fv (t1 + 1 + 1 + 1) opened = Some again"
    using rest by (auto split: option.splits if_splits)
  obtain t7 p' after where last:
      "regular_file_without_symlinks fv (t1 + 1 + 1 + 1 + 1 + 1) base portable = Inr (t7, p', after)"
    using rest r by (cases "regular_file_without_symlinks fv (t1 + 1 + 1 + 1 + 1 + 1) base portable")
      (auto split: option.splits if_splits)
  have out: "opened = after" "path = p" "bs = take (max_file_bytes + 1) bytes"
      "bs = take (max_file_bytes + 1) again" "length bs \<le> max_file_bytes"
    using rest unfolding r last by (simp_all split: option.splits if_splits)
  note one = regular_walked[OF first] and two = regular_walked[OF last]
  have full: "bs = bytes" "bs = again"
    using out(3-5) by (auto simp: take_all_iff min_def split: if_splits)
  show "stable_read fv base portable bs"
    unfolding stable_read_def
    using one two full r out(1) by (intro exI[of _ t0] exI[of _ "t1 + 1 + 1 + 1 + 1 + 1"] exI[of _ "t1 + 1 + 1"]
        exI[of _ "t1 + 1 + 1 + 1"] exI[of _ opened] exI[of _ ?path]) simp
  show "length bs \<le> max_file_bytes" "path = ?path" using out one by auto
qed

lemma load_files_facts:
  "load_files up sha fv base t seen used ds = Inr (seen', fs) \<Longrightarrow>
    seen' = seen \<union> set (destination_keys up fs)
    \<and> distinct (destination_keys up fs) \<and> set (destination_keys up fs) \<inter> seen = {}
    \<and> map pf_source fs = map df_source ds \<and> map pf_destination fs = map df_destination ds
    \<and> (\<forall>f\<in>set fs. \<exists>bs. pf_contents f = Some bs \<and> pf_size f = int (length bs) \<and> pf_sha256 f = sha bs
         \<and> length bs \<le> max_file_bytes \<and> stable_read fv base (pf_source f) bs
         \<and> validate_windows_relative up (pf_source f) = None
         \<and> validate_windows_relative up (pf_destination f) = None)
    \<and> (fs \<noteq> [] \<longrightarrow> int used + sum_list (map pf_size fs) \<le> int max_total_bytes)"
proof (induction ds arbitrary: t seen used seen' fs)
  case Nil
  then show ?case by (auto simp: destination_keys_def)
next
  case (Cons d ds)
  let ?key = "windows_key up (df_destination d)"
  from Cons.prems obtain t' path bs fs' where
    ok: "validate_windows_relative up (df_source d) = None" "validate_windows_relative up (df_destination d) = None"
      "?key \<notin> seen" "used + length bs \<le> max_total_bytes"
    and read: "read_validated_file fv t base (df_source d) = Inr (t', path, bs)"
    and rest: "load_files up sha fv base t' (insert ?key seen) (used + length bs) ds = Inr (seen', fs')"
    and fs: "fs = \<lparr>pf_source = df_source d, pf_destination = df_destination d, pf_size = int (length bs),
                    pf_sha256 = sha bs, pf_local_path = path, pf_contents = Some bs\<rparr> # fs'"
    by (auto simp: Let_def not_less split: sum.splits if_splits)
  from read_validated_stable[OF read] have "stable_read fv base (df_source d) bs" "length bs \<le> max_file_bytes"
    by auto
  with ok Cons.IH[OF rest] show ?case
    by (auto simp: fs destination_keys_def)
qed

text \<open>C36: a payload that \<open>Load\<close> returns is valid and is the declared one: its files are the
  declared ones in their order, and the bytes of each were read twice, equal, from one regular
  file below the payload's directory that was reached without a symbolic link both times.\<close>

theorem load_returns_stable_payload:
  assumes "load up sha fv base d = Inr p"
  shows "payload_validate up sha p = None
    \<and> map (\<lambda>f. (pf_source f, pf_destination f)) (pl_files p)
        = map (\<lambda>f. (df_source f, df_destination f)) (pd_files d)
    \<and> list_all (\<lambda>f. \<exists>bs. pf_contents f = Some bs \<and> stable_read fv base (pf_source f) bs) (pl_files p)"
proof -
  obtain seen fs where files: "load_files up sha fv base 0 {} 0 (pd_files d) = Inr (seen, fs)"
    and p: "pl_files p = fs" and valid: "payload_validate up sha p = None"
    using assms by (auto simp: load_def Let_def split: if_splits)
  note facts = load_files_facts[OF files]
  have "map (\<lambda>f. (pf_source f, pf_destination f)) fs = zip (map pf_source fs) (map pf_destination fs)"
    by (simp add: zip_map_map zip_same_conv_map)
  also have "\<dots> = zip (map df_source (pd_files d)) (map df_destination (pd_files d))" using facts by simp
  also have "\<dots> = map (\<lambda>f. (df_source f, df_destination f)) (pd_files d)"
    by (simp add: zip_map_map zip_same_conv_map)
  finally show ?thesis using facts p valid by (auto simp: list_all_iff)
qed

definition quiet_view :: "string \<Rightarrow> file_view" where
  "quiet_view bytes = \<lparr>fv_lstat = (\<lambda>t p. Some (Regular, 7)), fv_stat = (\<lambda>t p. Some (Regular, 7)),
     fv_open = (\<lambda>t p. Some 7), fv_kind = (\<lambda>t i. Some Regular), fv_read = (\<lambda>t i. Some bytes),
     fv_size = (\<lambda>t i. length bytes), fv_mode = (\<lambda>t i. 420), fv_mtime = (\<lambda>t i. 0)\<rparr>"

definition sample_scenario :: scenario where
  "sample_scenario = \<lparr>sc_ui_actions = None, sc_script = ''a.py'', sc_read_timeout_seconds = 0,
     sc_capture_viewport = True, sc_capture_blender_window = False, sc_capture_desktop = False\<rparr>"

definition sample_document :: payload_document where
  "sample_document = \<lparr>pd_schema_version = 1, pd_files = [\<lparr>df_source = ''s.py'', df_destination = ''A.py''\<rparr>],
     pd_scenario = sample_scenario\<rparr>"

definition sample_payload :: payload where
  "sample_payload = \<lparr>pl_schema_version = 1,
     pl_files = [\<lparr>pf_source = ''s.py'', pf_destination = ''A.py'', pf_size = 1, pf_sha256 = replicate 64 CHR ''0'',
       pf_local_path = ''/p/s.py'', pf_contents = Some ''x''\<rparr>],
     pl_scenario = sample_scenario\<lparr>sc_read_timeout_seconds := 180\<rparr>\<rparr>"

lemma sample_replicate [simp]: "list_all hex_char (replicate n CHR ''0'')"
  by (induction n) (simp_all add: evaluate)

lemma sample_payload_valid:
  "payload_validate id (\<lambda>bs. replicate 64 CHR ''0'') sample_payload = None"
  by (simp add: sample_payload_def sample_scenario_def evaluate)

lemma sample_load:
  "load id (\<lambda>bs. replicate 64 CHR ''0'') (quiet_view ''x'') ''/p'' sample_document = Inr sample_payload"
  by (simp add: sample_payload_def sample_document_def sample_scenario_def quiet_view_def evaluate
     )

theorem load_returns_stable_payload_witness:
  "payload_validate id (\<lambda>bs. replicate 64 CHR ''0'') sample_payload = None
    \<and> list_all (\<lambda>f. \<exists>bs. pf_contents f = Some bs \<and> stable_read (quiet_view ''x'') ''/p'' (pf_source f) bs)
        (pl_files sample_payload)"
  using load_returns_stable_payload[OF sample_load] by blast

end
