(* ===== verification/WindowsTarget.thy ===== *)
theory WindowsTarget
  imports SafePath
begin

text \<open>
  \<open>internal/windowstarget/config.go\<close>: the grammar of absolute Windows paths that cross process
  boundaries and the validation of a Windows target. The two ranges over a map in \<open>Validate\<close>
  run in an unspecified order; only the label inside the error text depends on it, and the
  model's errors carry no label.
\<close>

definition max_windows_path_tail :: nat where "max_windows_path_tail = 238"
definition setup_owner_id_length :: nat where "setup_owner_id_length = length ''bbsa_'' + 43"
definition max_setup_work_root_tail :: nat where
  "max_setup_work_root_tail = max_windows_path_tail - length (CHR 0x5C # ''setup-owner'' @ CHR 0x5C # ''setup-attempts'' @ [CHR 0x5C])
     - setup_owner_id_length - length [CHR 0x5C] - setup_owner_id_length - length ''.ps1''"
definition max_setup_host_executable_tail :: nat where
  "max_setup_host_executable_tail = max_windows_path_tail - length ''.setup-backup-'' - 32"

lemmas windows_limits [simp, evaluate] = max_windows_path_tail_def setup_owner_id_length_def
  max_setup_work_root_tail_def max_setup_host_executable_tail_def

record windows_config =
  wt_ssh_user :: string
  wt_interactive_user :: string
  wt_work_root :: string
  wt_task_name :: string
  wt_blender_executable :: string
  wt_session_broker_executable :: string
  wt_host_executable :: string

definition is_alpha :: "char \<Rightarrow> bool" where "is_alpha c \<longleftrightarrow> is_upper c \<or> is_lower c"

text \<open>The patterns of the file.\<close>

definition task_name_pattern :: "string \<Rightarrow> bool" where
  "task_name_pattern s = led_run is_alnum (\<lambda>c. is_alnum c \<or> c \<in> set ''._ -'') 127 s"

definition user_pattern :: "string \<Rightarrow> bool" where
  "user_pattern s = led_run is_alnum (\<lambda>c. is_alnum c \<or> c \<in> {CHR ''.'', CHR ''_'', CHR 0x5C, CHR ''@'', CHR ''-''}) 127 s"

definition drive_prefix :: "string \<Rightarrow> bool" where
  "drive_prefix s = (case s of a # b # c # _ \<Rightarrow> is_alpha a \<and> b = CHR '':'' \<and> c = CHR 0x5C | _ \<Rightarrow> False)"

definition work_root_pattern :: "string \<Rightarrow> bool" where
  "work_root_pattern s \<longleftrightarrow> drive_prefix s
     \<and> (let rs = runes (drop 3 s) in length rs \<in> {1..238}
          \<and> list_all (\<lambda>r. r \<notin> {13, 10, 34, 39, 42, 63, 60, 62, 124}) rs)"

definition scp_path_pattern :: "string \<Rightarrow> bool" where
  "scp_path_pattern s \<longleftrightarrow> drive_prefix s
     \<and> run_of (\<lambda>c. is_alnum c \<or> c \<in> {CHR ''.'', CHR ''_'', CHR 0x5C, CHR ''-''}) 1 238 (drop 3 s)"

definition ascii_upper :: "char \<Rightarrow> char" where
  "ascii_upper c = (if is_lower c then char_of (code c - 32) else c)"

definition reserved_device :: "string \<Rightarrow> bool" where
  "reserved_device s =
    (let u = map ascii_upper s in
     u \<in> {''CON'', ''PRN'', ''AUX'', ''NUL''}
     \<or> length u = 4 \<and> (take 3 u = ''COM'' \<or> take 3 u = ''LPT'') \<and> between 49 57 (code (u ! 3)))"

definition windows_path_tail_units :: "string \<Rightarrow> nat" where
  "windows_path_tail_units p = (if length p < 3 then 0 else utf16_len (drop 3 p))"

definition bad_segment :: "string \<Rightarrow> bool" where
  "bad_segment s \<longleftrightarrow>
     s = '''' \<or> s = ''.'' \<or> s = ''..'' \<or> trim_right s '' .'' \<noteq> s
     \<or> list_ex (\<lambda>r. r < 32 \<or> r \<in> {37, 58, 34, 39, 42, 63, 60, 62, 124}) (runes s)
     \<or> reserved_device (hd (split_on CHR ''.'' s))"

definition validate_windows_path :: "string \<Rightarrow> bool" where
  "validate_windows_path p \<longleftrightarrow>
     \<not> (\<not> work_root_pattern p \<or> max_windows_path_tail < windows_path_tail_units p
        \<or> contains p ''/'' \<or> has_suffix p [CHR 0x5C])
     \<and> list_all (\<lambda>s. \<not> bad_segment s) (split_on CHR 0x5C (drop 3 p))"

definition validate_legacy_scp_windows_path :: "string \<Rightarrow> bool" where
  "validate_legacy_scp_windows_path p \<longleftrightarrow> scp_path_pattern p \<and> validate_windows_path p"

text \<open>\<open>path[:strings.LastIndex(path, sep)]\<close>, for a path that contains the separator.\<close>

definition before_last :: "char \<Rightarrow> string \<Rightarrow> string" where
  "before_last d s = rev (tl (dropWhile (\<lambda>c. c \<noteq> d) (rev s)))"

definition inside_work_root :: "(nat \<Rightarrow> nat) \<Rightarrow> string \<Rightarrow> string \<Rightarrow> err option" where
  "inside_work_root up root path =
    (let root_key = windows_key up root; path_key = windows_key up path in
     first_err
      [check (\<not> has_prefix path_key (root_key @ [CHR 0x5C])) ''target executable must be inside work_root'',
       check (windows_key up (before_last CHR 0x5C path) = root_key)
         ''target executable must be inside a dedicated executable directory'',
       check (list_ex (\<lambda>directory. has_prefix path_key
                (windows_key up (root @ [CHR 0x5C] @ directory @ [CHR 0x5C]))) [''runs'', ''receipts'', ''setup-owner''])
         ''target executable must not use a reserved state directory''])"

definition windows_validate :: "(nat \<Rightarrow> nat) \<Rightarrow> windows_config \<Rightarrow> err option" where
  "windows_validate up v =
    first_err
     [check (\<not> user_pattern (wt_ssh_user v)) ''target ssh_user is unsafe'',
      check (\<not> validate_windows_path (wt_work_root v)) ''target work_root must be an absolute safe Windows path'',
      check (\<not> validate_legacy_scp_windows_path (wt_work_root v))
        ''target work_root must use the legacy-SCP-safe Windows path grammar'',
      check (max_setup_work_root_tail < length (drop 3 (wt_work_root v)))
        ''target work_root must reserve space for setup staging paths'',
      check (\<not> user_pattern (wt_interactive_user v)) ''target interactive_user is unsafe'',
      check (\<not> task_name_pattern (wt_task_name v)) ''target task_name is unsafe'',
      check (\<not> list_all validate_windows_path
               [wt_blender_executable v, wt_session_broker_executable v, wt_host_executable v])
        ''target executable must be an absolute safe Windows file path'',
      check (max_setup_host_executable_tail < windows_path_tail_units (wt_host_executable v))
        ''target host_executable must reserve space for setup replacement paths'',
      inside_work_root up (wt_work_root v) (wt_session_broker_executable v),
      inside_work_root up (wt_work_root v) (wt_host_executable v),
      check (\<not> distinct (map (windows_key up)
               [wt_blender_executable v, wt_session_broker_executable v, wt_host_executable v]))
        ''target executable paths must be distinct'']"

lemmas windows_target_evaluate [evaluate] = is_alpha_def task_name_pattern_def user_pattern_def
  drive_prefix_def work_root_pattern_def scp_path_pattern_def ascii_upper_def reserved_device_def
  windows_path_tail_units_def bad_segment_def validate_windows_path_def
  validate_legacy_scp_windows_path_def before_last_def inside_work_root_def windows_validate_def

section \<open>A target\<close>

text \<open>A target in the form the README shows.\<close>

definition win_path :: "string list \<Rightarrow> string" where
  "win_path cs = ''C:'' @ [CHR 0x5C] @ join_with CHR 0x5C cs"

definition sample_windows :: windows_config where
  "sample_windows = \<lparr>wt_ssh_user = ''bb'', wt_interactive_user = ''bb'', wt_work_root = win_path [''bb''],
     wt_task_name = ''bb'', wt_blender_executable = win_path [''b.exe''],
     wt_session_broker_executable = win_path [''bb'', ''bin'', ''s.exe''],
     wt_host_executable = win_path [''bb'', ''bin'', ''h.exe'']\<rparr>"

lemma sample_windows_valid: "windows_validate id sample_windows = None"
  by (simp add: sample_windows_def win_path_def evaluate)

end
