(* ===== verification/LinuxTarget.thy ===== *)
theory LinuxTarget
  imports SafePath "HOL-Library.Word"
begin

text \<open>
  \<open>internal/linuxtarget/config.go\<close>: the grammar of absolute POSIX paths and the validation of a
  Linux target. The lemmas read the separation rules on the components of the paths: nothing
  a run may delete below the managed root holds the home directory, the X authority file, the
  Blender program or the daemon's Python environment.
\<close>

definition linux_distribution :: string where "linux_distribution = ''ubuntu-24.04-gnome-xorg''"
definition provenance_id :: string where "provenance_id = ''blendersessiond-6d40e403-posix-9a54bfb9''"

record linux_desktop =
  ld_display :: string
  ld_xauthority :: string

record daemon_runtime =
  dr_venv_root :: string
  dr_python_executable :: string
  dr_provenance_id :: string

record linux_config =
  lt_distribution :: string
  lt_uid :: "32 word"
  lt_home :: string
  lt_work_root :: string
  lt_host_executable :: string
  lt_blender_executable :: string
  lt_unit_name :: string
  lt_desktop :: linux_desktop
  lt_daemon :: daemon_runtime

definition absolute_path_pattern :: "string \<Rightarrow> bool" where
  "absolute_path_pattern s = tagged_run ''/'' (\<lambda>c. is_alnum c \<or> c \<in> set ''._/-'') 1 220 s"

definition unit_name_pattern :: "string \<Rightarrow> bool" where
  "unit_name_pattern s \<longleftrightarrow>
     has_suffix s ''.service'' \<and> led_run is_alnum (\<lambda>c. is_alnum c \<or> c \<in> set ''_-'') 63 (take (length s - 8) s)"

definition display_pattern :: "string \<Rightarrow> bool" where
  "display_pattern s = tagged_run '':'' is_digit 1 2 s"

definition validate_absolute_path :: "string \<Rightarrow> err option" where
  "validate_absolute_path v =
    or_else (check (\<not> absolute_path_pattern v \<or> path_clean v \<noteq> v \<or> has_suffix v ''/'') ''unsafe absolute POSIX path'')
      (check (list_ex (\<lambda>c. c = ''.'' \<or> c = ''..'' \<or> c = '''') (split_on CHR ''/'' (tl v))) ''unsafe POSIX path segment'')"

definition desktop_validate :: "linux_desktop \<Rightarrow> err option" where
  "desktop_validate d =
    or_else (check (\<not> display_pattern (ld_display d)) ''Linux desktop display must be a local X11 display such as :0'')
      (validate_absolute_path (ld_xauthority d))"

definition daemon_validate :: "daemon_runtime \<Rightarrow> err option" where
  "daemon_validate d =
    first_err
     [validate_absolute_path (dr_venv_root d),
      check (dr_python_executable d \<noteq> dr_venv_root d @ ''/bin/python3'')
        ''Linux daemon python_executable must be venv_root/bin/python3 in a copied CPython 3.12 venv'',
      check (dr_provenance_id d \<noteq> provenance_id) ''Linux daemon requires reviewed provenance'']"

definition validate_uid :: "32 word \<Rightarrow> err option" where
  "validate_uid u = check (u < 1000 \<or> 60000 < u) ''Linux desktop UID must be in 1000..60000''"

definition validate_unit_name :: "string \<Rightarrow> err option" where
  "validate_unit_name n = check (\<not> unit_name_pattern n) ''unsafe Linux unit_name''"

definition linux_validate :: "linux_config \<Rightarrow> err option" where
  "linux_validate v =
    (let root = lt_work_root v; home = lt_home v; xa = ld_xauthority (lt_desktop v); venv = dr_venv_root (lt_daemon v) in
     first_err
      ([check (lt_distribution v \<noteq> linux_distribution) ''Linux requires the reviewed distribution'',
        validate_uid (lt_uid v)]
       @ map validate_absolute_path [home, root, lt_host_executable v, lt_blender_executable v]
       @ [check (root = home \<or> has_prefix home (root @ ''/''))
            ''Linux managed work_root must be separate from the home directory'',
          check (xa = root \<or> has_prefix xa (root @ ''/'')) ''Linux Xauthority must be outside managed work_root'',
          check (\<not> has_prefix (lt_host_executable v) (root @ ''/bin/'') \<or> path_dir (lt_host_executable v) \<noteq> root @ ''/bin'')
            ''Linux host_executable must be directly inside work_root/bin'',
          check (has_prefix (lt_blender_executable v) (root @ ''/'')) ''Linux Blender must be outside managed work_root'',
          validate_unit_name (lt_unit_name v),
          desktop_validate (lt_desktop v),
          daemon_validate (lt_daemon v),
          check (has_prefix venv (root @ ''/'') \<or> venv = root \<or> has_prefix root (venv @ ''/''))
            ''Linux daemon venv must be separate from managed work_root'']))"

text \<open>\<open>RuntimeDirectory\<close> and \<open>DesktopEnvironment\<close>; \<open>dec\<close> is the decimal form of the verb.\<close>

fun decimal :: "nat \<Rightarrow> string" where
  "decimal n = (if n < 10 then [char_of (48 + n)] else decimal (n div 10) @ [char_of (48 + n mod 10)])"

declare decimal.simps [simp del]

definition runtime_directory :: "32 word \<Rightarrow> string" where
  "runtime_directory uid = ''/run/user/'' @ decimal (unat uid)"

definition desktop_environment :: "32 word \<Rightarrow> linux_desktop \<Rightarrow> (string \<times> string) list" where
  "desktop_environment uid d =
    [(''DISPLAY'', ld_display d), (''XAUTHORITY'', ld_xauthority d),
     (''XDG_RUNTIME_DIR'', runtime_directory uid),
     (''DBUS_SESSION_BUS_ADDRESS'', ''unix:path='' @ runtime_directory uid @ ''/bus'')]"

lemmas linux_target_evaluate [evaluate] = linux_distribution_def provenance_id_def absolute_path_pattern_def
  unit_name_pattern_def display_pattern_def validate_absolute_path_def desktop_validate_def
  daemon_validate_def validate_uid_def validate_unit_name_def path_dir_def linux_validate_def

section \<open>Separation of the managed root\<close>

definition components :: "string \<Rightarrow> string list" where
  "components p = split_on CHR ''/'' (tl p)"

text \<open>\<open>below root p\<close>: removing the tree at \<open>root\<close> removes \<open>p\<close>.\<close>

definition below :: "string \<Rightarrow> string \<Rightarrow> bool" where
  "below root p \<longleftrightarrow> has_prefix (components p) (components root)"

lemma absolute_form:
  "validate_absolute_path p = None \<Longrightarrow> p = CHR ''/'' # join_with CHR ''/'' (components p) \<and> p \<noteq> ''/''"
  by (cases p) (auto simp: validate_absolute_path_def absolute_path_pattern_def tagged_run_def run_of_def
      has_prefix_def components_def)

lemma below_iff:
  assumes p: "validate_absolute_path p = None" and root: "validate_absolute_path root = None"
  shows "below root p \<longleftrightarrow> p = root \<or> has_prefix p (root @ ''/'')"
proof
  assume "below root p"
  then obtain ys where c: "components p = components root @ ys" by (auto simp: below_def has_prefix_iff)
  have rne: "components root \<noteq> []" by (simp add: components_def)
  show "p = root \<or> has_prefix p (root @ ''/'')"
  proof (cases "ys = []")
    case True
    then show ?thesis using c absolute_form[OF p] absolute_form[OF root] by simp
  next
    case False
    then have "p = root @ CHR ''/'' # join_with CHR ''/'' ys"
      using absolute_form[OF p] absolute_form[OF root] join_with_append[OF rne, of ys] c
      by (metis append_Cons)
    then show ?thesis by (simp add: has_prefix_def)
  qed
next
  assume "p = root \<or> has_prefix p (root @ ''/'')"
  then obtain t where "p = root \<or> p = root @ CHR ''/'' # t" by (auto simp: has_prefix_iff)
  moreover have "root = CHR ''/'' # tl root" using absolute_form[OF root] by (cases root) auto
  ultimately have "components p = components root \<or> components p = components root @ split_on CHR ''/'' t"
    by (metis append_Cons components_def list.sel(3) split_on_append2)
  then show "below root p" by (auto simp: below_def has_prefix_def)
qed

text \<open>For an accepted Linux target, deleting the managed root deletes neither the home
  directory nor the X authority file nor the daemon environment, and it is not inside that
  environment; the host program is a direct child of the root's \<open>bin\<close> directory; and the only
  way Blender's program can lie in the root is to be the root itself.\<close>

theorem linux_root_is_separate:
  assumes "linux_validate v = None"
  shows "\<not> below (lt_work_root v) (lt_home v)
    \<and> \<not> below (lt_work_root v) (ld_xauthority (lt_desktop v))
    \<and> \<not> below (lt_work_root v) (dr_venv_root (lt_daemon v))
    \<and> \<not> below (dr_venv_root (lt_daemon v)) (lt_work_root v)
    \<and> below (lt_work_root v) (lt_host_executable v)
    \<and> (lt_blender_executable v = lt_work_root v \<or> \<not> below (lt_work_root v) (lt_blender_executable v))"
proof -
  have paths: "validate_absolute_path (lt_work_root v) = None" "validate_absolute_path (lt_home v) = None"
      "validate_absolute_path (ld_xauthority (lt_desktop v)) = None"
      "validate_absolute_path (dr_venv_root (lt_daemon v)) = None"
      "validate_absolute_path (lt_host_executable v) = None" "validate_absolute_path (lt_blender_executable v) = None"
    using assms by (auto simp: linux_validate_def Let_def desktop_validate_def daemon_validate_def)
  have "has_prefix (lt_host_executable v) (lt_work_root v @ ''/'')"
    using assms by (auto simp: linux_validate_def Let_def has_prefix_iff)
  then show ?thesis
    using assms unfolding below_iff[OF paths(2,1)] below_iff[OF paths(3,1)] below_iff[OF paths(4,1)]
      below_iff[OF paths(1,4)] below_iff[OF paths(5,1)] below_iff[OF paths(6,1)]
    by (auto simp: linux_validate_def Let_def)
qed

definition sample_linux :: linux_config where
  "sample_linux = \<lparr>lt_distribution = linux_distribution, lt_uid = 1000, lt_home = ''/home/u'',
     lt_work_root = ''/home/u/b'', lt_host_executable = ''/home/u/b/bin/h'', lt_blender_executable = ''/opt/b'',
     lt_unit_name = ''b.service'', lt_desktop = \<lparr>ld_display = '':0'', ld_xauthority = ''/home/u/x''\<rparr>,
     lt_daemon = \<lparr>dr_venv_root = ''/opt/v'', dr_python_executable = ''/opt/v/bin/python3'',
       dr_provenance_id = provenance_id\<rparr>\<rparr>"

lemma sample_linux_valid: "linux_validate sample_linux = None"
  by (simp add: sample_linux_def evaluate)

theorem linux_root_is_separate_witness:
  "\<not> below ''/home/u/b'' ''/home/u'' \<and> below ''/home/u/b'' ''/home/u/b/bin/h''"
  using linux_root_is_separate[OF sample_linux_valid] by (simp add: sample_linux_def)

text \<open>The validation accepts a Blender program that equals the managed root.\<close>

lemma blender_may_be_the_root:
  "linux_validate (sample_linux\<lparr>lt_blender_executable := ''/home/u/b''\<rparr>) = None"
  by (simp add: sample_linux_def evaluate)

end
