(* ===== verification/RunContract.thy ===== *)
theory RunContract
  imports Payload WindowsTarget LinuxTarget JsonRender
begin

text \<open>
  \<open>internal/orchestrator/runner.go\<close>, the contract between the controller and the host: Run
  identities, the Host Lock claim, the request with its hash, the receipt with its state order,
  and the validation of requests, receipts and evidence manifests.

  Times are integers (nanoseconds); 0 stands for Go's zero time. A run state is decoded from
  JSON, so an unknown name is a value too (\<open>StateOther\<close>). \<open>sha\<close> is the hexadecimal SHA-256.
\<close>

section \<open>Identities, states and claims\<close>

definition ident_char :: "char \<Rightarrow> bool" where
  "ident_char c \<longleftrightarrow> is_alnum c \<or> c = CHR ''_'' \<or> c = CHR ''-''"

definition run_id_ok :: "string \<Rightarrow> bool" where "run_id_ok s = tagged_run ''bbx_'' ident_char 16 64 s"
definition request_id_ok :: "string \<Rightarrow> bool" where "request_id_ok s = tagged_run ''req_'' ident_char 16 64 s"
definition session_id_ok :: "string \<Rightarrow> bool" where "session_id_ok s = tagged_run ''bss_'' ident_char 16 128 s"

definition run_id_validate :: "string \<Rightarrow> err option" where
  "run_id_validate r = check (\<not> run_id_ok r) ''invalid Run ID''"

definition session_id_validate :: "string \<Rightarrow> err option" where
  "session_id_validate s = check (\<not> session_id_ok s) ''invalid Session identity''"

datatype run_state =
    StateAccepted | StateStaged | StateStarting | StateRunning | StateCalling | StateInteracting
  | StateCollecting | StateSettling | StateComplete | StateFailed | StateTimedOut | StateCleanupFailed
  | StateOther string

definition terminal :: "run_state \<Rightarrow> bool" where
  "terminal s \<longleftrightarrow> s \<in> {StateComplete, StateFailed, StateTimedOut, StateCleanupFailed}"

fun state_rank :: "run_state \<Rightarrow> nat option" where
  "state_rank StateAccepted = Some 0"
| "state_rank StateStaged = Some 1"
| "state_rank StateStarting = Some 2"
| "state_rank StateRunning = Some 3"
| "state_rank StateCalling = Some 4"
| "state_rank StateInteracting = Some 5"
| "state_rank StateCollecting = Some 6"
| "state_rank StateSettling = Some 7"
| "state_rank StateComplete = Some 8"
| "state_rank StateFailed = Some 9"
| "state_rank StateTimedOut = Some 9"
| "state_rank StateCleanupFailed = Some 9"
| "state_rank (StateOther s) = None"

definition known_state :: "run_state \<Rightarrow> bool" where
  "known_state s = (state_rank s \<noteq> None)"

definition valid_transition :: "run_state \<Rightarrow> run_state \<Rightarrow> bool" where
  "valid_transition previous new =
    (case (state_rank previous, state_rank new) of
       (Some p, Some n) \<Rightarrow> if terminal previous then False else p \<le> n
     | _ \<Rightarrow> False)"

definition state_requires_session :: "run_state \<Rightarrow> bool" where
  "state_requires_session s \<longleftrightarrow>
     s \<in> {StateRunning, StateCalling, StateInteracting, StateCollecting, StateSettling, StateComplete}"

record lock_claim =
  lc_schema_version :: int
  lc_run_id :: string
  lc_request_id :: string
  lc_controller_id :: string
  lc_deadline :: int
  lc_request_hash :: string
  lc_task_name :: string

definition zero_claim :: lock_claim where
  "zero_claim = \<lparr>lc_schema_version = 0, lc_run_id = '''', lc_request_id = '''', lc_controller_id = '''',
     lc_deadline = 0, lc_request_hash = '''', lc_task_name = ''''\<rparr>"

definition claims_equal :: "lock_claim \<Rightarrow> lock_claim \<Rightarrow> bool" where
  "claims_equal l r \<longleftrightarrow>
     lc_schema_version l = lc_schema_version r \<and> lc_run_id l = lc_run_id r
     \<and> lc_request_id l = lc_request_id r \<and> lc_controller_id l = lc_controller_id r
     \<and> lc_deadline l = lc_deadline r \<and> lc_request_hash l = lc_request_hash r \<and> lc_task_name l = lc_task_name r"

lemma claims_equal_iff [simp]: "claims_equal l r \<longleftrightarrow> l = r"
  by (cases l; cases r) (auto simp: claims_equal_def)

definition claim_validate :: "lock_claim \<Rightarrow> err option" where
  "claim_validate c =
    or_else (check (lc_schema_version c \<noteq> 1 \<or> \<not> run_id_ok (lc_run_id c) \<or> \<not> request_id_ok (lc_request_id c))
        ''invalid Run or request identity'')
      (check (blank (lc_controller_id c) \<or> lc_deadline c = 0 \<or> \<not> hex64 (lc_request_hash c) \<or> blank (lc_task_name c))
        ''invalid Host Lock claim'')"

section \<open>Requests\<close>

record linux_launch =
  ll_desktop :: linux_desktop
  ll_runtime :: daemon_runtime
  ll_uid :: "32 word"

record request_body =
  rb_schema_version :: int
  rb_session_name :: string
  rb_blender_executable :: string
  rb_session_broker_executable :: string
  rb_payload :: payload
  rb_linux :: "linux_launch option"

record run_request =
  rq_claim :: lock_claim
  rq_body :: request_body

text \<open>The JSON of a request body, from the struct tags; local paths and bytes have none.\<close>

definition file_json :: "payload_file \<Rightarrow> json" where
  "file_json f = JObj [(''source'', JStr (pf_source f)), (''destination'', JStr (pf_destination f)),
     (''size'', JNum (pf_size f)), (''sha256'', JStr (pf_sha256 f))]"

definition scenario_json :: "scenario \<Rightarrow> err + json" where
  "scenario_json sc =
    bind_res (case sc_ui_actions sc of None \<Rightarrow> Inr []
        | Some b \<Rightarrow> bind_res (batch_marshal b) (\<lambda>v. Inr [(''ui_actions'', v)])) (\<lambda>ui.
      Inr (JObj (ui @
        [(''script'', JStr (sc_script sc)), (''read_timeout_seconds'', JNum (sc_read_timeout_seconds sc)),
         (''capture_viewport'', JBool (sc_capture_viewport sc))]
        @ unless (\<not> sc_capture_blender_window sc) ''capture_blender_window'' (JBool (sc_capture_blender_window sc))
        @ unless (\<not> sc_capture_desktop sc) ''capture_desktop'' (JBool (sc_capture_desktop sc)))))"

definition payload_json :: "payload \<Rightarrow> err + json" where
  "payload_json p =
    bind_res (scenario_json (pl_scenario p)) (\<lambda>sc.
      Inr (JObj ([(''schema_version'', JNum (pl_schema_version p))]
        @ unless (pl_files p = []) ''files'' (JArr (map file_json (pl_files p)))
        @ [(''scenario'', sc)])))"

definition linux_json :: "linux_launch \<Rightarrow> json" where
  "linux_json l = JObj
     [(''desktop'', JObj [(''display'', JStr (ld_display (ll_desktop l))), (''xauthority'', JStr (ld_xauthority (ll_desktop l)))]),
      (''runtime'', JObj [(''venv_root'', JStr (dr_venv_root (ll_runtime l))),
         (''python_executable'', JStr (dr_python_executable (ll_runtime l))),
         (''provenance_id'', JStr (dr_provenance_id (ll_runtime l)))]),
      (''uid'', JNum (uint (ll_uid l)))]"

definition body_json :: "request_body \<Rightarrow> err + json" where
  "body_json b =
    bind_res (payload_json (rb_payload b)) (\<lambda>p.
      Inr (JObj ([(''schema_version'', JNum (rb_schema_version b)), (''session_name'', JStr (rb_session_name b)),
        (''blender_executable'', JStr (rb_blender_executable b)),
        (''session_broker_executable'', JStr (rb_session_broker_executable b)), (''payload'', p)]
        @ (case rb_linux b of None \<Rightarrow> [] | Some l \<Rightarrow> [(''linux'', linux_json l)]))))"

definition request_body_hash :: "(string \<Rightarrow> string) \<Rightarrow> request_body \<Rightarrow> err + string" where
  "request_body_hash sha b =
    (case body_json b of Inl e \<Rightarrow> Inl (Wrap ''encode request body'' e) | Inr v \<Rightarrow> Inr (sha (render v)))"

definition session_name_for_run :: "(string \<Rightarrow> string) \<Rightarrow> string \<Rightarrow> string" where
  "session_name_for_run sha run = ''blender-box-'' @ take 16 (sha run)"

fun only_viewport :: "string list \<Rightarrow> err option" where
  "only_viewport [] = None"
| "only_viewport (k # ks) =
    (if k \<noteq> Viewport then Some (Msg ''Linux targets do not support this capture'') else only_viewport ks)"

definition validate_linux_scenario :: "scenario \<Rightarrow> err option" where
  "validate_linux_scenario sc =
    or_else (check (sc_ui_actions sc \<noteq> None) ''Linux targets do not support UI actions'') (only_viewport (captures sc))"

definition request_validate :: "(nat \<Rightarrow> nat) \<Rightarrow> (string \<Rightarrow> string) \<Rightarrow> run_request \<Rightarrow> err option" where
  "request_validate up sha r =
    (let c = rq_claim r; b = rq_body r in
     first_err
      [claim_validate c,
       check (rb_schema_version b \<noteq> 1 \<and> rb_schema_version b \<noteq> 2) ''unsupported request body schema version'',
       check (blank (rb_session_name b) \<or> blank (rb_blender_executable b) \<or> blank (rb_session_broker_executable b))
         ''request body is incomplete'',
       check (rb_session_name b \<noteq> session_name_for_run sha (lc_run_id c)) ''request Session name does not match Run ID'',
       (if rb_schema_version b = 1 then
          or_else (check (rb_linux b \<noteq> None) ''Windows request cannot carry Linux launch data'')
            (check (\<not> validate_windows_path (rb_blender_executable b) \<or> \<not> validate_windows_path (rb_session_broker_executable b))
               ''request body contains an unsafe Windows executable path'')
        else
          or_else (validate_linux_scenario (pl_scenario (rb_payload b)))
            (case rb_linux b of
               None \<Rightarrow> Some (Msg ''Linux request requires launch data'')
             | Some l \<Rightarrow> first_err
                 [daemon_validate (ll_runtime l), desktop_validate (ll_desktop l), validate_uid (ll_uid l),
                  validate_unit_name (lc_task_name c), validate_absolute_path (rb_blender_executable b),
                  check (rb_session_broker_executable b \<noteq> dr_python_executable (ll_runtime l))
                    ''Linux daemon executable does not match runtime''])),
       wrap_err ''invalid request payload'' (validate_manifest up (rb_payload b)),
       (case request_body_hash sha b of
          Inl e \<Rightarrow> Some e
        | Inr h \<Rightarrow> check (h \<noteq> lc_request_hash c) ''request hash does not match body'')])"

section \<open>Evidence\<close>

definition EvidenceUIActions :: string where "EvidenceUIActions = ''ui-actions''"
definition EvidenceScenarioResult :: string where "EvidenceScenarioResult = ''scenario-result''"

lemmas evidence_type_defs [evaluate] = EvidenceUIActions_def EvidenceScenarioResult_def

lemma evidence_types_distinct [simp]:
  "EvidenceUIActions \<noteq> EvidenceScenarioResult" "EvidenceScenarioResult \<noteq> EvidenceUIActions"
  "EvidenceUIActions \<notin> {Viewport, BlenderWindow, Desktop}" "EvidenceScenarioResult \<notin> {Viewport, BlenderWindow, Desktop}"
  by (simp_all add: evidence_type_defs capture_kind_defs)

record evidence_file =
  ef_path :: string
  ef_type :: string
  ef_source_path :: string
  ef_media_type :: string
  ef_session_id :: string
  ef_size :: int
  ef_sha256 :: string
  ef_capture_method :: string
  ef_width :: int
  ef_height :: int

record evidence_manifest =
  em_schema_version :: int
  em_files :: "evidence_file list"

definition max_evidence_files :: nat where "max_evidence_files = 64"
definition max_evidence_file :: int where "max_evidence_file = 16 * 2 ^ 20"
definition max_evidence_total :: int where "max_evidence_total = 64 * 2 ^ 20"

lemmas evidence_limits [evaluate] = max_evidence_files_def max_evidence_file_def max_evidence_total_def

definition scenario_result_path :: string where "scenario_result_path = ''result/scenario-result.json''"

text \<open>\<open>captureKindForEvidenceType\<close>: the kind of the definition, which is the type itself.\<close>

definition capture_kind_for_evidence_type :: "string \<Rightarrow> string option" where
  "capture_kind_for_evidence_type t = map_option cd_kind (describe t)"

definition validate_typed_evidence :: "string \<Rightarrow> int \<Rightarrow> evidence_file \<Rightarrow> err option" where
  "validate_typed_evidence session version f =
    first_err
     [check (ef_source_path f \<noteq> ''evidence/'' @ ef_path f) ''source path does not match evidence path'',
      check (session = '''' \<or> ef_session_id f \<noteq> session) ''Session provenance does not match Run'',
      session_id_validate (ef_session_id f),
      (let plain = (ef_media_type f = ''application/json'' \<and> ef_capture_method f = '''' \<and> ef_width f = 0 \<and> ef_height f = 0) in
       if ef_type f = EvidenceScenarioResult then
         check (ef_path f \<noteq> scenario_result_path \<or> \<not> plain) ''Scenario Result provenance is invalid''
       else if ef_type f = EvidenceUIActions then
         check (version \<noteq> 3 \<or> ef_path f \<noteq> ui_evidence_path \<or> \<not> plain) ''UI journal provenance is invalid''
       else
         (case describe (ef_type f) of
            None \<Rightarrow> Some (Msg ''unsupported evidence type'')
          | Some d \<Rightarrow>
              (let path_ok = ef_path f = cd_evidence_path d
                   \<or> version = 3 \<and> cd_kind d = BlenderWindow \<and> (ef_path f = ui_before_path \<or> ef_path f = ui_after_path)
               in check (\<not> path_ok \<or> ef_media_type f \<noteq> cd_media_type d \<or> \<not> method_allowed (cd_kind d) (ef_capture_method f)
                         \<or> ef_width f < 1 \<or> ef_height f < 1) ''capture provenance is invalid'')))]"

definition validate_evidence_file :: "(nat \<Rightarrow> nat) \<Rightarrow> string \<Rightarrow> int \<Rightarrow> evidence_file \<Rightarrow> err option" where
  "validate_evidence_file up session version f =
    first_err
     [validate_windows_relative up (ef_path f),
      check (ef_type f = '''') ''type is required'',
      (if version = 1 then
         or_else (check (ef_source_path f \<noteq> '''' \<or> ef_media_type f \<noteq> '''' \<or> ef_session_id f \<noteq> '''')
             ''schema version 1 does not support typed source provenance'')
           (if ef_type f = Viewport then
              check (\<not> method_allowed Viewport (ef_capture_method f) \<or> ef_width f < 1 \<or> ef_height f < 1)
                ''viewport capture provenance is invalid''
            else if ef_type f \<noteq> EvidenceScenarioResult then Some (Msg ''unsupported evidence type'')
            else check (ef_capture_method f \<noteq> '''' \<or> ef_width f \<noteq> 0 \<or> ef_height f \<noteq> 0)
                ''capture provenance is only valid for captures'')
       else validate_typed_evidence session version f),
      check (ef_size f \<le> 0 \<or> max_evidence_file < ef_size f) ''invalid size'',
      check (\<not> hex64 (ef_sha256 f)) ''invalid SHA-256'']"

fun manifest_loop :: "(nat \<Rightarrow> nat) \<Rightarrow> string \<Rightarrow> int \<Rightarrow> string set \<Rightarrow> int \<Rightarrow> evidence_file list \<Rightarrow> err option" where
  "manifest_loop up session version seen used [] = None"
| "manifest_loop up session version seen used (f # fs) =
    (let key = windows_key up (ef_path f) in
     first_err
      [wrap_err ''evidence'' (validate_evidence_file up session version f),
       check (key \<in> seen) ''duplicate path'',
       check (max_evidence_total < used + ef_size f) ''evidence exceeds total size limit'',
       manifest_loop up session version (insert key seen) (used + ef_size f) fs])"

definition validate_evidence_manifest :: "(nat \<Rightarrow> nat) \<Rightarrow> string \<Rightarrow> evidence_manifest \<Rightarrow> err option" where
  "validate_evidence_manifest up session m =
    first_err
     [check (em_schema_version m \<noteq> 1 \<and> em_schema_version m \<noteq> 2 \<and> em_schema_version m \<noteq> 3) ''evidence: unsupported schema version'',
      check (length (em_files m) = 0 \<or> max_evidence_files < length (em_files m)) ''evidence: invalid file count'',
      manifest_loop up session (em_schema_version m) {} 0 (em_files m)]"

text \<open>The \<open>want\<close> map of \<open>validateRequiredEvidence\<close>; an absent key counts 0, as in Go.\<close>

definition wanted :: "scenario \<Rightarrow> string \<Rightarrow> nat" where
  "wanted sc t =
    (if sc_ui_actions sc \<noteq> None \<and> t = EvidenceUIActions then 1
     else if sc_ui_actions sc \<noteq> None \<and> sc_capture_blender_window sc \<and> t = BlenderWindow then 2
     else if t = EvidenceScenarioResult \<or> t \<in> set (captures sc) then 1
     else 0)"

definition got :: "evidence_manifest \<Rightarrow> string \<Rightarrow> nat" where
  "got m t = length (filter (\<lambda>f. ef_type f = t) (em_files m))"

definition wanted_types :: "scenario \<Rightarrow> string list" where
  "wanted_types sc = EvidenceScenarioResult # captures sc @ (if sc_ui_actions sc \<noteq> None then [EvidenceUIActions] else [])"

definition validate_required_evidence :: "evidence_manifest \<Rightarrow> scenario \<Rightarrow> err option" where
  "validate_required_evidence m sc =
    first_err
     [check (\<not> list_all (\<lambda>f. ef_type f = EvidenceScenarioResult \<or> ef_type f = EvidenceUIActions
                \<or> capture_kind_for_evidence_type (ef_type f) \<noteq> None) (em_files m)) ''unexpected evidence type'',
      check (\<not> list_all (\<lambda>f. wanted sc (ef_type f) \<noteq> 0) (em_files m)) ''unexpected evidence type'',
      check (\<not> list_all (\<lambda>f. got m (ef_type f) = wanted sc (ef_type f)) (em_files m))
        ''required evidence is missing or ambiguous'',
      check (\<not> list_all (\<lambda>t. got m t = wanted sc t) (wanted_types sc)) ''required evidence is missing or ambiguous'']"

text \<open>The \<open>allowed\<close> set of \<open>validatePartialEvidence\<close>.\<close>

definition allowed_paths :: "scenario \<Rightarrow> string set" where
  "allowed_paths sc =
    (let base = {scenario_result_path} \<union> set (List.map_filter (\<lambda>k. map_option cd_evidence_path (describe k)) (captures sc)) in
     if sc_ui_actions sc = None then base
     else let ui = insert ui_evidence_path base in
       if sc_capture_blender_window sc
       then (ui - {''screenshots/blender-window.png''}) \<union> {ui_before_path, ui_after_path}
       else ui)"

definition validate_partial_evidence :: "evidence_manifest \<Rightarrow> scenario \<Rightarrow> err option" where
  "validate_partial_evidence m sc =
    (if em_schema_version m \<noteq> 3 then None
     else check (\<not> list_all (\<lambda>f. ef_path f \<in> allowed_paths sc) (em_files m)) ''undeclared evidence path'')"

definition validate_evidence :: "(nat \<Rightarrow> nat) \<Rightarrow> evidence_manifest \<Rightarrow> scenario \<Rightarrow> string \<Rightarrow> err option" where
  "validate_evidence up m sc session =
    first_err [validate_evidence_manifest up session m, validate_partial_evidence m sc, validate_required_evidence m sc]"

section \<open>Receipts\<close>

record cleanup_state =
  cs_session_stopped :: bool
  cs_payload_removed :: bool
  cs_run_root_removed :: bool
  cs_lock_released :: bool

definition cleanup_known :: "cleanup_state \<Rightarrow> bool" where
  "cleanup_known c \<longleftrightarrow> cs_session_stopped c \<and> cs_payload_removed c \<and> cs_run_root_removed c \<and> cs_lock_released c"

definition no_cleanup :: cleanup_state where
  "no_cleanup = \<lparr>cs_session_stopped = False, cs_payload_removed = False, cs_run_root_removed = False, cs_lock_released = False\<rparr>"

record run_receipt =
  rr_ui_actions :: "ui_journal option"
  rr_schema_version :: int
  rr_claim :: lock_claim
  rr_state :: run_state
  rr_session_id :: string
  rr_evidence :: evidence_manifest
  rr_cleanup :: cleanup_state
  rr_error :: string

definition zero_receipt :: run_receipt where
  "zero_receipt = \<lparr>rr_ui_actions = None, rr_schema_version = 0, rr_claim = zero_claim, rr_state = StateOther '''',
     rr_session_id = '''', rr_evidence = \<lparr>em_schema_version = 0, em_files = []\<rparr>, rr_cleanup = no_cleanup, rr_error = ''''\<rparr>"

definition authority_failure :: "string \<Rightarrow> err" where
  "authority_failure m = Authority (Msg m)"

definition validate_receipt :: "run_receipt \<Rightarrow> lock_claim \<Rightarrow> string \<Rightarrow> run_state \<Rightarrow> err option" where
  "validate_receipt r claim expected previous =
    first_err
     [(if \<not> claims_equal (rr_claim r) claim then Some (authority_failure ''Host Lock claim changed'') else None),
      (if expected \<noteq> '''' \<and> rr_session_id r \<noteq> expected then Some (authority_failure ''Session identity changed'') else None),
      check (rr_schema_version r \<noteq> 1) ''unsupported schema version'',
      (case rr_ui_actions r of None \<Rightarrow> None | Some j \<Rightarrow> journal_validate (rr_session_id r) j),
      check (\<not> known_state (rr_state r)) ''unknown Run state'',
      check (\<not> valid_transition previous (rr_state r)) ''invalid Run state transition'',
      check (\<not> session_id_ok (rr_session_id r)) ''invalid Session identity'']"

definition validate_for_claim :: "(nat \<Rightarrow> nat) \<Rightarrow> run_receipt \<Rightarrow> lock_claim \<Rightarrow> err option" where
  "validate_for_claim up r expected =
    (let c = rr_claim r; m = rr_evidence r in
     first_err
      [(if \<not> claims_equal c expected then Some (authority_failure ''Host Lock claim changed'') else None),
       check (rr_schema_version r \<noteq> 1 \<or> lc_schema_version c \<noteq> 1) ''unsupported schema version'',
       check (\<not> request_id_ok (lc_request_id c) \<or> blank (lc_controller_id c) \<or> lc_deadline c = 0 \<or> \<not> hex64 (lc_request_hash c))
         ''invalid Host Lock claim'',
       (case rr_ui_actions r of None \<Rightarrow> None | Some j \<Rightarrow> journal_validate (rr_session_id r) j),
       check (\<not> known_state (rr_state r)) ''unknown Run state'',
       (if state_requires_session (rr_state r) then check (\<not> session_id_ok (rr_session_id r)) ''invalid Session identity''
        else check (rr_session_id r \<noteq> '''' \<and> \<not> session_id_ok (rr_session_id r)) ''invalid Session identity''),
       (if em_schema_version m \<noteq> 0 \<or> em_files m \<noteq> [] then validate_evidence_manifest up (rr_session_id r) m else None),
       check (rr_state r = StateComplete \<and> em_schema_version m \<notin> {1, 2, 3}) ''complete Run has no evidence manifest''])"

fun batch_receipts :: "run_state \<Rightarrow> (ui_receipt \<times> action) list \<Rightarrow> err option" where
  "batch_receipts state [] = None"
| "batch_receipts state ((r, a) # rest) =
    first_err
     [check (ur_kind r \<noteq> ac_kind a \<or> ur_outcome r = Queued \<and> ur_event_count r \<noteq> int (event_count a))
        ''UI action differs from declared batch'',
      check (terminal state \<and> ur_outcome r = Pending) ''terminal UI receipt is pending'',
      check (state = StateComplete \<and> ur_outcome r \<noteq> Queued) ''complete UI action is not queued'',
      batch_receipts state rest]"

definition validate_ui_batch_receipt :: "run_receipt \<Rightarrow> batch option \<Rightarrow> err option" where
  "validate_ui_batch_receipt r b =
    (case b of
       None \<Rightarrow> check (rr_ui_actions r \<noteq> None) ''undeclared UI action journal''
     | Some batch \<Rightarrow>
         (case rr_ui_actions r of
            None \<Rightarrow> check (rr_state r = StateComplete) ''complete Run has no UI journal''
          | Some j \<Rightarrow>
              first_err
               [check (length (ba_actions batch) < length (uj_receipts j)) ''UI journal exceeds declared batch'',
                batch_receipts (rr_state r) (zip (uj_receipts j) (ba_actions batch)),
                check (rr_state r = StateComplete \<and> length (uj_receipts j) \<noteq> length (ba_actions batch))
                  ''complete UI journal is truncated'']))"

lemmas run_contract_evaluate [evaluate] = ident_char_def run_id_ok_def request_id_ok_def session_id_ok_def
  run_id_validate_def session_id_validate_def terminal_def known_state_def valid_transition_def
  state_requires_session_def claim_validate_def session_name_for_run_def validate_linux_scenario_def
  request_validate_def scenario_result_path_def capture_kind_for_evidence_type_def validate_typed_evidence_def
  validate_evidence_file_def validate_evidence_manifest_def wanted_def got_def wanted_types_def
  validate_required_evidence_def allowed_paths_def validate_partial_evidence_def validate_evidence_def
  cleanup_known_def no_cleanup_def zero_receipt_def zero_claim_def validate_receipt_def validate_for_claim_def validate_ui_batch_receipt_def

section \<open>The request hash covers what crosses to the host\<close>

text \<open>What the host receives: the manifest of the payload, without local paths and bytes.\<close>

definition wire_file :: "payload_file \<Rightarrow> payload_file" where
  "wire_file f = f\<lparr>pf_local_path := '''', pf_contents := None\<rparr>"

definition wire_payload :: "payload \<Rightarrow> payload" where
  "wire_payload p = p\<lparr>pl_files := map wire_file (pl_files p)\<rparr>"

definition wire_request :: "run_request \<Rightarrow> run_request" where
  "wire_request r = r\<lparr>rq_body := (rq_body r)\<lparr>rb_payload := wire_payload (rb_payload (rq_body r))\<rparr>\<rparr>"

lemma file_json_wire: "file_json (wire_file f) = file_json f"
  by (simp add: file_json_def wire_file_def)

lemma payload_json_wire: "payload_json (wire_payload p) = payload_json p"
  by (simp add: payload_json_def wire_payload_def file_json_wire comp_def)

lemma manifest_files_wire: "manifest_files up seen used (map wire_file fs) = manifest_files up seen used fs"
  by (induction fs arbitrary: seen used) (simp_all add: wire_file_def Let_def)

lemma validate_manifest_wire: "validate_manifest up (wire_payload p) = validate_manifest up p"
  by (simp add: validate_manifest_def wire_payload_def manifest_files_wire)

lemma request_body_hash_wire:
  "request_body_hash sha (b\<lparr>rb_payload := wire_payload (rb_payload b)\<rparr>) = request_body_hash sha b"
  by (simp add: request_body_hash_def body_json_def payload_json_wire cong: option.case_cong)

text \<open>C35: the validation of a request, its hash check included, gives the same answer on the
  controller, which holds the payload's bytes, and on the host, which receives its manifest.\<close>

theorem request_validation_crosses: "request_validate up sha (wire_request r) = request_validate up sha r"
proof -
  have "pl_scenario (wire_payload p) = pl_scenario p" for p by (simp add: wire_payload_def)
  then show ?thesis
    by (simp add: request_validate_def wire_request_def request_body_hash_wire validate_manifest_wire Let_def
        cong: option.case_cong)
qed

section \<open>Accepted evidence is the declared evidence\<close>

definition declared_paths :: "scenario \<Rightarrow> string set" where
  "declared_paths sc =
     {scenario_result_path}
     \<union> (if sc_ui_actions sc = None then {} else {ui_evidence_path})
     \<union> (if sc_capture_viewport sc then {''screenshots/viewport.png''} else {})
     \<union> (if sc_capture_desktop sc then {''screenshots/desktop.png''} else {})
     \<union> (if \<not> sc_capture_blender_window sc then {}
        else if sc_ui_actions sc = None then {''screenshots/blender-window.png''} else {ui_before_path, ui_after_path})"

lemma describe_simps [simp]:
  "map_option cd_evidence_path (describe Viewport) = Some ''screenshots/viewport.png''"
  "map_option cd_evidence_path (describe BlenderWindow) = Some ''screenshots/blender-window.png''"
  "map_option cd_evidence_path (describe Desktop) = Some ''screenshots/desktop.png''"
  by (simp_all add: describe_def capture_definitions_def)

lemma described_paths:
  "describe Viewport = Some d \<Longrightarrow> cd_evidence_path d = ''screenshots/viewport.png''"
  "describe BlenderWindow = Some d \<Longrightarrow> cd_evidence_path d = ''screenshots/blender-window.png''"
  "describe Desktop = Some d \<Longrightarrow> cd_evidence_path d = ''screenshots/desktop.png''"
  using describe_simps by (metis option.sel option.simps(9))+

lemma window_path_fresh:
  "''screenshots/blender-window.png'' \<notin> {scenario_result_path, ui_evidence_path, ''screenshots/viewport.png'',
     ''screenshots/desktop.png''}"
  by (simp add: evaluate)

lemma allowed_paths_declared: "allowed_paths sc = declared_paths sc"
proof -
  have base: "set (List.map_filter (\<lambda>k. map_option cd_evidence_path (describe k)) (captures sc))
    = (if sc_capture_viewport sc then {''screenshots/viewport.png''} else {})
      \<union> (if sc_capture_blender_window sc then {''screenshots/blender-window.png''} else {})
      \<union> (if sc_capture_desktop sc then {''screenshots/desktop.png''} else {})"
    by (auto simp: captures_def map_filter_simps)
  show ?thesis
    unfolding allowed_paths_def base declared_paths_def Let_def
    using window_path_fresh by (auto split: if_splits)
qed

lemma manifest_loop_None:
  "manifest_loop up session version seen used fs = None \<Longrightarrow>
    (\<forall>f\<in>set fs. validate_evidence_file up session version f = None)
    \<and> distinct (map (\<lambda>f. windows_key up (ef_path f)) fs)
    \<and> set (map (\<lambda>f. windows_key up (ef_path f)) fs) \<inter> seen = {}"
  by (induction fs arbitrary: seen used) (auto simp: Let_def)

lemma manifest_paths_distinct:
  assumes "validate_evidence_manifest up session m = None"
  shows "distinct (map ef_path (em_files m))"
proof -
  have "manifest_loop up session (em_schema_version m) {} 0 (em_files m) = None"
    using assms by (simp add: validate_evidence_manifest_def)
  then have "distinct (map (windows_key up) (map ef_path (em_files m)))"
    using manifest_loop_None[of up session "em_schema_version m" "{}" 0 "em_files m"] by (simp add: comp_def)
  then show ?thesis unfolding distinct_map by blast
qed

text \<open>The path of a typed evidence file, by its type.\<close>

lemma typed_evidence_path:
  assumes "validate_typed_evidence session version f = None"
  shows "ef_session_id f = session"
    and "ef_type f = EvidenceScenarioResult \<Longrightarrow> ef_path f = scenario_result_path"
    and "ef_type f = EvidenceUIActions \<Longrightarrow> ef_path f = ui_evidence_path"
    and "ef_type f = Viewport \<Longrightarrow> ef_path f = ''screenshots/viewport.png''"
    and "ef_type f = Desktop \<Longrightarrow> ef_path f = ''screenshots/desktop.png''"
    and "ef_type f = BlenderWindow \<Longrightarrow> ef_path f = ''screenshots/blender-window.png''
           \<or> version = 3 \<and> ef_path f \<in> {ui_before_path, ui_after_path}"
proof -
  have typed: "ef_type f \<noteq> EvidenceScenarioResult" "ef_type f \<noteq> EvidenceUIActions"
      "\<exists>d. describe (ef_type f) = Some d \<and> cd_kind d = ef_type f \<and>
        (ef_path f = cd_evidence_path d \<or> version = 3 \<and> ef_type f = BlenderWindow \<and> ef_path f \<in> {ui_before_path, ui_after_path})"
    if "ef_type f \<in> {Viewport, BlenderWindow, Desktop}"
  proof -
    show ne: "ef_type f \<noteq> EvidenceScenarioResult" "ef_type f \<noteq> EvidenceUIActions"
      using that evidence_types_distinct by auto
    have "describe (ef_type f) \<noteq> None" using that unfolding describe_known by blast
    then obtain d where d: "describe (ef_type f) = Some d" by blast
    then show "\<exists>d. describe (ef_type f) = Some d \<and> cd_kind d = ef_type f \<and>
        (ef_path f = cd_evidence_path d \<or> version = 3 \<and> ef_type f = BlenderWindow \<and> ef_path f \<in> {ui_before_path, ui_after_path})"
      using assms ne describe_kind[OF d] by (auto simp: validate_typed_evidence_def Let_def)
  qed
  show "ef_session_id f = session" using assms by (simp add: validate_typed_evidence_def)
  show "ef_type f = EvidenceScenarioResult \<Longrightarrow> ef_path f = scenario_result_path"
    using assms by (simp add: validate_typed_evidence_def Let_def)
  show "ef_type f = EvidenceUIActions \<Longrightarrow> ef_path f = ui_evidence_path"
    using assms by (simp add: validate_typed_evidence_def Let_def)
  show "ef_type f = Viewport \<Longrightarrow> ef_path f = ''screenshots/viewport.png''"
    using typed described_paths(1) by auto
  show "ef_type f = Desktop \<Longrightarrow> ef_path f = ''screenshots/desktop.png''"
    using typed described_paths(3) by auto
  show "ef_type f = BlenderWindow \<Longrightarrow> ef_path f = ''screenshots/blender-window.png''
           \<or> version = 3 \<and> ef_path f \<in> {ui_before_path, ui_after_path}"
    using typed described_paths(2) by auto
qed

lemma wanted_nonzero:
  "wanted sc t \<noteq> 0 \<longleftrightarrow> t \<in> set (wanted_types sc)"
  by (auto simp: wanted_def wanted_types_def captures_def)

lemma got_pos: "0 < got m t \<longleftrightarrow> (\<exists>f\<in>set (em_files m). ef_type f = t)"
  by (auto simp: got_def filter_empty_conv)

lemma two_of_kind:
  assumes "got m t = 2" "distinct (map ef_path (em_files m))"
    and "\<forall>f\<in>set (em_files m). ef_type f = t \<longrightarrow> ef_path f \<in> {p, q}"
  shows "{p, q} \<subseteq> ef_path ` set (em_files m)"
proof -
  let ?fs = "filter (\<lambda>f. ef_type f = t) (em_files m)"
  have "distinct (map ef_path ?fs)" using assms(2) by (rule distinct_map_filter)
  moreover obtain a b where ab: "?fs = [a, b]"
    using assms(1) by (auto simp: got_def numeral_2_eq_2 length_Suc_conv)
  ultimately have "ef_path a \<noteq> ef_path b" by simp
  moreover have "a \<in> set ?fs" "b \<in> set ?fs" by (simp_all add: ab)
  moreover have "ef_path a \<in> {p, q}" "ef_path b \<in> {p, q}" using assms(3) calculation(2,3) by auto
  ultimately have "{p, q} = {ef_path a, ef_path b}" "a \<in> set (em_files m)" "b \<in> set (em_files m)" by auto
  then show ?thesis by auto
qed

lemma typed_manifest:
  assumes "validate_evidence up m sc session = None" and version: "em_schema_version m \<noteq> 1"
    and f: "f \<in> set (em_files m)"
  shows "validate_typed_evidence session (em_schema_version m) f = None" and "ef_type f \<in> set (wanted_types sc)"
proof -
  have "validate_evidence_file up session (em_schema_version m) f = None"
    using assms manifest_loop_None by (fastforce simp: validate_evidence_def validate_evidence_manifest_def)
  then show "validate_typed_evidence session (em_schema_version m) f = None"
    using version by (simp add: validate_evidence_file_def)
  show "ef_type f \<in> set (wanted_types sc)"
    using assms wanted_nonzero[of sc "ef_type f"]
    by (auto simp: validate_evidence_def validate_required_evidence_def list_all_iff)
qed

lemma evidence_within_declared:
  assumes "validate_evidence up m sc session = None" "em_schema_version m \<noteq> 1"
    and "em_schema_version m = 3 \<or> sc_ui_actions sc = None" and f: "f \<in> set (em_files m)"
  shows "ef_path f \<in> declared_paths sc"
proof (cases "em_schema_version m = 3")
  case True
  then show ?thesis
    using assms by (auto simp: validate_evidence_def validate_partial_evidence_def allowed_paths_declared list_all_iff)
next
  case False
  with assms(3) have "sc_ui_actions sc = None" by simp
  with typed_manifest(2)[OF assms(1,2) f] typed_evidence_path[OF typed_manifest(1)[OF assms(1,2) f]] False
  show ?thesis by (auto simp: wanted_types_def captures_def declared_paths_def split: if_splits)
qed

lemma declared_within_evidence:
  assumes ok: "validate_evidence up m sc session = None" and v: "em_schema_version m \<noteq> 1"
    and ui: "em_schema_version m = 3 \<or> sc_ui_actions sc = None"
  shows "declared_paths sc \<subseteq> ef_path ` set (em_files m)"
proof -
  have counts: "t \<in> set (wanted_types sc) \<Longrightarrow> got m t = wanted sc t" for t
    using ok by (simp add: validate_evidence_def validate_required_evidence_def list_all_iff)
  have present: "\<exists>f\<in>set (em_files m). ef_type f = t \<and> validate_typed_evidence session (em_schema_version m) f = None"
    if "t \<in> set (wanted_types sc)" for t
    using counts[OF that] wanted_nonzero[of sc t] that got_pos[of m t] typed_manifest(1)[OF ok v] by fastforce
  have window: "{ui_before_path, ui_after_path} \<subseteq> ef_path ` set (em_files m)"
    if "sc_capture_blender_window sc" "sc_ui_actions sc \<noteq> None"
  proof (rule two_of_kind)
    have "BlenderWindow \<in> set (wanted_types sc)" using that by (simp add: wanted_types_def captures_def)
    moreover have "BlenderWindow \<noteq> EvidenceUIActions" using evidence_types_distinct(3) by auto
    ultimately show "got m BlenderWindow = 2"
      using counts that by (simp add: wanted_def)
    show "distinct (map ef_path (em_files m))"
      using ok manifest_paths_distinct[of up session m] by (simp add: validate_evidence_def)
    show "\<forall>f\<in>set (em_files m). ef_type f = BlenderWindow \<longrightarrow> ef_path f \<in> {ui_before_path, ui_after_path}"
    proof (intro ballI impI)
      fix f assume f: "f \<in> set (em_files m)" "ef_type f = BlenderWindow"
      have "''screenshots/blender-window.png'' \<notin> declared_paths sc"
        using that by (simp add: declared_paths_def evaluate)
      then show "ef_path f \<in> {ui_before_path, ui_after_path}"
        using typed_evidence_path(6)[OF typed_manifest(1)[OF ok v f(1)] f(2)] evidence_within_declared[OF ok v ui f(1)]
        by auto
    qed
  qed
  have at: "p \<in> ef_path ` set (em_files m)"
    if "t \<in> set (wanted_types sc)"
      and "\<And>f. validate_typed_evidence session (em_schema_version m) f = None \<Longrightarrow> ef_type f = t \<Longrightarrow> ef_path f = p"
    for t p using present[OF that(1)] that(2) by auto
  have result: "scenario_result_path \<in> ef_path ` set (em_files m)"
    by (rule at[OF _ typed_evidence_path(2)]) (simp_all add: wanted_types_def)
  have journal: "ui_evidence_path \<in> ef_path ` set (em_files m)" if "sc_ui_actions sc \<noteq> None"
    by (rule at[OF _ typed_evidence_path(3)]) (use that in \<open>simp_all add: wanted_types_def\<close>)
  have viewport: "''screenshots/viewport.png'' \<in> ef_path ` set (em_files m)" if "sc_capture_viewport sc"
    by (rule at[OF _ typed_evidence_path(4)]) (use that in \<open>simp_all add: wanted_types_def captures_def\<close>)
  have desktop: "''screenshots/desktop.png'' \<in> ef_path ` set (em_files m)" if "sc_capture_desktop sc"
    by (rule at[OF _ typed_evidence_path(5)]) (use that in \<open>simp_all add: wanted_types_def captures_def\<close>)
  have plain: "''screenshots/blender-window.png'' \<in> ef_path ` set (em_files m)"
    if w: "sc_capture_blender_window sc" "sc_ui_actions sc = None"
  proof -
    obtain f where f: "f \<in> set (em_files m)" "ef_type f = BlenderWindow"
        "validate_typed_evidence session (em_schema_version m) f = None"
      using present[of BlenderWindow] w by (auto simp: wanted_types_def captures_def)
    have "ui_before_path \<notin> declared_paths sc" "ui_after_path \<notin> declared_paths sc"
      using w by (simp_all add: declared_paths_def evaluate)
    then have "ef_path f = ''screenshots/blender-window.png''"
      using typed_evidence_path(6)[OF f(3,2)] evidence_within_declared[OF ok v ui f(1)] by auto
    then show ?thesis using f(1) by (metis imageI)
  qed
  show ?thesis
    using result journal viewport desktop plain window unfolding declared_paths_def by (auto split: if_splits)
qed

text \<open>C33: the evidence of a completed run with a typed manifest, once accepted, is the declared
  evidence: its files lie at exactly the paths the scenario declares, each path once, all from
  the run's session. With UI actions the window capture is the pair before and after them.\<close>

theorem accepted_evidence_is_declared:
  assumes "validate_evidence up m sc session = None" "em_schema_version m \<noteq> 1"
    and "em_schema_version m = 3 \<or> sc_ui_actions sc = None"
  shows "ef_path ` set (em_files m) = declared_paths sc \<and> distinct (map ef_path (em_files m))
    \<and> list_all (\<lambda>f. ef_session_id f = session) (em_files m)"
proof (intro conjI)
  show "ef_path ` set (em_files m) = declared_paths sc"
    using evidence_within_declared[OF assms] declared_within_evidence[OF assms] by blast
  show "distinct (map ef_path (em_files m))"
    using assms(1) manifest_paths_distinct[of up session m] by (simp add: validate_evidence_def)
  show "list_all (\<lambda>f. ef_session_id f = session) (em_files m)"
    using typed_evidence_path(1)[OF typed_manifest(1)[OF assms(1,2)]] by (simp add: list_all_iff)
qed

definition sample_evidence :: "string \<Rightarrow> evidence_manifest" where
  "sample_evidence session = \<lparr>em_schema_version = 2, em_files =
     [\<lparr>ef_path = scenario_result_path, ef_type = EvidenceScenarioResult,
       ef_source_path = ''evidence/'' @ scenario_result_path, ef_media_type = ''application/json'',
       ef_session_id = session, ef_size = 2, ef_sha256 = replicate 64 CHR ''0'', ef_capture_method = '''',
       ef_width = 0, ef_height = 0\<rparr>,
      \<lparr>ef_path = ''screenshots/viewport.png'', ef_type = Viewport,
       ef_source_path = ''evidence/screenshots/viewport.png'', ef_media_type = ''image/png'',
       ef_session_id = session, ef_size = 9, ef_sha256 = replicate 64 CHR ''0'', ef_capture_method = ''offscreen'',
       ef_width = 4, ef_height = 3\<rparr>]\<rparr>"

definition sample_session :: string where "sample_session = ''bss_aaaaaaaaaaaaaaaa''"

lemma sample_evidence_valid: "validate_evidence id (sample_evidence sample_session) sample_scenario sample_session = None"
  by (simp add: sample_evidence_def sample_session_def sample_scenario_def evaluate)

theorem accepted_evidence_is_declared_witness:
  "ef_path ` set (em_files (sample_evidence sample_session)) = declared_paths sample_scenario"
  using accepted_evidence_is_declared[OF sample_evidence_valid]
  by (simp add: sample_evidence_def sample_scenario_def)

section \<open>A completed UI batch\<close>

lemma batch_receipts_nth:
  "batch_receipts st ras = None \<longleftrightarrow>
    (\<forall>(r, a)\<in>set ras. ur_kind r = ac_kind a \<and> (ur_outcome r = Queued \<longrightarrow> ur_event_count r = int (event_count a))
       \<and> (terminal st \<longrightarrow> ur_outcome r \<noteq> Pending) \<and> (st = StateComplete \<longrightarrow> ur_outcome r = Queued))"
  by (induction st ras rule: batch_receipts.induct) auto

text \<open>A complete receipt accepted for a declared batch reports every action of the batch, in
  order, with its kind, as queued with exactly the events the action produces.\<close>

theorem complete_batch_receipt:
  assumes "validate_ui_batch_receipt r (Some b) = None" "rr_state r = StateComplete"
  shows "\<exists>j. rr_ui_actions r = Some j
    \<and> list_all2 (\<lambda>u a. ur_kind u = ac_kind a \<and> ur_outcome u = Queued \<and> ur_event_count u = int (event_count a))
        (uj_receipts j) (ba_actions b)"
proof -
  obtain j where j: "rr_ui_actions r = Some j"
    using assms by (auto simp: validate_ui_batch_receipt_def split: option.splits)
  have len: "length (uj_receipts j) = length (ba_actions b)"
    and ok: "batch_receipts StateComplete (zip (uj_receipts j) (ba_actions b)) = None"
    using assms j by (auto simp: validate_ui_batch_receipt_def)
  show ?thesis
    using j len ok unfolding batch_receipts_nth list_all2_iff by auto
qed

definition sample_click :: action where
  "sample_click = zero_action\<lparr>ac_kind := Click, ac_click := \<lparr>ca_x = 3, ca_y = 4, ca_button = ''left''\<rparr>\<rparr>"

theorem complete_batch_receipt_witness:
  "\<exists>j. rr_ui_actions (zero_receipt\<lparr>rr_state := StateComplete, rr_ui_actions := Some (sample_journal [Queued])\<rparr>) = Some j
    \<and> list_all2 (\<lambda>u a. ur_kind u = ac_kind a \<and> ur_outcome u = Queued \<and> ur_event_count u = int (event_count a))
        (uj_receipts j) [sample_click]"
  using complete_batch_receipt[of "zero_receipt\<lparr>rr_state := StateComplete, rr_ui_actions := Some (sample_journal [Queued])\<rparr>"
      "\<lparr>ba_schema_version = 1, ba_timeout_seconds = 5, ba_actions = [sample_click]\<rparr>"]
  by (simp add: validate_ui_batch_receipt_def sample_journal_def sample_receipt_def sample_click_def
      zero_action_def zero_receipt_def event_count_def)

end
