(* ===== verification/HostState.thy ===== *)
theory HostState
  imports RunContract
begin

text \<open>
  The state root of a host (\<open>internal/host\<close>) and the file operations of \<open>service.go\<close> on it.

  A state file is \<open>Absent\<close>, \<open>Damaged\<close> (it exists but does not read back as JSON of its type) or
  \<open>Stored v\<close>. The root holds the Host Lock, one receipt per run, one run root and one staging
  directory per run, the pending request of the desktop task and the pending setup claim; the
  lock file \<open>.launch.lock\<close> is the flag \<open>hs_launch\<close>. The operation lock is not a field: what
  runs under it is one atomic operation of the model.

  Every file operation consumes one tick. The environment decides for each tick whether the
  operation succeeds, fails without effect, fails after its effect (a rename whose directory
  sync fails), or leaves a torn new file. It also supplies the clock and the answers of the
  session daemon, the desktop task and the UI actor, each for the tick at which it is asked, the
  state of the run's context (\<open>runCtx.Err\<close>), and what other operations do to the state root
  while an execution does not hold the operation lock (\<open>he_interfere\<close>). The parser of JSON
  texts and the decoder of PNG headers of Go's library are arguments too.
\<close>

datatype 'a slot = Absent | Damaged | Stored 'a

record lock_record =
  lk_schema_version :: int
  lk_claim :: lock_claim
  lk_session_id :: string

record stage_file =
  sf_destination :: string
  sf_size :: int
  sf_sha256 :: string
  sf_contents :: string

record staged_manifest =
  sm_schema_version :: int
  sm_files :: "stage_file list"

text \<open>The entries of a run root or of a staging directory.\<close>

record run_root =
  rt_ownership :: "lock_record slot"
  rt_staged :: "staged_manifest slot"
  rt_request :: "run_request slot"
  rt_payload :: "(string \<times> string) list"
  rt_evidence :: "(string \<times> string) list"
  rt_directories :: "string list"

datatype root_state = NoRoot | NotADirectory | Root run_root

record setup_claim =
  su_schema_version :: int
  su_installation_id :: string
  su_operation_id :: string
  su_execution_token :: string
  su_request_sha256 :: string
  su_root_identity :: string
  su_owner_sid :: string
  su_deadline :: int

datatype host_event =
    SessionStarted lock_claim string
  | SessionStopped string string
  | LockReleased lock_claim
  | TaskLaunched lock_claim

record host_state =
  hs_lock :: "lock_record slot"
  hs_receipts :: "string \<Rightarrow> run_receipt slot"
  hs_roots :: "string \<Rightarrow> root_state"
  hs_staging :: "string \<Rightarrow> root_state"
  hs_pending :: "run_request slot"
  hs_setup :: "setup_claim slot"
  hs_launch :: bool
  hs_tick :: nat
  hs_log :: "host_event list"

record host_env =
  he_platform :: string
  he_up :: "nat \<Rightarrow> nat"
  he_sha :: "string \<Rightarrow> string"
  he_now :: "nat \<Rightarrow> int"
  he_fault :: "nat \<Rightarrow> fault"
  he_tasks :: bool
  he_prepare :: "nat \<Rightarrow> run_request \<Rightarrow> err option"
  he_start_task :: "nat \<Rightarrow> run_request \<Rightarrow> err option"
  he_daemon :: bool
  he_daemon_start :: "nat \<Rightarrow> run_request \<Rightarrow> err option \<times> string"
  he_daemon_recover :: "nat \<Rightarrow> string \<Rightarrow> err + string option"
  he_daemon_ready :: "nat \<Rightarrow> string \<Rightarrow> err option"
  he_daemon_call :: "nat \<Rightarrow> string \<Rightarrow> err + json"
  he_daemon_stop :: "nat \<Rightarrow> string \<Rightarrow> string \<Rightarrow> err option"
  he_interfere :: "nat \<Rightarrow> host_state \<Rightarrow> host_state"
  he_context :: "nat \<Rightarrow> err option"
  he_root :: string
  he_parse :: "string \<Rightarrow> json option"
  he_capture_file :: "nat \<Rightarrow> string \<Rightarrow> string option"
  he_png :: "string \<Rightarrow> (int \<times> int) option"
  he_desktop :: bool
  he_desktop_capture :: "nat \<Rightarrow> err option"
  he_ui_actor :: bool
  he_perform :: "nat \<Rightarrow> nat \<Rightarrow> action \<Rightarrow> err + ui_receipt"

type_synonym 'a hact = "(host_state, 'a) act"

section \<open>Operations that may fail\<close>

definition step_tick :: "host_state \<Rightarrow> host_state" where
  "step_tick s = s\<lparr>hs_tick := Suc (hs_tick s)\<rparr>"

definition io :: "host_env \<Rightarrow> 'a hact \<Rightarrow> 'a hact" where
  "io env m s =
    (let t = step_tick s in
     case he_fault env (hs_tick s) of
       NoFault \<Rightarrow> m t
     | FailAfter \<Rightarrow> (Inl IoFault, snd (m t))
     | _ \<Rightarrow> (Inl IoFault, t))"

text \<open>A question to something outside: its answer depends on the tick.\<close>

definition ask :: "(nat \<Rightarrow> 'a) \<Rightarrow> 'a hact" where
  "ask q s = (Inr (q (hs_tick s)), step_tick s)"

text \<open>Other operations run while the operation lock is free.\<close>

definition interleave :: "host_env \<Rightarrow> unit hact" where
  "interleave env s = (Inr (), step_tick (he_interfere env (hs_tick s) s))"

definition log_event :: "host_event \<Rightarrow> unit hact" where
  "log_event e = change (\<lambda>s. s\<lparr>hs_log := e # hs_log s\<rparr>)"

definition read_result :: "'a slot \<Rightarrow> err + 'a" where
  "read_result f = (case f of Absent \<Rightarrow> Inl NotExist | Damaged \<Rightarrow> Inl (Msg ''invalid JSON'') | Stored v \<Rightarrow> Inr v)"

text \<open>\<open>readJSON\<close>, \<open>os.Lstat\<close> (does the file exist), \<open>writeJSONAtomic\<close> and \<open>os.Remove\<close>.\<close>

definition read_json :: "host_env \<Rightarrow> (host_state \<Rightarrow> 'a slot) \<Rightarrow> 'a hact" where
  "read_json env f = io env (\<lambda>s. (read_result (f s), s))"

definition lstat :: "host_env \<Rightarrow> (host_state \<Rightarrow> bool) \<Rightarrow> bool hact" where
  "lstat env p = io env (look p)"

definition save :: "host_env \<Rightarrow> (host_state \<Rightarrow> host_state) \<Rightarrow> unit hact" where
  "save env f = io env (change f)"

text \<open>The operation lock: waiting for it may fail, holding it makes the rest atomic.\<close>

definition acquire_operation :: "host_env \<Rightarrow> unit hact" where
  "acquire_operation env = io env (ret ())"

definition put_lock :: "lock_record slot \<Rightarrow> host_state \<Rightarrow> host_state" where
  "put_lock f s = s\<lparr>hs_lock := f\<rparr>"

definition put_receipt :: "run_receipt \<Rightarrow> host_state \<Rightarrow> host_state" where
  "put_receipt r s = s\<lparr>hs_receipts := (hs_receipts s)(lc_run_id (rr_claim r) := Stored r)\<rparr>"

definition put_root :: "string \<Rightarrow> root_state \<Rightarrow> host_state \<Rightarrow> host_state" where
  "put_root run x s = s\<lparr>hs_roots := (hs_roots s)(run := x)\<rparr>"

definition put_staging :: "string \<Rightarrow> root_state \<Rightarrow> host_state \<Rightarrow> host_state" where
  "put_staging run x s = s\<lparr>hs_staging := (hs_staging s)(run := x)\<rparr>"

definition put_pending :: "run_request slot \<Rightarrow> host_state \<Rightarrow> host_state" where
  "put_pending f s = s\<lparr>hs_pending := f\<rparr>"

definition write_receipt :: "host_env \<Rightarrow> run_receipt \<Rightarrow> unit hact" where
  "write_receipt env r = save env (put_receipt r)"

definition write_lock :: "host_env \<Rightarrow> lock_record \<Rightarrow> unit hact" where
  "write_lock env l = save env (put_lock (Stored l))"

definition read_lock :: "host_env \<Rightarrow> lock_record hact" where
  "read_lock env = read_json env hs_lock"

text \<open>
  \<open>writeFileExclusive\<close> of the Host Lock. The result says whether the file existed, and else
  whether the write failed; a failed write may have left the file behind, whole or torn.
\<close>

datatype exclusive = Created | Existed | CreateFailed err

definition create_lock :: "host_env \<Rightarrow> lock_record \<Rightarrow> exclusive hact" where
  "create_lock env l s =
    (let t = step_tick s; f = he_fault env (hs_tick s) in
     if f = FailBefore then (Inr (CreateFailed IoFault), t)
     else if hs_lock s \<noteq> Absent then (Inr Existed, t)
     else case f of
       NoFault \<Rightarrow> (Inr Created, put_lock (Stored l) t)
     | FailTorn \<Rightarrow> (Inr (CreateFailed IoFault), put_lock Damaged t)
     | _ \<Rightarrow> (Inr (CreateFailed IoFault), put_lock (Stored l) t))"

text \<open>The file inside a run root.\<close>

definition in_root :: "(run_root \<Rightarrow> 'a slot) \<Rightarrow> string \<Rightarrow> host_state \<Rightarrow> 'a slot" where
  "in_root f run s = (case hs_roots s run of Root rt \<Rightarrow> f rt | _ \<Rightarrow> Absent)"

definition update_root :: "string \<Rightarrow> (run_root \<Rightarrow> run_root) \<Rightarrow> host_state \<Rightarrow> host_state" where
  "update_root run f s = (case hs_roots s run of Root rt \<Rightarrow> put_root run (Root (f rt)) s | _ \<Rightarrow> s)"

definition update_staging :: "string \<Rightarrow> (run_root \<Rightarrow> run_root) \<Rightarrow> host_state \<Rightarrow> host_state" where
  "update_staging run f s = (case hs_staging s run of Root rt \<Rightarrow> put_staging run (Root (f rt)) s | _ \<Rightarrow> s)"

definition empty_root :: run_root where
  "empty_root = \<lparr>rt_ownership = Absent, rt_staged = Absent, rt_request = Absent, rt_payload = [],
     rt_evidence = [], rt_directories = []\<rparr>"

text \<open>\<open>len(entries) == 0\<close> of a directory listing; the payload is the directory of its files.\<close>

definition no_entries :: "run_root \<Rightarrow> bool" where
  "no_entries rt \<longleftrightarrow> rt_ownership rt = Absent \<and> rt_staged rt = Absent \<and> rt_request rt = Absent
     \<and> rt_payload rt = [] \<and> rt_evidence rt = [] \<and> rt_directories rt = []"

section \<open>Weakest preconditions of the file operations\<close>

lemma wp_io: "wp (io env m) Q E s =
  (case he_fault env (hs_tick s) of
     NoFault \<Rightarrow> wp m Q E (step_tick s)
   | FailAfter \<Rightarrow> E IoFault (snd (m (step_tick s)))
   | _ \<Rightarrow> E IoFault (step_tick s))"
  by (simp add: wp_def io_def Let_def split: fault.split)

lemma wp_ask [wp_simps]: "wp (ask q) Q E s = Q (q (hs_tick s)) (step_tick s)"
  by (simp add: wp_def ask_def)

lemma keeps_io: "keeps P m \<Longrightarrow> (\<And>s. P s \<Longrightarrow> P (step_tick s)) \<Longrightarrow> keeps P (io env m)"
  by (auto simp: keeps_def io_def Let_def split: fault.split)

lemma keeps_ask: "(\<And>s. P s \<Longrightarrow> P (step_tick s)) \<Longrightarrow> keeps P (ask q)"
  by (simp add: keeps_def ask_def)

text \<open>
  Introduction rules for long operations: each file operation leaves one goal for its result
  and one for its failure, whatever the environment decides. They are collected, with the
  rules for the control structure, in \<open>wp_intros\<close>.
\<close>

lemma wp_read_json [wp_intros]:
  assumes "\<And>v. f s = Stored v \<Longrightarrow> Q v (step_tick s)" and "\<And>e. E e (step_tick s)"
    and "\<And>t. f (step_tick t) = f t"
  shows "wp (read_json env f) Q E s"
  using assms by (auto simp: wp_def read_json_def io_def Let_def read_result_def split: fault.split slot.split)

lemma wp_lstat [wp_intros]:
  assumes "Q (p s) (step_tick s)" and "\<And>e. E e (step_tick s)" and "\<And>t. p (step_tick t) = p t"
  shows "wp (lstat env p) Q E s"
  using assms by (auto simp: wp_def lstat_def io_def Let_def look_def split: fault.split)

lemma wp_save [wp_intros]:
  assumes "Q () (f (step_tick s))" and "\<And>e. E e (f (step_tick s))" and "\<And>e. E e (step_tick s)"
  shows "wp (save env f) Q E s"
  using assms by (auto simp: wp_def save_def io_def Let_def change_def split: fault.split)

lemma wp_askI [wp_intros]: "Q (q (hs_tick s)) (step_tick s) \<Longrightarrow> wp (ask q) Q E s"
  by (simp add: wp_ask)

lemma wp_acquire_operation [wp_intros]:
  assumes "Q () (step_tick s)" and "\<And>e. E e (step_tick s)"
  shows "wp (acquire_operation env) Q E s"
  using assms by (auto simp: wp_def acquire_operation_def io_def Let_def ret_def split: fault.split)

text \<open>Nothing reads the tick: a step of it changes no field that matters.\<close>

lemma step_tick_simps [simp]:
  "hs_lock (step_tick s) = hs_lock s" "hs_receipts (step_tick s) = hs_receipts s"
  "hs_roots (step_tick s) = hs_roots s" "hs_staging (step_tick s) = hs_staging s"
  "hs_pending (step_tick s) = hs_pending s" "hs_setup (step_tick s) = hs_setup s"
  "hs_launch (step_tick s) = hs_launch s" "hs_log (step_tick s) = hs_log s"
  "hs_tick (step_tick s) = Suc (hs_tick s)"
  by (simp_all add: step_tick_def)

lemmas put_simps [evaluate] = put_lock_def put_receipt_def put_root_def put_staging_def put_pending_def

lemmas host_state_evaluate [evaluate] = io_def interleave_def ask_def log_event_def read_result_def read_json_def lstat_def save_def
  acquire_operation_def write_receipt_def write_lock_def read_lock_def create_lock_def in_root_def
  update_root_def update_staging_def empty_root_def no_entries_def

end
