(* ===== verification/HostService.thy ===== *)
theory HostService
  imports HostState
begin

text \<open>
  \<open>internal/host/service.go\<close>: the operations a controller invokes on a host. Each definition is
  the body of the handler of that name, from its first check to its last write, over the state
  of theory HostState. What runs between \<open>acquireOperation\<close> and its release is one atomic
  operation here; the interleavings with the desktop task are in theory HostExecute.
\<close>

section \<open>Claims and the Host Lock\<close>

definition authorize_claim :: "host_env \<Rightarrow> lock_claim \<Rightarrow> lock_record hact" where
  "authorize_claim env claim =
    then_do (refuse (claim_validate claim))
     (andthen (read_lock env) (\<lambda>lock.
        if lk_schema_version lock \<noteq> 1 \<or> \<not> claims_equal (lk_claim lock) claim
        then fail (Msg ''Host Lock claim does not match'') else ret lock))"

definition reject_pending_setup :: "host_env \<Rightarrow> unit hact" where
  "reject_pending_setup env =
    andthen (lstat env (\<lambda>s. hs_setup s \<noteq> Absent)) (\<lambda>there.
      if there then fail (Msg ''active or unresolved setup execution'') else skip)"

definition mkdir_all :: "host_env \<Rightarrow> unit hact" where
  "mkdir_all env = save env (\<lambda>s. s)"

definition validate_platform :: "host_env \<Rightarrow> int \<Rightarrow> err option" where
  "validate_platform env schema =
    check (he_platform env \<noteq> (if schema = 2 then ''linux'' else ''windows''))
      ''request cannot execute on this host''"

section \<open>Status\<close>

definition fresh_receipt :: "lock_claim \<Rightarrow> run_state \<Rightarrow> run_receipt" where
  "fresh_receipt claim st = zero_receipt\<lparr>rr_schema_version := 1, rr_claim := claim, rr_state := st\<rparr>"

definition interrupted_publication :: string where
  "interrupted_publication = ''Recovered a Session whose receipt publication was interrupted''"

definition receipt_of_lock :: "lock_record \<Rightarrow> run_receipt" where
  "receipt_of_lock lock =
    (let r = fresh_receipt (lk_claim lock) (if lk_session_id lock \<noteq> '''' then StateCleanupFailed else StateAccepted) in
     r\<lparr>rr_session_id := lk_session_id lock,
       rr_error := (if lk_session_id lock \<noteq> '''' then interrupted_publication else '''')\<rparr>)"

definition host_status :: "host_env \<Rightarrow> int \<Rightarrow> string \<Rightarrow> run_receipt hact" where
  "host_status env version run =
    then_do (refuse (check (version \<noteq> 1 \<or> \<not> run_id_ok run) ''invalid status contract''))
     (andthen (attempt (read_json env (\<lambda>s. hs_receipts s run))) (\<lambda>read.
       case read of
         Inr receipt \<Rightarrow> ret receipt
       | Inl e \<Rightarrow>
           andthen (attempt (lstat env (\<lambda>s. hs_receipts s run \<noteq> Absent))) (\<lambda>there.
             if there \<noteq> Inr False then fail e
             else andthen (attempt (read_lock env)) (\<lambda>l.
               case l of
                 Inl e' \<Rightarrow> fail e
               | Inr lock \<Rightarrow>
                   if lk_schema_version lock \<noteq> 1 \<or> claim_validate (lk_claim lock) \<noteq> None
                      \<or> lc_run_id (lk_claim lock) \<noteq> run
                      \<or> lk_session_id lock \<noteq> '''' \<and> \<not> session_id_ok (lk_session_id lock)
                   then fail e
                   else ret (receipt_of_lock lock)))))"

section \<open>Acquire\<close>

text \<open>The checks on a receipt that already exists: the same request may come again as long as
  its run has not published a session.\<close>

definition replay_acquire :: "host_env \<Rightarrow> lock_claim \<Rightarrow> run_receipt \<Rightarrow> unit hact" where
  "replay_acquire env claim existing =
    (if rr_schema_version existing \<noteq> 1 \<or> \<not> claims_equal (rr_claim existing) claim
     then fail (Msg ''Run receipt already exists for another request'')
     else if rr_state existing \<notin> {StateAccepted, StateStaged, StateStarting}
     then fail (Msg ''Run receipt already exists in non-replayable state'')
     else if rr_session_id existing \<noteq> '''' then fail (Msg ''Run receipt already has a Session identity'')
     else andthen (attempt (read_lock env)) (\<lambda>l.
       case l of
         Inl e \<Rightarrow>
           andthen (attempt (lstat env (\<lambda>s. hs_lock s \<noteq> Absent))) (\<lambda>there.
             if there = Inr False then fail (Msg ''Run receipt already exists without an active Host Lock'')
             else fail e)
       | Inr lock \<Rightarrow>
           if \<not> claims_equal (lk_claim lock) claim \<or> lk_session_id lock \<noteq> ''''
           then fail (Msg ''host is locked by another Run'') else skip))"

definition take_lock :: "host_env \<Rightarrow> lock_claim \<Rightarrow> unit hact" where
  "take_lock env claim =
    (let publish = write_receipt env (fresh_receipt claim StateAccepted) in
     andthen (create_lock env \<lparr>lk_schema_version = 1, lk_claim = claim, lk_session_id = ''''\<rparr>) (\<lambda>created.
       case created of
         CreateFailed e \<Rightarrow> fail e
       | Created \<Rightarrow> publish
       | Existed \<Rightarrow>
           andthen (attempt (read_lock env)) (\<lambda>l.
             case l of
               Inl e \<Rightarrow> fail (Msg ''host is locked by another Run'')
             | Inr lock \<Rightarrow>
                 if \<not> claims_equal (lk_claim lock) claim \<or> lk_session_id lock \<noteq> ''''
                 then fail (Msg ''host is locked by another Run'')
                 else andthen (attempt (read_json env (\<lambda>s. hs_receipts s (lc_run_id claim)))) (\<lambda>r.
                   case r of
                     Inr receipt \<Rightarrow> if claims_equal (rr_claim receipt) claim then skip else publish
                   | Inl e \<Rightarrow> publish))))"

definition acquire_run :: "host_env \<Rightarrow> lock_claim \<Rightarrow> unit hact" where
  "acquire_run env claim =
    andthen (attempt (read_json env (\<lambda>s. hs_receipts s (lc_run_id claim)))) (\<lambda>read.
      case read of
        Inr existing \<Rightarrow> replay_acquire env claim existing
      | Inl e \<Rightarrow>
          andthen (attempt (lstat env (\<lambda>s. hs_receipts s (lc_run_id claim) \<noteq> Absent))) (\<lambda>there.
            if there \<noteq> Inr False then fail (Msg ''existing Run receipt is invalid'')
            else take_lock env claim))"

definition acquire_locked :: "host_env \<Rightarrow> lock_claim \<Rightarrow> unit hact" where
  "acquire_locked env claim =
    then_do (reject_pending_setup env)
    (then_do (mkdir_all env)
    (then_do (mkdir_all env)
    (acquire_run env claim)))"

definition host_acquire :: "host_env \<Rightarrow> int \<Rightarrow> lock_claim \<Rightarrow> unit hact" where
  "host_acquire env version claim =
    then_do (refuse (check (version \<noteq> 1) ''unsupported acquire schema version''))
    (then_do (refuse (claim_validate claim))
    (andthen (ask (he_now env)) (\<lambda>now.
     then_do (refuse (check (lc_deadline claim \<le> now) ''Run deadline has expired''))
     (then_do (acquire_operation env) (acquire_locked env claim)))))"

section \<open>Stage\<close>

definition max_stage_files :: nat where "max_stage_files = 64"
definition max_stage_file :: int where "max_stage_file = 8 * 2 ^ 20"
definition max_stage_total :: int where "max_stage_total = 32 * 2 ^ 20"

definition validate_stage_file :: "(nat \<Rightarrow> nat) \<Rightarrow> (string \<Rightarrow> string) \<Rightarrow> stage_file \<Rightarrow> err option" where
  "validate_stage_file up sha f =
    first_err
     [validate_windows_relative up (sf_destination f),
      check (sf_size f < 0 \<or> max_stage_file < sf_size f \<or> int (length (sf_contents f)) \<noteq> sf_size f \<or> \<not> hex64 (sf_sha256 f))
        ''invalid staged file metadata'',
      check (sha (sf_contents f) \<noteq> sf_sha256 f) ''staged file SHA-256 changed'']"

fun stage_files_ok :: "(nat \<Rightarrow> nat) \<Rightarrow> (string \<Rightarrow> string) \<Rightarrow> string set \<Rightarrow> int \<Rightarrow> stage_file list \<Rightarrow> err option" where
  "stage_files_ok up sha seen used [] = None"
| "stage_files_ok up sha seen used (f # fs) =
    (let key = windows_key up (sf_destination f) in
     first_err
      [validate_stage_file up sha f,
       check (key \<in> seen) ''duplicate staged destination'',
       check (max_stage_total < used + sf_size f) ''staged payload exceeds total limit'',
       stage_files_ok up sha (insert key seen) (used + sf_size f) fs])"

definition root_directories :: "host_env \<Rightarrow> string list" where
  "root_directories env =
    [''daemon'', ''blender-resources'', ''blender-config'', ''blender-scripts'', ''blender-data'',
     ''blender-extensions'', ''evidence''] @ (if he_platform env = ''linux'' then [''tmp'', ''home''] else [])"

text \<open>Everything between the creation of the staging directory and the rename; the deferred
  \<open>RemoveAll\<close> of the staging directory runs whatever happened, and its own error is ignored.\<close>

definition fill_staging :: "host_env \<Rightarrow> string \<Rightarrow> lock_record \<Rightarrow> stage_file list \<Rightarrow> unit hact" where
  "fill_staging env run lock files =
    then_do (save env (update_staging run (\<lambda>rt. rt\<lparr>rt_ownership := Stored lock\<rparr>)))
    (then_do (each (\<lambda>f. then_do (mkdir_all env)
         (save env (update_staging run (\<lambda>rt. rt\<lparr>rt_payload := rt_payload rt @ [(sf_destination f, sf_contents f)]\<rparr>)))) files)
    (then_do (save env (update_staging run (\<lambda>rt. rt\<lparr>rt_staged :=
         Stored \<lparr>sm_schema_version = 1, sm_files = map (\<lambda>f. f\<lparr>sf_contents := ''''\<rparr>) files\<rparr>\<rparr>)))
    (each (\<lambda>d. save env (update_staging run (\<lambda>rt. rt\<lparr>rt_directories := rt_directories rt @ [d]\<rparr>))) (root_directories env))))"

text \<open>\<open>os.Mkdir\<close> of the staging directory, and \<open>os.Rename\<close> of it onto the run root, which does
  not replace a directory that has entries.\<close>

definition make_staging :: "string \<Rightarrow> unit hact" where
  "make_staging run s =
    (if hs_staging s run \<noteq> NoRoot
     then (Inl (Msg ''exact Run staging directory already exists; settle the Run before retrying''), s)
     else (Inr (), put_staging run (Root empty_root) s))"

definition replaceable :: "root_state \<Rightarrow> bool" where
  "replaceable x = (case x of NoRoot \<Rightarrow> True | Root old \<Rightarrow> no_entries old | NotADirectory \<Rightarrow> False)"

definition publish_root :: "string \<Rightarrow> unit hact" where
  "publish_root run s =
    (case hs_staging s run of
       Root rt \<Rightarrow>
         if replaceable (hs_roots s run) then (Inr (), put_staging run NoRoot (put_root run (Root rt) s))
         else (Inl Exist, s)
     | _ \<Rightarrow> (Inl NotExist, s))"

text \<open>The deferred \<open>os.RemoveAll\<close>; interrupted, it may have removed the ownership record only.\<close>

definition drop_staging :: "host_env \<Rightarrow> string \<Rightarrow> unit hact" where
  "drop_staging env run s =
    (let t = step_tick s in
     case he_fault env (hs_tick s) of
       NoFault \<Rightarrow> (Inr (), put_staging run NoRoot t)
     | FailBefore \<Rightarrow> (Inl IoFault, t)
     | FailAfter \<Rightarrow> (Inl IoFault, put_staging run NoRoot t)
     | FailTorn \<Rightarrow> (Inl IoFault, update_staging run (\<lambda>rt. rt\<lparr>rt_ownership := Absent\<rparr>) t))"

definition stage_into :: "host_env \<Rightarrow> lock_record \<Rightarrow> stage_file list \<Rightarrow> unit hact" where
  "stage_into env lock files =
    (let claim = lk_claim lock; run = lc_run_id claim in
     then_do (fill_staging env run lock files)
     (then_do (io env (publish_root run))
     (write_receipt env (fresh_receipt claim StateStaged))))"

definition stage_authorized :: "host_env \<Rightarrow> stage_file list \<Rightarrow> lock_record \<Rightarrow> unit hact" where
  "stage_authorized env files lock =
    (let run = lc_run_id (lk_claim lock) in
     then_do (refuse (check (lk_session_id lock \<noteq> '''') ''cannot stage after Session start''))
     (then_do (refuse (stage_files_ok (he_up env) (he_sha env) {} 0 files))
     (then_do (mkdir_all env)
     (then_do (io env (make_staging run))
     (andthen (attempt (stage_into env lock files)) (\<lambda>result.
        ignoring (drop_staging env run) (of_res result)))))))"

definition host_stage :: "host_env \<Rightarrow> int \<Rightarrow> lock_claim \<Rightarrow> stage_file list \<Rightarrow> unit hact" where
  "host_stage env version claim files =
    then_do (refuse (check (version \<noteq> 1 \<or> length files = 0 \<or> max_stage_files < length files) ''invalid stage contract''))
    (then_do (acquire_operation env)
    (andthen (authorize_claim env claim) (stage_authorized env files)))"

section \<open>Start\<close>

definition requests_equal :: "run_request \<Rightarrow> run_request \<Rightarrow> err + bool" where
  "requests_equal a b =
    bind_res (body_json (rq_body a)) (\<lambda>u. bind_res (body_json (rq_body b)) (\<lambda>v.
      Inr (rq_claim a = rq_claim b \<and> render u = render v)))"

definition validate_stored_request :: "host_env \<Rightarrow> run_request \<Rightarrow> unit hact" where
  "validate_stored_request env request =
    andthen (attempt (read_json env (in_root rt_request (lc_run_id (rq_claim request))))) (\<lambda>stored.
      case stored of
        Inl e \<Rightarrow> fail (Wrap ''read stored Run request'' e)
      | Inr r \<Rightarrow> andthen (of_res (requests_equal r request)) (\<lambda>same.
          if same then skip else fail (Msg ''stored Run request changed'')))"

definition payload_contents :: "string \<Rightarrow> string \<Rightarrow> host_state \<Rightarrow> string option" where
  "payload_contents run destination s =
    (case hs_roots s run of Root rt \<Rightarrow> map_of (rev (rt_payload rt)) destination | _ \<Rightarrow> None)"

fun check_staged_files :: "host_env \<Rightarrow> string \<Rightarrow> (string \<times> stage_file) list \<Rightarrow> stage_file list
    \<Rightarrow> (string \<times> stage_file) list hact" where
  "check_staged_files env run seen [] = ret seen"
| "check_staged_files env run seen (f # fs) =
    (let key = windows_key (he_up env) (sf_destination f) in
     if validate_windows_relative (he_up env) (sf_destination f) \<noteq> None \<or> sf_size f < 0
        \<or> max_stage_file < sf_size f \<or> \<not> hex64 (sf_sha256 f) \<or> map_of seen key \<noteq> None
     then fail (Msg ''invalid staged payload manifest'')
     else andthen (io env (look (payload_contents run (sf_destination f)))) (\<lambda>contents.
       case contents of
         None \<Rightarrow> fail (Msg ''published payload is invalid'')
       | Some bs \<Rightarrow>
           if int (length bs) \<noteq> sf_size f \<or> he_sha env bs \<noteq> sf_sha256 f
           then fail (Msg ''published payload changed after transfer'')
           else check_staged_files env run ((key, f) # seen) fs))"

definition validate_staged_request :: "host_env \<Rightarrow> run_request \<Rightarrow> unit hact" where
  "validate_staged_request env request =
    (let run = lc_run_id (rq_claim request); files = pl_files (rb_payload (rq_body request)) in
     andthen (read_json env (in_root rt_staged run)) (\<lambda>staged.
      then_do (refuse (check (sm_schema_version staged \<noteq> 1 \<or> length (sm_files staged) \<noteq> length files)
                 ''staged payload does not match request''))
      (andthen (check_staged_files env run [] (sm_files staged)) (\<lambda>seen.
        refuse (check (\<not> list_all (\<lambda>f. case map_of seen (windows_key (he_up env) (pf_destination f)) of
                   None \<Rightarrow> False | Some g \<Rightarrow> sf_size g = pf_size f \<and> sf_sha256 g = pf_sha256 f) files)
                 ''staged payload does not match request'')))))"

text \<open>\<open>tasks.Launch\<close>, with its record in the log.\<close>

definition start_task :: "host_env \<Rightarrow> run_request \<Rightarrow> unit hact" where
  "start_task env request =
    andthen (ask (\<lambda>n. he_start_task env n request)) (\<lambda>e.
      then_do (log_event (TaskLaunched (rq_claim request))) (refuse e))"

definition prepare_task :: "host_env \<Rightarrow> run_request \<Rightarrow> unit hact" where
  "prepare_task env request = andthen (ask (\<lambda>n. he_prepare env n request)) refuse"

text \<open>The branch of \<open>Start\<close> for a run that has already been started.\<close>

definition resume_started :: "host_env \<Rightarrow> run_request \<Rightarrow> lock_record \<Rightarrow> run_receipt \<Rightarrow> run_receipt hact" where
  "resume_started env request lock existing =
    then_do (validate_stored_request env request)
     (andthen
       (if lk_session_id lock \<noteq> '''' \<and> rr_session_id existing = '''' then
          (let r = existing\<lparr>rr_session_id := lk_session_id lock, rr_state := StateCleanupFailed,
                           rr_error := interrupted_publication\<rparr> in
           then_do (write_receipt env r) (ret r))
        else if lk_session_id lock \<noteq> rr_session_id existing
        then fail (Msg ''stored receipt Session identity changed'')
        else ret existing)
       (\<lambda>existing.
         if rr_state existing = StateStarting \<and> lk_session_id lock = '''' then
           (if \<not> he_tasks env then fail (Msg ''desktop launcher is unavailable'')
            else then_do (start_task env request) (ret existing))
         else ret existing))"

definition first_start :: "host_env \<Rightarrow> run_request \<Rightarrow> run_receipt hact" where
  "first_start env request =
    (let run = lc_run_id (rq_claim request); receipt = fresh_receipt (rq_claim request) StateStarting in
     then_do (validate_staged_request env request)
     (then_do (refuse (check (\<not> he_tasks env) ''desktop launcher is unavailable''))
     (then_do (prepare_task env request)
     (then_do (save env (update_root run (\<lambda>rt. rt\<lparr>rt_request := Stored request\<rparr>)))
     (then_do (save env (put_pending (Stored request)))
     (then_do (write_receipt env receipt)
     (then_do (start_task env request) (ret receipt))))))))"

definition start_locked :: "host_env \<Rightarrow> run_request \<Rightarrow> lock_record \<Rightarrow> run_receipt hact" where
  "start_locked env request lock =
    (let claim = rq_claim request in
     andthen (attempt (host_status env 1 (lc_run_id claim))) (\<lambda>status.
      case status of
        Inr existing \<Rightarrow>
          if \<not> claims_equal (rr_claim existing) claim then fail (Msg ''stored receipt claim changed'')
          else if lk_session_id lock \<noteq> '''' \<or> rr_state existing \<noteq> StateAccepted \<and> rr_state existing \<noteq> StateStaged
          then resume_started env request lock existing
          else first_start env request
      | Inl e \<Rightarrow>
          if lk_session_id lock \<noteq> '''' then
            then_do (validate_stored_request env request)
             (let r = (fresh_receipt claim StateCleanupFailed)
                  \<lparr>rr_session_id := lk_session_id lock, rr_error := interrupted_publication\<rparr>
              in then_do (write_receipt env r) (ret r))
          else fail e))"

definition host_start :: "host_env \<Rightarrow> run_request \<Rightarrow> run_receipt hact" where
  "host_start env request =
    then_do (refuse (validate_platform env (rb_schema_version (rq_body request))))
    (then_do (refuse (request_validate (he_up env) (he_sha env) request))
    (andthen (ask (he_now env)) (\<lambda>now.
     then_do (refuse (check (lc_deadline (rq_claim request) \<le> now) ''Run deadline has expired''))
     (then_do (acquire_operation env)
     (then_do (reject_pending_setup env)
     (andthen (authorize_claim env (rq_claim request)) (start_locked env request)))))))"

lemmas host_service_evaluate [evaluate] = authorize_claim_def reject_pending_setup_def
  mkdir_all_def validate_platform_def fresh_receipt_def interrupted_publication_def receipt_of_lock_def host_status_def
  replay_acquire_def take_lock_def acquire_run_def acquire_locked_def host_acquire_def max_stage_files_def max_stage_file_def max_stage_total_def
  validate_stage_file_def root_directories_def fill_staging_def make_staging_def replaceable_def publish_root_def drop_staging_def
  stage_into_def stage_authorized_def host_stage_def requests_equal_def validate_stored_request_def payload_contents_def
  validate_staged_request_def start_task_def prepare_task_def resume_started_def first_start_def start_locked_def host_start_def

end
