(* ===== verification/HostSettle.thy ===== *)
theory HostSettle
  imports HostService
begin

text \<open>
  \<open>internal/host/service.go\<close>, the end of a run: \<open>Fetch\<close> of declared evidence and \<open>Settle\<close> with
  its recovery paths, the ordered removal of the run root and of an interrupted staging
  directory, and the release of the Host Lock; and \<open>publishUIJournal\<close> of \<open>uiaction.go\<close>, which
  settlement runs before it writes its first receipt.
\<close>

section \<open>Evidence files\<close>

definition evidence_contents :: "string \<Rightarrow> string \<Rightarrow> host_state \<Rightarrow> string option" where
  "evidence_contents run path s =
    (case hs_roots s run of Root rt \<Rightarrow> map_of (rev (rt_evidence rt)) path | _ \<Rightarrow> None)"

definition not_regular :: err where "not_regular = Msg ''evidence is not a regular file''"

definition read_evidence :: "host_env \<Rightarrow> string \<Rightarrow> string \<Rightarrow> string hact" where
  "read_evidence env run path =
    andthen (io env (look (evidence_contents run path))) (\<lambda>c.
      case c of
        None \<Rightarrow> fail not_regular
      | Some bs \<Rightarrow> if max_evidence_file < int (length bs) then fail (Msg ''evidence exceeds file limit'') else ret bs)"

definition host_fetch :: "host_env \<Rightarrow> int \<Rightarrow> run_receipt \<Rightarrow> evidence_file \<Rightarrow> string hact" where
  "host_fetch env version receipt file =
    then_do (refuse (check (version \<noteq> 1) ''unsupported fetch schema version''))
    (andthen (host_status env 1 (lc_run_id (rr_claim receipt))) (\<lambda>stored.
      then_do (refuse (check (\<not> claims_equal (rr_claim stored) (rr_claim receipt) \<or> rr_session_id stored = ''''
                 \<or> rr_session_id stored \<noteq> rr_session_id receipt) ''fetch authority does not match host receipt''))
      (andthen (attempt (authorize_claim env (rr_claim stored))) (\<lambda>lock.
        if (case lock of Inl e \<Rightarrow> True | Inr l \<Rightarrow> lk_session_id l \<noteq> rr_session_id stored)
        then fail (Msg ''fetch authority does not match Host Lock'')
        else if file \<notin> set (em_files (rr_evidence stored)) \<or> validate_windows_relative (he_up env) (ef_path file) \<noteq> None
        then fail (Msg ''evidence file is not declared'')
        else andthen (read_evidence env (lc_run_id (rr_claim stored)) (ef_path file)) (\<lambda>bs.
          if int (length bs) \<noteq> ef_size file \<or> he_sha env bs \<noteq> ef_sha256 file
          then fail (Msg ''evidence file changed'') else ret bs)))))"

text \<open>\<open>evidenceFromFile\<close>.\<close>

definition evidence_from_file :: "host_env \<Rightarrow> string \<Rightarrow> string \<Rightarrow> string \<Rightarrow> int \<Rightarrow> string \<Rightarrow> evidence_file hact" where
  "evidence_from_file env run path kind version session =
    andthen (read_evidence env run path) (\<lambda>bs.
      let plain = \<lparr>ef_path = path, ef_type = kind, ef_source_path = '''', ef_media_type = '''', ef_session_id = '''',
                    ef_size = int (length bs), ef_sha256 = he_sha env bs, ef_capture_method = '''', ef_width = 0, ef_height = 0\<rparr>
      in ret (if version < 2 then plain
              else plain\<lparr>ef_source_path := ''evidence/'' @ path, ef_session_id := session,
                ef_media_type := (if kind = EvidenceScenarioResult \<or> kind = EvidenceUIActions
                                  then ''application/json'' else ''image/png'')\<rparr>))"

definition put_evidence :: "string \<Rightarrow> string \<Rightarrow> string \<Rightarrow> host_state \<Rightarrow> host_state" where
  "put_evidence run path bs = update_root run (\<lambda>rt. rt\<lparr>rt_evidence := rt_evidence rt @ [(path, bs)]\<rparr>)"

text \<open>\<open>publishUIJournal\<close> changes the receipt it is given even when it fails later: the result is
  the receipt together with the error. \<open>writeJSONAtomic\<close> creates the directories it needs, so a
  journal published after its run root has gone would bring the root back.\<close>

definition put_journal :: "string \<Rightarrow> string \<Rightarrow> host_state \<Rightarrow> host_state" where
  "put_journal run bs s =
    (case hs_roots s run of
       NoRoot \<Rightarrow> put_root run (Root (empty_root\<lparr>rt_evidence := [(ui_evidence_path, bs)]\<rparr>)) s
     | _ \<Rightarrow> put_evidence run ui_evidence_path bs s)"

definition publish_ui_journal :: "host_env \<Rightarrow> run_receipt \<Rightarrow> (run_receipt \<times> err option) hact" where
  "publish_ui_journal env receipt =
    (case rr_ui_actions receipt of
       None \<Rightarrow> ret (receipt, None)
     | Some j \<Rightarrow>
         (let j' = mark_uncertain j; r = receipt\<lparr>rr_ui_actions := Some j'\<rparr>; run = lc_run_id (rr_claim receipt) in
          case journal_validate (rr_session_id r) j' of
            Some e \<Rightarrow> ret (r, Some e)
          | None \<Rightarrow>
              if list_ex (\<lambda>f. ef_type f = EvidenceUIActions) (em_files (rr_evidence r)) then ret (r, None)
              else andthen (attempt (save env (put_journal run (journal_bytes j')))) (\<lambda>written.
                case written of
                  Inl e \<Rightarrow> ret (r, Some e)
                | Inr u \<Rightarrow>
                    andthen (attempt (evidence_from_file env run ui_evidence_path EvidenceUIActions 3 (rr_session_id r))) (\<lambda>file.
                      case file of
                        Inl e \<Rightarrow> ret (r, Some e)
                      | Inr f \<Rightarrow> ret (r\<lparr>rr_evidence := \<lparr>em_schema_version = 3, em_files = em_files (rr_evidence r) @ [f]\<rparr>\<rparr>, None)))))"

section \<open>Settlement\<close>

record settle_request =
  sr_schema_version :: int
  sr_receipt :: run_receipt
  sr_session_broker_executable :: string
  sr_session_name :: string
  sr_linux :: "daemon_runtime option"

definition validate_settlement :: "host_env \<Rightarrow> settle_request \<Rightarrow> err option" where
  "validate_settlement env q =
    first_err
     [check (sr_schema_version q \<noteq> 1 \<and> sr_schema_version q \<noteq> 2) ''unsupported settlement schema'',
      validate_platform env (sr_schema_version q),
      (if sr_schema_version q = 1 then
         check (sr_linux q \<noteq> None \<or> \<not> validate_windows_path (sr_session_broker_executable q)) ''invalid Windows settlement runtime''
       else (case sr_linux q of
           None \<Rightarrow> Some (Msg ''Linux settlement requires runtime'')
         | Some d \<Rightarrow> or_else (daemon_validate d)
             (check (dr_python_executable d \<noteq> sr_session_broker_executable q) ''Linux settlement runtime mismatch'')))]"

definition terminalize :: "run_receipt \<Rightarrow> run_receipt" where
  "terminalize r =
    (if rr_state r \<in> {StateComplete, StateFailed, StateTimedOut, StateCleanupFailed} then r
     else r\<lparr>rr_state := StateFailed,
            rr_error := (if rr_error r = '''' then ''Run stopped before completion'' else rr_error r)\<rparr>)"

definition full_cleanup :: cleanup_state where
  "full_cleanup = \<lparr>cs_session_stopped = True, cs_payload_removed = True, cs_run_root_removed = True, cs_lock_released = True\<rparr>"

text \<open>\<open>recoverUnpublishedSession\<close>: only a run whose request was stored can have a session.\<close>

definition recover_unpublished :: "host_env \<Rightarrow> lock_claim \<Rightarrow> string \<Rightarrow> string option hact" where
  "recover_unpublished env claim name =
    andthen (lstat env (\<lambda>s. in_root rt_request (lc_run_id claim) s \<noteq> Absent)) (\<lambda>there.
      if \<not> there then ret None
      else if \<not> he_daemon env then fail (Msg ''Session daemon is unavailable'')
      else andthen (ask (\<lambda>n. he_daemon_recover env n name)) of_res)"

text \<open>\<open>recoverReleasedCleanup\<close>: \<open>None\<close> means that nothing was recovered.\<close>

definition recover_released :: "host_env \<Rightarrow> run_receipt \<Rightarrow> cleanup_state option hact" where
  "recover_released env stored =
    (let claim = rr_claim stored; run = lc_run_id claim;
         finish = (\<lambda>newer.
           let r = terminalize (stored\<lparr>rr_cleanup := (rr_cleanup stored)
                     \<lparr>cs_payload_removed := True, cs_run_root_removed := True, cs_lock_released := True\<rparr>\<rparr>) in
           then_do (write_receipt env r)
            (if newer then ret (Some (rr_cleanup r))
             else ignoring (save env (put_pending Absent)) (ret (Some (rr_cleanup r)))))
     in if \<not> cs_session_stopped (rr_cleanup stored) then ret None
        else andthen (attempt (lstat env (\<lambda>s. hs_roots s run \<noteq> NoRoot))) (\<lambda>root.
          if root \<noteq> Inr False then ret None
          else andthen (attempt (lstat env (\<lambda>s. hs_lock s \<noteq> Absent))) (\<lambda>there.
            case there of
              Inl e \<Rightarrow> fail (Wrap ''inspect current Host Lock'' e)
            | Inr False \<Rightarrow> finish False
            | Inr True \<Rightarrow>
                andthen (attempt (read_lock env)) (\<lambda>l.
                  case l of
                    Inl e \<Rightarrow> fail (Wrap ''inspect current Host Lock'' e)
                  | Inr lock \<Rightarrow>
                      if lk_schema_version lock \<noteq> 1 \<or> claim_validate (lk_claim lock) \<noteq> None
                         \<or> lk_session_id lock \<noteq> '''' \<and> \<not> session_id_ok (lk_session_id lock)
                      then fail (Msg ''current Host Lock is invalid'')
                      else if claims_equal (lk_claim lock) claim then ret None
                      else finish True))))"

text \<open>
  \<open>removeRunRootPreservingOwnership\<close>: every entry but the ownership record, then the record, then
  the directory. A removal that fails midway leaves the record in place. \<open>put\<close> and \<open>get\<close> select
  the run root or the staging directory.
\<close>

definition remove_preserving_ownership ::
  "host_env \<Rightarrow> (string \<Rightarrow> (run_root \<Rightarrow> run_root) \<Rightarrow> host_state \<Rightarrow> host_state)
    \<Rightarrow> (string \<Rightarrow> root_state \<Rightarrow> host_state \<Rightarrow> host_state) \<Rightarrow> string \<Rightarrow> unit hact" where
  "remove_preserving_ownership env update put run =
    then_do (save env (update run (\<lambda>rt. rt\<lparr>rt_directories := []\<rparr>)))
    (then_do (save env (update run (\<lambda>rt. rt\<lparr>rt_evidence := []\<rparr>)))
    (then_do (save env (update run (\<lambda>rt. rt\<lparr>rt_payload := []\<rparr>)))
    (then_do (save env (update run (\<lambda>rt. rt\<lparr>rt_request := Absent\<rparr>)))
    (then_do (save env (update run (\<lambda>rt. rt\<lparr>rt_staged := Absent\<rparr>)))
    (then_do (save env (update run (\<lambda>rt. rt\<lparr>rt_ownership := Absent\<rparr>)))
    (save env (put run NoRoot)))))))"

definition ownership_mismatch :: err where "ownership_mismatch = Msg ''Run root ownership does not match''"

text \<open>The removal of the run root in \<open>Settle\<close>, after the session has been stopped.\<close>

definition remove_run_root :: "host_env \<Rightarrow> lock_claim \<Rightarrow> unit hact" where
  "remove_run_root env claim =
    (let run = lc_run_id claim in
     andthen (io env (look (\<lambda>s. hs_roots s run))) (\<lambda>root.
      case root of
        NoRoot \<Rightarrow> skip
      | NotADirectory \<Rightarrow> fail ownership_mismatch
      | Root rt \<Rightarrow>
          andthen (attempt (read_json env (in_root rt_ownership run))) (\<lambda>ownership.
            case ownership of
              Inr o' \<Rightarrow>
                if \<not> claims_equal (lk_claim o') claim \<or> lk_session_id o' \<noteq> '''' then fail ownership_mismatch
                else remove_preserving_ownership env update_root put_root run
            | Inl e \<Rightarrow>
                andthen (attempt (lstat env (\<lambda>s. in_root rt_ownership run s \<noteq> Absent))) (\<lambda>there.
                  if there \<noteq> Inr False then fail ownership_mismatch
                  else andthen (attempt (io env (look (\<lambda>s. hs_roots s run)))) (\<lambda>listing.
                    case listing of
                      Inr (Root now) \<Rightarrow>
                        if no_entries now then save env (put_root run NoRoot) else fail ownership_mismatch
                    | _ \<Rightarrow> fail ownership_mismatch)))))"

definition in_staging :: "(run_root \<Rightarrow> 'a slot) \<Rightarrow> string \<Rightarrow> host_state \<Rightarrow> 'a slot" where
  "in_staging f run s = (case hs_staging s run of Root rt \<Rightarrow> f rt | _ \<Rightarrow> Absent)"

definition staging_mismatch :: err where "staging_mismatch = Msg ''Run staging ownership does not match''"

definition remove_interrupted_staging :: "host_env \<Rightarrow> lock_claim \<Rightarrow> unit hact" where
  "remove_interrupted_staging env claim =
    (let run = lc_run_id claim in
     andthen (attempt (io env (look (\<lambda>s. hs_staging s run)))) (\<lambda>dir.
      case dir of
        Inr NoRoot \<Rightarrow> skip
      | Inr (Root rt) \<Rightarrow>
          andthen (attempt (read_json env (in_staging rt_ownership run))) (\<lambda>ownership.
            case ownership of
              Inr o' \<Rightarrow>
                if lk_schema_version o' \<noteq> 1 \<or> \<not> claims_equal (lk_claim o') claim \<or> lk_session_id o' \<noteq> ''''
                then fail staging_mismatch
                else remove_preserving_ownership env update_staging put_staging run
            | Inl e \<Rightarrow>
                andthen (attempt (io env (look (\<lambda>s. hs_staging s run)))) (\<lambda>listing.
                 andthen (attempt (lstat env (\<lambda>s. in_staging rt_ownership run s \<noteq> Absent))) (\<lambda>there.
                  case listing of
                    Inr (Root now) \<Rightarrow>
                      if there \<noteq> Inr False \<or> \<not> no_entries now then fail staging_mismatch
                      else save env (put_staging run NoRoot)
                  | _ \<Rightarrow> fail staging_mismatch)))
      | _ \<Rightarrow> fail staging_mismatch))"

text \<open>The part of \<open>Settle\<close> after the session identity is settled: stop, publish the journal, remove
  the run root and the staging directory, release the lock, write the final receipt.\<close>

definition stop_session :: "host_env \<Rightarrow> string \<Rightarrow> string \<Rightarrow> unit hact" where
  "stop_session env name session =
    (if session = '''' then skip
     else if \<not> he_daemon env then fail (Msg ''Session daemon is unavailable'')
     else andthen (ask (\<lambda>n. he_daemon_stop env n name session)) (\<lambda>e.
       case e of Some x \<Rightarrow> fail x | None \<Rightarrow> log_event (SessionStopped name session)))"

definition release_lock :: "host_env \<Rightarrow> run_receipt \<Rightarrow> cleanup_state hact" where
  "release_lock env stored =
    (let claim = rr_claim stored in
     andthen (attempt (read_lock env)) (\<lambda>l.
      if (case l of Inl e \<Rightarrow> True | Inr lock \<Rightarrow> \<not> claims_equal (lk_claim lock) claim \<or> lk_session_id lock \<noteq> rr_session_id stored)
      then fail (Msg ''Host Lock changed before release'')
      else
        then_do (save env (\<lambda>s. put_lock Absent (s\<lparr>hs_log := LockReleased claim # hs_log s\<rparr>)))
        (let r = terminalize (stored\<lparr>rr_cleanup := full_cleanup\<rparr>) in
         then_do (write_receipt env r)
          (ignoring (save env (put_pending Absent)) (ret full_cleanup)))))"

text \<open>A failure of the journal still writes the receipt; both errors are joined.\<close>

definition record_stopped :: "host_env \<Rightarrow> run_receipt \<Rightarrow> run_receipt hact" where
  "record_stopped env stored =
    andthen (publish_ui_journal env (stored\<lparr>rr_cleanup := no_cleanup\<lparr>cs_session_stopped := True\<rparr>\<rparr>)) (\<lambda>(r, journal_err).
      let r' = (if journal_err \<noteq> None then terminalize r else r) in
      andthen (attempt (write_receipt env r')) (\<lambda>written.
        case join_err journal_err (case written of Inl e \<Rightarrow> Some e | Inr u \<Rightarrow> None) of
          Some e \<Rightarrow> fail e
        | None \<Rightarrow> ret r'))"

definition finish_settlement :: "host_env \<Rightarrow> string \<Rightarrow> run_receipt \<Rightarrow> cleanup_state hact" where
  "finish_settlement env name stored =
    then_do (stop_session env name (rr_session_id stored))
    (andthen (record_stopped env stored) (\<lambda>r.
     then_do (remove_run_root env (rr_claim r))
     (then_do (remove_interrupted_staging env (rr_claim r))
     (release_lock env r))))"

text \<open>A launch in progress holds the launch lock; settlement only probes it.\<close>

definition probe_launch :: "host_env \<Rightarrow> unit hact" where
  "probe_launch env =
    andthen (io env (look hs_launch)) (\<lambda>busy.
      if busy then fail (Msg ''Session launch identity is not published yet'') else skip)"

definition rollback_failure :: string where
  "rollback_failure = ''Session identity publication and exact rollback failed''"

definition unverified :: err where "unverified = Msg ''settle could not verify unpublished Session identity''"

text \<open>The receipt names a session that the lock does not: the daemon decides.\<close>

definition adopt_receipt_session :: "host_env \<Rightarrow> string \<Rightarrow> lock_record \<Rightarrow> run_receipt \<Rightarrow> lock_record hact" where
  "adopt_receipt_session env name lock stored =
    (if rr_session_id stored \<noteq> '''' \<and> lk_session_id lock = '''' then
       andthen (recover_unpublished env (rr_claim stored) name) (\<lambda>found.
        andthen
         (case found of
            Some recovered \<Rightarrow> if recovered \<noteq> rr_session_id stored then fail unverified else ret recovered
          | None \<Rightarrow>
              if rr_state stored \<noteq> StateCleanupFailed \<or> rr_error stored \<noteq> rollback_failure then fail unverified
              else then_do (probe_launch env) (ret (rr_session_id stored)))
         (\<lambda>recovered.
           let l = lock\<lparr>lk_session_id := recovered\<rparr> in then_do (write_lock env l) (ret l)))
     else ret lock)"

text \<open>Neither names a session: one may have been started without being published.\<close>

definition adopt_unpublished_session :: "host_env \<Rightarrow> string \<Rightarrow> lock_record \<Rightarrow> run_receipt \<Rightarrow> run_receipt hact" where
  "adopt_unpublished_session env name lock stored =
    (if rr_session_id stored \<noteq> '''' then ret stored
     else andthen (recover_unpublished env (rr_claim stored) name) (\<lambda>found.
       case found of
         Some recovered \<Rightarrow>
           then_do (write_lock env (lock\<lparr>lk_session_id := recovered\<rparr>))
           (let r = stored\<lparr>rr_session_id := recovered, rr_state := StateCleanupFailed,
                 rr_error := ''Recovered a Session whose Host Lock publication was interrupted''\<rparr> in
            then_do (write_receipt env r) (ret r))
       | None \<Rightarrow> if rr_state stored = StateStarting then then_do (probe_launch env) (ret stored) else ret stored))"

definition settle_authorized :: "host_env \<Rightarrow> settle_request \<Rightarrow> lock_record \<Rightarrow> run_receipt \<Rightarrow> cleanup_state hact" where
  "settle_authorized env q lock stored0 =
    (let name = sr_session_name q;
         stored1 = stored0\<lparr>rr_cleanup := no_cleanup\<rparr>;
         stored = (if rr_state stored1 = StateStarting \<and> rr_session_id stored1 = '''' \<and> lk_session_id lock \<noteq> ''''
                   then stored1\<lparr>rr_session_id := lk_session_id lock\<rparr> else stored1) in
     andthen (adopt_receipt_session env name lock stored) (\<lambda>lock.
      if rr_session_id (sr_receipt q) \<noteq> '''' \<and> rr_session_id (sr_receipt q) \<noteq> rr_session_id stored
      then fail (Msg ''settle Session identity does not match host receipt'')
      else if lk_session_id lock \<noteq> rr_session_id stored
      then fail (Msg ''settle authority does not match Host Lock'')
      else andthen (adopt_unpublished_session env name lock stored) (finish_settlement env name)))"

text \<open>The second authorisation, and the recovery of a settlement that had already released the lock.\<close>

definition settle_or_recover :: "host_env \<Rightarrow> settle_request \<Rightarrow> run_receipt \<Rightarrow> cleanup_state hact" where
  "settle_or_recover env q stored =
    andthen (attempt (authorize_claim env (rr_claim stored))) (\<lambda>l.
      case l of
        Inl e \<Rightarrow>
          andthen (recover_released env stored) (\<lambda>late.
            case late of
              Some c \<Rightarrow> ret c
            | None \<Rightarrow> fail (Msg ''settle authority does not match Host Lock''))
      | Inr lock \<Rightarrow> settle_authorized env q lock stored)"

definition settle_stored :: "host_env \<Rightarrow> settle_request \<Rightarrow> run_receipt \<Rightarrow> cleanup_state hact" where
  "settle_stored env q stored =
    (if \<not> claims_equal (rr_claim stored) (rr_claim (sr_receipt q)) then fail (Msg ''settle claim does not match host receipt'')
     else andthen (if cleanup_known (rr_cleanup stored) then recover_released env stored else ret None) (\<lambda>early.
       case early of
         Some c \<Rightarrow> ret c
       | None \<Rightarrow> settle_or_recover env q stored))"

text \<open>Without a readable receipt the lock itself authorises the settlement.\<close>

definition settle_locked :: "host_env \<Rightarrow> settle_request \<Rightarrow> cleanup_state hact" where
  "settle_locked env q =
    (let claim = rr_claim (sr_receipt q) in
     andthen (attempt (host_status env 1 (lc_run_id claim))) (\<lambda>status.
      andthen
       (case status of
          Inr r \<Rightarrow> ret r
        | Inl e \<Rightarrow>
            andthen (attempt (authorize_claim env claim)) (\<lambda>l.
              case l of
                Inl e' \<Rightarrow> fail e
              | Inr lock \<Rightarrow> ret ((fresh_receipt (lk_claim lock) StateAccepted)\<lparr>rr_session_id := lk_session_id lock\<rparr>)))
       (settle_stored env q)))"

definition host_settle :: "host_env \<Rightarrow> settle_request \<Rightarrow> cleanup_state hact" where
  "host_settle env q =
    (let claim = rr_claim (sr_receipt q) in
     then_do (refuse (validate_settlement env q))
     (then_do (refuse (check (claim_validate claim \<noteq> None
          \<or> sr_session_name q \<noteq> session_name_for_run (he_sha env) (lc_run_id claim)) ''invalid settle contract''))
     (then_do (acquire_operation env)
     (settle_locked env q))))"

lemmas host_settle_evaluate [evaluate] = evidence_contents_def not_regular_def read_evidence_def host_fetch_def
  evidence_from_file_def ui_receipt_json_def journal_json_def journal_bytes_def put_evidence_def put_journal_def
  publish_ui_journal_def validate_settlement_def terminalize_def full_cleanup_def recover_unpublished_def
  recover_released_def remove_preserving_ownership_def ownership_mismatch_def remove_run_root_def
  in_staging_def staging_mismatch_def remove_interrupted_staging_def stop_session_def release_lock_def
  record_stopped_def finish_settlement_def probe_launch_def rollback_failure_def unverified_def
  adopt_receipt_session_def adopt_unpublished_session_def settle_authorized_def settle_or_recover_def settle_stored_def settle_locked_def host_settle_def

end
