(* ===== verification/HostExecute.thy ===== *)
theory HostExecute
  imports HostSettle
begin

text \<open>
  \<open>internal/host/service.go\<close>, \<open>ExecutePending\<close>: the interactive task that starts the Blender
  session of the pending run, calls the scenario, performs the UI actions (\<open>executeUIActions\<close>
  of \<open>uiaction.go\<close>) and collects the evidence. The task holds the operation lock only while it
  reads and writes state; each release and later acquisition is an \<open>interleave\<close>, where other
  operations may run. It holds the launch lock from its admission until the identity of the
  session is published or the start has failed.
\<close>

section \<open>Failing a run\<close>

definition fail_receipt_with_cause :: "host_env \<Rightarrow> run_receipt \<Rightarrow> string \<Rightarrow> err option \<Rightarrow> 'a hact" where
  "fail_receipt_with_cause env receipt message cause =
    andthen (publish_ui_journal env receipt) (\<lambda>(r, journal_err).
      let cause' = join_err cause journal_err;
          timed_out = (case cause' of Some e \<Rightarrow> err_is e DeadlineExceeded | None \<Rightarrow> False);
          r' = r\<lparr>rr_state := (if timed_out then StateTimedOut else StateFailed), rr_error := message\<rparr> in
      andthen (attempt (write_receipt env r')) (\<lambda>written.
        case written of
          Inl e \<Rightarrow> fail (Join (Msg message) e)
        | Inr u \<Rightarrow> (case cause' of Some e \<Rightarrow> fail (Wrap message e) | None \<Rightarrow> fail (Msg message))))"

definition fail_receipt :: "host_env \<Rightarrow> run_receipt \<Rightarrow> string \<Rightarrow> 'a hact" where
  "fail_receipt env receipt message = fail_receipt_with_cause env receipt message None"

text \<open>\<open>failExecution\<close> reads the receipt again and falls back to a fresh one.\<close>

definition fail_execution :: "host_env \<Rightarrow> run_request \<Rightarrow> string \<Rightarrow> err option \<Rightarrow> 'a hact" where
  "fail_execution env request message cause =
    (let claim = rq_claim request in
     andthen (attempt (host_status env 1 (lc_run_id claim))) (\<lambda>status.
      let stored = (case status of Inl e \<Rightarrow> zero_receipt | Inr r \<Rightarrow> r);
          receipt = (if rr_schema_version stored = 0
                     then zero_receipt\<lparr>rr_schema_version := 1, rr_claim := claim\<rparr> else stored) in
      fail_receipt_with_cause env receipt message cause))"

section \<open>Authority of a running execution\<close>

definition active_receipt :: "host_env \<Rightarrow> run_request \<Rightarrow> string \<Rightarrow> run_receipt hact" where
  "active_receipt env request session =
    andthen (host_status env 1 (lc_run_id (rq_claim request))) (\<lambda>receipt.
      if cleanup_known (rr_cleanup receipt) then fail RunSettled
      else andthen (attempt (authorize_claim env (rq_claim request))) (\<lambda>l.
        if (case l of Inl e \<Rightarrow> True | Inr lock \<Rightarrow> lk_session_id lock \<noteq> session)
           \<or> rr_session_id receipt \<noteq> session \<or> \<not> claims_equal (rr_claim receipt) (rq_claim request)
        then fail (Msg ''active Run authority changed'') else ret receipt))"

text \<open>\<open>resumeActiveExecution\<close>, after the time in which other operations may have run.\<close>

definition resume_active :: "host_env \<Rightarrow> run_request \<Rightarrow> string \<Rightarrow> string \<Rightarrow> run_receipt hact" where
  "resume_active env request session phase =
    then_do (interleave env)
    (andthen (attempt (acquire_operation env)) (\<lambda>op.
      case op of
        Inl e \<Rightarrow> fail (Join (Msg (phase @ '' reconciliation failed'')) e)
      | Inr u \<Rightarrow>
          andthen (attempt (active_receipt env request session)) (\<lambda>active.
            case active of
              Inl e \<Rightarrow> if err_is e RunSettled then fail (Msg (''Run was settled during '' @ phase)) else fail e
            | Inr receipt \<Rightarrow>
                andthen (ask (he_context env)) (\<lambda>ctx.
                  case ctx of
                    Some e \<Rightarrow> fail_receipt_with_cause env receipt (phase @ '' failed'') (Some e)
                  | None \<Rightarrow> ret receipt))))"

definition fail_active_execution :: "host_env \<Rightarrow> run_request \<Rightarrow> string \<Rightarrow> string \<Rightarrow> err \<Rightarrow> 'a hact" where
  "fail_active_execution env request session message cause =
    then_do (interleave env)
    (andthen (attempt (acquire_operation env)) (\<lambda>op.
      case op of
        Inl e \<Rightarrow> fail (Join (Msg message) e)
      | Inr u \<Rightarrow>
          andthen (attempt (active_receipt env request session)) (\<lambda>active.
            case active of
              Inl e \<Rightarrow> if err_is e RunSettled then fail (Msg message) else fail (Join (Msg message) e)
            | Inr receipt \<Rightarrow> fail_receipt_with_cause env receipt message (Some cause))))"

text \<open>The error of a context that has ended replaces the error of the call.\<close>

definition context_or :: "host_env \<Rightarrow> err \<Rightarrow> err hact" where
  "context_or env e = andthen (ask (he_context env)) (\<lambda>ctx. ret (case ctx of Some c \<Rightarrow> c | None \<Rightarrow> e))"

section \<open>Admission and start\<close>

definition interrupted_actions :: string where
  "interrupted_actions = ''UI action execution was interrupted; actions will not be replayed''"

definition admit_locked :: "host_env \<Rightarrow> run_request \<Rightarrow> lock_record \<Rightarrow> lock_record hact" where
  "admit_locked env request lock =
    (let claim = rq_claim request in
     if lk_session_id lock \<noteq> '''' then
       andthen (attempt (host_status env 1 (lc_run_id claim))) (\<lambda>status.
         case status of
           Inl e \<Rightarrow> fail (Msg ''Host Lock already owns a Session'')
         | Inr existing \<Rightarrow>
             (case rr_ui_actions existing of
                Some j \<Rightarrow>
                  if claims_equal (rr_claim existing) claim \<and> rr_session_id existing = lk_session_id lock
                     \<and> rr_state existing = StateInteracting
                  then fail_receipt env (existing\<lparr>rr_ui_actions := Some (mark_uncertain j)\<rparr>) interrupted_actions
                  else fail (Msg ''Host Lock already owns a Session'')
              | None \<Rightarrow> fail (Msg ''Host Lock already owns a Session'')))
     else
       andthen (attempt (host_status env 1 (lc_run_id claim))) (\<lambda>status.
         if (case status of Inl e \<Rightarrow> True
             | Inr r \<Rightarrow> rr_schema_version r \<noteq> 1 \<or> \<not> claims_equal (rr_claim r) claim \<or> rr_state r \<noteq> StateStarting
                 \<or> rr_session_id r \<noteq> '''' \<or> rr_cleanup r \<noteq> no_cleanup)
         then fail (Msg ''pending Run is not in the exact starting state'')
         else andthen (ask (he_now env)) (\<lambda>now.
           if lc_deadline claim \<le> now then fail_execution env request ''Run deadline expired before Session start'' None
           else if \<not> he_daemon env then fail_execution env request ''Session daemon is unavailable'' None
           else ret lock)))"

text \<open>On Linux the temporary and home directories of the run must exist; then the launch lock.\<close>

definition take_launch :: "host_env \<Rightarrow> run_request \<Rightarrow> unit hact" where
  "take_launch env request =
    andthen (attempt (if rb_linux (rq_body request) \<noteq> None then io env skip else skip)) (\<lambda>tmp.
     case tmp of
       Inl e \<Rightarrow> fail_execution env request ''Run temporary directory is unavailable'' (Some e)
     | Inr u \<Rightarrow>
       andthen (attempt (if rb_linux (rq_body request) \<noteq> None then io env skip else skip)) (\<lambda>home.
        case home of
          Inl e \<Rightarrow> fail_execution env request ''Run HOME directory is unavailable'' (Some e)
        | Inr u \<Rightarrow>
          andthen (attempt (io env (\<lambda>s. if hs_launch s then (Inl Canceled, s) else (Inr (), s\<lparr>hs_launch := True\<rparr>)))) (\<lambda>launch.
            case launch of
              Inr u \<Rightarrow> skip
            | Inl e \<Rightarrow> andthen (context_or env e) (\<lambda>c.
                fail_execution env request ''Session launch lock failed'' (Some c)))))"

text \<open>From the pending request to the release of the operation lock before the start.\<close>

definition admit :: "host_env \<Rightarrow> (run_request \<times> lock_record) hact" where
  "admit env =
    andthen (read_json env hs_pending) (\<lambda>request.
     then_do (refuse (request_validate (he_up env) (he_sha env) request))
     (then_do (refuse (validate_platform env (rb_schema_version (rq_body request))))
     (then_do (acquire_operation env)
     (then_do (reject_pending_setup env)
     (andthen (authorize_claim env (rq_claim request)) (\<lambda>lock0.
      andthen (admit_locked env request lock0) (\<lambda>lock.
       then_do (take_launch env request) (ret (request, lock)))))))))"

text \<open>The session the start left behind, if any: its own answer, or what the daemon remembers.\<close>

definition identify_session :: "host_env \<Rightarrow> run_request \<Rightarrow> run_receipt \<Rightarrow> err option \<Rightarrow> string \<Rightarrow> string hact" where
  "identify_session env request receipt start_err session =
    andthen
     (if start_err \<noteq> None \<and> \<not> session_id_ok session then
        andthen (attempt (recover_unpublished env (rq_claim request) (rb_session_name (rq_body request)))) (\<lambda>found.
          case found of
            Inl e \<Rightarrow> fail_receipt_with_cause env receipt ''Session start recovery failed'' (Some e)
          | Inr (Some recovered) \<Rightarrow> ret recovered
          | Inr None \<Rightarrow> ret session)
      else ret session)
     (\<lambda>session.
       if session_id_ok session then ret session
       else (case start_err of
           Some e \<Rightarrow> andthen (context_or env e) (\<lambda>c. fail_receipt_with_cause env receipt ''Session start failed'' (Some c))
         | None \<Rightarrow> fail_receipt env receipt ''Session daemon returned an invalid identity''))"

text \<open>The identity goes into the lock first; if that fails the session is stopped again.\<close>

definition roll_back_session :: "host_env \<Rightarrow> run_request \<Rightarrow> string \<Rightarrow> 'a hact" where
  "roll_back_session env request session =
    andthen (ask (\<lambda>n. he_daemon_stop env n (rb_session_name (rq_body request)) session)) (\<lambda>e.
      case e of
        Some x \<Rightarrow>
          ignoring (write_receipt env ((fresh_receipt (rq_claim request) StateCleanupFailed)
              \<lparr>rr_session_id := session, rr_error := rollback_failure\<rparr>))
            (fail (Msg rollback_failure))
      | None \<Rightarrow>
          then_do (log_event (SessionStopped (rb_session_name (rq_body request)) session))
            (fail_execution env request ''Session identity publication failed; exact Session was rolled back'' None))"

definition running_receipt :: "run_request \<Rightarrow> string \<Rightarrow> run_receipt" where
  "running_receipt request session = (fresh_receipt (rq_claim request) StateRunning)\<lparr>rr_session_id := session\<rparr>"

text \<open>With the identity in the lock: the failure of the start, or the running receipt.\<close>

definition publish_running :: "host_env \<Rightarrow> run_request \<Rightarrow> err option \<Rightarrow> string \<Rightarrow> (string \<times> run_receipt) hact" where
  "publish_running env request start_err session =
    (let receipt = running_receipt request session in
     case start_err of
       Some e \<Rightarrow>
         andthen (context_or env e) (\<lambda>c.
          andthen (attempt (write_receipt env (receipt\<lparr>rr_state := StateFailed,
              rr_error := ''Session start returned an error after publishing an identity''\<rparr>))) (\<lambda>w.
            case w of Inl e' \<Rightarrow> fail (Join c e') | Inr u \<Rightarrow> fail c))
     | None \<Rightarrow>
         andthen (attempt (write_receipt env receipt)) (\<lambda>w.
           case w of
             Inr u \<Rightarrow> ret (session, receipt)
           | Inl e \<Rightarrow> ignoring (write_receipt env (receipt\<lparr>rr_state := StateCleanupFailed,
                 rr_error := ''Session started but its running receipt could not be published''\<rparr>)) (fail e)))"

definition publish_identity :: "host_env \<Rightarrow> run_request \<Rightarrow> lock_record \<Rightarrow> err option \<Rightarrow> string \<Rightarrow> (string \<times> run_receipt) hact" where
  "publish_identity env request lock start_err session =
    andthen (attempt (write_lock env (lock\<lparr>lk_session_id := session\<rparr>))) (\<lambda>published.
      case published of
        Inl e \<Rightarrow> roll_back_session env request session
      | Inr u \<Rightarrow> publish_running env request start_err session)"

definition publish_session :: "host_env \<Rightarrow> run_request \<Rightarrow> lock_record \<Rightarrow> err option \<Rightarrow> string \<Rightarrow> (string \<times> run_receipt) hact" where
  "publish_session env request lock start_err session0 =
    then_do (acquire_operation env)
    (andthen (attempt (active_receipt env request '''')) (\<lambda>active.
      case active of
        Inl e \<Rightarrow> if err_is e RunSettled then fail (Msg ''Run was settled during Session start'') else fail e
      | Inr receipt0 \<Rightarrow>
          andthen (identify_session env request receipt0 start_err session0) (publish_identity env request lock start_err)))"

text \<open>The launch lock is released on every way out of the publication.\<close>

definition release_launch :: "unit hact" where
  "release_launch = change (\<lambda>s. s\<lparr>hs_launch := False\<rparr>)"

definition launch_session :: "host_env \<Rightarrow> run_request \<Rightarrow> lock_record \<Rightarrow> (string \<times> run_receipt) hact" where
  "launch_session env request lock =
    then_do (interleave env)
    (andthen (ask (\<lambda>n. he_daemon_start env n request)) (\<lambda>(start_err, session).
     then_do (log_event (SessionStarted (rq_claim request) session))
     (then_do (interleave env)
     (andthen (attempt (publish_session env request lock start_err session)) (\<lambda>result.
       then_do release_launch (of_res result))))))"

section \<open>Scenario, captures and evidence\<close>

definition max_scenario_json :: nat where "max_scenario_json = 2 ^ 20"

text \<open>\<open>executeCode\<close>: the envelope of the daemon, then the trimmed text of the result.\<close>

definition envelope_result :: "json \<Rightarrow> err + string" where
  "envelope_result v =
    (let invalid = Inl (Msg ''invalid execute_code result'') in
     case v of
       JObj kvs \<Rightarrow>
         if \<not> known_fields [''executed'', ''result''] kvs then invalid
         else (case (get_bool (field_of ''executed'' kvs), get_str (field_of ''result'' kvs)) of
             (Inr executed, Inr text) \<Rightarrow>
               if \<not> executed \<or> max_scenario_json < length text then invalid else Inr (trim_space text)
           | _ \<Rightarrow> invalid)
     | _ \<Rightarrow> invalid)"

definition execute_code :: "host_env \<Rightarrow> string \<Rightarrow> string hact" where
  "execute_code env session =
    andthen (ask (\<lambda>n. he_daemon_call env n session)) (\<lambda>raw. of_res (bind_res raw envelope_result))"

definition scenario_passed :: "json option \<Rightarrow> bool" where
  "scenario_passed parsed =
    (case parsed of
       Some (JObj kvs) \<Rightarrow>
         map_of (rev kvs) ''schema_version'' = Some (JNum 1) \<and> map_of (rev kvs) ''status'' = Some (JStr ''pass'')
     | _ \<Rightarrow> False)"

definition call_scenario :: "host_env \<Rightarrow> string \<Rightarrow> string hact" where
  "call_scenario env session =
    andthen (execute_code env session) (\<lambda>text.
      if max_scenario_json < length text \<or> \<not> scenario_passed (he_parse env text)
      then fail (Msg ''Scenario Result did not pass'') else ret (text @ [char_of (10 :: nat)]))"

record pending_capture =
  pc_path :: string
  pc_kind :: string
  pc_contents :: string
  pc_method :: string
  pc_width :: int
  pc_height :: int

definition capture_temporary_path :: "host_env \<Rightarrow> run_request \<Rightarrow> string \<Rightarrow> string" where
  "capture_temporary_path env request kind =
    he_root env @ ''/runs/'' @ lc_run_id (rq_claim request) @ ''/evidence/screenshots/.'' @ kind @ ''-''
      @ lc_request_id (rq_claim request) @ ''.png''"

definition described_path :: "string \<Rightarrow> string" where
  "described_path kind = (case describe kind of Some d \<Rightarrow> cd_evidence_path d | None \<Rightarrow> '''')"

definition read_temporary :: "host_env \<Rightarrow> string \<Rightarrow> string hact" where
  "read_temporary env path =
    andthen (ask (\<lambda>n. he_capture_file env n path)) (\<lambda>c.
      case c of None \<Rightarrow> fail not_regular
      | Some bs \<Rightarrow> if max_evidence_file < int (length bs) then fail (Msg ''evidence exceeds file limit'') else ret bs)"

definition read_pending_capture :: "host_env \<Rightarrow> string \<Rightarrow> string \<Rightarrow> string \<Rightarrow> pending_capture hact" where
  "read_pending_capture env kind path method =
    andthen (read_temporary env path) (\<lambda>bs.
      case he_png env bs of
        Some (w, h) \<Rightarrow>
          if w < 1 \<or> h < 1 then fail (Msg ''capture is not a PNG'')
          else ret \<lparr>pc_path = described_path kind, pc_kind = kind, pc_contents = bs, pc_method = method, pc_width = w, pc_height = h\<rparr>
      | None \<Rightarrow> fail (Msg ''capture is not a PNG''))"

definition viewport_reply :: "json \<Rightarrow> string \<Rightarrow> (string \<times> int \<times> int) option" where
  "viewport_reply v path =
    (case v of
       JObj kvs \<Rightarrow>
         (case (get_bool (field_of ''success'' kvs), get_int (field_of ''width'' kvs), get_int (field_of ''height'' kvs),
                get_str (field_of ''filepath'' kvs), get_str (field_of ''method'' kvs), get_str (field_of ''error'' kvs)) of
            (Inr ok, Inr w, Inr h, Inr file, Inr method, Inr e) \<Rightarrow>
              if \<not> ok \<or> w < 1 \<or> h < 1 \<or> file \<noteq> path \<or> method \<notin> {''offscreen'', ''window_grab''} then None
              else Some (method, w, h)
          | _ \<Rightarrow> None)
     | _ \<Rightarrow> None)"

definition capture_viewport :: "host_env \<Rightarrow> run_request \<Rightarrow> string \<Rightarrow> pending_capture hact" where
  "capture_viewport env request session =
    (let path = capture_temporary_path env request Viewport in
     andthen (ask (\<lambda>n. he_daemon_call env n session)) (\<lambda>raw.
      andthen (of_res raw) (\<lambda>v.
       case viewport_reply v path of
         None \<Rightarrow> fail (Msg ''invalid viewport capture result'')
       | Some (method, w, h) \<Rightarrow>
           andthen (read_temporary env path) (\<lambda>bs.
             if he_png env bs \<noteq> Some (w, h) then fail (Msg ''viewport capture is not the declared PNG'')
             else ret \<lparr>pc_path = described_path Viewport, pc_kind = Viewport, pc_contents = bs, pc_method = method,
                       pc_width = w, pc_height = h\<rparr>))))"

definition window_reply :: "json option \<Rightarrow> string \<Rightarrow> bool" where
  "window_reply v path =
    (case v of
       Some (JObj kvs) \<Rightarrow>
         get_int (field_of ''schema_version'' kvs) = Inr 1 \<and> get_str (field_of ''status'' kvs) = Inr ''pass''
         \<and> get_str (field_of ''filepath'' kvs) = Inr path
     | _ \<Rightarrow> False)"

definition capture_blender_window :: "host_env \<Rightarrow> run_request \<Rightarrow> string \<Rightarrow> pending_capture hact" where
  "capture_blender_window env request session =
    (let path = capture_temporary_path env request BlenderWindow in
     andthen (execute_code env session) (\<lambda>text.
      if max_scenario_json < length text \<or> \<not> window_reply (he_parse env text) path
      then fail (Msg ''invalid Blender-window capture result'')
      else read_pending_capture env BlenderWindow path ''bpy.ops.screen.screenshot''))"

definition await_ready :: "host_env \<Rightarrow> string \<Rightarrow> unit hact" where
  "await_ready env session = andthen (ask (\<lambda>n. he_daemon_ready env n session)) refuse"

definition capture_desktop :: "host_env \<Rightarrow> run_request \<Rightarrow> string \<Rightarrow> pending_capture hact" where
  "capture_desktop env request session =
    then_do (refuse (check (\<not> he_desktop env) ''desktop capture is unavailable''))
    (then_do (await_ready env session)
    (then_do (andthen (ask (he_desktop_capture env)) refuse)
    (then_do (await_ready env session)
    (read_pending_capture env Desktop (capture_temporary_path env request Desktop) ''windows-copy-from-screen''))))"

definition capture_evidence :: "host_env \<Rightarrow> run_request \<Rightarrow> string \<Rightarrow> string \<Rightarrow> pending_capture hact" where
  "capture_evidence env request session kind =
    (if kind = Viewport then capture_viewport env request session
     else if kind = BlenderWindow then capture_blender_window env request session
     else if kind = Desktop then capture_desktop env request session
     else fail (Msg ''unsupported capture kind''))"

text \<open>\<open>publishCapturePNG\<close>: the file is created without replacing one.\<close>

definition publish_capture :: "host_env \<Rightarrow> string \<Rightarrow> pending_capture \<Rightarrow> int \<Rightarrow> string \<Rightarrow> evidence_file hact" where
  "publish_capture env run p version session =
    then_do (io env (\<lambda>s. if evidence_contents run (pc_path p) s \<noteq> None then (Inl Exist, s)
                         else (Inr (), put_evidence run (pc_path p) (pc_contents p) s)))
    (andthen (evidence_from_file env run (pc_path p) (pc_kind p) version session) (\<lambda>f.
      ret (f\<lparr>ef_capture_method := pc_method p, ef_width := pc_width p, ef_height := pc_height p\<rparr>)))"

definition add_evidence :: "run_receipt \<Rightarrow> evidence_file \<Rightarrow> run_receipt" where
  "add_evidence r f = r\<lparr>rr_evidence := (rr_evidence r)\<lparr>em_files := em_files (rr_evidence r) @ [f]\<rparr>\<rparr>"

lemmas host_execute_evaluate [evaluate] = fail_receipt_with_cause_def fail_receipt_def fail_execution_def
  active_receipt_def resume_active_def fail_active_execution_def context_or_def interrupted_actions_def
  admit_locked_def take_launch_def admit_def identify_session_def roll_back_session_def running_receipt_def publish_running_def publish_identity_def publish_session_def
  release_launch_def launch_session_def get_bool_def max_scenario_json_def envelope_result_def execute_code_def
  scenario_passed_def call_scenario_def capture_temporary_path_def described_path_def read_temporary_def
  read_pending_capture_def viewport_reply_def capture_viewport_def window_reply_def capture_blender_window_def
  await_ready_def capture_desktop_def capture_evidence_def publish_capture_def add_evidence_def

end
