(* ===== verification/HostPending.thy ===== *)
theory HostPending
  imports HostExecute
begin

text \<open>
  \<open>internal/host\<close>, the body of a run: \<open>executeUIActions\<close> of \<open>uiaction.go\<close> and the rest of
  \<open>ExecutePending\<close> of \<open>service.go\<close>, from the readiness of the session to the complete receipt.
\<close>

section \<open>UI actions\<close>

definition context_failure :: "err option \<Rightarrow> err option" where
  "context_failure cause =
    (case cause of
       None \<Rightarrow> None
     | Some e \<Rightarrow> if err_is e DeadlineExceeded then Some DeadlineExceeded
                 else if err_is e Canceled then Some Canceled else None)"

definition pending_receipt :: "nat \<Rightarrow> string \<Rightarrow> action \<Rightarrow> ui_receipt" where
  "pending_receipt index session a =
    \<lparr>ur_index = int index, ur_kind = ac_kind a, ur_outcome = Pending, ur_session_id = session,
     ur_window = None, ur_event_count = 0, ur_error_code = ''''\<rparr>"

text \<open>The outcome of one action: what the actor reports, or what stands for its failure.\<close>

definition perform_action :: "host_env \<Rightarrow> nat \<Rightarrow> ui_receipt \<Rightarrow> action \<Rightarrow> (ui_receipt \<times> err option) hact" where
  "perform_action env index pending a =
    (if \<not> he_ui_actor env then ret (pending\<lparr>ur_outcome := Rejected, ur_error_code := ''unsupported''\<rparr>, None)
     else andthen (ask (\<lambda>n. he_perform env n index a)) (\<lambda>result.
       case result of
         Inr r \<Rightarrow> ret (r, None)
       | Inl e \<Rightarrow>
           andthen (ask (he_context env)) (\<lambda>ctx.
             let cause = context_failure (join_err (Some e) ctx);
                 error_code = (if cause = Some DeadlineExceeded then ''timed-out''
                         else if cause = Some Canceled then ''cancelled'' else ''delivery-unknown'') in
             ret (pending\<lparr>ur_outcome := Uncertain, ur_error_code := error_code\<rparr>, cause))))"

definition set_last :: "ui_journal \<Rightarrow> ui_receipt \<Rightarrow> ui_journal" where
  "set_last j r = j\<lparr>uj_receipts := butlast (uj_receipts j) @ [r]\<rparr>"

text \<open>A report that is not about this action, or that makes the journal invalid, is replaced by an
  uncertain outcome.\<close>

definition settle_action :: "string \<Rightarrow> nat \<Rightarrow> action \<Rightarrow> ui_receipt \<Rightarrow> ui_journal \<Rightarrow> ui_receipt \<Rightarrow> ui_journal \<times> ui_receipt" where
  "settle_action session index a pending j result =
    (let j' = set_last j result in
     if ur_index result \<noteq> int index \<or> ur_kind result \<noteq> ac_kind a \<or> ur_session_id result \<noteq> session
        \<or> ur_outcome result = Pending
        \<or> ur_outcome result = Queued \<and> ur_event_count result \<noteq> int (event_count a)
        \<or> journal_validate session j' \<noteq> None
     then (let u = mark_uncertain (set_last j pending) in (u, last (uj_receipts u)))
     else (j', result))"

definition failure_cause :: "ui_receipt \<Rightarrow> err option \<Rightarrow> err option" where
  "failure_cause result cause =
    (if ur_error_code result = ''timed-out'' then Some DeadlineExceeded
     else if ur_error_code result = ''cancelled'' then Some Canceled else cause)"

definition one_action :: "host_env \<Rightarrow> run_request \<Rightarrow> string \<Rightarrow> nat \<Rightarrow> action \<Rightarrow> unit hact" where
  "one_action env request session index a =
    andthen (resume_active env request session ''UI action admission'') (\<lambda>receipt.
     case rr_ui_actions receipt of
       None \<Rightarrow> fail (Msg ''UI action journal cannot be replayed'')
     | Some j \<Rightarrow>
         if rr_state receipt \<noteq> StateInteracting \<or> length (uj_receipts j) \<noteq> index
         then fail (Msg ''UI action journal cannot be replayed'')
         else
           (let pending = pending_receipt index session a;
                j1 = j\<lparr>uj_receipts := uj_receipts j @ [pending]\<rparr>;
                admitted = receipt\<lparr>rr_ui_actions := Some j1\<rparr> in
            then_do (write_receipt env admitted)
            (andthen (perform_action env index pending a) (\<lambda>(result, cause).
             let (j2, settled) = settle_action session index a pending j1 result;
                 performed = admitted\<lparr>rr_ui_actions := Some j2\<rparr> in
             if ur_outcome settled \<noteq> Queued
             then fail_receipt_with_cause env performed ''UI action batch failed'' (failure_cause settled cause)
             else write_receipt env performed))))"

fun run_actions :: "host_env \<Rightarrow> run_request \<Rightarrow> string \<Rightarrow> nat \<Rightarrow> action list \<Rightarrow> unit hact" where
  "run_actions env request session index [] = skip"
| "run_actions env request session index (a # as) =
    then_do (one_action env request session index a) (run_actions env request session (Suc index) as)"

definition before_capture :: "host_env \<Rightarrow> run_request \<Rightarrow> string \<Rightarrow> run_receipt \<Rightarrow> unit hact" where
  "before_capture env request session receipt =
    (let run = lc_run_id (rq_claim request) in
     andthen (attempt (capture_blender_window env request session)) (\<lambda>captured.
      case captured of
        Inl e \<Rightarrow> andthen (ask (he_context env)) (\<lambda>ctx.
          fail_receipt_with_cause env receipt ''UI before capture failed'' (context_failure (join_err (Some e) ctx)))
      | Inr p \<Rightarrow>
          andthen (attempt (publish_capture env run (p\<lparr>pc_path := ui_before_path\<rparr>) 3 session)) (\<lambda>published.
            case published of
              Inl e \<Rightarrow> fail_receipt env receipt ''UI before capture publication failed''
            | Inr f \<Rightarrow> write_receipt env (add_evidence receipt f))))"

definition execute_ui_actions :: "host_env \<Rightarrow> run_request \<Rightarrow> batch \<Rightarrow> string \<Rightarrow> unit hact" where
  "execute_ui_actions env request b session =
    andthen (resume_active env request session ''UI batch start'') (\<lambda>receipt0.
     let receipt = receipt0\<lparr>rr_state := StateInteracting,
           rr_ui_actions := Some \<lparr>uj_schema_version = 1, uj_receipts = []\<rparr>\<rparr> in
     then_do (write_receipt env receipt)
     (then_do (if sc_capture_blender_window (pl_scenario (rb_payload (rq_body request)))
               then before_capture env request session receipt else skip)
     (then_do (run_actions env request session 0 (ba_actions b))
     (andthen (resume_active env request session ''UI batch acknowledgement'') (\<lambda>receipt.
      andthen (publish_ui_journal env receipt) (\<lambda>(r, journal_err).
       if journal_err \<noteq> None then fail_receipt env r ''UI journal publication failed''
       else write_receipt env (r\<lparr>rr_state := StateCollecting\<rparr>)))))))"

section \<open>The run\<close>

definition make_evidence_directories :: "host_env \<Rightarrow> run_request \<Rightarrow> run_receipt \<Rightarrow> unit hact" where
  "make_evidence_directories env request receipt =
    andthen (attempt (mkdir_all env)) (\<lambda>d.
      case d of
        Inl e \<Rightarrow> fail_receipt env receipt ''Scenario evidence directory failed''
      | Inr u \<Rightarrow>
          if captures (pl_scenario (rb_payload (rq_body request))) = [] then skip
          else andthen (attempt (mkdir_all env)) (\<lambda>d.
            case d of
              Inl e \<Rightarrow> fail_receipt env receipt ''Capture evidence directory failed''
            | Inr u \<Rightarrow> skip))"

definition ready_and_calling :: "host_env \<Rightarrow> run_request \<Rightarrow> string \<Rightarrow> unit hact" where
  "ready_and_calling env request session =
    andthen (attempt (then_do (interleave env) (await_ready env session))) (\<lambda>ready.
      case ready of
        Inl e \<Rightarrow> andthen (context_or env e) (\<lambda>c.
          fail_active_execution env request session ''Session readiness failed'' c)
      | Inr u \<Rightarrow>
          andthen (resume_active env request session ''Session readiness'') (\<lambda>receipt.
            write_receipt env (receipt\<lparr>rr_state := StateCalling\<rparr>)))"

definition scenario_and_result :: "host_env \<Rightarrow> run_request \<Rightarrow> string \<Rightarrow> unit hact" where
  "scenario_and_result env request session =
    (let run = lc_run_id (rq_claim request); p = rb_payload (rq_body request) in
     andthen (attempt (then_do (interleave env) (call_scenario env session))) (\<lambda>called.
      case called of
        Inl e \<Rightarrow> andthen (context_or env e) (\<lambda>c.
          fail_active_execution env request session ''Scenario call failed'' c)
      | Inr text \<Rightarrow>
          andthen (resume_active env request session ''Scenario call'') (\<lambda>receipt.
           andthen (attempt (save env (put_evidence run scenario_result_path text))) (\<lambda>written.
            case written of
              Inl e \<Rightarrow> fail_receipt env receipt ''Scenario result write failed''
            | Inr u \<Rightarrow>
                andthen (attempt (evidence_from_file env run scenario_result_path EvidenceScenarioResult
                    (pl_schema_version p) session)) (\<lambda>file.
                  case file of
                    Inl e \<Rightarrow> fail_receipt env receipt ''Scenario evidence validation failed''
                  | Inr f \<Rightarrow> write_receipt env (receipt
                      \<lparr>rr_state := (if sc_ui_actions (pl_scenario p) \<noteq> None then StateCalling else StateCollecting),
                       rr_evidence := \<lparr>em_schema_version = pl_schema_version p, em_files = [f]\<rparr>\<rparr>))))))"

text \<open>The desktop is captured with the operation lock held, the other kinds without it.\<close>

definition obtain_capture :: "host_env \<Rightarrow> run_request \<Rightarrow> string \<Rightarrow> string \<Rightarrow> (run_receipt \<times> pending_capture) hact" where
  "obtain_capture env request session kind =
    (if kind = Desktop then
       andthen (resume_active env request session ''desktop capture start'') (\<lambda>receipt.
        andthen (attempt (capture_evidence env request session kind)) (\<lambda>captured.
         andthen (ask (he_context env)) (\<lambda>ctx.
          case (captured, ctx) of
            (Inr p, None) \<Rightarrow> ret (receipt, p)
          | (_, Some c) \<Rightarrow> fail_receipt_with_cause env receipt ''desktop capture failed'' (Some c)
          | (Inl e, None) \<Rightarrow> fail_receipt_with_cause env receipt ''desktop capture failed'' (Some e))))
     else
       andthen (attempt (then_do (interleave env) (capture_evidence env request session kind))) (\<lambda>captured.
         case captured of
           Inl e \<Rightarrow> andthen (context_or env e) (\<lambda>c.
             fail_active_execution env request session (kind @ '' capture failed'') c)
         | Inr p \<Rightarrow> andthen (resume_active env request session (kind @ '' capture'')) (\<lambda>receipt. ret (receipt, p))))"

definition collect_capture :: "host_env \<Rightarrow> run_request \<Rightarrow> string \<Rightarrow> string \<Rightarrow> unit hact" where
  "collect_capture env request session kind =
    (let run = lc_run_id (rq_claim request); p = rb_payload (rq_body request) in
     andthen (obtain_capture env request session kind) (\<lambda>(receipt, captured).
      let target = (if kind = BlenderWindow \<and> sc_ui_actions (pl_scenario p) \<noteq> None
                    then captured\<lparr>pc_path := ui_after_path\<rparr> else captured) in
      andthen (attempt (publish_capture env run target (pl_schema_version p) session)) (\<lambda>published.
        case published of
          Inl e \<Rightarrow> fail_receipt_with_cause env receipt (kind @ '' capture publication failed'') (Some e)
        | Inr f \<Rightarrow> write_receipt env (add_evidence receipt f))))"

definition complete_run :: "host_env \<Rightarrow> run_request \<Rightarrow> string \<Rightarrow> unit hact" where
  "complete_run env request session =
    andthen (resume_active env request session ''evidence collection'') (\<lambda>receipt.
      if validate_evidence (he_up env) (rr_evidence receipt) (pl_scenario (rb_payload (rq_body request))) session \<noteq> None
      then fail_receipt env receipt ''Evidence manifest validation failed''
      else then_do (write_receipt env (receipt\<lparr>rr_state := StateComplete\<rparr>))
        (ignoring (save env (put_pending Absent)) skip))"

definition execute_pending :: "host_env \<Rightarrow> unit hact" where
  "execute_pending env =
    andthen (admit env) (\<lambda>(request, lock).
     andthen (launch_session env request lock) (\<lambda>(session, receipt).
      let sc = pl_scenario (rb_payload (rq_body request)) in
      then_do (make_evidence_directories env request receipt)
      (then_do (ready_and_calling env request session)
      (then_do (scenario_and_result env request session)
      (then_do (case sc_ui_actions sc of None \<Rightarrow> skip | Some b \<Rightarrow> execute_ui_actions env request b session)
      (then_do (each (collect_capture env request session) (captures sc))
      (complete_run env request session)))))))"

lemmas host_pending_evaluate [evaluate] = context_failure_def pending_receipt_def perform_action_def set_last_def
  settle_action_def failure_cause_def one_action_def before_capture_def execute_ui_actions_def
  make_evidence_directories_def ready_and_calling_def scenario_and_result_def obtain_capture_def
  collect_capture_def complete_run_def execute_pending_def

end
