(* ===== verification/HostInvariant.thy ===== *)
theory HostInvariant
  imports HostPending
begin

text \<open>
  The invariant of a host's state root and its preservation by every operation, whatever the
  file system, the clock, the daemon and the requests do, and whatever runs between the
  critical sections of the desktop task.

  \<^item> A receipt is stored under the run it names.
  \<^item> A run root or staging directory exists only while the Host Lock is held for its run.
  \<^item> A receipt that reports a known cleanup is terminal, and its claim does not hold the lock.
\<close>

definition locked :: "lock_claim \<Rightarrow> host_state \<Rightarrow> bool" where
  "locked c s \<longleftrightarrow> (\<exists>l. hs_lock s = Stored l \<and> lk_claim l = c)"

definition receipts_filed :: "host_state \<Rightarrow> bool" where
  "receipts_filed s \<longleftrightarrow> (\<forall>run r. hs_receipts s run = Stored r \<longrightarrow> lc_run_id (rr_claim r) = run)"

definition roots_locked :: "host_state \<Rightarrow> bool" where
  "roots_locked s \<longleftrightarrow> (\<forall>run. hs_roots s run \<noteq> NoRoot \<or> hs_staging s run \<noteq> NoRoot \<longrightarrow>
     (\<exists>l. hs_lock s = Stored l \<and> lc_run_id (lk_claim l) = run))"

definition cleanup_honest :: "host_state \<Rightarrow> bool" where
  "cleanup_honest s \<longleftrightarrow> (\<forall>run r. hs_receipts s run = Stored r \<longrightarrow> cleanup_known (rr_cleanup r) \<longrightarrow>
     terminal (rr_state r) \<and> \<not> locked (rr_claim r) s)"

definition host_inv :: "host_state \<Rightarrow> bool" where
  "host_inv s \<longleftrightarrow> receipts_filed s \<and> roots_locked s \<and> cleanup_honest s"

text \<open>The invariant inside a critical section that has authorised the claim \<open>c\<close>.\<close>

definition section_inv :: "lock_claim \<Rightarrow> host_state \<Rightarrow> bool" where
  "section_inv c s \<longleftrightarrow> host_inv s \<and> locked c s"

lemmas host_inv_defs = host_inv_def receipts_filed_def roots_locked_def cleanup_honest_def locked_def

lemma inv_tick [simp]: "host_inv (step_tick s) = host_inv s" "locked c (step_tick s) = locked c s"
  "section_inv c (step_tick s) = section_inv c s"
  by (simp_all add: host_inv_defs section_inv_def)

lemma section_inv_host: "section_inv c s \<Longrightarrow> host_inv s"
  by (simp add: section_inv_def)

text \<open>Operations that only read.\<close>

definition stable :: "(host_state \<Rightarrow> bool) \<Rightarrow> bool" where
  "stable P \<longleftrightarrow> (\<forall>s. P s \<longrightarrow> P (step_tick s))"

lemma stable_inv [simp]: "stable host_inv" "stable (section_inv c)" "stable (locked c)"
  by (simp_all add: stable_def)

lemma keeps_reads [keeps_intros]:
  assumes "stable P"
  shows "keeps P (read_json env f)" "keeps P (lstat env p)" "keeps P (acquire_operation env)"
    "keeps P (ask q)" "keeps P (io env (look g))" "keeps P (read_lock env)" "keeps P (io env skip)"
    "keeps P (mkdir_all env)"
  using assms
  by (auto simp: stable_def keeps_def read_json_def lstat_def acquire_operation_def ask_def read_lock_def
      io_def look_def ret_def mkdir_all_def save_def change_def Let_def split: fault.split)

lemma keeps_save [keeps_intros]:
  "stable P \<Longrightarrow> (\<And>s. P s \<Longrightarrow> P (f s)) \<Longrightarrow> keeps P (save env f)"
  by (auto simp: stable_def keeps_def save_def io_def change_def Let_def split: fault.split)

lemma keeps_pure_reads [keeps_intros]:
  assumes "stable P"
  shows "keeps P (authorize_claim env c)" "keeps P (host_status env v run)" "keeps P (reject_pending_setup env)"
    "keeps P (recover_unpublished env c name)" "keeps P (probe_launch env)" "keeps P (read_evidence env run path)"
    "keeps P (evidence_from_file env run path kind version session)"
  unfolding authorize_claim_def host_status_def reject_pending_setup_def recover_unpublished_def
    probe_launch_def read_evidence_def evidence_from_file_def Let_def
  using assms by (auto intro!: keeps_intros)

text \<open>What authorisation and status tell.\<close>

lemma wp_authorize:
  "stable P \<Longrightarrow> P s \<Longrightarrow>
    wp (authorize_claim env c) (\<lambda>l t. hs_lock t = Stored l \<and> lk_claim l = c \<and> lk_schema_version l = 1 \<and> P t) (\<lambda>_. P) s"
  unfolding authorize_claim_def then_do_def read_lock_def
  by (auto simp: stable_def intro!: wp_intros)

lemma hoare_authorize:
  "hoare host_inv (authorize_claim env c) (\<lambda>l s. (lk_claim l = c \<and> lk_schema_version l = 1) \<and> hs_lock s = Stored l \<and> section_inv c s) host_inv"
  by (rule hoareI, rule wp_mono[OF wp_authorize[OF stable_inv(1)]]) (auto simp: section_inv_def locked_def)

text \<open>A receipt that the section may write for the claim it has authorised.\<close>

definition writable :: "lock_claim \<Rightarrow> run_receipt \<Rightarrow> bool" where
  "writable c r \<longleftrightarrow> lc_run_id (rr_claim r) = lc_run_id c
     \<and> (cleanup_known (rr_cleanup r) \<longrightarrow> terminal (rr_state r) \<and> rr_claim r \<noteq> c)"

lemma section_write: "section_inv c s \<Longrightarrow> writable c r \<Longrightarrow> section_inv c (put_receipt r s)"
  by (auto simp: section_inv_def host_inv_defs writable_def put_simps)

lemma keeps_write_receipt: "writable c r \<Longrightarrow> keeps (section_inv c) (write_receipt env r)"
  unfolding write_receipt_def by (intro keeps_intros) (auto intro: section_write)

lemma section_root: "section_inv c s \<Longrightarrow> section_inv c (put_root (lc_run_id c) x s)"
  and section_staging: "section_inv c s \<Longrightarrow> section_inv c (put_staging (lc_run_id c) x s)"
  and section_update: "section_inv c s \<Longrightarrow> section_inv c (update_root (lc_run_id c) f s)"
  and section_update_staging: "section_inv c s \<Longrightarrow> section_inv c (update_staging (lc_run_id c) f s)"
  and section_evidence: "section_inv c s \<Longrightarrow> section_inv c (put_evidence (lc_run_id c) path bs s)"
  and section_journal: "section_inv c s \<Longrightarrow> section_inv c (put_journal (lc_run_id c) bs s)"
  and section_pending: "section_inv c s \<Longrightarrow> section_inv c (put_pending pr s)"
  by (auto simp: section_inv_def host_inv_defs put_simps update_root_def update_staging_def put_evidence_def put_journal_def
      split: root_state.split)

lemma section_lock: "section_inv c s \<Longrightarrow> lk_claim l = c \<Longrightarrow> section_inv c (put_lock (Stored l) s)"
  unfolding section_inv_def host_inv_defs put_simps by (auto; blast)

lemma section_log: "section_inv c s \<Longrightarrow> section_inv c (s\<lparr>hs_log := lg\<rparr>)"
  and section_launch: "section_inv c s \<Longrightarrow> section_inv c (s\<lparr>hs_launch := b\<rparr>)"
  and inv_log: "host_inv s \<Longrightarrow> host_inv (s\<lparr>hs_log := lg\<rparr>)"
  and inv_launch: "host_inv s \<Longrightarrow> host_inv (s\<lparr>hs_launch := b\<rparr>)"
  and inv_pending: "host_inv s \<Longrightarrow> host_inv (put_pending x' s)"
  by (auto simp: section_inv_def host_inv_defs put_simps)

lemmas section_updates = section_root section_staging section_update section_update_staging section_evidence
  section_journal section_pending section_log section_launch

section \<open>Acquire\<close>

lemma fresh_writable: "writable c (fresh_receipt c st)"
  by (simp add: writable_def fresh_receipt_def zero_receipt_def no_cleanup_def cleanup_known_def)

text \<open>A receipt that \<open>Status\<close> reports in a state with the invariant.\<close>

definition reported :: "string \<Rightarrow> run_receipt \<Rightarrow> host_state \<Rightarrow> bool" where
  "reported run r s \<longleftrightarrow> lc_run_id (rr_claim r) = run
     \<and> (cleanup_known (rr_cleanup r) \<longrightarrow> terminal (rr_state r) \<and> \<not> locked (rr_claim r) s)"

lemma reported_tick [simp]: "reported run r (step_tick s) = reported run r s"
  by (simp add: reported_def)

lemma reported_stored: "host_inv s \<Longrightarrow> hs_receipts s run = Stored r \<Longrightarrow> reported run r s"
  by (auto simp: host_inv_defs reported_def)

lemma reported_lock: "lc_run_id (lk_claim l) = run \<Longrightarrow> reported run (receipt_of_lock l) s"
  by (simp add: reported_def receipt_of_lock_def fresh_receipt_def zero_receipt_def no_cleanup_def cleanup_known_def Let_def)

lemma wp_status:
  assumes "host_inv s" "stable P" "P s"
  shows "wp (host_status env v run) (\<lambda>r t. reported run r t \<and> P t) (\<lambda>_. P) s"
proof -
  have "\<And>t. P t \<Longrightarrow> P (step_tick t)" using assms(2) by (simp add: stable_def)
  with assms(1,3) show ?thesis
    unfolding host_status_def then_do_def read_lock_def
    by (intro wp_intros) (auto intro: reported_stored reported_lock intro!: wp_intros)
qed

lemma hoare_status:
  "hoare (section_inv c) (host_status env v (lc_run_id c)) (\<lambda>r s. reported (lc_run_id c) r s \<and> section_inv c s) (section_inv c)"
  by (rule hoareI, rule wp_status) (simp_all add: section_inv_host)

lemma reported_writable: "section_inv c s \<Longrightarrow> reported (lc_run_id c) r s \<Longrightarrow> writable c r"
  by (auto simp: reported_def writable_def section_inv_def)

lemma wp_keeps: "keeps P m \<Longrightarrow> P s \<Longrightarrow> wp m (\<lambda>_. P) (\<lambda>_. P) s"
  by (simp add: keeps_wp)

section \<open>Acquire\<close>

lemma wp_create_lock:
  assumes "Q (CreateFailed IoFault) (step_tick s)"
    and "hs_lock s \<noteq> Absent \<Longrightarrow> Q Existed (step_tick s)"
    and "\<And>x. hs_lock s = Absent \<Longrightarrow> x \<in> {Damaged, Stored l} \<Longrightarrow> Q (CreateFailed IoFault) (put_lock x (step_tick s))"
    and "hs_lock s = Absent \<Longrightarrow> Q Created (put_lock (Stored l) (step_tick s))"
  shows "wp (create_lock env l) Q E s"
  using assms by (auto simp: wp_def create_lock_def Let_def split: fault.split)

text \<open>Taking the lock for a claim whose run has no receipt.\<close>

lemma inv_take_lock:
  assumes "host_inv s" "hs_lock s = Absent" "hs_receipts s (lc_run_id c) = Absent"
  shows "host_inv (put_lock Damaged s)" "lk_claim l = c \<Longrightarrow> section_inv c (put_lock (Stored l) s)"
  using assms by (auto simp: section_inv_def host_inv_defs put_simps)

lemma wp_section_write:
  assumes "section_inv c s" "writable c r" "\<And>t. section_inv c t \<Longrightarrow> Q () t" "\<And>t. section_inv c t \<Longrightarrow> E t"
  shows "wp (write_receipt env r) Q (\<lambda>_. E) s"
  by (rule wp_mono[OF wp_keeps[OF keeps_write_receipt]]) (use assms in auto)

lemma wp_take_lock:
  assumes "host_inv s" "hs_receipts s (lc_run_id c) = Absent"
  shows "wp (take_lock env c) (\<lambda>_ t. section_inv c t) (\<lambda>_. host_inv) s"
proof -
  note publish = wp_section_write[OF _ fresh_writable]
  let ?s = "step_tick s"
  have created: "wp (write_receipt env (fresh_receipt c StateAccepted)) (\<lambda>_ t. section_inv c t) (\<lambda>_. host_inv) (put_lock (Stored l) ?s)"
    if "hs_lock s = Absent" "lk_claim l = c" for l
    using inv_take_lock(2)[of ?s c l] that assms by (intro publish) (auto simp: section_inv_host)
  have published: "wp (write_receipt env (fresh_receipt c StateAccepted)) (\<lambda>_ t. section_inv c t) (\<lambda>_. host_inv) t"
    if "section_inv c t" for t using that by (intro publish) (auto simp: section_inv_host)
  have owned: "section_inv c t" if "hs_lock t = Stored l" "lk_claim l = c" "host_inv t" for l t
    using that by (auto simp: section_inv_def locked_def)
  show ?thesis
    unfolding take_lock_def Let_def read_lock_def
  proof (rule wp_andthenI, rule wp_create_lock, goal_cases)
    case 1
    show ?case using assms(1) by (simp add: wp_fail)
  next
    case 2
    show ?case unfolding exclusive.case
      by (intro wp_intros published) (auto simp: assms(1) owned[of s])
  next
    case (3 x)
    then have "host_inv (put_lock x ?s)"
      using inv_take_lock(1)[of ?s c] section_inv_host[OF inv_take_lock(2)[of ?s c]] assms
      by (auto)
    then show ?case by (simp add: wp_fail)
  next
    case 4
    then show ?case using created by simp
  qed
qed

lemma replay_acquire_reads: "stable P \<Longrightarrow> keeps P (replay_acquire env c r)"
  unfolding replay_acquire_def by (auto intro!: keeps_intros)

lemma wp_replay_acquire:
  assumes "host_inv s"
  shows "wp (replay_acquire env c r) (\<lambda>_. section_inv c) (\<lambda>_. host_inv) s"
  unfolding replay_acquire_def read_lock_def using assms
  by (intro wp_intros) (auto simp: section_inv_def locked_def)

lemma wp_acquire_run: "host_inv s \<Longrightarrow> wp (acquire_run env c) (\<lambda>_. section_inv c) (\<lambda>_. host_inv) s"
  unfolding acquire_run_def by (intro wp_intros wp_replay_acquire wp_take_lock) auto

lemma hoare_acquire: "hoare host_inv (host_acquire env v c) (\<lambda>_. section_inv c) host_inv"
  unfolding host_acquire_def acquire_locked_def
  by (intro hoare_then hoare_then_check hoare_bind[OF hoare_keeps] keeps_intros stable_inv hoareI wp_acquire_run)

section \<open>Stage\<close>

lemma keeps_io_section [keeps_intros]: "keeps (section_inv c) m \<Longrightarrow> keeps (section_inv c) (io env m)"
  by (rule keeps_io) simp_all

lemma keeps_make_staging: "keeps (section_inv c) (make_staging (lc_run_id c))"
  by (auto simp: keeps_def make_staging_def section_staging)

lemma keeps_publish_root: "keeps (section_inv c) (publish_root (lc_run_id c))"
  by (auto simp: keeps_def publish_root_def section_staging section_root split: root_state.split)

lemma keeps_drop_staging: "keeps (section_inv c) (drop_staging env (lc_run_id c))"
  by (auto simp: keeps_def drop_staging_def Let_def section_staging section_update_staging split: fault.split)

lemma keeps_section_save [keeps_intros]:
  "(\<And>s. section_inv c s \<Longrightarrow> section_inv c (f s)) \<Longrightarrow> keeps (section_inv c) (save env f)"
  by (rule keeps_save) simp_all

lemma keeps_stage_into: "lk_claim l = c \<Longrightarrow> keeps (section_inv c) (stage_into env l files)"
  unfolding stage_into_def fill_staging_def Let_def
  by (auto intro!: keeps_intros keeps_publish_root keeps_write_receipt fresh_writable section_updates)

text \<open>An operation that authorises its claim first and then keeps the section's invariant.\<close>

lemma hoare_authorized:
  assumes "\<And>l. lk_claim l = c \<Longrightarrow> lk_schema_version l = 1 \<Longrightarrow> keeps (section_inv c) (m l)"
  shows "hoare host_inv (andthen (authorize_claim env c) m) (\<lambda>_. section_inv c) host_inv"
proof (rule hoare_bind[OF hoare_authorize], rule hoare_pure)
  fix l :: lock_record assume "lk_claim l = c \<and> lk_schema_version l = 1"
  then show "hoare (\<lambda>s. hs_lock s = Stored l \<and> section_inv c s) (m l) (\<lambda>_. section_inv c) host_inv"
    by (intro hoare_weaken[OF hoare_keeps[OF assms]]) (auto intro: section_inv_host)
qed

lemma keeps_stage_authorized: "lk_claim l = c \<Longrightarrow> keeps (section_inv c) (stage_authorized env files l)"
  unfolding stage_authorized_def Let_def
  by (auto intro!: keeps_intros keeps_make_staging keeps_stage_into keeps_drop_staging)

lemma hoare_stage: "hoare host_inv (host_stage env v c files) (\<lambda>_. section_inv c) host_inv"
  unfolding host_stage_def
  by (intro hoare_then_check hoare_then keeps_intros stable_inv hoare_authorized keeps_stage_authorized)

section \<open>Start\<close>

lemma keeps_stored_request: "stable P \<Longrightarrow> keeps P (validate_stored_request env q)"
  unfolding validate_stored_request_def by (auto intro!: keeps_intros)

lemma keeps_check_staged_files: "keeps (section_inv c) (check_staged_files env run seen fs)"
  by (induction fs arbitrary: seen) (auto simp: Let_def intro!: keeps_intros)

lemma keeps_validate_staged: "keeps (section_inv c) (validate_staged_request env q)"
  unfolding validate_staged_request_def Let_def by (auto intro!: keeps_intros keeps_check_staged_files)

lemma keeps_log [keeps_intros]: "keeps (section_inv c) (log_event e)" "keeps host_inv (log_event e)"
  by (auto simp: log_event_def intro!: keeps_change section_log inv_log)

lemma keeps_tasks [keeps_intros]: "keeps (section_inv c) (start_task env q)" "keeps (section_inv c) (prepare_task env q)"
  unfolding start_task_def prepare_task_def by (auto intro!: keeps_intros)

lemma keeps_first_start: "rq_claim q = c \<Longrightarrow> keeps (section_inv c) (first_start env q)"
  unfolding first_start_def Let_def
  by (auto intro!: keeps_intros keeps_validate_staged keeps_write_receipt fresh_writable section_updates)

text \<open>A receipt of the claim itself, under the lock, reports no known cleanup.\<close>

lemma reported_own:
  "section_inv c s \<Longrightarrow> reported (lc_run_id c) r s \<Longrightarrow> rr_claim r = c \<Longrightarrow> \<not> cleanup_known (rr_cleanup r)"
  by (auto simp: reported_def section_inv_def)

lemma keeps_resume_started:
  "rr_claim r = c \<Longrightarrow> \<not> cleanup_known (rr_cleanup r) \<Longrightarrow> keeps (section_inv c) (resume_started env q l r)"
  unfolding resume_started_def Let_def
  by (auto intro!: keeps_intros keeps_stored_request keeps_write_receipt simp: writable_def)

text \<open>Continuing after the status of the section's own run.\<close>

definition own :: "lock_claim \<Rightarrow> run_receipt \<Rightarrow> bool" where
  "own c r \<longleftrightarrow> writable c r \<and> (rr_claim r = c \<longrightarrow> \<not> cleanup_known (rr_cleanup r))"

lemma reported_is_own: "section_inv c s \<Longrightarrow> reported (lc_run_id c) r s \<Longrightarrow> own c r"
  using reported_own reported_writable by (simp add: own_def)

lemma keeps_after_status:
  assumes "\<And>r. own c r \<Longrightarrow> keeps (section_inv c) (f r)"
  shows "keeps (section_inv c) (andthen (host_status env v (lc_run_id c)) f)"
proof (rule keeps_hoare, rule hoare_bind[OF hoare_status], rule hoareI)
  fix r s assume "reported (lc_run_id c) r s \<and> section_inv c s"
  then have "own c r" "section_inv c s" using reported_is_own by blast+
  then show "wp (f r) (\<lambda>_. section_inv c) (\<lambda>_. section_inv c) s" by (intro wp_keeps[OF assms])
qed

lemma keeps_after_attempted_status:
  assumes "\<And>r. own c r \<Longrightarrow> keeps (section_inv c) (f (Inr r))" "\<And>e. keeps (section_inv c) (f (Inl e))"
  shows "keeps (section_inv c) (andthen (attempt (host_status env v (lc_run_id c))) f)"
proof (rule keeps_hoare, rule hoare_bind[OF hoare_attempt[OF hoare_status]])
  fix x show "hoare (case x of Inl e \<Rightarrow> section_inv c | Inr r \<Rightarrow> (\<lambda>s. reported (lc_run_id c) r s \<and> section_inv c s))
    (f x) (\<lambda>_. section_inv c) (section_inv c)"
  proof (cases x)
    case (Inl e)
    then show ?thesis using assms(2) by (simp add: hoare_keeps)
  next
    case (Inr r)
    have "wp (f x) (\<lambda>_. section_inv c) (\<lambda>_. section_inv c) s" if "reported (lc_run_id c) r s" "section_inv c s" for s
      using wp_keeps[OF assms(1)[OF reported_is_own[OF that(2,1)]] that(2)] Inr by simp
    then show ?thesis by (simp add: hoare_def Inr)
  qed
qed

text \<open>A receipt built afresh, with whatever session identity and error text.\<close>

lemma fresh_own: "own c ((fresh_receipt c st)\<lparr>rr_session_id := x, rr_error := m\<rparr>)"
  and own_fresh: "own c (fresh_receipt c st)"
  by (simp_all add: own_def writable_def fresh_receipt_def zero_receipt_def no_cleanup_def cleanup_known_def)

lemma own_writable: "own c r \<Longrightarrow> writable c r"
  and own_unknown: "own c r \<Longrightarrow> rr_claim r = c \<Longrightarrow> \<not> cleanup_known (rr_cleanup r)"
  by (simp_all add: own_def)

lemma keeps_start_locked:
  assumes "rq_claim q = c"
  shows "keeps (section_inv c) (start_locked env q l)"
  unfolding start_locked_def Let_def assms
  by (rule keeps_after_attempted_status)
    (auto intro!: keeps_intros keeps_resume_started keeps_first_start[OF assms] keeps_stored_request keeps_write_receipt
      own_writable[OF fresh_own] dest: own_unknown)

lemma hoare_start: "hoare host_inv (host_start env q) (\<lambda>_. section_inv (rq_claim q)) host_inv"
  unfolding host_start_def
  by (intro hoare_then_check hoare_then hoare_bind[OF hoare_keeps] keeps_intros stable_inv hoare_authorized keeps_start_locked) simp_all

section \<open>Settle\<close>

lemma keeps_publish_journal:
  "lc_run_id (rr_claim r) = lc_run_id c \<Longrightarrow> keeps (section_inv c) (publish_ui_journal env r)"
  unfolding publish_ui_journal_def Let_def
  by (auto intro!: keeps_intros section_updates)

text \<open>Publishing a journal changes neither claim nor cleanup nor state of the receipt.\<close>

definition same_authority :: "run_receipt \<Rightarrow> run_receipt \<Rightarrow> bool" where
  "same_authority r r' \<longleftrightarrow> rr_claim r' = rr_claim r \<and> rr_cleanup r' = rr_cleanup r \<and> rr_state r' = rr_state r
     \<and> rr_session_id r' = rr_session_id r"

lemma publish_journal_result:
  "publish_ui_journal env r s = (Inr (r', e), t) \<Longrightarrow> same_authority r r'"
  unfolding publish_ui_journal_def Let_def
  by (auto simp: same_authority_def ret_def andthen_def attempt_def
      split: option.splits if_splits sum.splits prod.splits)

lemma hoare_publish_journal:
  assumes "lc_run_id (rr_claim r) = lc_run_id c"
  shows "hoare (section_inv c) (publish_ui_journal env r) (\<lambda>x s. same_authority r (fst x) \<and> section_inv c s) (section_inv c)"
proof (rule hoareI, rule wp_eqI)
  fix s assume inv: "section_inv c s"
  note kept = keepsD[OF keeps_publish_journal[OF assms] inv]
  show "section_inv c t" if "publish_ui_journal env r s = (Inl e, t)" for e t
    using kept[of env] that by simp
  show "same_authority r (fst a) \<and> section_inv c t" if "publish_ui_journal env r s = (Inr a, t)" for a t
    using kept[of env] that publish_journal_result[of env r s "fst a" "snd a" t] by (cases a) simp
qed

text \<open>The receipt that a settlement carries: of the claim \<open>c\<close>, and without a known cleanup.\<close>

definition settling :: "lock_claim \<Rightarrow> run_receipt \<Rightarrow> bool" where
  "settling c r \<longleftrightarrow> rr_claim r = c \<and> \<not> cleanup_known (rr_cleanup r)"

lemma settling_writable: "settling c r \<Longrightarrow> writable c r"
  by (simp add: settling_def writable_def)

lemma settling_simps [simp]:
  "settling c (r\<lparr>rr_session_id := x\<rparr>) = settling c r" "settling c (r\<lparr>rr_state := st\<rparr>) = settling c r"
  "settling c (r\<lparr>rr_error := m\<rparr>) = settling c r" "settling c (terminalize r) = settling c r"
  "settling c (r\<lparr>rr_cleanup := no_cleanup\<rparr>) = (rr_claim r = c)"
  "settling c (r\<lparr>rr_cleanup := no_cleanup\<lparr>cs_session_stopped := True\<rparr>\<rparr>) = (rr_claim r = c)"
  by (auto simp: settling_def terminalize_def no_cleanup_def cleanup_known_def)

lemma settling_claim: "settling c r \<Longrightarrow> rr_claim r = c"
  by (simp add: settling_def)

lemma same_settling: "same_authority r r' \<Longrightarrow> settling c r \<Longrightarrow> settling c r'"
  by (simp add: same_authority_def settling_def)

lemma keeps_stop: "keeps (section_inv c) (stop_session env name session)"
  unfolding stop_session_def by (auto intro!: keeps_intros)

lemma hoare_record_stopped:
  assumes "rr_claim r = c"
  shows "hoare (section_inv c) (record_stopped env r) (\<lambda>r' s. settling c r' \<and> section_inv c s) (section_inv c)"
proof -
  have w: "keeps (section_inv c) (write_receipt env r')" if "settling c r'" for r'
    using that by (intro keeps_write_receipt settling_writable)
  show ?thesis
    unfolding record_stopped_def Let_def
    by (rule hoare_bind[OF hoare_publish_journal], simp add: assms, rule hoare_pure, rule hoare_prod,
        rule hoare_bind[OF hoare_keeps[OF keeps_attempt[OF w]]])
      (auto simp: assms intro!: hoare_intros dest: same_settling[of _ _ c] split: option.split)
qed

text \<open>The removal of a directory ends with the directory gone, or fails inside the section.\<close>

definition gone :: "(host_state \<Rightarrow> string \<Rightarrow> root_state) \<Rightarrow> lock_claim \<Rightarrow> host_state \<Rightarrow> bool" where
  "gone get c s \<longleftrightarrow> section_inv c s \<and> get s (lc_run_id c) = NoRoot"

lemma hoare_save:
  "(\<And>s. P s \<Longrightarrow> P (step_tick s)) \<Longrightarrow> (\<And>s. P s \<Longrightarrow> Q () (f s)) \<Longrightarrow> (\<And>s. P s \<Longrightarrow> E (f s)) \<Longrightarrow>
    (\<And>s. P s \<Longrightarrow> E s) \<Longrightarrow> hoare P (save env f) Q E"
  by (intro hoareI wp_save) auto

lemma hoare_remove_preserving:
  assumes "\<And>f s. section_inv c s \<Longrightarrow> section_inv c (update (lc_run_id c) f s)"
    and "\<And>s. section_inv c s \<Longrightarrow> gone get c (put (lc_run_id c) NoRoot s)"
  shows "hoare (section_inv c) (remove_preserving_ownership env update put (lc_run_id c)) (\<lambda>_. gone get c) (section_inv c)"
  unfolding remove_preserving_ownership_def
  by (intro hoare_then hoare_save keeps_section_save) (use assms in \<open>auto simp: gone_def\<close>)

lemma gone_put: "section_inv c s \<Longrightarrow> gone hs_roots c (put_root (lc_run_id c) NoRoot s)"
    "section_inv c s \<Longrightarrow> gone hs_staging c (put_staging (lc_run_id c) NoRoot s)"
  by (simp_all add: gone_def section_root section_staging) (simp_all add: put_simps)

text \<open>What \<open>os.Lstat\<close> sees of a directory.\<close>

lemma wp_inspect [wp_intros]:
  assumes "Q (g s) (step_tick s)" and "\<And>e. E e (step_tick s)" and "\<And>t. g (step_tick t) = g t"
  shows "wp (io env (look g)) Q E s"
  using assms by (auto simp: wp_def io_def Let_def look_def split: fault.split)

lemma wp_section_remove:
  assumes "section_inv c s" "\<And>s. section_inv c s \<Longrightarrow> gone get c (put (lc_run_id c) NoRoot s)"
  shows "wp (save env (put (lc_run_id c) NoRoot)) (\<lambda>_. gone get c) (\<lambda>_. section_inv c) s"
  using assms by (intro wp_save) (auto simp: gone_def)

lemmas wp_remove_entries =
  hoareD[OF hoare_remove_preserving[where get = hs_roots and update = update_root and put = put_root, OF section_update gone_put(1)]]
  hoareD[OF hoare_remove_preserving[where get = hs_staging and update = update_staging and put = put_staging,
    OF section_update_staging gone_put(2)]]

lemma hoare_remove_root:
  "hoare (section_inv c) (remove_run_root env c) (\<lambda>_. gone hs_roots c) (section_inv c)"
proof (rule hoareI)
  fix s assume inv: "section_inv c s"
  show "wp (remove_run_root env c) (\<lambda>_. gone hs_roots c) (\<lambda>_. section_inv c) s"
  proof (cases "hs_roots s (lc_run_id c)")
    case (Root rt)
    then show ?thesis unfolding remove_run_root_def Let_def using inv
      by (auto intro!: wp_intros wp_remove_entries wp_section_remove gone_put simp: in_root_def)
  qed (auto simp: remove_run_root_def Let_def gone_def inv intro!: wp_intros)
qed

lemma hoare_remove_staging:
  "hoare (section_inv c) (remove_interrupted_staging env c) (\<lambda>_. gone hs_staging c) (section_inv c)"
proof (rule hoareI)
  fix s assume inv: "section_inv c s"
  show "wp (remove_interrupted_staging env c) (\<lambda>_. gone hs_staging c) (\<lambda>_. section_inv c) s"
  proof (cases "hs_staging s (lc_run_id c)")
    case (Root rt)
    then show ?thesis unfolding remove_interrupted_staging_def Let_def using inv
      by (auto intro!: wp_intros wp_remove_entries wp_section_remove gone_put simp: in_staging_def)
  qed (auto simp: remove_interrupted_staging_def Let_def gone_def inv intro!: wp_intros)
qed

text \<open>Both directories are gone: the lock may be released, and then the run may be reported clean.\<close>

definition removed :: "lock_claim \<Rightarrow> host_state \<Rightarrow> bool" where
  "removed c s \<longleftrightarrow> section_inv c s \<and> hs_roots s (lc_run_id c) = NoRoot \<and> hs_staging s (lc_run_id c) = NoRoot"

definition clean :: "lock_claim \<Rightarrow> host_state \<Rightarrow> bool" where
  "clean c s \<longleftrightarrow> host_inv s \<and> \<not> locked c s \<and> hs_roots s (lc_run_id c) = NoRoot"

lemma clean_tick [simp]: "clean c (step_tick s) = clean c s" and removed_tick [simp]: "removed c (step_tick s) = removed c s"
  by (simp_all add: clean_def removed_def)

lemma removal_keeps_roots:
  "keeps (\<lambda>s. hs_roots s = R) (remove_interrupted_staging env c)"
  unfolding remove_interrupted_staging_def remove_preserving_ownership_def Let_def
  by (auto intro!: keeps_intros simp: stable_def update_staging_def put_simps split: root_state.split)

lemma clean_lock: "removed c s \<Longrightarrow> clean c (put_lock Absent (s\<lparr>hs_log := lg\<rparr>))"
  by (auto simp: removed_def clean_def section_inv_def host_inv_defs put_simps)

lemma terminal_terminalize [simp]: "terminal (rr_state (terminalize r))"
  by (auto simp: terminalize_def terminal_def)

text \<open>What a settlement that returns has achieved.\<close>

definition settled :: "lock_claim \<Rightarrow> host_state \<Rightarrow> bool" where
  "settled c s \<longleftrightarrow> host_inv s \<and> \<not> locked c s \<and> hs_roots s (lc_run_id c) = NoRoot
     \<and> (\<exists>r. hs_receipts s (lc_run_id c) = Stored r \<and> rr_claim r = c \<and> terminal (rr_state r) \<and> cleanup_known (rr_cleanup r))"

lemma settled_tick [simp]: "settled c (step_tick s) = settled c s"
  by (simp add: settled_def)

lemma settled_host: "settled c s \<Longrightarrow> host_inv s"
  by (simp add: settled_def)

lemma settled_pending: "settled c s \<Longrightarrow> settled c (put_pending x s)"
  by (auto simp: settled_def inv_pending) (auto simp: put_simps locked_def)

lemma write_settled:
  assumes "clean c s" "rr_claim r = c" "terminal (rr_state r)" "cleanup_known (rr_cleanup r)"
  shows "settled c (put_receipt r s)"
  using assms by (auto simp: clean_def settled_def host_inv_defs put_simps)

text \<open>Writing the final receipt and dropping the pending request.\<close>

lemma wp_write_settled:
  assumes "clean c s" "rr_claim r = c" "terminal (rr_state r)" "cleanup_known (rr_cleanup r)"
  shows "wp (write_receipt env r) (\<lambda>_. settled c) (\<lambda>_. host_inv) s"
proof -
  have "settled c (put_receipt r (step_tick s))" using assms by (intro write_settled) simp_all
  then show ?thesis
    unfolding write_receipt_def using assms(1) by (intro wp_save) (auto intro: settled_host simp: clean_def)
qed

lemma keeps_drop_pending: "keeps (settled c) (save env (put_pending Absent))"
  by (rule keeps_save) (auto simp: stable_def intro: settled_pending)

lemma wp_then: "wp m (\<lambda>_. R) E s \<Longrightarrow> (\<And>t. R t \<Longrightarrow> wp n Q E t) \<Longrightarrow> wp (then_do m n) Q E s"
  unfolding then_do_def wp_andthen by (rule wp_mono)

lemma wp_ignoring: "keeps R m \<Longrightarrow> R s \<Longrightarrow> (\<And>t. R t \<Longrightarrow> wp n Q E t) \<Longrightarrow> wp (ignoring m n) Q E s"
  unfolding ignoring_def by (rule wp_andthenI, rule wp_attemptI, rule wp_mono[OF wp_keeps[of R]]) simp_all

lemma full_known [simp]: "cleanup_known full_cleanup" "cs_session_stopped full_cleanup"
  by (simp_all add: cleanup_known_def full_cleanup_def)

lemma terminalize_simps [simp]: "rr_claim (terminalize r) = rr_claim r" "rr_cleanup (terminalize r) = rr_cleanup r"
  by (simp_all add: terminalize_def)

lemma hoare_release_lock:
  assumes "rr_claim r = c"
  shows "hoare (removed c) (release_lock env r) (\<lambda>x s. x = full_cleanup \<and> settled c s) host_inv"
proof (rule hoareI)
  fix s assume rem: "removed c s"
  then have inv: "host_inv s" by (simp add: removed_def section_inv_def)
  define t where "t lg = put_lock Absent (step_tick (step_tick s)\<lparr>hs_log := lg\<rparr>)" for lg
  have t: "clean c (t lg)" for lg
    using clean_lock[of c "step_tick (step_tick s)"] rem by (simp add: t_def)
  then have t': "host_inv (t lg)" for lg by (simp add: clean_def)
  have final: "wp (then_do (write_receipt env r') (ignoring (save env (put_pending Absent)) (ret full_cleanup)))
      (\<lambda>x s. x = full_cleanup \<and> settled c s) (\<lambda>_. host_inv) (t lg)"
    if "rr_claim r' = c" "terminal (rr_state r')" "cleanup_known (rr_cleanup r')" for r' lg
    by (rule wp_then[OF wp_write_settled[OF t that]], rule wp_ignoring[OF keeps_drop_pending]) (auto intro: wp_intros)
  have body: "wp (then_do (save env (\<lambda>s. put_lock Absent (s\<lparr>hs_log := LockReleased c # hs_log s\<rparr>)))
      (then_do (write_receipt env r') (ignoring (save env (put_pending Absent)) (ret full_cleanup))))
      (\<lambda>x s. x = full_cleanup \<and> settled c s) (\<lambda>_. host_inv) (step_tick s)"
    if "rr_claim r' = c" "terminal (rr_state r')" "cleanup_known (rr_cleanup r')" for r'
    by (rule wp_then[where R = "\<lambda>u. \<exists>lg. u = t lg"], rule wp_save)
      (auto simp: inv t_def[symmetric] t' intro!: final that)
  show "wp (release_lock env r) (\<lambda>x s. x = full_cleanup \<and> settled c s) (\<lambda>_. host_inv) s"
    unfolding release_lock_def Let_def read_lock_def assms
    by (intro wp_intros) (simp_all add: assms inv body)
qed

lemma gone_removed:
  "hoare (gone hs_roots c) (remove_interrupted_staging env c) (\<lambda>_. removed c) host_inv"
proof (rule hoareI)
  fix s assume g: "gone hs_roots c s"
  have "wp (remove_interrupted_staging env c) (\<lambda>_ t. gone hs_staging c t \<and> hs_roots t = hs_roots s)
      (\<lambda>_ t. section_inv c t \<and> hs_roots t = hs_roots s) s"
    using g by (intro wp_conj hoareD[OF hoare_remove_staging] wp_keeps[OF removal_keeps_roots]) (auto simp: gone_def)
  then show "wp (remove_interrupted_staging env c) (\<lambda>_. removed c) (\<lambda>_. host_inv) s"
    by (rule wp_mono) (use g in \<open>auto simp: gone_def removed_def section_inv_host\<close>)
qed

lemma hoare_seq: "hoare P m (\<lambda>_. R) E \<Longrightarrow> hoare R n Q E \<Longrightarrow> hoare P (then_do m n) Q E"
  unfolding then_do_def by (rule hoare_bind)

lemma hoare_section:
  "hoare (section_inv c) m Q (section_inv c) \<Longrightarrow> hoare (section_inv c) m Q host_inv"
  by (erule hoare_weaken) (auto intro: section_inv_host)

lemma hoare_finish:
  assumes "rr_claim r = c"
  shows "hoare (section_inv c) (finish_settlement env name r) (\<lambda>x s. x = full_cleanup \<and> settled c s) host_inv"
  unfolding finish_settlement_def
proof (intro hoare_seq[OF hoare_section[OF hoare_keeps[OF keeps_stop]]]
    hoare_bind[OF hoare_section[OF hoare_record_stopped[OF assms]]] hoare_pure)
  fix r' assume "settling c r'"
  then have "rr_claim r' = c" by (rule settling_claim)
  then show "hoare (section_inv c) (then_do (remove_run_root env (rr_claim r'))
      (then_do (remove_interrupted_staging env (rr_claim r')) (release_lock env r')))
      (\<lambda>x s. x = full_cleanup \<and> settled c s) host_inv"
    by (simp add: hoare_seq[OF hoare_section[OF hoare_remove_root] hoare_seq[OF gone_removed hoare_release_lock]])
qed

lemma keeps_write_lock: "lk_claim l = c \<Longrightarrow> keeps (section_inv c) (write_lock env l)"
  unfolding write_lock_def by (intro keeps_section_save section_lock)

lemma hoare_adopt_receipt:
  assumes "settling c r" "lk_claim l = c"
  shows "keeps (section_inv c) (adopt_receipt_session env name l r)"
  unfolding adopt_receipt_session_def Let_def
  by (auto intro!: keeps_intros keeps_write_lock simp: assms)

lemma adopt_receipt_claim:
  "adopt_receipt_session env name l r s = (Inr l', t) \<Longrightarrow> lk_claim l' = lk_claim l"
  unfolding adopt_receipt_session_def Let_def then_do_def
  by (auto simp: andthen_def ret_def fail_def split: if_splits prod.splits sum.splits option.splits)

lemma keeps_adopt_unpublished:
  assumes "settling c r" "lk_claim l = c"
  shows "keeps (section_inv c) (adopt_unpublished_session env name l r)"
  unfolding adopt_unpublished_session_def Let_def
  by (auto intro!: keeps_intros keeps_write_lock keeps_write_receipt settling_writable simp: assms)

lemma adopt_unpublished_claim:
  "adopt_unpublished_session env name l r s = (Inr r', t) \<Longrightarrow> rr_claim r' = rr_claim r"
  unfolding adopt_unpublished_session_def Let_def then_do_def
  by (auto simp: andthen_def ret_def fail_def split: if_splits prod.splits sum.splits option.splits)

text \<open>An operation that keeps a predicate, together with what its result alone tells.\<close>

lemma hoare_keeps_result:
  assumes "keeps P m" "\<And>s a t. m s = (Inr a, t) \<Longrightarrow> F a"
  shows "hoare P m (\<lambda>a s. F a \<and> P s) P"
proof (intro hoareI wp_eqI)
  fix s assume "P s"
  note kept = keepsD[OF assms(1) this]
  show "F a \<and> P t" if "m s = (Inr a, t)" for a t using that kept assms(2) by simp
  show "P t" if "m s = (Inl e, t)" for e t using that kept by simp
qed

lemma hoare_settle_authorized:
  assumes "rr_claim r = c" "lk_claim l = c"
  shows "hoare (section_inv c) (settle_authorized env q l r) (\<lambda>x s. x = full_cleanup \<and> settled c s) host_inv"
proof -
  define r' where "r' = (if rr_state (r\<lparr>rr_cleanup := no_cleanup\<rparr>) = StateStarting \<and> rr_session_id (r\<lparr>rr_cleanup := no_cleanup\<rparr>) = '''' \<and> lk_session_id l \<noteq> ''''
      then r\<lparr>rr_cleanup := no_cleanup, rr_session_id := lk_session_id l\<rparr> else r\<lparr>rr_cleanup := no_cleanup\<rparr>)"
  have r': "settling c r'" by (simp add: r'_def assms(1))
  have adopted: "hoare (section_inv c) (adopt_receipt_session env (sr_session_name q) l r')
      (\<lambda>l' s. lk_claim l' = c \<and> section_inv c s) host_inv"
    by (rule hoare_section[OF hoare_keeps_result[OF hoare_adopt_receipt[OF r' assms(2)]]])
      (use adopt_receipt_claim assms(2) in blast)
  have rest: "hoare (section_inv c) (andthen (adopt_unpublished_session env (sr_session_name q) l' r')
      (finish_settlement env (sr_session_name q))) (\<lambda>x s. x = full_cleanup \<and> settled c s) host_inv"
    if "lk_claim l' = c" for l'
  proof (rule hoare_bind, rule hoare_section[OF hoare_keeps_result[OF keeps_adopt_unpublished[OF r' that]]])
    show "rr_claim a = c" if "adopt_unpublished_session env (sr_session_name q) l' r' s = (Inr a, t)" for s a t
      using adopt_unpublished_claim[OF that] settling_claim[OF r'] by simp
    show "hoare (\<lambda>s. rr_claim a = c \<and> section_inv c s) (finish_settlement env (sr_session_name q) a)
      (\<lambda>x s. x = full_cleanup \<and> settled c s) host_inv" for a
      by (intro hoare_pure hoare_finish)
  qed
  show ?thesis
    unfolding settle_authorized_def Let_def r'_def[symmetric]
    by (rule hoare_bind[OF adopted], rule hoare_pure, intro hoare_intros rest) (simp_all add: section_inv_host)
qed

text \<open>The recovery of a settlement that had released the lock but not written its receipt.\<close>

lemma wp_recover_released:
  assumes inv: "host_inv s"
  shows "wp (recover_released env r) (\<lambda>x t. case x of None \<Rightarrow> host_inv t | Some k \<Rightarrow> cleanup_known k \<and> settled (rr_claim r) t)
    (\<lambda>_. host_inv) s"
proof -
  define r' where "r' = terminalize (r\<lparr>rr_cleanup := (rr_cleanup r)\<lparr>cs_payload_removed := True,
    cs_run_root_removed := True, cs_lock_released := True\<rparr>\<rparr>)"
  have r': "rr_claim r' = rr_claim r" "terminal (rr_state r')" by (simp_all add: r'_def)
  let ?Q = "\<lambda>x t. case x of None \<Rightarrow> host_inv t | Some k \<Rightarrow> cleanup_known k \<and> settled (rr_claim r) t"
  have written: "wp (then_do (write_receipt env r') n) ?Q (\<lambda>_. host_inv) t"
    if "cs_session_stopped (rr_cleanup r)" "host_inv t" "\<not> locked (rr_claim r) t" "hs_roots t (lc_run_id (rr_claim r)) = NoRoot"
      and n: "n = ret (Some (rr_cleanup r')) \<or> n = ignoring (save env (put_pending Absent)) (ret (Some (rr_cleanup r')))" for n t
  proof (rule wp_then[OF wp_write_settled[OF _ r']])
    show known: "cleanup_known (rr_cleanup r')" using that(1) by (simp add: r'_def cleanup_known_def)
    show "clean (rr_claim r) t" using that by (simp add: clean_def)
    show "wp n ?Q (\<lambda>_. host_inv) u" if "settled (rr_claim r) u" for u
      using n by (rule disjE) (simp_all add: known that wp_ret wp_ignoring[OF keeps_drop_pending that])
  qed
  show ?thesis
    unfolding recover_released_def Let_def r'_def[symmetric] read_lock_def
    by (intro wp_intros) (auto simp: inv locked_def intro!: written)
qed

definition recovered_or :: "lock_claim \<Rightarrow> cleanup_state option \<Rightarrow> host_state \<Rightarrow> bool" where
  "recovered_or c x s \<longleftrightarrow> (case x of None \<Rightarrow> host_inv s | Some k \<Rightarrow> cleanup_known k \<and> settled c s)"

lemma hoare_recover: "rr_claim r = c \<Longrightarrow> hoare host_inv (recover_released env r) (recovered_or c) host_inv"
  using wp_recover_released[of _ env r] by (auto simp: recovered_or_def[abs_def] hoare_def)

lemma hoare_recovered:
  "hoare host_inv m Q E \<Longrightarrow> (\<And>k s. cleanup_known k \<Longrightarrow> settled c s \<Longrightarrow> Q k s) \<Longrightarrow>
   hoare (recovered_or c x) (case x of Some k \<Rightarrow> ret k | None \<Rightarrow> m) Q E"
  by (cases x) (auto simp: recovered_or_def hoare_def wp_ret)

text \<open>The postcondition of every way through a settlement of the claim \<open>c\<close> that returns.\<close>

abbreviation settles :: "lock_claim \<Rightarrow> cleanup_state hact \<Rightarrow> bool" where
  "settles c m \<equiv> hoare host_inv m (\<lambda>k s. cleanup_known k \<and> settled c s) host_inv"

lemma hoare_settle_or_recover:
  assumes r: "rr_claim r = c"
  shows "settles c (settle_or_recover env q r)"
proof -
  let ?R = "\<lambda>l s. (lk_claim l = c \<and> lk_schema_version l = 1) \<and> hs_lock s = Stored l \<and> section_inv c s"
  show ?thesis
    unfolding settle_or_recover_def r
  proof (rule hoare_bind[OF hoare_attempt[OF hoare_authorize]], rule hoare_sum)
    show "hoare (case l of Inl e \<Rightarrow> host_inv | Inr l \<Rightarrow> ?R l)
      (andthen (recover_released env r) (\<lambda>late. case late of Some k \<Rightarrow> ret k | None \<Rightarrow> fail (Msg ''settle authority does not match Host Lock'')))
      (\<lambda>k s. cleanup_known k \<and> settled c s) host_inv" if "l = Inl e" for l e
      unfolding that sum.case by (rule hoare_bind[OF hoare_recover[OF r]], rule hoare_recovered) (auto intro: hoare_intros)
    show "hoare (case l of Inl e \<Rightarrow> host_inv | Inr l \<Rightarrow> ?R l) (settle_authorized env q z r)
      (\<lambda>k s. cleanup_known k \<and> settled c s) host_inv" if "l = Inr z" for l z
      unfolding that sum.case by (rule hoare_pure, rule hoare_weaken[OF hoare_settle_authorized[OF r]]) auto
  qed
qed

lemma hoare_settle_stored:
  assumes c: "c = rr_claim (sr_receipt q)"
  shows "settles c (settle_stored env q r)"
  unfolding settle_stored_def c[symmetric]
proof (rule hoare_if, rule hoare_fail, assumption)
  assume "\<not> \<not> claims_equal (rr_claim r) c"
  then have r: "rr_claim r = c" by simp
  have "hoare host_inv (if cleanup_known (rr_cleanup r) then recover_released env r else ret None) (recovered_or c) host_inv"
    using hoare_recover[OF r] by (auto intro!: hoare_intros simp: recovered_or_def)
  then show "settles c (andthen (if cleanup_known (rr_cleanup r) then recover_released env r else ret None) (\<lambda>early.
      case early of Some k \<Rightarrow> ret k | None \<Rightarrow> settle_or_recover env q r))"
    by (rule hoare_bind) (rule hoare_recovered[OF hoare_settle_or_recover[OF r]], simp)
qed

lemma hoare_settle_locked: "c = rr_claim (sr_receipt q) \<Longrightarrow> settles c (settle_locked env q)"
  unfolding settle_locked_def Let_def
  by (intro hoare_bind[OF hoare_keeps] keeps_intros stable_inv hoare_settle_stored)

lemma hoare_settle:
  "hoare host_inv (host_settle env q) (\<lambda>k s. cleanup_known k \<and> settled (rr_claim (sr_receipt q)) s) host_inv"
  unfolding host_settle_def Let_def
  by (intro hoare_then_check hoare_then keeps_intros stable_inv hoare_settle_locked refl)

end
