(* ===== verification/HostExecutionInvariant.thy ===== *)
theory HostExecutionInvariant
  imports HostInvariant
begin

text \<open>
  The invariant of theory HostInvariant is preserved by the desktop task too. The task releases
  the operation lock between its steps, so each step may rely only on the invariant and
  authorises its claim again; what runs in between (\<open>he_interfere\<close>) is only required to keep
  the invariant, which the other operations do.
\<close>

definition calm :: "host_env \<Rightarrow> bool" where
  "calm env \<longleftrightarrow> (\<forall>n s. host_inv s \<longrightarrow> host_inv (he_interfere env n s))"

lemma keeps_interleave: "calm env \<Longrightarrow> keeps host_inv (interleave env)"
  by (simp add: calm_def keeps_def interleave_def)

section \<open>Failing a run inside the section\<close>

lemma failed_writable:
  "writable c r \<Longrightarrow> same_authority r r' \<Longrightarrow> st \<in> {StateTimedOut, StateFailed} \<Longrightarrow>
    writable c (r'\<lparr>rr_state := st, rr_error := m\<rparr>)"
  by (auto simp: writable_def same_authority_def terminal_def)

lemma keeps_fail_receipt_with_cause:
  assumes "writable c r"
  shows "keeps (section_inv c) (fail_receipt_with_cause env r m cause)"
proof -
  have run: "lc_run_id (rr_claim r) = lc_run_id c" using assms by (simp add: writable_def)
  show ?thesis
    unfolding fail_receipt_with_cause_def Let_def
    by (rule keeps_hoare, rule hoare_bind[OF hoare_publish_journal[OF run]], rule hoare_pure, rule hoare_prod,
        rule hoare_keeps) (auto intro!: keeps_intros keeps_write_receipt failed_writable[OF assms])
qed

lemma keeps_fail_receipt: "writable c r \<Longrightarrow> keeps (section_inv c) (fail_receipt env r m)"
  by (simp add: fail_receipt_def keeps_fail_receipt_with_cause)

lemma keeps_fail_execution: "rq_claim q = c \<Longrightarrow> keeps (section_inv c) (fail_execution env q m cause)"
  unfolding fail_execution_def Let_def
  by (auto intro!: keeps_after_attempted_status keeps_fail_receipt_with_cause own_writable[OF own_fresh, unfolded fresh_receipt_def]
      dest: own_writable simp: zero_receipt_def writable_def no_cleanup_def cleanup_known_def)

text \<open>Failing never returns normally.\<close>

definition fails :: "'a hact \<Rightarrow> bool" where
  "fails m \<longleftrightarrow> (\<forall>s. \<exists>e t. m s = (Inl e, t))"

lemma fails_intros: "fails (fail e)" "(\<And>a. fails (f a)) \<Longrightarrow> fails (andthen m f)"
    "(\<And>e. fails (g e)) \<Longrightarrow> (\<And>a. fails (h a)) \<Longrightarrow> fails (case x of Inl e \<Rightarrow> g e | Inr a \<Rightarrow> h a)"
    "fails n \<Longrightarrow> (\<And>a. fails (h a)) \<Longrightarrow> fails (case y of None \<Rightarrow> n | Some a \<Rightarrow> h a)"
    "(\<And>a b. fails (k a b)) \<Longrightarrow> fails (case z of (a, b) \<Rightarrow> k a b)"
  by (auto simp: fails_def fail_def andthen_def split: prod.splits sum.splits option.splits)

lemma fails_if: "fails (if b then m else n) = (if b then fails m else fails n)"
  by simp

lemma fails_receipt: "fails (fail_receipt_with_cause env r m cause)"
  unfolding fail_receipt_with_cause_def Let_def by (intro fails_intros)

lemma never_returns [simp]:
  fixes a :: 'a
  shows "fail_receipt_with_cause env r m cause s \<noteq> (Inr a, t)" "fail_receipt env r m s \<noteq> (Inr a, t)"
  "fail_execution env q m cause s \<noteq> (Inr a, t)"
proof -
  have never: "fails m \<Longrightarrow> m s \<noteq> (Inr a, t)" for m :: "'a hact"
    by (auto simp: fails_def dest!: spec[of _ s])
  show "fail_receipt_with_cause env r m cause s \<noteq> (Inr a, t)" "fail_receipt env r m s \<noteq> (Inr a, t)"
    "fail_execution env q m cause s \<noteq> (Inr a, t)"
    unfolding fail_receipt_def fail_execution_def Let_def by (intro never fails_intros fails_receipt)+
qed

lemma hoare_fails: "keeps P m \<Longrightarrow> fails m \<Longrightarrow> (\<And>s. P s \<Longrightarrow> E s) \<Longrightarrow> hoare P m Q E"
  unfolding hoare_def keeps_wp fails_def wp_def by (metis (no_types, lifting) case_prod_conv old.sum.simps(5))

lemma fails_roll_back: "fails (roll_back_session env q session)"
  unfolding roll_back_session_def ignoring_def then_do_def fail_execution_def Let_def
  by (intro fails_intros fails_receipt)

section \<open>Authority\<close>

text \<open>The receipt of the run that the task carries through its steps.\<close>

lemma wp_active:
  assumes "host_inv s"
  shows "wp (active_receipt env q session) (\<lambda>r t. settling (rq_claim q) r \<and> section_inv (rq_claim q) t) (\<lambda>_. host_inv) s"
  unfolding active_receipt_def
proof (rule wp_andthenI, rule wp_mono[OF wp_status[OF assms stable_inv(1) assms]], goal_cases)
  case (1 r t)
  then have "host_inv t" by simp
  then show ?case
    by (intro wp_intros wp_mono[OF hoareD[OF hoare_authorize]])
      (auto simp: settling_def section_inv_host)
next
  case 2 then show ?case by simp
qed

abbreviation active :: "lock_claim \<Rightarrow> run_receipt \<Rightarrow> host_state \<Rightarrow> bool" where
  "active c r s \<equiv> settling c r \<and> section_inv c s"

lemma hoare_active: "rq_claim q = c \<Longrightarrow> hoare host_inv (active_receipt env q session) (active c) host_inv"
  using wp_active by (auto simp: hoare_def)

text \<open>What a step may do with the receipt it holds: after it, only the invariant remains.\<close>

lemma hoare_held:
  "(settling c r \<Longrightarrow> keeps (section_inv c) m) \<Longrightarrow> hoare (active c r) m (\<lambda>_. host_inv) host_inv"
  by (rule hoare_pure, rule hoare_weaken[OF hoare_keeps[of "section_inv c"]]) (simp_all add: section_inv_host)

lemma hoare_attempt_active:
  assumes "hoare P m Q E" "\<And>a. hoare (Q a) (f (Inr a)) R F" "\<And>e. hoare E (f (Inl e)) R F"
  shows "hoare P (andthen (attempt m) f) R F"
proof (rule hoare_bind[OF hoare_attempt[OF assms(1)]])
  fix x show "hoare (case x of Inl e \<Rightarrow> E | Inr a \<Rightarrow> Q a) (f x) R F"
    using assms(2,3) by (cases x) simp_all
qed

lemma hoare_resume:
  assumes "calm env" "rq_claim q = c"
  shows "hoare host_inv (resume_active env q session phase) (active c) host_inv"
  unfolding resume_active_def
proof (intro hoare_then keeps_interleave[OF assms(1)] hoare_attempt_active[OF hoare_keeps] keeps_intros stable_inv)
  fix a :: unit
  have in_context: "hoare (active c r) (andthen (ask (he_context env)) (\<lambda>ctx. case ctx of
      Some e \<Rightarrow> fail_receipt_with_cause env r (phase @ '' failed'') (Some e) | None \<Rightarrow> ret r)) (active c) host_inv" for r
  proof (rule hoare_pure)
    assume r: "settling c r"
    show "hoare (section_inv c) (andthen (ask (he_context env)) (\<lambda>ctx. case ctx of
        Some e \<Rightarrow> fail_receipt_with_cause env r (phase @ '' failed'') (Some e) | None \<Rightarrow> ret r)) (active c) host_inv"
      by (rule hoare_bind[OF hoare_section[OF hoare_keeps[OF keeps_reads(4)]]], simp, rule hoare_option)
        (auto intro!: hoare_fails fails_receipt keeps_fail_receipt_with_cause settling_writable r hoare_intros
          intro: section_inv_host simp: r)
  qed
  show "hoare host_inv (case Inr a of Inl e \<Rightarrow> fail (Join (Msg (phase @ '' reconciliation failed'')) e) | Inr u \<Rightarrow>
      andthen (attempt (active_receipt env q session)) (\<lambda>active. case active of
        Inl e \<Rightarrow> if err_is e RunSettled then fail (Msg (''Run was settled during '' @ phase)) else fail e
      | Inr receipt \<Rightarrow> andthen (ask (he_context env)) (\<lambda>ctx. case ctx of
          Some e \<Rightarrow> fail_receipt_with_cause env receipt (phase @ '' failed'') (Some e) | None \<Rightarrow> ret receipt)))
      (active c) host_inv"
    unfolding sum.case
    by (rule hoare_attempt_active[OF hoare_active[OF assms(2)]]) (auto intro: in_context hoare_intros)
qed (auto intro: hoare_intros)

lemma keeps_fail_active:
  assumes "calm env" "rq_claim q = c"
  shows "hoare host_inv (fail_active_execution env q session m e) (\<lambda>_. host_inv) host_inv"
  unfolding fail_active_execution_def
proof (intro hoare_then keeps_interleave[OF assms(1)] hoare_attempt_active[OF hoare_keeps] keeps_intros stable_inv)
  fix a :: unit
  show "hoare host_inv (case Inr a of Inl x \<Rightarrow> fail (Join (Msg m) x) | Inr u \<Rightarrow>
      andthen (attempt (active_receipt env q session)) (\<lambda>active. case active of
        Inl x \<Rightarrow> if err_is x RunSettled then fail (Msg m) else fail (Join (Msg m) x)
      | Inr receipt \<Rightarrow> fail_receipt_with_cause env receipt m (Some e))) (\<lambda>_. host_inv) host_inv"
    unfolding sum.case
    by (rule hoare_attempt_active[OF hoare_active[OF assms(2)]])
      (auto intro!: hoare_held hoare_intros keeps_fail_receipt_with_cause settling_writable)
qed (auto intro: hoare_intros)

lemma fails_active: "fails (fail_active_execution env q session m e)"
  unfolding fail_active_execution_def then_do_def
  by (auto intro!: fails_intros fails_receipt simp: fails_if)

section \<open>Admission and start\<close>

lemma keeps_context_or [keeps_intros]: "stable P \<Longrightarrow> keeps P (context_or env e)"
  unfolding context_or_def by (intro keeps_intros)

lemma uncertain_writable: "writable c r \<Longrightarrow> writable c (r\<lparr>rr_ui_actions := j\<rparr>)"
  by (simp add: writable_def)

lemma keeps_admit_locked: "rq_claim q = c \<Longrightarrow> keeps (section_inv c) (admit_locked env q l)"
  unfolding admit_locked_def Let_def
  by (auto intro!: keeps_intros keeps_after_attempted_status keeps_fail_execution keeps_fail_receipt uncertain_writable
      dest: own_writable)

lemma admit_locked_result: "admit_locked env q l s = (Inr l', t) \<Longrightarrow> l' = l"
  unfolding admit_locked_def Let_def
  by (auto simp: andthen_def attempt_def ret_def fail_def
      split: if_splits prod.splits sum.splits option.splits)

lemma keeps_launch_flag: "keeps (section_inv c) (\<lambda>s. if hs_launch s then (Inl Canceled, s) else (Inr (), s\<lparr>hs_launch := True\<rparr>))"
  by (auto simp: keeps_def section_launch)

lemma keeps_take_launch: "rq_claim q = c \<Longrightarrow> keeps (section_inv c) (take_launch env q)"
  unfolding take_launch_def by (auto intro!: keeps_intros keeps_fail_execution keeps_launch_flag)

lemma hoare_admit:
  "hoare host_inv (admit env) (\<lambda>x s. lk_claim (snd x) = rq_claim (fst x) \<and> section_inv (rq_claim (fst x)) s) host_inv"
  unfolding admit_def
proof (rule hoare_bind[OF hoare_keeps[OF keeps_reads(1)[OF stable_inv(1)]]], intro hoare_then_check hoare_then keeps_intros stable_inv)
  fix q :: run_request
  let ?c = "rq_claim q"
  have rest: "hoare (\<lambda>s. hs_lock s = Stored l \<and> section_inv ?c s)
      (andthen (admit_locked env q l) (\<lambda>l'. then_do (take_launch env q) (ret (q, l'))))
      (\<lambda>x s. lk_claim (snd x) = rq_claim (fst x) \<and> section_inv (rq_claim (fst x)) s) host_inv"
    if l: "lk_claim l = ?c \<and> lk_schema_version l = 1" for l
  proof (rule hoare_pre)
    show "hoare (section_inv ?c) (andthen (admit_locked env q l) (\<lambda>l'. then_do (take_launch env q) (ret (q, l'))))
      (\<lambda>x s. lk_claim (snd x) = rq_claim (fst x) \<and> section_inv (rq_claim (fst x)) s) host_inv"
      by (rule hoare_bind[OF hoare_section[OF hoare_keeps_result[where F = "\<lambda>l'. l' = l", OF keeps_admit_locked[OF refl] admit_locked_result]]],
          assumption, rule hoare_pure, rule hoare_seq[OF hoare_section[OF hoare_keeps[OF keeps_take_launch[OF refl]]]])
        (simp add: hoare_ret l)
  qed simp
  show "hoare host_inv (andthen (authorize_claim env ?c) (\<lambda>l. andthen (admit_locked env q l)
      (\<lambda>l'. then_do (take_launch env q) (ret (q, l')))))
      (\<lambda>x s. lk_claim (snd x) = rq_claim (fst x) \<and> section_inv (rq_claim (fst x)) s) host_inv"
    by (rule hoare_bind[OF hoare_authorize], rule hoare_pure, rule rest)
qed

lemma keeps_identify:
  assumes "writable c r" "rq_claim q = c"
  shows "keeps (section_inv c) (identify_session env q r e session)"
  unfolding identify_session_def fail_receipt_def
  by (intro keeps_intros stable_inv keeps_fail_receipt_with_cause assms)

lemma keeps_roll_back: "rq_claim q = c \<Longrightarrow> keeps (section_inv c) (roll_back_session env q session)"
  unfolding roll_back_session_def
  by (intro keeps_intros stable_inv keeps_fail_execution keeps_write_receipt) (simp_all add: own_writable[OF fresh_own])

text \<open>The receipt of a published session, and the operations that carry it.\<close>

lemma settling_fresh [simp]: "settling c (fresh_receipt c st)"
  by (simp add: settling_def fresh_receipt_def zero_receipt_def no_cleanup_def cleanup_known_def)

lemma settling_running [simp]: "rq_claim q = c \<Longrightarrow> settling c (running_receipt q session)"
  by (simp add: running_receipt_def)

lemma hoare_write_settling:
  "settling c r \<Longrightarrow> hoare (section_inv c) (attempt (write_receipt env r)) (\<lambda>_. section_inv c) host_inv"
  by (intro hoare_section[OF hoare_keeps] keeps_attempt keeps_write_receipt settling_writable)

lemma hoare_publish_running:
  assumes q: "rq_claim q = c"
  shows "hoare (section_inv c) (publish_running env q e session) (\<lambda>x. active c (snd x)) host_inv"
  unfolding publish_running_def Let_def ignoring_def
  by (intro hoare_option hoare_sum hoare_bind[OF hoare_write_settling] hoare_intros
      hoare_bind[OF hoare_section[OF hoare_keeps[OF keeps_context_or[OF stable_inv(2)]]]])
    (simp_all add: q section_inv_host)

lemma hoare_publish_identity:
  assumes "rq_claim q = c" "lk_claim l = c"
  shows "hoare (section_inv c) (publish_identity env q l e session) (\<lambda>x. active c (snd x)) host_inv"
  unfolding publish_identity_def
  by (rule hoare_bind[OF hoare_section[OF hoare_keeps[OF keeps_attempt[OF keeps_write_lock]]]], simp add: assms, rule hoare_sum)
    (auto intro!: hoare_fails[OF keeps_roll_back] fails_roll_back hoare_publish_running section_inv_host assms)

lemma hoare_publish_session:
  assumes "rq_claim q = c" "lk_claim l = c"
  shows "hoare host_inv (publish_session env q l e session) (\<lambda>x. active c (snd x)) host_inv"
  unfolding publish_session_def
proof (intro hoare_then keeps_intros stable_inv hoare_attempt_active[OF hoare_active[OF assms(1)]])
  show "hoare (active c r) (case Inr r of
      Inl e \<Rightarrow> if err_is e RunSettled then fail (Msg ''Run was settled during Session start'') else fail e
    | Inr receipt0 \<Rightarrow> andthen (identify_session env q receipt0 e session) (publish_identity env q l e))
    (\<lambda>x. active c (snd x)) host_inv" for r
    unfolding sum.case
    by (rule hoare_pure, rule hoare_bind[OF hoare_section[OF hoare_keeps[OF keeps_identify]]])
      (auto intro: hoare_publish_identity assms settling_writable)
qed (auto intro!: hoare_intros)

text \<open>The session identity is published, or the launch has failed; the launch lock is free again.\<close>

lemma hoare_release_launch:
  fixes r :: "err + string \<times> run_receipt"
  assumes "\<And>s. P s \<Longrightarrow> P (s\<lparr>hs_launch := False\<rparr>)" "\<And>a s. r = Inr a \<Longrightarrow> P s \<Longrightarrow> Q a s" "\<And>s. P s \<Longrightarrow> E s"
  shows "hoare P (then_do release_launch (of_res r)) Q E"
  unfolding release_launch_def using assms
  by (intro hoare_then keeps_change) (auto intro: hoare_weaken[OF hoare_of_res])

lemma hoare_launch:
  assumes "calm env" "rq_claim q = c" "lk_claim l = c"
  shows "hoare (section_inv c) (launch_session env q l) (\<lambda>x. active c (snd x)) host_inv"
proof -
  note quiet = hoare_then[OF keeps_interleave[OF assms(1)]]
  have "hoare host_inv (launch_session env q l) (\<lambda>x. active c (snd x)) host_inv"
    unfolding launch_session_def
    by (intro quiet hoare_bind[OF hoare_keeps[OF keeps_reads(4)]] stable_inv hoare_prod
        hoare_then[OF keeps_log(2)] hoare_attempt_active[OF hoare_publish_session] hoare_release_launch)
      (auto simp: assms section_launch inv_launch section_inv_host)
  then show ?thesis by (rule hoare_pre) (rule section_inv_host)
qed

section \<open>The steps of a run\<close>

lemma hoare_save_evidence [keeps_intros]: "lc_run_id c = run \<Longrightarrow> keeps (section_inv c) (save env (put_evidence run path bs))"
  by (auto intro!: keeps_section_save section_evidence)

lemma keeps_captures [keeps_intros]:
  assumes "stable P"
  shows "keeps P (execute_code env session)" "keeps P (call_scenario env session)" "keeps P (await_ready env session)"
    "keeps P (capture_viewport env q session)" "keeps P (capture_blender_window env q session)"
    "keeps P (capture_desktop env q session)" "keeps P (capture_evidence env q session kind)"
  unfolding capture_evidence_def capture_viewport_def capture_blender_window_def capture_desktop_def read_pending_capture_def
    read_temporary_def call_scenario_def execute_code_def await_ready_def Let_def
  using assms by (auto intro!: keeps_intros)

lemma keeps_publish_capture: "keeps (section_inv c) (publish_capture env (lc_run_id c) p v session)"
proof -
  have "keeps (section_inv c) (\<lambda>s. if evidence_contents (lc_run_id c) (pc_path p) s \<noteq> None then (Inl Exist, s)
      else (Inr (), put_evidence (lc_run_id c) (pc_path p) (pc_contents p) s))"
    by (auto simp: keeps_def section_evidence)
  then show ?thesis unfolding publish_capture_def by (intro keeps_intros stable_inv)
qed

text \<open>A step resumes its execution and then works with the receipt inside the section.\<close>

lemma keeps_step:
  assumes "calm env" "\<And>r. settling (rq_claim q) r \<Longrightarrow> keeps (section_inv (rq_claim q)) (f r)"
  shows "keeps host_inv (andthen (resume_active env q session phase) f)"
  by (rule keeps_hoare, rule hoare_bind[OF hoare_resume[OF assms(1) refl]], rule hoare_held, rule assms(2))

lemma keeps_fail_active_execution: "calm env \<Longrightarrow> keeps host_inv (fail_active_execution env q session m e)"
  by (rule keeps_hoare, rule keeps_fail_active) simp_all

lemma settling_ui [simp]: "settling c (r\<lparr>rr_ui_actions := j\<rparr>) = settling c r"
  "settling c (r\<lparr>rr_evidence := em\<rparr>) = settling c r" "settling c (add_evidence r f) = settling c r"
  by (simp_all add: settling_def add_evidence_def)

lemma keeps_settling [keeps_intros]:
  assumes "settling c r"
  shows "keeps (section_inv c) (write_receipt env r)" "keeps (section_inv c) (fail_receipt env r m)"
    "keeps (section_inv c) (fail_receipt_with_cause env r m e)"
  using assms by (auto intro: keeps_write_receipt keeps_fail_receipt keeps_fail_receipt_with_cause settling_writable)

lemma keeps_ready: "calm env \<Longrightarrow> keeps host_inv (ready_and_calling env q session)"
  unfolding ready_and_calling_def
  by (auto intro!: keeps_intros keeps_step keeps_interleave keeps_fail_active_execution)

lemma keeps_scenario: "calm env \<Longrightarrow> keeps host_inv (scenario_and_result env q session)"
  unfolding scenario_and_result_def Let_def
  by (auto intro!: keeps_intros keeps_step keeps_interleave keeps_fail_active_execution)

lemma keeps_perform [keeps_intros]: "stable P \<Longrightarrow> keeps P (perform_action env i r a)"
  unfolding perform_action_def Let_def by (auto intro!: keeps_intros)

lemma keeps_one_action: "calm env \<Longrightarrow> keeps host_inv (one_action env q session i a)"
  unfolding one_action_def Let_def by (auto intro!: keeps_intros keeps_step)

lemma keeps_run_actions: "calm env \<Longrightarrow> keeps host_inv (run_actions env q session i as)"
  by (induction as arbitrary: i) (auto intro!: keeps_intros keeps_one_action)

lemma keeps_before_capture: "settling (rq_claim q) r \<Longrightarrow> keeps (section_inv (rq_claim q)) (before_capture env q session r)"
  unfolding before_capture_def Let_def by (auto intro!: keeps_intros keeps_publish_capture)

lemma keeps_make_directories: "settling c r \<Longrightarrow> keeps (section_inv c) (make_evidence_directories env q r)"
  unfolding make_evidence_directories_def by (auto intro!: keeps_intros)

lemma hoare_pair: "(\<And>y z. hoare (P (y, z)) (f y z) Q E) \<Longrightarrow> hoare (P x) (case x of (y, z) \<Rightarrow> f y z) Q E"
  by (cases x) simp

lemma hoare_obtain:
  assumes "calm env"
  shows "hoare host_inv (obtain_capture env q session kind) (\<lambda>x. active (rq_claim q) (fst x)) host_inv"
proof -
  let ?c = "rq_claim q"
  note resumed = hoare_bind[OF hoare_resume[OF assms refl]]
  have other: "hoare host_inv (case x of
      Inl e \<Rightarrow> andthen (context_or env e) (\<lambda>c. fail_active_execution env q session m c)
    | Inr p \<Rightarrow> andthen (resume_active env q session m') (\<lambda>receipt. ret (receipt, p)))
      (\<lambda>x. active ?c (fst x)) host_inv" for x :: "err + pending_capture" and m m'
    by (intro hoare_sum resumed hoare_bind[OF hoare_keeps[OF keeps_context_or]] stable_inv hoare_ret
        hoare_fails[OF keeps_fail_active_execution[OF assms]] fails_active) simp_all
  have desktop: "hoare (section_inv ?c) (andthen (ask (he_context env)) (\<lambda>ctx. case (captured, ctx) of
      (Inr p, None) \<Rightarrow> ret (r, p)
    | (_, Some c) \<Rightarrow> fail_receipt_with_cause env r ''desktop capture failed'' (Some c)
    | (Inl e, None) \<Rightarrow> fail_receipt_with_cause env r ''desktop capture failed'' (Some e)))
      (\<lambda>x. active ?c (fst x)) host_inv" if r: "settling ?c r" for r and captured :: "err + pending_capture"
    by (rule hoare_bind[OF hoare_section[OF hoare_keeps[OF keeps_reads(4)[OF stable_inv(2)]]]])
      (auto split: option.split sum.split intro!: hoare_fails[OF keeps_settling(3)] fails_receipt hoare_ret
        intro: section_inv_host simp: r)
  show ?thesis
    unfolding obtain_capture_def
    by (intro hoare_if resumed hoare_pure hoare_bind[OF hoare_section[OF hoare_keeps[OF keeps_attempt[OF keeps_captures(7)]]]]
        hoare_bind[OF hoare_keeps[OF keeps_attempt[OF keeps_control(1)[OF keeps_interleave[OF assms] keeps_captures(7)]]]]
        desktop other stable_inv)
qed

lemma keeps_collect:
  assumes "calm env"
  shows "keeps host_inv (collect_capture env q session kind)"
proof -
  have publish: "keeps (section_inv (rq_claim q)) (andthen (attempt (publish_capture env (lc_run_id (rq_claim q)) target v session))
      (\<lambda>published. case published of
        Inl e \<Rightarrow> fail_receipt_with_cause env r m (Some e) | Inr f \<Rightarrow> write_receipt env (add_evidence r f)))"
    if "settling (rq_claim q) r" for r target v m
    using that by (auto intro!: keeps_intros keeps_publish_capture)
  show ?thesis
    unfolding collect_capture_def Let_def
    by (rule keeps_hoare, rule hoare_bind[OF hoare_obtain[OF assms]], rule hoare_pair, unfold fst_conv, rule hoare_held, rule publish)
qed

lemma keeps_ui:
  assumes "calm env"
  shows "keeps host_inv (execute_ui_actions env q b session)"
proof -
  have acknowledge: "keeps (section_inv (rq_claim q)) (andthen (publish_ui_journal env r) (\<lambda>(r, journal_err).
      if journal_err \<noteq> None then fail_receipt env r ''UI journal publication failed''
      else write_receipt env (r\<lparr>rr_state := StateCollecting\<rparr>)))" if r: "settling (rq_claim q) r" for r
    by (rule keeps_hoare, rule hoare_bind[OF hoare_publish_journal], simp add: settling_claim[OF r], rule hoare_pure,
        rule hoare_prod, rule hoare_keeps) (auto intro!: keeps_intros dest: same_settling[OF _ r])
  have rest: "hoare (section_inv c) (then_do (run_actions env q session 0 as) m) (\<lambda>_. host_inv) host_inv"
    if "keeps host_inv m" for as c and m :: "unit hact"
    by (rule hoare_pre[OF hoare_keeps[OF keeps_control(1)[OF keeps_run_actions[OF assms] that]]]) (rule section_inv_host)
  show ?thesis
    unfolding execute_ui_actions_def Let_def
    by (rule keeps_hoare, rule hoare_bind[OF hoare_resume[OF assms refl]], rule hoare_pure,
        rule hoare_seq[OF hoare_section[OF hoare_keeps]], simp add: keeps_settling,
        rule hoare_seq[OF hoare_section[OF hoare_keeps]], simp add: keeps_basic keeps_before_capture, rule rest)
      (rule keeps_step[OF assms acknowledge], assumption)
qed

lemma keeps_complete: "calm env \<Longrightarrow> keeps host_inv (complete_run env q session)"
  unfolding complete_run_def ignoring_def by (auto intro!: keeps_intros keeps_step section_pending)

lemma keeps_execute:
  assumes "calm env"
  shows "keeps host_inv (execute_pending env)"
proof -
  have rest: "keeps host_inv (then_do (ready_and_calling env q session)
      (then_do (scenario_and_result env q session)
      (then_do (case u of None \<Rightarrow> skip | Some b \<Rightarrow> execute_ui_actions env q b session)
      (then_do (each (collect_capture env q session) ks) (complete_run env q session)))))" for q session u ks
    by (intro keeps_intros keeps_ready keeps_scenario keeps_ui keeps_collect keeps_complete assms)
  show ?thesis
    unfolding execute_pending_def Let_def
    by (rule keeps_hoare, rule hoare_bind[OF hoare_admit], rule hoare_pair, unfold fst_conv snd_conv, rule hoare_pure,
        rule hoare_bind[OF hoare_launch[OF assms refl]], assumption, rule hoare_pair, unfold fst_conv snd_conv, rule hoare_pure,
        rule hoare_seq[OF hoare_section[OF hoare_keeps[OF keeps_make_directories]]], assumption,
        rule hoare_pre[OF hoare_keeps[OF rest]], rule section_inv_host)
qed

end
