(* ===== verification/HostProtocol.thy ===== *)
theory HostProtocol
  imports HostExecutionInvariant
begin

text \<open>
  The host as a state machine. One step is one operation of theory HostService or HostSettle, or
  a whole execution of the desktop task, under an environment of its own: any faults, any clock,
  any answers of the daemon. While an execution does not hold the operation lock, any number of
  the other operations may run. \<open>reachable\<close> are the state roots such steps build from an empty
  directory.
\<close>

definition empty_host :: host_state where
  "empty_host = \<lparr>hs_lock = Absent, hs_receipts = (\<lambda>_. Absent), hs_roots = (\<lambda>_. NoRoot), hs_staging = (\<lambda>_. NoRoot),
     hs_pending = Absent, hs_setup = Absent, hs_launch = False, hs_tick = 0, hs_log = []\<rparr>"

datatype operation =
    OpAcquire int lock_claim
  | OpStage int lock_claim "stage_file list"
  | OpStart run_request
  | OpStatus int string
  | OpFetch int run_receipt evidence_file
  | OpSettle settle_request

fun perform :: "host_env \<Rightarrow> operation \<Rightarrow> host_state \<Rightarrow> host_state" where
  "perform env (OpAcquire v c) s = snd (host_acquire env v c s)"
| "perform env (OpStage v c files) s = snd (host_stage env v c files s)"
| "perform env (OpStart q) s = snd (host_start env q s)"
| "perform env (OpStatus v run) s = snd (host_status env v run s)"
| "perform env (OpFetch v r f) s = snd (host_fetch env v r f s)"
| "perform env (OpSettle q) s = snd (host_settle env q s)"

inductive short_step :: "host_state \<Rightarrow> host_state \<Rightarrow> bool" where
  operation: "short_step s (perform env op s)"

inductive short_steps :: "host_state \<Rightarrow> host_state \<Rightarrow> bool" where
  refl: "short_steps s s"
| step: "short_steps s t \<Longrightarrow> short_step t u \<Longrightarrow> short_steps s u"

definition interleaves :: "host_env \<Rightarrow> bool" where
  "interleaves env \<longleftrightarrow> (\<forall>n s. short_steps s (he_interfere env n s))"

inductive host_step :: "host_state \<Rightarrow> host_state \<Rightarrow> bool" where
  short: "short_step s t \<Longrightarrow> host_step s t"
| execution: "interleaves env \<Longrightarrow> host_step s (snd (execute_pending env s))"

inductive reachable :: "host_state \<Rightarrow> bool" where
  initial: "reachable empty_host"
| later: "reachable s \<Longrightarrow> host_step s t \<Longrightarrow> reachable t"

inductive_cases short_stepE: "short_step s t"
inductive_cases host_stepE: "host_step s t"

lemma keeps_from_hoare: "hoare host_inv m Q host_inv \<Longrightarrow> (\<And>a s. Q a s \<Longrightarrow> host_inv s) \<Longrightarrow> keeps host_inv m"
  by (rule keeps_hoare, erule hoare_weaken) auto

lemma keeps_fetch: "keeps host_inv (host_fetch env v r f)"
  unfolding host_fetch_def by (auto intro!: keeps_intros)

lemmas operation_keeps =
  keeps_from_hoare[OF hoare_acquire section_inv_host] keeps_from_hoare[OF hoare_stage section_inv_host]
  keeps_from_hoare[OF hoare_start section_inv_host] keeps_pure_reads(2)[OF stable_inv(1)] keeps_fetch
  keeps_from_hoare[OF hoare_settle settled_host[OF conjunct2]]

lemma perform_inv: "host_inv s \<Longrightarrow> host_inv (perform env op s)"
  by (cases op) (simp_all add: keepsD[OF operation_keeps(1)] keepsD[OF operation_keeps(2)] keepsD[OF operation_keeps(3)]
      keepsD[OF operation_keeps(4)] keepsD[OF operation_keeps(5)] keepsD[OF operation_keeps(6)])

lemma short_steps_inv: "short_steps s t \<Longrightarrow> host_inv s \<Longrightarrow> host_inv t"
  by (induction rule: short_steps.induct) (auto elim: short_stepE intro: perform_inv)

lemma interleaves_calm: "interleaves env \<Longrightarrow> calm env"
  by (auto simp: interleaves_def calm_def intro: short_steps_inv)

lemma host_step_inv: "host_step s t \<Longrightarrow> host_inv s \<Longrightarrow> host_inv t"
  by (erule host_stepE) (auto elim: short_stepE intro: perform_inv keepsD[OF keeps_execute] interleaves_calm)

lemma empty_host_inv: "host_inv empty_host"
  by (simp add: host_inv_defs empty_host_def)

lemma reachable_inv: "reachable s \<Longrightarrow> host_inv s"
  by (induction rule: reachable.induct) (auto intro: empty_host_inv host_step_inv)

end
