(* ===== verification/HostGuarantees.thy ===== *)
theory HostGuarantees
  imports HostProtocol
begin

text \<open>
  What the host's operations guarantee about the Host Lock, under every environment: a request
  whose claim does not hold the lock changes nothing its holder depends on, a session that the
  lock records is stopped before the lock is released, an acquisition that succeeds holds the
  lock, and settlement waits for a launch that has not published its session.
\<close>

section \<open>A request without the lock\<close>

fun claim_of :: "operation \<Rightarrow> lock_claim option" where
  "claim_of (OpAcquire v c) = Some c"
| "claim_of (OpStage v c files) = Some c"
| "claim_of (OpStart q) = Some (rq_claim q)"
| "claim_of (OpSettle q) = Some (rr_claim (sr_receipt q))"
| "claim_of op = None"

text \<open>Everything on the host except the receipt of the claim \<open>c\<close> itself, where it has one.\<close>

definition has_receipt :: "host_state \<Rightarrow> string \<Rightarrow> lock_claim \<Rightarrow> bool" where
  "has_receipt s run c \<longleftrightarrow> (\<exists>r. hs_receipts s run = Stored r \<and> rr_claim r = c)"

definition same_for_holder :: "lock_claim \<Rightarrow> host_state \<Rightarrow> host_state \<Rightarrow> bool" where
  "same_for_holder c s t \<longleftrightarrow> hs_lock t = hs_lock s \<and> hs_roots t = hs_roots s \<and> hs_staging t = hs_staging s
     \<and> hs_pending t = hs_pending s \<and> hs_setup t = hs_setup s \<and> hs_launch t = hs_launch s \<and> hs_log t = hs_log s
     \<and> (\<forall>run. hs_receipts t run = hs_receipts s run \<or> run = lc_run_id c \<and> has_receipt s run c)"

lemma same_refl: "same_for_holder c s s"
  by (simp add: same_for_holder_def)

lemma same_lock: "same_for_holder c s t \<Longrightarrow> hs_lock t = hs_lock s"
  by (simp add: same_for_holder_def)

lemma same_receipts: "\<not> has_receipt s (lc_run_id c) c \<Longrightarrow> same_for_holder c s t \<Longrightarrow> hs_receipts t = hs_receipts s"
  by (auto simp: same_for_holder_def)

lemma same_stable [simp]: "stable (same_for_holder c s)" "same_for_holder c s (step_tick t) = same_for_holder c s t"
  by (auto simp: stable_def same_for_holder_def)

lemma same_write:
  "has_receipt s (lc_run_id c) c \<Longrightarrow> rr_claim r = c \<Longrightarrow> keeps (same_for_holder c s) (write_receipt env r)"
  unfolding write_receipt_def by (auto intro!: keeps_save simp: same_for_holder_def put_simps)

lemma foreign_authorize:
  assumes "hs_lock s = Stored l" "lk_claim l \<noteq> c"
  shows "hoare (same_for_holder c s) (authorize_claim env c) (\<lambda>_ _. False) (same_for_holder c s)"
  unfolding authorize_claim_def then_do_def read_lock_def
  by (intro hoareI wp_intros) (use assms in \<open>auto simp: same_for_holder_def\<close>)

lemma foreign_authorized:
  assumes "hs_lock s = Stored l" "lk_claim l \<noteq> c"
  shows "hoare (same_for_holder c s) (andthen (authorize_claim env c) f) (\<lambda>_. same_for_holder c s) (same_for_holder c s)"
  by (rule hoare_bind[OF foreign_authorize[OF assms]]) (simp add: hoare_def)

lemma wp_same:
  "keeps (same_for_holder c s) m \<Longrightarrow> same_for_holder c s t \<Longrightarrow> wp m (\<lambda>_. same_for_holder c s) (\<lambda>_. same_for_holder c s) t"
  by (rule wp_keeps)

text \<open>The lock is found taken, and read, before an acquisition writes anything.\<close>

lemma foreign_take_lock:
  assumes "hs_lock s = Stored l" "lk_claim l \<noteq> c"
  shows "keeps (same_for_holder c s) (take_lock env c)"
proof -
  have "wp (take_lock env c) (\<lambda>_. same_for_holder c s) (\<lambda>_. same_for_holder c s) t"
    if t: "same_for_holder c s t" for t
  proof -
    have lock: "hs_lock t = Stored l" using t assms by (simp add: same_for_holder_def)
    show ?thesis
      unfolding take_lock_def Let_def read_lock_def
      by (rule wp_andthenI, rule wp_create_lock, simp_all add: lock wp_fail t, intro wp_intros,
          use assms(2) in \<open>simp_all add: t lock\<close>)
  qed
  then show ?thesis by (simp add: keeps_wp)
qed

lemma foreign_acquire:
  assumes "hs_lock s = Stored l" "lk_claim l \<noteq> c"
  shows "keeps (same_for_holder c s) (host_acquire env v c)"
proof -
  have "keeps (same_for_holder c s) (acquire_run env c)"
    unfolding acquire_run_def replay_acquire_def by (auto intro!: keeps_intros foreign_take_lock[OF assms])
  then show ?thesis
    unfolding host_acquire_def acquire_locked_def by (auto intro!: keeps_intros)
qed

subsection \<open>Settlement by another claim\<close>

text \<open>A claim with a receipt of its own may recover a settlement that had released the lock: it
  finds the lock another's and rewrites its own receipt.\<close>

lemma foreign_recover:
  assumes "hs_lock s = Stored l" "has_receipt s (lc_run_id (rr_claim r)) (rr_claim r)"
  shows "keeps (same_for_holder (rr_claim r) s) (recover_released env r)"
proof -
  have "wp (recover_released env r) (\<lambda>_. same_for_holder (rr_claim r) s) (\<lambda>_. same_for_holder (rr_claim r) s) t"
    if t: "same_for_holder (rr_claim r) s t" for t
  proof -
    have lock: "hs_lock t \<noteq> Absent" using same_lock[OF t] assms by simp
    show ?thesis
      unfolding recover_released_def Let_def read_lock_def
      by (intro wp_intros) (auto simp: t lock intro!: wp_same keeps_intros same_write[OF assms(2)])
  qed
  then show ?thesis by (simp add: keeps_wp)
qed

lemma foreign_settle_stored:
  assumes "hs_lock s = Stored l" "lk_claim l \<noteq> rr_claim (sr_receipt q)"
    and "has_receipt s (lc_run_id (rr_claim (sr_receipt q))) (rr_claim (sr_receipt q))"
  shows "keeps (same_for_holder (rr_claim (sr_receipt q)) s) (settle_stored env q r)"
proof (cases "rr_claim r = rr_claim (sr_receipt q)")
  case True
  note recover = foreign_recover[OF assms(1), of r, unfolded True, OF assms(3)]
  have "keeps (same_for_holder (rr_claim (sr_receipt q)) s) (settle_or_recover env q r)"
    unfolding settle_or_recover_def True
    by (rule keeps_hoare, rule hoare_attempt_active[OF foreign_authorize[OF assms(1,2)]], simp add: hoare_def,
        rule hoare_keeps, auto intro!: keeps_intros recover)
  then show ?thesis unfolding settle_stored_def by (auto intro!: keeps_intros recover)
qed (auto simp: settle_stored_def intro!: keeps_intros)

text \<open>A claim without one is told the status of another claim, and refused.\<close>

lemma foreign_status:
  assumes "hs_lock s = Stored l" "lk_claim l \<noteq> c" "\<not> has_receipt s (lc_run_id c) c" "same_for_holder c s t"
  shows "wp (host_status env 1 (lc_run_id c)) (\<lambda>r t. rr_claim r \<noteq> c \<and> same_for_holder c s t) (\<lambda>_. same_for_holder c s) t"
proof -
  note t = same_lock[OF assms(4)] same_receipts[OF assms(3,4)] assms(4)
  show ?thesis
    unfolding host_status_def read_lock_def then_do_def
    by (intro wp_intros)
      (use assms(1-3) in \<open>auto simp: t has_receipt_def receipt_of_lock_def fresh_receipt_def Let_def zero_receipt_def\<close>)
qed

lemma foreign_settle:
  assumes "hs_lock s = Stored l" "lk_claim l \<noteq> rr_claim (sr_receipt q)"
  shows "keeps (same_for_holder (rr_claim (sr_receipt q)) s) (host_settle env q)"
proof -
  let ?c = "rr_claim (sr_receipt q)"
  have locked: "keeps (same_for_holder ?c s) (settle_locked env q)"
  proof (cases "has_receipt s (lc_run_id ?c) ?c")
    case True
    then show ?thesis
      unfolding settle_locked_def Let_def by (intro keeps_intros same_stable(1) foreign_settle_stored[OF assms])
  next
    case False
    have refused: "wp (settle_stored env q r) (\<lambda>_. same_for_holder ?c s) (\<lambda>_. same_for_holder ?c s) t"
      if "rr_claim r \<noteq> ?c" "same_for_holder ?c s t" for r t
      using that by (simp add: settle_stored_def wp_fail)
    have fallback: "wp (authorize_claim env ?c) (\<lambda>_ _. False) (\<lambda>_. same_for_holder ?c s) t" if "same_for_holder ?c s t" for t
      using hoareD[OF foreign_authorize[OF assms] that] .
    show ?thesis
      unfolding settle_locked_def Let_def keeps_wp
      by (auto simp: wp_andthen wp_attempt wp_ret wp_fail intro!: wp_mono[OF foreign_status[OF assms False]] refused)
        (rule wp_mono[OF fallback]; auto simp: wp_fail)
  qed
  then show ?thesis
    unfolding host_settle_def Let_def by (intro keeps_intros same_stable(1))
qed

lemma foreign_operation:
  assumes "hs_lock s = Stored l" "claim_of op = Some c" "lk_claim l \<noteq> c"
  shows "same_for_holder c s (perform env op s)"
proof -
  note auth = foreign_authorized[OF assms(1,3)]
  have stage: "keeps (same_for_holder c s) (host_stage env v c files)" for v files
    unfolding host_stage_def by (intro keeps_intros same_stable(1) keeps_hoare[OF auth])
  have start: "rq_claim q = c \<Longrightarrow> keeps (same_for_holder c s) (host_start env q)" for q
    unfolding host_start_def by (simp, intro keeps_intros same_stable(1) keeps_hoare[OF auth])
  have settle: "keeps (same_for_holder c s) (host_settle env q)" if "rr_claim (sr_receipt q) = c" for q
    using foreign_settle[OF assms(1), of q env] assms(3) that by simp
  show ?thesis
    using assms(2) keepsD[OF foreign_acquire[OF assms(1,3)] same_refl] keepsD[OF stage same_refl]
      keepsD[OF start, OF _ same_refl] keepsD[OF settle, OF _ same_refl] by (cases op) auto
qed

section \<open>The session is stopped before the lock is released\<close>

text \<open>While the lock names the session \<open>sid\<close> it is recorded; after that the log shows its stop.\<close>

definition stop_logged :: "string \<Rightarrow> string \<Rightarrow> host_state \<Rightarrow> bool" where
  "stop_logged name sid s \<longleftrightarrow> SessionStopped name sid \<in> set (hs_log s)"

definition recorded_or_stopped :: "lock_claim \<Rightarrow> string \<Rightarrow> string \<Rightarrow> host_state \<Rightarrow> bool" where
  "recorded_or_stopped c name sid s \<longleftrightarrow>
     (\<exists>l. hs_lock s = Stored l \<and> lk_claim l = c \<and> lk_session_id l = sid) \<or> stop_logged name sid s"

lemma stable_stop [simp]: "stable (stop_logged name sid)" "stable (recorded_or_stopped c name sid)"
  by (simp_all add: stable_def stop_logged_def recorded_or_stopped_def)

lemma keeps_stop_log:
  assumes "\<And>s. hs_log (f s) = hs_log s \<or> (\<exists>e. hs_log (f s) = e # hs_log s)"
  shows "keeps (stop_logged name sid) (save env f)"
proof (rule keeps_save)
  fix s assume "stop_logged name sid s"
  then show "stop_logged name sid (f s)" using assms[of s] by (auto simp: stop_logged_def)
qed simp

lemma log_updates [simp]:
  "hs_log (put_lock x s) = hs_log s" "hs_log (put_receipt r s) = hs_log s" "hs_log (put_root run y s) = hs_log s"
  "hs_log (put_staging run y s) = hs_log s" "hs_log (put_pending z s) = hs_log s"
  "hs_log (update_root run f s) = hs_log s" "hs_log (update_staging run f s) = hs_log s"
  "hs_log (put_evidence run p bs s) = hs_log s" "hs_log (put_journal run bs s) = hs_log s"
  by (auto simp: put_simps update_root_def update_staging_def put_evidence_def put_journal_def split: root_state.split)

lemma keeps_logged [keeps_intros]:
  "keeps (stop_logged name sid) (log_event e)" "keeps (stop_logged name sid) (write_receipt env r)"
  "keeps (stop_logged name sid) (write_lock env l)"
  "keeps (stop_logged name sid) (publish_ui_journal env r)"
  "keeps (stop_logged name sid) (remove_preserving_ownership env update_root put_root run)"
  "keeps (stop_logged name sid) (remove_preserving_ownership env update_staging put_staging run)"
  unfolding log_event_def write_receipt_def write_lock_def publish_ui_journal_def Let_def remove_preserving_ownership_def
  by (auto intro!: keeps_intros keeps_stop_log keeps_change simp: stop_logged_def)

lemma keeps_look_root [keeps_intros]: "stable P \<Longrightarrow> keeps P (case x of NoRoot \<Rightarrow> m | NotADirectory \<Rightarrow> n | Root rt \<Rightarrow> f rt)"
  if "keeps P m" "keeps P n" "\<And>rt. keeps P (f rt)" for P :: "host_state \<Rightarrow> bool" and m n :: "'a hact"
  using that by (cases x) simp_all

lemma keeps_finish_logged:
  "keeps (stop_logged name sid) (record_stopped env r)" "keeps (stop_logged name sid) (remove_run_root env c)"
  "keeps (stop_logged name sid) (remove_interrupted_staging env c)" "keeps (stop_logged name sid) (release_lock env r)"
  "keeps (stop_logged name sid) (stop_session env n session)"
  unfolding record_stopped_def remove_run_root_def remove_interrupted_staging_def release_lock_def stop_session_def Let_def
  by (auto intro!: keeps_intros keeps_stop_log keeps_look_root)

lemma logged_recorded: "stop_logged name sid s \<Longrightarrow> recorded_or_stopped c name sid s"
  by (simp add: recorded_or_stopped_def)

lemma keeps_recorded:
  "keeps (recorded_or_stopped c name sid) (write_receipt env r)" "keeps (recorded_or_stopped c name sid) (save env (put_pending x))"
  unfolding write_receipt_def
  by (auto intro!: keeps_save simp: recorded_or_stopped_def stop_logged_def) (auto simp: put_simps)

lemma keeps_recorded_recover: "keeps (recorded_or_stopped c name sid) (recover_released env r)"
  unfolding recover_released_def Let_def by (auto intro!: keeps_intros keeps_recorded split: bool.split)

lemma hoare_stop_logs:
  assumes "sid \<noteq> ''''"
  shows "hoare P (stop_session env name sid) (\<lambda>_. stop_logged name sid) (\<lambda>s. True)"
  using assms unfolding stop_session_def log_event_def
  by (intro hoareI) (auto simp: stop_logged_def intro!: wp_intros)

lemma keeps_logged_adopt:
  "keeps (stop_logged name sid) (adopt_receipt_session env n l r)"
  "keeps (stop_logged name sid) (adopt_unpublished_session env n l r)"
  unfolding adopt_receipt_session_def adopt_unpublished_session_def Let_def
  by (auto intro!: keeps_intros)

lemma keeps_logged_settle: "keeps (stop_logged name sid) (settle_authorized env q l r)"
  unfolding settle_authorized_def finish_settlement_def Let_def
  by (intro keeps_intros keeps_logged_adopt keeps_finish_logged)

lemma keeps_recorded_stop:
  "keeps (recorded_or_stopped c name sid) (stop_session env n s)"
  unfolding stop_session_def log_event_def
  by (auto intro!: keeps_intros keeps_change simp: recorded_or_stopped_def stop_logged_def)

lemma hoare_finish_stops:
  assumes "rr_session_id r = sid" "sid \<noteq> ''''"
  shows "hoare (recorded_or_stopped c name sid) (finish_settlement env name r)
    (\<lambda>_. recorded_or_stopped c name sid) (recorded_or_stopped c name sid)"
proof -
  have stop: "hoare (recorded_or_stopped c name sid) (stop_session env name sid)
      (\<lambda>_. stop_logged name sid) (recorded_or_stopped c name sid)"
    using hoare_stop_logs[OF assms(2), of "recorded_or_stopped c name sid" env name]
      hoare_keeps[OF keeps_recorded_stop[of c name sid env name sid]]
    unfolding hoare_def wp_def by (fastforce split: prod.splits sum.splits)
  show ?thesis
    unfolding finish_settlement_def assms(1)
    by (rule hoare_seq[OF stop], rule hoare_weaken[OF hoare_keeps[of "stop_logged name sid"]])
      (auto intro!: keeps_intros keeps_finish_logged logged_recorded)
qed

lemma hoare_settle_stops:
  assumes sid: "sid \<noteq> ''''"
  shows "hoare (\<lambda>s. hs_lock s = Stored l \<and> recorded_or_stopped c (sr_session_name q) sid s) (settle_authorized env q l r)
    (\<lambda>_. recorded_or_stopped c (sr_session_name q) sid) (recorded_or_stopped c (sr_session_name q) sid)"
proof (cases "lk_claim l = c \<and> lk_session_id l = sid")
  case True
  have "hoare (recorded_or_stopped c (sr_session_name q) sid) (settle_authorized env q l r)
    (\<lambda>_. recorded_or_stopped c (sr_session_name q) sid) (recorded_or_stopped c (sr_session_name q) sid)"
    using True sid unfolding settle_authorized_def adopt_receipt_session_def adopt_unpublished_session_def Let_def
    by (auto intro!: hoare_intros hoare_finish_stops)
  then show ?thesis by (rule hoare_pre) simp
next
  case False
  show ?thesis
    by (rule hoare_weaken[OF hoare_keeps[OF keeps_logged_settle]])
      (use False in \<open>auto simp: recorded_or_stopped_def\<close>)
qed

lemma hoare_authorize_lock:
  "stable P \<Longrightarrow> hoare P (authorize_claim env c) (\<lambda>l s. hs_lock s = Stored l \<and> P s) P"
  by (rule hoareI, rule wp_mono[OF wp_authorize[where P = P]]) auto

lemma keeps_settle_stops:
  assumes "sid \<noteq> ''''"
  shows "keeps (recorded_or_stopped c (sr_session_name q) sid) (host_settle env q)"
proof -
  let ?P = "recorded_or_stopped c (sr_session_name q) sid"
  have recover: "keeps ?P (settle_or_recover env q r)" for r
    unfolding settle_or_recover_def
    by (rule keeps_hoare, rule hoare_attempt_active[OF hoare_authorize_lock], simp, simp add: hoare_settle_stops[OF assms],
        rule hoare_keeps, auto intro!: keeps_intros keeps_recorded_recover)
  have stored: "keeps ?P (settle_stored env q r)" for r
    unfolding settle_stored_def by (intro keeps_intros keeps_recorded_recover recover)
  show ?thesis
    unfolding host_settle_def settle_locked_def Let_def by (intro keeps_intros stable_stop stored)
qed

section \<open>What an acquisition that succeeds has done\<close>

text \<open>The lock is the claim's, it was free or already the claim's with no session, and the run has
  a receipt of the claim.\<close>

definition acquired :: "lock_record slot \<Rightarrow> lock_claim \<Rightarrow> host_state \<Rightarrow> bool" where
  "acquired before c t \<longleftrightarrow>
     (\<exists>l. hs_lock t = Stored l \<and> lk_claim l = c \<and> lk_session_id l = '''' \<and> (before = Absent \<or> before = Stored l))
     \<and> (\<exists>r. hs_receipts t (lc_run_id c) = Stored r \<and> rr_claim r = c)"

lemma wp_write_acquired:
  assumes "hs_lock s = Stored l" "lk_claim l = c" "lk_session_id l = ''''" "before = Absent \<or> before = Stored l" "rr_claim r = c"
  shows "wp (write_receipt env r) (\<lambda>_. acquired before c) (\<lambda>_ _. True) s"
  unfolding write_receipt_def using assms by (intro wp_save) (auto simp: acquired_def put_simps)

lemma wp_take_acquires: "wp (take_lock env c) (\<lambda>_. acquired (hs_lock s) c) (\<lambda>_ _. True) s"
  unfolding take_lock_def Let_def read_lock_def
proof (rule wp_andthenI, rule wp_create_lock, goal_cases)
  case 1 show ?case by (simp add: wp_fail)
next
  case 2 show ?case unfolding exclusive.case
    by (intro wp_intros wp_write_acquired) (auto simp: acquired_def fresh_receipt_def)
next
  case (3 x) show ?case by (simp add: wp_fail)
next
  case 4 show ?case unfolding exclusive.case
    by (rule wp_write_acquired[where l = "\<lparr>lk_schema_version = 1, lk_claim = c, lk_session_id = ''''\<rparr>"])
      (simp_all add: 4 fresh_receipt_def, simp add: put_simps)
qed

lemma acquired_lock: "hs_lock t = hs_lock s \<Longrightarrow> wp m (\<lambda>_. acquired (hs_lock t) c) E t \<Longrightarrow> wp m (\<lambda>_. acquired (hs_lock s) c) E t"
  by simp

lemma wp_run_acquires: "wp (acquire_run env c) (\<lambda>_. acquired (hs_lock s) c) (\<lambda>_ _. True) s"
proof -
  have take: "wp (take_lock env c) (\<lambda>_. acquired (hs_lock s) c) (\<lambda>_ _. True) (step_tick (step_tick s))"
    using wp_take_acquires[of env c "step_tick (step_tick s)"] by simp
  show ?thesis
    unfolding acquire_run_def replay_acquire_def read_lock_def
    by (intro wp_intros take) (auto simp: acquired_def)
qed

lemma hoare_keeps_weak: "keeps P m \<Longrightarrow> hoare P m (\<lambda>_. P) (\<lambda>_. True)"
  by (rule hoare_weaken[OF hoare_keeps]) simp_all

lemma hoare_acquires: "hoare (\<lambda>s. hs_lock s = f) (host_acquire env v c) (\<lambda>_. acquired f c) (\<lambda>_. True)"
proof -
  have keep: "stable (\<lambda>s. hs_lock s = f)" by (simp add: stable_def)
  have run: "hoare (\<lambda>s. hs_lock s = f) (acquire_run env c) (\<lambda>_. acquired f c) (\<lambda>_. True)"
    using wp_run_acquires by (auto simp: hoare_def)
  show ?thesis
    unfolding host_acquire_def acquire_locked_def
    by (rule hoare_then_check, rule hoare_then_check, rule hoare_bind[OF hoare_keeps_weak[OF keeps_reads(4)[OF keep]]],
        rule hoare_then_check, intro hoare_seq[OF hoare_keeps_weak] keeps_reads(3,8)[OF keep] keeps_pure_reads(3)[OF keep] run)
      simp_all
qed

section \<open>A launch in progress is waited for\<close>

text \<open>The launch lock is held and the start of the session has not been published.\<close>

definition launching :: "lock_claim \<Rightarrow> host_state \<Rightarrow> bool" where
  "launching c s \<longleftrightarrow> hs_launch s
     \<and> (\<exists>l. hs_lock s = Stored l \<and> lk_schema_version l = 1 \<and> lk_claim l = c \<and> lk_session_id l = '''')
     \<and> (\<exists>r. hs_receipts s (lc_run_id c) = Stored r \<and> rr_claim r = c \<and> rr_state r = StateStarting
          \<and> rr_session_id r = '''' \<and> \<not> cleanup_known (rr_cleanup r))"

text \<open>Without faults, each read sees the file.\<close>

lemma wp_quiet:
  assumes "\<And>n. he_fault env n = NoFault"
  shows "wp (read_json env f) Q E s = (case f (step_tick s) of Absent \<Rightarrow> E NotExist (step_tick s)
      | Damaged \<Rightarrow> E (Msg ''invalid JSON'') (step_tick s) | Stored v \<Rightarrow> Q v (step_tick s))"
    "wp (lstat env p) Q1 E s = Q1 (p (step_tick s)) (step_tick s)"
    "wp (io env m) Q2 E s = wp m Q2 E (step_tick s)"
    "wp (acquire_operation env) Q3 E s = Q3 () (step_tick s)"
  using assms by (simp_all add: read_json_def lstat_def wp_io acquire_operation_def wp_look wp_ret)
    (simp add: wp_def read_result_def split: slot.split)

lemma launching_simps:
  assumes "launching c s"
  obtains l r where "hs_launch s" "hs_lock s = Stored l" "lk_schema_version l = 1" "lk_claim l = c" "lk_session_id l = ''''"
    "hs_receipts s (lc_run_id c) = Stored r" "rr_claim r = c" "rr_state r = StateStarting" "rr_session_id r = ''''"
    "\<not> cleanup_known (rr_cleanup r)"
  using assms by (auto simp: launching_def)

lemma wp_settle_waits:
  assumes quiet: "\<And>n. he_fault env n = NoFault" and none: "\<And>n name. he_daemon_recover env n name = Inr None"
    and "launching (rr_claim (sr_receipt q)) s"
  shows "wp (host_settle env q) (\<lambda>_ _. False) (\<lambda>_ t. hs_lock t = hs_lock s \<and> hs_roots t = hs_roots s) s"
proof -
  obtain l r where s: "hs_launch s" "hs_lock s = Stored l" "lk_schema_version l = 1" "lk_claim l = rr_claim (sr_receipt q)" "lk_session_id l = ''''"
    "hs_receipts s (lc_run_id (rr_claim (sr_receipt q))) = Stored r" "rr_claim r = rr_claim (sr_receipt q)"
    "rr_state r = StateStarting" "rr_session_id r = ''''" "\<not> cleanup_known (rr_cleanup r)"
    using assms(3) by (elim launching_simps) blast
  note steps = then_do_def wp_simps wp_quiet[OF quiet] s none
  have adopt: "wp (adopt_unpublished_session env n l r') Q (\<lambda>_ t. hs_lock t = Stored l \<and> hs_roots t = hs_roots s) t"
    if "hs_lock t = Stored l" "hs_roots t = hs_roots s" "hs_launch t" "rr_session_id r' = ''''" "rr_state r' = StateStarting"
    for n r' t Q
    using that unfolding adopt_unpublished_session_def recover_unpublished_def probe_launch_def
    by (simp add: steps)
  have authorized: "wp (settle_authorized env q l r) (\<lambda>_ _. False) (\<lambda>_ t. hs_lock t = Stored l \<and> hs_roots t = hs_roots s) t"
    if "hs_lock t = Stored l" "hs_roots t = hs_roots s" "hs_launch t" for t
    using that unfolding settle_authorized_def adopt_receipt_session_def Let_def
    by (simp add: steps adopt)
  have whole: "wp (settle_locked env q) (\<lambda>_ _. False) (\<lambda>_ t. hs_lock t = Stored l \<and> hs_roots t = hs_roots s) (step_tick s)"
    if valid: "claim_validate (rr_claim (sr_receipt q)) = None"
  proof -
    have "run_id_ok (lc_run_id (rr_claim (sr_receipt q)))" using valid by (simp add: claim_validate_def)
    then show ?thesis
      unfolding settle_locked_def settle_stored_def settle_or_recover_def host_status_def authorize_claim_def read_lock_def Let_def
      by (simp add: steps authorized valid)
  qed
  show ?thesis
    unfolding host_settle_def Let_def
    by (simp add: then_do_def wp_simps wp_quiet[OF quiet] s(2) whole split: option.split)
qed

section \<open>A concrete host\<close>

text \<open>A host without faults on which one run is acquired, staged and settled.\<close>

definition sample_claim :: lock_claim where
  "sample_claim = \<lparr>lc_schema_version = 1, lc_run_id = ''bbx_aaaaaaaaaaaaaaaa'', lc_request_id = ''req_aaaaaaaaaaaaaaaa'',
     lc_controller_id = ''controller'', lc_deadline = 10, lc_request_hash = replicate 64 CHR ''0'', lc_task_name = ''task''\<rparr>"

definition quiet_host :: host_env where
  "quiet_host = \<lparr>he_platform = ''windows'', he_up = id, he_sha = (\<lambda>_. replicate 64 CHR ''0''), he_now = (\<lambda>_. 5),
     he_fault = (\<lambda>_. NoFault), he_tasks = True, he_prepare = (\<lambda>_ _. None), he_start_task = (\<lambda>_ _. None),
     he_daemon = True, he_daemon_start = (\<lambda>_ _. (None, sample_session)), he_daemon_recover = (\<lambda>_ _. Inr None),
     he_daemon_ready = (\<lambda>_ _. None), he_daemon_call = (\<lambda>_ _. Inr JNull), he_daemon_stop = (\<lambda>_ _ _. None),
     he_interfere = (\<lambda>_ s. s), he_context = (\<lambda>_. None), he_root = ''root'', he_parse = (\<lambda>_. None),
     he_capture_file = (\<lambda>_ _. None), he_png = (\<lambda>_. None), he_desktop = True, he_desktop_capture = (\<lambda>_. None),
     he_ui_actor = True, he_perform = (\<lambda>_ _ _. Inl IoFault)\<rparr>"

lemma quiet_evaluate [evaluate]:
  "he_platform quiet_host = ''windows''" "he_up quiet_host = id" "he_sha quiet_host x = replicate 64 CHR ''0''"
  "he_now quiet_host n = 5" "he_fault quiet_host n = NoFault" "he_daemon quiet_host"
  "he_daemon_recover quiet_host n name = Inr None" "he_daemon_stop quiet_host n name session = None"
  by (simp_all add: quiet_host_def)

lemmas empty_evaluate [evaluate] = empty_host_def

text \<open>The claim stays folded in closed runs; these are the facts they need.\<close>

lemma sample_claim_facts [evaluate]:
  "claim_validate sample_claim = None" "lc_deadline sample_claim = 10" "run_id_ok (lc_run_id sample_claim)"
  by (simp_all add: sample_claim_def evaluate)

lemmas folded = claim_validate_def run_id_ok_def session_name_for_run_def


definition sample_file :: stage_file where
  "sample_file = \<lparr>sf_destination = ''main.py'', sf_size = 1, sf_sha256 = replicate 64 CHR ''0'', sf_contents = ''x''\<rparr>"

definition sample_settlement :: settle_request where
  "sample_settlement = \<lparr>sr_schema_version = 1, sr_receipt = fresh_receipt sample_claim StateAccepted,
     sr_session_broker_executable = win_path [''broker.exe''],
     sr_session_name = session_name_for_run (he_sha quiet_host) (lc_run_id sample_claim), sr_linux = None\<rparr>"

text \<open>The states after each operation; the staging is interrupted by a crash of the disk.\<close>

definition acquired_host :: host_state where
  "acquired_host = perform quiet_host (OpAcquire 1 sample_claim) empty_host"

definition failing_host :: host_env where
  "failing_host = quiet_host\<lparr>he_fault := (\<lambda>n. if 13 \<le> n then FailBefore else NoFault)\<rparr>"

definition interrupted_host :: host_state where
  "interrupted_host = perform failing_host (OpStage 1 sample_claim [sample_file]) acquired_host"

definition settled_host_state :: host_state where
  "settled_host_state = perform quiet_host (OpSettle sample_settlement) acquired_host"

lemma failing_evaluate [evaluate]:
  "he_fault failing_host n = (if 13 \<le> n then FailBefore else NoFault)" "he_up failing_host = id"
  "he_sha failing_host x = replicate 64 CHR ''0''"
  by (simp_all add: failing_host_def evaluate)

lemma sample_reachable: "reachable acquired_host" "reachable interrupted_host" "reachable settled_host_state"
proof -
  show a: "reachable acquired_host" unfolding acquired_host_def by (intro later[OF initial] short operation)
  show "reachable interrupted_host" unfolding interrupted_host_def by (intro later[OF a] short operation)
  show "reachable settled_host_state" unfolding settled_host_state_def by (intro later[OF a] short operation)
qed

abbreviation sample_lock :: lock_record where
  "sample_lock \<equiv> \<lparr>lk_schema_version = 1, lk_claim = sample_claim, lk_session_id = ''''\<rparr>"

lemma acquired_value:
  "host_acquire quiet_host 1 sample_claim empty_host = (Inr (), acquired_host)"
  "acquired_host = empty_host\<lparr>hs_lock := Stored sample_lock,
     hs_receipts := (\<lambda>_. Absent)(lc_run_id sample_claim := Stored (fresh_receipt sample_claim StateAccepted)), hs_tick := 9\<rparr>"
  by (simp_all add: acquired_host_def evaluate del: folded)

lemma interrupted_value: "hs_staging interrupted_host (lc_run_id sample_claim) = Root empty_root" 
  by (simp_all add: interrupted_host_def acquired_value(2) sample_file_def evaluate del: folded)

lemma sample_broker: "validate_windows_path (win_path [''broker.exe''])"
  by (simp add: evaluate win_path_def)

lemma settled_value:
  "host_settle quiet_host sample_settlement acquired_host = (Inr full_cleanup, settled_host_state)"
  "hs_receipts settled_host_state (lc_run_id sample_claim) = Stored ((fresh_receipt sample_claim StateFailed)
     \<lparr>rr_cleanup := full_cleanup, rr_error := ''Run stopped before completion''\<rparr>)"
  by (simp_all add: settled_host_state_def acquired_value(2) sample_settlement_def sample_broker evaluate 
    del: folded validate_windows_path_def)

section \<open>Guarantees\<close>

text \<open>C1: whatever sequence of operations and executions has run, with whatever faults, a run root or
  a staging directory exists only while the Host Lock is held for its run.\<close>

theorem files_only_under_lock:
  assumes "reachable s" "hs_roots s run \<noteq> NoRoot \<or> hs_staging s run \<noteq> NoRoot"
  shows "\<exists>l. hs_lock s = Stored l \<and> lc_run_id (lk_claim l) = run"
  using reachable_inv[OF assms(1)] assms(2) by (auto simp: host_inv_defs)

theorem files_only_under_lock_witness:
  "\<exists>l. hs_lock interrupted_host = Stored l \<and> lc_run_id (lk_claim l) = lc_run_id sample_claim"
  by (rule files_only_under_lock[OF sample_reachable(2)]) (simp add: interrupted_value)

text \<open>C2: a receipt that reports a known cleanup tells the truth about the lock: the run is in a
  terminal state and its claim does not hold the Host Lock, in every reachable state.\<close>

theorem known_cleanup_is_true:
  assumes "reachable s" "hs_receipts s run = Stored r" "cleanup_known (rr_cleanup r)"
  shows "lc_run_id (rr_claim r) = run \<and> terminal (rr_state r)
    \<and> \<not> (\<exists>l. hs_lock s = Stored l \<and> lk_claim l = rr_claim r)"
  using reachable_inv[OF assms(1)] assms(2,3) by (auto simp: host_inv_defs)

theorem known_cleanup_is_true_witness:
  "\<not> (\<exists>l. hs_lock settled_host_state = Stored l \<and> lk_claim l = sample_claim)"
  using known_cleanup_is_true[OF sample_reachable(3) settled_value(2)] by (simp add: fresh_receipt_def)

text \<open>C3: a settlement that returns has cleaned up: the cleanup it reports is known, the claim no
  longer holds the lock, the run root is gone, and the stored receipt is terminal and says so.\<close>

theorem settlement_is_complete:
  assumes "reachable s" "host_settle env q s = (Inr k, t)"
  shows "cleanup_known k \<and> \<not> (\<exists>l. hs_lock t = Stored l \<and> lk_claim l = rr_claim (sr_receipt q))
    \<and> hs_roots t (lc_run_id (rr_claim (sr_receipt q))) = NoRoot
    \<and> (\<exists>r. hs_receipts t (lc_run_id (rr_claim (sr_receipt q))) = Stored r \<and> rr_claim r = rr_claim (sr_receipt q)
          \<and> terminal (rr_state r) \<and> cleanup_known (rr_cleanup r))"
  using wp_result[OF hoareD[OF hoare_settle reachable_inv[OF assms(1)]] assms(2)]
  by (auto simp: settled_def locked_def)

theorem settlement_is_complete_witness:
  "cleanup_known full_cleanup \<and> hs_roots settled_host_state (lc_run_id sample_claim) = NoRoot"
  using settlement_is_complete[OF sample_reachable(1) settled_value(1)]
  by (simp add: sample_settlement_def fresh_receipt_def)

text \<open>C6: an acquisition that succeeds holds the lock for its claim with no session, it did not take
  the lock from anyone, and the run has a receipt of the claim.\<close>

theorem acquire_takes_lock:
  assumes "host_acquire env v c s = (Inr (), t)"
  shows "(\<exists>l. hs_lock t = Stored l \<and> lk_claim l = c \<and> lk_session_id l = '''' \<and> (hs_lock s = Absent \<or> hs_lock s = Stored l))
     \<and> (\<exists>r. hs_receipts t (lc_run_id c) = Stored r \<and> rr_claim r = c)"
  using wp_result[OF hoareD[OF hoare_acquires] assms] by (simp add: acquired_def)

theorem acquire_takes_lock_witness:
  "\<exists>l. hs_lock acquired_host = Stored l \<and> lk_claim l = sample_claim \<and> lk_session_id l = ''''"
  using acquire_takes_lock[OF acquired_value(1)] by blast

text \<open>C5: a request whose claim does not hold the lock changes nothing that the holder depends on:
  not the lock, nor any run root, staging directory, pending request, setup claim, launch or
  session. The only receipt it can change is one that already is the requesting claim's own, so
  the holder's receipt stays as it is even when the two claims name the same run. It holds for
  every request, under all faults.\<close>

theorem foreign_request_changes_nothing:
  assumes "hs_lock s = Stored l" "claim_of op = Some c" "lk_claim l \<noteq> c"
  shows "hs_lock (perform env op s) = hs_lock s \<and> hs_roots (perform env op s) = hs_roots s
    \<and> hs_staging (perform env op s) = hs_staging s \<and> hs_pending (perform env op s) = hs_pending s
    \<and> hs_setup (perform env op s) = hs_setup s \<and> hs_launch (perform env op s) = hs_launch s
    \<and> hs_log (perform env op s) = hs_log s
    \<and> (\<forall>run. hs_receipts (perform env op s) run = hs_receipts s run
         \<or> run = lc_run_id c \<and> (\<exists>r. hs_receipts s run = Stored r \<and> rr_claim r = c))"
  using foreign_operation[OF assms] by (simp add: same_for_holder_def has_receipt_def)

text \<open>The other claim names the same run, and settles it: the holder's receipt stays.\<close>

definition other_claim :: lock_claim where
  "other_claim = sample_claim\<lparr>lc_task_name := ''other''\<rparr>"

definition other_settlement :: settle_request where
  "other_settlement = sample_settlement\<lparr>sr_receipt := fresh_receipt other_claim StateAccepted\<rparr>"

theorem foreign_request_changes_nothing_witness:
  "lc_run_id other_claim = lc_run_id sample_claim
   \<and> hs_lock (perform quiet_host (OpSettle other_settlement) acquired_host) = hs_lock acquired_host
   \<and> hs_receipts (perform quiet_host (OpSettle other_settlement) acquired_host) (lc_run_id sample_claim)
     = hs_receipts acquired_host (lc_run_id sample_claim)"
proof -
  have other: "lc_run_id other_claim = lc_run_id sample_claim" "sample_claim \<noteq> other_claim"
    "claim_of (OpSettle other_settlement) = Some other_claim"
    by (simp_all add: other_claim_def sample_claim_def other_settlement_def fresh_receipt_def)
  show ?thesis
    using foreign_request_changes_nothing[of acquired_host sample_lock "OpSettle other_settlement" other_claim quiet_host] other
    by (auto simp: acquired_value(2) empty_host_def fresh_receipt_def dest!: spec[of _ "lc_run_id sample_claim"])
qed

text \<open>C4: settlement stops the session that the lock records before it gives the lock up: after it,
  whether it has returned or failed, the lock still records the session or the stop is in the log.\<close>

theorem session_stopped_before_release:
  assumes "hs_lock s = Stored l" "lk_session_id l \<noteq> ''''"
  shows "(\<exists>l'. hs_lock (snd (host_settle env q s)) = Stored l' \<and> lk_claim l' = lk_claim l \<and> lk_session_id l' = lk_session_id l)
    \<or> SessionStopped (sr_session_name q) (lk_session_id l) \<in> set (hs_log (snd (host_settle env q s)))"
  using keepsD[OF keeps_settle_stops[OF assms(2), of "lk_claim l" q env], of s] assms(1)
  by (auto simp: recorded_or_stopped_def stop_logged_def)

definition session_host :: host_state where
  "session_host = acquired_host\<lparr>hs_lock := Stored (sample_lock\<lparr>lk_session_id := sample_session\<rparr>)\<rparr>"

theorem session_stopped_before_release_witness:
  "(\<exists>l'. hs_lock (snd (host_settle quiet_host sample_settlement session_host)) = Stored l' \<and> lk_session_id l' = sample_session)
    \<or> SessionStopped (sr_session_name sample_settlement) sample_session
        \<in> set (hs_log (snd (host_settle quiet_host sample_settlement session_host)))"
  using session_stopped_before_release[of session_host "sample_lock\<lparr>lk_session_id := sample_session\<rparr>" quiet_host sample_settlement]
  by (auto simp: session_host_def sample_session_def)


definition launching_host :: host_state where
  "launching_host = acquired_host\<lparr>hs_launch := True,
     hs_receipts := (\<lambda>_. Absent)(lc_run_id sample_claim := Stored (fresh_receipt sample_claim StateStarting))\<rparr>"

lemma launching_sample: "launching (rr_claim (sr_receipt sample_settlement)) launching_host"
  by (simp add: launching_def launching_host_def acquired_value(2) sample_settlement_def fresh_receipt_def zero_receipt_def
      no_cleanup_def cleanup_known_def)


text \<open>The tenth effect of the settlement is the first read of the receipt.\<close>

definition unreadable_host :: host_env where
  "unreadable_host = quiet_host\<lparr>he_fault := (\<lambda>n. if n = 10 then FailBefore else NoFault)\<rparr>"

lemma unreadable_evaluate [evaluate]:
  "he_fault unreadable_host n = (if n = 10 then FailBefore else NoFault)" "he_platform unreadable_host = ''windows''"
  "he_sha unreadable_host = he_sha quiet_host" "he_daemon unreadable_host" "he_daemon_recover unreadable_host n name = Inr None"
  by (simp_all add: unreadable_host_def evaluate)

text \<open>Why the property above excludes faults: when one read of the receipt
  fails, settlement takes the run for merely accepted, does not probe the launch lock, and
  releases the Host Lock while the launch is in progress.\<close>

lemma unreadable_receipt_outruns_launch:
  "fst (host_settle unreadable_host sample_settlement launching_host) = Inr full_cleanup
   \<and> hs_lock (snd (host_settle unreadable_host sample_settlement launching_host)) = Absent
   \<and> hs_launch (snd (host_settle unreadable_host sample_settlement launching_host))"
  by (simp add: launching_host_def acquired_value(2) sample_settlement_def sample_broker evaluate del: folded validate_windows_path_def)

end
