(* ===== verification/PrivateFile.thy ===== *)
theory PrivateFile
  imports GoStrings "HOL-Library.AList"
begin

text \<open>
  \<open>internal/privatefile\<close> (\<open>file.go\<close>, \<open>file_posix.go\<close>): the controller's private storage. A path is
  the list of its components below \<open>/\<close>. The file system has two layers: \<open>dk_now\<close> is what system
  calls see, \<open>dk_kept\<close> is what is known to be on stable storage, directory entry by directory
  entry: \<open>fsync\<close> of a directory copies the entries of that directory, \<open>fsync\<close> of a file marks its
  contents as flushed. A crash may fall back to \<open>dk_kept\<close>.

  Every system call consumes one tick. Before it, other processes act on the visible layer
  (\<open>de_others\<close>); then the environment lets it succeed or fail (\<open>de_fault\<close>). \<open>de_temp\<close> are the
  names \<open>os.CreateTemp\<close> settles on and \<open>de_torn\<close> how much of a failed write is in the file. A file that
  is open is read at the time it is opened.
\<close>

type_synonym path = "string list"

text \<open>A directory or a file is private (owner only, of the current user) or not; a symbolic link
  to a directory can be an ancestor of the storage.\<close>

datatype entry = EDir bool | EFile bool string bool | ELink | EOther

record disk =
  dk_now :: "(path \<times> entry) list"
  dk_kept :: "(path \<times> entry) list"
  dk_tick :: nat

record disk_env =
  de_fault :: "nat \<Rightarrow> fault"
  de_others :: "nat \<Rightarrow> (path \<times> entry) list \<Rightarrow> (path \<times> entry) list"
  de_temp :: "nat \<Rightarrow> string"
  de_torn :: "nat \<Rightarrow> nat"

type_synonym 'a dact = "(disk, 'a) act"

definition entry_at :: "disk \<Rightarrow> path \<Rightarrow> entry option" where
  "entry_at s p = map_of (dk_now s) p"

definition kept_at :: "disk \<Rightarrow> path \<Rightarrow> entry option" where
  "kept_at s p = map_of (dk_kept s) p"

definition place :: "path \<Rightarrow> entry \<Rightarrow> disk \<Rightarrow> disk" where
  "place p e s = s\<lparr>dk_now := AList.update p e (dk_now s)\<rparr>"

definition erase :: "path \<Rightarrow> disk \<Rightarrow> disk" where
  "erase p s = s\<lparr>dk_now := AList.delete p (dk_now s)\<rparr>"

definition is_directory :: "disk \<Rightarrow> path \<Rightarrow> bool" where
  "is_directory s p \<longleftrightarrow> p = [] \<or> (case entry_at s p of Some (EDir b) \<Rightarrow> True | Some ELink \<Rightarrow> True | _ \<Rightarrow> False)"

section \<open>System calls\<close>

definition begin_call :: "disk_env \<Rightarrow> disk \<Rightarrow> disk" where
  "begin_call env s = s\<lparr>dk_now := de_others env (dk_tick s) (dk_now s), dk_tick := Suc (dk_tick s)\<rparr>"

definition sys :: "disk_env \<Rightarrow> 'a dact \<Rightarrow> 'a dact" where
  "sys env m s =
    (let t = begin_call env s in
     case de_fault env (dk_tick s) of
       NoFault \<Rightarrow> m t
     | FailAfter \<Rightarrow> (Inl IoFault, snd (m t))
     | _ \<Rightarrow> (Inl IoFault, t))"

definition stat_entry :: "disk_env \<Rightarrow> path \<Rightarrow> entry dact" where
  "stat_entry env p = sys env (\<lambda>s. (case entry_at s p of None \<Rightarrow> Inl NotExist | Some e \<Rightarrow> Inr e, s))"

definition mkdir :: "disk_env \<Rightarrow> path \<Rightarrow> unit dact" where
  "mkdir env p = sys env (\<lambda>s.
    if entry_at s p \<noteq> None \<or> p = [] then (Inl Exist, s)
    else if \<not> is_directory s (butlast p) then (Inl NotExist, s)
    else (Inr (), place p (EDir True) s))"

text \<open>\<open>os.MkdirAll\<close>: it walks down and creates what is missing; links to directories are followed.\<close>

definition mkdir_if_missing :: "disk_env \<Rightarrow> path \<Rightarrow> unit dact" where
  "mkdir_if_missing env p = sys env (\<lambda>s.
    if is_directory s p then (Inr (), s)
    else if entry_at s p \<noteq> None then (Inl (Msg ''not a directory''), s)
    else if \<not> is_directory s (butlast p) then (Inl NotExist, s)
    else (Inr (), place p (EDir True) s))"

definition mkdir_all_private :: "disk_env \<Rightarrow> path \<Rightarrow> unit dact" where
  "mkdir_all_private env p = each (\<lambda>n. mkdir_if_missing env (take n p)) [1..<Suc (length p)]"

definition in_directory :: "path \<Rightarrow> path \<Rightarrow> bool" where
  "in_directory d p \<longleftrightarrow> p \<noteq> [] \<and> butlast p = d"

definition keep_entries :: "path \<Rightarrow> disk \<Rightarrow> disk" where
  "keep_entries d s = s\<lparr>dk_kept := filter (\<lambda>pe. in_directory d (fst pe)) (dk_now s)
     @ filter (\<lambda>pe. \<not> in_directory d (fst pe)) (dk_kept s)\<rparr>"

definition sync_directory :: "disk_env \<Rightarrow> path \<Rightarrow> unit dact" where
  "sync_directory env d = sys env (\<lambda>s.
    if is_directory s d
    then (Inr (), keep_entries d s)
    else (Inl NotExist, s))"

text \<open>The temporary file of \<open>Publish\<close>: creation, write, \<open>Sync\<close> and \<open>Close\<close>.\<close>

definition temp_name :: "disk_env \<Rightarrow> nat \<Rightarrow> string" where
  "temp_name env n = ''.pending-'' @ de_temp env n"

definition create_file :: "disk_env \<Rightarrow> path \<Rightarrow> path dact" where
  "create_file env p = sys env (\<lambda>s.
    if entry_at s p \<noteq> None then (Inl Exist, s)
    else if \<not> is_directory s (butlast p) then (Inl NotExist, s)
    else (Inr p, place p (EFile True '''' False) s))"

definition create_temp :: "disk_env \<Rightarrow> path \<Rightarrow> path dact" where
  "create_temp env d s = create_file env (d @ [temp_name env (dk_tick s)]) s"

definition write_temp :: "disk_env \<Rightarrow> path \<Rightarrow> string \<Rightarrow> unit dact" where
  "write_temp env p contents s =
    (let t = begin_call env s;
         put = (\<lambda>c. if entry_at t p = None then t else place p (EFile True c False) t) in
     case de_fault env (dk_tick s) of
       NoFault \<Rightarrow> (Inr (), put contents)
     | FailBefore \<Rightarrow> (Inl IoFault, t)
     | FailAfter \<Rightarrow> (Inl IoFault, put contents)
     | FailTorn \<Rightarrow> (Inl IoFault, put (take (de_torn env (dk_tick s)) contents)))"

definition flush_file :: "disk_env \<Rightarrow> path \<Rightarrow> unit dact" where
  "flush_file env p = sys env (\<lambda>s.
    (Inr (), case entry_at s p of Some (EFile b c f) \<Rightarrow> place p (EFile b c True) s | _ \<Rightarrow> s))"

definition close_file :: "disk_env \<Rightarrow> unit dact" where
  "close_file env = sys env (ret ())"

text \<open>\<open>publish\<close> of \<open>file_posix.go\<close>: a rename replaces, a hard link does not. The temporary file
  keeps its name after the link.\<close>

definition publish_at :: "disk_env \<Rightarrow> path \<Rightarrow> path \<Rightarrow> bool \<Rightarrow> unit dact" where
  "publish_at env source destination replace = sys env (\<lambda>s.
    case entry_at s source of
      None \<Rightarrow> (Inl NotExist, s)
    | Some e \<Rightarrow>
        if replace then
          (case entry_at s destination of
             Some (EDir b) \<Rightarrow> (Inl Exist, s)
           | _ \<Rightarrow> (Inr (), place destination e (erase source s)))
        else if entry_at s destination \<noteq> None then (Inl Exist, s)
        else (Inr (), place destination e s))"

text \<open>\<open>os.Remove\<close>: a directory must be empty.\<close>

definition remove_entry :: "disk_env \<Rightarrow> path \<Rightarrow> unit dact" where
  "remove_entry env p = sys env (\<lambda>s.
    case entry_at s p of
      None \<Rightarrow> (Inl NotExist, s)
    | Some (EDir b) \<Rightarrow>
        if list_ex (\<lambda>(q, e). q \<noteq> [] \<and> butlast q = p) (dk_now s) then (Inl (Msg ''directory not empty''), s)
        else (Inr (), erase p s)
    | Some e \<Rightarrow> (Inr (), erase p s))"

section \<open>file.go\<close>

definition parts :: "string \<Rightarrow> path" where
  "parts v = filter (\<lambda>c. c \<noteq> '''') (split_on CHR ''/'' v)"

text \<open>\<open>filepath.Join(current, component)\<close> for one component.\<close>

definition join_component :: "path \<Rightarrow> string \<Rightarrow> path" where
  "join_component p c =
    (if c = '''' \<or> c = ''.'' \<or> c = ''/'' then p else if c = ''..'' then butlast p else p @ [c])"

definition check_directory :: "disk_env \<Rightarrow> path \<Rightarrow> unit dact" where
  "check_directory env p =
    (if p = [] then fail (Msg ''private storage requires private permissions'')
     else andthen (stat_entry env p) (\<lambda>e.
       case e of
         EDir b \<Rightarrow> refuse (check (\<not> b) ''private storage requires private permissions'')
       | _ \<Rightarrow> fail (Msg ''private storage directory is not a regular directory'')))"

definition create_directory :: "disk_env \<Rightarrow> path \<Rightarrow> unit dact" where
  "create_directory env p =
    andthen (attempt (mkdir env p)) (\<lambda>r.
      case r of Inl e \<Rightarrow> if err_is e Exist then skip else fail e | Inr u \<Rightarrow> skip)"

fun enter_directories :: "disk_env \<Rightarrow> bool \<Rightarrow> path \<Rightarrow> string list \<Rightarrow> path dact" where
  "enter_directories env create current [] = ret current"
| "enter_directories env create current (c # cs) =
    (let d = join_component current c in
     then_do (if create then create_directory env d else skip)
     (then_do (check_directory env d) (enter_directories env create d cs)))"

function sync_parents :: "disk_env \<Rightarrow> path \<Rightarrow> unit dact" where
  "sync_parents env p =
    (if p = [] then skip else then_do (sync_directory env (butlast p)) (sync_parents env (butlast p)))"
  by pat_completeness auto

termination
  by (relation "measure (\<lambda>(env, p). length p)") auto

declare sync_parents.simps [simp del]

definition private_directory :: "disk_env \<Rightarrow> string \<Rightarrow> string \<Rightarrow> bool \<Rightarrow> path dact" where
  "private_directory env root relative create =
    then_do (refuse (check (\<not> has_prefix root ''/'' \<or> path_clean root \<noteq> root)
        ''private storage root must be an absolute clean path''))
    (then_do (refuse (check (relative \<noteq> '''' \<and> (has_prefix relative ''/'' \<or> path_clean relative \<noteq> relative
          \<or> relative = ''..'' \<or> has_prefix relative ''../'')) ''invalid private storage path''))
    (then_do (if create then mkdir_all_private env (parts root) else skip)
    (then_do (check_directory env (parts root))
    (andthen (if relative = '''' then ret (parts root)
              else enter_directories env create (parts root) (split_on CHR ''/'' relative)) (\<lambda>current.
     then_do (if create then sync_parents env current else skip) (ret current))))))"

definition unsafe_read :: "bool \<Rightarrow> entry \<Rightarrow> err option" where
  "unsafe_read private e =
    (case e of
       EFile b c f \<Rightarrow> check (private \<and> \<not> b) ''private storage requires private permissions''
     | _ \<Rightarrow> Some (Msg ''file must be bounded and regular''))"

text \<open>\<open>read\<close>: \<open>Lstat\<close>, then the descriptor that \<open>O_NOFOLLOW\<close> opens, both checked.\<close>

definition read_path :: "disk_env \<Rightarrow> path \<Rightarrow> nat \<Rightarrow> bool \<Rightarrow> string dact" where
  "read_path env p limit private =
    andthen (stat_entry env p) (\<lambda>before.
    then_do (refuse (unsafe_read private before))
    (then_do (refuse (case before of EFile b c f \<Rightarrow> check (limit < length c) ''file must be bounded and regular'' | _ \<Rightarrow> None))
    (andthen (stat_entry env p) (\<lambda>opened.
    then_do (refuse (unsafe_read private opened))
    (case opened of
       EFile b c f \<Rightarrow>
         andthen (sys env (ret c)) (\<lambda>data.
           if limit < length data then fail (Msg ''file exceeds size limit'') else ret data)
     | _ \<Rightarrow> fail (Msg ''opened file is not regular''))))))"

definition private_read :: "disk_env \<Rightarrow> string \<Rightarrow> string \<Rightarrow> nat \<Rightarrow> string dact" where
  "private_read env root relative limit =
    andthen (private_directory env root (path_dir relative) False) (\<lambda>parent.
      read_path env (join_component parent (path_base relative)) limit True)"

text \<open>\<open>filepath.Join(root, relative)\<close>.\<close>

definition joined :: "string \<Rightarrow> string \<Rightarrow> path" where
  "joined root relative = parts (path_clean (root @ CHR ''/'' # relative))"

definition read_durable :: "disk_env \<Rightarrow> string \<Rightarrow> string \<Rightarrow> nat \<Rightarrow> string dact" where
  "read_durable env root relative limit =
    andthen (private_read env root relative limit) (\<lambda>content.
      then_do (sync_parents env (joined root relative)) (ret content))"

definition read_source :: "disk_env \<Rightarrow> path \<Rightarrow> nat \<Rightarrow> string dact" where
  "read_source env p limit = read_path env p limit False"

definition fill_temp :: "disk_env \<Rightarrow> path \<Rightarrow> string \<Rightarrow> unit dact" where
  "fill_temp env p contents =
    then_do (write_temp env p contents) (then_do (flush_file env p) (close_file env))"

definition check_destination :: "disk_env \<Rightarrow> path \<Rightarrow> bool \<Rightarrow> unit dact" where
  "check_destination env destination replace =
    andthen (attempt (stat_entry env destination)) (\<lambda>r.
      case r of
        Inl e \<Rightarrow> if err_is e NotExist then skip else fail e
      | Inr e \<Rightarrow>
          (case e of
             EFile b c f \<Rightarrow>
               then_do (refuse (check (\<not> b) ''private storage requires private permissions''))
                (if replace then skip else fail Exist)
           | _ \<Rightarrow> fail (Msg ''destination is not a regular file'')))"

definition max_record :: nat where "max_record = 64 * 2 ^ 10"

definition private_publish :: "disk_env \<Rightarrow> string \<Rightarrow> string \<Rightarrow> string \<Rightarrow> bool \<Rightarrow> unit dact" where
  "private_publish env root relative contents replace =
    then_do (refuse (check (max_record < length contents) ''private record exceeds size limit''))
    (andthen (private_directory env root (path_dir relative) True) (\<lambda>parent.
     let destination = join_component parent (path_base relative) in
     then_do (check_destination env destination replace)
     (andthen (create_temp env parent) (\<lambda>temporary.
       ensuring
        (then_do (fill_temp env temporary contents)
         (then_do (publish_at env temporary destination replace)
          (sync_directory env parent)))
        (remove_entry env temporary)))))"

definition remove_directory :: "disk_env \<Rightarrow> string \<Rightarrow> string \<Rightarrow> unit dact" where
  "remove_directory env root relative =
    then_do (refuse (check (relative = '''') ''invalid private storage path''))
    (andthen (private_directory env root relative False) (\<lambda>p.
      then_do (remove_entry env p) (sync_directory env (butlast p))))"

definition private_remove :: "disk_env \<Rightarrow> string \<Rightarrow> string \<Rightarrow> nat \<Rightarrow> unit dact" where
  "private_remove env root relative limit =
    andthen (private_read env root relative limit) (\<lambda>_.
      then_do (remove_entry env (joined root relative)) (sync_directory env (butlast (joined root relative))))"

lemmas private_file_evaluate [evaluate] = entry_at_def in_directory_def keep_entries_def place_def erase_def is_directory_def begin_call_def sys_def
  stat_entry_def mkdir_def mkdir_if_missing_def mkdir_all_private_def sync_directory_def temp_name_def create_file_def
  create_temp_def write_temp_def flush_file_def close_file_def publish_at_def remove_entry_def parts_def
  join_component_def check_directory_def create_directory_def private_directory_def path_dir_def path_base_def
  unsafe_read_def read_path_def private_read_def joined_def read_durable_def read_source_def fill_temp_def
  check_destination_def max_record_def private_publish_def remove_directory_def private_remove_def sync_parents.simps

end
