(* ===== verification/SshKey.thy ===== *)
theory SshKey
  imports PrivateFile
begin

text \<open>
  \<open>internal/sshkey\<close>: public keys in the canonical OpenSSH wire form (\<open>key.go\<close>), the credential
  files below the private storage, and the credential that is derived from a retained seed
  (\<open>reserved.go\<close>). Base64 is the strict standard encoding of Go's library. Arguments of the
  model: the hexadecimal SHA-256 \<open>sha\<close>, the Ed25519 key derivation and the PEM encoder.
\<close>

section \<open>Strict base64\<close>

definition b64_char :: "nat \<Rightarrow> char" where
  "b64_char n = (if n < 26 then char_of (65 + n) else if n < 52 then char_of (71 + n)
     else if n < 62 then char_of (n - 4) else if n = 62 then CHR ''+'' else CHR ''/'')"

definition b64_value :: "char \<Rightarrow> nat option" where
  "b64_value c =
    (let k = code c in
     if between 65 90 k then Some (k - 65) else if between 97 122 k then Some (k - 71)
     else if between 48 57 k then Some (k + 4) else if c = CHR ''+'' then Some 62
     else if c = CHR ''/'' then Some 63 else None)"

fun base64_encode :: "string \<Rightarrow> string" where
  "base64_encode (a # b # c # rest) =
    b64_char (code a div 4) # b64_char (code a mod 4 * 16 + code b div 16)
    # b64_char (code b mod 16 * 4 + code c div 64) # b64_char (code c mod 64) # base64_encode rest"
| "base64_encode [a, b] =
    [b64_char (code a div 4), b64_char (code a mod 4 * 16 + code b div 16), b64_char (code b mod 16 * 4), CHR ''='']"
| "base64_encode [a] = [b64_char (code a div 4), b64_char (code a mod 4 * 16), CHR ''='', CHR ''='']"
| "base64_encode [] = []"

text \<open>One group of four; padding is legal in the last group, with zero trailing bits.\<close>

definition b64_group :: "char \<Rightarrow> char \<Rightarrow> char \<Rightarrow> char \<Rightarrow> bool \<Rightarrow> string option" where
  "b64_group w x y z final =
    (case (b64_value w, b64_value x, b64_value y, b64_value z) of
       (Some a, Some b, Some c, Some d) \<Rightarrow>
         Some [char_of (a * 4 + b div 16), char_of (b mod 16 * 16 + c div 4), char_of (c mod 4 * 64 + d)]
     | (Some a, Some b, Some c, None) \<Rightarrow>
         if final \<and> z = CHR ''='' \<and> c mod 4 = 0 then Some [char_of (a * 4 + b div 16), char_of (b mod 16 * 16 + c div 4)] else None
     | (Some a, Some b, None, None) \<Rightarrow>
         if final \<and> y = CHR ''='' \<and> z = CHR ''='' \<and> b mod 16 = 0 then Some [char_of (a * 4 + b div 16)] else None
     | _ \<Rightarrow> None)"

fun base64_groups :: "string \<Rightarrow> string option" where
  "base64_groups [] = Some []"
| "base64_groups (w # x # y # z # rest) =
    (case b64_group w x y z (rest = []) of
       None \<Rightarrow> None
     | Some bs \<Rightarrow> (case base64_groups rest of None \<Rightarrow> None | Some cs \<Rightarrow> Some (bs @ cs)))"
| "base64_groups _ = None"

text \<open>The decoder skips line breaks.\<close>

definition base64_decode :: "string \<Rightarrow> string option" where
  "base64_decode s = base64_groups (filter (\<lambda>c. c \<noteq> char_of (10 :: nat) \<and> c \<noteq> char_of (13 :: nat)) s)"

section \<open>Public keys\<close>

definition key_type :: string where "key_type = ''ssh-ed25519''"

definition big_endian :: "string \<Rightarrow> nat" where
  "big_endian s = foldl (\<lambda>n c. 256 * n + code c) 0 s"

text \<open>\<open>sshString\<close>: the length in four bytes, then the bytes.\<close>

definition ssh_string :: "string \<Rightarrow> string" where
  "ssh_string v = (let n = length v in
     [char_of (n div 2 ^ 24 mod 256), char_of (n div 2 ^ 16 mod 256), char_of (n div 2 ^ 8 mod 256), char_of (n mod 256)] @ v)"

definition wire_length :: nat where "wire_length = 4 + 11 + 4 + 32"

definition public_wire :: "string \<Rightarrow> err + string" where
  "public_wire v =
    (if length v \<noteq> 11 + 1 + (wire_length + 2) div 3 * 4 \<or> \<not> has_prefix v (key_type @ '' '')
     then Inl (Msg ''expected canonical ssh-ed25519 public key'')
     else
       (let encoded = drop 12 v in
        case base64_decode encoded of
          None \<Rightarrow> Inl (Msg ''invalid Ed25519 SSH encoding'')
        | Some wire \<Rightarrow>
            if length wire \<noteq> wire_length \<or> base64_encode wire \<noteq> encoded then Inl (Msg ''invalid Ed25519 SSH encoding'')
            else if big_endian (take 4 wire) \<noteq> 11 \<or> take 11 (drop 4 wire) \<noteq> key_type
                    \<or> big_endian (take 4 (drop 15 wire)) \<noteq> 32
            then Inl (Msg ''invalid Ed25519 SSH wire fields'')
            else Inr wire))"

definition canonical_public_key :: "string \<Rightarrow> err + string" where
  "canonical_public_key v = bind_res (public_wire v) (\<lambda>_. Inr v)"

definition key_fingerprint :: "(string \<Rightarrow> string) \<Rightarrow> string \<Rightarrow> err + string" where
  "key_fingerprint sha v = bind_res (public_wire v) (\<lambda>wire. Inr (sha wire))"

section \<open>Credentials\<close>

text \<open>\<open>hex.DecodeString\<close> and its inverse agree on exactly the lower-case words of 64 digits.\<close>

definition credential_path :: "string \<Rightarrow> err + string" where
  "credential_path fp =
    (if hex64 fp then Inr (''credentials/'' @ fp @ ''/id_ed25519'') else Inl (Msg ''invalid SSH credential fingerprint''))"

definition max_key_bytes :: nat where "max_key_bytes = 16 * 2 ^ 10"

text \<open>\<open>os.IsNotExist\<close> is tolerated by \<open>Remove\<close>, so that an interrupted removal can be repeated.\<close>

definition tolerate_missing :: "unit dact \<Rightarrow> unit dact" where
  "tolerate_missing m = andthen (attempt m) (\<lambda>r. case r of Inl e \<Rightarrow> if err_is e NotExist then skip else fail e | Inr u \<Rightarrow> skip)"

definition key_remove :: "disk_env \<Rightarrow> string \<Rightarrow> string \<Rightarrow> unit dact" where
  "key_remove env root fp =
    andthen (of_res (credential_path fp)) (\<lambda>relative.
      then_do (tolerate_missing (private_remove env root relative max_key_bytes))
        (tolerate_missing (remove_directory env root (path_dir relative))))"

section \<open>Reserved keys\<close>

record reserved_key =
  rk_public_key :: string
  rk_private :: string

text \<open>The library: \<open>ed25519.NewKeyFromSeed\<close> gives the 64 bytes of the private key, whose second half is the
  public key; \<open>pem.EncodeToMemory\<close> wraps the openssh-key-v1 block.\<close>

record key_library =
  kl_sha :: "string \<Rightarrow> string"
  kl_private_key :: "string \<Rightarrow> string"
  kl_pem :: "string \<Rightarrow> string"
  kl_random :: "nat \<Rightarrow> err + string"

text \<open>The padding loop: bytes 1, 2, 3 and so on up to the next multiple of 8.\<close>

function pad_block :: "nat \<Rightarrow> string \<Rightarrow> string" where
  "pad_block k block = (if length block mod 8 = 0 then block else pad_block (Suc k) (block @ [char_of k]))"
  by pat_completeness auto

termination
proof (relation "measure (\<lambda>(k, block). (8 - length block mod 8) mod 8)")
  fix k :: nat and block :: string
  assume "length block mod 8 \<noteq> 0"
  then show "((Suc k, block @ [char_of k]), k, block) \<in> measure (\<lambda>(k, block). (8 - length block mod 8) mod 8)"
    by (cases "length block mod 8 = 7") (auto simp: mod_Suc)
qed simp

declare pad_block.simps [simp del]

definition key_wire :: "string \<Rightarrow> string" where
  "key_wire public = ssh_string key_type @ ssh_string public"

definition key_from_seed :: "key_library \<Rightarrow> string \<Rightarrow> reserved_key" where
  "key_from_seed lib seed =
    (let private = kl_private_key lib seed;
         public = drop 32 private;
         wire = key_wire public;
         block = pad_block 1 (take 4 seed @ take 4 seed @ ssh_string key_type @ ssh_string public
                    @ ssh_string private @ ssh_string '''');
         encoded = ''openssh-key-v1'' @ [char_of (0 :: nat)] @ ssh_string ''none'' @ ssh_string ''none'' @ ssh_string ''''
           @ map char_of [0 :: nat, 0, 0, 1] @ ssh_string wire @ ssh_string block
     in \<lparr>rk_public_key = key_type @ '' '' @ base64_encode wire, rk_private = kl_pem lib encoded\<rparr>)"

text \<open>\<open>Reserved\<close>: the seed that is on disk wins over the candidate of this call.\<close>

definition seed_size :: nat where "seed_size = 32"

definition create_seed :: "key_library \<Rightarrow> disk_env \<Rightarrow> string \<Rightarrow> string \<Rightarrow> string dact" where
  "create_seed lib env root path =
    andthen (look dk_tick) (\<lambda>n.
    andthen (of_res (kl_random lib n)) (\<lambda>candidate.
    andthen (attempt (private_publish env root path candidate False)) (\<lambda>published.
    andthen (attempt (read_durable env root path seed_size)) (\<lambda>read.
      case (read, published) of
        (Inl e, Inl p) \<Rightarrow> fail p
      | (Inl e, Inr u) \<Rightarrow> fail e
      | (Inr seed, _) \<Rightarrow> ret seed))))"

definition reserved :: "key_library \<Rightarrow> disk_env \<Rightarrow> string \<Rightarrow> string \<Rightarrow> bool \<Rightarrow> reserved_key dact" where
  "reserved lib env root path create =
    andthen (attempt (read_durable env root path seed_size)) (\<lambda>read.
    andthen (case read of
        Inl e \<Rightarrow> if err_is e NotExist \<and> create then create_seed lib env root path else fail e
      | Inr seed \<Rightarrow> ret seed) (\<lambda>seed.
      if length seed \<noteq> seed_size then fail (Msg ''invalid retained SSH preparation seed'')
      else ret (key_from_seed lib seed)))"

definition key_verify :: "key_library \<Rightarrow> disk_env \<Rightarrow> reserved_key \<Rightarrow> string \<Rightarrow> unit dact" where
  "key_verify lib env key root =
    (if rk_private key = '''' then fail (Msg ''missing reserved SSH key'')
     else andthen (of_res (key_fingerprint (kl_sha lib) (rk_public_key key))) (\<lambda>fp.
       let relative = (case credential_path fp of Inl e \<Rightarrow> '''' | Inr p \<Rightarrow> p) in
       andthen (read_durable env root relative max_key_bytes) (\<lambda>actual.
         if actual \<noteq> rk_private key then fail (Msg ''stored SSH credential conflicts with retained preparation'')
         else skip)))"

definition key_publish :: "key_library \<Rightarrow> disk_env \<Rightarrow> reserved_key \<Rightarrow> string \<Rightarrow> unit dact" where
  "key_publish lib env key root =
    (if rk_private key = '''' then fail (Msg ''missing reserved SSH key'')
     else andthen (of_res (key_fingerprint (kl_sha lib) (rk_public_key key))) (\<lambda>fp.
       let relative = (case credential_path fp of Inl e \<Rightarrow> '''' | Inr p \<Rightarrow> p) in
       andthen (attempt (private_publish env root relative (rk_private key) False)) (\<lambda>published.
       andthen (attempt (key_verify lib env key root)) (\<lambda>verified.
         case (verified, published) of
           (Inl e, Inl p) \<Rightarrow> fail p
         | (Inl e, Inr u) \<Rightarrow> fail e
         | (Inr u, _) \<Rightarrow> skip))))"

end
