(* ===== verification/RecordStore.thy ===== *)
theory RecordStore
  imports Prelude
begin

text \<open>
  The contract between the controller's records and the private storage that keeps them, as the
  clients of \<open>internal/privatefile\<close> rely on it: a record is published at most once, it is never
  replaced, and what a durable read returns survives a crash. \<open>later e s t\<close> says that \<open>t\<close> may follow
  \<open>s\<close> in the environment \<open>e\<close>, whoever acted in between.
\<close>

locale record_store =
  fixes fit :: "'e \<Rightarrow> bool"
    and names :: "string set"
    and later :: "'s \<Rightarrow> 's \<Rightarrow> bool"
    and sound :: "'s \<Rightarrow> bool"
    and content :: "'s \<Rightarrow> string \<Rightarrow> string option"
    and publish :: "'e \<Rightarrow> string \<Rightarrow> string \<Rightarrow> ('s, unit) act"
    and fetch :: "'e \<Rightarrow> string \<Rightarrow> nat \<Rightarrow> ('s, string) act"
  assumes later_refl: "later s s"
    and later_trans: "later s t \<Longrightarrow> later t u \<Longrightarrow> later s u"
    and later_sound: "later s t \<Longrightarrow> sound s \<Longrightarrow> sound t"
    and later_content: "later s t \<Longrightarrow> n \<in> names \<Longrightarrow> content s n = Some v \<Longrightarrow> content t n = Some v"
    and publish_later: "fit e \<Longrightarrow> n \<in> names \<Longrightarrow> later s (snd (publish e n v s))"
    and fetch_later: "fit e \<Longrightarrow> n \<in> names \<Longrightarrow> sound s \<Longrightarrow> later s (snd (fetch e n lim s))"
    and publish_content: "fit e \<Longrightarrow> n \<in> names \<Longrightarrow> publish e n v s = (Inr (), t) \<Longrightarrow>
        content s n = None \<and> content t n = Some v"
    and fetch_content: "fit e \<Longrightarrow> n \<in> names \<Longrightarrow> sound s \<Longrightarrow> fetch e n lim s = (Inr v, t) \<Longrightarrow> content t n = Some v"
begin

text \<open>Two reads of a record agree, and a read agrees with the publication before it.\<close>

lemma fetches_agree:
  assumes fit: "fit e" and n: "n \<in> names" and s: "sound s" and t: "fetch e n l s = (Inr v, t)"
    and later: "later t u" and w: "fetch e n m u = (Inr w, x)"
  shows "w = v"
proof -
  have st: "later s t" using fetch_later[OF fit n s, of l] t by simp
  then have "sound u" using s later by (blast intro: later_sound)
  moreover from this have "later u x" using fetch_later[OF fit n, of u m] w by simp
  ultimately show ?thesis
    using later_content[OF \<open>later u x\<close> n later_content[OF later n fetch_content[OF fit n s t]]] fetch_content[OF fit n _ w]
    by simp
qed

lemma fetch_after_publish:
  assumes fit: "fit e" and n: "n \<in> names" and s: "sound s" and t: "publish e n v s = (Inr (), t)"
    and later: "later t u" and w: "fetch e n m u = (Inr w, x)"
  shows "w = v"
proof -
  have "sound u" using publish_later[OF fit n, of s v] s later t by (auto intro: later_sound)
  moreover from this have "later u x" using fetch_later[OF fit n, of u m] w by simp
  ultimately show ?thesis
    using later_content[OF \<open>later u x\<close> n later_content[OF later n conjunct2[OF publish_content[OF fit n t]]]]
      fetch_content[OF fit n _ w] by simp
qed

lemma publish_once: "fit e \<Longrightarrow> n \<in> names \<Longrightarrow> content s n = Some w \<Longrightarrow> later s t \<Longrightarrow> publish e n v t \<noteq> (Inr (), u)"
  using later_content publish_content by fastforce

end

text \<open>A store whose confirmed records survive crashes.\<close>

locale durable_store = record_store +
  fixes durable :: "'s \<Rightarrow> string \<Rightarrow> bool"
    and crashed :: "'s \<Rightarrow> 's \<Rightarrow> bool"
  assumes publish_durable: "fit e \<Longrightarrow> n \<in> names \<Longrightarrow> publish e n v s = (Inr (), t) \<Longrightarrow> durable t n"
    and fetch_durable: "fit e \<Longrightarrow> n \<in> names \<Longrightarrow> sound s \<Longrightarrow> fetch e n lim s = (Inr v, t) \<Longrightarrow> durable t n"
    and later_durable: "later s t \<Longrightarrow> n \<in> names \<Longrightarrow> durable s n \<Longrightarrow> durable t n"
    and crash_content: "n \<in> names \<Longrightarrow> durable s n \<Longrightarrow> crashed s t \<Longrightarrow> content t n = content s n"
begin

text \<open>What was read or published is still there after a crash at any later time.\<close>

lemma fetched_survives:
  assumes "fit e" and "n \<in> names" and "sound s" and "fetch e n lim s = (Inr v, t)" and "later t u" and "crashed u x"
  shows "content x n = Some v"
  using assms crash_content[OF assms(2) later_durable[OF assms(5,2)] assms(6)] fetch_durable fetch_content later_content
  by metis

lemma published_survives:
  assumes "fit e" and "n \<in> names" and "publish e n v s = (Inr (), t)" and "later t u" and "crashed u x"
  shows "content x n = Some v"
  using assms crash_content[OF assms(2) later_durable[OF assms(4,2)] assms(5)] publish_durable publish_content later_content
  by metis

end

end
