(* ===== verification/PrivateStore.thy ===== *)
theory PrivateStore
  imports PrivateFile SafePath RecordStore "HOL-Library.Sublist"
begin

text \<open>
  What the private storage promises. \<open>evolves K\<close> is the history of the paths in \<open>K\<close>: what exists
  there stays as it is, what is on stable storage stays there, and no file appears before its
  contents are flushed. The operations of theory PrivateFile make such history, under all faults,
  while other processes respect \<open>K\<close> and the temporary files.
\<close>

section \<open>History\<close>

definition safe :: "disk \<Rightarrow> path \<Rightarrow> bool" where
  "safe s p \<longleftrightarrow> entry_at s p \<noteq> None \<and> kept_at s p = entry_at s p"

definition raw :: "entry option \<Rightarrow> bool" where
  "raw e \<longleftrightarrow> (\<exists>b c. e = Some (EFile b c False))"

definition evolves :: "path set \<Rightarrow> disk \<Rightarrow> disk \<Rightarrow> bool" where
  "evolves K s t \<longleftrightarrow> (\<forall>p\<in>K. (entry_at s p \<noteq> None \<longrightarrow> entry_at t p = entry_at s p)
     \<and> (safe s p \<longrightarrow> safe t p) \<and> (\<not> raw (entry_at s p) \<longrightarrow> \<not> raw (entry_at t p)))"

definition spares :: "disk_env \<Rightarrow> path set \<Rightarrow> bool" where
  "spares env K \<longleftrightarrow> (\<forall>n fs. \<forall>p\<in>K. (map_of fs p \<noteq> None \<longrightarrow> map_of (de_others env n fs) p = map_of fs p)
     \<and> (map_of fs p = None \<longrightarrow> \<not> raw (map_of (de_others env n fs) p)))"

text \<open>The temporary files in a directory.\<close>

definition temporaries :: "path \<Rightarrow> path set" where
  "temporaries d = {p. \<exists>x. p = d @ [''.pending-'' @ x]}"

interpretation disk: history "evolves K" for K
  by unfold_locales (auto simp: evolves_def)

lemma entry_simps [simp]:
  "entry_at (place p e s) q = (if q = p then Some e else entry_at s q)"
  "entry_at (erase p s) q = (if q = p then None else entry_at s q)"
  "kept_at (place p e s) = kept_at s" "kept_at (erase p s) = kept_at s"
  "entry_at (keep_entries d s) q = entry_at s q"
  by (auto simp: entry_at_def kept_at_def place_def erase_def keep_entries_def update_conv' delete_conv' fun_eq_iff)

lemma map_of_filter_keys: "map_of (filter (\<lambda>kv. P (fst kv)) kvs) k = (if P k then map_of kvs k else None)"
  by (induction kvs) auto

lemma kept_entries [simp]: "kept_at (keep_entries d s) p = (if in_directory d p then entry_at s p else kept_at s p)"
proof -
  have "map_of (filter (\<lambda>kv. \<not> in_directory d (fst kv)) xs) p = (if in_directory d p then None else map_of xs p)"
    for xs :: "(path \<times> entry) list"
    using map_of_filter_keys[of "\<lambda>k. \<not> in_directory d k" xs p] by simp
  then show ?thesis
    by (simp add: kept_at_def keep_entries_def entry_at_def map_of_filter_keys map_add_def split: option.split)
qed

lemma evolvesD: "evolves K s t \<Longrightarrow> p \<in> K \<Longrightarrow> entry_at s p = Some e \<Longrightarrow> entry_at t p = Some e"
  by (auto simp: evolves_def)

lemma evolves_safe: "evolves K s t \<Longrightarrow> p \<in> K \<Longrightarrow> safe s p \<Longrightarrow> safe t p"
  by (auto simp: evolves_def)

lemma evolves_raw: "evolves K s t \<Longrightarrow> p \<in> K \<Longrightarrow> \<not> raw (entry_at s p) \<Longrightarrow> \<not> raw (entry_at t p)"
  by (auto simp: evolves_def)

lemma evolves_begin: "spares env K \<Longrightarrow> evolves K s (begin_call env s)"
  by (auto simp: spares_def evolves_def begin_call_def safe_def entry_at_def kept_at_def) (metis not_None_eq)

lemma evolves_subset: "evolves K s t \<Longrightarrow> L \<subseteq> K \<Longrightarrow> evolves L s t"
  by (auto simp: evolves_def)

section \<open>System calls\<close>

lemma made_sys:
  assumes "spares env K"
    and "\<And>t. evolves K s t \<Longrightarrow> evolves K t (snd (m t))"
    and "\<And>t a u. evolves K s t \<Longrightarrow> m t = (Inr a, u) \<Longrightarrow> Q a u"
  shows "disk.made K (sys env m) Q s"
proof -
  have start: "evolves K s (begin_call env s)" by (rule evolves_begin) fact
  with assms(2) have "evolves K s (snd (m (begin_call env s)))" by (blast intro: disk.trans)
  with start assms(3)[OF start] show ?thesis
    by (auto simp: disk.made_def wp_def sys_def Let_def split: fault.split prod.splits sum.splits)
qed

lemma evolves_place: "p \<notin> K \<or> (entry_at s p = None \<and> \<not> raw (Some e)) \<Longrightarrow> evolves K s (place p e s)"
  by (auto simp: evolves_def safe_def raw_def)

lemma evolves_erase: "p \<notin> K \<Longrightarrow> evolves K s (erase p s)"
  by (auto simp: evolves_def safe_def)

lemma made_stat:
  "spares env K \<Longrightarrow> disk.made K (stat_entry env p) (\<lambda>e t. entry_at t p = Some e) s"
  unfolding stat_entry_def by (rule made_sys) (auto simp: disk.refl split: option.splits)

lemma made_mkdir:
  assumes "spares env K"
  shows "disk.made K (mkdir env p) (\<lambda>_ _. True) s" "disk.made K (mkdir_if_missing env p) (\<lambda>_ _. True) s"
  unfolding mkdir_def mkdir_if_missing_def
  using assms by (auto intro!: made_sys evolves_place simp: disk.refl raw_def)

lemma evolves_kept: "evolves K s (keep_entries d s)"
  by (simp add: evolves_def safe_def)

lemma is_directory_kept [simp]: "is_directory (keep_entries d s) = is_directory s"
  by (simp add: is_directory_def fun_eq_iff)

lemma made_sync:
  assumes "spares env K"
  shows "disk.made K (sync_directory env d)
    (\<lambda>_ t. is_directory t d \<and> (\<forall>p. p \<noteq> [] \<longrightarrow> butlast p = d \<longrightarrow> kept_at t p = entry_at t p)) s"
  unfolding sync_directory_def
  using assms by (auto intro!: made_sys simp: disk.refl is_directory_kept evolves_kept in_directory_def split: if_splits)

lemma spares_subset: "spares env L \<Longrightarrow> K \<subseteq> L \<Longrightarrow> spares env K"
  by (auto simp: spares_def)

text \<open>The temporary file, while other processes spare it too.\<close>

lemma temp_path: "d @ [temp_name env n] \<in> temporaries d"
  by (auto simp: temporaries_def temp_name_def)

lemma made_create:
  assumes "spares env K" and "p \<notin> K"
  shows "disk.made K (create_file env p) (\<lambda>q t. q = p) s"
  unfolding create_file_def using assms by (auto intro!: made_sys evolves_place simp: disk.refl split: if_splits)

lemma made_create_temp:
  assumes "spares env K" and "K \<inter> temporaries d = {}"
  shows "disk.made K (create_temp env d) (\<lambda>p t. p \<in> temporaries d) s"
proof -
  have "d @ [temp_name env (dk_tick s)] \<notin> K" using assms(2) temp_path by blast
  from made_create[OF assms(1) this, of s] show ?thesis
    using temp_path[of d env "dk_tick s"] by (auto simp: disk.made_def wp_def create_temp_def split: prod.splits sum.splits)
qed

lemma made_write_temp:
  assumes "spares env K" and "p \<notin> K"
  shows "disk.made K (write_temp env p c) (\<lambda>_ t. True) s"
proof -
  note evolves_begin[OF assms(1), of s]
  moreover have "evolves K t (place p (EFile True x False) t)" for t x
    using assms(2) by (simp add: evolves_place)
  ultimately show ?thesis
    by (auto simp: disk.made_def wp_def write_temp_def Let_def split: fault.split intro: disk.trans)
qed

lemma made_flush:
  assumes "spares env K" and "p \<notin> K"
  shows "disk.made K (flush_file env p) (\<lambda>_ t. True) s"
  unfolding flush_file_def using assms
  by (auto intro!: made_sys evolves_place simp: disk.refl split: option.splits entry.splits)

lemma made_close: "spares env K \<Longrightarrow> disk.made K (close_file env) (\<lambda>_ t. True) s"
  unfolding close_file_def by (rule made_sys) (auto simp: ret_def disk.refl)

lemma made_remove:
  assumes "spares env K" and "p \<notin> K"
  shows "disk.made K (remove_entry env p) (\<lambda>_ t. True) s"
  unfolding remove_entry_def using assms
  by (auto intro!: made_sys evolves_erase simp: disk.refl split: option.splits entry.splits if_splits)

text \<open>The contents of the temporary file are what was written, and flushed, when it is published.\<close>

lemma spares_entry: "spares env L \<Longrightarrow> p \<in> L \<Longrightarrow> entry_at s p = Some e \<Longrightarrow> entry_at (begin_call env s) p = Some e"
  by (auto simp: spares_def begin_call_def entry_at_def)

lemma wp_sysI: "wp m Q E (begin_call env s) \<Longrightarrow> (\<And>t. E IoFault t) \<Longrightarrow> wp (sys env m) Q E s"
  by (auto simp: wp_def sys_def Let_def split: fault.split)

lemma wp_create_temp:
  "wp (create_temp env d) (\<lambda>p t. p \<in> temporaries d \<and> entry_at t p \<noteq> None) (\<lambda>_ _. True) s"
proof -
  have "wp (create_file env p) (\<lambda>q t. q = p \<and> entry_at t q \<noteq> None) (\<lambda>_ _. True) s" for p
    unfolding create_file_def by (rule wp_sysI) (simp_all add: wp_def)
  from this[of "d @ [temp_name env (dk_tick s)]"] show ?thesis
    using temp_path[of d env "dk_tick s"] by (auto simp: wp_def create_temp_def split: prod.splits sum.splits)
qed

lemma wp_fill_temp:
  assumes sp: "spares env T" and p: "p \<in> T" and "entry_at s p \<noteq> None"
  shows "wp (fill_temp env p c) (\<lambda>_ t. entry_at t p = Some (EFile True c True)) (\<lambda>_ _. True) s"
proof -
  note kept = spares_entry[OF sp p]
  have w: "wp (write_temp env p c) (\<lambda>_ t. entry_at t p = Some (EFile True c False)) (\<lambda>_ _. True) s"
    using assms(3) kept by (auto simp: wp_def write_temp_def Let_def split: fault.split)
  have f: "entry_at t p = Some (EFile True c False) \<Longrightarrow>
      wp (flush_file env p) (\<lambda>_ t. entry_at t p = Some (EFile True c True)) (\<lambda>_ _. True) t" for t
    unfolding flush_file_def by (rule wp_sysI) (simp_all add: wp_def kept)
  have c: "entry_at t p = Some (EFile True c True) \<Longrightarrow>
      wp (close_file env) (\<lambda>_ t. entry_at t p = Some (EFile True c True)) (\<lambda>_ _. True) t" for t
    unfolding close_file_def by (rule wp_sysI) (simp_all add: wp_def ret_def kept)
  show ?thesis
    unfolding fill_temp_def by (rule wp_then_seq[OF w], rule wp_then_seq, erule f, erule c)
qed

lemma made_fill_temp:
  assumes "spares env (K \<union> T)" and "p \<in> T" and "p \<notin> K" and "entry_at s p \<noteq> None"
  shows "disk.made K (fill_temp env p c) (\<lambda>_ t. entry_at t p = Some (EFile True c True)) s"
proof -
  have K: "spares env K" using assms(1) by (rule spares_subset) simp
  have "disk.made K (fill_temp env p c) (\<lambda>_ _. True) s"
    unfolding fill_temp_def
    by (rule disk.made_then[OF made_write_temp[OF K assms(3)]], rule disk.made_then[OF made_flush[OF K assms(3)]],
        rule made_close[OF K])
  moreover have "wp (fill_temp env p c) (\<lambda>_ t. entry_at t p = Some (EFile True c True)) (\<lambda>_ _. True) s"
    using assms by (intro wp_fill_temp) (auto intro: spares_subset)
  ultimately show ?thesis
    unfolding disk.made_def by (drule_tac wp_conj) (auto elim: wp_mono)
qed

lemma made_publish_at:
  assumes sp: "spares env (K \<union> T)" and "q \<in> T" and "q \<notin> K"
    and "entry_at s q = Some (EFile True c True)" and "r \<longrightarrow> p \<notin> K"
  shows "disk.made K (publish_at env q p r) (\<lambda>_ t. entry_at t p = Some (EFile True c True)) s"
proof -
  have K: "spares env K" using sp by (rule spares_subset) simp
  have now: "entry_at (begin_call env s) q = Some (EFile True c True)"
    using assms by (auto intro: spares_entry)
  have step: "evolves K (begin_call env s) (snd (m (begin_call env s))) \<Longrightarrow>
      (\<And>u. m (begin_call env s) = (Inr (), u) \<Longrightarrow> entry_at u p = Some (EFile True c True)) \<Longrightarrow>
      disk.made K (sys env m) (\<lambda>_ t. entry_at t p = Some (EFile True c True)) s" for m :: "unit dact"
    using evolves_begin[OF K, of s]
    by (auto simp: disk.made_def wp_def sys_def Let_def intro: disk.trans split: fault.split prod.splits sum.splits)
  have "evolves K u (place p (EFile True c True) (erase q u))" if r for u
    using that assms by (intro disk.trans[OF evolves_erase evolves_place]) auto
  then show ?thesis
    unfolding publish_at_def
    by (intro step) (auto simp: now disk.refl evolves_place raw_def split: option.splits entry.splits if_splits)
qed

section \<open>Records in a directory of the store\<close>

definition proper_name :: "string \<Rightarrow> bool" where
  "proper_name c \<longleftrightarrow> c \<noteq> '''' \<and> c \<noteq> ''.'' \<and> c \<noteq> ''..'' \<and> CHR ''/'' \<notin> set c"

definition store_root :: "string \<Rightarrow> bool" where
  "store_root root \<longleftrightarrow> has_prefix root ''/'' \<and> path_clean root = root \<and> root \<noteq> ''/''"

text \<open>A directory below the root, by its names from the top.\<close>

definition proper_dir :: "string list \<Rightarrow> bool" where
  "proper_dir ds \<longleftrightarrow> ds \<noteq> [] \<and> list_all proper_name ds"

definition dir_name :: "string list \<Rightarrow> string" where
  "dir_name ds = join_with CHR ''/'' ds"

lemma proper_join [simp]: "proper_name c \<Longrightarrow> join_component p c = p @ [c]"
  by (auto simp: proper_name_def join_component_def)

lemma proper_join_all: "list_all proper_name ds \<Longrightarrow> foldl join_component p ds = p @ ds"
  by (induction ds arbitrary: p) auto

lemma dir_split: "proper_dir ds \<Longrightarrow> split_on CHR ''/'' (dir_name ds) = ds"
  unfolding dir_name_def by (rule split_join) (auto simp: proper_dir_def proper_name_def list_all_iff)

lemma dir_safe: "proper_dir ds \<Longrightarrow> safe_components ds"
  by (auto simp: proper_dir_def safe_components_def proper_name_def list_all_iff)

lemma dir_clean:
  assumes "proper_dir ds"
  shows "path_clean (dir_name ds) = dir_name ds" "dir_name ds \<noteq> ''''" "dir_name ds \<noteq> ''..''"
    "\<not> has_prefix (dir_name ds) ''../''" "\<not> has_prefix (dir_name ds) ''/''"
  using safe_components_clean[of "dir_name ds"] dir_safe[OF assms] dir_split[OF assms] by auto

lemma record_split: "proper_dir ds \<Longrightarrow> proper_name b \<Longrightarrow> split_on CHR ''/'' (dir_name ds @ CHR ''/'' # b) = ds @ [b]"
  by (simp add: split_on_append2 dir_split) (simp add: split_on_simple proper_name_def)

lemma record_dir:
  assumes d: "proper_dir ds" and b: "proper_name b"
  shows "path_dir (dir_name ds @ CHR ''/'' # b) = dir_name ds"
proof -
  have hd: "hd (dir_name ds) \<noteq> CHR ''/''" using dir_clean(2,5)[OF d] by (cases "dir_name ds") (auto simp: has_prefix_def)
  have "foldl (clean_step False) [] ds = rev ds"
    using clean_step_safe[of ds False "[]"] dir_safe[OF d] by (simp add: safe_components_def)
  then have "path_clean (dir_name ds @ ''/'') = dir_name ds"
    using hd dir_clean(2)[OF d]
    by (simp add: path_clean_def split_on_append2 dir_split[OF d] clean_step_def) (simp add: dir_name_def)
  moreover from b have "dropWhile (\<lambda>c. c \<noteq> CHR ''/'') (rev b @ CHR ''/'' # rev (dir_name ds)) = CHR ''/'' # rev (dir_name ds)"
    by (subst dropWhile_append2) (auto simp: proper_name_def)
  ultimately show ?thesis by (simp add: path_dir_def)
qed

lemma record_base: "proper_name b \<Longrightarrow> path_base (d @ CHR ''/'' # b) = b"
proof -
  assume b: "proper_name b"
  then have "rev b \<noteq> []" "hd (rev b) \<noteq> CHR ''/''"
    by (auto simp: proper_name_def) (metis hd_in_set rev_is_Nil_conv set_rev)
  then have "dropWhile (\<lambda>c. c = CHR ''/'') (rev b @ CHR ''/'' # rev d) = rev b @ CHR ''/'' # rev d"
    by (cases "rev b") auto
  moreover have "takeWhile (\<lambda>c. c \<noteq> CHR ''/'') (rev b @ CHR ''/'' # rev d) = rev b"
    using b by (subst takeWhile_append2) (auto simp: proper_name_def)
  ultimately show ?thesis by (simp add: path_base_def)
qed

lemma record_joined:
  assumes "store_root root" and d: "proper_dir ds" and b: "proper_name b"
  shows "joined root (dir_name ds @ CHR ''/'' # b) = parts root @ ds @ [b]"
proof -
  have "safe_components (split_on CHR ''/'' (dir_name ds @ CHR ''/'' # b))"
    using d b by (auto simp: record_split proper_dir_def safe_components_def proper_name_def list_all_iff)
  moreover have "hd root = CHR ''/''" "root \<noteq> ''''" "path_clean root \<noteq> ''/''"
    using assms(1) by (auto simp: store_root_def has_prefix_iff)
  ultimately have "path_clean (root @ CHR ''/'' # dir_name ds @ CHR ''/'' # b) = root @ CHR ''/'' # dir_name ds @ CHR ''/'' # b"
    using clean_below[of "dir_name ds @ CHR ''/'' # b" root] assms(1) by (simp add: store_root_def)
  moreover have "filter (\<lambda>c. c \<noteq> '''') (ds @ [b]) = ds @ [b]"
    using d b by (auto simp: filter_id_conv proper_dir_def proper_name_def list_all_iff)
  ultimately show ?thesis
    by (simp add: joined_def parts_def split_on_append2[of _ root] record_split[OF d b])
qed

section \<open>Directories\<close>

definition chain :: "path \<Rightarrow> path set" where
  "chain p = {q. q \<noteq> [] \<and> prefix q p}"

lemma chain_simps [simp]: "chain [] = {}" "chain (p @ [x]) = insert (p @ [x]) (chain p)"
  by (auto simp: chain_def)

lemma made_true: "disk.made K m Q s \<Longrightarrow> disk.made K m (\<lambda>_ _. True) s"
  by (erule disk.made_weaken) simp

lemma made_check_directory:
  assumes "spares env K"
  shows "disk.made K (check_directory env p) (\<lambda>_ t. p \<noteq> [] \<and> entry_at t p = Some (EDir True)) s"
  unfolding check_directory_def
  by (auto intro!: disk.made_bind[OF made_stat[OF assms]] disk.made_control split: entry.split)

lemma made_create_directory: "spares env K \<Longrightarrow> disk.made K (create_directory env p) (\<lambda>_ _. True) s"
  unfolding create_directory_def
  by (rule disk.made_bind[where P = "\<lambda>_ _. True"])
    (auto intro!: disk.made_attempt[OF made_mkdir(1)] disk.made_control split: sum.split)

lemma made_enter:
  assumes sp: "spares env K"
  shows "disk.made K (enter_directories env create p cs)
    (\<lambda>q t. q = foldl join_component p cs \<and> (cs \<noteq> [] \<longrightarrow> q \<in> K \<longrightarrow> entry_at t q \<noteq> None)) s"
proof (induction cs arbitrary: p s)
  case (Cons c cs p s)
  let ?d = "join_component p c"
  have make: "disk.made K (if create then create_directory env ?d else skip) (\<lambda>_ _. True) s"
    by (auto intro!: made_create_directory sp disk.made_control)
  have rest: "disk.made K (enter_directories env create ?d cs)
      (\<lambda>q t. q = foldl join_component p (c # cs) \<and> (c # cs \<noteq> [] \<longrightarrow> q \<in> K \<longrightarrow> entry_at t q \<noteq> None)) u"
    if "entry_at u ?d = Some (EDir True)" for u
    by (cases "cs = []") (use that in \<open>auto intro!: disk.made_weaken[OF Cons] disk.made_control\<close>)
  show ?case unfolding enter_directories.simps Let_def
    by (rule disk.made_then[OF make], rule disk.made_then[OF made_check_directory[OF sp]], rule rest) simp
qed (auto intro: disk.made_control)

lemma sync_parents_snoc [simp]:
  "sync_parents env [] = skip"
  "sync_parents env (p @ [x]) = then_do (sync_directory env p) (sync_parents env p)"
  by (subst sync_parents.simps, simp)+

text \<open>A place that lasts: it and the directories down to it are on stable storage.\<close>

definition firm :: "disk \<Rightarrow> path \<Rightarrow> bool" where
  "firm s p \<longleftrightarrow> (\<forall>q\<in>chain p. safe s q \<and> (q \<noteq> p \<longrightarrow> is_directory s q))"

lemma is_directory_evolves: "is_directory s p \<Longrightarrow> evolves K s t \<Longrightarrow> p = [] \<or> p \<in> K \<Longrightarrow> is_directory t p"
  unfolding is_directory_def by (auto split: option.splits entry.splits dest: evolvesD)

lemma firm_evolves:
  assumes "firm s p" and "evolves K s t" and "chain p \<subseteq> K"
  shows "firm t p"
  unfolding firm_def
proof
  fix q assume q: "q \<in> chain p"
  with assms(3) have "q \<in> K" by blast
  with assms(1,2) q show "safe t q \<and> (q \<noteq> p \<longrightarrow> is_directory t q)"
    unfolding firm_def by (auto intro: evolves_safe is_directory_evolves)
qed

lemma firm_snoc: "firm s p \<Longrightarrow> is_directory s p \<Longrightarrow> safe s (p @ [x]) \<Longrightarrow> firm s (p @ [x])"
  by (auto simp: firm_def)

lemma made_sync_parents:
  assumes "spares env K" and "chain p \<subseteq> K" and "p \<noteq> [] \<longrightarrow> entry_at s p \<noteq> None"
  shows "disk.made K (sync_parents env p) (\<lambda>_ t. firm t p) s"
  using assms(2,3)
proof (induction p arbitrary: s rule: rev_induct)
  case (snoc x p)
  have top: "p @ [x] \<in> K" and below: "chain p \<subseteq> K" using snoc.prems(1) by simp_all
  show ?case unfolding sync_parents_snoc
  proof (rule disk.made_then[OF made_sync[OF assms(1)]])
    fix t assume st: "evolves K s t"
      and t: "is_directory t p \<and> (\<forall>q. q \<noteq> [] \<longrightarrow> butlast q = p \<longrightarrow> kept_at t q = entry_at t q)"
    from snoc.prems(2) st top have safe: "safe t (p @ [x])"
      using t by (auto simp: safe_def dest: evolvesD)
    from t have "p \<noteq> [] \<longrightarrow> entry_at t p \<noteq> None"
      by (cases "entry_at t p") (auto simp: is_directory_def)
    from snoc.IH[OF below this] show "disk.made K (sync_parents env p) (\<lambda>_ t. firm t (p @ [x])) t"
    proof (rule disk.made_weaken)
      fix u assume tu: "evolves K t u" and u: "firm u p"
      have "p = [] \<or> p \<in> K" using below by (cases "p = []") (auto simp: chain_def)
      from is_directory_evolves[OF _ tu this] t have "is_directory u p" by blast
      from firm_snoc[OF u this evolves_safe[OF tu top safe]] show "firm u (p @ [x])" .
    qed
  qed
qed (simp add: disk.made_control firm_def)

section \<open>Reading and publishing a record\<close>

text \<open>The file of a record and every directory above it.\<close>

definition record_path :: "string \<Rightarrow> string list \<Rightarrow> string \<Rightarrow> path" where
  "record_path root ds b = parts root @ ds @ [b]"

definition record_chain :: "string \<Rightarrow> string list \<Rightarrow> string \<Rightarrow> path set" where
  "record_chain root ds b = chain (record_path root ds b)"

lemma record_chain_insert:
  "record_chain root ds b = insert (record_path root ds b) (chain (parts root @ ds))"
  using chain_simps(2)[of "parts root @ ds" b] by (simp add: record_chain_def record_path_def)

lemma record_chain_simps:
  "record_path root ds b \<in> record_chain root ds b" "chain (parts root @ ds) \<subseteq> record_chain root ds b"
  by (auto simp: record_chain_insert)

lemma made_private_directory:
  assumes sp: "spares env K" and d: "proper_dir ds" and K: "chain (parts root @ ds) \<subseteq> K"
  shows "disk.made K (private_directory env root (dir_name ds) create)
    (\<lambda>p t. p = parts root @ ds \<and> (create \<longrightarrow> firm t p)) s"
proof -
  have "disk.made K (enter_directories env create (parts root) ds)
      (\<lambda>q t. q = parts root @ ds \<and> entry_at t q \<noteq> None) t" for t
    using made_enter[OF sp, of create "parts root" ds t] d K
    by (auto simp: proper_dir_def proper_join_all chain_def elim!: disk.made_weaken)
  note enter = this
  have mk: "disk.made K (if create then mkdir_all_private env (parts root) else skip) (\<lambda>_ _. True) t" for t
    unfolding mkdir_all_private_def by (auto intro!: disk.made_each made_mkdir[OF sp] disk.made_control)
  have sync: "disk.made K (then_do (if create then sync_parents env q else skip) (ret q))
      (\<lambda>p t. p = parts root @ ds \<and> (create \<longrightarrow> firm t p)) t"
    if "q = parts root @ ds \<and> entry_at t q \<noteq> None" for q t
  proof (cases create)
    case True
    have "disk.made K (sync_parents env q) (\<lambda>_ u. firm u q) t"
      using that K by (intro made_sync_parents[OF sp]) (auto simp del: chain_simps)
    with that True show ?thesis
      by (simp del: chain_simps sync_parents_snoc) (erule disk.made_then, simp del: chain_simps add: disk.made_control)
  qed (use that in \<open>simp add: disk.made_control then_do_def\<close>)
  show ?thesis
    unfolding private_directory_def dir_split[OF d] if_not_P[OF dir_clean(2)[OF d]]
    by (intro disk.made_check) (rule disk.made_then[OF mk], rule disk.made_then[OF made_check_directory[OF sp]],
        rule disk.made_bind[OF enter], rule sync)
qed

text \<open>What a read returns is in the file, at the time it returns.\<close>

lemma made_read_path:
  assumes sp: "spares env K" and p: "p \<in> K" and "\<not> raw (entry_at s p)"
  shows "disk.made K (read_path env p limit True) (\<lambda>c t. entry_at t p = Some (EFile True c True)) s"
proof -
  have last: "disk.made K (sys env (ret c)) (\<lambda>x u. x = c \<and> entry_at u p = Some (EFile True c f)) t"
    if "entry_at t p = Some (EFile True c f)" for c f t
    by (rule made_sys[OF sp]) (use that p in \<open>auto simp: ret_def disk.refl dest: evolvesD\<close>)
  have limited: "disk.made K (if b then fail e else ret x) (\<lambda>y u. entry_at u p = Some (EFile True y True)) t"
    if "\<not> b \<Longrightarrow> entry_at t p = Some (EFile True x True)" for b e x t
    using that by (auto intro: disk.made_control)
  have opened: "disk.made K (then_do (refuse (unsafe_read True opened))
      (case opened of EFile b c f \<Rightarrow> andthen (sys env (ret c)) (\<lambda>data.
           if limit < length data then fail (Msg ''file exceeds size limit'') else ret data)
       | _ \<Rightarrow> fail (Msg ''opened file is not regular'')))
      (\<lambda>c t. entry_at t p = Some (EFile True c True)) t"
    if "entry_at t p = Some opened" and "\<not> raw (entry_at t p)" for opened t
  proof (rule disk.made_check)
    assume "unsafe_read True opened = None"
    with that obtain c where "opened = EFile True c True"
      by (cases opened) (auto simp: unsafe_read_def raw_def)
    with that(1) show "disk.made K (case opened of EFile b c f \<Rightarrow> andthen (sys env (ret c)) (\<lambda>data.
           if limit < length data then fail (Msg ''file exceeds size limit'') else ret data)
       | _ \<Rightarrow> fail (Msg ''opened file is not regular'')) (\<lambda>c t. entry_at t p = Some (EFile True c True)) t"
      by (auto intro!: disk.made_bind[OF last] limited)
  qed
  show ?thesis
    unfolding read_path_def
    by (rule disk.made_bind[OF made_stat[OF sp]], rule disk.made_check, rule disk.made_check,
        rule disk.made_bind[OF made_stat[OF sp]], rule opened)
      (use assms(3) p in \<open>blast dest: evolves_raw disk.trans\<close>)+
qed

lemma made_private_read:
  assumes sp: "spares env K" and K: "record_chain root ds b \<subseteq> K" and d: "proper_dir ds" and b: "proper_name b"
    and fl: "\<not> raw (entry_at s (record_path root ds b))"
  shows "disk.made K (private_read env root (dir_name ds @ CHR ''/'' # b) limit)
    (\<lambda>c t. entry_at t (record_path root ds b) = Some (EFile True c True)) s"
  unfolding private_read_def record_dir[OF d b] record_base[OF b]
proof (rule disk.made_bind[OF made_private_directory[OF sp d order_trans[OF record_chain_simps(2) K]]])
  from K record_chain_simps(1) have in_K: "record_path root ds b \<in> K" by blast
  fix p t assume "evolves K s t" and p: "p = parts root @ ds \<and> (False \<longrightarrow> firm t p)"
  with fl in_K have "\<not> raw (entry_at t (record_path root ds b))" using evolves_raw by blast
  from made_read_path[OF sp in_K this] p b
  show "disk.made K (read_path env (join_component p b) limit True)
    (\<lambda>c t. entry_at t (record_path root ds b) = Some (EFile True c True)) t"
    by (simp add: record_path_def)
qed

text \<open>A record that lasts: a crash can take away neither the file nor a directory above it.\<close>

definition lasting :: "disk \<Rightarrow> string \<Rightarrow> string list \<Rightarrow> string \<Rightarrow> bool" where
  "lasting s root ds b \<longleftrightarrow> firm s (record_path root ds b)"

definition stored :: "disk \<Rightarrow> string \<Rightarrow> string list \<Rightarrow> string \<Rightarrow> string \<Rightarrow> bool" where
  "stored s root ds b c \<longleftrightarrow> entry_at s (record_path root ds b) = Some (EFile True c True) \<and> lasting s root ds b"

lemma stored_evolves: "stored s root ds b c \<Longrightarrow> evolves K s t \<Longrightarrow> record_chain root ds b \<subseteq> K \<Longrightarrow> stored t root ds b c"
  using evolvesD[of K s t] firm_evolves[of s _ K t] record_chain_simps(1)[of root ds b]
  unfolding stored_def lasting_def record_chain_def by blast

lemma made_read_durable:
  assumes sp: "spares env K" and K: "record_chain root ds b \<subseteq> K" and root: "store_root root"
    and d: "proper_dir ds" and b: "proper_name b" and fl: "\<not> raw (entry_at s (record_path root ds b))"
  shows "disk.made K (read_durable env root (dir_name ds @ CHR ''/'' # b) limit) (\<lambda>c t. stored t root ds b c) s"
  unfolding read_durable_def record_joined[OF root d b] record_path_def[symmetric]
proof (rule disk.made_bind[OF made_private_read[OF sp K d b fl]])
  fix c t assume c: "entry_at t (record_path root ds b) = Some (EFile True c True)"
  have "disk.made K (sync_parents env (record_path root ds b)) (\<lambda>_ u. stored u root ds b c) t"
  proof (rule disk.made_weaken[OF made_sync_parents[OF sp]])
    show "chain (record_path root ds b) \<subseteq> K" using K by (simp add: record_chain_def)
    fix u assume "evolves K t u" "firm u (record_path root ds b)"
    moreover from this(1) c K record_chain_simps(1) have "entry_at u (record_path root ds b) = Some (EFile True c True)"
      by (blast intro: evolvesD)
    ultimately show "stored u root ds b c" by (simp add: stored_def lasting_def)
  qed (use c in simp)
  then show "disk.made K (then_do (sync_parents env (record_path root ds b)) (ret c)) (\<lambda>c t. stored t root ds b c) t"
    by (rule disk.made_then) (simp add: disk.made_control)
qed

lemma made_check_destination:
  "spares env K \<Longrightarrow> disk.made K (check_destination env p r) (\<lambda>_ _. True) s"
  unfolding check_destination_def
  by (rule disk.made_bind[where P = "\<lambda>_ _. True"])
    (auto intro!: disk.made_attempt[OF made_stat] disk.made_control disk.made_check split: sum.split entry.split)

text \<open>The last steps of a publication: the link and the \<open>fsync\<close> of its directory.\<close>

lemma made_link:
  assumes sp: "spares env (K \<union> temporaries (parts root @ ds))" and K: "record_chain root ds b \<subseteq> K" and disjoint: "K \<inter> temporaries (parts root @ ds) = {}"
    and temp: "temp \<in> temporaries (parts root @ ds)" "entry_at s temp = Some (EFile True c True)"
    and above: "firm s (parts root @ ds)"
  shows "disk.made K (then_do (publish_at env temp (record_path root ds b) False) (sync_directory env (parts root @ ds)))
    (\<lambda>_ t. stored t root ds b c) s"
proof (rule disk.made_then[OF made_publish_at[OF sp temp(1) _ temp(2)]])
  have spK: "spares env K" using sp by (rule spares_subset) simp
  have in_K: "record_path root ds b \<in> K" "chain (parts root @ ds) \<subseteq> K"
    using K record_chain_simps(1,2) by blast+
  show "temp \<notin> K" using temp disjoint by blast
  fix t assume st: "evolves K s t" and t: "entry_at t (record_path root ds b) = Some (EFile True c True)"
  show "disk.made K (sync_directory env (parts root @ ds)) (\<lambda>_ t. stored t root ds b c) t"
  proof (rule disk.made_weaken[OF made_sync[OF spK]])
    fix u assume tu: "evolves K t u"
      and u: "is_directory u (parts root @ ds) \<and> (\<forall>p. p \<noteq> [] \<longrightarrow> butlast p = parts root @ ds \<longrightarrow> kept_at u p = entry_at u p)"
    have now: "entry_at u (record_path root ds b) = Some (EFile True c True)" by (rule evolvesD[OF tu in_K(1) t])
    with u have "safe u (record_path root ds b)" by (simp add: safe_def record_path_def butlast_append)
    moreover have "firm u (parts root @ ds)" by (rule firm_evolves[OF above disk.trans[OF st tu] in_K(2)])
    ultimately show "stored u root ds b c"
      using u firm_snoc[of u "parts root @ ds" b] now by (simp add: stored_def lasting_def record_path_def)
  qed
qed simp

lemma made_fill_link:
  assumes sp: "spares env (K \<union> temporaries (parts root @ ds))" and K: "record_chain root ds b \<subseteq> K" and disjoint: "K \<inter> temporaries (parts root @ ds) = {}"
    and temp: "temp \<in> temporaries (parts root @ ds)" "entry_at s temp \<noteq> None"
    and above: "firm s (parts root @ ds)"
  shows "disk.made K (ensuring (then_do (fill_temp env temp c)
      (then_do (publish_at env temp (record_path root ds b) False) (sync_directory env (parts root @ ds))))
      (remove_entry env temp)) (\<lambda>_ t. stored t root ds b c) s"
proof (rule disk.made_ensuring)
  have spK: "spares env K" using sp by (rule spares_subset) simp
  have notin: "temp \<notin> K" using temp disjoint by blast
  have in_K: "chain (parts root @ ds) \<subseteq> K" using K record_chain_simps(2) by blast
  show "disk.made K (then_do (fill_temp env temp c)
      (then_do (publish_at env temp (record_path root ds b) False) (sync_directory env (parts root @ ds))))
      (\<lambda>_ t. stored t root ds b c) s"
    by (rule disk.made_then[OF made_fill_temp[OF sp temp(1) notin temp(2)]], rule made_link[OF sp K disjoint temp(1)])
      (use above in_K in \<open>blast intro: firm_evolves\<close>)+
  show "disk.made K (remove_entry env temp) (\<lambda>_ _. True) t" for t by (rule made_remove[OF spK notin])
  show "stored t root ds b c \<Longrightarrow> evolves K t u \<Longrightarrow> stored u root ds b c" for t u by (rule stored_evolves[OF _ _ K])
qed

lemma made_publish:
  assumes sp: "spares env (K \<union> temporaries (parts root @ ds))" and K: "record_chain root ds b \<subseteq> K" and disjoint: "K \<inter> temporaries (parts root @ ds) = {}"
    and d: "proper_dir ds" and b: "proper_name b"
  shows "disk.made K (private_publish env root (dir_name ds @ CHR ''/'' # b) c False) (\<lambda>_ t. stored t root ds b c) s"
  unfolding private_publish_def record_dir[OF d b] record_base[OF b] Let_def
proof (rule disk.made_check)
  have spK: "spares env K" using sp by (rule spares_subset) simp
  have in_K: "chain (parts root @ ds) \<subseteq> K" using K record_chain_simps(2) by blast
  have temp: "disk.made K (create_temp env q) (\<lambda>p t. p \<in> temporaries (parts root @ ds) \<and> entry_at t p \<noteq> None) u"
    if "q = parts root @ ds" for q u
    using made_create_temp[OF spK disjoint, of u] wp_create_temp[of env q u] that
    unfolding disk.made_def by (drule_tac wp_conj) (auto elim: wp_mono)
  have rest: "disk.made K (then_do (check_destination env (record_path root ds b) False)
      (andthen (create_temp env (parts root @ ds)) (\<lambda>temporary.
        ensuring (then_do (fill_temp env temporary c)
            (then_do (publish_at env temporary (record_path root ds b) False) (sync_directory env (parts root @ ds))))
          (remove_entry env temporary)))) (\<lambda>_ t. stored t root ds b c) t"
    if "firm t (parts root @ ds)" for t
    by (rule disk.made_then[OF made_check_destination[OF spK]], rule disk.made_bind[OF temp[OF refl]], rule made_fill_link[OF sp K disjoint])
      (use that in_K in \<open>blast intro: firm_evolves disk.trans\<close>)+
  show "disk.made K (andthen (private_directory env root (dir_name ds) True) (\<lambda>parent.
      then_do (check_destination env (join_component parent b) False)
      (andthen (create_temp env parent) (\<lambda>temporary.
        ensuring (then_do (fill_temp env temporary c)
            (then_do (publish_at env temporary (join_component parent b) False) (sync_directory env parent)))
          (remove_entry env temporary))))) (\<lambda>_ t. stored t root ds b c) s"
    by (rule disk.made_bind[OF made_private_directory[OF spK d in_K]])
      (use rest b in \<open>auto simp: record_path_def simp del: chain_simps\<close>)
qed

section \<open>The store keeps its contract\<close>

text \<open>
  The records of one directory below the root, with the directories above them. Other
  processes must leave what exists there, and the temporary files of this process, alone; they
  may add records of their own, with contents that are flushed.
\<close>

definition record_file :: "string \<Rightarrow> bool" where
  "record_file b \<longleftrightarrow> proper_name b \<and> \<not> has_prefix b ''.pending-''"

definition record_names :: "string list \<Rightarrow> string set" where
  "record_names ds = {n. \<exists>b. n = dir_name ds @ CHR ''/'' # b \<and> proper_dir ds \<and> record_file b}"

definition sealed :: "string \<Rightarrow> string list \<Rightarrow> path set" where
  "sealed root ds = \<Union> (record_chain root ds ` Collect record_file)"

definition peaceful :: "string \<Rightarrow> string list \<Rightarrow> disk_env \<Rightarrow> bool" where
  "peaceful root ds env \<longleftrightarrow> store_root root \<and> spares env (sealed root ds \<union> temporaries (parts root @ ds))"

definition flushed_in :: "path set \<Rightarrow> disk \<Rightarrow> bool" where
  "flushed_in K s \<longleftrightarrow> (\<forall>p\<in>K. \<not> raw (entry_at s p))"

text \<open>The directories that a record name spells.\<close>

definition dirs_of :: "string \<Rightarrow> string list" where
  "dirs_of n = split_on CHR ''/'' (path_dir n)"

definition record_content :: "string \<Rightarrow> disk \<Rightarrow> string \<Rightarrow> string option" where
  "record_content root s n =
    (case entry_at s (record_path root (dirs_of n) (path_base n)) of Some (EFile True c f) \<Rightarrow> Some c | _ \<Rightarrow> None)"

definition record_durable :: "string \<Rightarrow> disk \<Rightarrow> string \<Rightarrow> bool" where
  "record_durable root s n \<longleftrightarrow> (\<exists>c. stored s root (dirs_of n) (path_base n) c)"

text \<open>A crash leaves at each place what was visible or what was on stable storage; the contents
  of a file that was not flushed are lost.\<close>

definition survivor :: "entry option \<Rightarrow> entry option \<Rightarrow> bool" where
  "survivor e f \<longleftrightarrow> f = e \<or> (\<exists>b c c'. e = Some (EFile b c False) \<and> f = Some (EFile b c' False))"

definition crashed :: "disk \<Rightarrow> disk \<Rightarrow> bool" where
  "crashed s t \<longleftrightarrow> (\<forall>p. survivor (entry_at s p) (entry_at t p) \<or> survivor (kept_at s p) (entry_at t p))"

lemma dirs_of_record: "proper_dir ds \<Longrightarrow> proper_name b \<Longrightarrow> dirs_of (dir_name ds @ CHR ''/'' # b) = ds"
  by (simp add: dirs_of_def record_dir dir_split)

lemma sealed_chain: "record_file b \<Longrightarrow> record_chain root ds b \<subseteq> sealed root ds"
  by (auto simp: sealed_def)

lemma sealed_temporaries: "sealed root ds \<inter> temporaries (parts root @ ds) = {}"
proof -
  have False if "proper_name b" "\<not> has_prefix b ''.pending-''"
    "parts root @ ds @ [''.pending-'' @ x] \<in> record_chain root ds b" for b x
  proof -
    have "prefix (parts root @ ds @ [''.pending-'' @ x]) (parts root @ ds @ [b])"
      using that(3) by (simp add: record_chain_def record_path_def chain_def)
    then have "''.pending-'' @ x = b" by simp
    with that(2) show False by (auto simp: has_prefix_iff)
  qed
  then show ?thesis by (auto simp: sealed_def temporaries_def record_file_def)
qed

lemma record_namesE:
  assumes "n \<in> record_names ds"
  obtains b where "n = dir_name ds @ CHR ''/'' # b" "proper_dir ds" "proper_name b" "record_file b"
    "dirs_of n = ds" "path_base n = b" "record_chain root ds b \<subseteq> sealed root ds" "record_path root ds b \<in> sealed root ds"
proof -
  from assms obtain b where n: "n = dir_name ds @ CHR ''/'' # b" "proper_dir ds" "record_file b" by (auto simp: record_names_def)
  then have "proper_name b" by (simp add: record_file_def)
  with n show thesis
    using that sealed_chain[OF n(3), of root ds] subsetD[OF sealed_chain[OF n(3)] record_chain_simps(1), of root ds]
    by (auto simp: dirs_of_record record_base)
qed

lemma content_stored: "stored s root (dirs_of n) (path_base n) c \<Longrightarrow> record_content root s n = Some c"
  by (simp add: stored_def record_content_def)

lemma made_record_publish:
  assumes "peaceful root ds env" and "n \<in> record_names ds"
  shows "disk.made (sealed root ds) (private_publish env root n c False) (\<lambda>_ t. stored t root (dirs_of n) (path_base n) c) s"
proof -
  from assms(2) obtain b where n: "n = dir_name ds @ CHR ''/'' # b" "proper_dir ds" "proper_name b"
    "dirs_of n = ds" "path_base n = b" "record_chain root ds b \<subseteq> sealed root ds" by (rule record_namesE)
  show ?thesis unfolding n(1)
    using made_publish[OF _ n(6) sealed_temporaries n(2,3)] assms(1) n by (simp add: peaceful_def)
qed

lemma made_record_read:
  assumes "peaceful root ds env" and "n \<in> record_names ds" and "flushed_in (sealed root ds) s"
  shows "disk.made (sealed root ds) (read_durable env root n lim) (\<lambda>c t. stored t root (dirs_of n) (path_base n) c) s"
proof -
  from assms(2) obtain b where n: "n = dir_name ds @ CHR ''/'' # b" "proper_dir ds" "proper_name b"
    "dirs_of n = ds" "path_base n = b" "record_chain root ds b \<subseteq> sealed root ds" "record_path root ds b \<in> sealed root ds"
    by (rule record_namesE)
  have "spares env (sealed root ds)" using assms(1) by (auto simp: peaceful_def intro: spares_subset)
  from made_read_durable[OF this n(6) _ n(2,3)] show ?thesis
    using assms n by (simp add: peaceful_def flushed_in_def)
qed

text \<open>A publication that succeeds met no record of that name.\<close>

lemma destination_refused:
  assumes "spares env K" and "p \<in> K" and "entry_at s p \<noteq> None"
  shows "disk.made K (check_destination env p False) (\<lambda>_ t. False) s"
proof -
  from assms obtain e where e: "entry_at s p = Some e" by auto
  have "disk.made K (attempt (stat_entry env p)) (\<lambda>r t. r = Inl IoFault \<or> r = Inr e) s"
    using evolves_begin[OF assms(1), of s] evolvesD[OF evolves_begin[OF assms(1)] assms(2) e]
    by (auto simp: disk.made_def wp_def attempt_def stat_entry_def sys_def Let_def split: fault.split)
  then show ?thesis unfolding check_destination_def
    by (rule disk.made_bind) (auto intro!: disk.made_control disk.made_check split: sum.split entry.split)
qed

lemma publish_refused:
  assumes "peaceful root ds env" and "n \<in> record_names ds" and "record_content root s n \<noteq> None"
  shows "disk.made (sealed root ds) (private_publish env root n c False) (\<lambda>_ _. False) s"
proof -
  from assms(2) obtain b where n: "n = dir_name ds @ CHR ''/'' # b" "proper_dir ds" "proper_name b"
    "dirs_of n = ds" "path_base n = b" "record_chain root ds b \<subseteq> sealed root ds" "record_path root ds b \<in> sealed root ds"
    by (rule record_namesE)
  have sp: "spares env (sealed root ds)" using assms(1) by (auto simp: peaceful_def intro: spares_subset)
  have chain: "chain (parts root @ ds) \<subseteq> sealed root ds" using n(6) record_chain_simps(2) by blast
  from assms(3) n obtain e where e: "entry_at s (record_path root ds b) = Some e"
    by (auto simp: record_content_def split: option.splits)
  have "disk.made (sealed root ds) (then_do (check_destination env (record_path root ds b) False) m) (\<lambda>_ _. False) t"
    if "evolves (sealed root ds) s t" for t and m :: "unit dact"
    by (rule disk.made_then[OF destination_refused[OF sp n(7)]]) (use evolvesD[OF that n(7) e] in simp_all)
  then show ?thesis
    unfolding private_publish_def n(1) record_dir[OF n(2,3)] record_base[OF n(3)] Let_def
    by (intro disk.made_check disk.made_bind[OF made_private_directory[OF sp n(2) chain]])
      (use n(3) in \<open>auto simp: record_path_def simp del: chain_simps\<close>)
qed

lemma content_evolves:
  assumes "evolves (sealed root ds) s t" and "n \<in> record_names ds" and "record_content root s n = Some v"
  shows "record_content root t n = Some v"
proof -
  from assms(2) obtain b where n: "dirs_of n = ds" "path_base n = b" "record_path root ds b \<in> sealed root ds"
    by (rule record_namesE)
  with assms(3) obtain f where "entry_at s (record_path root ds b) = Some (EFile True v f)"
    by (auto simp: record_content_def split: option.splits entry.splits bool.splits)
  with assms(1) n show ?thesis by (auto simp: record_content_def dest: evolvesD)
qed

lemma durable_evolves:
  assumes "evolves (sealed root ds) s t" and "n \<in> record_names ds" and "record_durable root s n"
  shows "record_durable root t n"
proof -
  from assms(2) obtain b where "dirs_of n = ds" "path_base n = b" "record_chain root ds b \<subseteq> sealed root ds"
    by (rule record_namesE)
  with assms(1,3) show ?thesis by (auto simp: record_durable_def dest: stored_evolves)
qed

lemma stored_survives: "stored s root ds b c \<Longrightarrow> crashed s t \<Longrightarrow> q \<in> record_chain root ds b \<Longrightarrow>
    entry_at s q = Some (EDir p) \<or> entry_at s q = Some (EFile p c True) \<Longrightarrow> entry_at t q = entry_at s q"
  by (auto simp: stored_def lasting_def firm_def record_chain_def safe_def crashed_def survivor_def)

interpretation private_store: durable_store "peaceful root ds" "record_names ds" "evolves (sealed root ds)"
    "flushed_in (sealed root ds)" "record_content root" "\<lambda>env n v. private_publish env root n v False"
    "\<lambda>env n lim. read_durable env root n lim" "record_durable root" crashed
  for root ds
proof (unfold_locales, goal_cases)
  case (3 s t) then show ?case using evolves_raw[OF 3(1)] by (simp add: flushed_in_def)
next
  case (5 e n s v) then show ?case using disk.made_state[OF made_record_publish] by blast
next
  case (6 e n s lim) then show ?case using disk.made_state[OF made_record_read] by blast
next
  case (7 e n v s t)
  then show ?case
    using disk.made_result[OF made_record_publish[OF 7(1,2)] 7(3)] disk.made_result[OF publish_refused[OF 7(1,2)] 7(3)]
    by (cases "record_content root s n") (auto intro: content_stored)
next
  case (8 e n s lim v t) then show ?case
    using disk.made_result[OF made_record_read] content_stored by blast
next
  case (9 e n v s t) then show ?case
    using disk.made_result[OF made_record_publish] unfolding record_durable_def by blast
next
  case (10 e n s lim v t) then show ?case
    using disk.made_result[OF made_record_read] unfolding record_durable_def by blast
next
  case (11 s t n) then show ?case by (rule durable_evolves)
next
  case (12 n s t)
  then obtain c where c: "stored s root (dirs_of n) (path_base n) c" by (auto simp: record_durable_def)
  with stored_survives[OF c 12(3) record_chain_simps(1)] show ?case
    by (auto simp: record_content_def stored_def)
qed (auto intro: disk.refl disk.trans content_evolves)

section \<open>Publication is atomic\<close>

text \<open>Without other processes: a place keeps its entry or gets one out of \<open>V\<close>, and nothing else
  is seen there at any time.\<close>

definition touches :: "path \<Rightarrow> entry option set \<Rightarrow> disk \<Rightarrow> disk \<Rightarrow> bool" where
  "touches p V s t \<longleftrightarrow> entry_at t p = entry_at s p \<or> entry_at t p \<in> V"

definition alone :: "disk_env \<Rightarrow> bool" where
  "alone env \<longleftrightarrow> (\<forall>n fs. de_others env n fs = fs)"

interpretation atomic: history "touches p V" for p V
  by unfold_locales (auto simp: touches_def)

lemma atomic_sys:
  assumes "alone env" and "\<And>t. entry_at t p = entry_at s p \<Longrightarrow> touches p V t (snd (m t))"
  shows "atomic.made p V (sys env m) (\<lambda>_ _. True) s"
proof -
  have "entry_at (begin_call env s) p = entry_at s p" using assms(1) by (simp add: begin_call_def alone_def entry_at_def)
  with assms(2)[OF this] show ?thesis
    by (auto simp: atomic.made_def wp_def sys_def Let_def touches_def split: fault.split prod.splits sum.splits)
qed

lemma atomic_sameI: "entry_at t p = entry_at s p \<Longrightarrow> touches p V s t"
  by (simp add: touches_def)

lemma atomic_calls:
  assumes "alone env"
  shows "atomic.made p V (stat_entry env q) (\<lambda>_ _. True) s" "atomic.made p V (sync_directory env q) (\<lambda>_ _. True) s"
    "q \<noteq> p \<Longrightarrow> atomic.made p V (mkdir env q) (\<lambda>_ _. True) s"
    "q \<noteq> p \<Longrightarrow> atomic.made p V (mkdir_if_missing env q) (\<lambda>_ _. True) s"
    "q \<noteq> p \<Longrightarrow> atomic.made p V (create_file env q) (\<lambda>r _. r = q) s"
    "q \<noteq> p \<Longrightarrow> atomic.made p V (write_temp env q v) (\<lambda>_ _. True) s"
    "q \<noteq> p \<Longrightarrow> atomic.made p V (flush_file env q) (\<lambda>_ _. True) s"
    "atomic.made p V (close_file env) (\<lambda>_ _. True) s"
    "q \<noteq> p \<Longrightarrow> atomic.made p V (remove_entry env q) (\<lambda>_ _. True) s"
proof -
  show "q \<noteq> p \<Longrightarrow> atomic.made p V (create_file env q) (\<lambda>r _. r = q) s"
    using assms by (auto simp: atomic.made_def wp_def create_file_def sys_def begin_call_def Let_def alone_def
        touches_def entry_at_def place_def update_conv' split: fault.split)
  show "q \<noteq> p \<Longrightarrow> atomic.made p V (write_temp env q v) (\<lambda>_ _. True) s"
    using assms by (auto simp: atomic.made_def wp_def write_temp_def begin_call_def Let_def alone_def
        touches_def entry_at_def place_def update_conv' split: fault.split)
qed (auto intro!: atomic_sys assms atomic_sameI simp: stat_entry_def sync_directory_def mkdir_def mkdir_if_missing_def
    flush_file_def close_file_def remove_entry_def ret_def split: option.split entry.split)

lemma alone_spares: "alone env \<Longrightarrow> spares env K"
  by (auto simp: alone_def spares_def raw_def)

lemma atomic_sync_parents: "alone env \<Longrightarrow> atomic.made p V (sync_parents env q) (\<lambda>_ _. True) s"
  by (induction q arbitrary: s rule: rev_induct)
    (auto intro!: atomic.made_then[OF atomic_calls(2)] atomic.made_control)

lemma atomic_check: "alone env \<Longrightarrow> atomic.made p V (check_directory env q) (\<lambda>_ _. True) s"
  unfolding check_directory_def
  by (auto intro!: atomic.made_bind[OF atomic_calls(1)] atomic.made_control split: entry.split)

lemma atomic_create: "alone env \<Longrightarrow> q \<noteq> p \<Longrightarrow> atomic.made p V (create_directory env q) (\<lambda>_ _. True) s"
  unfolding create_directory_def
  by (rule atomic.made_bind[where P = "\<lambda>_ _. True"])
    (auto intro!: atomic.made_attempt[OF atomic_calls(3)] atomic.made_control split: sum.split)

lemma atomic_enter:
  assumes al: "alone env" and "list_all proper_name ds" and "length q + length ds < length p"
  shows "atomic.made p V (enter_directories env True q ds) (\<lambda>r _. r = q @ ds) s"
  using assms(2,3)
proof (induction ds arbitrary: q s)
  case (Cons d ds q s)
  have "q @ [d] \<noteq> p" using Cons.prems by auto
  moreover have "atomic.made p V (enter_directories env True (q @ [d]) ds) (\<lambda>r _. r = q @ d # ds) t" for t
    using Cons.IH[of "q @ [d]" t] Cons.prems by simp
  ultimately show ?case
    using Cons.prems(1) by (auto simp: Let_def intro!: atomic.made_then[OF atomic_create[OF al]] atomic.made_then[OF atomic_check[OF al]])
qed (simp add: atomic.made_control)

lemma atomic_directory:
  assumes al: "alone env" and d: "proper_dir ds" and p: "length p = Suc (length (parts root) + length ds)"
  shows "atomic.made p V (private_directory env root (dir_name ds) True) (\<lambda>q _. q = parts root @ ds) s"
proof -
  have mk: "atomic.made p V (mkdir_all_private env (parts root)) (\<lambda>_ _. True) t" for t
    unfolding mkdir_all_private_def by (rule atomic.made_each, rule atomic_calls(4)[OF al]) (use p in auto)
  have enter: "atomic.made p V (enter_directories env True (parts root) ds) (\<lambda>q _. q = parts root @ ds) t" for t
    using d p by (intro atomic_enter[OF al]) (simp_all add: proper_dir_def)
  show ?thesis
    unfolding private_directory_def dir_split[OF d] if_not_P[OF dir_clean(2)[OF d]] if_True
    by (intro atomic.made_check) (rule atomic.made_then[OF mk], rule atomic.made_then[OF atomic_check[OF al]],
        rule atomic.made_bind[OF enter], rule atomic.made_then[OF atomic_sync_parents[OF al]], simp add: atomic.made_control)
qed

lemma atomic_link:
  assumes al: "alone env" and temp: "temp \<noteq> p" "entry_at s temp = Some (EFile True c True)"
    and "d = p \<Longrightarrow> Some (EFile True c True) \<in> V"
  shows "atomic.made p V (publish_at env temp d replace) (\<lambda>_ t. entry_at t d = Some (EFile True c True)) s"
proof -
  have "entry_at (begin_call env s) q = entry_at s q" for q using al by (simp add: begin_call_def alone_def entry_at_def)
  with assms(2-) show ?thesis
    by (auto simp: atomic.made_def wp_def publish_at_def sys_def Let_def touches_def
        split: fault.split option.split entry.split)
qed

lemma atomic_fill:
  assumes al: "alone env" and temp: "temp \<in> T" "temp \<noteq> p" "entry_at s temp \<noteq> None"
  shows "atomic.made p V (fill_temp env temp c) (\<lambda>_ t. entry_at t temp = Some (EFile True c True)) s"
proof -
  have "atomic.made p V (fill_temp env temp c) (\<lambda>_ _. True) s"
    unfolding fill_temp_def using temp
    by (intro atomic.made_then[OF atomic_calls(6)[OF al]] atomic.made_then[OF atomic_calls(7)[OF al]] atomic_calls(8)[OF al])
  then show ?thesis
    using wp_fill_temp[OF alone_spares[OF al] temp(1,3), of c]
    unfolding atomic.made_def by (drule_tac wp_conj) (auto elim: wp_mono)
qed

lemma atomic_publish:
  assumes al: "alone env" and d: "proper_dir ds" and b: "record_file b" and q: "record_file q"
    and V: "q = b \<Longrightarrow> Some (EFile True c True) \<in> V"
  shows "atomic.made (record_path root ds q) V (private_publish env root (dir_name ds @ CHR ''/'' # b) c replace)
    (\<lambda>_ t. q = b \<and> V = {Some (EFile True c True)} \<longrightarrow> entry_at t (record_path root ds b) = Some (EFile True c True)) s"
proof -
  let ?p = "record_path root ds q" and ?d = "record_path root ds b" and ?dir = "parts root @ ds"
  from b have pb: "proper_name b" by (simp add: record_file_def)
  have pd: "?d = ?p \<longleftrightarrow> q = b" by (auto simp: record_path_def)
  have other: "temp \<noteq> ?p" if "temp \<in> temporaries ?dir" for temp
    using that sealed_temporaries[of root ds] subsetD[OF sealed_chain[OF q] record_chain_simps(1), of root ds] by blast
  have temp: "atomic.made ?p V (create_temp env ?dir) (\<lambda>t u. t \<in> temporaries ?dir \<and> entry_at u t \<noteq> None) u" for u
    using atomic_calls(5)[OF al other[OF temp_path[of ?dir env "dk_tick u"]], of V u] wp_create_temp[of env ?dir u]
    unfolding atomic.made_def by (drule_tac wp_conj) (auto simp: wp_def create_temp_def split: prod.splits sum.splits)
  have sync: "atomic.made ?p V (sync_directory env ?dir)
      (\<lambda>_ u. q = b \<and> V = {Some (EFile True c True)} \<longrightarrow> entry_at u ?d = Some (EFile True c True)) u"
    if "entry_at u ?d = Some (EFile True c True)" for u
    by (rule atomic.made_weaken[OF atomic_calls(2)[OF al]]) (use that pd in \<open>auto simp: touches_def\<close>)
  have fill: "atomic.made ?p V (ensuring (then_do (fill_temp env t c)
      (then_do (publish_at env t ?d replace) (sync_directory env ?dir))) (remove_entry env t))
      (\<lambda>_ u. q = b \<and> V = {Some (EFile True c True)} \<longrightarrow> entry_at u ?d = Some (EFile True c True)) u"
    if t: "t \<in> temporaries ?dir \<and> entry_at u t \<noteq> None" for t u
  proof (rule atomic.made_ensuring)
    show "atomic.made ?p V (then_do (fill_temp env t c) (then_do (publish_at env t ?d replace) (sync_directory env ?dir)))
      (\<lambda>_ u. q = b \<and> V = {Some (EFile True c True)} \<longrightarrow> entry_at u ?d = Some (EFile True c True)) u"
    proof (rule atomic.made_then[OF atomic_fill[OF al]])
      show tp: "t \<in> temporaries ?dir" "t \<noteq> ?p" "entry_at u t \<noteq> None" using t other by blast+
      fix v assume "entry_at v t = Some (EFile True c True)"
      then show "atomic.made ?p V (then_do (publish_at env t ?d replace) (sync_directory env ?dir))
        (\<lambda>_ u. q = b \<and> V = {Some (EFile True c True)} \<longrightarrow> entry_at u ?d = Some (EFile True c True)) v"
        using tp(2) V pd by (intro atomic.made_then[OF atomic_link[OF al]] sync) blast+
    qed
    show "atomic.made ?p V (remove_entry env t) (\<lambda>_ _. True) x" for x
      using t other by (intro atomic_calls(9)[OF al]) auto
  qed (use pd in \<open>auto simp: touches_def\<close>)
  have dest: "atomic.made ?p V (check_destination env ?d replace) (\<lambda>_ _. True) u" for u
    unfolding check_destination_def
    by (rule atomic.made_bind[where P = "\<lambda>_ _. True"])
      (auto intro!: atomic.made_attempt[OF atomic_calls(1)[OF al]] atomic.made_control atomic.made_check split: sum.split entry.split)
  have join: "join_component ?dir b = ?d" using pb by (simp add: record_path_def)
  show ?thesis
    unfolding private_publish_def record_dir[OF d pb] record_base[OF pb] Let_def
  proof (rule atomic.made_check, rule atomic.made_bind[OF atomic_directory[OF al d]])
    show "length ?p = Suc (length (parts root) + length ds)" by (simp add: record_path_def)
    fix parent u
    assume "parent = ?dir"
    then show "atomic.made ?p V (then_do (check_destination env (join_component parent b) replace)
        (andthen (create_temp env parent) (\<lambda>t. ensuring (then_do (fill_temp env t c)
          (then_do (publish_at env t (join_component parent b) replace) (sync_directory env parent))) (remove_entry env t))))
        (\<lambda>_ u. q = b \<and> V = {Some (EFile True c True)} \<longrightarrow> entry_at u ?d = Some (EFile True c True)) u"
      by (simp only: join) (rule atomic.made_then[OF dest], rule atomic.made_bind[OF temp], erule fill)
  qed
qed

section \<open>Guarantees\<close>

text \<open>A quiet system and an empty disk, on which samples run.\<close>

definition quiet_disk :: disk_env where
  "quiet_disk = \<lparr>de_fault = (\<lambda>n. NoFault), de_others = (\<lambda>n fs. fs), de_temp = (\<lambda>n. ''1''), de_torn = (\<lambda>n. 0)\<rparr>"

definition empty_disk :: disk where
  "empty_disk = \<lparr>dk_now = [], dk_kept = [], dk_tick = 0\<rparr>"

definition sample_disk :: disk where
  "sample_disk = snd (private_publish quiet_disk ''/c'' ''r/a'' ''x'' False empty_disk)"

lemma quiet_disk_simps [evaluate]:
  "de_fault quiet_disk n = NoFault" "de_others quiet_disk n fs = fs" "de_temp quiet_disk n = ''1''"
  by (simp_all add: quiet_disk_def)

lemma quiet_alone [simp]: "alone quiet_disk"
  by (simp add: alone_def evaluate)

lemma quiet_peaceful: "store_root root \<Longrightarrow> peaceful root ds quiet_disk"
  by (simp add: peaceful_def alone_spares)

lemma sample_name: "''r/a'' \<in> record_names [''r'']" "store_root ''/c''" "record_file ''a''" "proper_dir [''r'']"
  by (auto simp: record_names_def record_file_def proper_name_def proper_dir_def dir_name_def store_root_def evaluate
      intro!: exI[of _ "''a''"])

lemma sample_published: "private_publish quiet_disk ''/c'' ''r/a'' ''x'' False empty_disk = (Inr (), sample_disk)"
  by (rule prod_eqI) (simp_all add: sample_disk_def empty_disk_def evaluate)

lemma crashed_refl: "crashed s s"
  by (simp add: crashed_def survivor_def)

text \<open>C13: a record whose publication succeeded is there, whole, after a crash at any later time,
  whatever faults and whatever publications of other records came in between.\<close>

theorem published_record_survives:
  assumes "peaceful root ds env" and "n \<in> record_names ds"
    and "private_publish env root n v False s = (Inr (), t)" and "evolves (sealed root ds) t u" and "crashed u x"
  shows "record_content root x n = Some v"
  by (rule private_store.published_survives[OF assms])

theorem published_record_survives_witness: "record_content ''/c'' sample_disk ''r/a'' = Some ''x''"
  by (rule published_record_survives[OF quiet_peaceful[OF sample_name(2)] sample_name(1) sample_published disk.refl crashed_refl])

text \<open>C14: a publication, replacing or not, is atomic: whether it succeeds or fails at any of its
  system calls, the destination is afterwards as it was before, or it is the whole new record.\<close>

theorem publish_is_atomic:
  assumes "alone env" and "proper_dir ds" and "record_file b"
    and "private_publish env root (dir_name ds @ CHR ''/'' # b) v replace s = (r, t)"
  shows "entry_at t (record_path root ds b) = entry_at s (record_path root ds b)
    \<or> entry_at t (record_path root ds b) = Some (EFile True v True)"
  using atomic.made_state[OF atomic_publish[OF assms(1-3,3), where V = "{Some (EFile True v True)}" and root = root and c = v
      and replace = replace and s = s]] assms(4)
  by (auto simp: touches_def)

theorem publish_is_atomic_witness:
  "entry_at sample_disk (record_path ''/c'' [''r''] ''a'') = entry_at empty_disk (record_path ''/c'' [''r''] ''a'')
    \<or> entry_at sample_disk (record_path ''/c'' [''r''] ''a'') = Some (EFile True ''x'' True)"
  using publish_is_atomic[OF quiet_alone sample_name(4,3), of "''/c''" "''x''" False empty_disk] sample_published
  by (simp add: dir_name_def)

end
