(* ===== verification/SshKeyGuarantees.thy ===== *)
theory SshKeyGuarantees
  imports SshKey PrivateStore
begin

text \<open>
  What theory SshKey guarantees: exactly the canonical texts of Ed25519 wire keys are accepted,
  the key of a preparation is the same on every retry, and a published credential is the private
  key of the retained seed.
\<close>

section \<open>Base64 round trip\<close>

lemma code_char: "char_of (code c) = c" "m < 256 \<Longrightarrow> code (char_of m) = m"
  by (simp_all add: code_def)

lemma code_symbols: "code CHR ''+'' = 43" "code CHR ''/'' = 47" "code CHR ''='' = 61"
  by (simp_all add: code_def)

lemma b64_value_char: "n < 64 \<Longrightarrow> b64_value (b64_char n) = Some n"
  by (cases "n < 26"; cases "n < 52"; cases "n < 62"; cases "n = 62")
    (simp_all add: b64_char_def b64_value_def Let_def between_def code_char code_symbols, linarith)

lemma b64_char_code: "n < 64 \<Longrightarrow> code (b64_char n) \<notin> {61, 10, 13}"
  by (cases "n < 26"; cases "n < 52"; cases "n < 62"; cases "n = 62")
    (simp_all add: b64_char_def code_char code_symbols, linarith)

lemma b64_char_safe: "n < 64 \<Longrightarrow> b64_char n \<noteq> CHR ''='' \<and> b64_char n \<noteq> char_of (10 :: nat) \<and> b64_char n \<noteq> char_of (13 :: nat)"
  using b64_char_code[of n] code_symbols(3) code_char(2)[of 10] code_char(2)[of 13] by auto

lemma b64_parts:
  "code a div 4 < 64" "code a mod 4 * 16 + code b div 16 < 64" "code b mod 16 * 4 + code c div 64 < 64" "code c mod 64 < 64"
  "code a mod 4 * 16 < 64" "code b mod 16 * 4 < 64"
  using code_lt[of a] code_lt[of b] code_lt[of c] by simp_all

lemma b64_group_full:
  "b64_group (b64_char (code a div 4)) (b64_char (code a mod 4 * 16 + code b div 16))
     (b64_char (code b mod 16 * 4 + code c div 64)) (b64_char (code c mod 64)) f = Some [a, b, c]"
proof -
  have "code a div 4 * 4 + (code a mod 4 * 16 + code b div 16) div 16 = code a"
    "(code a mod 4 * 16 + code b div 16) mod 16 * 16 + (code b mod 16 * 4 + code c div 64) div 4 = code b"
    "(code b mod 16 * 4 + code c div 64) mod 4 * 64 + code c mod 64 = code c"
    using code_lt[of a] code_lt[of b] code_lt[of c] by simp_all
  then show ?thesis by (simp add: b64_group_def b64_value_char b64_parts code_char)
qed

lemma not_line_break: "CHR ''='' \<noteq> char_of (10 :: nat)" "CHR ''='' \<noteq> char_of (13 :: nat)"
  using code_symbols(3) code_char(2)[of 10] code_char(2)[of 13] by auto

lemma filter_encoded:
  "filter (\<lambda>c. c \<noteq> char_of (10 :: nat) \<and> c \<noteq> char_of (13 :: nat)) (base64_encode s) = base64_encode s"
  by (induction s rule: base64_encode.induct)
    (simp_all add: b64_char_safe[OF b64_parts(1)] b64_char_safe[OF b64_parts(2)] b64_char_safe[OF b64_parts(3)]
      b64_char_safe[OF b64_parts(4)] b64_char_safe[OF b64_parts(5)] b64_char_safe[OF b64_parts(6)] not_line_break)

lemma base64_groups_encode: "length s mod 3 = 0 \<Longrightarrow> base64_groups (base64_encode s) = Some s"
  by (induction s rule: base64_encode.induct) (simp_all add: b64_group_full mod_Suc split: if_splits)

lemma base64_round_trip: "length s mod 3 = 0 \<Longrightarrow> base64_decode (base64_encode s) = Some s"
  by (simp add: base64_decode_def filter_encoded base64_groups_encode)

lemma base64_length: "length s mod 3 = 0 \<Longrightarrow> length (base64_encode s) = length s div 3 * 4"
proof (induction s rule: base64_encode.induct)
  case (1 a b c rest)
  then show ?case by (simp add: div_add_self1[of 3 "length rest", simplified])
qed (simp_all add: mod_Suc)

section \<open>Canonical keys\<close>

lemma big_endian_four: "big_endian [a, b, c, d] = code a * 2 ^ 24 + code b * 2 ^ 16 + code c * 2 ^ 8 + code d"
  by (simp add: big_endian_def)

lemma big_endian_small:
  assumes "length s = 4" and "big_endian s = n" and "n < 256"
  shows "s = [char_of (0 :: nat), char_of (0 :: nat), char_of (0 :: nat), char_of n]"
proof -
  from assms(1) obtain a b c d where s: "s = [a, b, c, d]"
    by (auto simp: numeral_eq_Suc length_Suc_conv)
  with assms(2,3) have "code a = 0" "code b = 0" "code c = 0" "code d = n"
    by (auto simp: big_endian_four)
  then show ?thesis using s code_char(1) by metis
qed

lemma ssh_string_small: "length v < 256 \<Longrightarrow>
    ssh_string v = [char_of (0 :: nat), char_of (0 :: nat), char_of (0 :: nat), char_of (length v)] @ v"
  by (simp add: ssh_string_def)

lemma key_type_length: "length key_type = 11"
  by (simp add: key_type_def)

lemma key_wire_eq: "length k = 32 \<Longrightarrow> key_wire k =
    ([char_of (0 :: nat), char_of (0 :: nat), char_of (0 :: nat), char_of (11 :: nat)] @ key_type)
    @ ([char_of (0 :: nat), char_of (0 :: nat), char_of (0 :: nat), char_of (32 :: nat)] @ k)"
  by (simp add: key_wire_def ssh_string_small key_type_length)

lemma split_wire:
  assumes len: "length w = wire_length" and t: "big_endian (take 4 w) = 11" "take 11 (drop 4 w) = key_type"
    and k: "big_endian (take 4 (drop 15 w)) = 32"
  shows "length (drop 19 w) = 32 \<and> w = key_wire (drop 19 w)"
proof -
  have n: "length (drop 19 w) = 32" using len by (simp add: wire_length_def)
  have "take 4 w = [char_of (0 :: nat), char_of (0 :: nat), char_of (0 :: nat), char_of (11 :: nat)]"
    "take 4 (drop 15 w) = [char_of (0 :: nat), char_of (0 :: nat), char_of (0 :: nat), char_of (32 :: nat)]"
    using len t(1) k by (auto intro!: big_endian_small simp: wire_length_def)
  moreover have "drop 15 w = take 4 (drop 15 w) @ drop 19 w" "drop 4 w = take 11 (drop 4 w) @ drop 15 w"
    using append_take_drop_id[of 4 "drop 15 w"] append_take_drop_id[of 11 "drop 4 w"] by simp_all
  then have "w = take 4 w @ take 11 (drop 4 w) @ take 4 (drop 15 w) @ drop 19 w"
    using append_take_drop_id[of 4 w] by simp
  ultimately show ?thesis using n t(2) by (simp add: key_wire_eq)
qed

lemma public_wire_of_key:
  assumes "length k = 32"
  shows "public_wire (key_type @ '' '' @ base64_encode (key_wire k)) = Inr (key_wire k)"
proof -
  have len: "length (key_wire k) = 51" by (simp add: key_wire_eq[OF assms] key_type_length assms)
  have "big_endian (take 4 (key_wire k)) = 11" "take 11 (drop 4 (key_wire k)) = key_type"
    "big_endian (take 4 (drop 15 (key_wire k))) = 32"
    by (simp_all add: key_wire_eq[OF assms] key_type_length big_endian_four code_char)
  moreover have "drop 12 (key_type @ '' '' @ base64_encode (key_wire k)) = base64_encode (key_wire k)"
    by (simp add: key_type_length)
  moreover have "has_prefix (key_type @ '' '' @ base64_encode (key_wire k)) (key_type @ '' '')"
    by (auto simp: has_prefix_iff)
  ultimately show ?thesis
    using base64_round_trip[of "key_wire k"] base64_length[of "key_wire k"] len
    by (simp add: public_wire_def wire_length_def key_type_length)
qed

text \<open>C31: a text is accepted as a public key exactly when it is the OpenSSH line, without comment
  or variation, of an Ed25519 key of 32 bytes, and the wire bytes are those of that key.\<close>

theorem public_key_accepted_iff:
  "public_wire v = Inr w \<longleftrightarrow> (\<exists>k. length k = 32 \<and> w = key_wire k \<and> v = key_type @ '' '' @ base64_encode w)"
proof
  assume accepted: "public_wire v = Inr w"
  then have "has_prefix v (key_type @ '' '')" and dec: "base64_encode w = drop 12 v"
    and fields: "length w = wire_length" "big_endian (take 4 w) = 11" "take 11 (drop 4 w) = key_type"
      "big_endian (take 4 (drop 15 w)) = 32"
    by (auto simp: public_wire_def Let_def split: if_splits option.splits)
  then have "v = key_type @ '' '' @ base64_encode w"
    by (auto simp: has_prefix_iff key_type_length)
  with split_wire[OF fields] show "\<exists>k. length k = 32 \<and> w = key_wire k \<and> v = key_type @ '' '' @ base64_encode w" by blast
next
  assume "\<exists>k. length k = 32 \<and> w = key_wire k \<and> v = key_type @ '' '' @ base64_encode w"
  then show "public_wire v = Inr w" using public_wire_of_key by blast
qed

section \<open>Reserved keys\<close>

lemma made_look: "(\<And>a. a = g s \<Longrightarrow> Q a s) \<Longrightarrow> disk.made K (look g) Q s"
  by (simp add: disk.made_def wp_look disk.refl)

lemma made_of_resI: "(\<And>a. r = Inr a \<Longrightarrow> Q a s) \<Longrightarrow> disk.made K (of_res r) Q s"
  by (simp add: disk.made_def wp_of_res disk.refl split: sum.split)

lemma made_fetch:
  assumes "peaceful root ds env" and "n \<in> record_names ds" and "flushed_in (sealed root ds) s"
  shows "disk.made (sealed root ds) (read_durable env root n lim) (\<lambda>c t. record_content root t n = Some c) s"
  by (rule disk.made_weaken[OF made_record_read[OF assms]]) (rule content_stored)

lemma flushed_evolves: "evolves (sealed root ds) s t \<Longrightarrow> flushed_in (sealed root ds) s \<Longrightarrow> flushed_in (sealed root ds) t"
  by (rule private_store.later_sound)

text \<open>The seed a call uses is the seed that is on disk when it returns.\<close>

lemma made_create_seed:
  assumes "peaceful root ds env" and "n \<in> record_names ds" and "flushed_in (sealed root ds) s"
  shows "disk.made (sealed root ds) (create_seed lib env root n) (\<lambda>seed t. record_content root t n = Some seed) s"
proof -
  have publish: "disk.made (sealed root ds) (attempt (private_publish env root n c False)) (\<lambda>_ _. True) t" for c t
    by (rule disk.made_attempt[OF made_record_publish[OF assms(1,2)]]) simp_all
  have read: "disk.made (sealed root ds) (attempt (read_durable env root n seed_size))
      (\<lambda>r u. case r of Inl e \<Rightarrow> True | Inr c \<Rightarrow> record_content root u n = Some c) t" if "evolves (sealed root ds) s t" for t
    by (rule disk.made_attempt[OF made_fetch[OF assms(1,2) flushed_evolves[OF that assms(3)]]]) simp_all
  show ?thesis unfolding create_seed_def
    by (rule disk.made_bind[OF made_look[of dk_tick _ "\<lambda>_ _. True"]], simp,
        rule disk.made_bind[OF made_of_resI[where Q = "\<lambda>_ _. True"]], simp,
        rule disk.made_bind[OF publish], rule disk.made_bind[OF read])
      (blast intro: disk.trans disk.refl, auto intro!: disk.made_control split: sum.split)
qed

lemma made_reserved:
  assumes "peaceful root ds env" and "n \<in> record_names ds" and "flushed_in (sealed root ds) s"
  shows "disk.made (sealed root ds) (reserved lib env root n create)
    (\<lambda>key t. \<exists>seed. record_content root t n = Some seed \<and> key = key_from_seed lib seed) s"
proof -
  have read: "disk.made (sealed root ds) (attempt (read_durable env root n seed_size))
      (\<lambda>r u. case r of Inl e \<Rightarrow> True | Inr c \<Rightarrow> record_content root u n = Some c) s"
    by (rule disk.made_attempt[OF made_fetch[OF assms]]) simp_all
  have seed: "disk.made (sealed root ds) (case r of
        Inl e \<Rightarrow> if err_is e NotExist \<and> create then create_seed lib env root n else fail e
      | Inr seed \<Rightarrow> ret seed) (\<lambda>seed u. record_content root u n = Some seed) t"
    if "evolves (sealed root ds) s t" and "case r of Inl e \<Rightarrow> True | Inr c \<Rightarrow> record_content root t n = Some c" for r t
    using that made_create_seed[OF assms(1,2) flushed_evolves[OF that(1) assms(3)]]
    by (auto intro: disk.made_control split: sum.split)
  show ?thesis unfolding reserved_def
    by (rule disk.made_bind[OF read], rule disk.made_bind[OF seed]) (auto intro: disk.made_control)
qed

text \<open>C18: the reserved key of a preparation is the same on every retry. Whatever faults, crashes of
  this process and other processes' records come in between, two calls that succeed return the
  key of the one seed that was stored first.\<close>

theorem reserved_key_is_final:
  assumes "peaceful root ds env" and "n \<in> record_names ds" and "flushed_in (sealed root ds) s"
    and "reserved lib env root n c s = (Inr key, t)" and "evolves (sealed root ds) t u"
    and "reserved lib env root n c' u = (Inr key', x)"
  shows "key' = key"
proof -
  from disk.made_result[OF made_reserved[OF assms(1-3)] assms(4)] obtain seed where
    st: "evolves (sealed root ds) s t" and seed: "record_content root t n = Some seed" "key = key_from_seed lib seed" by blast
  from flushed_evolves[OF disk.trans[OF st assms(5)] assms(3)]
  have "flushed_in (sealed root ds) u" .
  from disk.made_result[OF made_reserved[OF assms(1,2) this] assms(6)] obtain seed' where
    ux: "evolves (sealed root ds) u x" and seed': "record_content root x n = Some seed'" "key' = key_from_seed lib seed'" by blast
  from content_evolves[OF disk.trans[OF assms(5) ux] assms(2) seed(1)] seed seed' show ?thesis by simp
qed

definition sample_library :: key_library where
  "sample_library = \<lparr>kl_sha = (\<lambda>s. replicate 64 CHR ''a''), kl_private_key = (\<lambda>s. s @ s), kl_pem = (\<lambda>s. s),
     kl_random = (\<lambda>n. Inr (replicate 32 CHR ''x''))\<rparr>"

lemma sample_library_simps [evaluate]: "kl_random sample_library n = Inr (replicate 32 CHR ''x'')"
  by (simp add: sample_library_def)

lemma reserved_evaluate [evaluate]: "seed_size = 32"
  by (simp add: seed_size_def)

definition seeded_disk :: disk where
  "seeded_disk = snd (reserved sample_library quiet_disk ''/c'' ''r/a'' True empty_disk)"

lemma reserved_once:
  "reserved sample_library quiet_disk ''/c'' ''r/a'' True empty_disk = (Inr (key_from_seed sample_library (replicate 32 CHR ''x'')), seeded_disk)"
  by (rule prod_eqI) (simp_all add: seeded_disk_def reserved_def create_seed_def empty_disk_def evaluate)

lemma reserved_twice:
  "fst (reserved sample_library quiet_disk ''/c'' ''r/a'' False seeded_disk) = Inr (key_from_seed sample_library (replicate 32 CHR ''x''))"
  by (simp add: seeded_disk_def reserved_def create_seed_def empty_disk_def evaluate)

lemma empty_flushed: "flushed_in K empty_disk"
  by (simp add: flushed_in_def empty_disk_def entry_at_def raw_def)

theorem reserved_key_is_final_witness:
  "\<exists>key. fst (reserved sample_library quiet_disk ''/c'' ''r/a'' True empty_disk) = Inr key
    \<and> fst (reserved sample_library quiet_disk ''/c'' ''r/a'' False seeded_disk) = Inr key"
proof -
  obtain key x where "reserved sample_library quiet_disk ''/c'' ''r/a'' False seeded_disk = (Inr key, x)"
    using reserved_twice by (metis prod.collapse)
  then show ?thesis
    using reserved_key_is_final[OF quiet_peaceful[OF sample_name(2)] sample_name(1) empty_flushed reserved_once disk.refl]
      reserved_once by auto
qed

section \<open>Publishing a credential\<close>

text \<open>A credential lies two directories below the root.\<close>

definition credential_dirs :: "string \<Rightarrow> string list" where
  "credential_dirs fp = [''credentials'', fp]"

lemma hex_name:
  assumes "hex64 fp"
  shows "proper_name fp"
proof -
  have "length fp = 64" "list_all hex_char fp" using assms by (simp_all add: hex64_def run_of_def)
  moreover have "\<not> hex_char CHR ''/''" by (simp add: evaluate)
  ultimately show ?thesis by (auto simp: proper_name_def list_all_iff)
qed

definition credential_name :: "string \<Rightarrow> string" where
  "credential_name fp = dir_name (credential_dirs fp) @ CHR ''/'' # ''id_ed25519''"

lemma credential_proper: "hex64 fp \<Longrightarrow> proper_dir (credential_dirs fp)"
  using hex_name by (simp add: proper_dir_def credential_dirs_def) (simp add: proper_name_def)

lemma credential_record:
  assumes "hex64 fp"
  shows "credential_path fp = Inr (credential_name fp)" "credential_name fp \<in> record_names (credential_dirs fp)"
proof -
  show "credential_path fp = Inr (credential_name fp)"
    using assms by (simp add: credential_path_def credential_name_def credential_dirs_def dir_name_def)
  have "record_file ''id_ed25519''" by (simp add: record_file_def proper_name_def evaluate)
  moreover have "proper_dir (credential_dirs fp)"
    using hex_name[OF assms] by (simp add: proper_dir_def credential_dirs_def) (simp add: proper_name_def)
  ultimately show "credential_name fp \<in> record_names (credential_dirs fp)"
    unfolding credential_name_def record_names_def by blast
qed

text \<open>When the publication of a reserved key succeeds, the credential file holds the private key
  and lasts, even if the file was there before or a part of the publication failed; a file with
  other contents makes it fail.\<close>

theorem published_key_is_stored:
  assumes fp: "key_fingerprint (kl_sha lib) (rk_public_key key) = Inr fp" "hex64 fp"
    and env: "peaceful root (credential_dirs fp) env" "flushed_in (sealed root (credential_dirs fp)) s"
    and t: "key_publish lib env key root s = (Inr (), t)"
  shows "stored t root (credential_dirs fp) ''id_ed25519'' (rk_private key)"
proof -
  let ?K = "sealed root (credential_dirs fp)" and ?n = "credential_name fp"
  let ?Q = "\<lambda>_ t. stored t root (dirs_of ?n) (path_base ?n) (rk_private key)"
  have n: "dirs_of ?n = credential_dirs fp" "path_base ?n = ''id_ed25519''"
    using credential_record(2)[OF fp(2)] unfolding credential_name_def
    by (auto simp: record_names_def record_file_def dirs_of_record record_base)
  have publish: "disk.made ?K (attempt (private_publish env root ?n c False)) (\<lambda>_ _. True) u" for c u
    by (rule disk.made_attempt[OF made_record_publish[OF env(1) credential_record(2)[OF fp(2)]]]) simp_all
  have read: "disk.made ?K (read_durable env root ?n max_key_bytes) (\<lambda>c t. stored t root (dirs_of ?n) (path_base ?n) c) u"
    if "evolves ?K s u" for u
    by (rule made_record_read[OF env(1) credential_record(2)[OF fp(2)] flushed_evolves[OF that env(2)]])
  have verify: "disk.made ?K (key_verify lib env key root) ?Q u" if "evolves ?K s u" for u
    unfolding key_verify_def fp(1) credential_record(1)[OF fp(2)] Let_def
    by (auto intro!: disk.made_control disk.made_bind[OF made_of_resI[where Q = "\<lambda>x _. x = fp"]]
        disk.made_bind[OF read[OF disk.trans[OF that]]]
        simp: credential_record(1)[OF fp(2)])
  have attempt: "disk.made ?K (attempt (key_verify lib env key root))
      (\<lambda>r u. case r of Inl e \<Rightarrow> True | Inr x \<Rightarrow> ?Q () u) u" if "evolves ?K s u" for u
    by (rule disk.made_attempt[OF verify[OF that]]) simp_all
  have "disk.made ?K (key_publish lib env key root) ?Q s"
    unfolding key_publish_def fp(1) Let_def
    by (auto intro!: disk.made_control disk.made_bind[OF made_of_resI[where Q = "\<lambda>x _. x = fp"]]
        disk.made_bind[OF publish] disk.made_bind[OF attempt] split: sum.split simp: credential_record(1)[OF fp(2)])
      (blast intro: disk.trans)
  from disk.made_result[OF this t] show ?thesis by (simp add: n)
qed

definition sample_key :: reserved_key where
  "sample_key = \<lparr>rk_public_key = key_type @ '' '' @ base64_encode (key_wire (replicate 32 CHR ''k'')), rk_private = ''p''\<rparr>"

definition sample_fingerprint :: string where
  "sample_fingerprint = replicate 64 CHR ''a''"

lemma sample_fingerprint_hex: "hex64 sample_fingerprint" "sample_fingerprint \<noteq> ''''"
  by (simp_all add: sample_fingerprint_def hex64_def run_of_def list_all_iff) (simp add: evaluate)

lemma sample_key_fingerprint: "key_fingerprint (kl_sha sample_library) (rk_public_key sample_key) = Inr sample_fingerprint"
  using public_wire_of_key[of "replicate 32 CHR ''k''"]
  by (simp add: key_fingerprint_def sample_key_def sample_library_def sample_fingerprint_def)

text \<open>The path of a credential, computed with the fingerprint as a symbol.\<close>

lemma credential_parts:
  assumes "hex64 fp"
  shows "path_dir (credential_name fp) = dir_name (credential_dirs fp)" "path_base (credential_name fp) = ''id_ed25519''"
    "split_on CHR ''/'' (dir_name (credential_dirs fp)) = [''credentials'', fp]" "join_component p fp = p @ [fp]"
    "store_root root \<Longrightarrow> joined root (credential_name fp) = parts root @ [''credentials'', fp, ''id_ed25519'']"
proof -
  have d: "proper_dir (credential_dirs fp)" and b: "proper_name ''id_ed25519''"
    using credential_proper[OF assms] by (simp_all add: proper_name_def)
  show "path_dir (credential_name fp) = dir_name (credential_dirs fp)" unfolding credential_name_def by (rule record_dir[OF d b])
  show "path_base (credential_name fp) = ''id_ed25519''" unfolding credential_name_def by (rule record_base[OF b])
  show "split_on CHR ''/'' (dir_name (credential_dirs fp)) = [''credentials'', fp]" using dir_split[OF d] by (simp add: credential_dirs_def)
  show "join_component p fp = p @ [fp]" using hex_name[OF assms] by (rule proper_join)
  show "store_root root \<Longrightarrow> joined root (credential_name fp) = parts root @ [''credentials'', fp, ''id_ed25519'']"
    using record_joined[OF _ d b] by (simp add: credential_name_def credential_dirs_def)
qed

lemma sample_root: "parts ''/c'' = [''c'']" "has_prefix ''/c'' ''/''" "path_clean ''/c'' = ''/c''"
  "join_component [''c''] ''credentials'' = [''c'', ''credentials'']" "join_component p ''id_ed25519'' = p @ [''id_ed25519'']"
  by (simp_all add: evaluate)

lemma sample_key_published:
  "key_publish sample_library quiet_disk sample_key ''/c'' empty_disk
    = (Inr (), snd (key_publish sample_library quiet_disk sample_key ''/c'' empty_disk))"
proof -
  have "length (rk_private sample_key) = 1" "rk_private sample_key \<noteq> ''''" by (simp_all add: sample_key_def)
  then have "fst (key_publish sample_library quiet_disk sample_key ''/c'' empty_disk) = Inr ()"
    using sample_key_fingerprint credential_record(1)[OF sample_fingerprint_hex(1)]
      credential_parts[OF sample_fingerprint_hex(1)] dir_clean[OF credential_proper[OF sample_fingerprint_hex(1)]]
    by (simp add: key_publish_def key_verify_def max_key_bytes_def empty_disk_def sample_root sample_name(2) evaluate
        del: path_dir_def path_base_def parts_def join_component_def path_clean_def has_prefix_def joined_def split_on.simps)
  then show ?thesis by (simp add: prod_eq_iff)
qed

theorem published_key_is_stored_witness:
  "stored (snd (key_publish sample_library quiet_disk sample_key ''/c'' empty_disk)) ''/c''
     (credential_dirs sample_fingerprint) ''id_ed25519'' (rk_private sample_key)"
  by (rule published_key_is_stored[OF sample_key_fingerprint sample_fingerprint_hex(1)
      quiet_peaceful[OF sample_name(2)] empty_flushed sample_key_published])

end
