(* ===== verification/Target.thy ===== *)
theory Target
  imports WindowsTarget LinuxTarget SshKey JsonRender JsonDecode
begin

text \<open>
  \<open>internal/target\<close>: the configuration of one remote host (\<open>target.go\<close>), its connection
  (\<open>connection.go\<close>) and the store of named targets (\<open>store.go\<close>) in the private storage. Arguments
  of the model: the upper-casing of code points, \<open>net.ParseIP\<close>, the JSON parser and SHA-256.
\<close>

record target_lib =
  tl_up :: "nat \<Rightarrow> nat"
  tl_ip :: "string \<Rightarrow> bool"
  tl_parse :: "string \<Rightarrow> json option"
  tl_sha :: "string \<Rightarrow> string"

section \<open>Connections\<close>

record direct_ssh =
  ds_host :: string
  ds_port :: "16 word"
  ds_user :: string
  ds_host_public_key :: string
  ds_client_public_key_hash :: string

record connection =
  cn_alias :: string
  cn_direct :: "direct_ssh option"

definition ssh_alias_pattern :: "string \<Rightarrow> bool" where
  "ssh_alias_pattern s = led_run is_alnum (\<lambda>c. is_alnum c \<or> c \<in> set ''_.-'') 63 s"

definition hostname_pattern :: "string \<Rightarrow> bool" where
  "hostname_pattern s = led_run is_alnum (\<lambda>c. is_alnum c \<or> c \<in> set ''.-'') 252 s"

definition direct_user_pattern :: "string \<Rightarrow> bool" where
  "direct_user_pattern s = led_run is_alnum (\<lambda>c. is_alnum c \<or> c \<in> {CHR ''_'', CHR ''.'', CHR 0x5C, CHR ''-''}) 127 s"

definition direct_validate :: "target_lib \<Rightarrow> direct_ssh \<Rightarrow> err option" where
  "direct_validate lib d =
    first_err
     [check ((\<not> hostname_pattern (ds_host d) \<and> \<not> tl_ip lib (ds_host d)) \<or> ds_port d = 0 \<or> \<not> direct_user_pattern (ds_user d))
        ''invalid paired SSH endpoint'',
      check (canonical_public_key (ds_host_public_key d) \<noteq> Inr (ds_host_public_key d))
        ''paired SSH requires a canonical Ed25519 host public key'',
      check (\<not> hex64 (ds_client_public_key_hash d)) ''invalid paired client public-key fingerprint'']"

definition connection_validate :: "target_lib \<Rightarrow> connection \<Rightarrow> err option" where
  "connection_validate lib c =
    (case cn_direct c of
       None \<Rightarrow> check (\<not> ssh_alias_pattern (cn_alias c)) ''target ssh_alias is unsafe''
     | Some d \<Rightarrow>
         or_else (check (cn_alias c \<noteq> '''') ''paired connection cannot contain an SSH alias'') (direct_validate lib d))"

definition alias_connection :: "target_lib \<Rightarrow> string \<Rightarrow> connection \<times> err option" where
  "alias_connection lib a = (let c = \<lparr>cn_alias = a, cn_direct = None\<rparr> in (c, connection_validate lib c))"

definition paired_connection :: "target_lib \<Rightarrow> direct_ssh \<Rightarrow> connection \<times> err option" where
  "paired_connection lib d = (let c = \<lparr>cn_alias = '''', cn_direct = Some d\<rparr> in (c, connection_validate lib c))"

section \<open>Targets\<close>

record target =
  tg_connection :: connection
  tg_platform :: string
  tg_alias :: string
  tg_windows :: windows_config
  tg_linux :: linux_config

definition zero_windows :: windows_config where
  "zero_windows = \<lparr>wt_ssh_user = '''', wt_interactive_user = '''', wt_work_root = '''', wt_task_name = '''',
     wt_blender_executable = '''', wt_session_broker_executable = '''', wt_host_executable = ''''\<rparr>"

definition zero_linux :: linux_config where
  "zero_linux = \<lparr>lt_distribution = '''', lt_uid = 0, lt_home = '''', lt_work_root = '''', lt_host_executable = '''',
     lt_blender_executable = '''', lt_unit_name = '''', lt_desktop = \<lparr>ld_display = '''', ld_xauthority = ''''\<rparr>,
     lt_daemon = \<lparr>dr_venv_root = '''', dr_python_executable = '''', dr_provenance_id = ''''\<rparr>\<rparr>"

definition zero_connection :: connection where
  "zero_connection = \<lparr>cn_alias = '''', cn_direct = None\<rparr>"

definition target_connection :: "target \<Rightarrow> connection" where
  "target_connection t =
    (if cn_direct (tg_connection t) \<noteq> None then tg_connection t else \<lparr>cn_alias = tg_alias t, cn_direct = None\<rparr>)"

definition target_validate :: "target_lib \<Rightarrow> target \<Rightarrow> err option" where
  "target_validate lib t =
    first_err
     [check (tg_platform t \<noteq> ''windows'' \<and> tg_platform t \<noteq> ''linux'') ''target platform must be windows or linux'',
      connection_validate lib (target_connection t),
      (if tg_platform t = ''linux'' then linux_validate (tg_linux t) else windows_validate (tl_up lib) (tg_windows t))]"

definition checked_target :: "target_lib \<Rightarrow> target \<Rightarrow> err + target" where
  "checked_target lib t = guard_res (target_validate lib t) (Inr t)"

definition new_windows :: "target_lib \<Rightarrow> string \<Rightarrow> windows_config \<Rightarrow> err + target" where
  "new_windows lib a config = checked_target lib
     \<lparr>tg_connection = zero_connection, tg_platform = ''windows'', tg_alias = a, tg_windows = config, tg_linux = zero_linux\<rparr>"

definition new_linux :: "target_lib \<Rightarrow> string \<Rightarrow> linux_config \<Rightarrow> err + target" where
  "new_linux lib a config = checked_target lib
     \<lparr>tg_connection = zero_connection, tg_platform = ''linux'', tg_alias = a, tg_windows = zero_windows, tg_linux = config\<rparr>"

definition new_paired :: "target_lib \<Rightarrow> target \<Rightarrow> direct_ssh \<Rightarrow> err + target" where
  "new_paired lib installed d =
    (case paired_connection lib d of
       (c, Some e) \<Rightarrow> Inl e
     | (c, None) \<Rightarrow> checked_target lib (installed\<lparr>tg_alias := '''', tg_connection := c\<rparr>))"

section \<open>JSON form\<close>

definition windows_members :: "windows_config \<Rightarrow> (string \<times> json) list" where
  "windows_members w =
     [(''ssh_user'', JStr (wt_ssh_user w)), (''interactive_user'', JStr (wt_interactive_user w)),
      (''work_root'', JStr (wt_work_root w)), (''task_name'', JStr (wt_task_name w)),
      (''blender_executable'', JStr (wt_blender_executable w)),
      (''session_broker_executable'', JStr (wt_session_broker_executable w)),
      (''host_executable'', JStr (wt_host_executable w))]"

definition linux_members :: "linux_config \<Rightarrow> (string \<times> json) list" where
  "linux_members l =
     [(''distribution'', JStr (lt_distribution l)), (''uid'', JNum (uint (lt_uid l))), (''home'', JStr (lt_home l)),
      (''work_root'', JStr (lt_work_root l)), (''host_executable'', JStr (lt_host_executable l)),
      (''blender_executable'', JStr (lt_blender_executable l)), (''unit_name'', JStr (lt_unit_name l)),
      (''desktop'', JObj [(''display'', JStr (ld_display (lt_desktop l))), (''xauthority'', JStr (ld_xauthority (lt_desktop l)))]),
      (''daemon'', JObj [(''venv_root'', JStr (dr_venv_root (lt_daemon l))),
         (''python_executable'', JStr (dr_python_executable (lt_daemon l))),
         (''provenance_id'', JStr (dr_provenance_id (lt_daemon l)))])]"

definition direct_members :: "direct_ssh \<Rightarrow> (string \<times> json) list" where
  "direct_members d =
     [(''host'', JStr (ds_host d)), (''port'', JNum (uint (ds_port d))), (''user'', JStr (ds_user d)),
      (''host_public_key'', JStr (ds_host_public_key d)), (''client_public_key_hash'', JStr (ds_client_public_key_hash d))]"

definition config_member :: "target \<Rightarrow> string \<times> json" where
  "config_member t =
    (if tg_platform t = ''linux'' then (''linux'', JObj (linux_members (tg_linux t)))
     else (''windows'', JObj (windows_members (tg_windows t))))"

definition target_json :: "target_lib \<Rightarrow> target \<Rightarrow> err + json" where
  "target_json lib t =
    guard_res (target_validate lib t)
      (Inr (case cn_direct (target_connection t) of
         Some d \<Rightarrow> JObj [(''schema_version'', JNum 3), (''platform'', JStr (tg_platform t)),
            (''ssh'', JObj (direct_members d)), config_member t]
       | None \<Rightarrow> JObj [(''schema_version'', JNum 2), (''platform'', JStr (tg_platform t)),
            (''ssh_alias'', JStr (tg_alias t)), config_member t]))"

text \<open>\<open>Fingerprint\<close> ignores an encoding error, which leaves the bytes empty.\<close>

definition target_fingerprint :: "target_lib \<Rightarrow> target \<Rightarrow> string" where
  "target_fingerprint lib t =
    tl_sha lib (''blender-box-target-v1'' @ [char_of (0 :: nat)] @ (case target_json lib t of Inl e \<Rightarrow> '''' | Inr v \<Rightarrow> render v))"

section \<open>Decoding\<close>

definition windows_names :: "string list" where
  "windows_names = [''ssh_user'', ''interactive_user'', ''work_root'', ''task_name'', ''blender_executable'',
     ''session_broker_executable'', ''host_executable'']"

definition linux_names :: "string list" where
  "linux_names = [''distribution'', ''uid'', ''home'', ''work_root'', ''host_executable'', ''blender_executable'', ''unit_name'',
     ''desktop'', ''daemon'']"

definition decode_windows :: "(string \<times> json) list \<Rightarrow> err + windows_config" where
  "decode_windows kvs =
    bind_res (get_str (field_of ''ssh_user'' kvs)) (\<lambda>user.
    bind_res (get_str (field_of ''interactive_user'' kvs)) (\<lambda>interactive.
    bind_res (get_str (field_of ''work_root'' kvs)) (\<lambda>root.
    bind_res (get_str (field_of ''task_name'' kvs)) (\<lambda>task.
    bind_res (get_str (field_of ''blender_executable'' kvs)) (\<lambda>blender.
    bind_res (get_str (field_of ''session_broker_executable'' kvs)) (\<lambda>broker.
    bind_res (get_str (field_of ''host_executable'' kvs)) (\<lambda>host.
      Inr \<lparr>wt_ssh_user = user, wt_interactive_user = interactive, wt_work_root = root, wt_task_name = task,
        wt_blender_executable = blender, wt_session_broker_executable = broker, wt_host_executable = host\<rparr>)))))))"

definition decode_desktop :: "json option \<Rightarrow> err + linux_desktop" where
  "decode_desktop j =
    bind_res (get_struct [''display'', ''xauthority''] j) (\<lambda>kvs.
    bind_res (get_str (field_of ''display'' kvs)) (\<lambda>display.
    bind_res (get_str (field_of ''xauthority'' kvs)) (\<lambda>auth.
      Inr \<lparr>ld_display = display, ld_xauthority = auth\<rparr>)))"

definition decode_daemon :: "json option \<Rightarrow> err + daemon_runtime" where
  "decode_daemon j =
    bind_res (get_struct [''venv_root'', ''python_executable'', ''provenance_id''] j) (\<lambda>kvs.
    bind_res (get_str (field_of ''venv_root'' kvs)) (\<lambda>venv.
    bind_res (get_str (field_of ''python_executable'' kvs)) (\<lambda>python.
    bind_res (get_str (field_of ''provenance_id'' kvs)) (\<lambda>provenance.
      Inr \<lparr>dr_venv_root = venv, dr_python_executable = python, dr_provenance_id = provenance\<rparr>))))"

definition decode_linux :: "json option \<Rightarrow> err + linux_config" where
  "decode_linux j =
    bind_res (get_struct linux_names j) (\<lambda>kvs.
    bind_res (get_str (field_of ''distribution'' kvs)) (\<lambda>distribution.
    bind_res (get_word (field_of ''uid'' kvs)) (\<lambda>uid.
    bind_res (get_str (field_of ''home'' kvs)) (\<lambda>home.
    bind_res (get_str (field_of ''work_root'' kvs)) (\<lambda>root.
    bind_res (get_str (field_of ''host_executable'' kvs)) (\<lambda>host.
    bind_res (get_str (field_of ''blender_executable'' kvs)) (\<lambda>blender.
    bind_res (get_str (field_of ''unit_name'' kvs)) (\<lambda>unit.
    bind_res (decode_desktop (field_of ''desktop'' kvs)) (\<lambda>desktop.
    bind_res (decode_daemon (field_of ''daemon'' kvs)) (\<lambda>daemon.
      Inr \<lparr>lt_distribution = distribution, lt_uid = uid, lt_home = home, lt_work_root = root, lt_host_executable = host,
        lt_blender_executable = blender, lt_unit_name = unit, lt_desktop = desktop, lt_daemon = daemon\<rparr>))))))))))"

definition decode_direct :: "json option \<Rightarrow> err + direct_ssh" where
  "decode_direct j =
    bind_res (get_struct [''host'', ''port'', ''user'', ''host_public_key'', ''client_public_key_hash''] j) (\<lambda>kvs.
    bind_res (get_str (field_of ''host'' kvs)) (\<lambda>host.
    bind_res (get_word (field_of ''port'' kvs)) (\<lambda>port.
    bind_res (get_str (field_of ''user'' kvs)) (\<lambda>user.
    bind_res (get_str (field_of ''host_public_key'' kvs)) (\<lambda>key.
    bind_res (get_str (field_of ''client_public_key_hash'' kvs)) (\<lambda>hash.
      Inr \<lparr>ds_host = host, ds_port = port, ds_user = user, ds_host_public_key = key, ds_client_public_key_hash = hash\<rparr>))))))"

text \<open>The wire structs of the versions. All of them are read from the one parsed document.\<close>

definition decode_version_1 :: "target_lib \<Rightarrow> json \<Rightarrow> err + target" where
  "decode_version_1 lib v =
    bind_res (get_struct ([''schema_version'', ''ssh_alias''] @ windows_names) (Some v)) (\<lambda>kvs.
    bind_res (get_int (field_of ''schema_version'' kvs)) (\<lambda>n.
    bind_res (get_str (field_of ''ssh_alias'' kvs)) (\<lambda>a.
    bind_res (decode_windows kvs) (new_windows lib a))))"

definition decode_version_2 :: "target_lib \<Rightarrow> json \<Rightarrow> string \<Rightarrow> err + target" where
  "decode_version_2 lib v platform =
    (let names = [''schema_version'', ''platform'', ''ssh_alias''] in
     if platform = ''linux'' then
       bind_res (get_struct (names @ [''linux'']) (Some v)) (\<lambda>kvs.
       bind_res (get_int (field_of ''schema_version'' kvs)) (\<lambda>n.
       bind_res (get_str (field_of ''platform'' kvs)) (\<lambda>p.
       bind_res (get_str (field_of ''ssh_alias'' kvs)) (\<lambda>a.
       bind_res (decode_linux (field_of ''linux'' kvs)) (new_linux lib a)))))
     else
       bind_res (get_struct (names @ [''windows'']) (Some v)) (\<lambda>kvs.
       bind_res (get_int (field_of ''schema_version'' kvs)) (\<lambda>n.
       bind_res (get_str (field_of ''platform'' kvs)) (\<lambda>p.
       bind_res (get_str (field_of ''ssh_alias'' kvs)) (\<lambda>a.
       bind_res (get_struct windows_names (field_of ''windows'' kvs)) (\<lambda>ws.
       bind_res (decode_windows ws) (\<lambda>w.
         if p \<noteq> ''windows'' then Inl (Msg ''unsupported target platform'') else new_windows lib a w)))))))"

definition decode_version_3 :: "target_lib \<Rightarrow> json \<Rightarrow> string \<Rightarrow> err + target" where
  "decode_version_3 lib v platform =
    (let names = [''schema_version'', ''platform'', ''ssh''];
         bare = \<lparr>tg_connection = zero_connection, tg_platform = ''linux'', tg_alias = '''', tg_windows = zero_windows, tg_linux = zero_linux\<rparr> in
     if platform = ''linux'' then
       bind_res (get_struct (names @ [''linux'']) (Some v)) (\<lambda>kvs.
       bind_res (get_int (field_of ''schema_version'' kvs)) (\<lambda>n.
       bind_res (get_str (field_of ''platform'' kvs)) (\<lambda>p.
       bind_res (decode_direct (field_of ''ssh'' kvs)) (\<lambda>d.
       bind_res (decode_linux (field_of ''linux'' kvs)) (\<lambda>l. new_paired lib (bare\<lparr>tg_linux := l\<rparr>) d)))))
     else
       bind_res (get_struct (names @ [''windows'']) (Some v)) (\<lambda>kvs.
       bind_res (get_int (field_of ''schema_version'' kvs)) (\<lambda>n.
       bind_res (get_str (field_of ''platform'' kvs)) (\<lambda>p.
       bind_res (decode_direct (field_of ''ssh'' kvs)) (\<lambda>d.
       bind_res (get_struct windows_names (field_of ''windows'' kvs)) (\<lambda>ws.
       bind_res (decode_windows ws) (\<lambda>w. new_paired lib (bare\<lparr>tg_platform := p, tg_windows := w\<rparr>) d)))))))"

text \<open>\<open>Decode\<close>; \<open>json.Unmarshal\<close> of a missing raw member is an error.\<close>

definition max_document_size :: nat where "max_document_size = 64 * 2 ^ 10"

definition decode_target_value :: "target_lib \<Rightarrow> json \<Rightarrow> err + target" where
  "decode_target_value lib v =
    (case v of
       JObj kvs \<Rightarrow>
         (case map_of kvs ''schema_version'' of
            Some (JNum n) \<Rightarrow>
              if n = 1 then decode_version_1 lib v
              else if n = 2 \<or> n = 3 then
                (case map_of kvs ''platform'' of
                   Some (JStr p) \<Rightarrow> if n = 2 then decode_version_2 lib v p else decode_version_3 lib v p
                 | _ \<Rightarrow> Inl (Msg ''invalid target platform''))
              else Inl (Msg ''target schema_version must be 1, 2 or 3'')
          | _ \<Rightarrow> Inl (Msg ''invalid target schema_version''))
     | _ \<Rightarrow> Inl (Msg ''parse target''))"

definition decode_target :: "target_lib \<Rightarrow> string \<Rightarrow> err + target" where
  "decode_target lib content =
    (if max_document_size < length content then Inl (Msg ''target exceeds size limit'')
     else bind_res (strict_value (tl_parse lib) content) (decode_target_value lib))"

lemmas target_evaluate [evaluate] = ssh_alias_pattern_def hostname_pattern_def direct_user_pattern_def direct_validate_def
  connection_validate_def zero_connection_def target_connection_def target_validate_def checked_target_def
  new_windows_def new_linux_def new_paired_def paired_connection_def

end
