(* ===== verification/TargetCodec.thy ===== *)
theory TargetCodec
  imports Target
begin

text \<open>
  The JSON form of targets: every struct that \<open>MarshalJSON\<close> writes is read back by \<open>Decode\<close>, and the
  document passes the strict admission scan.
\<close>

lemma windows_fields: "canonical_fields (windows_members w)"
  by (simp add: canonical_fields_def windows_members_def canonical_key_def evaluate)

lemma linux_fields: "canonical_fields (linux_members w)"
  by (simp add: canonical_fields_def linux_members_def canonical_key_def evaluate)

lemma direct_fields: "canonical_fields (direct_members w)"
  by (simp add: canonical_fields_def direct_members_def canonical_key_def evaluate)

lemma windows_lookup:
  "field_of ''ssh_user'' (windows_members w) = Some (JStr (wt_ssh_user w))"
  "field_of ''interactive_user'' (windows_members w) = Some (JStr (wt_interactive_user w))"
  "field_of ''work_root'' (windows_members w) = Some (JStr (wt_work_root w))"
  "field_of ''task_name'' (windows_members w) = Some (JStr (wt_task_name w))"
  "field_of ''blender_executable'' (windows_members w) = Some (JStr (wt_blender_executable w))"
  "field_of ''session_broker_executable'' (windows_members w) = Some (JStr (wt_session_broker_executable w))"
  "field_of ''host_executable'' (windows_members w) = Some (JStr (wt_host_executable w))"
  by (rule field_of_member[OF windows_fields], simp add: windows_members_def)+

lemma decode_windows_members: "decode_windows (windows_members w) = Inr w"
  by (simp add: decode_windows_def windows_lookup)

lemma desktop_fields: "canonical_fields [(''display'', a), (''xauthority'', b)]"
  by (simp add: canonical_fields_def canonical_key_def evaluate)

lemma daemon_fields: "canonical_fields [(''venv_root'', a), (''python_executable'', b), (''provenance_id'', c)]"
  by (simp add: canonical_fields_def canonical_key_def evaluate)

lemma desktop_lookup:
  "field_of ''display'' [(''display'', a), (''xauthority'', b)] = Some a"
  "field_of ''xauthority'' [(''display'', a), (''xauthority'', b)] = Some b"
  by (rule field_of_member[OF desktop_fields], simp)+

lemma daemon_lookup:
  "field_of ''venv_root'' [(''venv_root'', a), (''python_executable'', b), (''provenance_id'', c)] = Some a"
  "field_of ''python_executable'' [(''venv_root'', a), (''python_executable'', b), (''provenance_id'', c)] = Some b"
  "field_of ''provenance_id'' [(''venv_root'', a), (''python_executable'', b), (''provenance_id'', c)] = Some c"
  by (rule field_of_member[OF daemon_fields], simp)+

lemma linux_lookup:
  "field_of ''distribution'' (linux_members l) = Some (JStr (lt_distribution l))"
  "field_of ''uid'' (linux_members l) = Some (JNum (uint (lt_uid l)))"
  "field_of ''home'' (linux_members l) = Some (JStr (lt_home l))"
  "field_of ''work_root'' (linux_members l) = Some (JStr (lt_work_root l))"
  "field_of ''host_executable'' (linux_members l) = Some (JStr (lt_host_executable l))"
  "field_of ''blender_executable'' (linux_members l) = Some (JStr (lt_blender_executable l))"
  "field_of ''unit_name'' (linux_members l) = Some (JStr (lt_unit_name l))"
  "field_of ''desktop'' (linux_members l) = Some (JObj [(''display'', JStr (ld_display (lt_desktop l))), (''xauthority'', JStr (ld_xauthority (lt_desktop l)))])"
  "field_of ''daemon'' (linux_members l) = Some (JObj [(''venv_root'', JStr (dr_venv_root (lt_daemon l))),
         (''python_executable'', JStr (dr_python_executable (lt_daemon l))),
         (''provenance_id'', JStr (dr_provenance_id (lt_daemon l)))])"
  by (rule field_of_member[OF linux_fields], simp add: linux_members_def)+

lemma decode_linux_members: "decode_linux (Some (JObj (linux_members l))) = Inr l"
proof -
  have "known_fields linux_names (linux_members l)" by (rule known_members) (simp add: linux_members_def linux_names_def)
  then show ?thesis
    by (simp add: decode_linux_def decode_desktop_def decode_daemon_def linux_lookup desktop_lookup daemon_lookup known_members)
qed

lemma direct_lookup:
  "field_of ''host'' (direct_members d) = Some (JStr (ds_host d))"
  "field_of ''port'' (direct_members d) = Some (JNum (uint (ds_port d)))"
  "field_of ''user'' (direct_members d) = Some (JStr (ds_user d))"
  "field_of ''host_public_key'' (direct_members d) = Some (JStr (ds_host_public_key d))"
  "field_of ''client_public_key_hash'' (direct_members d) = Some (JStr (ds_client_public_key_hash d))"
  by (rule field_of_member[OF direct_fields], simp add: direct_members_def)+

lemma decode_direct_members: "decode_direct (Some (JObj (direct_members d))) = Inr d"
proof -
  have "known_fields [''host'', ''port'', ''user'', ''host_public_key'', ''client_public_key_hash''] (direct_members d)"
    by (rule known_members) (simp add: direct_members_def)
  then show ?thesis by (simp add: decode_direct_def direct_lookup)
qed

text \<open>Targets in the form the constructors give them: the configuration of the other platform is zero.\<close>

definition canonical_target :: "target \<Rightarrow> bool" where
  "canonical_target t \<longleftrightarrow>
    (if tg_platform t = ''linux'' then tg_windows t = zero_windows else tg_linux t = zero_linux) \<and>
    (case cn_direct (tg_connection t) of
       None \<Rightarrow> tg_connection t = zero_connection
     | Some d \<Rightarrow> tg_alias t = '''' \<and> cn_alias (tg_connection t) = '''')"

definition document :: "int \<Rightarrow> string \<Rightarrow> string \<Rightarrow> json \<Rightarrow> string \<Rightarrow> json \<Rightarrow> (string \<times> json) list" where
  "document n p key c platform d =
     [(''schema_version'', JNum n), (''platform'', JStr p), (key, c), (platform, d)]"

definition document_keys :: "string \<Rightarrow> string \<Rightarrow> bool" where
  "document_keys key platform \<longleftrightarrow> key \<in> {''ssh'', ''ssh_alias''} \<and> platform \<in> {''linux'', ''windows''}"

lemma document_keys [simp]: "document_keys ''ssh'' ''linux''" "document_keys ''ssh'' ''windows''"
    "document_keys ''ssh_alias'' ''linux''" "document_keys ''ssh_alias'' ''windows''"
  by (simp_all add: document_keys_def)

lemma document_fields: "document_keys key platform \<Longrightarrow> canonical_fields (document n p key c platform d)"
  by (auto simp: document_keys_def document_def canonical_fields_def canonical_key_def evaluate)

lemma document_lookup:
  assumes "document_keys key platform"
  shows "field_of ''schema_version'' (document n p key c platform d) = Some (JNum n)"
    and "field_of ''platform'' (document n p key c platform d) = Some (JStr p)"
    and "field_of key (document n p key c platform d) = Some c"
    and "field_of platform (document n p key c platform d) = Some d"
  using assms by (intro field_of_member[OF document_fields[OF assms]]; auto simp: document_def document_keys_def)+

lemma document_known: "known_fields [''schema_version'', ''platform'', key, platform] (document n p key c platform d)"
  by (rule known_members) (simp add: document_def)

lemma int_ok_versions [simp]: "int_ok 1" "int_ok 2" "int_ok 3"
  by (simp_all add: int_ok_def)

lemma windows_known: "known_fields windows_names (windows_members w)"
  by (rule known_members) (simp add: windows_names_def windows_members_def)

lemmas document_decode = document_lookup document_known decode_linux_members decode_windows_members
  decode_direct_members windows_known

lemma decode_linux_document:
  "decode_version_2 lib (JObj (document 2 p ''ssh_alias'' (JStr a) ''linux'' (JObj (linux_members l)))) ''linux'' = new_linux lib a l"
  by (simp add: decode_version_2_def document_decode)

lemma decode_windows_document:
  "decode_version_2 lib (JObj (document 2 ''windows'' ''ssh_alias'' (JStr a) ''windows'' (JObj (windows_members w)))) ''windows''
    = new_windows lib a w"
  by (simp add: decode_version_2_def document_decode)

lemma decode_paired_linux:
  "decode_version_3 lib (JObj (document 3 p ''ssh'' (JObj (direct_members d)) ''linux'' (JObj (linux_members l)))) ''linux''
    = new_paired lib \<lparr>tg_connection = zero_connection, tg_platform = ''linux'',
       tg_alias = '''', tg_windows = zero_windows, tg_linux = l\<rparr> d"
  by (simp add: decode_version_3_def document_decode)

lemma decode_paired_windows:
  "decode_version_3 lib (JObj (document 3 p ''ssh'' (JObj (direct_members d)) ''windows'' (JObj (windows_members w)))) ''windows''
    = new_paired lib \<lparr>tg_connection = zero_connection, tg_platform = p,
       tg_alias = '''', tg_windows = w, tg_linux = zero_linux\<rparr> d"
  by (simp add: decode_version_3_def document_decode)

text \<open>The constructors give back a valid canonical target.\<close>

lemma new_canonical:
  assumes "target_validate lib t = None" and "canonical_target t"
  shows "cn_direct (tg_connection t) = None \<Longrightarrow> tg_platform t = ''linux'' \<Longrightarrow> new_linux lib (tg_alias t) (tg_linux t) = Inr t"
    and "cn_direct (tg_connection t) = None \<Longrightarrow> tg_platform t = ''windows'' \<Longrightarrow> new_windows lib (tg_alias t) (tg_windows t) = Inr t"
  using assms by (cases t; auto simp: new_linux_def new_windows_def checked_target_def canonical_target_def guard_res_def)+

lemma paired_canonical:
  assumes valid: "target_validate lib t = None" and canonical: "canonical_target t" and d: "cn_direct (tg_connection t) = Some d"
  shows "tg_platform t = ''linux'' \<Longrightarrow> new_paired lib \<lparr>tg_connection = zero_connection, tg_platform = ''linux'',
       tg_alias = '''', tg_windows = zero_windows, tg_linux = tg_linux t\<rparr> d = Inr t"
    and "tg_platform t = ''windows'' \<Longrightarrow> new_paired lib \<lparr>tg_connection = zero_connection, tg_platform = ''windows'',
       tg_alias = '''', tg_windows = tg_windows t, tg_linux = zero_linux\<rparr> d = Inr t"
proof -
  have conn: "tg_connection t = \<lparr>cn_alias = '''', cn_direct = Some d\<rparr>"
    using canonical d by (cases "tg_connection t") (auto simp: canonical_target_def)
  then have "connection_validate lib \<lparr>cn_alias = '''', cn_direct = Some d\<rparr> = None"
    using valid by (auto simp: target_validate_def target_connection_def or_else_def split: option.splits)
  with conn valid canonical
  show "tg_platform t = ''linux'' \<Longrightarrow> new_paired lib \<lparr>tg_connection = zero_connection, tg_platform = ''linux'',
       tg_alias = '''', tg_windows = zero_windows, tg_linux = tg_linux t\<rparr> d = Inr t"
    and "tg_platform t = ''windows'' \<Longrightarrow> new_paired lib \<lparr>tg_connection = zero_connection, tg_platform = ''windows'',
       tg_alias = '''', tg_windows = tg_windows t, tg_linux = zero_linux\<rparr> d = Inr t"
    by (cases t; auto simp: new_paired_def paired_connection_def checked_target_def canonical_target_def guard_res_def)+
qed

lemma target_json_form:
  assumes "target_json lib t = Inr v"
  shows "target_validate lib t = None" "tg_platform t = ''linux'' \<or> tg_platform t = ''windows''"
    "v = JObj (case cn_direct (tg_connection t) of
        Some d \<Rightarrow> document 3 (tg_platform t) ''ssh'' (JObj (direct_members d)) (fst (config_member t)) (snd (config_member t))
      | None \<Rightarrow> document 2 (tg_platform t) ''ssh_alias'' (JStr (tg_alias t)) (fst (config_member t)) (snd (config_member t)))"
  using assms
  by (auto simp: target_json_def guard_res_def target_connection_def document_def target_validate_def check_def or_else_def
      split: option.splits if_splits)

lemma members_keyed:
  assumes "canonical_fields kvs" and "list_all (well_keyed (\<lambda>t. t \<noteq> TNull) canonical_key) (map snd kvs)"
  shows "well_keyed (\<lambda>t. t \<noteq> TNull) canonical_key (JObj kvs)"
  using assms by (auto simp: canonical_fields_def list_all_iff)

lemma config_keyed:
  "well_keyed (\<lambda>t. t \<noteq> TNull) canonical_key (JObj (windows_members w))"
  "well_keyed (\<lambda>t. t \<noteq> TNull) canonical_key (JObj (direct_members d))"
  "well_keyed (\<lambda>t. t \<noteq> TNull) canonical_key (JObj (linux_members l))"
  by (rule members_keyed[OF windows_fields], simp add: windows_members_def)
    (rule members_keyed[OF direct_fields], simp add: direct_members_def,
     rule members_keyed[OF linux_fields], simp add: linux_members_def canonical_key_def evaluate)

lemma document_keyed:
  assumes "document_keys key platform" and "well_keyed (\<lambda>t. t \<noteq> TNull) canonical_key c" and "well_keyed (\<lambda>t. t \<noteq> TNull) canonical_key d"
  shows "well_keyed (\<lambda>t. t \<noteq> TNull) canonical_key (JObj (document n p key c platform d))"
  by (rule members_keyed[OF document_fields[OF assms(1)]]) (simp add: document_def assms)

lemma target_reads_back:
  assumes "target_json lib t = Inr v" and "canonical_target t"
  shows "well_keyed (\<lambda>t. t \<noteq> TNull) canonical_key v" "decode_target_value lib v = Inr t"
proof -
  note form = target_json_form[OF assms(1)]
  show "well_keyed (\<lambda>t. t \<noteq> TNull) canonical_key v"
    unfolding form(3) using form(2) by (auto simp: config_member_def config_keyed document_keyed simp del: well_keyed.simps(1,2) split: option.splits)
  have "decode_target_value lib v = (case cn_direct (tg_connection t) of None \<Rightarrow> decode_version_2 lib v (tg_platform t)
      | Some d \<Rightarrow> decode_version_3 lib v (tg_platform t))"
    unfolding form(3) by (simp add: decode_target_value_def document_def split: option.splits)
  also have "\<dots> = Inr t"
    using form(2) new_canonical[OF form(1) assms(2)] paired_canonical[OF form(1) assms(2)]
    unfolding form(3)
    by (auto simp: config_member_def decode_linux_document decode_windows_document decode_paired_linux decode_paired_windows
       split: option.splits)
  finally show "decode_target_value lib v = Inr t" .
qed

text \<open>C32: a valid target that encodes is read back from its JSON form unchanged, whether it is
  reached by an alias or paired, and its document passes the strict admission scan.\<close>

theorem target_round_trip:
  assumes "target_json lib t = Inr v" and "canonical_target t"
  shows "strict_admits (tokens v) = None \<and> decode_target_value lib v = Inr t"
  using target_reads_back[OF assms] strict_admits_keyed by blast

definition sample_target :: target where
  "sample_target = \<lparr>tg_connection = zero_connection, tg_platform = ''linux'', tg_alias = ''box'', tg_windows = zero_windows,
     tg_linux = sample_linux\<rparr>"

definition sample_target_lib :: target_lib where
  "sample_target_lib = \<lparr>tl_up = id, tl_ip = (\<lambda>s. False), tl_parse = (\<lambda>s. None), tl_sha = (\<lambda>s. '''')\<rparr>"

lemma sample_alias: "ssh_alias_pattern ''box''"
  by (simp add: evaluate)

lemma sample_target_valid: "target_validate sample_target_lib sample_target = None" "canonical_target sample_target"
  by (simp_all add: sample_target_def canonical_target_def zero_connection_def target_validate_def target_connection_def
      connection_validate_def sample_alias sample_linux_valid check_def or_else_def)

theorem target_round_trip_witness:
  "\<exists>v. target_json sample_target_lib sample_target = Inr v \<and> strict_admits (tokens v) = None
     \<and> decode_target_value sample_target_lib v = Inr sample_target"
proof -
  obtain v where "target_json sample_target_lib sample_target = Inr v"
    using sample_target_valid(1) by (simp add: target_json_def)
  then show ?thesis using target_round_trip[OF _ sample_target_valid(2)] by blast
qed

end
