(* ===== verification/TargetStore.thy ===== *)
theory TargetStore
  imports TargetCodec PrivateStore "HOL-Library.List_Lexorder" "HOL-Library.Char_ord"
begin

text \<open>
  \<open>internal/target/store.go\<close>: the named targets of the controller, one private file
  \<open>targets/<name>.json\<close> for each. The environment and \<open>os.UserConfigDir\<close> are arguments.
\<close>

definition reserved_target_name :: "string \<Rightarrow> bool" where
  "reserved_target_name name \<longleftrightarrow> name \<in> {''con'', ''prn'', ''aux'', ''nul''}
    \<or> (length name = 4 \<and> take 3 name \<in> {''com'', ''lpt''} \<and> name ! 3 \<in> set ''123456789'')"

definition validate_target_name :: "string \<Rightarrow> err option" where
  "validate_target_name name =
    check (\<not> led_run is_lower (\<lambda>c. is_lower c \<or> is_digit c \<or> c \<in> set ''_-'') 62 name \<or> reserved_target_name name)
      ''invalid target name''"

definition config_dir :: "string option \<Rightarrow> err + string \<Rightarrow> err + string" where
  "config_dir variable user_dir =
    (case variable of
       Some root \<Rightarrow> guard_res (check (\<not> has_prefix root ''/'') ''BLENDER_BOX_CONFIG_DIR must be absolute'') (Inr (path_clean root))
     | None \<Rightarrow> bind_res user_dir (\<lambda>root. Inr (path_clean (root @ ''/blender-box''))))"

definition profile_path :: "string \<Rightarrow> string" where
  "profile_path name = path_clean (''targets/'' @ name @ ''.json'')"

text \<open>A wrapped error of an operation.\<close>

definition wrapping :: "string \<Rightarrow> 'a dact \<Rightarrow> 'a dact" where
  "wrapping m act s = (case act s of (Inl e, t) \<Rightarrow> (Inl (Wrap m e), t) | (Inr a, t) \<Rightarrow> (Inr a, t))"

definition target_load :: "target_lib \<Rightarrow> disk_env \<Rightarrow> string \<Rightarrow> target dact" where
  "target_load lib env source =
    andthen (wrapping ''read target'' (read_source env (parts (path_clean source)) max_document_size)) (\<lambda>content.
      of_res (decode_target lib content))"

definition store_save :: "target_lib \<Rightarrow> disk_env \<Rightarrow> string \<Rightarrow> string \<Rightarrow> target \<Rightarrow> bool \<Rightarrow> target dact" where
  "store_save lib env root name selected replace =
    then_do (refuse (validate_target_name name))
    (andthen (of_res (target_json lib selected)) (\<lambda>v.
     andthen (attempt (private_publish env root (profile_path name) (render v @ [CHR 0x0A]) replace)) (\<lambda>r.
       case r of
         Inl e \<Rightarrow> if err_is e Exist then fail (Wrap ''target name already exists; use --replace'' e)
                  else fail (Wrap ''import target'' e)
       | Inr u \<Rightarrow> ret selected)))"

definition store_import :: "target_lib \<Rightarrow> disk_env \<Rightarrow> string \<Rightarrow> string \<Rightarrow> string \<Rightarrow> bool \<Rightarrow> target dact" where
  "store_import lib env root name source replace =
    then_do (refuse (validate_target_name name))
    (andthen (target_load lib env source) (\<lambda>selected. store_save lib env root name selected replace))"

definition store_show :: "target_lib \<Rightarrow> disk_env \<Rightarrow> string \<Rightarrow> string \<Rightarrow> target dact" where
  "store_show lib env root name =
    then_do (refuse (validate_target_name name))
    (andthen (wrapping ''read saved target'' (private_read env root (profile_path name) max_document_size)) (\<lambda>content.
      of_res (decode_target lib content)))"

definition store_show_durable :: "target_lib \<Rightarrow> disk_env \<Rightarrow> string \<Rightarrow> string \<Rightarrow> target dact" where
  "store_show_durable lib env root name =
    then_do (refuse (validate_target_name name))
    (andthen (wrapping ''read durable saved target'' (read_durable env root (profile_path name) max_document_size)) (\<lambda>content.
      of_res (decode_target lib content)))"

definition store_resolve :: "target_lib \<Rightarrow> disk_env \<Rightarrow> string \<Rightarrow> string \<Rightarrow> target dact" where
  "store_resolve lib env root name = store_show lib env root name"

text \<open>\<open>os.ReadDir\<close> sorts by file name.\<close>

definition entries_in :: "disk \<Rightarrow> path \<Rightarrow> string list" where
  "entries_in s d = sort (remdups (map (\<lambda>pe. last (fst pe)) (filter (\<lambda>pe. in_directory d (fst pe)) (dk_now s))))"

definition read_dir :: "disk_env \<Rightarrow> path \<Rightarrow> string list dact" where
  "read_dir env d = sys env (\<lambda>s. if is_directory s d then (Inr (entries_in s d), s) else (Inl NotExist, s))"

fun list_entries :: "target_lib \<Rightarrow> disk_env \<Rightarrow> string \<Rightarrow> string list \<Rightarrow> (string \<times> string) list dact" where
  "list_entries lib env root [] = ret []"
| "list_entries lib env root (f # fs) =
    (if has_prefix f ''.pending-'' then list_entries lib env root fs
     else if \<not> has_suffix f ''.json'' then fail (Msg ''unexpected saved target entry'')
     else let name = take (length f - 5) f in
       andthen (store_show lib env root name) (\<lambda>selected.
       andthen (list_entries lib env root fs) (\<lambda>entries. ret ((name, tg_platform selected) # entries))))"

definition store_list :: "target_lib \<Rightarrow> disk_env \<Rightarrow> string \<Rightarrow> (string \<times> string) list dact" where
  "store_list lib env root =
    andthen (attempt (private_directory env root ''targets'' False)) (\<lambda>r.
      case r of
        Inl e \<Rightarrow> if err_is e NotExist then ret [] else fail e
      | Inr d \<Rightarrow>
          andthen (read_dir env d) (\<lambda>names.
          andthen (list_entries lib env root names) (\<lambda>entries. ret (sort_key fst entries))))"

definition store_forget :: "target_lib \<Rightarrow> disk_env \<Rightarrow> string \<Rightarrow> string \<Rightarrow> target dact" where
  "store_forget lib env root name =
    andthen (store_show lib env root name) (\<lambda>selected.
      then_do (private_remove env root (profile_path name) max_document_size) (ret selected))"

end
