(* ===== verification/Plan.thy ===== *)
theory Plan
  imports RunContract TargetStore
begin

text \<open>
  \<open>internal/orchestrator/plan.go\<close>: the plan of a Run, computed from target and payload without
  contacting the host, and the comparison of a host's inspection with it.
\<close>

record planned_capture =
  pc_kind :: string
  pc_path :: string
  pc_capability :: string
  pc_privacy_sensitive :: bool

record planned_ui_batch =
  pb_schema_version :: int
  pb_count :: nat
  pb_timeout_seconds :: int
  pb_capability :: string

record ui_action_support =
  us_capability :: string
  us_supported :: bool

record plan_result =
  pn_ui_actions :: "planned_ui_batch option"
  pn_schema_version :: int
  pn_status :: string
  pn_payload_schema_version :: int
  pn_file_count :: nat
  pn_captures :: "planned_capture list"
  pn_expected_evidence :: "string list"

record capture_support =
  ct_kind :: string
  ct_capability :: string
  ct_supported :: bool

record host_problem =
  hp_class :: string
  hp_check :: string
  hp_message :: string
  hp_next :: string

record host_inspection =
  hi_ui_actions :: "ui_action_support option"
  hi_schema_version :: int
  hi_status :: string
  hi_captures :: "capture_support list"
  hi_problems :: "host_problem list"

record host_requirements =
  hq_ui_actions :: bool
  hq_payload_schema_version :: int
  hq_captures :: "string list"

record doctor_result =
  dc_schema_version :: int
  dc_status :: string
  dc_plan :: plan_result
  dc_host :: host_inspection

text \<open>The loop over the captures, with whether a UI batch is planned.\<close>

definition planned_of :: "capture_definition \<Rightarrow> planned_capture" where
  "planned_of d = \<lparr>pc_kind = cd_kind d, pc_path = cd_evidence_path d, pc_capability = cd_capability d,
     pc_privacy_sensitive = cd_privacy_sensitive d\<rparr>"

fun plan_captures :: "bool \<Rightarrow> string list \<Rightarrow> err + planned_capture list" where
  "plan_captures ui [] = Inr []"
| "plan_captures ui (kind # kinds) =
    (case describe kind of
       None \<Rightarrow> Inl (Msg ''unsupported capture kind'')
     | Some d \<Rightarrow>
         bind_res (plan_captures ui kinds) (\<lambda>rest.
           Inr (if kind = BlenderWindow \<and> ui
                then (planned_of d)\<lparr>pc_path := ui_before_path\<rparr> # (planned_of d)\<lparr>pc_path := ui_after_path\<rparr> # rest
                else planned_of d # rest)))"

definition plan :: "target_lib \<Rightarrow> target \<Rightarrow> payload \<Rightarrow> err + plan_result" where
  "plan lib selected p =
    (let sc = pl_scenario p in
     guard_res (wrap_err ''invalid target'' (target_validate lib selected))
     (guard_res (wrap_err ''invalid payload'' (payload_validate (tl_up lib) (tl_sha lib) p))
     (guard_res (if tg_platform selected = ''linux'' then validate_linux_scenario sc else None)
     (bind_res (plan_captures (sc_ui_actions sc \<noteq> None) (captures sc)) (\<lambda>planned.
       Inr \<lparr>pn_ui_actions = map_option (\<lambda>b. \<lparr>pb_schema_version = ba_schema_version b, pb_count = length (ba_actions b),
               pb_timeout_seconds = ba_timeout_seconds b, pb_capability = ui_capability\<rparr>) (sc_ui_actions sc),
            pn_schema_version = 1, pn_status = ''pass'', pn_payload_schema_version = pl_schema_version p,
            pn_file_count = length (pl_files p), pn_captures = planned,
            pn_expected_evidence = EvidenceScenarioResult
              # (if sc_ui_actions sc \<noteq> None then [EvidenceUIActions] else []) @ captures sc\<rparr>)))))"

definition planned_kinds :: "plan_result \<Rightarrow> string list" where
  "planned_kinds p = map pc_kind (pn_captures p)"

definition host_requirements_of :: "plan_result \<Rightarrow> host_requirements" where
  "host_requirements_of p = \<lparr>hq_ui_actions = pn_ui_actions p \<noteq> None,
     hq_payload_schema_version = pn_payload_schema_version p, hq_captures = planned_kinds p\<rparr>"

text \<open>The map of supported kinds; a later entry of the inspection replaces an earlier one, and the
  capability of an absent kind is the empty string.\<close>

definition supported_capability :: "capture_support list \<Rightarrow> string \<Rightarrow> string" where
  "supported_capability cs kind =
    (case find (\<lambda>c. ct_supported c \<and> ct_kind c = kind) (rev cs) of None \<Rightarrow> '''' | Some c \<Rightarrow> ct_capability c)"

definition inspection_supports :: "host_inspection \<Rightarrow> planned_capture list \<Rightarrow> bool" where
  "inspection_supports i planned \<longleftrightarrow> hi_schema_version i = 1 \<and> hi_status i = ''pass''
     \<and> list_all (\<lambda>p. supported_capability (hi_captures i) (pc_kind p) = pc_capability p) planned"

definition ui_inspection_supports :: "host_inspection \<Rightarrow> bool \<Rightarrow> bool" where
  "ui_inspection_supports i required \<longleftrightarrow> \<not> required
     \<or> (case hi_ui_actions i of None \<Rightarrow> False | Some u \<Rightarrow> us_capability u = ui_capability \<and> us_supported u)"

text \<open>\<open>Doctor\<close>, with the host's \<open>Inspect\<close> as an argument (\<open>None\<close> when there is no host).\<close>

definition doctor ::
    "target_lib \<Rightarrow> (target \<Rightarrow> host_requirements \<Rightarrow> ('h, host_inspection) act) option \<Rightarrow> target \<Rightarrow> payload \<Rightarrow> ('h, doctor_result) act" where
  "doctor lib inspect selected p =
    andthen (of_res (plan lib selected p)) (\<lambda>pn.
      case inspect of
        None \<Rightarrow> fail (Msg ''host adapter is unavailable'')
      | Some f \<Rightarrow>
          andthen (f selected (host_requirements_of pn)) (\<lambda>i.
            ret \<lparr>dc_schema_version = 1,
              dc_status = (if inspection_supports i (pn_captures pn) \<and> ui_inspection_supports i (pn_ui_actions pn \<noteq> None)
                           then ''pass'' else ''fail''),
              dc_plan = pn, dc_host = i\<rparr>))"

section \<open>The plan foretells the evidence\<close>

lemma describe_paths:
  "cd_evidence_path (the (describe Viewport)) = ''screenshots/viewport.png''" "describe Viewport \<noteq> None"
  "cd_evidence_path (the (describe BlenderWindow)) = ''screenshots/blender-window.png''" "describe BlenderWindow \<noteq> None"
  "cd_evidence_path (the (describe Desktop)) = ''screenshots/desktop.png''" "describe Desktop \<noteq> None"
  by (simp_all add: describe_def capture_definitions_def)

lemma plan_captures_Cons:
  "describe k = Some d \<Longrightarrow> plan_captures ui (k # ks) = bind_res (plan_captures ui ks) (\<lambda>rest. Inr
     (if k = BlenderWindow \<and> ui
      then (planned_of d)\<lparr>pc_path := ui_before_path\<rparr> # (planned_of d)\<lparr>pc_path := ui_after_path\<rparr> # rest
      else planned_of d # rest))"
  by simp

lemma describe_Some: "describe k \<noteq> None \<Longrightarrow> describe k = Some (the (describe k))"
  by simp

lemma captures_cases:
  "captures sc = (if sc_capture_viewport sc then [Viewport] else []) @ (if sc_capture_blender_window sc then [BlenderWindow] else [])
    @ (if sc_capture_desktop sc then [Desktop] else [])"
  by (simp add: captures_def)

lemma plan_captures_paths:
  assumes "plan_captures ui (captures sc) = Inr planned"
  shows "map pc_path planned = (if sc_capture_viewport sc then [''screenshots/viewport.png''] else [])
    @ (if sc_capture_blender_window sc then (if ui then [ui_before_path, ui_after_path] else [''screenshots/blender-window.png'']) else [])
    @ (if sc_capture_desktop sc then [''screenshots/desktop.png''] else [])"
  using assms unfolding captures_cases
  by (cases "sc_capture_viewport sc"; cases "sc_capture_blender_window sc"; cases "sc_capture_desktop sc"; cases ui)
    (auto simp: plan_captures_Cons[OF describe_Some[OF describe_paths(2)]] plan_captures_Cons[OF describe_Some[OF describe_paths(4)]] plan_captures_Cons[OF describe_Some[OF describe_paths(6)]]
      planned_of_def describe_paths simp del: plan_captures.simps(2))

lemma planned_paths:
  assumes "plan lib selected p = Inr pn"
  shows "pc_path ` set (pn_captures pn) \<union> {scenario_result_path} \<union> (if pn_ui_actions pn = None then {} else {ui_evidence_path})
    = declared_paths (pl_scenario p)"
proof -
  from assms have planned: "plan_captures (sc_ui_actions (pl_scenario p) \<noteq> None) (captures (pl_scenario p)) = Inr (pn_captures pn)"
    and ui: "pn_ui_actions pn = None \<longleftrightarrow> sc_ui_actions (pl_scenario p) = None"
    by (auto simp: plan_def Let_def)
  have "pc_path ` set (pn_captures pn) = set (map pc_path (pn_captures pn))" by simp
  then show ?thesis unfolding plan_captures_paths[OF planned] ui declared_paths_def by (simp add: insert_commute Un_commute)
qed

lemma plan_typed_ui:
  assumes "plan lib selected p = Inr pn"
  shows "pl_schema_version p = 3 \<or> sc_ui_actions (pl_scenario p) = None"
proof -
  have "payload_validate (tl_up lib) (tl_sha lib) p = None" using assms by (auto simp: plan_def Let_def)
  then show ?thesis
    by (cases "sc_ui_actions (pl_scenario p)") (auto simp: payload_validate_def validate_manifest_def Let_def)
qed

text \<open>C34: the plan foretells the evidence of a typed payload. When the plan of a payload of schema
  version 2 or 3 succeeds, the paths that it lists, with the scenario result and the UI journal,
  are exactly the paths of the evidence of the same schema version that is later accepted for
  it. Evidence of version 1 has no fixed paths.\<close>

theorem plan_foretells_evidence:
  assumes "plan lib selected p = Inr pn" and "pl_schema_version p \<noteq> 1"
    and "validate_evidence up m (pl_scenario p) session = None" and "em_schema_version m = pl_schema_version p"
  shows "ef_path ` set (em_files m)
    = pc_path ` set (pn_captures pn) \<union> {scenario_result_path} \<union> (if pn_ui_actions pn = None then {} else {ui_evidence_path})"
proof -
  have typed: "em_schema_version m \<noteq> 1" using assms(2,4) by simp
  have ui: "em_schema_version m = 3 \<or> sc_ui_actions (pl_scenario p) = None"
    using plan_typed_ui[OF assms(1)] assms(4) by simp
  show ?thesis
    unfolding planned_paths[OF assms(1)] using evidence_within_declared[OF assms(3) typed ui] declared_within_evidence[OF assms(3) typed ui] by blast
qed

definition plan_lib :: target_lib where
  "plan_lib = \<lparr>tl_up = id, tl_ip = (\<lambda>s. False), tl_parse = (\<lambda>s. None), tl_sha = (\<lambda>s. replicate 64 CHR ''0'')\<rparr>"

definition typed_payload :: payload where
  "typed_payload = sample_payload\<lparr>pl_schema_version := 2\<rparr>"

lemma typed_payload_valid: "payload_validate (tl_up plan_lib) (tl_sha plan_lib) typed_payload = None"
  by (simp add: plan_lib_def typed_payload_def sample_payload_def sample_scenario_def evaluate)

lemma typed_evidence_valid:
  "validate_evidence id (sample_evidence sample_session) (pl_scenario typed_payload) sample_session = None"
  by (simp add: typed_payload_def sample_payload_def sample_evidence_def sample_session_def sample_scenario_def evaluate)

lemma typed_target: "target_validate lib sample_target = None" "tg_platform sample_target = ''linux''"
  by (simp_all add: sample_target_def zero_connection_def target_validate_def target_connection_def
      connection_validate_def sample_alias sample_linux_valid check_def or_else_def)

lemma typed_planned: "\<exists>pn. plan plan_lib sample_target typed_payload = Inr pn \<and> pn_payload_schema_version pn = 2 \<and> pn_ui_actions pn = None"
  using typed_payload_valid typed_target describe_paths(2)
  by (simp add: plan_def typed_target Let_def)
    (auto simp: typed_payload_def sample_payload_def sample_scenario_def validate_linux_scenario_def captures_def)

theorem plan_foretells_evidence_witness:
  "\<exists>pn. plan plan_lib sample_target typed_payload = Inr pn
    \<and> ef_path ` set (em_files (sample_evidence sample_session)) = pc_path ` set (pn_captures pn) \<union> {scenario_result_path}"
proof -
  obtain pn where pn: "plan plan_lib sample_target typed_payload = Inr pn" "pn_payload_schema_version pn = 2" "pn_ui_actions pn = None"
    using typed_planned by blast
  have "em_schema_version (sample_evidence sample_session) = 2" "pl_schema_version typed_payload = 2"
    by (simp_all add: sample_evidence_def typed_payload_def sample_payload_def)
  with plan_foretells_evidence[OF pn(1) _ typed_evidence_valid] pn show ?thesis by auto
qed

end
