(* ===== verification/Journal.thy ===== *)
theory Journal
  imports RunContract TargetStore
begin

text \<open>
  \<open>internal/orchestrator/journal.go\<close>: what the controller remembers of a Run, as two records of the
  private storage below \<open>runs/\<close>. The claim is written before the host is contacted, and the session
  is pinned when the host first reports it. Both are never replaced, and every host call that could
  change a Run is checked against them.

  Arguments of the model: \<open>target_lib\<close>, the text form of times (RFC 3339) with its parser,
  \<open>png.DecodeConfig\<close>, and the first value of a JSON stream as \<open>json.Decoder.Decode\<close> reads it.
\<close>

record ctl_lib =
  cl_target :: target_lib
  cl_time :: "int \<Rightarrow> err + string"
  cl_time_parse :: "string \<Rightarrow> int option"
  cl_png :: "string \<Rightarrow> err + int \<times> int"
  cl_first :: "string \<Rightarrow> json option"

definition max_authority_size :: nat where "max_authority_size = 16 * 2 ^ 10"

section \<open>The records and their JSON form\<close>

record run_authority =
  ra_schema_version :: int
  ra_claim :: lock_claim
  ra_fingerprint :: string

record session_pin =
  sp_schema_version :: int
  sp_run_id :: string
  sp_claim :: lock_claim
  sp_fingerprint :: string
  sp_session_id :: string

definition claim_members :: "lock_claim \<Rightarrow> string \<Rightarrow> (string \<times> json) list" where
  "claim_members c deadline =
     [(''schema_version'', JNum (lc_schema_version c)), (''run_id'', JStr (lc_run_id c)), (''request_id'', JStr (lc_request_id c)),
      (''controller_id'', JStr (lc_controller_id c)), (''deadline'', JStr deadline), (''request_hash'', JStr (lc_request_hash c)),
      (''task_name'', JStr (lc_task_name c))]"

definition claim_json :: "ctl_lib \<Rightarrow> lock_claim \<Rightarrow> err + json" where
  "claim_json lib c = bind_res (cl_time lib (lc_deadline c)) (\<lambda>d. Inr (JObj (claim_members c d)))"

definition authority_json :: "ctl_lib \<Rightarrow> run_authority \<Rightarrow> err + json" where
  "authority_json lib r = bind_res (claim_json lib (ra_claim r)) (\<lambda>c.
     Inr (JObj [(''schema_version'', JNum (ra_schema_version r)), (''claim'', c), (''target_fingerprint'', JStr (ra_fingerprint r))]))"

definition pin_json :: "ctl_lib \<Rightarrow> session_pin \<Rightarrow> err + json" where
  "pin_json lib p = bind_res (claim_json lib (sp_claim p)) (\<lambda>c.
     Inr (JObj [(''schema_version'', JNum (sp_schema_version p)), (''run_id'', JStr (sp_run_id p)), (''claim'', c),
       (''target_fingerprint'', JStr (sp_fingerprint p)), (''session_id'', JStr (sp_session_id p))]))"

definition get_time :: "ctl_lib \<Rightarrow> json option \<Rightarrow> err + int" where
  "get_time lib j =
    (case j of
       None \<Rightarrow> Inr 0 | Some JNull \<Rightarrow> Inr 0
     | Some (JStr s) \<Rightarrow> (case cl_time_parse lib s of None \<Rightarrow> Inl decode_err | Some t \<Rightarrow> Inr t)
     | _ \<Rightarrow> Inl decode_err)"

definition claim_names :: "string list" where
  "claim_names = [''schema_version'', ''run_id'', ''request_id'', ''controller_id'', ''deadline'', ''request_hash'', ''task_name'']"

definition decode_claim :: "ctl_lib \<Rightarrow> json option \<Rightarrow> err + lock_claim" where
  "decode_claim lib j =
    bind_res (get_struct claim_names j) (\<lambda>kvs.
    bind_res (get_int (field_of ''schema_version'' kvs)) (\<lambda>version.
    bind_res (get_str (field_of ''run_id'' kvs)) (\<lambda>run.
    bind_res (get_str (field_of ''request_id'' kvs)) (\<lambda>request.
    bind_res (get_str (field_of ''controller_id'' kvs)) (\<lambda>controller.
    bind_res (get_time lib (field_of ''deadline'' kvs)) (\<lambda>deadline.
    bind_res (get_str (field_of ''request_hash'' kvs)) (\<lambda>hash.
    bind_res (get_str (field_of ''task_name'' kvs)) (\<lambda>task.
      Inr \<lparr>lc_schema_version = version, lc_run_id = run, lc_request_id = request, lc_controller_id = controller,
        lc_deadline = deadline, lc_request_hash = hash, lc_task_name = task\<rparr>))))))))"

definition decode_authority :: "ctl_lib \<Rightarrow> string \<Rightarrow> err + run_authority" where
  "decode_authority lib text =
    bind_res (strict_struct (tl_parse (cl_target lib)) [''schema_version'', ''claim'', ''target_fingerprint''] text) (\<lambda>kvs.
    bind_res (get_int (field_of ''schema_version'' kvs)) (\<lambda>version.
    bind_res (decode_claim lib (field_of ''claim'' kvs)) (\<lambda>claim.
    bind_res (get_str (field_of ''target_fingerprint'' kvs)) (\<lambda>fingerprint.
      Inr \<lparr>ra_schema_version = version, ra_claim = claim, ra_fingerprint = fingerprint\<rparr>))))"

definition decode_pin :: "ctl_lib \<Rightarrow> string \<Rightarrow> err + session_pin" where
  "decode_pin lib text =
    bind_res (strict_struct (tl_parse (cl_target lib))
      [''schema_version'', ''run_id'', ''claim'', ''target_fingerprint'', ''session_id''] text) (\<lambda>kvs.
    bind_res (get_int (field_of ''schema_version'' kvs)) (\<lambda>version.
    bind_res (get_str (field_of ''run_id'' kvs)) (\<lambda>run.
    bind_res (decode_claim lib (field_of ''claim'' kvs)) (\<lambda>claim.
    bind_res (get_str (field_of ''target_fingerprint'' kvs)) (\<lambda>fingerprint.
    bind_res (get_str (field_of ''session_id'' kvs)) (\<lambda>session.
      Inr \<lparr>sp_schema_version = version, sp_run_id = run, sp_claim = claim, sp_fingerprint = fingerprint,
        sp_session_id = session\<rparr>))))))"

section \<open>Operations\<close>

text \<open>\<open>filepath.Join("runs", ...)\<close>.\<close>

definition claim_path :: "string \<Rightarrow> string" where
  "claim_path run = path_clean (''runs/'' @ run @ ''.json'')"

definition pin_path :: "string \<Rightarrow> string" where
  "pin_path run = path_clean (''runs/'' @ run @ ''.session.json'')"

text \<open>An operation whose every error becomes the error \<open>f\<close> of it.\<close>

definition failing_as :: "(err \<Rightarrow> err) \<Rightarrow> ('s, 'a) act \<Rightarrow> ('s, 'a) act" where
  "failing_as f m = andthen (attempt m) (\<lambda>r. case r of Inl e \<Rightarrow> fail (f e) | Inr a \<Rightarrow> ret a)"

definition refuse_with :: "bool \<Rightarrow> string \<Rightarrow> ('s, unit) act" where
  "refuse_with bad m = (if bad then fail (authority_failure m) else skip)"

definition journal_record :: "ctl_lib \<Rightarrow> disk_env \<Rightarrow> string \<Rightarrow> target \<Rightarrow> lock_claim \<Rightarrow> unit dact" where
  "journal_record lib env root selected claim =
    then_do (refuse (target_validate (cl_target lib) selected))
    (then_do (refuse (claim_validate claim))
    (andthen (of_res (authority_json lib \<lparr>ra_schema_version = 1, ra_claim = claim,
        ra_fingerprint = target_fingerprint (cl_target lib) selected\<rparr>)) (\<lambda>v.
     then_do (refuse_with (max_authority_size - 1024 < length (render v)) ''original Run claim exceeds size limit'')
     (failing_as (\<lambda>_. authority_failure ''cannot publish original Run claim'')
       (private_publish env root (claim_path (lc_run_id claim)) (render v) False)))))"

text \<open>The checks of \<open>load\<close> on the two records.\<close>

definition authority_ok :: "string \<Rightarrow> run_authority \<Rightarrow> bool" where
  "authority_ok run r \<longleftrightarrow> ra_schema_version r = 1 \<and> claim_validate (ra_claim r) = None
     \<and> lc_run_id (ra_claim r) = run \<and> hex64 (ra_fingerprint r)"

definition pin_ok :: "string \<Rightarrow> run_authority \<Rightarrow> session_pin \<Rightarrow> bool" where
  "pin_ok run r p \<longleftrightarrow> sp_schema_version p = 1 \<and> sp_run_id p = run \<and> claims_equal (sp_claim p) (ra_claim r)
     \<and> sp_fingerprint p = ra_fingerprint r \<and> session_id_ok (sp_session_id p)"

definition check_authority :: "ctl_lib \<Rightarrow> string \<Rightarrow> string \<Rightarrow> err + run_authority" where
  "check_authority lib run data =
    (case decode_authority lib data of
       Inl e \<Rightarrow> Inl (authority_failure ''original Run claim is invalid'')
     | Inr r \<Rightarrow> if authority_ok run r then Inr r else Inl (authority_failure ''original Run claim is invalid''))"

definition check_pin :: "ctl_lib \<Rightarrow> string \<Rightarrow> run_authority \<Rightarrow> string \<Rightarrow> err + string" where
  "check_pin lib run r data =
    (case decode_pin lib data of
       Inl e \<Rightarrow> Inl (authority_failure ''Session pin is invalid'')
     | Inr p \<Rightarrow> if pin_ok run r p then Inr (sp_session_id p) else Inl (authority_failure ''Session pin is invalid''))"

definition load_pin :: "ctl_lib \<Rightarrow> disk_env \<Rightarrow> string \<Rightarrow> string \<Rightarrow> run_authority \<Rightarrow> string dact" where
  "load_pin lib env root run r =
    andthen (attempt (read_durable env root (pin_path run) max_authority_size)) (\<lambda>res.
      case res of
        Inl e \<Rightarrow> if err_is e NotExist then ret '''' else fail (authority_failure ''Session pin is unavailable'')
      | Inr data \<Rightarrow> of_res (check_pin lib run r data))"

definition journal_load :: "ctl_lib \<Rightarrow> disk_env \<Rightarrow> string \<Rightarrow> target \<Rightarrow> string \<Rightarrow> (run_authority \<times> string) dact" where
  "journal_load lib env root selected run =
    then_do (refuse (target_validate (cl_target lib) selected))
    (then_do (refuse (run_id_validate run))
    (andthen (failing_as (\<lambda>_. authority_failure ''original Run claim is unavailable'')
        (read_durable env root (claim_path run) max_authority_size)) (\<lambda>data.
     andthen (of_res (check_authority lib run data)) (\<lambda>r.
     then_do (if ra_fingerprint r \<noteq> target_fingerprint (cl_target lib) selected
              then fail (Authority (Msg ''target does not match original Run'')) else skip)
     (andthen (load_pin lib env root run r) (\<lambda>session. ret (r, session)))))))"

definition pin_of :: "run_authority \<Rightarrow> string \<Rightarrow> session_pin" where
  "pin_of r session = \<lparr>sp_schema_version = 1, sp_run_id = lc_run_id (ra_claim r), sp_claim = ra_claim r,
     sp_fingerprint = ra_fingerprint r, sp_session_id = session\<rparr>"

definition publish_pin :: "ctl_lib \<Rightarrow> disk_env \<Rightarrow> string \<Rightarrow> target \<Rightarrow> run_authority \<Rightarrow> string \<Rightarrow> unit dact" where
  "publish_pin lib env root selected r session =
    (let run = lc_run_id (ra_claim r) in
     andthen (failing_as (\<lambda>_. authority_failure ''cannot encode Session pin'') (of_res (pin_json lib (pin_of r session)))) (\<lambda>v.
     andthen (attempt (private_publish env root (pin_path run) (render v) False)) (\<lambda>res.
       case res of
         Inr u \<Rightarrow> skip
       | Inl e \<Rightarrow>
           if err_is e Exist then
             andthen (attempt (journal_load lib env root selected run)) (\<lambda>again.
               case again of
                 Inr (r', pinned) \<Rightarrow> if pinned = session then skip else fail (authority_failure ''cannot publish Session pin'')
               | Inl e' \<Rightarrow> fail (authority_failure ''cannot publish Session pin''))
           else fail (authority_failure ''cannot publish Session pin''))))"

definition journal_accept :: "ctl_lib \<Rightarrow> disk_env \<Rightarrow> string \<Rightarrow> target \<Rightarrow> run_receipt \<Rightarrow> unit dact" where
  "journal_accept lib env root selected receipt =
    andthen (journal_load lib env root selected (lc_run_id (rr_claim receipt))) (\<lambda>(r, session).
      then_do (refuse_with (\<not> claims_equal (ra_claim r) (rr_claim receipt)) ''Host Lock claim changed'')
      (then_do (refuse_with (session \<noteq> '''' \<and> session \<noteq> rr_session_id receipt) ''Session identity changed'')
      (if rr_session_id receipt = '''' then skip
       else then_do (refuse_with (\<not> session_id_ok (rr_session_id receipt)) ''Session identity is invalid'')
       (if session \<noteq> '''' then skip else publish_pin lib env root selected r (rr_session_id receipt)))))"

definition journal_settlement :: "ctl_lib \<Rightarrow> disk_env \<Rightarrow> string \<Rightarrow> target \<Rightarrow> run_receipt \<Rightarrow> run_receipt dact" where
  "journal_settlement lib env root selected receipt =
    andthen (journal_load lib env root selected (lc_run_id (rr_claim receipt))) (\<lambda>(r, session).
      then_do (refuse_with (\<not> claims_equal (ra_claim r) (rr_claim receipt)) ''Host Lock claim changed'')
      (then_do (refuse_with (rr_session_id receipt \<noteq> '''' \<and> session \<noteq> rr_session_id receipt) ''Session identity is not pinned'')
       (ret (receipt\<lparr>rr_session_id := session\<rparr>))))"

end
