(* ===== verification/Evidence.thy ===== *)
theory Evidence
  imports Plan Journal
begin

text \<open>
  The Evidence Bundle of the controller (\<open>internal/orchestrator/runner.go\<close>): its directory, which
  is new for each Run, its files, which are published without replacement, and the two documents
  that describe it. The file system is the model of theory PrivateFile. \<open>filepath.EvalSymlinks\<close>
  and the working directory are arguments, because the model does not say where a link leads.
\<close>

section \<open>Documents\<close>

definition run_state_text :: "run_state \<Rightarrow> string" where
  "run_state_text s =
    (case s of
       StateAccepted \<Rightarrow> ''accepted'' | StateStaged \<Rightarrow> ''staged'' | StateStarting \<Rightarrow> ''starting'' | StateRunning \<Rightarrow> ''running''
     | StateCalling \<Rightarrow> ''calling'' | StateInteracting \<Rightarrow> ''interacting'' | StateCollecting \<Rightarrow> ''collecting''
     | StateSettling \<Rightarrow> ''settling'' | StateComplete \<Rightarrow> ''complete'' | StateFailed \<Rightarrow> ''failed''
     | StateTimedOut \<Rightarrow> ''timed-out'' | StateCleanupFailed \<Rightarrow> ''cleanup-failed'' | StateOther t \<Rightarrow> t)"

definition evidence_file_json :: "evidence_file \<Rightarrow> json" where
  "evidence_file_json f = JObj
     ([(''path'', JStr (ef_path f)), (''type'', JStr (ef_type f))]
      @ unless (ef_source_path f = '''') ''source_path'' (JStr (ef_source_path f))
      @ unless (ef_media_type f = '''') ''media_type'' (JStr (ef_media_type f))
      @ unless (ef_session_id f = '''') ''session_id'' (JStr (ef_session_id f))
      @ [(''size'', JNum (ef_size f)), (''sha256'', JStr (ef_sha256 f))]
      @ unless (ef_capture_method f = '''') ''capture_method'' (JStr (ef_capture_method f))
      @ unless (ef_width f = 0) ''width'' (JNum (ef_width f))
      @ unless (ef_height f = 0) ''height'' (JNum (ef_height f)))"

definition evidence_manifest_json :: "evidence_manifest \<Rightarrow> json" where
  "evidence_manifest_json m = JObj [(''schema_version'', JNum (em_schema_version m)), (''files'', JArr (map evidence_file_json (em_files m)))]"

definition cleanup_json :: "cleanup_state \<Rightarrow> json" where
  "cleanup_json c = JObj [(''session_stopped'', JBool (cs_session_stopped c)), (''payload_removed'', JBool (cs_payload_removed c)),
     (''run_root_removed'', JBool (cs_run_root_removed c)), (''lock_released'', JBool (cs_lock_released c))]"

record run_result =
  rs_ui_journal_recovered :: bool
  rs_ui_actions :: "ui_journal option"
  rs_schema_version :: int
  rs_run_id :: string
  rs_request_id :: string
  rs_request_hash :: string
  rs_deadline :: int
  rs_session_id :: string
  rs_state :: run_state
  rs_evidence :: evidence_manifest
  rs_cleanup :: cleanup_state
  rs_error :: string

definition run_result_json :: "ctl_lib \<Rightarrow> run_result \<Rightarrow> err + json" where
  "run_result_json lib r =
    bind_res (cl_time lib (rs_deadline r)) (\<lambda>deadline. Inr (JObj
      (unless (\<not> rs_ui_journal_recovered r) ''ui_journal_recovered_from_receipt'' (JBool (rs_ui_journal_recovered r))
       @ (case rs_ui_actions r of None \<Rightarrow> [] | Some j \<Rightarrow> [(''ui_actions'', journal_json j)])
       @ [(''schema_version'', JNum (rs_schema_version r)), (''run_id'', JStr (rs_run_id r)), (''request_id'', JStr (rs_request_id r)),
          (''request_hash'', JStr (rs_request_hash r)), (''deadline'', JStr deadline), (''session_id'', JStr (rs_session_id r)),
          (''state'', JStr (run_state_text (rs_state r))), (''evidence'', evidence_manifest_json (rs_evidence r)),
          (''cleanup'', cleanup_json (rs_cleanup r))]
       @ unless (rs_error r = '''') ''error'' (JStr (rs_error r)))))"

text \<open>\<open>json.MarshalIndent\<close> with an empty prefix and two blanks for each level.\<close>

definition line_break :: "nat \<Rightarrow> string" where
  "line_break depth = CHR 0x0A # replicate (2 * depth) CHR '' ''"

fun separated :: "string \<Rightarrow> string list \<Rightarrow> string" where
  "separated sep [] = ''''"
| "separated sep [x] = x"
| "separated sep (x # xs) = x @ sep @ separated sep xs"

fun render_indent :: "nat \<Rightarrow> json \<Rightarrow> string" where
  "render_indent d (JArr vs) =
    (if vs = [] then ''[]''
     else ''['' @ line_break (Suc d) @ separated ('','' @ line_break (Suc d)) (map (render_indent (Suc d)) vs) @ line_break d @ '']'')"
| "render_indent d (JObj kvs) =
    (if kvs = [] then ''{}''
     else ''{'' @ line_break (Suc d)
       @ separated ('','' @ line_break (Suc d)) (map (\<lambda>(k, v). render_string k @ '': '' @ render_indent (Suc d) v) kvs)
       @ line_break d @ ''}'')"
| "render_indent d v = render v"

section \<open>The directory of the bundle\<close>

definition mkdir_shared :: "disk_env \<Rightarrow> path \<Rightarrow> unit dact" where
  "mkdir_shared env p = sys env (\<lambda>s.
    if entry_at s p \<noteq> None \<or> p = [] then (Inl Exist, s)
    else if \<not> is_directory s (butlast p) then (Inl NotExist, s)
    else (Inr (), place p (EDir False) s))"

definition mkdir_shared_if_missing :: "disk_env \<Rightarrow> path \<Rightarrow> unit dact" where
  "mkdir_shared_if_missing env p = sys env (\<lambda>s.
    if is_directory s p then (Inr (), s)
    else if entry_at s p \<noteq> None then (Inl (Msg ''not a directory''), s)
    else if \<not> is_directory s (butlast p) then (Inl NotExist, s)
    else (Inr (), place p (EDir False) s))"

definition mkdir_all_shared :: "disk_env \<Rightarrow> path \<Rightarrow> unit dact" where
  "mkdir_all_shared env p = each (\<lambda>n. mkdir_shared_if_missing env (take n p)) [1..<Suc (length p)]"

record path_env =
  pe_cwd :: string
  pe_eval :: "disk \<Rightarrow> path \<Rightarrow> err + path"

definition absolute_path :: "path_env \<Rightarrow> string \<Rightarrow> string" where
  "absolute_path pe p = (if has_prefix p ''/'' then path_clean p else path_clean (pe_cwd pe @ ''/'' @ p))"

definition prepare_evidence_root :: "disk_env \<Rightarrow> path_env \<Rightarrow> string \<Rightarrow> path dact" where
  "prepare_evidence_root env pe root =
    then_do (refuse (check (root = '''') ''evidence directory is required''))
    (let absolute = absolute_path pe root; parent = parts (path_dir absolute) in
     then_do (mkdir_all_shared env parent)
     (andthen (sys env (\<lambda>s. (pe_eval pe s parent, s))) (\<lambda>canonical.
      let top = join_component canonical (path_base absolute) in
      andthen (attempt (mkdir env top)) (\<lambda>r.
        case r of
          Inl e \<Rightarrow> if err_is e Exist then fail (Msg ''evidence directory already exists'') else fail e
        | Inr u \<Rightarrow> ret top))))"

section \<open>Its files\<close>

definition plain_directory :: "entry \<Rightarrow> err option" where
  "plain_directory e =
    (case e of
       EDir b \<Rightarrow> None
     | ELink \<Rightarrow> Some (Msg ''evidence parent is a symlink'')
     | _ \<Rightarrow> Some (Msg ''evidence parent is not a directory''))"

fun enter_evidence :: "disk_env \<Rightarrow> path \<Rightarrow> string list \<Rightarrow> path dact" where
  "enter_evidence env current [] = ret current"
| "enter_evidence env current (c # cs) =
    (if c = ''.'' \<or> c = '''' then enter_evidence env current cs
     else let d = join_component current c in
       andthen (attempt (stat_entry env d)) (\<lambda>r.
       andthen (case r of
                  Inr e \<Rightarrow> ret e
                | Inl e \<Rightarrow> if err_is e NotExist then then_do (mkdir_shared env d) (stat_entry env d) else fail e) (\<lambda>info.
       then_do (refuse (plain_directory info)) (enter_evidence env d cs))))"

definition evidence_destination :: "disk_env \<Rightarrow> path \<Rightarrow> string \<Rightarrow> path dact" where
  "evidence_destination env root relative =
    andthen (stat_entry env root) (\<lambda>info.
    then_do (refuse (plain_directory info))
    (andthen (enter_evidence env root (split_on CHR ''/'' (path_dir relative))) (\<lambda>current.
     let destination = join_component current (path_base relative) in
     andthen (attempt (stat_entry env destination)) (\<lambda>r.
       case r of
         Inr e \<Rightarrow> fail (Msg ''evidence destination already exists'')
       | Inl e \<Rightarrow> if err_is e NotExist then ret destination else fail e))))"

definition evidence_temp_prefix :: string where "evidence_temp_prefix = ''.blender-box-evidence-''"

definition create_evidence_temp :: "disk_env \<Rightarrow> path \<Rightarrow> path dact" where
  "create_evidence_temp env d s = create_file env (d @ [evidence_temp_prefix @ de_temp env (dk_tick s)]) s"

definition write_evidence :: "disk_env \<Rightarrow> path \<Rightarrow> string \<Rightarrow> string \<Rightarrow> unit dact" where
  "write_evidence env root relative content =
    andthen (evidence_destination env root relative) (\<lambda>destination.
    andthen (create_evidence_temp env (butlast destination)) (\<lambda>temporary.
      ensuring
       (then_do (sys env skip)
        (then_do (fill_temp env temporary content)
        (then_do (failing_as (Wrap ''publish evidence without replacement'') (publish_at env temporary destination False))
         (remove_entry env temporary))))
       (remove_entry env temporary)))"

definition publish_bundle_metadata :: "ctl_lib \<Rightarrow> disk_env \<Rightarrow> path \<Rightarrow> run_result \<Rightarrow> unit dact" where
  "publish_bundle_metadata lib env root r =
    then_do (write_evidence env root ''manifest.json'' (render_indent 0 (evidence_manifest_json (rs_evidence r)) @ [CHR 0x0A]))
    (andthen (of_res (run_result_json lib r)) (\<lambda>v.
      write_evidence env root ''evidence.json'' (render_indent 0 v @ [CHR 0x0A])))"

text \<open>\<open>os.ReadFile\<close> of a file of the bundle.\<close>

definition read_evidence_file :: "disk_env \<Rightarrow> path \<Rightarrow> string dact" where
  "read_evidence_file env p = sys env (\<lambda>s.
    case entry_at s p of
      None \<Rightarrow> (Inl NotExist, s)
    | Some (EFile b c f) \<Rightarrow> (Inr c, s)
    | Some e \<Rightarrow> (Inl (Msg ''is not a file''), s))"

end
