(* ===== verification/Runner.thy ===== *)
theory Runner
  imports Evidence
begin

text \<open>
  \<open>Runner\<close> of \<open>internal/orchestrator/runner.go\<close> and \<open>uiaction.go\<close>: how the controller performs a Run
  over a host adapter, and how it recovers, observes and stops one.

  The adapter is an argument: its operations act on a host world of any type \<open>'h\<close> and return what
  they like. The state of the controller is its file system, that world, the clock, and the
  variable \<open>receipt\<close> that \<open>Run\<close> shares with its deferred function; \<open>ct_calls\<close> records the calls of the
  adapter, the last one first, each with the disk of the controller at that time. Time passes in every call and while the controller waits; the clock
  does not go back. Contexts are visible only as errors that the adapter returns and as
  \<open>re_interrupt\<close>, which ends a wait early.
\<close>

section \<open>State\<close>

record 'h adapter =
  ad_inspect :: "target \<Rightarrow> host_requirements \<Rightarrow> ('h, host_inspection) act"
  ad_acquire :: "target \<Rightarrow> lock_claim \<Rightarrow> ('h, unit) act"
  ad_stage :: "target \<Rightarrow> lock_claim \<Rightarrow> payload \<Rightarrow> ('h, unit) act"
  ad_start :: "target \<Rightarrow> run_request \<Rightarrow> 'h \<Rightarrow> (run_receipt \<times> err option) \<times> 'h"
  ad_observe :: "target \<Rightarrow> string \<Rightarrow> ('h, run_receipt) act"
  ad_fetch :: "target \<Rightarrow> run_receipt \<Rightarrow> evidence_file \<Rightarrow> ('h, string) act"
  ad_settle :: "target \<Rightarrow> run_receipt \<Rightarrow> ('h, cleanup_state) act"

record 'h run_env =
  re_lib :: ctl_lib
  re_disk :: disk_env
  re_path :: path_env
  re_root :: string
  re_host :: "'h adapter"
  re_elapsed :: "'h \<Rightarrow> nat"
  re_stall :: "disk \<Rightarrow> nat"
  re_asleep :: "nat \<Rightarrow> 'h \<Rightarrow> 'h"
  re_interrupt :: "nat \<Rightarrow> 'h \<Rightarrow> (err \<times> nat) option"
  re_late :: "'h \<Rightarrow> nat"

datatype host_call =
    CallInspect host_requirements
  | CallAcquire lock_claim
  | CallStage lock_claim payload
  | CallStart run_request
  | CallObserve string
  | CallFetch run_receipt evidence_file
  | CallSettle run_receipt

record 'h ctl =
  ct_disk :: disk
  ct_host :: 'h
  ct_now :: int
  ct_receipt :: run_receipt
  ct_calls :: "(host_call \<times> disk) list"

type_synonym ('h, 'a) cact = "('h ctl, 'a) act"

record run_intent =
  ri_run_id :: string
  ri_request_id :: string
  ri_controller_id :: string
  ri_deadline :: int
  ri_target :: target
  ri_payload :: payload
  ri_evidence_dir :: string

definition poll_interval :: nat where "poll_interval = 250000000"

definition on_disk :: "'h run_env \<Rightarrow> 'a dact \<Rightarrow> ('h, 'a) cact" where
  "on_disk env m s = (case m (ct_disk s) of (r, d) \<Rightarrow> (r, s\<lparr>ct_disk := d, ct_now := ct_now s + int (re_stall env d)\<rparr>))"

definition call :: "'h run_env \<Rightarrow> host_call \<Rightarrow> ('h, 'a) act \<Rightarrow> ('h, 'a) cact" where
  "call env c m s = (case m (ct_host s) of (r, h) \<Rightarrow>
     (r, s\<lparr>ct_host := h, ct_now := ct_now s + int (re_elapsed env h), ct_calls := (c, ct_disk s) # ct_calls s\<rparr>))"

definition set_receipt :: "run_receipt \<Rightarrow> ('h, unit) cact" where
  "set_receipt r = change (\<lambda>s. s\<lparr>ct_receipt := r\<rparr>)"

definition err_of :: "err + 'a \<Rightarrow> err option" where
  "err_of r = (case r of Inl e \<Rightarrow> Some e | Inr a \<Rightarrow> None)"

definition settlement_of :: "'h run_env \<Rightarrow> target \<Rightarrow> run_receipt \<Rightarrow> ('h, run_receipt) cact" where
  "settlement_of env selected receipt = on_disk env (journal_settlement (re_lib env) (re_disk env) (re_root env) selected receipt)"

definition confirm :: "'h run_env \<Rightarrow> target \<Rightarrow> run_receipt \<Rightarrow> ('h, unit) cact" where
  "confirm env selected receipt = andthen (settlement_of env selected receipt) (\<lambda>_. skip)"

definition accept_of :: "'h run_env \<Rightarrow> target \<Rightarrow> run_receipt \<Rightarrow> ('h, unit) cact" where
  "accept_of env selected receipt = on_disk env (journal_accept (re_lib env) (re_disk env) (re_root env) selected receipt)"

definition up_of :: "'h run_env \<Rightarrow> nat \<Rightarrow> nat" where "up_of env = tl_up (cl_target (re_lib env))"
definition sha_of :: "'h run_env \<Rightarrow> string \<Rightarrow> string" where "sha_of env = tl_sha (cl_target (re_lib env))"

section \<open>Requests\<close>

definition build_request :: "'h run_env \<Rightarrow> int \<Rightarrow> run_intent \<Rightarrow> err + run_request" where
  "build_request env now i =
    (let t = ri_target i; linux = tg_platform t = ''linux''; w = tg_windows t; l = tg_linux t;
         body = (if linux
           then \<lparr>rb_schema_version = 2, rb_session_name = session_name_for_run (sha_of env) (ri_run_id i),
             rb_blender_executable = lt_blender_executable l, rb_session_broker_executable = dr_python_executable (lt_daemon l),
             rb_payload = ri_payload i,
             rb_linux = Some \<lparr>ll_desktop = lt_desktop l, ll_runtime = lt_daemon l, ll_uid = lt_uid l\<rparr>\<rparr>
           else \<lparr>rb_schema_version = 1, rb_session_name = session_name_for_run (sha_of env) (ri_run_id i),
             rb_blender_executable = wt_blender_executable w, rb_session_broker_executable = wt_session_broker_executable w,
             rb_payload = ri_payload i, rb_linux = None\<rparr>) in
     guard_res (target_validate (cl_target (re_lib env)) t)
     (guard_res (run_id_validate (ri_run_id i))
     (guard_res (check (\<not> request_id_ok (ri_request_id i)) ''invalid request ID'')
     (guard_res (check (blank (ri_controller_id i)) ''controller ID is required'')
     (guard_res (check (\<not> now < ri_deadline i) ''deadline must be in the future'')
     (guard_res (wrap_err ''invalid Run Payload'' (payload_validate (up_of env) (sha_of env) (ri_payload i)))
     (bind_res (request_body_hash (sha_of env) body) (\<lambda>hash.
       Inr \<lparr>rq_claim = \<lparr>lc_schema_version = 1, lc_run_id = ri_run_id i, lc_request_id = ri_request_id i,
               lc_controller_id = ri_controller_id i, lc_deadline = ri_deadline i, lc_request_hash = hash,
               lc_task_name = (if linux then lt_unit_name l else wt_task_name w)\<rparr>,
            rq_body = body\<rparr>))))))))"

section \<open>Settlement and recovery\<close>

definition settle_run :: "'h run_env \<Rightarrow> target \<Rightarrow> run_receipt \<Rightarrow> ('h, cleanup_state) cact" where
  "settle_run env selected receipt =
    andthen (settlement_of env selected receipt) (\<lambda>r.
    andthen (attempt (call env (CallSettle r) (ad_settle (re_host env) selected r))) (\<lambda>c.
    andthen (attempt (settlement_of env selected r)) (\<lambda>a.
      case join_err (err_of c) (err_of a) of
        Some e \<Rightarrow> fail e
      | None \<Rightarrow> of_res c)))"

text \<open>\<open>recoverReceipt\<close> returns a receipt even with an error, and its callers use it.\<close>

definition recovered_receipt :: "'h run_env \<Rightarrow> target \<Rightarrow> run_authority \<Rightarrow> run_receipt \<Rightarrow> run_receipt \<Rightarrow> ('h, run_receipt \<times> err option) cact" where
  "recovered_receipt env selected record authority receipt =
    (if \<not> claims_equal (ra_claim record) (rr_claim receipt)
     then ret (zero_receipt, Some (authority_failure ''Host Lock claim changed''))
     else if rr_session_id authority \<noteq> '''' \<and> rr_session_id receipt \<noteq> rr_session_id authority
     then ret (zero_receipt, Some (authority_failure ''Session identity changed''))
     else case validate_for_claim (up_of env) receipt (ra_claim record) of
       Some e \<Rightarrow> ret (receipt, Some (Wrap ''status receipt'' e))
     | None \<Rightarrow>
         andthen (attempt (if rr_session_id authority \<noteq> '''' then confirm env selected receipt else accept_of env selected receipt)) (\<lambda>x.
           case x of Inl e \<Rightarrow> ret (zero_receipt, Some e) | Inr u \<Rightarrow> ret (receipt, None)))"

definition recover_receipt :: "'h run_env \<Rightarrow> target \<Rightarrow> string \<Rightarrow> string \<Rightarrow> ('h, run_receipt \<times> err option) cact" where
  "recover_receipt env selected run expected =
    andthen (attempt (on_disk env (journal_load (re_lib env) (re_disk env) (re_root env) selected run))) (\<lambda>loaded.
      case loaded of
        Inl e \<Rightarrow> ret (zero_receipt, Some e)
      | Inr (record, pinned) \<Rightarrow>
          if expected \<noteq> '''' \<and> pinned \<noteq> expected
          then ret (zero_receipt, Some (authority_failure ''Session identity is not pinned''))
          else
            andthen (attempt (call env (CallObserve run) (ad_observe (re_host env) selected run))) (\<lambda>observed.
            andthen (attempt (settlement_of env selected (zero_receipt\<lparr>rr_claim := ra_claim record, rr_session_id := pinned\<rparr>))) (\<lambda>settled.
              case observed of
                Inl e \<Rightarrow> ret (case settled of Inl f \<Rightarrow> zero_receipt | Inr a \<Rightarrow> a, join_err (Some (Wrap ''observe Run'' e)) (err_of settled))
              | Inr receipt \<Rightarrow>
                  (case settled of
                     Inl e \<Rightarrow> ret (zero_receipt, Some e)
                   | Inr authority \<Rightarrow> recovered_receipt env selected record authority receipt))))"

definition recover_strict :: "'h run_env \<Rightarrow> target \<Rightarrow> string \<Rightarrow> string \<Rightarrow> ('h, run_receipt) cact" where
  "recover_strict env selected run expected =
    andthen (recover_receipt env selected run expected) (\<lambda>(receipt, e). case e of Some f \<Rightarrow> fail f | None \<Rightarrow> ret receipt)"

record status_result =
  st_ui_actions :: "ui_journal option"
  st_schema_version :: int
  st_run_id :: string
  st_request_id :: string
  st_request_hash :: string
  st_deadline :: int
  st_session_id :: string
  st_state :: run_state
  st_evidence :: evidence_manifest
  st_cleanup :: cleanup_state
  st_error :: string

definition status_from_receipt :: "run_receipt \<Rightarrow> status_result" where
  "status_from_receipt r = \<lparr>st_ui_actions = rr_ui_actions r, st_schema_version = 1, st_run_id = lc_run_id (rr_claim r),
     st_request_id = lc_request_id (rr_claim r), st_request_hash = lc_request_hash (rr_claim r), st_deadline = lc_deadline (rr_claim r),
     st_session_id = rr_session_id r, st_state = rr_state r, st_evidence = rr_evidence r, st_cleanup = rr_cleanup r, st_error = rr_error r\<rparr>"

definition run_status :: "'h run_env \<Rightarrow> target \<Rightarrow> string \<Rightarrow> ('h, status_result) cact" where
  "run_status env selected run = andthen (recover_strict env selected run '''') (\<lambda>r. ret (status_from_receipt r))"

record stop_result =
  sl_schema_version :: int
  sl_run_id :: string
  sl_request_id :: string
  sl_request_hash :: string
  sl_deadline :: int
  sl_session_id :: string
  sl_status :: string
  sl_cleanup :: cleanup_state

definition run_stop :: "'h run_env \<Rightarrow> target \<Rightarrow> string \<Rightarrow> ('h, stop_result) cact" where
  "run_stop env selected run =
    andthen (recover_strict env selected run '''') (\<lambda>receipt.
    andthen (failing_as (Wrap ''settle Run'') (settle_run env selected receipt)) (\<lambda>cleanup.
    then_do (refuse (check (\<not> cleanup_known cleanup) ''settle Run: cleanup state is not known''))
    (andthen (failing_as (Wrap ''observe settled Run'') (recover_strict env selected run (rr_session_id receipt))) (\<lambda>settled.
     then_do (refuse (check (\<not> claims_equal (rr_claim settled) (rr_claim receipt)) ''observe settled Run: Host Lock claim changed''))
     (then_do (refuse (check (rr_session_id receipt \<noteq> '''' \<and> rr_session_id settled \<noteq> rr_session_id receipt)
        ''observe settled Run: Session identity changed''))
     (then_do (refuse (check (\<not> cleanup_known (rr_cleanup settled)) ''observe settled Run: cleanup state is not known''))
      (ret \<lparr>sl_schema_version = 1, sl_run_id = lc_run_id (rr_claim settled), sl_request_id = lc_request_id (rr_claim settled),
         sl_request_hash = lc_request_hash (rr_claim settled), sl_deadline = lc_deadline (rr_claim settled),
         sl_session_id = rr_session_id settled, sl_status = ''settled'', sl_cleanup = rr_cleanup settled\<rparr>)))))))"

section \<open>The journal of UI actions as evidence\<close>

text \<open>
  \<open>json.Decoder\<close> with \<open>DisallowUnknownFields\<close> reads the first value of the stream and nothing
  after it. A member that is repeated is read as its last occurrence.
\<close>

fun get_list :: "(json \<Rightarrow> err + 'a) \<Rightarrow> json list \<Rightarrow> err + 'a list" where
  "get_list f [] = Inr []"
| "get_list f (v # vs) = bind_res (f v) (\<lambda>x. bind_res (get_list f vs) (\<lambda>xs. Inr (x # xs)))"

definition decode_window :: "json option \<Rightarrow> err + ui_window option" where
  "decode_window j =
    (if j = None \<or> j = Some JNull then Inr None
     else bind_res (get_struct [''width'', ''height''] j) (\<lambda>kvs.
       bind_res (get_int (field_of ''width'' kvs)) (\<lambda>width.
       bind_res (get_int (field_of ''height'' kvs)) (\<lambda>height. Inr (Some \<lparr>uw_width = width, uw_height = height\<rparr>)))))"

definition ui_receipt_names :: "string list" where
  "ui_receipt_names = [''index'', ''kind'', ''outcome'', ''session_id'', ''window'', ''event_count'', ''error_code'']"

definition decode_ui_receipt :: "json \<Rightarrow> err + ui_receipt" where
  "decode_ui_receipt v =
    bind_res (get_struct ui_receipt_names (Some v)) (\<lambda>kvs.
    bind_res (get_int (field_of ''index'' kvs)) (\<lambda>index.
    bind_res (get_str (field_of ''kind'' kvs)) (\<lambda>kind.
    bind_res (get_str (field_of ''outcome'' kvs)) (\<lambda>outcome.
    bind_res (get_str (field_of ''session_id'' kvs)) (\<lambda>session.
    bind_res (decode_window (field_of ''window'' kvs)) (\<lambda>window.
    bind_res (get_int (field_of ''event_count'' kvs)) (\<lambda>count.
    bind_res (get_str (field_of ''error_code'' kvs)) (\<lambda>code.
      Inr \<lparr>ur_index = index, ur_kind = kind, ur_outcome = outcome, ur_session_id = session, ur_window = window,
        ur_event_count = count, ur_error_code = code\<rparr>))))))))"

definition decode_ui_journal :: "json \<Rightarrow> err + ui_journal" where
  "decode_ui_journal v =
    bind_res (get_struct [''schema_version'', ''receipts''] (Some v)) (\<lambda>kvs.
    bind_res (get_int (field_of ''schema_version'' kvs)) (\<lambda>version.
    bind_res (case field_of ''receipts'' kvs of
                None \<Rightarrow> Inr [] | Some JNull \<Rightarrow> Inr [] | Some (JArr vs) \<Rightarrow> get_list decode_ui_receipt vs | _ \<Rightarrow> Inl decode_err) (\<lambda>receipts.
      Inr \<lparr>uj_schema_version = version, uj_receipts = receipts\<rparr>)))"

definition check_ui_evidence :: "ctl_lib \<Rightarrow> run_receipt \<Rightarrow> string \<Rightarrow> err option" where
  "check_ui_evidence lib receipt content =
    (case cl_first lib content of
       None \<Rightarrow> Some (Msg ''invalid UI journal evidence'')
     | Some v \<Rightarrow>
         (case decode_ui_journal v of
            Inl e \<Rightarrow> Some (Msg ''invalid UI journal evidence'')
          | Inr j \<Rightarrow>
              if journal_validate (rr_session_id receipt) j \<noteq> None then Some (Msg ''invalid UI journal evidence'')
              else check (map_option (render \<circ> journal_json) (rr_ui_actions receipt) \<noteq> Some (render (journal_json j)))
                ''UI journal evidence differs from Run receipt''))"

definition check_png :: "ctl_lib \<Rightarrow> evidence_file \<Rightarrow> string \<Rightarrow> err option" where
  "check_png lib f content =
    (case cl_png lib content of
       Inl e \<Rightarrow> Some (Wrap ''invalid PNG'' e)
     | Inr (width, height) \<Rightarrow> check (width \<noteq> ef_width f \<or> height \<noteq> ef_height f) ''PNG dimensions changed'')"

section \<open>Collecting the evidence\<close>

definition check_content :: "'h run_env \<Rightarrow> run_receipt \<Rightarrow> evidence_file \<Rightarrow> string \<Rightarrow> err option" where
  "check_content env receipt f content =
    first_err
     [check (int (length content) \<noteq> ef_size f) ''size changed'',
      check (sha_of env content \<noteq> ef_sha256 f) ''SHA-256 changed'',
      (if ef_type f = EvidenceUIActions then check_ui_evidence (re_lib env) receipt content else None),
      (if capture_kind_for_evidence_type (ef_type f) \<noteq> None then check_png (re_lib env) f content else None)]"

definition collect_file :: "'h run_env \<Rightarrow> target \<Rightarrow> run_receipt \<Rightarrow> path \<Rightarrow> evidence_file \<Rightarrow> ('h, unit) cact" where
  "collect_file env selected receipt root f =
    then_do (confirm env selected receipt)
    (andthen (failing_as (Wrap ''fetch evidence'')
        (call env (CallFetch receipt f) (ad_fetch (re_host env) selected receipt f))) (\<lambda>content.
     then_do (refuse (check_content env receipt f content))
     (then_do (confirm env selected receipt)
      (failing_as (Wrap ''store evidence'') (on_disk env (write_evidence (re_disk env) root (ef_path f) content))))))"

definition check_manifest :: "'h run_env \<Rightarrow> payload \<Rightarrow> run_receipt \<Rightarrow> err option" where
  "check_manifest env p receipt =
    (let m = rr_evidence receipt in
     or_else (check (em_schema_version m \<noteq> pl_schema_version p) ''evidence schema version does not match payload schema version'')
     (if rr_state receipt = StateComplete then validate_evidence (up_of env) m (pl_scenario p) (rr_session_id receipt)
      else if em_files m \<noteq> [] then
        or_else (validate_evidence_manifest (up_of env) (rr_session_id receipt) m) (validate_partial_evidence m (pl_scenario p))
      else None))"

definition collect_evidence :: "'h run_env \<Rightarrow> run_intent \<Rightarrow> run_receipt \<Rightarrow> path \<Rightarrow> ('h, unit) cact" where
  "collect_evidence env i receipt root =
    then_do (refuse (check_manifest env (ri_payload i) receipt))
    (each (collect_file env (ri_target i) receipt root) (em_files (rr_evidence receipt)))"

section \<open>Waiting and polling\<close>

definition wait_for_poll :: "'h run_env \<Rightarrow> int \<Rightarrow> ('h, unit) cact" where
  "wait_for_poll env deadline s =
    (let remaining = deadline - ct_now s; wait = min poll_interval (nat remaining);
         slept = (\<lambda>n. s\<lparr>ct_host := re_asleep env n (ct_host s), ct_now := ct_now s + int n\<rparr>) in
     if remaining \<le> 0 then (Inl (Msg ''Run deadline exceeded''), s)
     else case re_interrupt env wait (ct_host s) of
       Some (e, n) \<Rightarrow> (Inl e, slept n)
     | None \<Rightarrow>
         let t = slept (wait + re_late env (ct_host s)) in
         if ct_now t < deadline then (Inr (), t) else (Inl (Msg ''Run deadline exceeded''), t))"

definition batch_of :: "run_intent \<Rightarrow> batch option" where
  "batch_of i = sc_ui_actions (pl_scenario (ri_payload i))"

definition poll_observe :: "'h run_env \<Rightarrow> run_intent \<Rightarrow> lock_claim \<Rightarrow> string \<Rightarrow> ('h, unit) cact" where
  "poll_observe env i claim session =
    andthen (look ct_receipt) (\<lambda>receipt.
    then_do (confirm env (ri_target i) receipt)
    (andthen (failing_as (Wrap ''observe Run'')
        (call env (CallObserve (ri_run_id i)) (ad_observe (re_host env) (ri_target i) (ri_run_id i)))) (\<lambda>observed.
     then_do (refuse (wrap_err ''observe receipt'' (validate_receipt observed claim session (rr_state receipt))))
     (then_do (refuse (validate_progress (rr_ui_actions receipt) (rr_ui_actions observed)))
      (then_do (refuse (validate_ui_batch_receipt observed (batch_of i)))
       (then_do (confirm env (ri_target i) observed)
        (set_receipt observed)))))))"

definition poll_step :: "'h run_env \<Rightarrow> run_intent \<Rightarrow> lock_claim \<Rightarrow> string \<Rightarrow> ('h, unit) cact" where
  "poll_step env i claim session = then_do (wait_for_poll env (ri_deadline i)) (poll_observe env i claim session)"

text \<open>
  The loop of \<open>Run\<close>. Time does not go back, and a wait that succeeds has lasted the whole interval,
  because a shorter one ends at the deadline; so the time left falls in every iteration.
\<close>

lemma keeps_on_disk: "keeps (\<lambda>s. n \<le> ct_now s) (on_disk env m)"
  by (simp add: keeps_def on_disk_def split: prod.split)

lemma keeps_call: "keeps (\<lambda>s. n \<le> ct_now s) (call env c m)"
  by (simp add: keeps_def call_def split: prod.split)

lemma keeps_failing_as: "keeps P m \<Longrightarrow> keeps P (failing_as f m)"
  unfolding failing_as_def by (intro keeps_intros)

lemma keeps_set_receipt: "keeps (\<lambda>s. n \<le> ct_now s) (set_receipt r)"
  unfolding set_receipt_def by (rule keeps_change) simp

lemma keeps_confirm: "keeps (\<lambda>s. n \<le> ct_now s) (confirm env selected r)"
  unfolding confirm_def settlement_of_def by (intro keeps_intros keeps_on_disk)

lemma poll_interval_pos: "0 < poll_interval"
  by (simp add: poll_interval_def)

lemma wait_for_poll_Inr:
  assumes "wait_for_poll env deadline s = (Inr u, t)"
  shows "ct_now s + int poll_interval \<le> ct_now t \<and> ct_now t < deadline"
  using assms by (auto simp: wait_for_poll_def Let_def min_def split: if_splits option.splits)

lemma poll_step_Inr:
  assumes "poll_step env i claim session s = (Inr u, t)"
  shows "ct_now s + int poll_interval \<le> ct_now t \<and> ct_now s + int poll_interval < ri_deadline i"
proof -
  obtain v m where m: "wait_for_poll env (ri_deadline i) s = (Inr v, m)"
    using assms by (auto simp: poll_step_def then_do_def run_simps split: prod.splits sum.splits)
  note passed = wait_for_poll_Inr[OF m]
  have "keeps (\<lambda>s. n \<le> ct_now s) (poll_observe env i claim session)" for n
    unfolding poll_observe_def by (intro keeps_intros keeps_call keeps_failing_as keeps_set_receipt keeps_confirm)
  then have "ct_now m \<le> ct_now (snd (poll_observe env i claim session m))" by (rule keepsD) simp
  moreover have "poll_observe env i claim session m = (Inr u, t)"
    using assms by (simp add: poll_step_def then_do_def run_simps m)
  ultimately show ?thesis using passed by simp
qed

function poll :: "'h run_env \<Rightarrow> run_intent \<Rightarrow> lock_claim \<Rightarrow> string \<Rightarrow> ('h, unit) cact" where
  "poll env i claim session s =
    (if terminal (rr_state (ct_receipt s)) then (Inr (), s)
     else case poll_step env i claim session s of
       (Inl e, t) \<Rightarrow> (Inl e, t)
     | (Inr u, t) \<Rightarrow> poll env i claim session t)"
  by pat_completeness auto

termination
  by (relation "measure (\<lambda>(env, i, claim, session, s). nat (ri_deadline i - ct_now s))")
    (use poll_interval_pos in \<open>auto dest!: poll_step_Inr[OF sym]\<close>)

declare poll.simps [simp del]

section \<open>Run\<close>

definition prepare_run :: "'h run_env \<Rightarrow> run_intent \<Rightarrow> ('h, run_request \<times> plan_result \<times> path) cact" where
  "prepare_run env i s = failing_as Preflight
    (andthen (of_res (build_request env (ct_now s) i)) (\<lambda>request.
     andthen (of_res (plan (cl_target (re_lib env)) (ri_target i) (ri_payload i))) (\<lambda>planned.
     andthen (failing_as (Wrap ''prepare evidence directory'')
         (on_disk env (prepare_evidence_root (re_disk env) (re_path env) (ri_evidence_dir i)))) (\<lambda>root.
     then_do (on_disk env (journal_record (re_lib env) (re_disk env) (re_root env) (ri_target i) (rq_claim request)))
      (ret (request, planned, root)))))) s"

definition check_inspection :: "plan_result \<Rightarrow> host_inspection \<Rightarrow> err option" where
  "check_inspection planned x =
    first_err
     [check (hi_schema_version x \<noteq> 1 \<or> hi_status x \<noteq> ''pass'' \<and> hi_status x \<noteq> ''fail'') ''inspect host: invalid host inspection'',
      check (hi_status x = ''fail'') ''inspect host: host checks failed'',
      check (\<not> inspection_supports x (pn_captures planned) \<or> \<not> ui_inspection_supports x (pn_ui_actions planned \<noteq> None))
        ''inspect host: requested capability is unsupported'']"

definition inspect_host :: "'h run_env \<Rightarrow> run_intent \<Rightarrow> plan_result \<Rightarrow> ('h, unit) cact" where
  "inspect_host env i planned =
    andthen (failing_as (Wrap ''inspect host'')
        (call env (CallInspect (host_requirements_of planned)) (ad_inspect (re_host env) (ri_target i) (host_requirements_of planned)))) (\<lambda>x.
      refuse (check_inspection planned x))"

definition acquire_lock :: "'h run_env \<Rightarrow> run_intent \<Rightarrow> lock_claim \<Rightarrow> ('h, unit) cact" where
  "acquire_lock env i claim =
    andthen (attempt (call env (CallAcquire claim) (ad_acquire (re_host env) (ri_target i) claim))) (\<lambda>acquired.
      case acquired of
        Inr u \<Rightarrow> skip
      | Inl e \<Rightarrow>
          andthen (look ct_receipt) (\<lambda>receipt.
          andthen (attempt (settle_run env (ri_target i) receipt)) (\<lambda>settled.
            case settled of
              Inl f \<Rightarrow> fail (Join (Wrap ''acquire Host Lock'' e) (Wrap ''settle ambiguous Host Lock acquisition'' f))
            | Inr cleanup \<Rightarrow>
                if cleanup_known cleanup then fail (Wrap ''acquire Host Lock'' e)
                else fail (Join (Wrap ''acquire Host Lock'' e)
                  (Msg ''settle ambiguous Host Lock acquisition: cleanup state is not known'')))))"

definition start_run :: "'h run_env \<Rightarrow> run_intent \<Rightarrow> run_request \<Rightarrow> ('h, unit) cact" where
  "start_run env i request =
    (let claim = rq_claim request in
     then_do (failing_as (Wrap ''stage Run Payload'')
       (call env (CallStage claim (ri_payload i)) (ad_stage (re_host env) (ri_target i) claim (ri_payload i))))
     (then_do (change (\<lambda>s. s\<lparr>ct_receipt := (ct_receipt s)\<lparr>rr_state := StateStaged\<rparr>\<rparr>))
     (andthen (call env (CallStart request)
         (\<lambda>h. case ad_start (re_host env) (ri_target i) request h of (r, h') \<Rightarrow> (Inr r, h'))) (\<lambda>(started, start_err).
      then_do (if rr_claim started = zero_claim \<and> rr_session_id started = '''' then refuse (wrap_err ''start Run'' start_err) else skip)
      (then_do (if claims_equal (rr_claim started) claim \<and> rr_session_id started \<noteq> ''''
                then change (\<lambda>s. s\<lparr>ct_receipt := (ct_receipt s)\<lparr>rr_session_id := rr_session_id started\<rparr>\<rparr>) else skip)
      (andthen (on_disk env (journal_load (re_lib env) (re_disk env) (re_root env) (ri_target i) (ri_run_id i))) (\<lambda>(record, pinned).
       andthen (look ct_receipt) (\<lambda>receipt.
       then_do (refuse (wrap_err ''start receipt'' (validate_receipt started claim pinned (rr_state receipt))))
       (then_do (refuse (wrap_err ''start Run'' start_err))
       (then_do (if pinned \<noteq> '''' then confirm env (ri_target i) started else accept_of env (ri_target i) started)
       (then_do (set_receipt started)
        (refuse (validate_ui_batch_receipt started (batch_of i))))))))))))))"

definition settle_known :: "'h run_env \<Rightarrow> target \<Rightarrow> run_receipt \<Rightarrow> ('h, cleanup_state) cact" where
  "settle_known env selected receipt =
    andthen (failing_as (Wrap ''settle Run'') (settle_run env selected receipt)) (\<lambda>cleanup.
      then_do (refuse (check (\<not> cleanup_known cleanup) ''settle Run: cleanup state is not known'')) (ret cleanup))"

definition finish_run :: "'h run_env \<Rightarrow> run_intent \<Rightarrow> run_request \<Rightarrow> path \<Rightarrow> ('h, run_result) cact" where
  "finish_run env i request root =
    andthen (look ct_receipt) (\<lambda>receipt.
    then_do (refuse (check (rr_state receipt \<noteq> StateComplete) ''Run ended''))
    (then_do (collect_evidence env i receipt root)
    (andthen (settle_known env (ri_target i) receipt) (\<lambda>cleanup.
      let r = \<lparr>rs_ui_journal_recovered = False, rs_ui_actions = rr_ui_actions receipt, rs_schema_version = 1,
        rs_run_id = ri_run_id i, rs_request_id = ri_request_id i, rs_request_hash = lc_request_hash (rq_claim request),
        rs_deadline = lc_deadline (rq_claim request), rs_session_id = rr_session_id receipt, rs_state = rr_state receipt,
        rs_evidence = rr_evidence receipt, rs_cleanup = cleanup, rs_error = rr_error receipt\<rparr> in
      then_do (confirm env (ri_target i) receipt)
      (then_do (failing_as (Wrap ''publish Evidence Bundle metadata'')
         (on_disk env (publish_bundle_metadata (re_lib env) (re_disk env) root r)))
       (ret r))))))"

definition run_locked :: "'h run_env \<Rightarrow> run_intent \<Rightarrow> run_request \<Rightarrow> path \<Rightarrow> ('h, run_result) cact" where
  "run_locked env i request root =
    then_do (start_run env i request)
    (andthen (look ct_receipt) (\<lambda>receipt.
     then_do (poll env i (rq_claim request) (rr_session_id receipt))
      (finish_run env i request root)))"

end
