(* ===== verification/RunnerRun.thy ===== *)
theory RunnerRun
  imports Runner
begin

text \<open>
  \<open>Run\<close> as a whole: the recovery of a Run with UI actions (\<open>orchestrator/uiaction.go\<close>), the
  deferred function that settles a failed Run, and the composition of the steps of theory Runner.
\<close>

section \<open>Recovery of UI evidence\<close>

definition zero_result :: run_result where
  "zero_result = \<lparr>rs_ui_journal_recovered = False, rs_ui_actions = None, rs_schema_version = 0, rs_run_id = '''',
     rs_request_id = '''', rs_request_hash = '''', rs_deadline = 0, rs_session_id = '''', rs_state = StateOther '''',
     rs_evidence = \<lparr>em_schema_version = 0, em_files = []\<rparr>, rs_cleanup = no_cleanup, rs_error = ''''\<rparr>"

text \<open>\<open>filepath.Join(root, filepath.FromSlash(path))\<close>.\<close>

definition evidence_path :: "path \<Rightarrow> string \<Rightarrow> path" where
  "evidence_path root relative = foldl join_component root (split_on CHR ''/'' relative)"

definition only_file :: "run_receipt \<Rightarrow> evidence_file \<Rightarrow> run_receipt" where
  "only_file r f = r\<lparr>rr_state := StateFailed, rr_evidence := \<lparr>em_schema_version = 3, em_files = [f]\<rparr>\<rparr>"

definition recover_file :: "'h run_env \<Rightarrow> run_intent \<Rightarrow> run_receipt \<Rightarrow> path \<Rightarrow> evidence_file \<Rightarrow> ('h, unit) cact" where
  "recover_file env i receipt root f =
    andthen (attempt (on_disk env (read_evidence_file (re_disk env) (evidence_path root (ef_path f))))) (\<lambda>content.
      case content of
        Inr c \<Rightarrow> refuse (check (int (length c) \<noteq> ef_size f \<or> sha_of env c \<noteq> ef_sha256 f) ''existing UI failure evidence changed'')
      | Inl e \<Rightarrow> if err_is e NotExist then collect_evidence env i (only_file receipt f) root else fail e)"

text \<open>
  The loop over the files of the receipt. It ends early only for an authority error (left); else it
  returns the files that are stored and the joined errors.
\<close>

fun recover_files ::
    "'h run_env \<Rightarrow> run_intent \<Rightarrow> run_receipt \<Rightarrow> path \<Rightarrow> evidence_file list \<Rightarrow> err option \<Rightarrow> evidence_file list
      \<Rightarrow> ('h, err + evidence_file list \<times> err option) cact" where
  "recover_files env i receipt root available errs [] = ret (Inr (available, errs))"
| "recover_files env i receipt root available errs (f # fs) =
    (let m = rr_evidence (only_file receipt f) in
     case or_else (validate_evidence_manifest (up_of env) (rr_session_id receipt) m)
            (validate_partial_evidence m (pl_scenario (ri_payload i))) of
       Some e \<Rightarrow> recover_files env i receipt root available (join_err errs (Some e)) fs
     | None \<Rightarrow>
         andthen (attempt (recover_file env i receipt root f)) (\<lambda>r.
           case r of
             Inr u \<Rightarrow> recover_files env i receipt root (available @ [f]) errs fs
           | Inl e \<Rightarrow>
               if is_authority e then ret (Inl (the (join_err errs (Some e))))
               else recover_files env i receipt root available (join_err errs (Some e)) fs))"

text \<open>
  The journal of the terminal receipt, stored when the host's own file was not fetched: its bytes
  must be the ones the host's evidence declares. An error of the authority ends the recovery (left).
\<close>

fun recover_journal ::
    "'h run_env \<Rightarrow> run_intent \<Rightarrow> run_receipt \<Rightarrow> path \<Rightarrow> string \<Rightarrow> evidence_file list \<Rightarrow> bool \<Rightarrow> err option \<Rightarrow> evidence_file list
      \<Rightarrow> ('h, err + evidence_file list \<times> bool \<times> err option) cact" where
  "recover_journal env i terminal_receipt root encoded available done errs [] = ret (Inr (available, done, errs))"
| "recover_journal env i terminal_receipt root encoded available done errs (f # fs) =
    (if ef_type f \<noteq> EvidenceUIActions then recover_journal env i terminal_receipt root encoded available done errs fs
     else if ef_path f \<noteq> ui_evidence_path \<or> ef_size f \<noteq> int (length encoded) \<or> ef_sha256 f \<noteq> sha_of env encoded
     then ret (Inr (available, done, join_err errs (Some (Msg ''recovered UI journal hash differs from host evidence''))))
     else
       andthen (attempt (confirm env (ri_target i) terminal_receipt)) (\<lambda>a.
         case a of
           Inl e \<Rightarrow> ret (Inl (the (join_err errs (Some e))))
         | Inr u \<Rightarrow>
             andthen (attempt (on_disk env (write_evidence (re_disk env) root (ef_path f) encoded))) (\<lambda>w.
               case w of
                 Inl e \<Rightarrow> ret (Inr (available, done, join_err errs (Some e)))
               | Inr v \<Rightarrow> recover_journal env i terminal_receipt root encoded (available @ [f]) True errs fs)))"

definition ui_result :: "run_receipt \<Rightarrow> evidence_file list \<Rightarrow> bool \<Rightarrow> cleanup_state \<Rightarrow> run_result" where
  "ui_result r available recovered cleanup =
    \<lparr>rs_ui_journal_recovered = recovered, rs_ui_actions = rr_ui_actions r, rs_schema_version = 1,
     rs_run_id = lc_run_id (rr_claim r), rs_request_id = lc_request_id (rr_claim r), rs_request_hash = lc_request_hash (rr_claim r),
     rs_deadline = lc_deadline (rr_claim r), rs_session_id = rr_session_id r, rs_state = rr_state r,
     rs_evidence = \<lparr>em_schema_version = 3, em_files = available\<rparr>, rs_cleanup = cleanup, rs_error = rr_error r\<rparr>"

text \<open>
  The result of the recovery: a result, whether the Run has been settled, and an error. Its first
  part recovers the receipt and completes \<open>*previous\<close>, the second fetches what is left of the
  evidence and settles, the third verifies the settled receipt and publishes the bundle.
\<close>

type_synonym recovery = "run_result \<times> bool \<times> err option"

definition adopt_recovered :: "run_receipt \<Rightarrow> err option \<Rightarrow> ('h, unit) cact" where
  "adopt_recovered receipt e = change (\<lambda>s. let previous = ct_receipt s in
     if (case e of None \<Rightarrow> True | Some f \<Rightarrow> \<not> is_authority f) \<and> claims_equal (rr_claim receipt) (rr_claim previous)
        \<and> rr_session_id receipt \<noteq> '''' \<and> (rr_session_id previous = '''' \<or> rr_session_id previous = rr_session_id receipt)
     then s\<lparr>ct_receipt := previous\<lparr>rr_session_id := rr_session_id receipt\<rparr>\<rparr> else s)"

definition recovered_refusal :: "run_intent \<Rightarrow> run_receipt \<Rightarrow> run_receipt \<Rightarrow> err option" where
  "recovered_refusal i previous receipt =
    first_err
     [(if \<not> claims_equal (rr_claim receipt) (rr_claim previous)
          \<or> rr_session_id previous \<noteq> '''' \<and> rr_session_id receipt \<noteq> rr_session_id previous
       then Some (authority_failure ''UI failure receipt identity changed'') else None),
      validate_progress (rr_ui_actions previous) (rr_ui_actions receipt),
      validate_ui_batch_receipt receipt (batch_of i)]"

definition verify_terminal :: "run_intent \<Rightarrow> run_receipt \<Rightarrow> err option \<Rightarrow> run_receipt \<Rightarrow> err option" where
  "verify_terminal i receipt errs settled =
    first_err
     [(if \<not> claims_equal (rr_claim settled) (rr_claim receipt) \<or> rr_session_id settled \<noteq> rr_session_id receipt
       then join_err errs (Some (authority_failure ''settled UI receipt identity changed'')) else None),
      (if \<not> cleanup_known (rr_cleanup settled)
       then join_err errs (Some (Msg ''settled UI receipt could not be verified'')) else None),
      validate_progress (rr_ui_actions receipt) (rr_ui_actions settled),
      validate_ui_batch_receipt settled (batch_of i)]"

definition complete_journal ::
    "'h run_env \<Rightarrow> run_intent \<Rightarrow> run_receipt \<Rightarrow> path \<Rightarrow> evidence_file list \<Rightarrow> err option
      \<Rightarrow> ('h, err + evidence_file list \<times> bool \<times> err option) cact" where
  "complete_journal env i settled root available errs =
    (case rr_ui_actions settled of
       None \<Rightarrow> ret (Inr (available, False, errs))
     | Some j \<Rightarrow>
         if list_ex (\<lambda>f. ef_type f = EvidenceUIActions) available then ret (Inr (available, False, errs))
         else recover_journal env i settled root (journal_bytes j) available False errs (em_files (rr_evidence settled)))"

definition publish_recovered ::
    "'h run_env \<Rightarrow> run_intent \<Rightarrow> run_receipt \<Rightarrow> path \<Rightarrow> evidence_file list \<Rightarrow> err option \<Rightarrow> cleanup_state \<Rightarrow> ('h, recovery) cact" where
  "publish_recovered env i settled root available errs cleanup =
    andthen (complete_journal env i settled root available errs) (\<lambda>j.
      case j of
        Inl e \<Rightarrow> ret (zero_result, True, Some e)
      | Inr (files, recovered, errs') \<Rightarrow>
          let r = ui_result settled files recovered cleanup in
          andthen (attempt (confirm env (ri_target i) settled)) (\<lambda>a.
            case a of
              Inl e \<Rightarrow> ret (zero_result, True, join_err errs' (Some e))
            | Inr u \<Rightarrow>
                andthen (attempt (on_disk env (publish_bundle_metadata (re_lib env) (re_disk env) root r))) (\<lambda>p.
                  ret (r, True, join_err errs' (err_of p)))))"

definition settle_recovered ::
    "'h run_env \<Rightarrow> run_intent \<Rightarrow> run_receipt \<Rightarrow> path \<Rightarrow> evidence_file list \<Rightarrow> err option \<Rightarrow> ('h, recovery) cact" where
  "settle_recovered env i receipt root available errs =
    andthen (attempt (settle_run env (ri_target i) receipt)) (\<lambda>c.
      case c of
        Inl e \<Rightarrow> ret (zero_result, False, join_err errs (join_err (Some e) (Some (Msg ''UI failure cleanup is not known''))))
      | Inr cleanup \<Rightarrow>
          if \<not> cleanup_known cleanup
          then ret (zero_result, False, join_err errs (Some (Msg ''UI failure cleanup is not known'')))
          else
            andthen (recover_receipt env (ri_target i) (ri_run_id i) (rr_session_id receipt)) (\<lambda>(settled, e).
              case e of
                Some f \<Rightarrow> ret (zero_result, True, join_err errs (Some (Wrap ''settled UI receipt could not be verified'' f)))
              | None \<Rightarrow>
                  (case verify_terminal i receipt errs settled of
                     Some f \<Rightarrow> ret (zero_result, True, Some f)
                   | None \<Rightarrow> publish_recovered env i settled root available errs cleanup)))"

definition recover_ui_failure :: "'h run_env \<Rightarrow> run_intent \<Rightarrow> path \<Rightarrow> ('h, recovery) cact" where
  "recover_ui_failure env i root =
    andthen (look ct_receipt) (\<lambda>before.
    andthen (recover_receipt env (ri_target i) (ri_run_id i) (rr_session_id before)) (\<lambda>(receipt, e).
    then_do (adopt_recovered receipt e)
    (case e of
       Some f \<Rightarrow> ret (zero_result, False, Some (Wrap ''UI failure receipt could not be recovered'' f))
     | None \<Rightarrow>
         andthen (look ct_receipt) (\<lambda>previous.
           case recovered_refusal i previous receipt of
             Some f \<Rightarrow> ret (zero_result, False, Some f)
           | None \<Rightarrow>
               andthen (recover_files env i receipt root [] None (em_files (rr_evidence receipt))) (\<lambda>x.
                 case x of
                   Inl f \<Rightarrow> ret (zero_result, False, Some f)
                 | Inr (available, errs) \<Rightarrow> settle_recovered env i receipt root available errs)))))"

section \<open>The deferred function and the whole Run\<close>

definition settle_failed :: "'h run_env \<Rightarrow> run_intent \<Rightarrow> err \<Rightarrow> ('h, run_result \<times> err) cact" where
  "settle_failed env i e =
    andthen (look ct_receipt) (\<lambda>receipt.
    andthen (attempt (settle_known env (ri_target i) receipt)) (\<lambda>c.
      ret (zero_result, case c of Inl f \<Rightarrow> Join e f | Inr cleanup \<Rightarrow> e)))"

definition on_failure :: "'h run_env \<Rightarrow> run_intent \<Rightarrow> path \<Rightarrow> err \<Rightarrow> ('h, run_result \<times> err) cact" where
  "on_failure env i root e =
    (if is_authority e then ret (zero_result, e)
     else if batch_of i = None then settle_failed env i e
     else
       andthen (recover_ui_failure env i root) (\<lambda>(recovered, settled, f).
         let e' = the (join_err (Some e) f) in
         if (case f of None \<Rightarrow> False | Some g \<Rightarrow> is_authority g) then ret (zero_result, e')
         else if settled then ret (recovered, e')
         else settle_failed env i e'))"

definition first_receipt :: "lock_claim \<Rightarrow> run_receipt" where
  "first_receipt claim = zero_receipt\<lparr>rr_schema_version := 1, rr_claim := claim, rr_state := StateAccepted\<rparr>"

definition Run :: "'h run_env \<Rightarrow> run_intent \<Rightarrow> ('h, run_result \<times> err option) cact" where
  "Run env i =
    andthen (attempt (prepare_run env i)) (\<lambda>p.
      case p of
        Inl e \<Rightarrow> ret (zero_result, Some e)
      | Inr (request, planned, root) \<Rightarrow>
          andthen (attempt
            (then_do (inspect_host env i planned)
             (then_do (set_receipt (first_receipt (rq_claim request)))
              (acquire_lock env i (rq_claim request))))) (\<lambda>l.
            case l of
              Inl e \<Rightarrow> ret (zero_result, Some e)
            | Inr u \<Rightarrow>
                andthen (attempt (run_locked env i request root)) (\<lambda>r.
                  case r of
                    Inr result \<Rightarrow> ret (result, None)
                  | Inl e \<Rightarrow> andthen (on_failure env i root e) (\<lambda>(result, f). ret (result, Some f)))))"

end
