(* ===== verification/RecordFound.thy ===== *)
theory RecordFound
  imports PrivateStore
begin

text \<open>
  A record of the private storage that is there is found: while other processes respect the store, a
  durable read of it may fail, but it does not report that the record does not exist. Clients that
  take a missing record for an answer (\<open>os.IsNotExist\<close>) rely on this.
\<close>

definition found :: "path set \<Rightarrow> 'a dact \<Rightarrow> disk \<Rightarrow> bool" where
  "found K m s \<longleftrightarrow> wp m (\<lambda>_ t. evolves K s t) (\<lambda>e t. evolves K s t \<and> \<not> err_is e NotExist) s"

lemma found_bind:
  assumes "found K m s" and "disk.made K m P s" and "\<And>a t. evolves K s t \<Longrightarrow> P a t \<Longrightarrow> found K (f a) t"
  shows "found K (andthen m f) s"
proof -
  have "wp m (\<lambda>a t. evolves K s t \<and> P a t) (\<lambda>e t. evolves K s t \<and> \<not> err_is e NotExist) s"
    using assms(1,2) unfolding found_def disk.made_def by (auto simp: wp_def split: prod.splits sum.splits)
  then show ?thesis
    unfolding found_def wp_andthen
  proof (rule wp_mono)
    fix a t assume t: "evolves K s t \<and> P a t"
    from assms(3)[of t a] t show "wp (f a) (\<lambda>_ t. evolves K s t) (\<lambda>e t. evolves K s t \<and> \<not> err_is e NotExist) t"
      unfolding found_def by (elim conjE) (erule (1) meta_impE | rule wp_mono[of "f a" "\<lambda>_ u. evolves K t u"], assumption | blast intro: disk.trans)+
  qed
qed

lemma found_then: "found K m s \<Longrightarrow> disk.made K m P s \<Longrightarrow> (\<And>t. evolves K s t \<Longrightarrow> P () t \<Longrightarrow> found K n t) \<Longrightarrow> found K (then_do m n) s"
  unfolding then_do_def by (rule found_bind[where P = P], assumption, assumption, simp)

lemma found_control: "found K (ret a) s" "found K (fail (Msg m)) s" "found K (refuse (check b m)) s"
  by (simp_all add: found_def wp_simps disk.refl check_def)

lemma found_check: "(\<And>e. c = Some e \<Longrightarrow> \<not> err_is e NotExist) \<Longrightarrow> (c = None \<Longrightarrow> found K m s) \<Longrightarrow> found K (then_do (refuse c) m) s"
  by (cases c) (auto simp: found_def then_do_def wp_simps disk.refl)

lemma found_sys:
  assumes "spares env K" and "\<And>t. evolves K s t \<Longrightarrow> wp m (\<lambda>_ u. evolves K t u) (\<lambda>e u. evolves K t u \<and> \<not> err_is e NotExist) t"
  shows "found K (sys env m) s"
proof -
  have st: "evolves K s (begin_call env s)" by (rule evolves_begin) fact
  from assms(2)[OF this] st show ?thesis
    by (auto simp: found_def wp_def sys_def Let_def intro: disk.trans split: fault.split prod.splits sum.splits)
qed

lemma found_stat: "spares env K \<Longrightarrow> p \<in> K \<Longrightarrow> entry_at s p \<noteq> None \<Longrightarrow> found K (stat_entry env p) s"
  unfolding stat_entry_def by (rule found_sys) (auto simp: wp_def disk.refl dest: evolvesD)

lemma found_sync: "spares env K \<Longrightarrow> p = [] \<or> p \<in> K \<Longrightarrow> is_directory s p \<Longrightarrow> found K (sync_directory env p) s"
  unfolding sync_directory_def
  by (rule found_sys) (auto simp: wp_def evolves_kept dest: is_directory_evolves)

lemma firm_entry: "firm s p \<Longrightarrow> q \<in> chain p \<Longrightarrow> entry_at s q \<noteq> None"
  by (auto simp: firm_def safe_def)

lemma firm_below:
  assumes "firm s (p @ [x])"
  shows "firm s p" "is_directory s p" "entry_at s (p @ [x]) \<noteq> None"
proof -
  have in_chain: "q \<in> chain (p @ [x])" "q \<noteq> p @ [x]" if "q \<in> chain p" for q using that by (auto simp: chain_def)
  then have dirs: "is_directory s q" if "q \<in> chain p" for q using assms that unfolding firm_def by blast
  show "is_directory s p"
  proof (cases "p = []")
    case False
    then show ?thesis by (intro dirs) (simp add: chain_def)
  qed (simp add: is_directory_def)
  show "firm s p" unfolding firm_def using assms in_chain dirs unfolding firm_def by blast
  show "entry_at s (p @ [x]) \<noteq> None" by (rule firm_entry[OF assms]) simp
qed

lemma found_sync_parents:
  assumes "spares env K"
  shows "chain p \<subseteq> K \<Longrightarrow> firm s p \<Longrightarrow> found K (sync_parents env p) s"
proof (induction p arbitrary: s rule: rev_induct)
  case (snoc x p)
  from snoc.prems(1) have K: "chain p \<subseteq> K" by simp
  show ?case unfolding sync_parents_snoc
  proof (rule found_then[OF found_sync[OF assms]])
    show "p = [] \<or> p \<in> K" using K by (cases "p = []") (auto simp: chain_def)
    show "is_directory s p" by (rule firm_below(2)[OF snoc.prems(2)])
    show "disk.made K (sync_directory env p) (\<lambda>_ _. True) s" by (rule made_true[OF made_sync[OF assms]])
    fix t assume "evolves K s t"
    from firm_below(1)[OF firm_evolves[OF snoc.prems(2) this snoc.prems(1)]]
    show "found K (sync_parents env p) t" by (rule snoc.IH[OF K])
  qed
qed (simp add: found_control)

lemma found_check_directory:
  "spares env K \<Longrightarrow> p = [] \<or> p \<in> K \<and> entry_at s p \<noteq> None \<Longrightarrow> found K (check_directory env p) s"
  unfolding check_directory_def
  by (auto intro!: found_bind[OF found_stat made_true[OF made_stat]] found_control split: entry.split)

lemma then_do_skip: "then_do skip m = m"
  by (simp add: then_do_def)

lemma found_enter:
  assumes sp: "spares env K"
  shows "list_all proper_name cs \<Longrightarrow> chain (p @ cs) \<subseteq> K \<Longrightarrow> firm s (p @ cs) \<Longrightarrow> found K (enter_directories env False p cs) s"
proof (induction cs arbitrary: p s)
  case (Cons c cs p s)
  have mem: "p @ [c] \<in> chain (p @ c # cs)" by (simp add: chain_def)
  have c: "proper_name c" using Cons.prems(1) by simp
  show ?case unfolding enter_directories.simps Let_def if_False then_do_skip proper_join[OF c]
  proof -
    show "found K (then_do (check_directory env (p @ [c])) (enter_directories env False (p @ [c]) cs)) s"
    proof (rule found_then[OF found_check_directory[OF sp] made_true[OF made_check_directory[OF sp]]])
      show "p @ [c] = [] \<or> p @ [c] \<in> K \<and> entry_at s (p @ [c]) \<noteq> None"
        using mem Cons.prems(2) firm_entry[OF Cons.prems(3)] by blast
      fix t assume "evolves K s t"
      from firm_evolves[OF Cons.prems(3) this Cons.prems(2)] Cons.prems
      show "found K (enter_directories env False (p @ [c]) cs) t" by (intro Cons.IH) simp_all
    qed
  qed
qed (simp add: found_control)

lemma found_read_path:
  assumes "spares env K" and "p \<in> K" and "entry_at s p \<noteq> None"
  shows "found K (read_path env p limit True) s"
proof -
  have c: "found K (sys env (ret c)) t" for c :: string and t
    by (rule found_sys[OF assms(1)]) (simp add: wp_simps disk.refl)
  have X: "disk.made K (sys env (ret c)) (\<lambda>_ _. True) t" for c :: string and t
    by (rule made_sys[OF assms(1)]) (simp_all add: ret_def disk.refl)
  have sized: "found K (refuse (case e of EFile b c f \<Rightarrow> check (limit < length c) m | _ \<Rightarrow> None)) t" for e m t
    by (cases e) (auto simp: found_def wp_simps disk.refl check_def)
  have msg: "\<not> err_is e NotExist" if "unsafe_read True x = Some e" for e x
    using that by (auto simp: unsafe_read_def check_def split: entry.splits if_splits)
  have opened: "found K (then_do (refuse (unsafe_read True x)) (case x of EFile b c f \<Rightarrow> andthen (sys env (ret c)) (\<lambda>data.
           if limit < length data then fail (Msg ''file exceeds size limit'') else ret data)
       | _ \<Rightarrow> fail (Msg ''opened file is not regular''))) t" for x t
    by (rule found_check[OF msg])
      (auto intro!: found_bind[OF c X] found_control split: entry.split)
  show ?thesis unfolding read_path_def
  proof (rule found_bind[OF found_stat[OF assms] made_true[OF made_stat[OF assms(1)]]], rule found_check[OF msg], assumption,
      rule found_then[OF sized])
    fix t before u assume "evolves K s t" "evolves K t u"
    then have "entry_at u p \<noteq> None" using assms(2,3) evolvesD disk.trans by (metis not_None_eq)
    from found_bind[OF found_stat[OF assms(1,2) this] made_true[OF made_stat[OF assms(1)]] opened]
    show "found K (andthen (stat_entry env p) (\<lambda>opened. then_do (refuse (unsafe_read True opened))
      (case opened of EFile b c f \<Rightarrow> andthen (sys env (ret c)) (\<lambda>data.
           if limit < length data then fail (Msg ''file exceeds size limit'') else ret data)
       | _ \<Rightarrow> fail (Msg ''opened file is not regular'')))) u" .
  qed (auto intro: disk.made_control)
qed

lemma found_read_durable:
  assumes sp: "spares env K" and K: "record_chain root ds b \<subseteq> K" and d: "proper_dir ds" and b: "proper_name b"
    and root: "store_root root" and firm: "firm s (record_path root ds b)"
    and fl: "\<not> raw (entry_at s (record_path root ds b))"
  shows "found K (read_durable env root (dir_name ds @ CHR ''/'' # b) limit) s"
proof -
  let ?p = "record_path root ds b" and ?dir = "parts root @ ds"
  have in_K: "chain ?p \<subseteq> K" "?p \<in> K" "chain ?dir \<subseteq> K"
    using K record_chain_simps(1)[of root ds b] record_chain_simps(2)[of root ds b] unfolding record_chain_def by blast+
  have there: "entry_at t ?p \<noteq> None" "firm t ?dir" "firm t ?p" if "evolves K s t" for t
    using firm_evolves[OF firm that in_K(1)] firm_below[of t ?dir b] by (simp_all add: record_path_def)
  have msg: "\<not> err_is e NotExist" if "check x m = Some e" for x m e using that by (auto simp: check_def split: if_splits)
  have proper: "list_all proper_name ds" using d by (simp add: proper_dir_def)
  have top: "parts root = [] \<or> parts root \<in> K \<and> entry_at t (parts root) \<noteq> None" if "evolves K s t" for t
  proof (cases "parts root = []")
    case False
    then have "parts root \<in> chain ?dir" by (simp add: chain_def)
    then show ?thesis using in_K(3) firm_entry[OF there(2)[OF that]] by blast
  qed simp
  have enter: "found K (andthen (enter_directories env False (parts root) ds) (\<lambda>q. ret q)) t" if "evolves K s t" for t
    using found_enter[OF sp proper in_K(3) there(2)[OF that]] by simp
  have dir: "found K (private_directory env root (dir_name ds) False) s"
    unfolding private_directory_def dir_split[OF d] if_not_P[OF dir_clean(2)[OF d]] if_False then_do_skip
    by (rule found_check[OF msg], assumption, rule found_check[OF msg], assumption,
        rule found_then[OF found_check_directory[OF sp top[OF disk.refl]] made_check_directory[OF sp]], rule enter)
  have read: "found K (private_read env root (dir_name ds @ CHR ''/'' # b) limit) s"
    unfolding private_read_def record_dir[OF d b] record_base[OF b]
  proof (rule found_bind[OF dir made_private_directory[OF sp d in_K(3)]])
    fix p t assume t: "evolves K s t" and "p = ?dir \<and> (False \<longrightarrow> firm t p)"
    then have "join_component p (b) = ?p" using b by (simp add: record_path_def)
    with found_read_path[OF sp in_K(2) there(1)[OF t]]
    show "found K (read_path env (join_component p b) limit True) t" by simp
  qed
  have parents: "found K (then_do (sync_parents env ?p) (ret c)) t" if "evolves K s t" for c :: string and t
    by (rule found_then[OF found_sync_parents[OF sp in_K(1) there(3)[OF that]] made_sync_parents[OF sp in_K(1)]])
      (use there(1)[OF that] found_control(1) in auto)
  show ?thesis unfolding read_durable_def record_joined[OF root d b] record_path_def[symmetric]
    by (rule found_bind[OF read made_private_read[OF sp K d b fl]]) (rule parents)
qed

end
