(* ===== verification/JournalGuarantees.thy ===== *)
theory JournalGuarantees
  imports Journal RecordFound
begin

text \<open>
  What the controller's journal promises, whatever faults and other processes' records come in
  between: the claim of a Run never changes once loaded, a pinned session is never changed or
  forgotten, and an accepted receipt has its session pinned.
\<close>

section \<open>The authority of a Run\<close>

text \<open>The records of Runs lie in one directory of the store.\<close>

definition run_dirs :: "string list" where "run_dirs = [''runs'']"

definition claim_file :: "string \<Rightarrow> string" where "claim_file run = run @ ''.json''"
definition pin_file :: "string \<Rightarrow> string" where "pin_file run = run @ ''.session.json''"

lemma run_id_chars:
  assumes "run_id_ok run"
  shows "run \<noteq> ''''" "CHR ''/'' \<notin> set run" "CHR ''.'' \<notin> set run" "hd run = CHR ''b''"
proof -
  from assms obtain r where r: "run = ''bbx_'' @ r" "list_all ident_char r"
    by (auto simp: run_id_ok_def tagged_run_def run_of_def has_prefix_iff)
  moreover have "\<not> ident_char CHR ''/''" "\<not> ident_char CHR ''.''" by (simp_all add: evaluate)
  ultimately show "run \<noteq> ''''" "CHR ''/'' \<notin> set run" "CHR ''.'' \<notin> set run" "hd run = CHR ''b''"
    by (auto simp: list_all_iff)
qed

lemma run_file:
  assumes "run_id_ok run" and "b = claim_file run \<or> b = pin_file run"
  shows "record_file b"
proof -
  note r = run_id_chars[OF assms(1)]
  have "b \<noteq> ''''" "hd b = CHR ''b''" "CHR ''/'' \<notin> set b"
    using assms(2) r by (auto simp: claim_file_def pin_file_def hd_append)
  then show ?thesis by (auto simp: record_file_def proper_name_def has_prefix_iff)
qed

lemma run_dirs_proper: "proper_dir run_dirs" "dir_name run_dirs = ''runs''"
  by (simp_all add: run_dirs_def proper_dir_def proper_name_def dir_name_def)

lemma run_paths:
  assumes "run_id_ok run"
  shows "claim_path run = dir_name run_dirs @ CHR ''/'' # claim_file run" "pin_path run = dir_name run_dirs @ CHR ''/'' # pin_file run"
    "claim_path run \<in> record_names run_dirs" "pin_path run \<in> record_names run_dirs"
proof -
  have clean: "path_clean (''runs/'' @ b) = dir_name run_dirs @ CHR ''/'' # b" if "record_file b" for b
  proof -
    from that have "proper_name b" by (simp add: record_file_def)
    then have "safe_components (split_on CHR ''/'' (dir_name run_dirs @ CHR ''/'' # b))"
      using run_dirs_proper(1) by (auto simp: record_split proper_dir_def safe_components_def proper_name_def list_all_iff)
    from safe_components_clean(1)[OF this] show ?thesis by (simp add: run_dirs_proper(2))
  qed
  from run_file[OF assms] have files: "record_file (claim_file run)" "record_file (pin_file run)" by blast+
  from clean[OF files(1)] clean[OF files(2)]
  show c: "claim_path run = dir_name run_dirs @ CHR ''/'' # claim_file run" and p: "pin_path run = dir_name run_dirs @ CHR ''/'' # pin_file run"
    by (simp_all add: claim_path_def pin_path_def claim_file_def pin_file_def)
  show "claim_path run \<in> record_names run_dirs" "pin_path run \<in> record_names run_dirs"
    unfolding c p record_names_def using files run_dirs_proper(1) by blast+
qed

definition recorded :: "ctl_lib \<Rightarrow> string \<Rightarrow> disk \<Rightarrow> string \<Rightarrow> run_authority \<Rightarrow> bool" where
  "recorded lib root s run r \<longleftrightarrow>
    (\<exists>d. record_content root s (claim_path run) = Some d \<and> check_authority lib run d = Inr r)"

definition pinned :: "ctl_lib \<Rightarrow> string \<Rightarrow> disk \<Rightarrow> string \<Rightarrow> run_authority \<Rightarrow> string \<Rightarrow> bool" where
  "pinned lib root s run r session \<longleftrightarrow>
    (\<exists>d. stored s root run_dirs (pin_file run) d \<and> check_pin lib run r d = Inr session)"

lemma recorded_unique: "recorded lib root s run r \<Longrightarrow> recorded lib root s run r' \<Longrightarrow> r' = r"
  by (auto simp: recorded_def)

lemma pinned_unique: "pinned lib root s run r x \<Longrightarrow> pinned lib root s run r y \<Longrightarrow> y = x"
  by (auto simp: pinned_def stored_def)

lemma recorded_evolves: "recorded lib root s run r \<Longrightarrow> evolves (sealed root run_dirs) s t \<Longrightarrow> run_id_ok run \<Longrightarrow> recorded lib root t run r"
  unfolding recorded_def using content_evolves run_paths(3) by blast

lemma pin_chain: "run_id_ok run \<Longrightarrow> record_chain root run_dirs (pin_file run) \<subseteq> sealed root run_dirs"
  by (rule sealed_chain) (blast intro: run_file)

lemma pinned_evolves: "pinned lib root s run r x \<Longrightarrow> evolves (sealed root run_dirs) s t \<Longrightarrow> run_id_ok run \<Longrightarrow> pinned lib root t run r x"
  unfolding pinned_def using stored_evolves pin_chain by blast

lemma check_pin_session: "check_pin lib run r d = Inr x \<Longrightarrow> x \<noteq> ''''"
  by (auto simp: check_pin_def pin_ok_def session_id_ok_def dest!: tagged_run_not_Nil split: sum.splits if_splits)

lemma pinned_session: "pinned lib root s run r x \<Longrightarrow> x \<noteq> ''''"
  unfolding pinned_def using check_pin_session by blast

lemma check_authority_run: "check_authority lib run d = Inr r \<Longrightarrow> authority_ok run r"
  by (auto simp: check_authority_def split: sum.splits if_splits)

lemma made_failing_as: "disk.made K m Q s \<Longrightarrow> disk.made K (failing_as f m) Q s"
  unfolding failing_as_def
  by (rule disk.made_bind[OF disk.made_attempt[where Q = "\<lambda>r t. case r of Inl e \<Rightarrow> True | Inr a \<Rightarrow> Q a t"]])
    (auto intro: disk.made_control split: sum.split)

lemma made_of_res: "disk.made K (of_res r) (\<lambda>a t. r = Inr a) s"
  by (cases r) (auto simp: disk.made_def wp_of_res disk.refl)

lemma pin_place: "run_id_ok run \<Longrightarrow> dirs_of (pin_path run) = run_dirs" "run_id_ok run \<Longrightarrow> path_base (pin_path run) = pin_file run"
proof -
  assume run: "run_id_ok run"
  have b: "proper_name (pin_file run)" using run_file[OF run, of "pin_file run"] by (simp add: record_file_def)
  show "dirs_of (pin_path run) = run_dirs" "path_base (pin_path run) = pin_file run"
    unfolding run_paths(2)[OF run] by (rule dirs_of_record[OF run_dirs_proper(1) b], rule record_base[OF b])
qed

lemma made_load_pin:
  assumes env: "peaceful root run_dirs env" and fl: "flushed_in (sealed root run_dirs) s" and run: "run_id_ok run"
  shows "disk.made (sealed root run_dirs) (load_pin lib env root run r) (\<lambda>x t. x = '''' \<or> pinned lib root t run r x) s"
proof -
  have "disk.made (sealed root run_dirs) (read_durable env root (pin_path run) max_authority_size)
      (\<lambda>d t. stored t root run_dirs (pin_file run) d) s"
    using made_record_read[OF env run_paths(4)[OF run] fl] unfolding pin_place[OF run] .
  from disk.made_attempt[OF this, where Q = "\<lambda>x t. case x of Inl e \<Rightarrow> True | Inr d \<Rightarrow> stored t root run_dirs (pin_file run) d"]
  have read: "disk.made (sealed root run_dirs) (attempt (read_durable env root (pin_path run) max_authority_size))
      (\<lambda>x t. case x of Inl e \<Rightarrow> True | Inr d \<Rightarrow> stored t root run_dirs (pin_file run) d) s" by simp
  show ?thesis unfolding load_pin_def
    by (rule disk.made_bind[OF read])
      (auto simp: pinned_def intro!: disk.made_control disk.made_weaken[OF made_of_res] elim: stored_evolves[OF _ _ pin_chain[OF run]] split: sum.splits)
qed

text \<open>A pin that is there is never reported as missing.\<close>

lemma load_pinned:
  assumes env: "peaceful root run_dirs env" and fl: "flushed_in (sealed root run_dirs) s" and run: "run_id_ok run"
    and pin: "pinned lib root s run r x" and load: "load_pin lib env root run r s = (Inr y, t)"
  shows "y = x"
proof -
  let ?K = "sealed root run_dirs"
  from env have sp: "spares env ?K" and root: "store_root root" by (auto simp: peaceful_def intro: spares_subset)
  from pin obtain d where d: "stored s root run_dirs (pin_file run) d" "check_pin lib run r d = Inr x" by (auto simp: pinned_def)
  have b: "proper_name (pin_file run)" using run_file[OF run, of "pin_file run"] by (simp add: record_file_def)
  have "\<not> raw (entry_at s (record_path root run_dirs (pin_file run)))" using d(1) by (simp add: stored_def raw_def)
  from found_read_durable[OF sp pin_chain[OF run] run_dirs_proper(1) b root _ this] d(1)
  have found: "found ?K (read_durable env root (pin_path run) max_authority_size) s"
    by (simp add: run_paths(2)[OF run] stored_def lasting_def)
  obtain res u where res: "read_durable env root (pin_path run) max_authority_size s = (res, u)" by (cases "read_durable env root (pin_path run) max_authority_size s")
  show ?thesis
  proof (cases res)
    case (Inl e)
    with found res have "\<not> err_is e NotExist" by (simp add: found_def wp_def)
    with load res Inl show ?thesis by (simp add: load_pin_def evaluate)
  next
    case (Inr c)
    with disk.made_result[OF made_record_read[OF env run_paths(4)[OF run] fl]] res
    have u: "evolves ?K s u" "stored u root run_dirs (pin_file run) c" by (auto simp: pin_place[OF run])
    with stored_evolves[OF d(1) u(1) pin_chain[OF run]] have "c = d" by (simp add: stored_def)
    with load res Inr d(2) show ?thesis by (simp add: load_pin_def evaluate)
  qed
qed

lemma made_load_pinned:
  assumes "peaceful root run_dirs env" and "flushed_in (sealed root run_dirs) s" and "run_id_ok run"
  shows "disk.made (sealed root run_dirs) (load_pin lib env root run r)
    (\<lambda>x t. (x = '''' \<or> pinned lib root t run r x) \<and> (\<forall>z. pinned lib root s run r z \<longrightarrow> x = z)) s"
  using made_load_pin[OF assms, of lib r] load_pinned[OF assms, of lib r]
  by (auto simp: disk.made_def wp_def split: prod.splits sum.splits)

lemma made_journal_load:
  assumes env: "peaceful root run_dirs env" and fl: "flushed_in (sealed root run_dirs) s"
  shows "disk.made (sealed root run_dirs) (journal_load lib env root selected run) (\<lambda>(r, x) t.
    run_id_ok run \<and> recorded lib root t run r \<and> ra_fingerprint r = target_fingerprint (cl_target lib) selected
    \<and> (x = '''' \<or> pinned lib root t run r x) \<and> (\<forall>z. pinned lib root s run r z \<longrightarrow> x = z)) s"
  unfolding journal_load_def
proof (intro disk.made_check)
  assume "run_id_validate run = None"
  then have run: "run_id_ok run" by (simp add: run_id_validate_def)
  let ?K = "sealed root run_dirs"
  have read: "disk.made ?K (failing_as f (read_durable env root (claim_path run) max_authority_size))
      (\<lambda>d t. record_content root t (claim_path run) = Some d) s" for f
    by (rule made_failing_as, rule disk.made_weaken[OF made_record_read[OF env run_paths(3)[OF run] fl]], rule content_stored)
  have tail: "disk.made ?K (then_do (if ra_fingerprint r \<noteq> target_fingerprint (cl_target lib) selected
              then fail e else skip) (andthen (load_pin lib env root run r) (\<lambda>session. ret (r, session))))
      (\<lambda>(r, x) t. run_id_ok run \<and> recorded lib root t run r \<and> ra_fingerprint r = target_fingerprint (cl_target lib) selected
        \<and> (x = '''' \<or> pinned lib root t run r x) \<and> (\<forall>z. pinned lib root s run r z \<longrightarrow> x = z)) t"
    if "evolves ?K s t" "recorded lib root t run r" for t r e
  proof (rule disk.made_then[where P = "\<lambda>_ _. ra_fingerprint r = target_fingerprint (cl_target lib) selected"])
    fix u assume u: "evolves ?K t u" "ra_fingerprint r = target_fingerprint (cl_target lib) selected"
    have "flushed_in ?K u" using private_store.later_sound[OF disk.trans[OF that(1) u(1)] fl] .
    from made_load_pinned[OF env this run, of lib r]
    show "disk.made ?K (andthen (load_pin lib env root run r) (\<lambda>session. ret (r, session)))
      (\<lambda>(r, x) t. run_id_ok run \<and> recorded lib root t run r \<and> ra_fingerprint r = target_fingerprint (cl_target lib) selected
        \<and> (x = '''' \<or> pinned lib root t run r x) \<and> (\<forall>z. pinned lib root s run r z \<longrightarrow> x = z)) u"
      by (rule disk.made_bind)
        (use u that run in \<open>auto intro!: disk.made_control intro: recorded_evolves pinned_evolves disk.trans\<close>)
  qed (auto intro: disk.made_control)
  show "disk.made ?K (andthen (failing_as (\<lambda>_. authority_failure ''original Run claim is unavailable'')
        (read_durable env root (claim_path run) max_authority_size)) (\<lambda>data.
     andthen (of_res (check_authority lib run data)) (\<lambda>r.
     then_do (if ra_fingerprint r \<noteq> target_fingerprint (cl_target lib) selected
              then fail (Authority (Msg ''target does not match original Run'')) else skip)
     (andthen (load_pin lib env root run r) (\<lambda>session. ret (r, session))))))
    (\<lambda>(r, x) t. run_id_ok run \<and> recorded lib root t run r \<and> ra_fingerprint r = target_fingerprint (cl_target lib) selected
      \<and> (x = '''' \<or> pinned lib root t run r x) \<and> (\<forall>z. pinned lib root s run r z \<longrightarrow> x = z)) s"
    by (rule disk.made_bind[OF read], rule disk.made_bind[OF made_of_res], rule tail)
      (auto simp: recorded_def intro: disk.trans dest: content_evolves[OF _ run_paths(3)[OF run]])
qed


section \<open>Settlement and acceptance\<close>

definition authorized :: "ctl_lib \<Rightarrow> string \<Rightarrow> disk \<Rightarrow> lock_claim \<Rightarrow> run_authority \<Rightarrow> bool" where
  "authorized lib root s claim r \<longleftrightarrow> run_id_ok (lc_run_id claim) \<and> recorded lib root s (lc_run_id claim) r \<and> ra_claim r = claim"

lemma made_refuse_with: "(\<not> b \<Longrightarrow> disk.made K m Q s) \<Longrightarrow> disk.made K (then_do (refuse_with b msg) m) Q s"
  by (cases b) (auto simp: refuse_with_def disk.made_def wp_simps then_do_def disk.refl)

lemma made_settlement:
  assumes "peaceful root run_dirs env" and "flushed_in (sealed root run_dirs) s"
  shows "disk.made (sealed root run_dirs) (journal_settlement lib env root selected receipt) (\<lambda>rc t. \<exists>r x.
    authorized lib root t (rr_claim receipt) r \<and> rc = receipt\<lparr>rr_session_id := x\<rparr>
    \<and> (rr_session_id receipt = '''' \<or> x = rr_session_id receipt)
    \<and> (x = '''' \<or> pinned lib root t (lc_run_id (rr_claim receipt)) r x)
    \<and> (\<forall>z. pinned lib root s (lc_run_id (rr_claim receipt)) r z \<longrightarrow> x = z)) s"
  unfolding journal_settlement_def
proof (rule disk.made_bind[OF made_journal_load[OF assms]], goal_cases)
  case (1 a t)
  obtain r x where a: "a = (r, x)" by (cases a)
  show ?case unfolding a prod.case
    by (intro made_refuse_with disk.made_ret exI[of _ r] exI[of _ x]) (use 1 a in \<open>auto simp: authorized_def\<close>)
qed

text \<open>What is assumed of the library: it reads back what it wrote.\<close>

definition times_read_back :: "ctl_lib \<Rightarrow> bool" where
  "times_read_back lib \<longleftrightarrow> (\<forall>t d. cl_time lib t = Inr d \<longrightarrow> cl_time_parse lib d = Some t)"

definition reads_back :: "ctl_lib \<Rightarrow> json \<Rightarrow> bool" where
  "reads_back lib v \<longleftrightarrow> tl_parse (cl_target lib) (render v) = Some v"

lemma claim_fields: "canonical_fields (claim_members c d)"
  by (simp add: canonical_fields_def claim_members_def canonical_key_def evaluate)

lemma claim_lookup:
  "field_of ''schema_version'' (claim_members c d) = Some (JNum (lc_schema_version c))"
  "field_of ''run_id'' (claim_members c d) = Some (JStr (lc_run_id c))"
  "field_of ''request_id'' (claim_members c d) = Some (JStr (lc_request_id c))"
  "field_of ''controller_id'' (claim_members c d) = Some (JStr (lc_controller_id c))"
  "field_of ''deadline'' (claim_members c d) = Some (JStr d)"
  "field_of ''request_hash'' (claim_members c d) = Some (JStr (lc_request_hash c))"
  "field_of ''task_name'' (claim_members c d) = Some (JStr (lc_task_name c))"
  by (rule field_of_member[OF claim_fields], simp add: claim_members_def)+

lemma decode_claim_members:
  assumes "int_ok (lc_schema_version c)" and "cl_time_parse lib d = Some (lc_deadline c)"
  shows "decode_claim lib (Some (JObj (claim_members c d))) = Inr c"
proof -
  have "known_fields claim_names (claim_members c d)" by (rule known_members) (simp add: claim_members_def claim_names_def)
  then show ?thesis using assms by (simp add: decode_claim_def claim_lookup get_time_def)
qed

lemma claim_keyed: "well_keyed (\<lambda>t. t \<noteq> TNull) canonical_key (JObj (claim_members c d))"
  by (rule members_keyed[OF claim_fields]) (simp add: claim_members_def)

definition pin_members :: "session_pin \<Rightarrow> json \<Rightarrow> (string \<times> json) list" where
  "pin_members p c = [(''schema_version'', JNum (sp_schema_version p)), (''run_id'', JStr (sp_run_id p)), (''claim'', c),
     (''target_fingerprint'', JStr (sp_fingerprint p)), (''session_id'', JStr (sp_session_id p))]"

lemma pin_fields: "canonical_fields (pin_members p c)"
  by (simp add: canonical_fields_def pin_members_def canonical_key_def evaluate)

lemma pin_lookup:
  "field_of ''schema_version'' (pin_members p c) = Some (JNum (sp_schema_version p))"
  "field_of ''run_id'' (pin_members p c) = Some (JStr (sp_run_id p))"
  "field_of ''claim'' (pin_members p c) = Some c"
  "field_of ''target_fingerprint'' (pin_members p c) = Some (JStr (sp_fingerprint p))"
  "field_of ''session_id'' (pin_members p c) = Some (JStr (sp_session_id p))"
  by (rule field_of_member[OF pin_fields], simp add: pin_members_def)+

lemma pin_reads_back:
  assumes json: "pin_json lib (pin_of r x) = Inr v" and rb: "reads_back lib v" "times_read_back lib"
    and ok: "session_id_ok x" "authority_ok run r"
  shows "check_pin lib run r (render v) = Inr x"
proof -
  let ?p = "pin_of r x"
  from json obtain d where d: "cl_time lib (lc_deadline (ra_claim r)) = Inr d"
    and v: "v = JObj (pin_members ?p (JObj (claim_members (ra_claim r) d)))"
    by (auto simp: pin_json_def claim_json_def pin_members_def pin_of_def)
  have claim: "int_ok (lc_schema_version (ra_claim r))" "lc_run_id (ra_claim r) = run"
    using ok(2) by (auto simp: authority_ok_def claim_validate_def int_ok_def)
  have "well_keyed (\<lambda>t. t \<noteq> TNull) canonical_key v"
    unfolding v by (rule members_keyed[OF pin_fields]) (simp add: pin_members_def claim_keyed del: well_keyed.simps(1,2))
  then have strict: "strict_admits (tokens v) = None" by (rule strict_admits_keyed)
  have known: "known_fields [''schema_version'', ''run_id'', ''claim'', ''target_fingerprint'', ''session_id'']
      (pin_members ?p (JObj (claim_members (ra_claim r) d)))" by (rule known_members) (simp add: pin_members_def)
  from rb d have "cl_time_parse lib d = Some (lc_deadline (ra_claim r))" by (simp add: times_read_back_def)
  from decode_claim_members[OF claim(1) this] strict rb(1) known
  have "decode_pin lib (render v) = Inr ?p"
    by (simp add: decode_pin_def strict_struct_def strict_value_def reads_back_def v pin_lookup int_ok_def pin_of_def)
  moreover have "pin_ok run r ?p" using ok claim(2) by (simp add: pin_ok_def pin_of_def)
  ultimately show ?thesis by (simp add: check_pin_def pin_of_def)
qed

lemma authorized_evolves: "authorized lib root s c r \<Longrightarrow> evolves (sealed root run_dirs) s t \<Longrightarrow> authorized lib root t c r"
  unfolding authorized_def using recorded_evolves by blast

lemma authorized_ok: "authorized lib root s c r \<Longrightarrow> authority_ok (lc_run_id c) r"
  unfolding authorized_def recorded_def using check_authority_run by blast

lemma made_failing_of_res: "disk.made K (failing_as f (of_res r)) (\<lambda>a t. r = Inr a) s"
  by (rule made_failing_as[OF made_of_res])

lemma made_publish_pin:
  assumes env: "peaceful root run_dirs env" and fl: "flushed_in (sealed root run_dirs) s"
    and auth: "authorized lib root s c r" and x: "session_id_ok x"
    and rb: "times_read_back lib" "\<And>v. pin_json lib (pin_of r x) = Inr v \<Longrightarrow> reads_back lib v"
  shows "disk.made (sealed root run_dirs) (publish_pin lib env root selected r x) (\<lambda>_ t. pinned lib root t (lc_run_id c) r x) s"
proof -
  let ?K = "sealed root run_dirs" and ?run = "lc_run_id c"
  have run: "run_id_ok ?run" "lc_run_id (ra_claim r) = ?run" using auth by (auto simp: authorized_def)
  have pub: "disk.made ?K (attempt (private_publish env root (pin_path ?run) (render v) False))
      (\<lambda>res t. case res of Inl e \<Rightarrow> True | Inr u \<Rightarrow> pinned lib root t ?run r x) t"
    if v: "pin_json lib (pin_of r x) = Inr v" and t: "evolves ?K s t" for v t
  proof (rule disk.made_attempt[OF made_record_publish[OF env run_paths(4)[OF run(1)]]])
    fix u :: unit and y assume "stored y root (dirs_of (pin_path ?run)) (path_base (pin_path ?run)) (render v)"
    with pin_reads_back[OF v rb(2)[OF v] rb(1) x authorized_ok[OF auth]]
    show "case Inr u of Inl e \<Rightarrow> True | Inr u \<Rightarrow> pinned lib root y ?run r x" by (auto simp: pinned_def pin_place[OF run(1)])
  qed simp
  have again: "disk.made ?K (andthen (attempt (journal_load lib env root selected ?run)) (\<lambda>again.
               case again of Inr (r', p) \<Rightarrow> if p = x then skip else fail e | Inl e' \<Rightarrow> fail e'')) (\<lambda>_ t. pinned lib root t ?run r x) t"
    if t: "evolves ?K s t" for t e e''
  proof (rule disk.made_bind, rule disk.made_attempt[OF made_journal_load[OF env private_store.later_sound[OF t fl]],
        where Q = "\<lambda>a u. case a of Inl e \<Rightarrow> True | Inr (r', p) \<Rightarrow> recorded lib root u ?run r' \<and> (p = '''' \<or> pinned lib root u ?run r' p)"],
        goal_cases)
    case (3 a u)
    have "recorded lib root u ?run r"
      using authorized_evolves[OF auth disk.trans[OF t 3(1)]] by (simp add: authorized_def)
    with 3 x show ?case
      by (auto intro!: disk.made_control dest: recorded_unique simp: session_id_ok_def dest!: tagged_run_not_Nil split: sum.splits)
  qed auto
  show ?thesis unfolding publish_pin_def Let_def run(2)
    by (rule disk.made_bind[OF made_failing_of_res], rule disk.made_bind[OF pub])
      (auto intro!: disk.made_control again intro: disk.trans split: sum.splits)
qed

definition authority_of :: "ctl_lib \<Rightarrow> target \<Rightarrow> lock_claim \<Rightarrow> run_authority" where
  "authority_of lib selected claim =
    \<lparr>ra_schema_version = 1, ra_claim = claim, ra_fingerprint = target_fingerprint (cl_target lib) selected\<rparr>"

lemma authority_ofI: "authority_ok run r \<Longrightarrow> ra_fingerprint r = target_fingerprint (cl_target lib) selected \<Longrightarrow> r = authority_of lib selected (ra_claim r)"
  by (cases r) (simp add: authority_of_def authority_ok_def)

lemma made_accept:
  assumes env: "peaceful root run_dirs env" and fl: "flushed_in (sealed root run_dirs) s"
    and rb: "times_read_back lib"
      "\<And>v. pin_json lib (pin_of (authority_of lib selected (rr_claim receipt)) (rr_session_id receipt)) = Inr v \<Longrightarrow> reads_back lib v"
  shows "disk.made (sealed root run_dirs) (journal_accept lib env root selected receipt) (\<lambda>_ t. \<exists>r.
    authorized lib root t (rr_claim receipt) r
    \<and> (rr_session_id receipt = '''' \<or> pinned lib root t (lc_run_id (rr_claim receipt)) r (rr_session_id receipt))) s"
  unfolding journal_accept_def
proof (rule disk.made_bind[OF made_journal_load[OF env fl]], goal_cases)
  case (1 a t)
  obtain r x where a: "a = (r, x)" by (cases a)
  show ?case unfolding a prod.case
  proof (intro made_refuse_with, goal_cases)
    case c: 1
    with 1 a have auth: "authorized lib root t (rr_claim receipt) r" by (auto simp: authorized_def)
    have pub: "disk.made (sealed root run_dirs) (publish_pin lib env root selected r (rr_session_id receipt))
      (\<lambda>_ t. \<exists>r. authorized lib root t (rr_claim receipt) r
        \<and> (rr_session_id receipt = '''' \<or> pinned lib root t (lc_run_id (rr_claim receipt)) r (rr_session_id receipt))) t"
      if "session_id_ok (rr_session_id receipt)"
      by (rule disk.made_weaken[OF made_publish_pin[OF env private_store.later_sound[OF 1(1) fl] auth that rb(1)]])
        (use c auth rb(2) authority_ofI[OF authorized_ok[OF auth], of lib selected] 1(2) a in \<open>auto intro: authorized_evolves\<close>)
    show ?case
      using c 1(2) a auth pub by (auto intro!: disk.made_control made_refuse_with)
  qed
qed

section \<open>Guarantees\<close>

text \<open>C16: the authority of a Run is final. Whatever faults, crashes of this process and other records
  come in between, two loads that succeed agree on the claim and the target, and a session that was
  pinned is neither changed nor reported as missing later.\<close>

theorem authority_is_final:
  assumes "peaceful root run_dirs env" and "flushed_in (sealed root run_dirs) s"
    and "journal_load lib env root selected run s = (Inr (r, session), t)" and "evolves (sealed root run_dirs) t u"
    and "journal_load lib env root selected' run u = (Inr (r', session'), x)"
  shows "r' = r \<and> (session \<noteq> '''' \<longrightarrow> session' = session)"
proof -
  from disk.made_result[OF made_journal_load[OF assms(1,2)] assms(3)]
  have st: "evolves (sealed root run_dirs) s t" "run_id_ok run" "recorded lib root t run r" "session = '''' \<or> pinned lib root t run r session"
    by auto
  have "flushed_in (sealed root run_dirs) u" by (rule private_store.later_sound[OF disk.trans[OF st(1) assms(4)] assms(2)])
  from disk.made_result[OF made_journal_load[OF assms(1) this] assms(5)]
  have ux: "evolves (sealed root run_dirs) u x" "recorded lib root x run r'" "\<forall>z. pinned lib root u run r' z \<longrightarrow> session' = z"
    by auto
  have "recorded lib root x run r" using recorded_evolves[OF st(3) disk.trans[OF assms(4) ux(1)] st(2)] .
  from recorded_unique[OF this ux(2)] have "r' = r" .
  moreover have "session' = session" if "session \<noteq> ''''"
    using that st(4) pinned_evolves[OF _ assms(4) st(2)] ux(3) \<open>r' = r\<close> by blast
  ultimately show ?thesis by blast
qed

text \<open>C17: when a receipt is accepted, its claim is the recorded one, and the session it names is
  pinned: from then on every load that succeeds returns that session, whoever pinned it first.\<close>

theorem accepted_session_is_pinned:
  assumes "peaceful root run_dirs env" and "flushed_in (sealed root run_dirs) s"
    and "times_read_back lib"
    and "\<And>v. pin_json lib (pin_of (authority_of lib selected (rr_claim receipt)) (rr_session_id receipt)) = Inr v \<Longrightarrow> reads_back lib v"
    and "journal_accept lib env root selected receipt s = (Inr (), t)" and "evolves (sealed root run_dirs) t u"
    and "journal_load lib env root selected' (lc_run_id (rr_claim receipt)) u = (Inr (r, session), x)"
  shows "ra_claim r = rr_claim receipt \<and> (rr_session_id receipt \<noteq> '''' \<longrightarrow> session = rr_session_id receipt)"
proof -
  let ?run = "lc_run_id (rr_claim receipt)"
  from disk.made_result[OF made_accept[OF assms(1-4)] assms(5)] obtain r' where
    st: "evolves (sealed root run_dirs) s t" "authorized lib root t (rr_claim receipt) r'"
      "rr_session_id receipt = '''' \<or> pinned lib root t ?run r' (rr_session_id receipt)" by blast
  have "flushed_in (sealed root run_dirs) u" by (rule private_store.later_sound[OF disk.trans[OF st(1) assms(6)] assms(2)])
  from disk.made_result[OF made_journal_load[OF assms(1) this] assms(7)]
  have ux: "evolves (sealed root run_dirs) u x" "recorded lib root x ?run r" "\<forall>z. pinned lib root u ?run r z \<longrightarrow> session = z"
    by auto
  have "authorized lib root x (rr_claim receipt) r'" by (rule authorized_evolves[OF st(2) disk.trans[OF assms(6) ux(1)]])
  then have r: "r = r'" "ra_claim r' = rr_claim receipt" "run_id_ok ?run" using ux(2) recorded_unique by (auto simp: authorized_def)
  then show ?thesis using st(3) pinned_evolves[OF _ assms(6) r(3)] ux(3) by blast
qed

text \<open>A sample Run.\<close>

definition plain_char :: "char \<Rightarrow> bool" where
  "plain_char c \<longleftrightarrow> is_alnum c \<or> c \<in> set '' _-.:''"

lemma plain_code:
  assumes "plain_char c"
  shows "code c < 0x80" "32 \<le> code c" "code c \<notin> {0x22, 0x5C, 0x3C, 0x3E, 0x26}"
proof -
  have "code c \<in> {32, 95, 45, 46, 58} \<or> 48 \<le> code c \<and> code c \<le> 57 \<or> 65 \<le> code c \<and> code c \<le> 90 \<or> 97 \<le> code c \<and> code c \<le> 122"
    using assms by (auto simp: plain_char_def is_alnum_def is_lower_def is_upper_def is_digit_def between_def code_def)
  then show "code c < 0x80" "32 \<le> code c" "code c \<notin> {0x22, 0x5C, 0x3C, 0x3E, 0x26}" by auto
qed

lemma render_plain:
  assumes "list_all plain_char s"
  shows "render_string s = CHR 0x22 # s @ [CHR 0x22]"
proof -
  have "ascii s" using assms plain_code(1) by (auto simp: ascii_def list_all_iff)
  moreover have "map (escape_rune \<circ> (\<lambda>c. (True, code c, [c]))) s = map (\<lambda>c. [c]) s"
  proof (intro map_cong refl)
    fix c assume "c \<in> set s"
    with assms have "plain_char c" by (simp add: list_all_iff)
    from plain_code[OF this] show "(escape_rune \<circ> (\<lambda>c. (True, code c, [c]))) c = [c]" by (simp add: escape_rune_def)
  qed
  ultimately show ?thesis by (simp only: render_string_def decode_ascii map_map concat_map_singleton) simp
qed

definition sample_hash :: string where "sample_hash = replicate 64 CHR ''0''"

definition sample_run :: string where "sample_run = ''bbx_aaaaaaaaaaaaaaaa''"

definition run_session :: string where "run_session = ''bss_aaaaaaaaaaaaaaaa''"

definition run_claim :: lock_claim where
  "run_claim = \<lparr>lc_schema_version = 1, lc_run_id = sample_run, lc_request_id = ''req_aaaaaaaaaaaaaaaa'',
     lc_controller_id = ''c'', lc_deadline = 10, lc_request_hash = sample_hash, lc_task_name = ''b.service''\<rparr>"

definition authority_value :: json where
  "authority_value = JObj [(''schema_version'', JNum 1), (''claim'', JObj (claim_members run_claim ''T'')),
     (''target_fingerprint'', JStr sample_hash)]"

definition pin_value :: json where
  "pin_value = JObj [(''schema_version'', JNum 1), (''run_id'', JStr sample_run), (''claim'', JObj (claim_members run_claim ''T'')),
     (''target_fingerprint'', JStr sample_hash), (''session_id'', JStr run_session)]"

text \<open>A parser that knows the two texts of the sample.\<close>

definition sample_ctl :: ctl_lib where
  "sample_ctl = \<lparr>cl_target = \<lparr>tl_up = id, tl_ip = (\<lambda>s. False),
       tl_parse = (\<lambda>s. if s = render authority_value then Some authority_value
          else if s = render pin_value then Some pin_value else None), tl_sha = (\<lambda>s. sample_hash)\<rparr>,
     cl_time = (\<lambda>t. if t = 10 then Inr ''T'' else Inl (Msg ''time'')), cl_time_parse = (\<lambda>s. Some 10), cl_png = (\<lambda>s. Inr (4, 3)), cl_first = (\<lambda>s. None)\<rparr>"

lemma sample_hash_facts: "hex64 sample_hash" "list_all plain_char sample_hash" "length sample_hash = 64"
  by (simp_all add: sample_hash_def hex64_def run_of_def list_all_iff) (simp_all add: plain_char_def evaluate)

lemma sample_plain:
  "list_all plain_char sample_run" "list_all plain_char run_session" "length sample_run = 20" "length run_session = 20"
  "list_all plain_char ''schema_version''" "list_all plain_char ''run_id''" "list_all plain_char ''request_id''" "list_all plain_char ''controller_id''"
  "list_all plain_char ''deadline''" "list_all plain_char ''request_hash''" "list_all plain_char ''task_name''" "list_all plain_char ''claim''"
  "list_all plain_char ''target_fingerprint''" "list_all plain_char ''session_id''" "list_all plain_char ''req_aaaaaaaaaaaaaaaa''"
  "list_all plain_char ''c''" "list_all plain_char ''b.service''" "list_all plain_char ''T''"
  by (simp_all add: sample_run_def run_session_def plain_char_def evaluate)

lemma sample_ids: "run_id_ok sample_run" "session_id_ok run_session" "request_id_ok ''req_aaaaaaaaaaaaaaaa''"
    "\<not> blank ''c''" "\<not> blank ''b.service''"
  by (simp_all add: sample_run_def run_session_def evaluate)

lemma run_claim_ok: "claim_validate run_claim = None"
  using sample_ids sample_hash_facts(1) by (simp add: run_claim_def claim_validate_def)

lemma digits_1: "render_int 1 = ''1''"
  by (simp add: render_int_def digits.simps) code_simp

lemma sample_texts:
  "length (render authority_value) < 1024" "length (render pin_value) < 1024" "render pin_value \<noteq> render authority_value"
  using sample_plain sample_hash_facts
  by (simp_all add: authority_value_def pin_value_def claim_members_def run_claim_def render_plain digits_1 commas_def)

lemma sample_ctl_simps:
  "cl_time sample_ctl 10 = Inr ''T''" "cl_time_parse sample_ctl s = Some 10" "tl_sha (cl_target sample_ctl) s = sample_hash"
  "tl_parse (cl_target sample_ctl) (render authority_value) = Some authority_value"
  "tl_parse (cl_target sample_ctl) (render pin_value) = Some pin_value" "times_read_back sample_ctl"
  using sample_texts(3) by (simp_all add: sample_ctl_def times_read_back_def)

lemma sample_target_ok: "target_validate lib sample_target = None"
  by (simp add: sample_target_def zero_connection_def target_validate_def target_connection_def
      connection_validate_def sample_alias sample_linux_valid check_def or_else_def)

lemma sample_fingerprint_ctl: "target_fingerprint (cl_target sample_ctl) t = sample_hash"
  by (simp add: target_fingerprint_def sample_ctl_simps)

definition sample_authority :: run_authority where
  "sample_authority = \<lparr>ra_schema_version = 1, ra_claim = run_claim, ra_fingerprint = sample_hash\<rparr>"

lemma sample_values:
  "authority_json sample_ctl sample_authority = Inr authority_value"
  "pin_json sample_ctl (pin_of sample_authority run_session) = Inr pin_value"
  by (simp_all add: authority_json_def claim_json_def sample_authority_def run_claim_def sample_ctl_simps authority_value_def
      pin_json_def pin_of_def pin_value_def)

lemma sample_authority_ok: "authority_ok sample_run sample_authority" "lc_run_id run_claim = sample_run"
  using run_claim_ok sample_hash_facts(1) by (simp_all add: authority_ok_def sample_authority_def run_claim_def)

lemma sample_pin_checked: "check_pin sample_ctl sample_run sample_authority (render pin_value) = Inr run_session"
  by (rule pin_reads_back[OF sample_values(2) _ sample_ctl_simps(6) sample_ids(2) sample_authority_ok(1)])
    (simp add: reads_back_def sample_ctl_simps)

lemma sample_authority_checked: "check_authority sample_ctl sample_run (render authority_value) = Inr sample_authority"
proof -
  have fields: "canonical_fields [(''schema_version'', JNum 1), (''claim'', JObj (claim_members run_claim ''T'')), (''target_fingerprint'', JStr sample_hash)]"
    by (simp add: canonical_fields_def canonical_key_def evaluate)
  have "well_keyed (\<lambda>t. t \<noteq> TNull) canonical_key authority_value"
    unfolding authority_value_def by (rule members_keyed[OF fields]) (simp add: claim_keyed del: well_keyed.simps(1,2))
  then have "strict_admits (tokens authority_value) = None" by (rule strict_admits_keyed)
  moreover have "known_fields [''schema_version'', ''claim'', ''target_fingerprint'']
      [(''schema_version'', JNum 1), (''claim'', JObj (claim_members run_claim ''T'')), (''target_fingerprint'', JStr sample_hash)]"
    by (rule known_members) simp
  moreover have "decode_claim sample_ctl (Some (JObj (claim_members run_claim ''T''))) = Inr run_claim"
    by (rule decode_claim_members) (simp_all add: run_claim_def int_ok_def sample_ctl_simps)
  ultimately have "decode_authority sample_ctl (render authority_value) = Inr sample_authority"
    using field_of_member[OF fields, of "''schema_version''"] field_of_member[OF fields, of "''claim''"]
      field_of_member[OF fields, of "''target_fingerprint''"]
    by (simp add: decode_authority_def strict_struct_def strict_value_def sample_ctl_simps(4))
      (simp add: authority_value_def int_ok_def sample_authority_def)
  then show ?thesis using sample_authority_ok(1) by (simp add: check_authority_def)
qed

text \<open>The disk before the Run: the directory of its evidence.\<close>

definition bundle_disk :: disk where
  "bundle_disk = \<lparr>dk_now = [([''e''], EDir True)], dk_kept = [], dk_tick = 0\<rparr>"

definition recorded_disk :: disk where
  "recorded_disk = snd (journal_record sample_ctl quiet_disk ''/c'' sample_target run_claim bundle_disk)"

definition sample_report :: run_receipt where
  "sample_report = zero_receipt\<lparr>rr_claim := run_claim, rr_session_id := run_session\<rparr>"

definition accepted_disk :: disk where
  "accepted_disk = snd (journal_accept sample_ctl quiet_disk ''/c'' sample_target sample_report recorded_disk)"

text \<open>The paths of the sample, computed with the file names as symbols.\<close>

lemma sample_file_paths:
  assumes "b = claim_file sample_run \<or> b = pin_file sample_run"
  shows "path_dir (''runs'' @ CHR ''/'' # b) = ''runs''" "path_base (''runs'' @ CHR ''/'' # b) = b" "join_component p b = p @ [b]"
    "joined ''/c'' (''runs'' @ CHR ''/'' # b) = [''c'', ''runs'', b]"
proof -
  have b: "proper_name b" using run_file[OF sample_ids(1) assms] by (simp add: record_file_def)
  show "path_dir (''runs'' @ CHR ''/'' # b) = ''runs''" "path_base (''runs'' @ CHR ''/'' # b) = b" "join_component p b = p @ [b]"
    using record_dir[OF run_dirs_proper(1) b] record_base[OF b, of "''runs''"] proper_join[OF b] run_dirs_proper(2) by simp_all
  show "joined ''/c'' (''runs'' @ CHR ''/'' # b) = [''c'', ''runs'', b]"
    using record_joined[OF sample_name(2) run_dirs_proper(1) b] run_dirs_proper(2) by (simp add: run_dirs_def evaluate)
qed

lemma sample_dir_paths: "split_on CHR ''/'' ''runs'' = [''runs'']" "join_component [''c''] ''runs'' = [''c'', ''runs'']"
    "path_clean ''runs'' = ''runs''" "has_prefix ''runs'' ''/'' = False" "has_prefix ''runs'' ''../'' = False"
    "parts ''/c'' = [''c'']" "has_prefix ''/c'' ''/''" "path_clean ''/c'' = ''/c''"
  by (simp_all add: evaluate)

lemma sample_names: "claim_path sample_run = ''runs'' @ CHR ''/'' # claim_file sample_run" "pin_path sample_run = ''runs'' @ CHR ''/'' # pin_file sample_run"
    "claim_file sample_run \<noteq> pin_file sample_run" "pin_file sample_run \<noteq> claim_file sample_run"
  using run_paths(1,2)[OF sample_ids(1)] run_dirs_proper(2) by (simp_all add: claim_file_def pin_file_def)

lemma sample_temp_names: "''.pending-1'' \<noteq> claim_file sample_run" "''.pending-1'' \<noteq> pin_file sample_run"
   "claim_file sample_run \<noteq> ''.pending-1''" "pin_file sample_run \<noteq> ''.pending-1''"
  using run_file[OF sample_ids(1), of "claim_file sample_run"] run_file[OF sample_ids(1), of "pin_file sample_run"]
  by (auto simp: record_file_def has_prefix_iff dest: sym)

lemmas sample_run_paths = sample_dir_paths sample_names sample_temp_names sample_file_paths[OF disjI1[OF refl], simplified] sample_file_paths[OF disjI2[OF refl], simplified]

lemmas sample_disk_simps = entry_at_def in_directory_def keep_entries_def place_def erase_def is_directory_def begin_call_def sys_def
  stat_entry_def mkdir_def mkdir_if_missing_def mkdir_all_private_def sync_directory_def temp_name_def create_file_def
  create_temp_def write_temp_def flush_file_def close_file_def publish_at_def remove_entry_def
  check_directory_def create_directory_def private_directory_def unsafe_read_def read_path_def private_read_def read_durable_def fill_temp_def
  check_destination_def max_record_def private_publish_def sync_parents.simps quiet_disk_simps run_simps sequencing failing_as_def Let_def

lemma sample_limits: "\<not> 15360 < length (render authority_value)" "\<not> 65536 < length (render authority_value)"
   "\<not> 65536 < length (render pin_value)" "\<not> 16384 < length (render authority_value)" "\<not> 16384 < length (render pin_value)"
  using sample_texts(1,2) by linarith+

text \<open>Loads on disks with the files of the sample.\<close>

definition claim_files :: "(path \<times> entry) list" where
  "claim_files = [([''e''], EDir True), ([''c''], EDir True), ([''c'', ''runs''], EDir True),
     ([''c'', ''runs'', claim_file sample_run], EFile True (render authority_value) True)]"

definition pinned_files :: "(path \<times> entry) list" where
  "pinned_files = claim_files @ [([''c'', ''runs'', pin_file sample_run], EFile True (render pin_value) True)]"

lemmas sample_load_simps = journal_load_def load_pin_def sample_target_ok sample_fingerprint_ctl sample_limits run_id_validate_def
  max_authority_size_def sample_run_paths sample_disk_simps claim_files_def pinned_files_def

lemma record_bundle:
  assumes "dk_now d = [([''e''], EDir True)]"
  obtains t where "journal_record sample_ctl quiet_disk ''/c'' sample_target run_claim d = (Inr (), t)" "dk_now t = claim_files"
proof
  let ?r = "journal_record sample_ctl quiet_disk ''/c'' sample_target run_claim d"
  note run = journal_record_def sample_target_ok run_claim_ok sample_authority_ok(2) sample_fingerprint_ctl sample_limits refuse_with_def
    max_authority_size_def sample_run_paths sample_disk_simps claim_files_def
  have "fst ?r = Inr ()" using assms sample_values(1)[unfolded sample_authority_def] by (simp add: run)
  then show "?r = (Inr (), snd ?r)" by (simp add: prod_eq_iff)
  show "dk_now (snd ?r) = claim_files" using assms sample_values(1)[unfolded sample_authority_def] by (simp add: run)
qed

lemma load_claim_files:
  assumes "dk_now d = claim_files"
  obtains t where "journal_load sample_ctl quiet_disk ''/c'' sample_target sample_run d = (Inr (sample_authority, ''''), t)"
    "dk_now t = claim_files"
proof
  let ?l = "journal_load sample_ctl quiet_disk ''/c'' sample_target sample_run d"
  have "fst ?l = Inr (sample_authority, '''')"
    using assms sample_ids(1) sample_authority_checked by (simp add: sample_load_simps) (simp add: sample_authority_def)
  then show "?l = (Inr (sample_authority, ''''), snd ?l)" by (simp add: prod_eq_iff)
  show "dk_now (snd ?l) = claim_files"
    using assms sample_ids(1) sample_authority_checked by (simp add: sample_load_simps)
qed

lemma load_pinned_files:
  assumes "dk_now d = pinned_files @ es"
  obtains t where "journal_load sample_ctl quiet_disk ''/c'' sample_target sample_run d = (Inr (sample_authority, run_session), t)"
    "dk_now t = pinned_files @ es"
proof
  let ?l = "journal_load sample_ctl quiet_disk ''/c'' sample_target sample_run d"
  have "fst ?l = Inr (sample_authority, run_session)"
    using assms sample_ids(1) sample_authority_checked sample_pin_checked by (simp add: sample_load_simps) (simp add: sample_authority_def)
  then show "?l = (Inr (sample_authority, run_session), snd ?l)" by (simp add: prod_eq_iff)
  show "dk_now (snd ?l) = pinned_files @ es"
    using assms sample_ids(1) sample_authority_checked sample_pin_checked by (simp add: sample_load_simps)
qed

lemma accept_claim_files:
  assumes "dk_now d = claim_files" and "rr_claim receipt = run_claim" and "rr_session_id receipt = run_session"
  obtains t where "journal_accept sample_ctl quiet_disk ''/c'' sample_target receipt d = (Inr (), t)" "dk_now t = pinned_files"
proof
  let ?a = "journal_accept sample_ctl quiet_disk ''/c'' sample_target receipt d"
  obtain t where t: "journal_load sample_ctl quiet_disk ''/c'' sample_target sample_run d = (Inr (sample_authority, ''''), t)"
    "dk_now t = claim_files" by (rule load_claim_files[OF assms(1)])
  note report = assms(2,3)
  have a: "ra_claim sample_authority = run_claim" "run_session \<noteq> ''''" by (simp_all add: sample_authority_def run_session_def)
  note run = journal_accept_def publish_pin_def report a sample_limits refuse_with_def sample_run_paths sample_disk_simps claim_files_def pinned_files_def
  have "fst ?a = Inr ()"
    using t sample_values(2) sample_authority_ok(2) sample_ids(2) by (cases t) (simp add: run)
  then show "?a = (Inr (), snd ?a)" by (simp add: prod_eq_iff)
  show "dk_now (snd ?a) = pinned_files"
    using t sample_values(2) sample_authority_ok(2) sample_ids(2) by (cases t) (simp add: run)
qed

lemma sample_recorded:
  "journal_record sample_ctl quiet_disk ''/c'' sample_target run_claim bundle_disk = (Inr (), recorded_disk)"
  "dk_now recorded_disk = claim_files"
proof -
  have "dk_now bundle_disk = [([''e''], EDir True)]" by (simp add: bundle_disk_def)
  then obtain t where "journal_record sample_ctl quiet_disk ''/c'' sample_target run_claim bundle_disk = (Inr (), t)" "dk_now t = claim_files"
    by (rule record_bundle)
  then show "journal_record sample_ctl quiet_disk ''/c'' sample_target run_claim bundle_disk = (Inr (), recorded_disk)"
    "dk_now recorded_disk = claim_files" unfolding recorded_disk_def by (simp_all only: snd_conv)
qed

lemma sample_accepted:
  "journal_accept sample_ctl quiet_disk ''/c'' sample_target sample_report recorded_disk = (Inr (), accepted_disk)"
  "dk_now accepted_disk = pinned_files"
proof -
  have "rr_claim sample_report = run_claim" "rr_session_id sample_report = run_session" by (simp_all add: sample_report_def)
  with sample_recorded(2) obtain t where
    "journal_accept sample_ctl quiet_disk ''/c'' sample_target sample_report recorded_disk = (Inr (), t)" "dk_now t = pinned_files"
    by (rule accept_claim_files)
  then show "journal_accept sample_ctl quiet_disk ''/c'' sample_target sample_report recorded_disk = (Inr (), accepted_disk)"
    "dk_now accepted_disk = pinned_files" unfolding accepted_disk_def by (simp_all only: snd_conv)
qed

lemma run_peaceful: "peaceful ''/c'' run_dirs quiet_disk"
  by (rule quiet_peaceful[OF sample_name(2)])

lemma sample_files_flushed: "dk_now d = claim_files \<or> dk_now d = pinned_files \<Longrightarrow> flushed_in K d"
  by (auto simp: flushed_in_def entry_at_def raw_def claim_files_def pinned_files_def split: if_splits)

theorem authority_is_final_witness:
  "\<exists>t u. journal_load sample_ctl quiet_disk ''/c'' sample_target sample_run accepted_disk = (Inr (sample_authority, run_session), t)
    \<and> journal_load sample_ctl quiet_disk ''/c'' sample_target sample_run t = (Inr (sample_authority, run_session), u)"
proof -
  obtain t where t: "journal_load sample_ctl quiet_disk ''/c'' sample_target sample_run accepted_disk = (Inr (sample_authority, run_session), t)"
    "dk_now t = pinned_files" by (rule load_pinned_files[of _ "[]", simplified, OF sample_accepted(2)])
  obtain r x u where u: "journal_load sample_ctl quiet_disk ''/c'' sample_target sample_run t = (Inr (r, x), u)"
    using load_pinned_files[of _ "[]", simplified, OF t(2)] by blast
  have "run_session \<noteq> ''''" by (simp add: run_session_def)
  with authority_is_final[OF run_peaceful sample_files_flushed[OF disjI2[OF sample_accepted(2)]] t(1) disk.refl u] t(1) u
  show ?thesis by auto
qed

theorem accepted_session_is_pinned_witness:
  "\<exists>r u. journal_load sample_ctl quiet_disk ''/c'' sample_target sample_run accepted_disk = (Inr (r, run_session), u)
    \<and> ra_claim r = run_claim"
proof -
  have report: "rr_claim sample_report = run_claim" "rr_session_id sample_report = run_session" "run_session \<noteq> ''''"
    by (simp_all add: sample_report_def run_session_def)
  have rb: "reads_back sample_ctl v"
    if "pin_json sample_ctl (pin_of (authority_of sample_ctl sample_target (rr_claim sample_report)) (rr_session_id sample_report)) = Inr v" for v
    using that sample_values(2)
    by (simp add: reads_back_def sample_ctl_simps report authority_of_def sample_authority_def sample_fingerprint_ctl)
  note flushed = sample_files_flushed[OF disjI1[OF sample_recorded(2)]]
  obtain r x u where u: "journal_load sample_ctl quiet_disk ''/c'' sample_target (lc_run_id (rr_claim sample_report)) accepted_disk = (Inr (r, x), u)"
    unfolding report(1) sample_authority_ok(2) by (rule load_pinned_files[of _ "[]", simplified, OF sample_accepted(2)])
  from accepted_session_is_pinned[OF run_peaceful flushed sample_ctl_simps(6) rb sample_accepted(1) disk.refl u] u
  show ?thesis using report sample_authority_ok(2) by auto
qed

end
