(* ===== verification/EvidenceGuarantees.thy ===== *)
theory EvidenceGuarantees
  imports Evidence JournalGuarantees
begin

text \<open>
  What the Evidence Bundle promises: a file that was written is there, whole and flushed, under the
  root of the bundle, and writing it changes nothing that existed.
\<close>

section \<open>The directories of the bundle\<close>

definition evidence_temps :: "path \<Rightarrow> path set" where
  "evidence_temps d = {p. \<exists>x. p = d @ [evidence_temp_prefix @ x]}"

definition evidence_scratch :: "path set" where
  "evidence_scratch = (\<Union>d. evidence_temps d)"

lemma spares_Un [simp]: "spares env (A \<union> B) \<longleftrightarrow> spares env A \<and> spares env B"
  by (auto simp: spares_def)

lemma made_mkdir_shared:
  assumes "spares env K"
  shows "disk.made K (mkdir_shared env p) (\<lambda>_ _. True) s" "disk.made K (mkdir_shared_if_missing env p) (\<lambda>_ _. True) s"
  unfolding mkdir_shared_def mkdir_shared_if_missing_def
  using assms by (auto intro!: made_sys evolves_place simp: disk.refl raw_def)

lemma made_entered:
  assumes "spares env K"
  shows "disk.made K (case r of Inr e \<Rightarrow> ret e
      | Inl e \<Rightarrow> if err_is e NotExist then then_do (mkdir_shared env d) (stat_entry env d) else fail e) (\<lambda>_ _. True) s"
  using disk.made_then[OF made_mkdir_shared(1)[OF assms] made_true[OF made_stat[OF assms]]]
  by (auto intro: disk.made_control split: sum.split)

lemma made_enter_evidence:
  assumes sp: "spares env K" and "list_all (\<lambda>c. proper_name c \<or> c = ''.'') cs"
  shows "disk.made K (enter_evidence env p cs) (\<lambda>q _. q = p @ filter (\<lambda>c. c \<noteq> ''.'') cs) s"
  using assms(2)
proof (induction cs arbitrary: p s)
  case (Cons c cs p s)
  show ?case
  proof (cases "c = ''.''")
    case False
    with Cons.prems have c: "proper_name c" "c \<noteq> ''''" by (auto simp: proper_name_def)
    have tail: "disk.made K (enter_evidence env (p @ [c]) cs) (\<lambda>q _. q = p @ filter (\<lambda>c. c \<noteq> ''.'') (c # cs)) t" for t
      using Cons.IH[of "p @ [c]" t] Cons.prems False by simp
    have "disk.made K (andthen (attempt (stat_entry env (p @ [c]))) (\<lambda>r.
       andthen (case r of Inr e \<Rightarrow> ret e
                | Inl e \<Rightarrow> if err_is e NotExist then then_do (mkdir_shared env (p @ [c])) (stat_entry env (p @ [c])) else fail e)
        (\<lambda>info. then_do (refuse (plain_directory info)) (enter_evidence env (p @ [c]) cs))))
      (\<lambda>q _. q = p @ filter (\<lambda>c. c \<noteq> ''.'') (c # cs)) s"
      by (rule disk.made_bind[OF disk.made_attempt[OF made_stat[OF sp], where Q = "\<lambda>_ _. True"]], simp, simp,
          rule disk.made_bind[OF made_entered[OF sp]], rule disk.made_check, rule tail)
    with False c show ?thesis by (simp add: Let_def)
  qed (use Cons in simp)
qed (simp add: disk.made_control)

lemma made_evidence_destination:
  assumes sp: "spares env K" and "list_all (\<lambda>c. proper_name c \<or> c = ''.'') (split_on CHR ''/'' (path_dir relative))"
    and "proper_name (path_base relative)"
  shows "disk.made K (evidence_destination env root relative)
    (\<lambda>q _. q = root @ filter (\<lambda>c. c \<noteq> ''.'') (split_on CHR ''/'' (path_dir relative)) @ [path_base relative]) s"
proof -
  have free: "disk.made K (andthen (attempt (stat_entry env d)) (\<lambda>r. case r of
         Inr e \<Rightarrow> fail (Msg m) | Inl e \<Rightarrow> if err_is e NotExist then ret d else fail e)) (\<lambda>q _. q = d) t" for d m t
    by (rule disk.made_bind[OF disk.made_attempt[OF made_stat[OF sp], where Q = "\<lambda>_ _. True"]])
      (auto intro: disk.made_control split: sum.split)
  show ?thesis unfolding evidence_destination_def Let_def
    by (rule disk.made_bind[OF made_stat[OF sp]], rule disk.made_check, rule disk.made_bind[OF made_enter_evidence[OF sp assms(2)]],
        rule disk.made_weaken[OF free])
      (use assms(3) in simp)
qed

section \<open>The files of the bundle\<close>

text \<open>A relative path whose components are names.\<close>

definition tidy :: "string \<Rightarrow> bool" where
  "tidy relative \<longleftrightarrow> list_all proper_name (split_on CHR ''/'' relative)"

lemma made_create_evidence_temp:
  assumes "spares env K" and "K \<inter> evidence_temps d = {}"
  shows "disk.made K (create_evidence_temp env d) (\<lambda>p t. p \<in> evidence_temps d \<and> entry_at t p \<noteq> None) s"
proof -
  let ?p = "d @ [evidence_temp_prefix @ de_temp env (dk_tick s)]"
  have temp: "?p \<in> evidence_temps d" by (auto simp: evidence_temps_def)
  with assms(2) have "?p \<notin> K" by blast
  from made_create[OF assms(1) this, of s] have "disk.made K (create_file env ?p) (\<lambda>q t. q = ?p) s" .
  moreover have "wp (create_file env ?p) (\<lambda>q t. entry_at t q \<noteq> None) (\<lambda>_ _. True) s"
    unfolding create_file_def by (rule wp_sysI) (simp_all add: wp_def)
  ultimately show ?thesis
    using temp by (auto simp: disk.made_def wp_def create_evidence_temp_def split: prod.splits sum.splits)
qed

lemma made_place_evidence:
  assumes sp: "spares env (K \<union> T)" and temp: "p \<in> T" "p \<notin> K" "entry_at s p \<noteq> None"
  shows "disk.made K (then_do (sys env skip) (then_do (fill_temp env p c)
      (then_do (failing_as f (publish_at env p q False)) (remove_entry env p))))
    (\<lambda>_ t. q \<in> K \<longrightarrow> entry_at t q = Some (EFile True c True)) s"
proof -
  have K: "spares env K" and T: "spares env T" using sp by simp_all
  have chmod: "disk.made K (sys env skip) (\<lambda>_ t. entry_at t p \<noteq> None) s"
  proof -
    have "disk.made K (sys env skip) (\<lambda>_ _. True) s" by (rule made_sys[OF K]) (simp_all add: ret_def disk.refl)
    moreover have "wp (sys env skip) (\<lambda>_ t. entry_at t p \<noteq> None) (\<lambda>_ _. True) s"
      using temp(3) spares_entry[OF T temp(1), of s] by (intro wp_sysI) (auto simp: wp_ret)
    ultimately show ?thesis unfolding disk.made_def by (drule_tac wp_conj) (auto elim: wp_mono)
  qed
  show ?thesis
  proof (rule disk.made_then[OF chmod], rule disk.made_then[OF made_fill_temp[OF sp temp(1,2)]], assumption,
      rule disk.made_then)
    fix t u assume "entry_at u p = Some (EFile True c True)"
    from made_publish_at[OF sp temp(1,2) this, of False q]
    show "disk.made K (failing_as f (publish_at env p q False)) (\<lambda>_ t. entry_at t q = Some (EFile True c True)) u"
      by (simp add: made_failing_as)
  next
    fix v assume "entry_at v q = Some (EFile True c True)"
    then show "disk.made K (remove_entry env p) (\<lambda>_ t. q \<in> K \<longrightarrow> entry_at t q = Some (EFile True c True)) v"
      by (intro disk.made_weaken[OF made_remove[OF K temp(2)]]) (blast intro: evolvesD)
  qed
qed

lemma tidy_parts:
  assumes "tidy relative"
  obtains ds b where "split_on CHR ''/'' relative = ds @ [b]" "list_all proper_name ds" "proper_name b"
    "path_base relative = b" "filter (\<lambda>c. c \<noteq> ''.'') (split_on CHR ''/'' (path_dir relative)) = ds"
    "list_all (\<lambda>c. proper_name c \<or> c = ''.'') (split_on CHR ''/'' (path_dir relative))"
proof -
  obtain ds b where split: "split_on CHR ''/'' relative = ds @ [b]" by (metis split_on_not_Nil rev_exhaust)
  with assms have ds: "list_all proper_name ds" and b: "proper_name b" by (simp_all add: tidy_def)
  have relative: "relative = join_with CHR ''/'' (ds @ [b])" using split join_split[of "CHR ''/''" relative] by simp
  show thesis
  proof (cases "ds = []")
    case True
    have r: "relative = b" using relative True by simp
    from b have slash: "CHR ''/'' \<notin> set b" by (simp add: proper_name_def)
    from b have "rev b \<noteq> []" "hd (rev b) \<noteq> CHR ''/''" by (auto simp: proper_name_def hd_rev) (metis last_in_set)
    then have "dropWhile (\<lambda>c. c = CHR ''/'') (rev b) = rev b" by (cases "rev b") auto
    moreover have "takeWhile (\<lambda>c. c \<noteq> CHR ''/'') (rev b) = rev b" using slash by (subst takeWhile_eq_all_conv) auto
    ultimately have "path_base relative = b" using b by (simp only: r path_base_def Let_def) (simp add: proper_name_def)
    moreover have "path_dir relative = ''.''"
    proof -
      have "dropWhile (\<lambda>c. c \<noteq> CHR ''/'') (rev b) = []" using slash by (auto simp: dropWhile_eq_Nil_conv)
      then show ?thesis by (simp add: r path_dir_def path_clean_def)
    qed
    ultimately show thesis using that[OF split ds b] True by (simp add: split_on_simple)
  next
    case False
    with ds have d: "proper_dir ds" by (simp add: proper_dir_def)
    have r: "relative = dir_name ds @ CHR ''/'' # b" using relative False by (simp add: join_with_append dir_name_def)
    have names: "filter (\<lambda>c. c \<noteq> ''.'') ds = ds" "list_all (\<lambda>c. proper_name c \<or> c = ''.'') ds"
      using ds by (auto simp: filter_id_conv list_all_iff proper_name_def)
    show thesis using that[OF split ds b] by (simp add: r record_dir[OF d b] record_base[OF b] dir_split[OF d] names)
  qed
qed

lemma made_write_evidence:
  assumes sp: "spares env (K \<union> evidence_scratch)" and tidy: "tidy relative"
    and apart: "\<And>ds. K \<inter> evidence_temps (root @ ds) = {}"
  shows "disk.made K (write_evidence env root relative c)
    (\<lambda>_ t. root @ split_on CHR ''/'' relative \<in> K \<longrightarrow> entry_at t (root @ split_on CHR ''/'' relative) = Some (EFile True c True)) s"
proof -
  obtain ds b where r: "split_on CHR ''/'' relative = ds @ [b]" "proper_name b" "path_base relative = b"
      "filter (\<lambda>c. c \<noteq> ''.'') (split_on CHR ''/'' (path_dir relative)) = ds"
      "list_all (\<lambda>c. proper_name c \<or> c = ''.'') (split_on CHR ''/'' (path_dir relative))"
    by (rule tidy_parts[OF tidy])
  have K: "spares env K" using sp by simp
  have sp': "spares env (K \<union> evidence_temps d)" for d
    using sp by (auto simp: evidence_scratch_def intro: spares_subset)
  let ?q = "root @ ds @ [b]"
  have dest: "disk.made K (evidence_destination env root relative) (\<lambda>q _. q = ?q) t" for t
    using made_evidence_destination[OF K r(5), of root t] r(2-4) by simp
  have fill: "disk.made K (ensuring (then_do (sys env skip) (then_do (fill_temp env p c)
      (then_do (failing_as f (publish_at env p ?q False)) (remove_entry env p)))) (remove_entry env p))
      (\<lambda>_ t. ?q \<in> K \<longrightarrow> entry_at t ?q = Some (EFile True c True)) t"
    if "p \<in> evidence_temps (root @ ds) \<and> entry_at t p \<noteq> None" for p t f
  proof (rule disk.made_ensuring[OF made_place_evidence[OF sp']])
    show "p \<in> evidence_temps (root @ ds)" "p \<notin> K" "entry_at t p \<noteq> None" using that apart[of ds] by blast+
    from made_remove[OF K this(2)] show "disk.made K (remove_entry env p) (\<lambda>_ _. True) u" for u .
  qed (blast intro: evolvesD)
  have temp: "disk.made K (create_evidence_temp env (butlast ?q)) (\<lambda>p t. p \<in> evidence_temps (root @ ds) \<and> entry_at t p \<noteq> None) t" for t
    using made_create_evidence_temp[OF K apart[of ds], of t] by (simp add: butlast_append)
  show ?thesis unfolding write_evidence_def r(1)
  proof (rule disk.made_bind[OF dest])
    fix q t assume q: "q = ?q"
    show "disk.made K (andthen (create_evidence_temp env (butlast q)) (\<lambda>temporary. ensuring
       (then_do (sys env skip) (then_do (fill_temp env temporary c)
        (then_do (failing_as (Wrap ''publish evidence without replacement'') (publish_at env temporary q False))
         (remove_entry env temporary)))) (remove_entry env temporary)))
      (\<lambda>_ t. ?q \<in> K \<longrightarrow> entry_at t ?q = Some (EFile True c True)) t"
      unfolding q by (rule disk.made_bind[OF temp], erule fill)
  qed
qed

lemma tidy_metadata: "tidy ''manifest.json''" "tidy ''evidence.json''"
  by (simp_all add: tidy_def proper_name_def evaluate)

lemma made_publish_metadata:
  assumes sp: "spares env (K \<union> evidence_scratch)" and apart: "\<And>ds. K \<inter> evidence_temps (root @ ds) = {}"
  shows "disk.made K (publish_bundle_metadata lib env root r) (\<lambda>_ _. True) s"
  unfolding publish_bundle_metadata_def
  by (rule disk.made_then[OF made_write_evidence[OF sp tidy_metadata(1) apart]], rule disk.made_bind[OF made_of_res],
      rule made_true[OF made_write_evidence[OF sp tidy_metadata(2) apart]])

lemma made_read_evidence: "spares env K \<Longrightarrow> disk.made K (read_evidence_file env p) (\<lambda>_ _. True) s"
  unfolding read_evidence_file_def by (rule made_sys) (auto simp: disk.refl split: option.split entry.split)

text \<open>The root of the bundle.\<close>

definition evidence_root_of :: "path_env \<Rightarrow> string \<Rightarrow> path \<Rightarrow> bool" where
  "evidence_root_of pe dir dir_path \<longleftrightarrow> (\<exists>s canonical. pe_eval pe s (parts (path_dir (absolute_path pe dir))) = Inr canonical
     \<and> dir_path = join_component canonical (path_base (absolute_path pe dir)))"

lemma made_prepare_root:
  assumes sp: "spares env K"
  shows "disk.made K (prepare_evidence_root env pe dir) (\<lambda>dir_path _. evidence_root_of pe dir dir_path) s"
proof -
  have all: "disk.made K (mkdir_all_shared env p) (\<lambda>_ _. True) t" for p t
    unfolding mkdir_all_shared_def by (rule disk.made_each, rule made_mkdir_shared(2)[OF sp])
  have eval: "disk.made K (sys env (\<lambda>s. (f s, s))) (\<lambda>c _. \<exists>s. f s = Inr c) t" for f :: "disk \<Rightarrow> err + path" and t
    by (rule made_sys[OF sp]) (auto simp: disk.refl)
  have made_dir: "disk.made K (andthen (attempt (mkdir env dir_path)) (\<lambda>r. case r of
          Inl e \<Rightarrow> if err_is e Exist then fail f else fail e | Inr u \<Rightarrow> ret dir_path)) (\<lambda>q _. q = dir_path) t" for dir_path t f
    by (rule disk.made_bind[OF disk.made_attempt[OF made_mkdir(1)[OF sp], where Q = "\<lambda>_ _. True"]])
      (auto intro: disk.made_control split: sum.split)
  show ?thesis unfolding prepare_evidence_root_def Let_def
    by (rule disk.made_check, rule disk.made_then[OF all], rule disk.made_bind[OF eval], rule disk.made_weaken[OF made_dir])
      (auto simp: evidence_root_of_def)
qed

section \<open>Accepted paths\<close>

lemma tidy_accepted: "validate_windows_relative up v = None \<Longrightarrow> tidy v"
  using accepted_components[of up v] split_no_sep[of _ "CHR ''/''" v]
  by (auto simp: tidy_def safe_components_def proper_name_def list_all_iff)

lemma tidy_manifest:
  assumes "validate_evidence_manifest up session m = None" and "f \<in> set (em_files m)"
  shows "tidy (ef_path f)"
proof -
  have "validate_evidence_file up session (em_schema_version m) f = None"
    using assms manifest_loop_None by (fastforce simp: validate_evidence_manifest_def)
  then show ?thesis using tidy_accepted[of up "ef_path f"] by (simp add: validate_evidence_file_def)
qed

lemma tidy_ui: "tidy ui_evidence_path"
  by (simp add: tidy_def proper_name_def evaluate)

lemma sealed_apart:
  assumes "\<not> prefix dir (parts root @ ds)"
  shows "sealed root ds \<inter> evidence_temps (dir @ es) = {}"
proof -
  have False if "dir @ es @ [x] \<in> sealed root ds" for x
  proof -
    from that obtain b where "prefix (dir @ es @ [x]) (parts root @ ds @ [b])"
      by (auto simp: sealed_def record_chain_def record_path_def chain_def)
    then have "prefix ((dir @ es) @ [x]) ((parts root @ ds) @ [b])" by simp
    then have "prefix (dir @ es) (parts root @ ds)" by (auto dest: append_prefixD simp del: append_assoc)
    with assms show False by (blast dest: append_prefixD)
  qed
  then show ?thesis by (auto simp: evidence_temps_def)
qed

end
