(* ===== verification/RunGuarantees.thy ===== *)
theory RunGuarantees
  imports RunnerRun EvidenceGuarantees
begin

text \<open>
  What a Run promises: every call of the host is made under the recorded claim of the Run, and with
  the pinned session where it names one. \<open>keeps_authority\<close> is the history of the controller that
  says so; its rules follow the operations of theories Runner and RunnerRun.
\<close>

section \<open>The history of a Run\<close>

text \<open>A session that a call may name: none, or the pinned one.\<close>

definition named :: "ctl_lib \<Rightarrow> string \<Rightarrow> disk \<Rightarrow> run_receipt \<Rightarrow> bool" where
  "named lib root d r \<longleftrightarrow> rr_session_id r = '''' \<or>
    (\<exists>a. authorized lib root d (rr_claim r) a \<and> pinned lib root d (lc_run_id (rr_claim r)) a (rr_session_id r))"

fun bears :: "ctl_lib \<Rightarrow> string \<Rightarrow> disk \<Rightarrow> lock_claim \<Rightarrow> host_call \<Rightarrow> bool" where
  "bears lib root d claim (CallInspect q) = True"
| "bears lib root d claim (CallAcquire c) = (c = claim)"
| "bears lib root d claim (CallStage c p) = (c = claim)"
| "bears lib root d claim (CallStart q) = (rq_claim q = claim)"
| "bears lib root d claim (CallObserve run) = (run = lc_run_id claim)"
| "bears lib root d claim (CallFetch r f) = (rr_claim r = claim \<and> named lib root d r)"
| "bears lib root d claim (CallSettle r) = (rr_claim r = claim \<and> named lib root d r)"

definition rightful :: "ctl_lib \<Rightarrow> string \<Rightarrow> lock_claim \<Rightarrow> host_call \<times> disk \<Rightarrow> bool" where
  "rightful lib root claim cd \<longleftrightarrow> (\<exists>a. authorized lib root (snd cd) claim a) \<and> bears lib root (snd cd) claim (fst cd)"

definition keeps_authority :: "ctl_lib \<Rightarrow> string \<Rightarrow> lock_claim \<Rightarrow> 'h ctl \<Rightarrow> 'h ctl \<Rightarrow> bool" where
  "keeps_authority lib root claim s t \<longleftrightarrow> evolves (sealed root run_dirs) (ct_disk s) (ct_disk t)
     \<and> (rr_claim (ct_receipt s) = claim \<longrightarrow> rr_claim (ct_receipt t) = claim)
     \<and> (\<exists>cs. ct_calls t = cs @ ct_calls s
          \<and> list_all (\<lambda>cd. rightful lib root claim cd \<and> evolves (sealed root run_dirs) (snd cd) (ct_disk t)) cs)"

interpretation kept: history "keeps_authority lib root claim" for lib root claim
proof (unfold_locales, goal_cases)
  case (2 s t u)
  then obtain cs ds where calls: "ct_calls t = cs @ ct_calls s" "ct_calls u = ds @ ct_calls t"
    and fit: "list_all (\<lambda>cd. rightful lib root claim cd \<and> evolves (sealed root run_dirs) (snd cd) (ct_disk t)) cs"
      "list_all (\<lambda>cd. rightful lib root claim cd \<and> evolves (sealed root run_dirs) (snd cd) (ct_disk u)) ds"
    and tu: "evolves (sealed root run_dirs) (ct_disk t) (ct_disk u)"
    by (auto simp: keeps_authority_def)
  have "list_all (\<lambda>cd. rightful lib root claim cd \<and> evolves (sealed root run_dirs) (snd cd) (ct_disk u)) cs"
    using fit(1) by (rule list.pred_mono_strong) (use tu in \<open>blast intro: disk.trans\<close>)
  with 2 calls fit(2) show ?case unfolding keeps_authority_def
    by (intro conjI exI[of _ "ds @ cs"]) (auto intro: disk.trans)
qed (simp add: keeps_authority_def disk.refl)

text \<open>What holds from the moment the claim is recorded.\<close>

definition secure :: "'h run_env \<Rightarrow> lock_claim \<Rightarrow> 'h ctl \<Rightarrow> bool" where
  "secure env claim s \<longleftrightarrow> peaceful (re_root env) run_dirs (re_disk env) \<and> spares (re_disk env) evidence_scratch
     \<and> flushed_in (sealed (re_root env) run_dirs) (ct_disk s)
     \<and> (\<exists>a. authorized (re_lib env) (re_root env) (ct_disk s) claim a)"

abbreviation kept_made :: "'h run_env \<Rightarrow> lock_claim \<Rightarrow> ('h, 'a) cact \<Rightarrow> ('a \<Rightarrow> 'h ctl \<Rightarrow> bool) \<Rightarrow> 'h ctl \<Rightarrow> bool" where
  "kept_made env claim \<equiv> kept.made (re_lib env) (re_root env) claim"

abbreviation authority_kept :: "'h run_env \<Rightarrow> lock_claim \<Rightarrow> 'h ctl \<Rightarrow> 'h ctl \<Rightarrow> bool" where
  "authority_kept env claim \<equiv> keeps_authority (re_lib env) (re_root env) claim"

lemma secure_kept:
  assumes "secure env claim s" and "authority_kept env claim s t"
  shows "secure env claim t"
proof -
  from assms(2) have st: "evolves (sealed (re_root env) run_dirs) (ct_disk s) (ct_disk t)" by (simp add: keeps_authority_def)
  with assms(1) show ?thesis
    unfolding secure_def using private_store.later_sound[OF st] authorized_evolves[OF _ st] by blast
qed

lemma kept_disk:
  assumes "secure env claim s" and "disk.made (sealed (re_root env) run_dirs) m Q (ct_disk s)"
  shows "kept_made env claim (on_disk env m) (\<lambda>a t. Q a (ct_disk t)) s"
  using assms(2) by (auto simp: kept.made_def disk.made_def wp_def on_disk_def keeps_authority_def split: prod.splits sum.splits)

lemma kept_call:
  assumes "secure env claim s" and "bears (re_lib env) (re_root env) (ct_disk s) claim c"
  shows "kept_made env claim (call env c m) (\<lambda>_ _. True) s"
  using assms by (auto simp: kept.made_def wp_def call_def keeps_authority_def rightful_def secure_def disk.refl split: prod.splits sum.splits)

lemma kept_failing_as: "kept_made env claim m Q s \<Longrightarrow> kept_made env claim (failing_as f m) Q s"
  unfolding failing_as_def
  by (rule kept.made_bind[OF kept.made_attempt[where Q = "\<lambda>r t. case r of Inl e \<Rightarrow> True | Inr a \<Rightarrow> Q a t"]])
    (auto intro: kept.made_control split: sum.split)

lemma kept_change:
  "(\<And>s. ct_disk (f s) = ct_disk s \<and> ct_calls (f s) = ct_calls s \<and> (rr_claim (ct_receipt s) = claim \<longrightarrow> rr_claim (ct_receipt (f s)) = claim))
    \<Longrightarrow> kept_made env claim (change f) (\<lambda>_ t. t = f s) s"
  by (auto simp: kept.made_def wp_change keeps_authority_def disk.refl)

lemma kept_set_receipt: "rr_claim r = claim \<Longrightarrow> kept_made env claim (set_receipt r) (\<lambda>_ t. rr_claim (ct_receipt t) = claim) s"
  unfolding set_receipt_def by (rule kept.made_weaken[OF kept_change]) auto

lemma kept_true: "kept_made env claim m Q s \<Longrightarrow> kept_made env claim m (\<lambda>_ _. True) s"
  by (erule kept.made_weaken) simp

lemma kept_look: "kept_made env claim (look f) (\<lambda>a t. a = f t) s"
  by (simp add: kept.made_def wp_look kept.refl)

lemma kept_wait: "kept_made env claim (wait_for_poll env d) (\<lambda>_ _. True) s"
  by (auto simp: kept.made_def wp_def wait_for_poll_def Let_def keeps_authority_def disk.refl split: option.split)

section \<open>Settlement\<close>

lemma kept_settlement_of:
  assumes "secure env claim s"
  shows "kept_made env claim (settlement_of env selected receipt)
    (\<lambda>rc t. rr_claim rc = rr_claim receipt \<and> named (re_lib env) (re_root env) (ct_disk t) rc
      \<and> (rr_session_id receipt = '''' \<or> rc = receipt)) s"
  unfolding settlement_of_def
proof (rule kept.made_weaken[OF kept_disk[OF assms made_settlement]])
  show "peaceful (re_root env) run_dirs (re_disk env)" "flushed_in (sealed (re_root env) run_dirs) (ct_disk s)"
    using assms by (simp_all add: secure_def)
qed (auto simp: named_def)

lemma kept_confirm:
  assumes "secure env claim s"
  shows "kept_made env claim (confirm env selected receipt) (\<lambda>_ t. named (re_lib env) (re_root env) (ct_disk t) receipt) s"
  unfolding confirm_def
  by (rule kept.made_bind[OF kept_settlement_of[OF assms]]) (auto intro: kept.made_control simp: named_def)

lemma kept_settle_run:
  assumes sec: "secure env claim s" and claim: "rr_claim receipt = claim"
  shows "kept_made env claim (settle_run env selected receipt) (\<lambda>_ _. True) s"
  unfolding settle_run_def
proof (rule kept.made_bind[OF kept_settlement_of[OF sec]])
  fix r t assume st: "authority_kept env claim s t"
    and r: "rr_claim r = rr_claim receipt \<and> named (re_lib env) (re_root env) (ct_disk t) r \<and> (rr_session_id receipt = '''' \<or> r = receipt)"
  note t = secure_kept[OF sec st]
  have settle: "kept_made env claim (attempt (call env (CallSettle r) m)) (\<lambda>_ _. True) t" for m :: "('a, cleanup_state) act"
    by (rule kept.made_attempt[OF kept_call[OF t]]) (use r claim in simp_all)
  have again: "kept_made env claim (attempt (settlement_of env selected r)) (\<lambda>_ _. True) u" if "authority_kept env claim t u" for u
    by (rule kept.made_attempt[OF kept_settlement_of[OF secure_kept[OF t that]]]) simp_all
  show "kept_made env claim (andthen (attempt (call env (CallSettle r) (ad_settle (re_host env) selected r))) (\<lambda>c.
    andthen (attempt (settlement_of env selected r)) (\<lambda>a.
      case join_err (err_of c) (err_of a) of Some e \<Rightarrow> fail e | None \<Rightarrow> of_res c))) (\<lambda>_ _. True) t"
    by (rule kept.made_bind[OF settle], rule kept.made_bind[OF again], assumption)
      (auto simp: kept.made_def wp_simps kept.refl split: option.split sum.split)
qed

section \<open>Acceptance and recovery\<close>

text \<open>Whatever it writes, an acceptance leaves the records there are alone.\<close>

lemma made_publish_pin_state:
  assumes env: "peaceful root run_dirs env" and fl: "flushed_in (sealed root run_dirs) s" and run: "run_id_ok (lc_run_id (ra_claim r))"
  shows "disk.made (sealed root run_dirs) (publish_pin lib env root selected r x) (\<lambda>_ _. True) s"
proof -
  have pub: "disk.made (sealed root run_dirs) (attempt (private_publish env root (pin_path (lc_run_id (ra_claim r))) v False)) (\<lambda>_ _. True) t" for v t
    by (rule disk.made_attempt[OF made_record_publish[OF env run_paths(4)[OF run]]]) simp_all
  have again: "disk.made (sealed root run_dirs) (andthen (attempt (journal_load lib env root selected (lc_run_id (ra_claim r)))) (\<lambda>again.
      case again of Inr (r', p) \<Rightarrow> if p = x then skip else fail e | Inl e' \<Rightarrow> fail e)) (\<lambda>_ _. True) t"
    if "evolves (sealed root run_dirs) s t" for t e
    by (rule disk.made_bind[OF disk.made_attempt[OF made_journal_load[OF env private_store.later_sound[OF that fl]], where Q = "\<lambda>_ _. True"]])
      (auto intro: disk.made_control split: sum.split)
  show ?thesis unfolding publish_pin_def Let_def
    by (rule disk.made_bind[OF made_failing_of_res], rule disk.made_bind[OF pub])
      (auto intro!: disk.made_control again intro: disk.trans split: sum.splits)
qed

lemma made_accept_state:
  assumes env: "peaceful root run_dirs env" and fl: "flushed_in (sealed root run_dirs) s"
  shows "disk.made (sealed root run_dirs) (journal_accept lib env root selected receipt) (\<lambda>_ _. True) s"
  unfolding journal_accept_def
proof (rule disk.made_bind[OF made_journal_load[OF env fl]], goal_cases)
  case (1 a t)
  obtain r x where a: "a = (r, x)" by (cases a)
  show ?case unfolding a prod.case
  proof (intro made_refuse_with, goal_cases)
    case c: 1
    with 1 a have "run_id_ok (lc_run_id (ra_claim r))" by auto
    from made_publish_pin_state[OF env private_store.later_sound[OF 1(1) fl] this, of lib selected "rr_session_id receipt"]
    show ?case by (auto intro!: disk.made_control made_refuse_with)
  qed
qed

lemma kept_accept:
  assumes "secure env claim s"
  shows "kept_made env claim (accept_of env selected receipt) (\<lambda>_ _. True) s"
  unfolding accept_of_def
  by (rule kept_disk[OF assms made_accept_state]) (use assms in \<open>simp_all add: secure_def\<close>)

lemma kept_journal_load:
  assumes "secure env claim s"
  shows "kept_made env claim (on_disk env (journal_load (re_lib env) (re_disk env) (re_root env) selected (lc_run_id claim)))
    (\<lambda>(r, x) _. ra_claim r = claim) s"
proof (rule kept.made_weaken[OF kept_disk[OF assms made_journal_load]], goal_cases)
  case (3 a t)
  from secure_kept[OF assms 3(1)] obtain b where "authorized (re_lib env) (re_root env) (ct_disk t) claim b" by (auto simp: secure_def)
  with 3(2) show ?case by (auto simp: authorized_def dest: recorded_unique)
qed (use assms in \<open>simp_all add: secure_def\<close>)

lemma kept_recovered:
  assumes "secure env claim s" and "ra_claim rd = claim"
  shows "kept_made env claim (recovered_receipt env selected rd authority receipt)
    (\<lambda>(r, e) _. e = None \<longrightarrow> rr_claim r = claim) s"
proof -
  have pin: "kept_made env claim (attempt (if rr_session_id authority \<noteq> '''' then confirm env selected receipt else accept_of env selected receipt))
      (\<lambda>_ _. True) s"
    by (rule kept.made_attempt[where P = "\<lambda>_ _. True"])
      (use kept_true[OF kept_confirm[OF assms(1)], of selected receipt] kept_accept[OF assms(1), of selected receipt] in auto)
  have tail: "kept_made env claim (andthen (attempt (if rr_session_id authority \<noteq> '''' then confirm env selected receipt else accept_of env selected receipt))
      (\<lambda>x. case x of Inl e \<Rightarrow> ret (zero_receipt, Some e) | Inr u \<Rightarrow> ret (receipt, None))) (\<lambda>(r, e) _. e = None \<longrightarrow> rr_claim r = claim) s"
    if "claims_equal (ra_claim rd) (rr_claim receipt)"
    by (rule kept.made_bind[OF pin]) (use that assms(2) in \<open>auto intro!: kept.made_control split: sum.split\<close>)
  then show ?thesis
    unfolding recovered_receipt_def by (auto intro!: kept.made_control split: option.split)
qed

lemma kept_recover:
  assumes sec: "secure env claim s" and run: "lc_run_id claim = run"
  shows "kept_made env claim (recover_receipt env selected run expected) (\<lambda>(r, e) _. e = None \<longrightarrow> rr_claim r = claim) s"
  unfolding recover_receipt_def run[symmetric]
proof (rule kept.made_bind[OF kept.made_attempt[OF kept_journal_load[OF sec],
      where Q = "\<lambda>x _. case x of Inl e \<Rightarrow> True | Inr (r, p) \<Rightarrow> ra_claim r = claim"]])
  fix loaded :: "err + run_authority \<times> string" and t assume st: "authority_kept env claim s t" and l: "case loaded of Inl e \<Rightarrow> True | Inr (r, p) \<Rightarrow> ra_claim r = claim"
  note t = secure_kept[OF sec st]
  have observe: "kept_made env claim (attempt (call env (CallObserve (lc_run_id claim)) (ad_observe (re_host env) selected (lc_run_id claim)))) (\<lambda>_ _. True) t"
    by (rule kept.made_attempt[OF kept_call[OF t]]) simp_all
  have settle: "kept_made env claim (attempt (settlement_of env selected r)) (\<lambda>_ _. True) u" if "authority_kept env claim t u" for u r
    by (rule kept.made_attempt[OF kept_settlement_of[OF secure_kept[OF t that]]]) simp_all
  have rest: "kept_made env claim (case observed of
          Inl e \<Rightarrow> ret (case settled of Inl f \<Rightarrow> zero_receipt | Inr a \<Rightarrow> a, join_err (Some (Wrap m e)) (err_of settled))
        | Inr receipt \<Rightarrow> (case settled of Inl e \<Rightarrow> ret (zero_receipt, Some e)
           | Inr authority \<Rightarrow> recovered_receipt env selected rd authority receipt))
      (\<lambda>(r, e) _. e = None \<longrightarrow> rr_claim r = claim) v"
    if "authority_kept env claim t v" "ra_claim rd = claim" for observed settled rd v m
    using kept_recovered[OF secure_kept[OF t that(1)] that(2)] by (auto intro!: kept.made_control split: sum.split)
  show "kept_made env claim (case loaded of
        Inl e \<Rightarrow> ret (zero_receipt, Some e)
      | Inr (rd, x) \<Rightarrow>
          if expected \<noteq> '''' \<and> x \<noteq> expected
          then ret (zero_receipt, Some (authority_failure ''Session identity is not pinned''))
          else
            andthen (attempt (call env (CallObserve (lc_run_id claim)) (ad_observe (re_host env) selected (lc_run_id claim)))) (\<lambda>observed.
            andthen (attempt (settlement_of env selected (zero_receipt\<lparr>rr_claim := ra_claim rd, rr_session_id := x\<rparr>))) (\<lambda>settled.
              case observed of
                Inl e \<Rightarrow> ret (case settled of Inl f \<Rightarrow> zero_receipt | Inr a \<Rightarrow> a, join_err (Some (Wrap ''observe Run'' e)) (err_of settled))
              | Inr receipt \<Rightarrow>
                  (case settled of
                     Inl e \<Rightarrow> ret (zero_receipt, Some e)
                   | Inr authority \<Rightarrow> recovered_receipt env selected rd authority receipt))))
    (\<lambda>(r, e) _. e = None \<longrightarrow> rr_claim r = claim) t"
  proof (cases loaded)
    case (Inr p)
    obtain rd x where p: "p = (rd, x)" by (cases p)
    with Inr l have claim: "ra_claim rd = claim" by simp
    show ?thesis unfolding Inr p sum.case prod.case
      by (rule kept.made_if[OF kept.made_ret], simp, rule kept.made_bind[OF observe], rule kept.made_bind[OF settle], assumption,
          rule rest[OF _ claim], erule (1) kept.trans)
  qed (simp add: kept.made_control)
qed (auto split: prod.splits)

section \<open>Evidence\<close>

text \<open>A bundle that does not contain the journal of the controller.\<close>

definition apart_from_journal :: "'h run_env \<Rightarrow> path \<Rightarrow> bool" where
  "apart_from_journal env dir \<longleftrightarrow> \<not> prefix dir (parts (re_root env) @ run_dirs)"

lemma kept_write_evidence:
  assumes sec: "secure env claim s" and dir: "apart_from_journal env dir" and "tidy relative"
  shows "kept_made env claim (on_disk env (write_evidence (re_disk env) dir relative c)) (\<lambda>_ _. True) s"
  by (rule kept_true[OF kept_disk[OF sec made_write_evidence]])
    (use assms sealed_apart[of dir] in \<open>simp_all add: secure_def peaceful_def apart_from_journal_def\<close>)

lemma kept_metadata:
  assumes sec: "secure env claim s" and dir: "apart_from_journal env dir"
  shows "kept_made env claim (on_disk env (publish_bundle_metadata (re_lib env) (re_disk env) dir r)) (\<lambda>_ _. True) s"
  by (rule kept_disk[OF sec made_publish_metadata])
    (use assms sealed_apart[of dir] in \<open>simp_all add: secure_def peaceful_def apart_from_journal_def\<close>)

lemma kept_collect_file:
  assumes sec: "secure env claim s" and claim: "rr_claim receipt = claim" and dir: "apart_from_journal env dir" and "tidy (ef_path f)"
  shows "kept_made env claim (collect_file env selected receipt dir f) (\<lambda>_ _. True) s"
  unfolding collect_file_def
proof (rule kept.made_then[OF kept_confirm[OF sec]])
  fix t assume st: "authority_kept env claim s t" and named: "named (re_lib env) (re_root env) (ct_disk t) receipt"
  note t = secure_kept[OF sec st]
  have fetch: "kept_made env claim (failing_as g (call env (CallFetch receipt f) m)) (\<lambda>_ _. True) t" for g and m :: "('a, string) act"
    by (rule kept_failing_as[OF kept_call[OF t]]) (use claim named in simp)
  have store: "kept_made env claim (then_do (confirm env selected receipt)
      (failing_as g (on_disk env (write_evidence (re_disk env) dir (ef_path f) content)))) (\<lambda>_ _. True) u"
    if "authority_kept env claim t u" for content u g
    by (rule kept.made_then[OF kept_confirm[OF secure_kept[OF t that]]], rule kept_failing_as[OF kept_write_evidence])
      (use that t dir assms(4) in \<open>blast intro: secure_kept kept.trans\<close>)+
  show "kept_made env claim (andthen (failing_as (Wrap ''fetch evidence'')
        (call env (CallFetch receipt f) (ad_fetch (re_host env) selected receipt f))) (\<lambda>content.
     then_do (refuse (check_content env receipt f content)) (then_do (confirm env selected receipt)
      (failing_as (Wrap ''store evidence'') (on_disk env (write_evidence (re_disk env) dir (ef_path f) content)))))) (\<lambda>_ _. True) t"
    by (rule kept.made_bind[OF fetch], rule kept.made_check, erule store)
qed

lemma check_manifest_tidy:
  assumes "check_manifest env p receipt = None" and "f \<in> set (em_files (rr_evidence receipt))"
  shows "tidy (ef_path f)"
proof -
  have "validate_evidence_manifest (up_of env) (rr_session_id receipt) (rr_evidence receipt) = None"
    using assms by (cases "rr_state receipt = StateComplete"; cases "em_files (rr_evidence receipt) = []")
      (auto simp: check_manifest_def Let_def validate_evidence_def)
  from tidy_manifest[OF this assms(2)] show ?thesis .
qed

lemma kept_collect_evidence:
  assumes sec: "secure env claim s" and claim: "rr_claim receipt = claim" and dir: "apart_from_journal env dir"
  shows "kept_made env claim (collect_evidence env i receipt dir) (\<lambda>_ _. True) s"
  unfolding collect_evidence_def
  by (rule kept.made_check, rule kept.made_each, rule kept_collect_file[OF secure_kept[OF sec] claim dir])
    (auto dest: check_manifest_tidy)

section \<open>The steps of Run\<close>

lemma kept_poll_step:
  assumes sec: "secure env claim s" and run: "ri_run_id i = lc_run_id claim"
  shows "kept_made env claim (poll_step env i claim session) (\<lambda>_ t. rr_claim (ct_receipt t) = claim) s"
  unfolding poll_step_def poll_observe_def run
proof (rule kept.made_then[OF kept_wait], rule kept.made_bind[OF kept_look])
  fix t u and receipt :: run_receipt assume "authority_kept env claim s t" "authority_kept env claim t u"
  then have u: "secure env claim u" using sec by (blast intro: secure_kept)
  have observe: "kept_made env claim (failing_as g (call env (CallObserve (lc_run_id claim)) m)) (\<lambda>_ _. True) v"
    if "authority_kept env claim u v" for g v and m :: "('a, run_receipt) act"
    by (rule kept_failing_as[OF kept_call[OF secure_kept[OF u that]]]) simp
  have tail: "kept_made env claim (then_do (refuse (wrap_err m (validate_receipt observed claim session (rr_state receipt))))
      (then_do (refuse c) (then_do (refuse d) (then_do (confirm env selected observed) (set_receipt observed)))))
      (\<lambda>_ t. rr_claim (ct_receipt t) = claim) v"
    if "authority_kept env claim u v" for observed m c d v selected
    by (intro kept.made_check, rule kept.made_then[OF kept_confirm[OF secure_kept[OF u that]]], rule kept_set_receipt)
      (auto simp: validate_receipt_def split: if_splits)
  show "kept_made env claim (then_do (confirm env (ri_target i) receipt)
     (andthen (failing_as (Wrap ''observe Run'')
         (call env (CallObserve (lc_run_id claim)) (ad_observe (re_host env) (ri_target i) (lc_run_id claim)))) (\<lambda>observed.
      then_do (refuse (wrap_err ''observe receipt'' (validate_receipt observed claim session (rr_state receipt))))
      (then_do (refuse (validate_progress (rr_ui_actions receipt) (rr_ui_actions observed)))
       (then_do (refuse (validate_ui_batch_receipt observed (batch_of i)))
        (then_do (confirm env (ri_target i) observed) (set_receipt observed))))))) (\<lambda>_ t. rr_claim (ct_receipt t) = claim) u"
    by (rule kept.made_then[OF kept_confirm[OF u]], rule kept.made_bind[OF observe], assumption, rule tail, erule (1) kept.trans)
qed

lemma kept_poll:
  assumes "secure env claim s" and "ri_run_id i = lc_run_id claim"
  shows "kept_made env claim (poll env i claim session) (\<lambda>_ _. True) s"
  using assms
proof (induction env i claim session s rule: poll.induct)
  case (1 env i claim session s)
  show ?case
  proof (cases "terminal (rr_state (ct_receipt s))")
    case False
    show ?thesis
    proof (rule kept.made_unroll[OF _ kept_poll_step[OF 1(2)]])
      show "poll env i claim session s = (case poll_step env i claim session s of
          (Inl e, t) \<Rightarrow> (Inl e, t) | (Inr u, t) \<Rightarrow> poll env i claim session t)"
        using False by (subst poll.simps) simp
    qed (use 1 False in \<open>auto intro: secure_kept\<close>)
  qed (simp add: kept.made_def wp_def poll.simps kept.refl)
qed

text \<open>With the claim in the variable \<open>receipt\<close>, as it is from \<open>Acquire\<close> on.\<close>

definition engaged :: "'h run_env \<Rightarrow> lock_claim \<Rightarrow> 'h ctl \<Rightarrow> bool" where
  "engaged env claim s \<longleftrightarrow> secure env claim s \<and> rr_claim (ct_receipt s) = claim"

lemma engaged_kept:
  assumes "engaged env claim s" and "authority_kept env claim s t"
  shows "engaged env claim t"
proof -
  from assms have "rr_claim (ct_receipt t) = claim" by (simp add: engaged_def keeps_authority_def)
  with assms show ?thesis unfolding engaged_def using secure_kept by blast
qed

lemma kept_inspect:
  assumes "secure env claim s"
  shows "kept_made env claim (inspect_host env i planned) (\<lambda>_ _. True) s"
  unfolding inspect_host_def
  by (rule kept.made_bind[OF kept_failing_as[OF kept_call[OF assms]]]) (auto intro: kept.made_control)

lemma kept_acquire:
  assumes "engaged env claim s"
  shows "kept_made env claim (acquire_lock env i claim) (\<lambda>_ _. True) s"
proof -
  have sec: "secure env claim s" using assms by (simp add: engaged_def)
  have acquire: "kept_made env claim (attempt (call env (CallAcquire claim) m)) (\<lambda>_ _. True) s" for m :: "('a, unit) act"
    by (rule kept.made_attempt[OF kept_call[OF sec]]) simp_all
  have settle: "kept_made env claim (andthen (look ct_receipt) (\<lambda>receipt.
      andthen (attempt (settle_run env selected receipt)) (\<lambda>settled.
        case settled of Inl f \<Rightarrow> fail (g f) | Inr cleanup \<Rightarrow> if cleanup_known cleanup then fail e else fail e'))) (\<lambda>_ _. True) t"
    if "authority_kept env claim s t" for t selected g e e'
  proof (rule kept.made_bind[OF kept_look])
    fix r u assume u: "authority_kept env claim t u" "r = ct_receipt u"
    from engaged_kept[OF assms kept.trans[OF that u(1)]] u(2)
    have "kept_made env claim (attempt (settle_run env selected r)) (\<lambda>_ _. True) u"
      by (intro kept.made_attempt[OF kept_settle_run]) (simp_all add: engaged_def)
    then show "kept_made env claim (andthen (attempt (settle_run env selected r)) (\<lambda>settled.
        case settled of Inl f \<Rightarrow> fail (g f) | Inr cleanup \<Rightarrow> if cleanup_known cleanup then fail e else fail e')) (\<lambda>_ _. True) u"
      by (rule kept.made_bind) (auto intro: kept.made_control split: sum.split)
  qed
  show ?thesis unfolding acquire_lock_def
    by (rule kept.made_bind[OF acquire]) (auto intro!: kept.made_control settle split: sum.split)
qed

lemma kept_start:
  assumes "engaged env (rq_claim request) s" and run: "ri_run_id i = lc_run_id (rq_claim request)"
  shows "kept_made env (rq_claim request) (start_run env i request) (\<lambda>_ _. True) s"
proof -
  let ?claim = "rq_claim request"
  have sec: "secure env ?claim s" using assms by (simp add: engaged_def)
  have stage: "kept_made env ?claim (failing_as f (call env (CallStage ?claim p) m)) (\<lambda>_ _. True) s" for f p and m :: "('a, unit) act"
    by (rule kept_failing_as[OF kept_call[OF sec]]) simp
  have start: "kept_made env ?claim (call env (CallStart request) m) (\<lambda>_ _. True) t"
    if "authority_kept env ?claim s t" for t and m :: "('a, run_receipt \<times> err option) act"
    by (rule kept_call[OF secure_kept[OF sec that]]) simp
  have set: "kept_made env ?claim (change (\<lambda>s. s\<lparr>ct_receipt := f (ct_receipt s)\<rparr>)) (\<lambda>_ _. True) t"
    if "\<And>r. rr_claim (f r) = rr_claim r" for f t
    by (rule kept_true[OF kept_change]) (simp add: that)
  have accept: "kept_made env ?claim (if b then confirm env selected r else accept_of env selected r) (\<lambda>_ _. True) t"
    if "authority_kept env ?claim s t" for b r t selected
    by (rule kept.made_if[OF kept_true[OF kept_confirm] kept_accept]) (use secure_kept[OF sec that] in auto)
  have tail: "kept_made env ?claim (then_do (refuse (wrap_err m (validate_receipt started ?claim pinned state))) (then_do (refuse e)
      (then_do (if b then confirm env selected started else accept_of env selected started)
      (then_do (set_receipt started) (refuse c))))) (\<lambda>_ _. True) t"
    if t: "authority_kept env ?claim s t" for m started pinned state e b selected c t
  proof (rule kept.made_check, rule kept.made_check, rule kept.made_then[OF accept[OF t]])
    fix u assume "wrap_err m (validate_receipt started ?claim pinned state) = None"
    then have "rr_claim started = ?claim" by (auto simp: validate_receipt_def split: if_splits)
    from kept_set_receipt[OF this, of env] show "kept_made env ?claim (then_do (set_receipt started) (refuse c)) (\<lambda>_ _. True) u"
      by (rule kept.made_then) (simp add: kept.made_control)
  qed
  have load: "kept_made env ?claim (andthen (on_disk env (journal_load (re_lib env) (re_disk env) (re_root env) selected (lc_run_id ?claim)))
      (\<lambda>(rd, pinned). andthen (look ct_receipt) (\<lambda>receipt.
        then_do (refuse (wrap_err m (validate_receipt started ?claim pinned (rr_state receipt)))) (then_do (refuse e)
        (then_do (if pinned \<noteq> '''' then confirm env selected started else accept_of env selected started)
        (then_do (set_receipt started) (refuse c))))))) (\<lambda>_ _. True) t"
    if t: "authority_kept env ?claim s t" for m started e selected c t
    by (rule kept.made_bind[OF kept_true[OF kept_journal_load[OF secure_kept[OF sec t]]]], rule kept.made_prod,
        rule kept.made_bind[OF kept_look], rule tail) (blast intro: kept.trans t)
  show ?thesis unfolding start_run_def Let_def run
    by (rule kept.made_then[OF stage], rule kept.made_then[OF set], simp, rule kept.made_bind[OF start], erule (1) kept.trans,
        rule kept.made_prod, rule kept.made_then[OF kept.made_if[OF kept.made_refuse kept.made_ret]], simp, simp,
        rule kept.made_then[OF kept.made_if[OF set kept.made_ret]], simp, simp, rule load)
      (blast intro: kept.trans)
qed

lemma kept_settle_known:
  assumes "secure env claim s" and "rr_claim receipt = claim"
  shows "kept_made env claim (settle_known env selected receipt) (\<lambda>c _. cleanup_known c) s"
  unfolding settle_known_def
  by (rule kept.made_bind[OF kept_failing_as[OF kept_settle_run[OF assms]]], rule kept.made_check) (simp add: kept.made_control)

lemma kept_finish:
  assumes eng: "engaged env (rq_claim request) s" and dir: "apart_from_journal env dir"
  shows "kept_made env (rq_claim request) (finish_run env i request dir) (\<lambda>_ _. True) s"
  unfolding finish_run_def
proof (rule kept.made_bind[OF kept_look], rule kept.made_check, goal_cases)
  case (1 r t)
  let ?claim = "rq_claim request"
  from engaged_kept[OF eng 1(1)] 1(2) have r: "secure env ?claim t" "rr_claim r = ?claim" by (simp_all add: engaged_def)
  have publish: "kept_made env ?claim (let x = v in then_do (confirm env selected r)
      (then_do (failing_as g (on_disk env (publish_bundle_metadata (re_lib env) (re_disk env) dir x))) (ret x))) (\<lambda>_ _. True) u"
    if u: "authority_kept env ?claim t u" for v u selected g
    unfolding Let_def
    by (rule kept.made_then[OF kept_confirm[OF secure_kept[OF r(1) u]]], rule kept.made_then[OF kept_failing_as[OF kept_metadata[OF _ dir]]])
      (auto intro: kept.made_control secure_kept[OF r(1)] kept.trans[OF u])
  show ?case
    by (rule kept.made_then[OF kept_collect_evidence[OF r dir]], rule kept.made_bind[OF kept_settle_known[OF _ r(2)]])
      (blast intro: secure_kept[OF r(1)] publish kept.trans)+
qed

section \<open>Recovery of UI evidence\<close>

lemma kept_recover_file:
  assumes sec: "secure env claim s" and claim: "rr_claim receipt = claim" and dir: "apart_from_journal env dir"
  shows "kept_made env claim (recover_file env i receipt dir f) (\<lambda>_ _. True) s"
proof -
  have one: "rr_claim (only_file receipt f) = claim" using claim by (simp add: only_file_def)
  have "disk.made (sealed (re_root env) run_dirs) (read_evidence_file (re_disk env) p) (\<lambda>_ _. True) (ct_disk s)" for p
    using sec by (intro made_read_evidence) (simp add: secure_def peaceful_def)
  from kept.made_attempt[OF kept_disk[OF sec this], where Q = "\<lambda>_ _. True"]
  have read: "kept_made env claim (attempt (on_disk env (read_evidence_file (re_disk env) p))) (\<lambda>_ _. True) s" for p by simp
  show ?thesis unfolding recover_file_def
    by (rule kept.made_bind[OF read])
      (auto intro!: kept.made_control kept_collect_evidence[OF _ one dir] intro: secure_kept[OF sec] split: sum.split)
qed

lemma kept_recover_files:
  assumes claim: "rr_claim receipt = claim" and dir: "apart_from_journal env dir"
  shows "secure env claim s \<Longrightarrow> kept_made env claim (recover_files env i receipt dir available errs fs) (\<lambda>_ _. True) s"
proof (induction fs arbitrary: available errs s)
  case (Cons f fs available errs s)
  have one: "kept_made env claim (attempt (recover_file env i receipt dir f)) (\<lambda>_ _. True) s"
    by (rule kept.made_attempt[OF kept_recover_file[OF Cons.prems claim dir]]) simp_all
  have "kept_made env claim (andthen (attempt (recover_file env i receipt dir f)) (\<lambda>r.
      case r of Inr u \<Rightarrow> recover_files env i receipt dir (available @ [f]) errs fs
      | Inl e \<Rightarrow> if is_authority e then ret (Inl (the (join_err errs (Some e))))
          else recover_files env i receipt dir available (join_err errs (Some e)) fs)) (\<lambda>_ _. True) s"
    by (rule kept.made_bind[OF one])
      (auto intro!: kept.made_control Cons.IH intro: secure_kept[OF Cons.prems] split: sum.split)
  then show ?case using Cons.IH[OF Cons.prems] by (auto simp: Let_def split: option.split)
qed (simp add: kept.made_control)

lemma kept_recover_journal:
  assumes claim: "rr_claim settled = claim" and dir: "apart_from_journal env dir"
  shows "secure env claim s \<Longrightarrow> kept_made env claim (recover_journal env i settled dir encoded available done errs fs) (\<lambda>_ _. True) s"
proof (induction fs arbitrary: available "done" errs s)
  case (Cons f fs available "done" errs s)
  have check: "kept_made env claim (attempt (confirm env selected settled)) (\<lambda>_ _. True) s" for selected
    by (rule kept.made_attempt[OF kept_confirm[OF Cons.prems]]) simp_all
  have store: "kept_made env claim (attempt (on_disk env (write_evidence (re_disk env) dir (ef_path f) encoded))) (\<lambda>_ _. True) t"
    if "authority_kept env claim s t" "ef_path f = ui_evidence_path" for t
    by (rule kept.made_attempt[OF kept_write_evidence[OF secure_kept[OF Cons.prems that(1)] dir]]) (simp_all add: that(2) tidy_ui)
  have "kept_made env claim (andthen (attempt (confirm env (ri_target i) settled)) (\<lambda>a.
         case a of Inl e \<Rightarrow> ret (Inl (the (join_err errs (Some e))))
         | Inr u \<Rightarrow> andthen (attempt (on_disk env (write_evidence (re_disk env) dir (ef_path f) encoded))) (\<lambda>w.
               case w of Inl e \<Rightarrow> ret (Inr (available, done, join_err errs (Some e)))
               | Inr v \<Rightarrow> recover_journal env i settled dir encoded (available @ [f]) True errs fs))) (\<lambda>_ _. True) s"
    if "ef_path f = ui_evidence_path"
  proof (rule kept.made_bind[OF check], goal_cases)
    case (1 a t)
    have "kept_made env claim (andthen (attempt (on_disk env (write_evidence (re_disk env) dir (ef_path f) encoded))) (\<lambda>w.
               case w of Inl e \<Rightarrow> ret (Inr (available, done, join_err errs (Some e)))
               | Inr v \<Rightarrow> recover_journal env i settled dir encoded (available @ [f]) True errs fs)) (\<lambda>_ _. True) t"
      by (rule kept.made_bind[OF store[OF 1(1) that]])
        (auto intro!: kept.made_control Cons.IH intro: secure_kept[OF Cons.prems] kept.trans[OF 1(1)] split: sum.split)
    then show ?case by (auto intro!: kept.made_control split: sum.split)
  qed
  then show ?case using Cons.IH[OF Cons.prems] by (auto intro!: kept.made_control)
qed (simp add: kept.made_control)

lemma kept_complete_journal:
  assumes "secure env claim s" and "rr_claim settled = claim" and "apart_from_journal env dir"
  shows "kept_made env claim (complete_journal env i settled dir available errs) (\<lambda>_ _. True) s"
  unfolding complete_journal_def
  using kept_recover_journal[OF assms(2,3,1)] by (auto intro!: kept.made_control split: option.split)

lemma kept_publish_recovered:
  assumes sec: "secure env claim s" and claim: "rr_claim settled = claim" and dir: "apart_from_journal env dir"
  shows "kept_made env claim (publish_recovered env i settled dir available errs cleanup) (\<lambda>_ _. True) s"
  unfolding publish_recovered_def
proof (rule kept.made_bind[OF kept_complete_journal[OF assms]], goal_cases)
  case (1 j t)
  note t = secure_kept[OF sec 1(1)]
  have check: "kept_made env claim (attempt (confirm env selected settled)) (\<lambda>_ _. True) t" for selected
    by (rule kept.made_attempt[OF kept_confirm[OF t]]) simp_all
  have store: "kept_made env claim (attempt (on_disk env (publish_bundle_metadata (re_lib env) (re_disk env) dir r))) (\<lambda>_ _. True) u"
    if "authority_kept env claim t u" for u r
    by (rule kept.made_attempt[OF kept_metadata[OF secure_kept[OF t that] dir]]) simp_all
  have "kept_made env claim (let r = v in
          andthen (attempt (confirm env (ri_target i) settled)) (\<lambda>a.
            case a of Inl e \<Rightarrow> ret (zero_result, True, join_err errs' (Some e))
            | Inr u \<Rightarrow> andthen (attempt (on_disk env (publish_bundle_metadata (re_lib env) (re_disk env) dir r))) (\<lambda>p.
                  ret (r, True, join_err errs' (err_of p))))) (\<lambda>_ _. True) t" for v errs'
    unfolding Let_def
    by (rule kept.made_bind[OF check])
      (auto intro!: kept.made_control kept.made_bind[OF store] split: sum.split)
  then show ?case by (auto intro!: kept.made_control simp: Let_def split: sum.split)
qed

lemma kept_settle_recovered:
  assumes sec: "secure env claim s" and claim: "rr_claim receipt = claim" and dir: "apart_from_journal env dir"
    and run: "ri_run_id i = lc_run_id claim"
  shows "kept_made env claim (settle_recovered env i receipt dir available errs) (\<lambda>_ _. True) s"
  unfolding settle_recovered_def
proof (rule kept.made_bind[OF kept.made_attempt[OF kept_settle_run[OF sec claim], where Q = "\<lambda>_ _. True"]], simp, simp, goal_cases)
  case (1 c t)
  note t = secure_kept[OF sec 1(1)]
  have again: "kept_made env claim (andthen (recover_receipt env (ri_target i) (ri_run_id i) (rr_session_id receipt)) (\<lambda>(settled, e).
              case e of
                Some f \<Rightarrow> ret (zero_result, True, join_err errs (Some (Wrap ''settled UI receipt could not be verified'' f)))
              | None \<Rightarrow> (case verify_terminal i receipt errs settled of
                     Some f \<Rightarrow> ret (zero_result, True, Some f)
                   | None \<Rightarrow> publish_recovered env i settled dir available errs cleanup))) (\<lambda>_ _. True) t" for cleanup
  proof (rule kept.made_bind[OF kept_recover[OF t run[symmetric]]], rule kept.made_prod, goal_cases)
    case (1 x u settled e)
    have "kept_made env claim (publish_recovered env i settled dir available errs cleanup) (\<lambda>_ _. True) u" if "e = None"
      by (rule kept_publish_recovered[OF secure_kept[OF t 1(1)] _ dir]) (use 1(2,3) that in simp)
    then show ?case by (cases e) (auto intro!: kept.made_control split: option.split)
  qed
  then show ?case by (auto intro!: kept.made_control split: sum.split)
qed

lemma kept_recover_ui:
  assumes eng: "engaged env claim s" and dir: "apart_from_journal env dir" and run: "ri_run_id i = lc_run_id claim"
  shows "kept_made env claim (recover_ui_failure env i dir) (\<lambda>_ _. True) s"
  unfolding recover_ui_failure_def
proof (rule kept.made_bind[OF kept_look], rule kept.made_bind[OF kept_recover[OF _ run[symmetric]]], goal_cases)
  case (1 before t) then show ?case using engaged_kept[OF eng] by (simp add: engaged_def)
next
  case (2 before t a u)
  obtain receipt e where a: "a = (receipt, e)" by (cases a)
  have u: "engaged env claim u" by (rule engaged_kept[OF eng kept.trans[OF 2(1,3)]])
  have adopt: "kept_made env claim (adopt_recovered receipt e) (\<lambda>_ _. True) u"
    unfolding adopt_recovered_def by (rule kept_true[OF kept_change]) (auto simp: Let_def)
  show ?case unfolding a prod.case
  proof (rule kept.made_then[OF adopt])
    fix v assume uv: "authority_kept env claim u v"
    have files: "kept_made env claim (andthen (recover_files env i receipt dir [] None (em_files (rr_evidence receipt))) (\<lambda>x.
        case x of Inl f \<Rightarrow> ret (zero_result, False, Some f)
        | Inr (available, errs) \<Rightarrow> settle_recovered env i receipt dir available errs)) (\<lambda>_ _. True) w"
      if "authority_kept env claim v w" "e = None" for w
    proof (rule kept.made_bind[OF kept_recover_files[OF _ dir]])
      show claim: "rr_claim receipt = claim" using 2(4) a that(2) by simp
      have w: "engaged env claim w" by (rule engaged_kept[OF u kept.trans[OF uv that(1)]])
      then show "secure env claim w" by (simp add: engaged_def)
      fix x y assume y: "authority_kept env claim w y"
      have "secure env claim y" using engaged_kept[OF w y] by (simp add: engaged_def)
      from kept_settle_recovered[OF this claim dir run]
      show "kept_made env claim (case x of Inl f \<Rightarrow> ret (zero_result, False, Some f)
        | Inr (available, errs) \<Rightarrow> settle_recovered env i receipt dir available errs) (\<lambda>_ _. True) y"
        by (auto intro!: kept.made_control split: sum.split)
    qed
    show "kept_made env claim (case e of Some f \<Rightarrow> ret (zero_result, False, Some (Wrap ''UI failure receipt could not be recovered'' f))
     | None \<Rightarrow> andthen (look ct_receipt) (\<lambda>previous.
           case recovered_refusal i previous receipt of
             Some f \<Rightarrow> ret (zero_result, False, Some f)
           | None \<Rightarrow> andthen (recover_files env i receipt dir [] None (em_files (rr_evidence receipt))) (\<lambda>x.
                 case x of Inl f \<Rightarrow> ret (zero_result, False, Some f)
                 | Inr (available, errs) \<Rightarrow> settle_recovered env i receipt dir available errs))) (\<lambda>_ _. True) v"
      by (cases e) (auto intro!: kept.made_control kept.made_bind[OF kept_look] files split: option.split)
  qed
qed

section \<open>Failures\<close>

lemma kept_settle_failed:
  assumes eng: "engaged env claim s"
  shows "kept_made env claim (settle_failed env i e) (\<lambda>_ _. True) s"
  unfolding settle_failed_def
proof (rule kept.made_bind[OF kept_look], goal_cases)
  case (1 r t)
  with engaged_kept[OF eng 1(1)] have "secure env claim t" "rr_claim r = claim" by (simp_all add: engaged_def)
  from kept.made_attempt[OF kept_settle_known[OF this], where Q = "\<lambda>_ _. True"]
  have "kept_made env claim (attempt (settle_known env (ri_target i) r)) (\<lambda>_ _. True) t" by simp
  then show ?case by (rule kept.made_bind) (simp add: kept.made_control)
qed

lemma kept_on_failure:
  assumes eng: "engaged env claim s" and dir: "apart_from_journal env dir" and run: "ri_run_id i = lc_run_id claim"
  shows "kept_made env claim (on_failure env i dir e) (\<lambda>_ _. True) s"
proof -
  have "kept_made env claim (andthen (recover_ui_failure env i dir) (\<lambda>(recovered, settled, f).
         let e' = the (join_err (Some e) f) in
         if (case f of None \<Rightarrow> False | Some g \<Rightarrow> is_authority g) then ret (zero_result, e')
         else if settled then ret (recovered, e') else settle_failed env i e')) (\<lambda>_ _. True) s"
    by (rule kept.made_bind[OF kept_recover_ui[OF eng dir run]])
      (auto simp: Let_def intro!: kept.made_control kept_settle_failed intro: engaged_kept[OF eng])
  then show ?thesis unfolding on_failure_def using kept_settle_failed[OF eng] by (auto intro!: kept.made_control)
qed

lemma kept_run_locked:
  assumes eng: "engaged env (rq_claim request) s" and dir: "apart_from_journal env dir" and run: "ri_run_id i = lc_run_id (rq_claim request)"
  shows "kept_made env (rq_claim request) (run_locked env i request dir) (\<lambda>_ _. True) s"
  unfolding run_locked_def
proof (rule kept.made_then[OF kept_start[OF eng run]], rule kept.made_bind[OF kept_look], rule kept.made_then[OF kept_poll[OF _ run]], goal_cases)
  case (1 t r u) then show ?case using engaged_kept[OF eng] kept.trans unfolding engaged_def by blast
next
  case (2 t r u v) then show ?case using engaged_kept[OF eng] kept.trans kept_finish[OF _ dir] by blast
qed

section \<open>The preparation of a Run\<close>

text \<open>Before the host is called.\<close>

definition keeps_silence :: "string \<Rightarrow> 'h ctl \<Rightarrow> 'h ctl \<Rightarrow> bool" where
  "keeps_silence root s t \<longleftrightarrow> evolves (sealed root run_dirs) (ct_disk s) (ct_disk t) \<and> ct_calls t = ct_calls s"

interpretation silent: history "keeps_silence root" for root
  by unfold_locales (auto simp: keeps_silence_def intro: disk.refl disk.trans)

lemma silent_disk:
  "disk.made (sealed root run_dirs) m Q (ct_disk s) \<Longrightarrow> silent.made root (on_disk env m) (\<lambda>a t. Q a (ct_disk t)) s"
  by (auto simp: silent.made_def disk.made_def wp_def on_disk_def keeps_silence_def split: prod.splits sum.splits)

lemma silent_failing_as: "silent.made root m Q s \<Longrightarrow> silent.made root (failing_as f m) Q s"
  unfolding failing_as_def
  by (rule silent.made_bind[OF silent.made_attempt[where Q = "\<lambda>r t. case r of Inl e \<Rightarrow> True | Inr a \<Rightarrow> Q a t"]])
    (auto intro: silent.made_control split: sum.split)

lemma silent_of_res: "silent.made root (of_res r) (\<lambda>a _. r = Inr a) s"
  by (cases r) (auto simp: silent.made_def wp_of_res silent.refl)

text \<open>The record of the claim is read back as the claim.\<close>

definition authority_members :: "run_authority \<Rightarrow> json \<Rightarrow> (string \<times> json) list" where
  "authority_members r c = [(''schema_version'', JNum (ra_schema_version r)), (''claim'', c), (''target_fingerprint'', JStr (ra_fingerprint r))]"

lemma authority_fields: "canonical_fields (authority_members r c)"
  by (simp add: canonical_fields_def authority_members_def canonical_key_def evaluate)

lemma authority_lookup:
  "field_of ''schema_version'' (authority_members r c) = Some (JNum (ra_schema_version r))"
  "field_of ''claim'' (authority_members r c) = Some c"
  "field_of ''target_fingerprint'' (authority_members r c) = Some (JStr (ra_fingerprint r))"
  by (rule field_of_member[OF authority_fields], simp add: authority_members_def)+

lemma authority_reads_back:
  assumes json: "authority_json lib r = Inr v" and rb: "reads_back lib v" "times_read_back lib" and ok: "authority_ok run r"
  shows "check_authority lib run (render v) = Inr r"
proof -
  from json obtain d where d: "cl_time lib (lc_deadline (ra_claim r)) = Inr d"
    and v: "v = JObj (authority_members r (JObj (claim_members (ra_claim r) d)))"
    by (auto simp: authority_json_def claim_json_def authority_members_def)
  have claim: "int_ok (lc_schema_version (ra_claim r))" "int_ok (ra_schema_version r)"
    using ok by (auto simp: authority_ok_def claim_validate_def int_ok_def)
  have "well_keyed (\<lambda>t. t \<noteq> TNull) canonical_key v"
    unfolding v by (rule members_keyed[OF authority_fields]) (simp add: authority_members_def claim_keyed del: well_keyed.simps(1,2))
  then have strict: "strict_admits (tokens v) = None" by (rule strict_admits_keyed)
  have known: "known_fields [''schema_version'', ''claim'', ''target_fingerprint''] (authority_members r (JObj (claim_members (ra_claim r) d)))"
    by (rule known_members) (simp add: authority_members_def)
  from rb d have "cl_time_parse lib d = Some (lc_deadline (ra_claim r))" by (simp add: times_read_back_def)
  from decode_claim_members[OF claim(1) this] strict rb(1) known
  have "decode_authority lib (render v) = Inr r"
    by (simp add: decode_authority_def strict_struct_def strict_value_def reads_back_def v authority_lookup claim(2))
  then show ?thesis using ok by (simp add: check_authority_def)
qed

lemma made_journal_record:
  assumes env: "peaceful root run_dirs env" and rb: "times_read_back lib" "\<And>v. authority_json lib (authority_of lib selected claim) = Inr v \<Longrightarrow> reads_back lib v"
    and hash: "\<And>x. hex64 (tl_sha (cl_target lib) x)"
  shows "disk.made (sealed root run_dirs) (journal_record lib env root selected claim)
    (\<lambda>_ t. authorized lib root t claim (authority_of lib selected claim)) s"
  unfolding journal_record_def authority_of_def[symmetric]
proof (rule disk.made_check, rule disk.made_check, rule disk.made_bind[OF made_of_res], rule made_refuse_with)
  fix v t assume "claim_validate claim = None" and v: "authority_json lib (authority_of lib selected claim) = Inr v"
  then have ok: "authority_ok (lc_run_id claim) (authority_of lib selected claim)" "run_id_ok (lc_run_id claim)"
    by (auto simp: authority_ok_def authority_of_def target_fingerprint_def hash claim_validate_def)
  show "disk.made (sealed root run_dirs) (failing_as f (private_publish env root (claim_path (lc_run_id claim)) (render v) False))
    (\<lambda>_ t. authorized lib root t claim (authority_of lib selected claim)) t" for f
  proof (rule made_failing_as, rule disk.made_weaken[OF made_record_publish[OF env run_paths(3)[OF ok(2)]]])
    fix u assume "stored u root (dirs_of (claim_path (lc_run_id claim))) (path_base (claim_path (lc_run_id claim))) (render v)"
    from content_stored[OF this] authority_reads_back[OF v rb(2)[OF v] rb(1) ok(1)] ok(2)
    show "authorized lib root u claim (authority_of lib selected claim)"
      by (auto simp: authorized_def recorded_def authority_of_def)
  qed
qed

text \<open>
  What is relied on: other processes leave the journal and the temporary files alone, the library
  reads back the record it wrote, its hash is a SHA-256, and the bundle does not contain the journal.
\<close>

definition reliable :: "'h run_env \<Rightarrow> run_intent \<Rightarrow> lock_claim \<Rightarrow> bool" where
  "reliable env i claim \<longleftrightarrow> peaceful (re_root env) run_dirs (re_disk env) \<and> spares (re_disk env) evidence_scratch
     \<and> times_read_back (re_lib env)
     \<and> (\<forall>v. authority_json (re_lib env) (authority_of (re_lib env) (ri_target i) claim) = Inr v \<longrightarrow> reads_back (re_lib env) v)
     \<and> (\<forall>x. hex64 (sha_of env x))
     \<and> (\<forall>dir. evidence_root_of (re_path env) (ri_evidence_dir i) dir \<longrightarrow> apart_from_journal env dir)"

lemma silent_prepare:
  assumes rel: "\<And>request. build_request env (ct_now s) i = Inr request \<Longrightarrow> reliable env i (rq_claim request)"
    and fl: "flushed_in (sealed (re_root env) run_dirs) (ct_disk s)"
  shows "silent.made (re_root env) (prepare_run env i) (\<lambda>(request, planned, dir) t. build_request env (ct_now s) i = Inr request
    \<and> apart_from_journal env dir \<and> secure env (rq_claim request) t) s"
proof -
  let ?Q = "\<lambda>(request, planned, dir) t. build_request env (ct_now s) i = Inr request
    \<and> apart_from_journal env dir \<and> secure env (rq_claim request) t"
  have "silent.made (re_root env) (failing_as Preflight
    (andthen (of_res (build_request env (ct_now s) i)) (\<lambda>request.
     andthen (of_res (plan (cl_target (re_lib env)) (ri_target i) (ri_payload i))) (\<lambda>planned.
     andthen (failing_as (Wrap ''prepare evidence directory'')
         (on_disk env (prepare_evidence_root (re_disk env) (re_path env) (ri_evidence_dir i)))) (\<lambda>dir.
     then_do (on_disk env (journal_record (re_lib env) (re_disk env) (re_root env) (ri_target i) (rq_claim request)))
      (ret (request, planned, dir))))))) ?Q s"
  proof (rule silent_failing_as, rule silent.made_bind[OF silent_of_res], rule silent.made_bind[OF silent_of_res],
      rule silent.made_bind[OF silent_failing_as[OF silent_disk[OF made_prepare_root]]], goal_cases)
    case (1 request t planned u) then show ?case using rel by (simp add: reliable_def peaceful_def)
  next
    case (2 request t planned u dir v)
    then have r: "reliable env i (rq_claim request)" using rel by blast
    then have dir: "apart_from_journal env dir" using 2 by (simp add: reliable_def)
    have rec: "silent.made (re_root env) (on_disk env (journal_record (re_lib env) (re_disk env) (re_root env) (ri_target i) (rq_claim request)))
      (\<lambda>_ w. authorized (re_lib env) (re_root env) (ct_disk w) (rq_claim request) (authority_of (re_lib env) (ri_target i) (rq_claim request))) v"
      by (rule silent_disk[OF made_journal_record]) (use r in \<open>simp_all add: reliable_def sha_of_def\<close>)
    have "secure env (rq_claim request) w"
      if w: "keeps_silence (re_root env) v w" and "authorized (re_lib env) (re_root env) (ct_disk w) (rq_claim request) a" for w a
    proof -
      have "keeps_silence (re_root env) s w" using 2(1,3,5) w by (blast intro: silent.trans)
      then have "flushed_in (sealed (re_root env) run_dirs) (ct_disk w)"
        using private_store.later_sound[OF _ fl] by (simp add: keeps_silence_def)
      with r that(2) show ?thesis unfolding secure_def reliable_def by blast
    qed
    with 2 dir show ?case by (intro silent.made_then[OF rec] silent.made_ret) auto
  qed
  then show ?thesis by (simp add: silent.made_def wp_def prepare_run_def)
qed

lemma kept_run_tail:
  assumes sec: "secure env (rq_claim request) s" and dir: "apart_from_journal env dir" and run: "ri_run_id i = lc_run_id (rq_claim request)"
  shows "kept_made env (rq_claim request) (andthen (attempt
            (then_do (inspect_host env i planned)
             (then_do (set_receipt (first_receipt (rq_claim request)))
              (acquire_lock env i (rq_claim request))))) (\<lambda>l.
            case l of
              Inl e \<Rightarrow> ret (zero_result, Some e)
            | Inr u \<Rightarrow>
                andthen (attempt (run_locked env i request dir)) (\<lambda>r.
                  case r of
                    Inr result \<Rightarrow> ret (result, None)
                  | Inl e \<Rightarrow> andthen (on_failure env i dir e) (\<lambda>(result, f). ret (result, Some f))))) (\<lambda>_ _. True) s"
proof -
  let ?claim = "rq_claim request"
  have first: "kept_made env ?claim (set_receipt (first_receipt ?claim)) (\<lambda>_ t. rr_claim (ct_receipt t) = ?claim) t" for t
    by (rule kept_set_receipt) (simp add: first_receipt_def)
  have eng: "engaged env ?claim t" if "authority_kept env ?claim s t" "rr_claim (ct_receipt t) = ?claim" for t
    using that secure_kept[OF sec] by (simp add: engaged_def)
  have lock: "kept_made env ?claim (then_do (inspect_host env i planned)
      (then_do (set_receipt (first_receipt ?claim)) (acquire_lock env i ?claim))) (\<lambda>_ t. rr_claim (ct_receipt t) = ?claim) s"
  proof (rule kept.made_then[OF kept_inspect[OF sec]], rule kept.made_then[OF first])
    fix t u assume tu: "authority_kept env ?claim s t" "authority_kept env ?claim t u" "rr_claim (ct_receipt u) = ?claim"
    from kept_acquire[OF eng[OF kept.trans[OF tu(1,2)] tu(3)]]
    show "kept_made env ?claim (acquire_lock env i ?claim) (\<lambda>_ t. rr_claim (ct_receipt t) = ?claim) u"
      by (rule kept.made_weaken) (use tu in \<open>simp add: keeps_authority_def\<close>)
  qed
  have failed: "kept_made env ?claim (andthen (on_failure env i dir e) (\<lambda>(result, f). ret (result, Some f))) (\<lambda>_ _. True) t"
    if "engaged env ?claim t" for e t
    by (rule kept.made_bind[OF kept_on_failure[OF that dir run]]) (auto intro: kept.made_control)
  have locked: "kept_made env ?claim (andthen (attempt (run_locked env i request dir)) (\<lambda>r. case r of
        Inr result \<Rightarrow> ret (result, None)
      | Inl e \<Rightarrow> andthen (on_failure env i dir e) (\<lambda>(result, f). ret (result, Some f)))) (\<lambda>_ _. True) t"
    if t: "engaged env ?claim t" for t
    by (rule kept.made_bind[OF kept.made_attempt[OF kept_run_locked[OF t dir run], where Q = "\<lambda>_ _. True"]])
      (auto intro!: kept.made_control failed engaged_kept[OF t] split: sum.split)
  show ?thesis
    by (rule kept.made_bind[OF kept.made_attempt[OF lock, where Q = "\<lambda>r t. case r of Inl e \<Rightarrow> True | Inr u \<Rightarrow> rr_claim (ct_receipt t) = ?claim"]])
      (auto intro!: kept.made_control locked eng split: sum.splits)
qed

lemma build_request_run: "build_request env now i = Inr request \<Longrightarrow> ri_run_id i = lc_run_id (rq_claim request)"
  by (auto simp: build_request_def Let_def split: if_split_asm)

lemma run_calls:
  assumes rel: "\<And>request. build_request env (ct_now s) i = Inr request \<Longrightarrow> reliable env i (rq_claim request)"
    and fl: "flushed_in (sealed (re_root env) run_dirs) (ct_disk s)"
    and run: "Run env i s = (res, t)"
  shows "\<exists>cs. ct_calls t = cs @ ct_calls s \<and> (cs \<noteq> [] \<longrightarrow> (\<exists>request. build_request env (ct_now s) i = Inr request
    \<and> list_all (\<lambda>cd. rightful (re_lib env) (re_root env) (rq_claim request) cd
        \<and> evolves (sealed (re_root env) run_dirs) (snd cd) (ct_disk t)) cs))"
proof -
  obtain p u where p: "prepare_run env i s = (p, u)" by (cases "prepare_run env i s")
  from silent.made_state[OF silent_prepare[OF rel fl]] p have su: "ct_calls u = ct_calls s" by (simp add: keeps_silence_def)
  show ?thesis
  proof (cases p)
    case (Inl e)
    with run p have "t = u" by (simp add: Run_def run_simps)
    with su show ?thesis by simp
  next
    case (Inr x)
    obtain request planned dir where x: "x = (request, planned, dir)" by (cases x)
    from silent.made_result[OF silent_prepare[OF rel fl]] p Inr x
    have u: "build_request env (ct_now s) i = Inr request" "apart_from_journal env dir" "secure env (rq_claim request) u" by auto
    from kept.made_state[OF kept_run_tail[OF u(3,2) build_request_run[OF u(1)], of planned]] run p Inr x
    have "authority_kept env (rq_claim request) u t" by (simp add: Run_def run_simps)
    with su u(1) show ?thesis unfolding keeps_authority_def by auto
  qed
qed

lemma run_call:
  assumes "\<And>request. build_request env (ct_now s) i = Inr request \<Longrightarrow> reliable env i (rq_claim request)"
    and "flushed_in (sealed (re_root env) run_dirs) (ct_disk s)"
    and "Run env i s = (res, t)" and "ct_calls t = cs @ ct_calls s" and "cs \<noteq> []"
  obtains request where "build_request env (ct_now s) i = Inr request"
    "\<And>c d. (c, d) \<in> set cs \<Longrightarrow> rightful (re_lib env) (re_root env) (rq_claim request) (c, d)"
    "\<And>c d. (c, d) \<in> set cs \<Longrightarrow> evolves (sealed (re_root env) run_dirs) d (ct_disk t)"
  using run_calls[OF assms(1-3)] assms(4,5) by (fastforce simp: list_all_iff)

text \<open>C9: a Run acts under its recorded claim. Whenever \<open>Run\<close> calls the host, whatever the host
  answers and whatever faults occur, the claim of this very request is already recorded in the
  controller's journal; the call carries that claim, and where it names a Session (to fetch evidence
  or to settle) it is the Session pinned to the claim.\<close>

theorem run_under_authority:
  assumes "\<And>request. build_request env (ct_now s) i = Inr request \<Longrightarrow> reliable env i (rq_claim request)"
    and "flushed_in (sealed (re_root env) run_dirs) (ct_disk s)"
    and "Run env i s = (res, t)" and "ct_calls t = cs @ ct_calls s" and "(c, d) \<in> set cs"
  shows "\<exists>request a. build_request env (ct_now s) i = Inr request
    \<and> authorized (re_lib env) (re_root env) d (rq_claim request) a \<and> bears (re_lib env) (re_root env) d (rq_claim request) c"
proof -
  from assms(5) have "cs \<noteq> []" by auto
  from run_call[OF assms(1-4) this] assms(5) show ?thesis unfolding rightful_def by (metis fst_conv snd_conv)
qed

fun call_session :: "host_call \<Rightarrow> string" where
  "call_session (CallFetch r f) = rr_session_id r"
| "call_session (CallSettle r) = rr_session_id r"
| "call_session _ = ''''"

lemma rightful_session:
  assumes "rightful lib root claim (c, d)" and "call_session c \<noteq> ''''"
  shows "\<exists>a. authorized lib root d claim a \<and> pinned lib root d (lc_run_id claim) a (call_session c)"
  using assms by (cases c) (auto simp: rightful_def named_def)

text \<open>C10: a Run names one Session. Any two calls of one Run that fetch evidence or settle with a
  Session name the same Session, even when the first comes from Run and the second from its recovery.\<close>

theorem run_names_one_session:
  assumes "\<And>request. build_request env (ct_now s) i = Inr request \<Longrightarrow> reliable env i (rq_claim request)"
    and "flushed_in (sealed (re_root env) run_dirs) (ct_disk s)"
    and "Run env i s = (res, t)" and "ct_calls t = cs @ ct_calls s"
    and "(c, d) \<in> set cs" and "call_session c \<noteq> ''''" and "(c', d') \<in> set cs" and "call_session c' \<noteq> ''''"
  shows "call_session c' = call_session c"
proof -
  from assms(5) have "cs \<noteq> []" by auto
  obtain request where cs: "build_request env (ct_now s) i = Inr request"
    "\<And>c d. (c, d) \<in> set cs \<Longrightarrow> rightful (re_lib env) (re_root env) (rq_claim request) (c, d)"
    "\<And>c d. (c, d) \<in> set cs \<Longrightarrow> evolves (sealed (re_root env) run_dirs) d (ct_disk t)"
    using run_call[OF assms(1-4) \<open>cs \<noteq> []\<close>] by blast
  let ?claim = "rq_claim request"
  have final: "\<exists>a. authorized (re_lib env) (re_root env) (ct_disk t) ?claim a
      \<and> pinned (re_lib env) (re_root env) (ct_disk t) (lc_run_id ?claim) a (call_session x)"
    if "(x, e) \<in> set cs" "call_session x \<noteq> ''''" for x e
  proof -
    note x = cs(2)[OF that(1)] cs(3)[OF that(1)]
    from rightful_session[OF x(1) that(2)] obtain a where a: "authorized (re_lib env) (re_root env) e ?claim a"
      "pinned (re_lib env) (re_root env) e (lc_run_id ?claim) a (call_session x)" by blast
    then have "run_id_ok (lc_run_id ?claim)" by (simp add: authorized_def)
    with a show ?thesis using authorized_evolves[OF _ x(2)] pinned_evolves[OF _ x(2)] by blast
  qed
  from final[OF assms(5,6)] final[OF assms(7,8)] show ?thesis
    unfolding authorized_def using recorded_unique pinned_unique by metis
qed

section \<open>The polling of a Run ends\<close>

definition observed_calls :: "'h ctl \<Rightarrow> nat" where
  "observed_calls s = length (filter (\<lambda>cd. case fst cd of CallObserve run \<Rightarrow> True | _ \<Rightarrow> False) (ct_calls s))"

text \<open>One iteration calls \<open>Observe\<close> at most once, and only after a whole interval.\<close>

lemma keeps_observed_disk: "keeps (\<lambda>s. observed_calls s \<le> n) (on_disk env m)"
  by (simp add: keeps_def on_disk_def observed_calls_def split: prod.split)

lemma keeps_observed:
  "keeps (\<lambda>s. observed_calls s \<le> n) (set_receipt r)" "keeps (\<lambda>s. observed_calls s \<le> n) (confirm env selected r)"
  unfolding set_receipt_def confirm_def settlement_of_def
  by (rule keeps_change, simp add: observed_calls_def) (intro keeps_intros keeps_observed_disk)

lemma observed_call: "observed_calls s \<le> n \<Longrightarrow> observed_calls (snd (failing_as f (call env c m) s)) \<le> Suc n"
  by (auto simp: failing_as_def run_simps call_def observed_calls_def split: prod.split sum.split host_call.split)

lemma poll_observe_observed: "observed_calls (snd (poll_observe env i claim session s)) \<le> Suc (observed_calls s)"
proof -
  let ?n = "observed_calls s" and ?P = "\<lambda>n s. observed_calls s \<le> n"
  have tail: "keeps (?P (Suc ?n)) (then_do (refuse a) (then_do (refuse b) (then_do (refuse c)
      (then_do (confirm env (ri_target i) observed) (set_receipt observed)))))" for a b c observed
    by (intro keeps_intros keeps_observed)
  have "wp (failing_as f (call env c m)) (\<lambda>_. ?P (Suc ?n)) (\<lambda>_. ?P (Suc ?n)) t" if "?P ?n t" for f c t and m :: "('a, run_receipt) act"
    using observed_call[OF that, of f env c m] by (auto simp: wp_def split: prod.split sum.split)
  note observe = wp_mono[OF this]
  have "wp (poll_observe env i claim session) (\<lambda>_. ?P (Suc ?n)) (\<lambda>_. ?P (Suc ?n)) s"
    unfolding poll_observe_def wp_andthen wp_look
  proof (rule wp_then_seq[where P = "?P ?n"])
    have "wp (confirm env (ri_target i) (ct_receipt s)) (\<lambda>_. ?P ?n) (\<lambda>_. ?P ?n) s"
      using keeps_observed(2)[of ?n env "ri_target i" "ct_receipt s"] by (simp add: keeps_wp)
    then show "wp (confirm env (ri_target i) (ct_receipt s)) (\<lambda>_. ?P ?n) (\<lambda>_. ?P (Suc ?n)) s" by (rule wp_mono) auto
  qed (unfold wp_andthen, erule observe, use tail in \<open>simp_all add: keeps_wp\<close>)
  then show ?thesis by (auto simp: wp_def split: prod.splits sum.splits)
qed

lemma poll_step_observed:
  "observed_calls (snd (poll_step env i claim session s)) \<le> observed_calls s
    \<or> observed_calls (snd (poll_step env i claim session s)) \<le> Suc (observed_calls s) \<and> ct_now s + int poll_interval < ri_deadline i"
proof -
  obtain w m where m: "wait_for_poll env (ri_deadline i) s = (w, m)" by (cases "wait_for_poll env (ri_deadline i) s")
  have calls: "observed_calls m = observed_calls s"
    using m by (auto simp: wait_for_poll_def Let_def observed_calls_def split: if_splits option.splits)
  show ?thesis
  proof (cases w)
    case (Inr u)
    with wait_for_poll_Inr[of env "ri_deadline i" s u m] m poll_observe_observed[of env i claim session m] calls
    show ?thesis by (simp add: poll_step_def then_do_def run_simps)
  qed (use m calls in \<open>simp add: poll_step_def then_do_def run_simps\<close>)
qed

text \<open>C12: the polling of a Run ends. However the host answers, \<open>Run\<close> observes it at most once for every
  whole poll interval left before the deadline, so it observes finitely often and not at all once less than an
  interval is left.\<close>

theorem polling_is_bounded:
  "observed_calls (snd (poll env i claim session s))
    \<le> observed_calls s + nat (ri_deadline i - ct_now s) div poll_interval"
proof (induction env i claim session s rule: poll.induct)
  case (1 env i claim session s)
  let ?left = "\<lambda>s. nat (ri_deadline i - ct_now s)"
  obtain r t where step: "poll_step env i claim session s = (r, t)" by (cases "poll_step env i claim session s")
  show ?case
  proof (cases "terminal (rr_state (ct_receipt s))")
    case False
    have whole: "1 \<le> ?left s div poll_interval" if "ct_now s + int poll_interval < ri_deadline i"
      using that poll_interval_pos by (simp add: div_greater_zero_iff Suc_le_eq)
    show ?thesis
    proof (cases r)
      case (Inl e)
      with step False poll_step_observed[of env i claim session s] whole show ?thesis
        by (subst poll.simps) auto
    next
      case (Inr u)
      from poll_step_Inr[of env i claim session s u t] step Inr have time: "ct_now s + int poll_interval \<le> ct_now t" "ct_now s + int poll_interval < ri_deadline i" by auto
      then have "?left t + poll_interval \<le> ?left s" by linarith
      then have "(?left t + poll_interval) div poll_interval \<le> ?left s div poll_interval" by (rule div_le_mono)
      moreover have "(?left t + poll_interval) div poll_interval = Suc (?left t div poll_interval)"
        using poll_interval_pos by (subst div_add_self2) simp_all
      ultimately have "Suc (?left t div poll_interval) \<le> ?left s div poll_interval" by simp
      moreover have "observed_calls t \<le> Suc (observed_calls s)"
        using poll_step_observed[of env i claim session s] step by auto
      moreover have "observed_calls (snd (poll env i claim session t)) \<le> observed_calls t + ?left t div poll_interval"
        using 1 False step Inr by auto
      ultimately show ?thesis using step Inr False by (subst poll.simps) simp
    qed
  qed (simp add: poll.simps)
qed

end
