(* ===== verification/RunEvidence.thy ===== *)
theory RunEvidence
  imports RunGuarantees
begin

text \<open>
  What a Run that succeeds has done: the host's cleanup is known, the evidence is the declared one,
  and every file of it lies in the bundle with the size and the hash that the manifest names.
\<close>

section \<open>Loads leave everything alone\<close>

lemma still_sync_parents: "spares env K \<Longrightarrow> disk.made K (sync_parents env p) (\<lambda>_ _. True) s"
proof (induction p arbitrary: s rule: rev_induct)
  case (snoc x p s)
  then show ?case unfolding sync_parents_snoc by (intro disk.made_then[OF made_true[OF made_sync]]) auto
qed (simp add: disk.made_control)

lemma still_read_path: "spares env K \<Longrightarrow> disk.made K (read_path env p limit b) (\<lambda>_ _. True) s"
proof -
  assume sp: "spares env K"
  have read: "disk.made K (sys env (ret c)) (\<lambda>_ _. True) t" for c :: string and t
    by (rule made_sys[OF sp]) (simp_all add: ret_def disk.refl)
  show ?thesis unfolding read_path_def
    by (rule disk.made_bind[OF made_stat[OF sp]], rule disk.made_check, rule disk.made_check,
        rule disk.made_bind[OF made_stat[OF sp]], rule disk.made_check)
      (auto intro!: disk.made_control disk.made_bind[OF read] disk.made_if split: entry.split)
qed

lemma still_read_durable:
  assumes sp: "spares env K"
  shows "disk.made K (read_durable env root n limit) (\<lambda>_ _. True) s"
proof -
  have enter: "disk.made K (enter_directories env False p cs) (\<lambda>_ _. True) t" for p cs t
    by (rule made_true[OF made_enter[OF sp]])
  have dir: "disk.made K (private_directory env root d False) (\<lambda>_ _. True) t" for d t
    unfolding private_directory_def
    by (auto intro!: disk.made_control disk.made_check disk.made_then[OF disk.made_ret] disk.made_then[OF made_check_directory[OF sp]]
        disk.made_bind[OF enter])
  show ?thesis unfolding read_durable_def private_read_def andthen_assoc
    by (rule disk.made_bind[OF dir], rule disk.made_bind[OF still_read_path[OF sp]], rule disk.made_then[OF still_sync_parents[OF sp]])
      (simp add: disk.made_control)
qed

lemma still_load:
  assumes sp: "spares env K"
  shows "disk.made K (journal_load lib env root selected run) (\<lambda>_ _. True) s"
proof -
  have pin: "disk.made K (load_pin lib env root run r) (\<lambda>_ _. True) t" for r t
    unfolding load_pin_def
    by (rule disk.made_bind[OF disk.made_attempt[OF still_read_durable[OF sp], where Q = "\<lambda>_ _. True"]])
      (auto intro: disk.made_control made_true[OF made_of_res] split: sum.split)
  show ?thesis unfolding journal_load_def
    by (intro disk.made_check, rule disk.made_bind[OF made_failing_as[OF still_read_durable[OF sp]]], rule disk.made_bind[OF made_of_res],
        rule disk.made_then[where P = "\<lambda>_ _. True"], auto intro!: disk.made_control disk.made_bind[OF pin])
qed

lemma still_settlement: "spares env K \<Longrightarrow> disk.made K (journal_settlement lib env root selected receipt) (\<lambda>_ _. True) s"
  unfolding journal_settlement_def
  by (rule disk.made_bind[OF still_load], assumption, rule disk.made_prod) (auto intro!: made_refuse_with disk.made_control)

section \<open>The history of the bundle\<close>

definition keeps_bundle :: "path set \<Rightarrow> 'h ctl \<Rightarrow> 'h ctl \<Rightarrow> bool" where
  "keeps_bundle K s t \<longleftrightarrow> evolves K (ct_disk s) (ct_disk t)"

interpretation bundled: history "keeps_bundle K" for K
  by unfold_locales (auto simp: keeps_bundle_def intro: disk.refl disk.trans)

lemma bundled_disk: "disk.made K m Q (ct_disk s) \<Longrightarrow> bundled.made K (on_disk env m) (\<lambda>a t. Q a (ct_disk t)) s"
  by (auto simp: bundled.made_def disk.made_def wp_def on_disk_def keeps_bundle_def split: prod.splits sum.splits)

lemma bundled_call: "bundled.made K (call env c m) (\<lambda>_ _. True) s"
  by (auto simp: bundled.made_def wp_def call_def keeps_bundle_def disk.refl split: prod.splits sum.splits)

lemma bundled_failing_as: "bundled.made K m Q s \<Longrightarrow> bundled.made K (failing_as f m) Q s"
  unfolding failing_as_def
  by (rule bundled.made_bind[OF bundled.made_attempt[where Q = "\<lambda>r t. case r of Inl e \<Rightarrow> True | Inr a \<Rightarrow> Q a t"]])
    (auto intro: bundled.made_control split: sum.split)

lemma bundled_look: "bundled.made K (look f) (\<lambda>a t. a = f t) s"
  by (simp add: bundled.made_def wp_look bundled.refl)

lemma bundled_settlement: "spares (re_disk env) K \<Longrightarrow> bundled.made K (settlement_of env selected receipt) (\<lambda>_ _. True) s"
  unfolding settlement_of_def by (rule bundled_disk[OF still_settlement])

lemma bundled_confirm: "spares (re_disk env) K \<Longrightarrow> bundled.made K (confirm env selected receipt) (\<lambda>_ _. True) s"
  unfolding confirm_def by (rule bundled.made_bind[OF bundled_settlement]) (simp_all add: bundled.made_control)

lemma bundled_settle_known:
  assumes sp: "spares (re_disk env) K"
  shows "bundled.made K (settle_known env selected receipt) (\<lambda>c _. cleanup_known c) s"
proof -
  have settle: "bundled.made K (settle_run env selected receipt) (\<lambda>_ _. True) s"
    unfolding settle_run_def
    by (rule bundled.made_bind[OF bundled_settlement[OF sp]], rule bundled.made_bind[OF bundled.made_attempt[OF bundled_call, where Q = "\<lambda>_ _. True"]],
        simp, simp, rule bundled.made_bind[OF bundled.made_attempt[OF bundled_settlement[OF sp], where Q = "\<lambda>_ _. True"]])
      (auto simp: bundled.made_def wp_simps bundled.refl split: option.split sum.split)
  show ?thesis unfolding settle_known_def
    by (rule bundled.made_bind[OF bundled_failing_as[OF settle]], rule bundled.made_check) (simp add: bundled.made_control)
qed

section \<open>Evidence\<close>

definition file_place :: "path \<Rightarrow> evidence_file \<Rightarrow> path" where
  "file_place dir f = dir @ split_on CHR ''/'' (ef_path f)"

definition file_stored :: "'h run_env \<Rightarrow> path \<Rightarrow> evidence_file \<Rightarrow> 'h ctl \<Rightarrow> bool" where
  "file_stored env dir f s \<longleftrightarrow> (\<exists>c. entry_at (ct_disk s) (file_place dir f) = Some (EFile True c True)
     \<and> int (length c) = ef_size f \<and> sha_of env c = ef_sha256 f)"

text \<open>No file of the evidence is named like a temporary file of the bundle.\<close>

definition plainly_named :: "evidence_file \<Rightarrow> bool" where
  "plainly_named f \<longleftrightarrow> \<not> has_prefix (last (split_on CHR ''/'' (ef_path f))) evidence_temp_prefix"

lemma file_place_apart:
  assumes "plainly_named f"
  shows "file_place dir f \<notin> evidence_temps d"
proof
  assume "file_place dir f \<in> evidence_temps d"
  then obtain x where "dir @ split_on CHR ''/'' (ef_path f) = d @ [evidence_temp_prefix @ x]"
    by (auto simp: file_place_def evidence_temps_def)
  then have "last (split_on CHR ''/'' (ef_path f)) = evidence_temp_prefix @ x"
    by (metis last_appendR last_snoc split_on_not_Nil)
  with assms show False by (simp add: plainly_named_def has_prefix_iff)
qed

lemma bundled_collect_file:
  assumes sp: "spares (re_disk env) (K \<union> evidence_scratch)" and apart: "\<And>ds. K \<inter> evidence_temps (dir @ ds) = {}"
    and f: "tidy (ef_path f)" "file_place dir f \<in> K"
  shows "bundled.made K (collect_file env selected receipt dir f) (\<lambda>_. file_stored env dir f) s"
  unfolding collect_file_def
proof (rule bundled.made_then[OF bundled_confirm], use sp in simp, rule bundled.made_bind[OF bundled_failing_as[OF bundled_call]],
    rule bundled.made_check, rule bundled.made_then[OF bundled_confirm], use sp in simp, rule bundled_failing_as)
  fix t content u
  assume ok: "check_content env receipt f content = None"
  have "disk.made K (write_evidence (re_disk env) dir (ef_path f) content)
      (\<lambda>_ d. entry_at d (file_place dir f) = Some (EFile True content True)) d" for d
    using made_write_evidence[OF sp f(1) apart, of content d] f(2) by (simp add: file_place_def)
  from bundled_disk[OF this]
  show "bundled.made K (on_disk env (write_evidence (re_disk env) dir (ef_path f) content)) (\<lambda>_. file_stored env dir f) u"
    by (rule bundled.made_weaken) (use ok in \<open>auto simp: file_stored_def check_content_def\<close>)
qed

lemma file_stored_kept: "file_stored env dir f s \<Longrightarrow> keeps_bundle K s t \<Longrightarrow> file_place dir f \<in> K \<Longrightarrow> file_stored env dir f t"
  unfolding file_stored_def keeps_bundle_def using evolvesD by blast

lemma bundled_collect_evidence:
  assumes sp: "spares (re_disk env) (K \<union> evidence_scratch)" and apart: "\<And>ds. K \<inter> evidence_temps (dir @ ds) = {}"
    and K: "file_place dir ` set (em_files (rr_evidence receipt)) \<subseteq> K"
  shows "bundled.made K (collect_evidence env i receipt dir) (\<lambda>_ t. check_manifest env (ri_payload i) receipt = None
    \<and> (\<forall>f\<in>set (em_files (rr_evidence receipt)). f \<in> set (em_files (rr_evidence receipt)) \<and> file_stored env dir f t)) s"
  unfolding collect_evidence_def
proof (rule bundled.made_check)
  assume ok: "check_manifest env (ri_payload i) receipt = None"
  have "bundled.made K (each (collect_file env (ri_target i) receipt dir) (em_files (rr_evidence receipt)))
      (\<lambda>_ t. \<forall>f\<in>set (em_files (rr_evidence receipt)). f \<in> set (em_files (rr_evidence receipt)) \<and> file_stored env dir f t) s"
  proof (rule bundled.made_each_all)
    fix f t assume f: "f \<in> set (em_files (rr_evidence receipt))"
    with K have "file_place dir f \<in> K" by blast
    from bundled_collect_file[OF sp apart check_manifest_tidy[OF ok f] this, of "ri_target i" receipt t] f
    show "bundled.made K (collect_file env (ri_target i) receipt dir f) (\<lambda>_ u. f \<in> set (em_files (rr_evidence receipt)) \<and> file_stored env dir f u) t"
      by (auto elim: bundled.made_weaken)
  qed (use K in \<open>blast intro: file_stored_kept\<close>)
  then show "bundled.made K (each (collect_file env (ri_target i) receipt dir) (em_files (rr_evidence receipt)))
      (\<lambda>_ t. check_manifest env (ri_payload i) receipt = None
        \<and> (\<forall>f\<in>set (em_files (rr_evidence receipt)). f \<in> set (em_files (rr_evidence receipt)) \<and> file_stored env dir f t)) s"
    by (rule bundled.made_weaken) (use ok in blast)
qed

definition run_succeeded :: "'h run_env \<Rightarrow> run_intent \<Rightarrow> path \<Rightarrow> run_result \<Rightarrow> 'h ctl \<Rightarrow> bool" where
  "run_succeeded env i dir r t \<longleftrightarrow> rs_state r = StateComplete \<and> cleanup_known (rs_cleanup r)
     \<and> validate_evidence (up_of env) (rs_evidence r) (pl_scenario (ri_payload i)) (rs_session_id r) = None
     \<and> list_all (\<lambda>f. file_stored env dir f t) (em_files (rs_evidence r))"

text \<open>The files that are in the receipt when the Run finishes are in its result.\<close>

lemma bundled_finish:
  assumes sp: "spares (re_disk env) (K \<union> evidence_scratch)" and apart: "\<And>ds. K \<inter> evidence_temps (dir @ ds) = {}"
    and K: "file_place dir ` set (em_files (rr_evidence (ct_receipt s))) \<subseteq> K"
  shows "bundled.made K (finish_run env i request dir)
    (\<lambda>r t. rs_evidence r = rr_evidence (ct_receipt s) \<and> run_succeeded env i dir r t) s"
  unfolding finish_run_def
proof (rule bundled.made_bind[where P = "\<lambda>r t. r = ct_receipt s"], simp add: bundled.made_def wp_look bundled.refl,
    rule bundled.made_check, goal_cases)
  case (1 r t)
  then have K': "file_place dir ` set (em_files (rr_evidence r)) \<subseteq> K" and complete: "rr_state r = StateComplete" using K by simp_all
  have spK: "spares (re_disk env) K" using sp by simp
  have publish: "bundled.made K (let x = v in then_do (confirm env selected r)
      (then_do (failing_as g (on_disk env (publish_bundle_metadata (re_lib env) (re_disk env) dir x))) (ret x))) (\<lambda>x _. x = v) u" for v u selected g
    unfolding Let_def
    by (rule bundled.made_then[OF bundled_confirm[OF spK]], rule bundled.made_then[OF bundled_failing_as[OF bundled_disk[OF made_publish_metadata[OF sp apart]]]])
      (simp add: bundled.made_control)
  show ?case
  proof (rule bundled.made_then[OF bundled_collect_evidence[OF sp apart K']], rule bundled.made_bind[OF bundled_settle_known[OF spK]],
      rule bundled.made_weaken[OF publish], goal_cases)
    case (1 u cleanup v x w)
    from 1(1,2) have ok: "validate_evidence (up_of env) (rr_evidence r) (pl_scenario (ri_payload i)) (rr_session_id r) = None"
      using complete by (simp add: check_manifest_def Let_def)
    have "keeps_bundle K u w" using 1 by (blast intro: bundled.trans)
    with 1(2) K' have "list_all (\<lambda>f. file_stored env dir f w) (em_files (rr_evidence r))"
      by (auto simp: list_all_iff intro: file_stored_kept)
    with 1 ok complete \<open>r = ct_receipt s\<close> show ?case by (simp add: run_succeeded_def)
  qed
qed

section \<open>A Run that succeeds\<close>

lemma bundled_nothing: "disk.made {} m (\<lambda>_ _. True) s"
  by (auto simp: disk.made_def wp_def evolves_def split: prod.split sum.split)

lemma prepared_root:
  assumes "prepare_run env i s = (Inr (request, planned, dir), t)"
  shows "evidence_root_of (re_path env) (ri_evidence_dir i) dir"
proof -
  have none: "spares e {}" for e by (simp add: spares_def)
  have res: "bundled.made {} (of_res x) (\<lambda>_ _. True) u" for x and u :: "'a ctl"
    by (cases x) (simp_all add: bundled.made_def wp_of_res bundled.refl)
  have "bundled.made {} (failing_as Preflight
    (andthen (of_res (build_request env (ct_now s) i)) (\<lambda>request.
     andthen (of_res (plan (cl_target (re_lib env)) (ri_target i) (ri_payload i))) (\<lambda>planned.
     andthen (failing_as (Wrap ''prepare evidence directory'')
         (on_disk env (prepare_evidence_root (re_disk env) (re_path env) (ri_evidence_dir i)))) (\<lambda>dir.
     then_do (on_disk env (journal_record (re_lib env) (re_disk env) (re_root env) (ri_target i) (rq_claim request)))
      (ret (request, planned, dir)))))))
    (\<lambda>(request, planned, dir) _. evidence_root_of (re_path env) (ri_evidence_dir i) dir) s"
    by (rule bundled_failing_as, rule bundled.made_bind[OF res], rule bundled.made_bind[OF res],
        rule bundled.made_bind[OF bundled_failing_as[OF bundled_disk[OF made_prepare_root[OF none]]]],
        rule bundled.made_then[OF bundled_disk[OF bundled_nothing]]) (simp add: bundled.made_control)
  from bundled.made_result[OF this] assms show ?thesis by (simp add: prepare_run_def)
qed

lemma run_succeeds:
  assumes "Run env i s = (Inr (r, None), t)"
  obtains request dir u where "evidence_root_of (re_path env) (ri_evidence_dir i) dir" "finish_run env i request dir u = (Inr r, t)"
proof -
  obtain p v where p: "prepare_run env i s = (p, v)" by (cases "prepare_run env i s")
  with assms obtain request planned dir where prepared: "prepare_run env i s = (Inr (request, planned, dir), v)"
    by (cases p) (auto simp: Run_def run_simps)
  from assms prepared obtain w where "run_locked env i request dir w = (Inr r, t)"
    by (auto simp: Run_def run_simps split: prod.splits sum.splits)
  then obtain u where "finish_run env i request dir u = (Inr r, t)"
    by (auto simp: run_locked_def then_do_def run_simps split: prod.splits sum.splits)
  with prepared_root[OF prepared] that show thesis by blast
qed

text \<open>C11: when \<open>Run\<close> returns a result without an error, the host's cleanup is known, the evidence is what
  the scenario declares, and every file of it lies in the new bundle, flushed, with the size and the
  SHA-256 that the manifest names; this holds whatever the host answered on the way.\<close>

theorem successful_run_stores_evidence:
  assumes "Run env i s = (Inr (r, None), t)" and "list_all plainly_named (em_files (rs_evidence r))"
    and "spares (re_disk env) evidence_scratch"
    and "\<And>dir. evidence_root_of (re_path env) (ri_evidence_dir i) dir \<Longrightarrow> spares (re_disk env) {p. strict_prefix dir p}"
  shows "\<exists>dir. evidence_root_of (re_path env) (ri_evidence_dir i) dir \<and> run_succeeded env i dir r t"
proof -
  obtain request dir u where dir: "evidence_root_of (re_path env) (ri_evidence_dir i) dir" and fin: "finish_run env i request dir u = (Inr r, t)"
    by (rule run_succeeds[OF assms(1)])
  let ?K = "file_place dir ` (set (em_files (rr_evidence (ct_receipt u))) \<inter> {f. plainly_named f})"
  have apart: "?K \<inter> evidence_temps (dir @ ds) = {}" for ds using file_place_apart by blast
  have "?K \<subseteq> {p. strict_prefix dir p}" by (auto simp: file_place_def strict_prefix_def)
  with assms(3) assms(4)[OF dir] have sp: "spares (re_disk env) (?K \<union> evidence_scratch)" by (simp add: spares_subset)
  have same: "rs_evidence r = rr_evidence (ct_receipt u)"
    using fin by (auto simp: finish_run_def then_do_def run_simps Let_def split: prod.splits sum.splits)
  with assms(2) have "file_place dir ` set (em_files (rr_evidence (ct_receipt u))) \<subseteq> ?K" by (auto simp: list_all_iff)
  from bundled.made_result[OF bundled_finish[OF sp apart this] fin] dir show ?thesis by blast
qed

end
