(* ===== verification/RunSample.thy ===== *)
theory RunSample
  imports RunEvidence
begin

text \<open>
  A sample Run: a host that does what it is asked, a Linux target, and a payload with a viewport
  capture. It is computed step by step; the properties of theories RunGuarantees and RunEvidence
  are applied to it.
\<close>

section \<open>The host and the intent\<close>

definition known_cleanup :: cleanup_state where
  "known_cleanup = \<lparr>cs_session_stopped = True, cs_payload_removed = True, cs_run_root_removed = True, cs_lock_released = True\<rparr>"

definition sample_complete :: run_receipt where
  "sample_complete = zero_receipt\<lparr>rr_schema_version := 1, rr_claim := run_claim, rr_state := StateComplete,
     rr_session_id := run_session, rr_evidence := sample_evidence run_session\<rparr>"

definition sample_inspection :: host_inspection where
  "sample_inspection = \<lparr>hi_ui_actions = None, hi_schema_version = 1, hi_status = ''pass'',
     hi_captures = [\<lparr>ct_kind = Viewport, ct_capability = cd_capability (the (describe Viewport)), ct_supported = True\<rparr>], hi_problems = []\<rparr>"

definition sample_content :: "evidence_file \<Rightarrow> string" where
  "sample_content f = replicate (nat (ef_size f)) CHR ''x''"

definition sample_adapter :: "unit adapter" where
  "sample_adapter = \<lparr>ad_inspect = (\<lambda>t q. ret sample_inspection), ad_acquire = (\<lambda>t c. ret ()), ad_stage = (\<lambda>t c p. ret ()),
     ad_start = (\<lambda>t r h. ((sample_complete, None), h)), ad_observe = (\<lambda>t r. fail IoFault),
     ad_fetch = (\<lambda>t r f. ret (sample_content f)), ad_settle = (\<lambda>t r. ret known_cleanup)\<rparr>"

definition sample_run_env :: "unit run_env" where
  "sample_run_env = \<lparr>re_lib = sample_ctl, re_disk = quiet_disk, re_path = \<lparr>pe_cwd = ''/'', pe_eval = (\<lambda>s p. Inr p)\<rparr>, re_root = ''/c'',
     re_host = sample_adapter, re_elapsed = (\<lambda>h. 0), re_stall = (\<lambda>d. 0), re_asleep = (\<lambda>n h. h),
     re_interrupt = (\<lambda>n h. None), re_late = (\<lambda>h. 0)\<rparr>"

definition sample_intent :: run_intent where
  "sample_intent = \<lparr>ri_run_id = sample_run, ri_request_id = ''req_aaaaaaaaaaaaaaaa'', ri_controller_id = ''c'', ri_deadline = 10,
     ri_target = sample_target, ri_payload = typed_payload, ri_evidence_dir = ''/e''\<rparr>"

definition sample_start :: "unit ctl" where
  "sample_start = \<lparr>ct_disk = empty_disk, ct_host = (), ct_now = 0, ct_receipt = zero_receipt, ct_calls = []\<rparr>"

lemma sample_env_simps [simp]:
  "re_lib sample_run_env = sample_ctl" "re_disk sample_run_env = quiet_disk" "re_root sample_run_env = ''/c''"
  "re_host sample_run_env = sample_adapter" "re_elapsed sample_run_env h = 0" "re_stall sample_run_env d = 0"
  "re_path sample_run_env = \<lparr>pe_cwd = ''/'', pe_eval = (\<lambda>s p. Inr p)\<rparr>"
  by (simp_all add: sample_run_env_def)

lemma sample_intent_simps [simp]:
  "ri_run_id sample_intent = sample_run" "ri_request_id sample_intent = ''req_aaaaaaaaaaaaaaaa''" "ri_controller_id sample_intent = ''c''"
  "ri_deadline sample_intent = 10" "ri_target sample_intent = sample_target" "ri_payload sample_intent = typed_payload"
  "ri_evidence_dir sample_intent = ''/e''"
  by (simp_all add: sample_intent_def)

lemma sample_adapter_simps [simp]:
  "ad_inspect sample_adapter t q = ret sample_inspection" "ad_acquire sample_adapter t c = ret ()" "ad_stage sample_adapter t c p = ret ()"
  "ad_start sample_adapter t r h = ((sample_complete, None), h)" "ad_fetch sample_adapter t ro f = ret (sample_content f)"
  "ad_settle sample_adapter t ro = ret known_cleanup"
  by (simp_all add: sample_adapter_def)

lemma sample_lib_simps [simp]: "up_of sample_run_env = id" "sha_of sample_run_env = (\<lambda>s. sample_hash)"
  by (simp_all add: up_of_def sha_of_def sample_ctl_def fun_eq_iff)

lemma sample_sha: "tl_sha (cl_target sample_ctl) = (\<lambda>s. sample_hash)" "tl_up (cl_target sample_ctl) = id"
  by (simp_all add: sample_ctl_def fun_eq_iff)

lemma sample_payload_ok: "payload_validate id (\<lambda>s. sample_hash) typed_payload = None"
  using typed_payload_valid by (simp add: plan_lib_def sample_hash_def)

lemma sample_body: "\<exists>v. body_json \<lparr>rb_schema_version = n, rb_session_name = s, rb_blender_executable = b, rb_session_broker_executable = e,
    rb_payload = typed_payload, rb_linux = l\<rparr> = Inr v"
  by (simp add: body_json_def payload_json_def scenario_json_def typed_payload_def sample_payload_def sample_scenario_def split: option.split)

lemma sample_task: "tg_platform sample_target = ''linux''" "lt_unit_name (tg_linux sample_target) = ''b.service''"
  by (simp_all add: sample_target_def sample_linux_def)

lemma sample_request: "\<exists>body. build_request sample_run_env 0 sample_intent = Inr \<lparr>rq_claim = run_claim, rq_body = body\<rparr>"
proof -
  have "\<exists>x. request_body_hash (\<lambda>s. sample_hash) \<lparr>rb_schema_version = n, rb_session_name = s, rb_blender_executable = b,
      rb_session_broker_executable = e, rb_payload = typed_payload, rb_linux = l\<rparr> = Inr sample_hash" for n s b e l
    using sample_body[of n s b e l] by (auto simp: request_body_hash_def)
  then show ?thesis
    using sample_ids sample_payload_ok
    by (simp add: build_request_def Let_def sample_target_ok sample_task run_id_validate_def run_claim_def)
qed

lemma sample_planned: "\<exists>pn. plan (cl_target sample_ctl) sample_target typed_payload = Inr pn \<and> pn_ui_actions pn = None
    \<and> pn_captures pn = [planned_of (the (describe Viewport))]"
  using sample_payload_ok describe_paths(2)
  by (simp add: plan_def sample_target_ok sample_task sample_sha Let_def)
    (auto simp: typed_payload_def sample_payload_def sample_scenario_def validate_linux_scenario_def captures_def)

lemma sample_inspected: "pn_captures pn = [planned_of (the (describe Viewport))] \<Longrightarrow> pn_ui_actions pn = None \<Longrightarrow> check_inspection pn sample_inspection = None"
  by (simp add: check_inspection_def sample_inspection_def inspection_supports_def ui_inspection_supports_def supported_capability_def
      planned_of_def describe_def capture_definitions_def)

section \<open>The disk\<close>

lemma sample_root_paths:
  "absolute_path \<lparr>pe_cwd = ''/'', pe_eval = f\<rparr> ''/e'' = ''/e''" "path_dir ''/e'' = ''/''" "path_base ''/e'' = ''e''" "parts ''/'' = []"
  by (simp_all add: absolute_path_def evaluate)

lemma prepared_disk:
  assumes "dk_now d = []"
  obtains t where "prepare_evidence_root quiet_disk \<lparr>pe_cwd = ''/'', pe_eval = (\<lambda>s p. Inr p)\<rparr> ''/e'' d = (Inr [''e''], t)"
    "dk_now t = [([''e''], EDir True)]"
proof
  let ?p = "prepare_evidence_root quiet_disk \<lparr>pe_cwd = ''/'', pe_eval = (\<lambda>s p. Inr p)\<rparr> ''/e'' d"
  have je: "join_component [] ''e'' = [''e'']" by (simp add: join_component_def)
  note run = prepare_evidence_root_def mkdir_all_shared_def sample_root_paths je sample_disk_simps
  have "fst ?p = Inr [''e'']" using assms by (simp add: run)
  then show "?p = (Inr [''e''], snd ?p)" by (simp add: prod_eq_iff)
  show "dk_now (snd ?p) = [([''e''], EDir True)]" using assms by (simp add: run)
qed

definition evidence_files_1 :: "string \<Rightarrow> (path \<times> entry) list" where
  "evidence_files_1 c = [([''e'', ''result''], EDir False), ([''e'', ''result'', ''scenario-result.json''], EFile True c True)]"

definition evidence_files_2 :: "string \<Rightarrow> string \<Rightarrow> (path \<times> entry) list" where
  "evidence_files_2 c c' = evidence_files_1 c
     @ [([''e'', ''screenshots''], EDir False), ([''e'', ''screenshots'', ''viewport.png''], EFile True c' True)]"

definition evidence_files_3 :: "string \<Rightarrow> string \<Rightarrow> string \<Rightarrow> (path \<times> entry) list" where
  "evidence_files_3 c c' m = evidence_files_2 c c' @ [([''e'', ''manifest.json''], EFile True m True)]"

lemma sample_evidence_paths:
  "path_dir ''result/scenario-result.json'' = ''result''" "path_base ''result/scenario-result.json'' = ''scenario-result.json''"
  "path_dir ''screenshots/viewport.png'' = ''screenshots''" "path_base ''screenshots/viewport.png'' = ''viewport.png''"
  "path_dir ''manifest.json'' = ''.''" "path_base ''manifest.json'' = ''manifest.json''"
  "path_dir ''evidence.json'' = ''.''" "path_base ''evidence.json'' = ''evidence.json''"
  "split_on CHR ''/'' ''result'' = [''result'']" "split_on CHR ''/'' ''screenshots'' = [''screenshots'']" "split_on CHR ''/'' ''.'' = [''.'']"
  by (simp_all add: evaluate)

lemma sample_evidence_joins:
  "join_component p ''result'' = p @ [''result'']" "join_component p ''screenshots'' = p @ [''screenshots'']"
  "join_component p ''scenario-result.json'' = p @ [''scenario-result.json'']" "join_component p ''viewport.png'' = p @ [''viewport.png'']"
  "join_component p ''manifest.json'' = p @ [''manifest.json'']" "join_component p ''evidence.json'' = p @ [''evidence.json'']"
  by (simp_all add: join_component_def)

lemmas sample_write_simps = write_evidence_def evidence_destination_def plain_directory_def mkdir_shared_def create_evidence_temp_def
  evidence_temp_prefix_def sample_evidence_paths sample_evidence_joins sample_disk_simps claim_files_def pinned_files_def
  evidence_files_1_def evidence_files_2_def evidence_files_3_def

lemma write_result:
  assumes "dk_now d = pinned_files"
  obtains t where "write_evidence quiet_disk [''e''] ''result/scenario-result.json'' c d = (Inr (), t)" "dk_now t = pinned_files @ evidence_files_1 c"
proof
  let ?w = "write_evidence quiet_disk [''e''] ''result/scenario-result.json'' c d"
  have "fst ?w = Inr ()" using assms by (simp add: sample_write_simps)
  then show "?w = (Inr (), snd ?w)" by (simp add: prod_eq_iff)
  show "dk_now (snd ?w) = pinned_files @ evidence_files_1 c" using assms by (simp add: sample_write_simps)
qed

lemma write_viewport:
  assumes "dk_now d = pinned_files @ evidence_files_1 c"
  obtains t where "write_evidence quiet_disk [''e''] ''screenshots/viewport.png'' c' d = (Inr (), t)" "dk_now t = pinned_files @ evidence_files_2 c c'"
proof
  let ?w = "write_evidence quiet_disk [''e''] ''screenshots/viewport.png'' c' d"
  have "fst ?w = Inr ()" using assms by (simp add: sample_write_simps)
  then show "?w = (Inr (), snd ?w)" by (simp add: prod_eq_iff)
  show "dk_now (snd ?w) = pinned_files @ evidence_files_2 c c'" using assms by (simp add: sample_write_simps)
qed

lemma write_manifest:
  assumes "dk_now d = pinned_files @ evidence_files_2 c c'"
  obtains t where "write_evidence quiet_disk [''e''] ''manifest.json'' m d = (Inr (), t)" "dk_now t = pinned_files @ evidence_files_3 c c' m"
proof
  let ?w = "write_evidence quiet_disk [''e''] ''manifest.json'' m d"
  have "fst ?w = Inr ()" using assms by (simp add: sample_write_simps)
  then show "?w = (Inr (), snd ?w)" by (simp add: prod_eq_iff)
  show "dk_now (snd ?w) = pinned_files @ evidence_files_3 c c' m" using assms by (simp add: sample_write_simps)
qed

lemma write_document:
  assumes "dk_now d = pinned_files @ evidence_files_3 c c' m"
  obtains t where "write_evidence quiet_disk [''e''] ''evidence.json'' x d = (Inr (), t)"
proof
  let ?w = "write_evidence quiet_disk [''e''] ''evidence.json'' x d"
  have "fst ?w = Inr ()" using assms by (simp add: sample_write_simps)
  then show "?w = (Inr (), snd ?w)" by (simp add: prod_eq_iff)
qed

section \<open>The steps of the Run\<close>

lemma sample_on_disk: "m (ct_disk s) = (r, d) \<Longrightarrow> on_disk sample_run_env m s = (r, s\<lparr>ct_disk := d\<rparr>)"
  by (simp add: on_disk_def)

lemma sample_call: "call sample_run_env c (ret x) s = (Inr x, s\<lparr>ct_calls := (c, ct_disk s) # ct_calls s\<rparr>)"
  by (simp add: call_def ret_def)

lemma sample_confirm:
  assumes "dk_now (ct_disk s) = pinned_files @ es" and "rr_claim receipt = run_claim" and "rr_session_id receipt = run_session"
  obtains d where "settlement_of sample_run_env sample_target receipt s = (Inr receipt, s\<lparr>ct_disk := d\<rparr>)" "dk_now d = pinned_files @ es"
    "confirm sample_run_env sample_target receipt s = (Inr (), s\<lparr>ct_disk := d\<rparr>)"
proof -
  obtain d where d: "journal_load sample_ctl quiet_disk ''/c'' sample_target sample_run (ct_disk s) = (Inr (sample_authority, run_session), d)"
    "dk_now d = pinned_files @ es" by (rule load_pinned_files[OF assms(1)])
  have "journal_settlement sample_ctl quiet_disk ''/c'' sample_target receipt (ct_disk s) = (Inr receipt, d)"
    using d(1) assms(2,3) by (simp add: journal_settlement_def run_simps then_do_def refuse_with_def sample_authority_ok(2))
      (simp add: sample_authority_def)
  then have "settlement_of sample_run_env sample_target receipt s = (Inr receipt, s\<lparr>ct_disk := d\<rparr>)" by (simp add: settlement_of_def on_disk_def)
  with d(2) that show thesis by (simp add: confirm_def run_simps)
qed

text \<open>A Run up to the start of its session.\<close>

definition started_calls :: "host_call \<Rightarrow> bool" where
  "started_calls c \<longleftrightarrow> call_session c = ''''"

lemma sample_prepared:
  obtains pn body s where "prepare_run sample_run_env sample_intent sample_start = (Inr (\<lparr>rq_claim = run_claim, rq_body = body\<rparr>, pn, [''e'']), s)"
    "dk_now (ct_disk s) = claim_files" "ct_calls s = []" "pn_ui_actions pn = None" "pn_captures pn = [planned_of (the (describe Viewport))]"
proof -
  obtain body where b: "build_request sample_run_env 0 sample_intent = Inr \<lparr>rq_claim = run_claim, rq_body = body\<rparr>" using sample_request by blast
  obtain pn where pn: "plan (cl_target sample_ctl) sample_target typed_payload = Inr pn" "pn_ui_actions pn = None"
    "pn_captures pn = [planned_of (the (describe Viewport))]" using sample_planned by blast
  have "dk_now (ct_disk sample_start) = []" by (simp add: sample_start_def empty_disk_def)
  then obtain d where d: "prepare_evidence_root quiet_disk \<lparr>pe_cwd = ''/'', pe_eval = (\<lambda>s p. Inr p)\<rparr> ''/e'' (ct_disk sample_start) = (Inr [''e''], d)"
    "dk_now d = [([''e''], EDir True)]" by (rule prepared_disk)
  from d(2) obtain e where e: "journal_record sample_ctl quiet_disk ''/c'' sample_target run_claim d = (Inr (), e)" "dk_now e = claim_files"
    by (rule record_bundle)
  have "prepare_run sample_run_env sample_intent sample_start
      = (Inr (\<lparr>rq_claim = run_claim, rq_body = body\<rparr>, pn, [''e'']), sample_start\<lparr>ct_disk := e\<rparr>)"
    using b pn(1) d(1) e(1) by (simp add: prepare_run_def failing_as_def then_do_def run_simps on_disk_def sample_start_def)
  from that[OF this _ _ pn(2,3)] e(2) show thesis by (simp add: sample_start_def)
qed

lemma sample_locked:
  assumes "dk_now (ct_disk s) = claim_files" and "ct_calls s = []" and "pn_ui_actions pn = None" and "pn_captures pn = [planned_of (the (describe Viewport))]"
  obtains d t where "then_do (inspect_host sample_run_env sample_intent pn) (then_do (set_receipt (first_receipt run_claim))
      (acquire_lock sample_run_env sample_intent run_claim)) s = (Inr (), t)"
    "dk_now (ct_disk t) = claim_files" "ct_receipt t = first_receipt run_claim" "ct_calls t = [(CallAcquire run_claim, d), (CallInspect (host_requirements_of pn), d)]"
proof
  let ?t = "s\<lparr>ct_receipt := first_receipt run_claim,
    ct_calls := [(CallAcquire run_claim, ct_disk s), (CallInspect (host_requirements_of pn), ct_disk s)]\<rparr>"
  show "then_do (inspect_host sample_run_env sample_intent pn) (then_do (set_receipt (first_receipt run_claim))
      (acquire_lock sample_run_env sample_intent run_claim)) s = (Inr (), ?t)"
    using assms by (simp add: inspect_host_def acquire_lock_def set_receipt_def then_do_def failing_as_def run_simps sample_call sample_inspected)
qed (use assms in simp_all)

lemma sample_complete_simps: "rr_claim sample_complete = run_claim" "rr_session_id sample_complete = run_session"
    "rr_state sample_complete = StateComplete" "rr_ui_actions sample_complete = None" "rr_evidence sample_complete = sample_evidence run_session"
    "rr_error sample_complete = []"
  by (simp_all add: sample_complete_def zero_receipt_def)

lemma sample_batch_none: "batch_of sample_intent = None"
  by (simp add: batch_of_def typed_payload_def sample_payload_def sample_scenario_def)

lemma sample_start_valid:
  "validate_receipt sample_complete run_claim '''' StateStaged = None" "validate_ui_batch_receipt sample_complete None = None"
  "rr_claim sample_complete \<noteq> zero_claim"
  using sample_ids(2)
  by (simp_all add: validate_receipt_def validate_ui_batch_receipt_def sample_complete_def zero_receipt_def known_state_def valid_transition_def terminal_def
      run_claim_def zero_claim_def)

lemma sample_started:
  assumes "dk_now (ct_disk s) = claim_files" and "ct_receipt s = first_receipt run_claim"
  obtains d t where "start_run sample_run_env sample_intent \<lparr>rq_claim = run_claim, rq_body = body\<rparr> s = (Inr (), t)"
    "dk_now (ct_disk t) = pinned_files" "ct_receipt t = sample_complete"
    "ct_calls t = [(CallStart \<lparr>rq_claim = run_claim, rq_body = body\<rparr>, d), (CallStage run_claim typed_payload, d)] @ ct_calls s"
proof -
  obtain d where d: "journal_load sample_ctl quiet_disk ''/c'' sample_target sample_run (ct_disk s) = (Inr (sample_authority, ''''), d)"
    "dk_now d = claim_files" by (rule load_claim_files[OF assms(1)])
  obtain e where e: "journal_accept sample_ctl quiet_disk ''/c'' sample_target sample_complete d = (Inr (), e)" "dk_now e = pinned_files"
    by (rule accept_claim_files[OF d(2) sample_complete_simps(1,2)])
  let ?q = "\<lparr>rq_claim = run_claim, rq_body = body\<rparr>"
  let ?t = "s\<lparr>ct_disk := e, ct_receipt := sample_complete,
    ct_calls := [(CallStart ?q, ct_disk s), (CallStage run_claim typed_payload, ct_disk s)] @ ct_calls s\<rparr>"
  have "run_session \<noteq> ''''" by (simp add: run_session_def)
  then have "start_run sample_run_env sample_intent ?q s = (Inr (), ?t)"
    using assms(2) d(1) e(1) sample_start_valid
    by (simp add: start_run_def then_do_def failing_as_def run_simps sample_call call_def on_disk_def ret_def accept_of_def set_receipt_def
        sample_complete_simps sample_batch_none wrap_err_def first_receipt_def)
  with e(2) show thesis by (intro that[of ?t "ct_disk s"]) simp_all
qed

text \<open>The collection of one file, for any way to write it.\<close>

lemma sample_collected:
  assumes "dk_now (ct_disk s) = pinned_files @ es" and "check_content sample_run_env sample_complete f (sample_content f) = None"
    and writes: "\<And>d. dk_now d = pinned_files @ es \<Longrightarrow>
      \<exists>t. write_evidence quiet_disk dir (ef_path f) (sample_content f) d = (Inr (), t) \<and> dk_now t = pinned_files @ es'"
  obtains d e where "collect_file sample_run_env sample_target sample_complete dir f s
      = (Inr (), s\<lparr>ct_disk := d, ct_calls := (CallFetch sample_complete f, e) # ct_calls s\<rparr>)" "dk_now d = pinned_files @ es'"
proof -
  note complete = sample_complete_simps(1,2)
  obtain d where d: "confirm sample_run_env sample_target sample_complete s = (Inr (), s\<lparr>ct_disk := d\<rparr>)" "dk_now d = pinned_files @ es"
    by (rule sample_confirm[OF assms(1) complete])
  let ?s = "s\<lparr>ct_disk := d, ct_calls := (CallFetch sample_complete f, d) # ct_calls s\<rparr>"
  have "dk_now (ct_disk ?s) = pinned_files @ es" using d(2) by simp
  then obtain e where e: "confirm sample_run_env sample_target sample_complete ?s = (Inr (), ?s\<lparr>ct_disk := e\<rparr>)" "dk_now e = pinned_files @ es"
    by (rule sample_confirm[OF _ complete])
  from writes[OF e(2)] obtain t where t: "write_evidence quiet_disk dir (ef_path f) (sample_content f) e = (Inr (), t)" "dk_now t = pinned_files @ es'"
    by blast
  have "collect_file sample_run_env sample_target sample_complete dir f s
      = (Inr (), s\<lparr>ct_disk := t, ct_calls := (CallFetch sample_complete f, d) # ct_calls s\<rparr>)"
    using d(1) e(1) t(1) assms(2)
    by (simp add: collect_file_def then_do_def failing_as_def run_simps sample_call on_disk_def)
  from this t(2) show thesis by (rule that)
qed

definition result_file :: evidence_file where "result_file = em_files (sample_evidence run_session) ! 0"
definition viewport_file :: evidence_file where "viewport_file = em_files (sample_evidence run_session) ! 1"

lemma sample_files:
  "em_files (sample_evidence run_session) = [result_file, viewport_file]"
  "ef_path result_file = ''result/scenario-result.json''" "ef_path viewport_file = ''screenshots/viewport.png''"
  by (simp_all add: result_file_def viewport_file_def sample_evidence_def scenario_result_path_def)

lemma sample_content_ok:
  "check_content sample_run_env sample_complete result_file (sample_content result_file) = None"
  "check_content sample_run_env sample_complete viewport_file (sample_content viewport_file) = None"
  by (simp_all add: check_content_def sample_content_def result_file_def viewport_file_def sample_evidence_def sample_hash_def check_png_def
      sample_ctl_def capture_kind_for_evidence_type_def describe_def capture_definitions_def capture_kind_defs evidence_type_defs)

lemma sample_manifest_ok: "check_manifest sample_run_env typed_payload sample_complete = None"
proof -
  have "run_session = sample_session" by (simp add: run_session_def sample_session_def)
  moreover have "pl_schema_version typed_payload = 2" "em_schema_version (sample_evidence run_session) = 2"
    by (simp_all add: typed_payload_def sample_evidence_def)
  ultimately show ?thesis using typed_evidence_valid by (simp add: check_manifest_def Let_def sample_complete_simps)
qed

lemma sample_evidence_collected:
  assumes "dk_now (ct_disk s) = pinned_files"
  obtains d e e' where "collect_evidence sample_run_env sample_intent sample_complete [''e''] s
      = (Inr (), s\<lparr>ct_disk := d, ct_calls := [(CallFetch sample_complete viewport_file, e'), (CallFetch sample_complete result_file, e)] @ ct_calls s\<rparr>)"
    "dk_now d = pinned_files @ evidence_files_2 (sample_content result_file) (sample_content viewport_file)"
proof -
  let ?c = "sample_content result_file" and ?c' = "sample_content viewport_file"
  have first: "\<exists>t. write_evidence quiet_disk [''e''] (ef_path result_file) ?c d = (Inr (), t) \<and> dk_now t = pinned_files @ evidence_files_1 ?c"
    if "dk_now d = pinned_files @ []" for d
    using write_result[of d ?c] that unfolding sample_files by (metis append_Nil2)
  have second: "\<exists>t. write_evidence quiet_disk [''e''] (ef_path viewport_file) ?c' d = (Inr (), t) \<and> dk_now t = pinned_files @ evidence_files_2 ?c ?c'"
    if "dk_now d = pinned_files @ evidence_files_1 ?c" for d
    using write_viewport[OF that, of ?c'] unfolding sample_files by metis
  have "dk_now (ct_disk s) = pinned_files @ []" using assms by simp
  then obtain d e where d: "collect_file sample_run_env sample_target sample_complete [''e''] result_file s
      = (Inr (), s\<lparr>ct_disk := d, ct_calls := (CallFetch sample_complete result_file, e) # ct_calls s\<rparr>)" "dk_now d = pinned_files @ evidence_files_1 ?c"
    by (rule sample_collected[OF _ sample_content_ok(1) first])
  let ?s = "s\<lparr>ct_disk := d, ct_calls := (CallFetch sample_complete result_file, e) # ct_calls s\<rparr>"
  have "dk_now (ct_disk ?s) = pinned_files @ evidence_files_1 ?c" using d(2) by simp
  then obtain d' e' where d': "collect_file sample_run_env sample_target sample_complete [''e''] viewport_file ?s
      = (Inr (), ?s\<lparr>ct_disk := d', ct_calls := (CallFetch sample_complete viewport_file, e') # ct_calls ?s\<rparr>)"
      "dk_now d' = pinned_files @ evidence_files_2 ?c ?c'"
    by (rule sample_collected[OF _ sample_content_ok(2) second])
  have "collect_evidence sample_run_env sample_intent sample_complete [''e''] s
      = (Inr (), s\<lparr>ct_disk := d', ct_calls := [(CallFetch sample_complete viewport_file, e'), (CallFetch sample_complete result_file, e)] @ ct_calls s\<rparr>)"
    using d(1) d'(1) sample_manifest_ok
    by (simp add: collect_evidence_def then_do_def run_simps sample_complete_simps sample_files)
  from this d'(2) show thesis by (rule that)
qed

lemma sample_settled:
  assumes "dk_now (ct_disk s) = pinned_files @ es"
  obtains d e where "settle_known sample_run_env sample_target sample_complete s
      = (Inr known_cleanup, s\<lparr>ct_disk := d, ct_calls := (CallSettle sample_complete, e) # ct_calls s\<rparr>)" "dk_now d = pinned_files @ es"
proof -
  note complete = sample_complete_simps(1,2)
  obtain d where d: "settlement_of sample_run_env sample_target sample_complete s = (Inr sample_complete, s\<lparr>ct_disk := d\<rparr>)" "dk_now d = pinned_files @ es"
    by (rule sample_confirm[OF assms complete])
  let ?s = "s\<lparr>ct_disk := d, ct_calls := (CallSettle sample_complete, d) # ct_calls s\<rparr>"
  have "dk_now (ct_disk ?s) = pinned_files @ es" using d(2) by simp
  then obtain e where e: "settlement_of sample_run_env sample_target sample_complete ?s = (Inr sample_complete, ?s\<lparr>ct_disk := e\<rparr>)" "dk_now e = pinned_files @ es"
    by (rule sample_confirm[OF _ complete])
  have "settle_known sample_run_env sample_target sample_complete s
      = (Inr known_cleanup, s\<lparr>ct_disk := e, ct_calls := (CallSettle sample_complete, d) # ct_calls s\<rparr>)"
    using d(1) e(1) by (simp add: settle_known_def settle_run_def then_do_def failing_as_def run_simps sample_call err_of_def
        known_cleanup_def cleanup_known_def)
  from this e(2) show thesis by (rule that)
qed

lemma sample_metadata_published:
  assumes "dk_now (ct_disk s) = pinned_files @ evidence_files_2 c c'" and "rs_deadline r = 10"
  obtains d where "on_disk sample_run_env (publish_bundle_metadata sample_ctl quiet_disk [''e''] r) s = (Inr (), s\<lparr>ct_disk := d\<rparr>)"
proof -
  obtain v where v: "run_result_json sample_ctl r = Inr v"
    using assms(2) by (simp add: run_result_json_def sample_ctl_simps)
  obtain d where d: "write_evidence quiet_disk [''e''] ''manifest.json'' (render_indent 0 (evidence_manifest_json (rs_evidence r)) @ [CHR 0x0A]) (ct_disk s) = (Inr (), d)"
    "dk_now d = pinned_files @ evidence_files_3 c c' (render_indent 0 (evidence_manifest_json (rs_evidence r)) @ [CHR 0x0A])"
    by (rule write_manifest[OF assms(1)])
  obtain e where "write_evidence quiet_disk [''e''] ''evidence.json'' (render_indent 0 v @ [CHR 0x0A]) d = (Inr (), e)"
    by (rule write_document[OF d(2)])
  with d(1) v have "publish_bundle_metadata sample_ctl quiet_disk [''e''] r (ct_disk s) = (Inr (), e)"
    by (simp add: publish_bundle_metadata_def then_do_def run_simps del: render_indent.simps)
  then show thesis by (intro that) (simp add: on_disk_def)
qed

definition sample_result :: run_result where
  "sample_result = \<lparr>rs_ui_journal_recovered = False, rs_ui_actions = None, rs_schema_version = 1,
     rs_run_id = sample_run, rs_request_id = ''req_aaaaaaaaaaaaaaaa'', rs_request_hash = lc_request_hash run_claim,
     rs_deadline = lc_deadline run_claim, rs_session_id = run_session, rs_state = StateComplete,
     rs_evidence = sample_evidence run_session, rs_cleanup = known_cleanup, rs_error = ''''\<rparr>"

lemma sample_finished:
  assumes "dk_now (ct_disk s) = pinned_files" and "ct_receipt s = sample_complete"
  obtains t d e e' where "finish_run sample_run_env sample_intent \<lparr>rq_claim = run_claim, rq_body = body\<rparr> [''e''] s = (Inr sample_result, t)"
    "ct_calls t = [(CallSettle sample_complete, d), (CallFetch sample_complete viewport_file, e'), (CallFetch sample_complete result_file, e)] @ ct_calls s"
proof -
  obtain d e e' where d: "collect_evidence sample_run_env sample_intent sample_complete [''e''] s
      = (Inr (), s\<lparr>ct_disk := d, ct_calls := [(CallFetch sample_complete viewport_file, e'), (CallFetch sample_complete result_file, e)] @ ct_calls s\<rparr>)"
    "dk_now d = pinned_files @ evidence_files_2 (sample_content result_file) (sample_content viewport_file)"
    by (rule sample_evidence_collected[OF assms(1)])
  let ?es = "evidence_files_2 (sample_content result_file) (sample_content viewport_file)"
  let ?s = "s\<lparr>ct_disk := d, ct_calls := [(CallFetch sample_complete viewport_file, e'), (CallFetch sample_complete result_file, e)] @ ct_calls s\<rparr>"
  have "dk_now (ct_disk ?s) = pinned_files @ ?es" using d(2) by simp
  then obtain g x where g: "settle_known sample_run_env sample_target sample_complete ?s
      = (Inr known_cleanup, ?s\<lparr>ct_disk := g, ct_calls := (CallSettle sample_complete, x) # ct_calls ?s\<rparr>)" "dk_now g = pinned_files @ ?es"
    by (rule sample_settled)
  let ?t = "?s\<lparr>ct_disk := g, ct_calls := (CallSettle sample_complete, x) # ct_calls ?s\<rparr>"
  have "dk_now (ct_disk ?t) = pinned_files @ ?es" using g(2) by simp
  then obtain h where h: "confirm sample_run_env sample_target sample_complete ?t = (Inr (), ?t\<lparr>ct_disk := h\<rparr>)" "dk_now h = pinned_files @ ?es"
    by (rule sample_confirm[OF _ sample_complete_simps(1,2)])
  have "dk_now (ct_disk (?t\<lparr>ct_disk := h\<rparr>)) = pinned_files @ ?es" using h(2) by simp
  moreover have "rs_deadline sample_result = 10" by (simp add: sample_result_def run_claim_def)
  ultimately obtain k where k: "on_disk sample_run_env (publish_bundle_metadata sample_ctl quiet_disk [''e''] sample_result) (?t\<lparr>ct_disk := h\<rparr>)
      = (Inr (), ?t\<lparr>ct_disk := k\<rparr>)"
    by (rule sample_metadata_published) simp
  have "finish_run sample_run_env sample_intent \<lparr>rq_claim = run_claim, rq_body = body\<rparr> [''e''] s = (Inr sample_result, ?t\<lparr>ct_disk := k\<rparr>)"
    using assms(2) d(1) g(1) h(1) k
    by (simp add: finish_run_def then_do_def failing_as_def run_simps sample_complete_simps Let_def sample_result_def)
  from this show thesis by (rule that) simp
qed

section \<open>The whole Run\<close>

lemma sample_run_result:
  obtains s d e e' cs where "Run sample_run_env sample_intent sample_start = (Inr (sample_result, None), s)"
    "ct_calls s = [(CallSettle sample_complete, d), (CallFetch sample_complete viewport_file, e'), (CallFetch sample_complete result_file, e)] @ cs"
proof -
  obtain pn body a where a: "prepare_run sample_run_env sample_intent sample_start = (Inr (\<lparr>rq_claim = run_claim, rq_body = body\<rparr>, pn, [''e'']), a)"
    "dk_now (ct_disk a) = claim_files" "ct_calls a = []" "pn_ui_actions pn = None" "pn_captures pn = [planned_of (the (describe Viewport))]"
    by (rule sample_prepared)
  obtain x b where b: "then_do (inspect_host sample_run_env sample_intent pn) (then_do (set_receipt (first_receipt run_claim))
      (acquire_lock sample_run_env sample_intent run_claim)) a = (Inr (), b)"
    "dk_now (ct_disk b) = claim_files" "ct_receipt b = first_receipt run_claim"
    by (rule sample_locked[OF a(2-5)])
  obtain y c where c: "start_run sample_run_env sample_intent \<lparr>rq_claim = run_claim, rq_body = body\<rparr> b = (Inr (), c)"
    "dk_now (ct_disk c) = pinned_files" "ct_receipt c = sample_complete"
    by (rule sample_started[OF b(2,3)])
  have poll: "poll sample_run_env sample_intent run_claim run_session c = (Inr (), c)"
    by (subst poll.simps) (simp add: c(3) sample_complete_simps terminal_def)
  obtain t d e e' where f: "finish_run sample_run_env sample_intent \<lparr>rq_claim = run_claim, rq_body = body\<rparr> [''e''] c = (Inr sample_result, t)"
    "ct_calls t = [(CallSettle sample_complete, d), (CallFetch sample_complete viewport_file, e'), (CallFetch sample_complete result_file, e)] @ ct_calls c"
    by (rule sample_finished[OF c(2,3)])
  have "run_locked sample_run_env sample_intent \<lparr>rq_claim = run_claim, rq_body = body\<rparr> [''e''] b = (Inr sample_result, t)"
    using c(1,3) poll f(1) by (simp add: run_locked_def then_do_def run_simps sample_complete_simps)
  with a(1) b(1) have "Run sample_run_env sample_intent sample_start = (Inr (sample_result, None), t)"
    by (simp add: Run_def run_simps)
  from this f(2) show thesis by (rule that)
qed

lemma sample_disk_alone: "alone quiet_disk"
  by (simp add: alone_def quiet_disk_def)

lemma sample_root_of: "evidence_root_of \<lparr>pe_cwd = ''/'', pe_eval = (\<lambda>s. Inr)\<rparr> ''/e'' dir \<longleftrightarrow> dir = [''e'']"
  by (auto simp: evidence_root_of_def sample_root_paths join_component_def)

lemma sample_reliable:
  assumes "build_request sample_run_env (ct_now sample_start) sample_intent = Inr request"
  shows "reliable sample_run_env sample_intent (rq_claim request)"
proof -
  have claim: "rq_claim request = run_claim" using assms sample_request by (auto simp: sample_start_def)
  have "authority_of sample_ctl sample_target run_claim = sample_authority"
    by (simp add: authority_of_def sample_authority_def sample_fingerprint_ctl)
  moreover have "apart_from_journal sample_run_env [''e'']" by (simp add: apart_from_journal_def evaluate)
  ultimately show ?thesis
    by (simp add: reliable_def claim run_peaceful alone_spares[OF sample_disk_alone] sample_ctl_simps sample_values(1) sample_hash_facts(1)
        reads_back_def sample_root_of)
qed

lemma sample_start_flushed: "flushed_in K (ct_disk sample_start)"
  by (simp add: flushed_in_def sample_start_def entry_at_def empty_disk_def raw_def)

section \<open>Witnesses\<close>

theorem run_under_authority_witness:
  "\<exists>s d. (CallSettle sample_complete, d) \<in> set (ct_calls s) \<and> Run sample_run_env sample_intent sample_start = (Inr (sample_result, None), s)
    \<and> (\<exists>a. authorized sample_ctl ''/c'' d run_claim a \<and> bears sample_ctl ''/c'' d run_claim (CallSettle sample_complete))"
proof -
  obtain s d e e' cs where s: "Run sample_run_env sample_intent sample_start = (Inr (sample_result, None), s)"
    "ct_calls s = [(CallSettle sample_complete, d), (CallFetch sample_complete viewport_file, e'), (CallFetch sample_complete result_file, e)] @ cs"
    by (rule sample_run_result)
  have calls: "ct_calls s = ct_calls s @ ct_calls sample_start" by (simp add: sample_start_def)
  have settle: "(CallSettle sample_complete, d) \<in> set (ct_calls s)" by (simp add: s(2))
  obtain request a where "build_request sample_run_env (ct_now sample_start) sample_intent = Inr request"
    "authorized sample_ctl ''/c'' d (rq_claim request) a" "bears sample_ctl ''/c'' d (rq_claim request) (CallSettle sample_complete)"
    using run_under_authority[OF sample_reliable sample_start_flushed s(1) calls settle] by auto
  moreover from this(1) have "rq_claim request = run_claim" using sample_request by (auto simp: sample_start_def)
  ultimately show ?thesis using s(1) settle by auto
qed

theorem run_names_one_session_witness:
  "\<exists>s d e. {(CallSettle sample_complete, d), (CallFetch sample_complete result_file, e)} \<subseteq> set (ct_calls s)
    \<and> Run sample_run_env sample_intent sample_start = (Inr (sample_result, None), s)
    \<and> call_session (CallSettle sample_complete) = call_session (CallFetch sample_complete result_file)
    \<and> call_session (CallSettle sample_complete) \<noteq> []"
proof -
  obtain s d e e' cs where s: "Run sample_run_env sample_intent sample_start = (Inr (sample_result, None), s)"
    "ct_calls s = [(CallSettle sample_complete, d), (CallFetch sample_complete viewport_file, e'), (CallFetch sample_complete result_file, e)] @ cs"
    by (rule sample_run_result)
  have calls: "ct_calls s = ct_calls s @ ct_calls sample_start" by (simp add: sample_start_def)
  have members: "(CallSettle sample_complete, d) \<in> set (ct_calls s)" "(CallFetch sample_complete result_file, e) \<in> set (ct_calls s)"
    by (simp_all add: s(2))
  have sessions: "call_session (CallSettle sample_complete) \<noteq> []" "call_session (CallFetch sample_complete result_file) \<noteq> []"
    by (simp_all add: sample_complete_simps run_session_def)
  from run_names_one_session[OF sample_reliable sample_start_flushed s(1) calls members(2) sessions(2) members(1) sessions(1)]
  show ?thesis using s(1) members sessions(1) by blast
qed

theorem successful_run_stores_evidence_witness:
  "\<exists>s. Run sample_run_env sample_intent sample_start = (Inr (sample_result, None), s)
    \<and> run_succeeded sample_run_env sample_intent [''e''] sample_result s \<and> em_files (rs_evidence sample_result) = [result_file, viewport_file]"
proof -
  obtain s where s: "Run sample_run_env sample_intent sample_start = (Inr (sample_result, None), s)"
    using sample_run_result by blast
  have files: "em_files (rs_evidence sample_result) = [result_file, viewport_file]" by (simp add: sample_result_def sample_files)
  have "list_all plainly_named (em_files (rs_evidence sample_result))"
    by (simp add: files plainly_named_def sample_files evidence_temp_prefix_def evaluate)
  from successful_run_stores_evidence[OF s this] show ?thesis
    using s files by (auto simp: alone_spares[OF sample_disk_alone] sample_root_of)
qed

end
