(* ===== verification/PairKeys.thy ===== *)
theory PairKeys
  imports SshKeyGuarantees
begin

text \<open>
  \<open>internal/pairing/keys.go\<close>: the edits of an \<open>authorized_keys\<close> file. The code works on byte offsets;
  \<open>key_lines\<close> is what a file means, the list of its lines, and the edits are shown to refine the
  operations on that list while they leave every other byte alone.
\<close>

section \<open>Lines of a keys file\<close>

abbreviation newline :: char where "newline \<equiv> CHR 0x0A"
abbreviation return :: char where "return \<equiv> CHR 0x0D"

record physical_line =
  ky_start :: nat
  ky_end :: nat
  ky_next :: nat

text \<open>\<open>bytes.IndexByte\<close>.\<close>

definition index_byte :: "string \<Rightarrow> char \<Rightarrow> nat option" where
  "index_byte s b = (if b \<in> set s then Some (length (takeWhile (\<lambda>c. c \<noteq> b) s)) else None)"

function physical_from :: "string \<Rightarrow> nat \<Rightarrow> physical_line list" where
  "physical_from contents start =
    (if length contents \<le> start then []
     else case index_byte (drop start contents) newline of
         None \<Rightarrow> [\<lparr>ky_start = start, ky_end = length contents, ky_next = length contents\<rparr>]
       | Some n \<Rightarrow> \<lparr>ky_start = start, ky_end = start + n, ky_next = start + n + 1\<rparr> # physical_from contents (start + n + 1))"
  by pat_completeness auto

termination by (relation "measure (\<lambda>(contents, start). length contents - start)") auto

declare physical_from.simps [simp del]

definition physical_lines :: "string \<Rightarrow> physical_line list" where
  "physical_lines contents = physical_from contents 0"

text \<open>\<open>strings.TrimSuffix(s, "\r")\<close>.\<close>

definition trim_return :: "string \<Rightarrow> string" where
  "trim_return s = (if s \<noteq> [] \<and> last s = return then butlast s else s)"

definition line_text :: "string \<Rightarrow> physical_line \<Rightarrow> string" where
  "line_text contents p = trim_return (take (ky_end p - ky_start p) (drop (ky_start p) contents))"

definition id_pattern :: "string \<Rightarrow> bool" where
  "id_pattern s = led_run is_alnum (\<lambda>c. is_alnum c \<or> c = CHR ''_'' \<or> c = CHR ''-'') 127 s"

definition line_marker_prefix :: string where "line_marker_prefix = ''blender-box-pair:''"

definition grant_line :: "string \<Rightarrow> string \<Rightarrow> err + string" where
  "grant_line public_key pair_id =
    bind_res (canonical_public_key public_key) (\<lambda>_.
      guard_res (check (\<not> id_pattern pair_id) ''invalid pair id'')
        (Inr (''restrict '' @ public_key @ '' '' @ line_marker_prefix @ pair_id)))"

definition scan_line :: "string \<Rightarrow> string \<Rightarrow> string \<Rightarrow> nat \<times> bool \<times> bool \<Rightarrow> string \<Rightarrow> nat \<times> bool \<times> bool" where
  "scan_line line public_key pair_id acc text =
    (case acc of (exact, foreign_key, foreign_marker) \<Rightarrow>
      if text = line then (Suc exact, foreign_key, foreign_marker)
      else
        let fs = GoStrings.fields text in
        if fs = [] \<or> has_prefix (hd fs) ''#'' then acc
        else
          let joined = '' '' @ join_with CHR '' '' fs @ '' '' in
          (exact, foreign_key \<or> contains joined ('' '' @ public_key @ '' ''),
           foreign_marker \<or> contains joined ('' '' @ line_marker_prefix @ pair_id @ '' '')))"

definition scan_keys :: "string \<Rightarrow> string \<Rightarrow> string \<Rightarrow> string \<Rightarrow> nat \<times> bool \<times> bool" where
  "scan_keys contents line public_key pair_id =
    foldl (scan_line line public_key pair_id) (0, False, False) (map (line_text contents) (physical_lines contents))"

definition line_end :: "string \<Rightarrow> string" where
  "line_end contents = (if contains contents [return, newline] then [return, newline] else [newline])"

definition append_line :: "string \<Rightarrow> string \<Rightarrow> string" where
  "append_line contents line =
    (if contents \<noteq> [] \<and> last contents \<noteq> newline then contents @ line_end contents else contents)
      @ line @ line_end contents"

definition remove_line :: "string \<Rightarrow> string \<Rightarrow> err + string" where
  "remove_line contents line =
    (case filter (\<lambda>p. line_text contents p = line) (physical_lines contents) of
       [p] \<Rightarrow> Inr (take (ky_start p) contents @ drop (ky_next p) contents)
     | _ \<Rightarrow> Inl (Msg ''expected exactly one pairing line''))"

section \<open>The meaning of a keys file\<close>

definition key_lines :: "string \<Rightarrow> string list" where
  "key_lines contents = map (line_text contents) (physical_lines contents)"

text \<open>A file is the concatenation of its lines with their terminators.\<close>

fun chunks :: "string \<Rightarrow> string list" where
  "chunks [] = []"
| "chunks (x # xs) =
    (if x = newline then [x] # chunks xs else case chunks xs of [] \<Rightarrow> [[x]] | y # ys \<Rightarrow> (x # y) # ys)"

fun chunked :: "string list \<Rightarrow> bool" where
  "chunked [] = True"
| "chunked [k] = (k \<noteq> [] \<and> newline \<notin> set (butlast k))"
| "chunked (k # k' # ks) = (k \<noteq> [] \<and> newline \<notin> set (butlast k) \<and> last k = newline \<and> chunked (k' # ks))"

definition chunk_text :: "string \<Rightarrow> string" where
  "chunk_text k = trim_return (if k \<noteq> [] \<and> last k = newline then butlast k else k)"

lemma concat_chunks [simp]: "concat (chunks c) = c"
  by (induction c) (auto split: list.split)

lemma chunks_Nil [simp]: "chunks c = [] \<longleftrightarrow> c = []"
  by (cases c) (auto split: list.split)

lemma chunked_ConsD: "chunked (k # ks) \<Longrightarrow> k \<noteq> [] \<and> newline \<notin> set (butlast k) \<and> (ks \<noteq> [] \<longrightarrow> last k = newline) \<and> chunked ks"
  by (cases ks) auto

lemma chunked_Cons: "chunked (k # ks) \<longleftrightarrow> k \<noteq> [] \<and> newline \<notin> set (butlast k) \<and> (ks \<noteq> [] \<longrightarrow> last k = newline) \<and> chunked ks"
  by (cases ks) auto

lemma chunked_chunks: "chunked (chunks c)"
proof (induction c)
  case (Cons x xs)
  then show ?case by (cases "chunks xs") (auto simp: chunked_Cons)
qed simp

lemma chunks_line: "newline \<notin> set b \<Longrightarrow> chunks (b @ newline # c) = (b @ [newline]) # chunks c"
  by (induction b) auto

lemma chunks_last: "newline \<notin> set b \<Longrightarrow> b \<noteq> [] \<Longrightarrow> chunks b = [b]"
proof (induction b)
  case (Cons x xs)
  then show ?case by (cases "xs = []") auto
qed simp

lemma chunks_concat: "chunked ks \<Longrightarrow> chunks (concat ks) = ks"
proof (induction ks)
  case (Cons k ks)
  from chunked_ConsD[OF Cons.prems] have k: "k \<noteq> []" "newline \<notin> set (butlast k)" "ks \<noteq> [] \<Longrightarrow> last k = newline" "chunked ks" by auto
  show ?case
  proof (cases "last k = newline")
    case True
    with k(1) have "k = butlast k @ [newline]" by (metis append_butlast_last_id)
    with k Cons.IH show ?thesis using chunks_line[OF k(2), of "concat ks"] by (metis append.assoc append_Cons append_Nil concat.simps(2))
  next
    case False
    with k have "ks = []" by blast
    moreover have "newline \<notin> set k" using k(1,2) False by (metis append_butlast_last_id in_set_conv_decomp set_append UnE empty_iff empty_set list.set(1) set_ConsD)
    ultimately show ?thesis using k(1) chunks_last by simp
  qed
qed simp

lemma chunked_append: "chunked (ks @ ms) \<longleftrightarrow> chunked ks \<and> chunked ms \<and> (ks \<noteq> [] \<longrightarrow> ms \<noteq> [] \<longrightarrow> last (last ks) = newline)"
  by (induction ks) (auto simp: chunked_Cons)

text \<open>The offsets of the code are those of the chunks.\<close>

fun offsets :: "nat \<Rightarrow> string list \<Rightarrow> physical_line list" where
  "offsets n [] = []"
| "offsets n (k # ks) =
    \<lparr>ky_start = n, ky_end = n + length (if last k = newline then butlast k else k), ky_next = n + length k\<rparr> # offsets (n + length k) ks"

lemma index_byte_append: "b \<notin> set u \<Longrightarrow> index_byte (u @ b # v) b = Some (length u)"
  by (induction u) (auto simp: index_byte_def)

lemma drop_chunk:
  assumes "n \<le> length c" and "drop n c = k @ r"
  shows "drop (n + length k) c = r" "n + length k \<le> length c"
proof -
  have "drop (length k) (drop n c) = r" using assms(2) by simp
  then show "drop (n + length k) c = r" by (simp add: add.commute)
  show "n + length k \<le> length c" using assms(1) arg_cong[OF assms(2), of length] by simp
qed

lemma physical_offsets: "n \<le> length c \<Longrightarrow> chunked ks \<Longrightarrow> drop n c = concat ks \<Longrightarrow> physical_from c n = offsets n ks"
proof (induction ks arbitrary: n)
  case Nil
  then show ?case by (simp add: physical_from.simps)
next
  case (Cons k ks)
  from chunked_ConsD[OF Cons.prems(2)] have k: "k \<noteq> []" "newline \<notin> set (butlast k)" "ks \<noteq> [] \<Longrightarrow> last k = newline" "chunked ks" by auto
  have d: "drop n c = k @ concat ks" using Cons.prems(3) by simp
  note after = drop_chunk[OF Cons.prems(1) d]
  have n: "n < length c" using after(2) k(1) by (cases k) auto
  show ?case
  proof (cases "last k = newline")
    case True
    with k(1) obtain b where b: "k = b @ [newline]" by (metis append_butlast_last_id)
    with k(2) have "newline \<notin> set b" by simp
    from index_byte_append[OF this, of "concat ks"] have "index_byte (drop n c) newline = Some (length b)" by (simp add: d b)
    with Cons.IH[OF after(2) k(4) after(1)] n show ?thesis by (subst physical_from.simps) (simp add: b)
  next
    case False
    with k(3) have ks: "ks = []" by blast
    have "newline \<notin> set k" using k(1,2) False by (cases k rule: rev_cases) auto
    then have "index_byte (drop n c) newline = None" using d ks by (simp add: index_byte_def)
    moreover have "length c = n + length k" using after Cons.prems(1) ks by simp
    ultimately show ?thesis using n ks False by (subst physical_from.simps) simp
  qed
qed

lemma physical_lines_offsets: "physical_lines c = offsets 0 (chunks c)"
  unfolding physical_lines_def by (rule physical_offsets) (simp_all add: chunked_chunks)

lemma line_text_chunk:
  assumes "drop n c = k @ r" and "k \<noteq> []"
  shows "last k = newline \<Longrightarrow> line_text c \<lparr>ky_start = n, ky_end = n + (length k - Suc 0), ky_next = m\<rparr> = chunk_text k"
    "last k \<noteq> newline \<Longrightarrow> line_text c \<lparr>ky_start = n, ky_end = n + length k, ky_next = m\<rparr> = chunk_text k"
  using assms by (cases k rule: rev_cases; auto simp: line_text_def chunk_text_def)+

lemma line_text_offsets:
  "n \<le> length c \<Longrightarrow> [] \<notin> set ks \<Longrightarrow> drop n c = concat ks \<Longrightarrow> map (line_text c) (offsets n ks) = map chunk_text ks"
proof (induction ks arbitrary: n)
  case (Cons k ks)
  have d: "drop n c = k @ concat ks" using Cons.prems(3) by simp
  note after = drop_chunk[OF Cons.prems(1) d]
  from Cons.IH[OF after(2) _ after(1)] Cons.prems(2) line_text_chunk[OF d] show ?case by auto
qed simp

lemma chunked_not_Nil: "chunked ks \<Longrightarrow> [] \<notin> set ks"
  by (induction ks) (auto simp: chunked_Cons)

lemma key_lines_chunks: "key_lines c = map chunk_text (chunks c)"
  unfolding key_lines_def physical_lines_offsets
  by (rule line_text_offsets) (simp_all add: chunked_not_Nil chunked_chunks)

section \<open>The edits\<close>

definition clean_line :: "string \<Rightarrow> bool" where
  "clean_line l \<longleftrightarrow> newline \<notin> set l \<and> return \<notin> set l"

lemma chunk_text_line: "newline \<notin> set b \<Longrightarrow> chunk_text (b @ [newline]) = trim_return b"
  by (simp add: chunk_text_def)

lemma trim_clean: "clean_line l \<Longrightarrow> trim_return l = l" "trim_return (l @ [return]) = l"
proof -
  show "trim_return (l @ [return]) = l" by (simp add: trim_return_def)
  show "trim_return l = l" if "clean_line l"
  proof -
    have "l = [] \<or> last l \<noteq> return" using that by (metis clean_line_def last_in_set)
    then show ?thesis by (auto simp: trim_return_def)
  qed
qed

lemma line_end_cases: "line_end c = [newline] \<or> line_end c = [return, newline]"
  by (simp add: line_end_def)

lemma chunk_line_end: "clean_line l \<Longrightarrow> chunk_text (l @ line_end c) = l" "chunked [l @ line_end c] \<longleftrightarrow> newline \<notin> set l"
  using line_end_cases[of c] trim_clean[of l] by (auto simp: chunk_text_def butlast_append)

text \<open>A file that ends with a newline grows by one chunk.\<close>

lemma chunks_append_line:
  assumes "c = [] \<or> last c = newline" and "newline \<notin> set l"
  shows "chunks (c @ l @ line_end d) = chunks c @ [l @ line_end d]"
proof -
  have "last (last (chunks c)) = newline" if "chunks c \<noteq> []"
  proof -
    from that have "last c = last (last (chunks c))"
      using concat_chunks[of c] chunked_not_Nil[OF chunked_chunks[of c]] by (metis append_butlast_last_id concat.simps concat_append last_appendR append_Nil2 last_in_set)
    with assms(1) that show ?thesis by auto
  qed
  then have "chunked (chunks c @ [l @ line_end d])"
    using chunked_chunks[of c] chunk_line_end(2)[of l d] assms(2) by (simp add: chunked_append)
  from chunks_concat[OF this] show ?thesis by simp
qed

text \<open>Terminating the last line changes only that chunk.\<close>

lemma chunks_terminate:
  assumes "c \<noteq> []" and "last c \<noteq> newline"
  obtains ks k where "chunks c = ks @ [k]" "newline \<notin> set k" "chunks (c @ line_end d) = ks @ [k @ line_end d]" "k \<noteq> []" "last k = last c"
proof -
  from assms(1) obtain ks k where ks: "chunks c = ks @ [k]" by (metis append_butlast_last_id chunks_Nil)
  with chunked_chunks[of c] have ok: "chunked ks" "k \<noteq> []" "newline \<notin> set (butlast k)" "ks \<noteq> [] \<Longrightarrow> last (last ks) = newline"
    by (auto simp: chunked_append)
  have c: "c = concat ks @ k" using concat_chunks[of c] ks by simp
  with assms(2) ok(2) have lst: "last k = last c" "last k \<noteq> newline" by auto
  with ok(2,3) have k: "newline \<notin> set k" by (cases k rule: rev_cases) auto
  then have "chunked (ks @ [k @ line_end d])" using ok chunk_line_end(2)[of k d] by (simp add: chunked_append)
  from chunks_concat[OF this] c have "chunks (c @ line_end d) = ks @ [k @ line_end d]" by simp
  with ks k ok(2) lst(1) that show thesis by blast
qed

lemma chunk_text_unterminated: "newline \<notin> set k \<Longrightarrow> chunk_text k = trim_return k"
  by (cases k rule: rev_cases) (auto simp: chunk_text_def)

text \<open>\<open>remove_line\<close> cuts out the one chunk.\<close>

lemma filter_offsets:
  assumes "n \<le> length c" and "[] \<notin> set (as @ k # bs)" and "drop n c = concat (as @ k # bs)"
    and "chunk_text k = l" and "l \<notin> chunk_text ` set (as @ bs)"
  shows "\<exists>p. filter (\<lambda>p. line_text c p = l) (offsets n (as @ k # bs)) = [p]
    \<and> take (ky_start p) c = take n c @ concat as \<and> drop (ky_next p) c = concat bs"
  using assms
proof (induction as arbitrary: n)
  case Nil
  have d: "drop n c = k @ concat bs" using Nil.prems(3) by simp
  note after = drop_chunk[OF Nil.prems(1) d]
  have "filter (\<lambda>p. line_text c p = l) (offsets (n + length k) bs) = []"
  proof -
    have "map (line_text c) (offsets (n + length k) bs) = map chunk_text bs"
      by (rule line_text_offsets[OF after(2) _ after(1)]) (use Nil.prems(2) in simp)
    then have "line_text c ` set (offsets (n + length k) bs) = chunk_text ` set bs" by (metis list.set_map)
    with Nil.prems(5) show ?thesis by (auto simp: filter_empty_conv)
  qed
  with line_text_chunk[OF d] Nil.prems(2,4) after(1) show ?case by auto
next
  case (Cons a as)
  have d: "drop n c = a @ concat (as @ k # bs)" using Cons.prems(3) by simp
  note after = drop_chunk[OF Cons.prems(1) d]
  have "take (n + length a) c = take n c @ a" using d by (simp add: take_add)
  moreover obtain p where "filter (\<lambda>p. line_text c p = l) (offsets (n + length a) (as @ k # bs)) = [p]"
    "take (ky_start p) c = take (n + length a) c @ concat as" "drop (ky_next p) c = concat bs"
    using Cons.IH[OF after(2) _ after(1) Cons.prems(4)] Cons.prems(2,5) by auto
  ultimately show ?case using line_text_chunk[OF d] Cons.prems(2,5) by auto
qed

lemma remove_line_chunks:
  assumes "chunks c = as @ k # bs" and "chunk_text k = l" and "l \<notin> chunk_text ` set (as @ bs)"
  shows "remove_line c l = Inr (concat as @ concat bs)"
proof -
  have "[] \<notin> set (as @ k # bs)" using chunked_not_Nil[OF chunked_chunks[of c]] assms(1) by simp
  from filter_offsets[OF _ this _ assms(2,3), of 0 c] assms(1) concat_chunks[of c] show ?thesis
    by (auto simp: remove_line_def physical_lines_offsets)
qed

lemma chunks_removed:
  assumes "chunks c = as @ k # bs"
  shows "chunks (concat as @ concat bs) = as @ bs"
proof -
  have "chunked (as @ bs)" using chunked_chunks[of c] unfolding assms by (auto simp: chunked_append chunked_Cons)
  from chunks_concat[OF this] show ?thesis by simp
qed

section \<open>The edits refine the list of lines\<close>

definition terminated :: "string \<Rightarrow> string" where
  "terminated c = (if c \<noteq> [] \<and> last c \<noteq> newline then c @ line_end c else c)"

lemma append_line_terminated: "append_line c l = terminated c @ l @ line_end c"
  by (simp add: append_line_def terminated_def)

lemma terminated_last: "terminated c = [] \<or> last (terminated c) = newline"
  using line_end_cases[of c] by (auto simp: terminated_def)

lemma key_lines_append: "clean_line l \<Longrightarrow> key_lines (append_line c l) = key_lines (terminated c) @ [l]"
  using chunks_append_line[OF terminated_last, of l c] chunk_line_end(1)
  by (simp add: key_lines_chunks append_line_terminated clean_line_def)

lemma key_lines_terminated:
  assumes "c = [] \<or> last c \<noteq> return"
  shows "key_lines (terminated c) = key_lines c"
proof (cases "c \<noteq> [] \<and> last c \<noteq> newline")
  case True
  then obtain ks k where k: "chunks c = ks @ [k]" "newline \<notin> set k" "chunks (c @ line_end c) = ks @ [k @ line_end c]" "k \<noteq> []" "last k = last c"
    using chunks_terminate[of c c] by blast
  have "trim_return k = k" using k(4,5) True assms by (simp add: trim_return_def)
  moreover from this k(2) have "chunk_text (k @ line_end c) = k"
    using line_end_cases[of c] by (auto simp: chunk_text_def butlast_append trim_clean(2))
  ultimately show ?thesis using True k(1-3) by (simp add: key_lines_chunks terminated_def chunk_text_unterminated)
qed (auto simp: terminated_def)

text \<open>Whatever the last byte is, terminating the file does not make a line of it that was not there.\<close>

lemma absent_terminated:
  assumes "clean_line l" and "l \<notin> set (key_lines c)"
  shows "l \<notin> set (key_lines (terminated c))"
proof (cases "c \<noteq> [] \<and> last c \<noteq> newline")
  case True
  then obtain ks k where k: "chunks c = ks @ [k]" "newline \<notin> set k" "chunks (c @ line_end c) = ks @ [k @ line_end c]" "k \<noteq> []" "last k = last c"
    using chunks_terminate[of c c] by blast
  from assms(2) k(1,2) have "l \<noteq> trim_return k" "l \<notin> chunk_text ` set ks" by (auto simp: key_lines_chunks chunk_text_unterminated)
  moreover from this(1) assms(1) have "l \<noteq> k" using trim_clean(1) by metis
  moreover have "chunk_text (k @ line_end c) = trim_return k \<or> chunk_text (k @ line_end c) = k"
    using line_end_cases[of c] k(2) by (auto simp: chunk_text_def butlast_append trim_clean(2))
  ultimately show ?thesis using True k(3) by (auto simp: key_lines_chunks terminated_def)
qed (use assms(2) in \<open>auto simp: terminated_def\<close>)

lemma append_line_removed:
  assumes "clean_line l" and "l \<notin> set (key_lines c)"
  shows "remove_line (append_line c l) l = Inr (terminated c)"
proof -
  have "chunks (append_line c l) = chunks (terminated c) @ (l @ line_end c) # []"
    using chunks_append_line[OF terminated_last] assms(1) by (simp add: append_line_terminated clean_line_def)
  moreover have "l \<notin> chunk_text ` set (chunks (terminated c) @ [])"
    using absent_terminated[OF assms] by (simp add: key_lines_chunks)
  ultimately show ?thesis using remove_line_chunks chunk_line_end(1)[OF assms(1)] by fastforce
qed

lemma count_list_filter: "count_list (map f xs) l = length (filter (\<lambda>x. f x = l) xs)"
  by (induction xs) auto

lemma count_key_lines: "count_list (key_lines c) l = length (filter (\<lambda>p. line_text c p = l) (physical_lines c))"
  unfolding key_lines_def by (rule count_list_filter)

lemma remove_line_Inr:
  assumes "remove_line c l = Inr d"
  shows "count_list (key_lines c) l = 1" "key_lines d = filter (\<lambda>t. t \<noteq> l) (key_lines c)"
    "\<exists>as k bs. c = as @ k @ bs \<and> d = as @ bs \<and> (k = l \<or> k = l @ [return] \<or> k = l @ [newline] \<or> k = l @ [return, newline])"
proof -
  from assms show one: "count_list (key_lines c) l = 1"
    by (auto simp: count_key_lines remove_line_def split: list.splits)
  then have "l \<in> set (key_lines c)" by (metis count_list_0_iff one_neq_zero)
  then obtain k where k: "k \<in> set (chunks c)" "chunk_text k = l" by (auto simp: key_lines_chunks)
  from k(1) obtain as bs where c: "chunks c = as @ k # bs" by (meson split_list)
  from one have "count_list (map chunk_text as) l + (1 + count_list (map chunk_text bs) l) = 1"
    by (simp add: key_lines_chunks c k(2))
  then have out: "l \<notin> chunk_text ` set as" "l \<notin> chunk_text ` set bs" by (auto simp: count_list_0_iff)
  then have "remove_line c l = Inr (concat as @ concat bs)" using remove_line_chunks[OF c k(2)] by auto
  with assms have d: "d = concat as @ concat bs" by simp
  have "filter (\<lambda>t. t \<noteq> l) (map chunk_text as) = map chunk_text as" "filter (\<lambda>t. t \<noteq> l) (map chunk_text bs) = map chunk_text bs"
    using out by (auto simp: filter_id_conv)
  then show "key_lines d = filter (\<lambda>t. t \<noteq> l) (key_lines c)"
    by (simp add: key_lines_chunks c chunks_removed[OF c] d k(2))
  have "c = concat as @ k @ concat bs" using concat_chunks[of c] by (simp add: c)
  moreover have "k = l \<or> k = l @ [return] \<or> k = l @ [newline] \<or> k = l @ [return, newline]"
    using k(2) by (cases k rule: rev_cases) (auto simp: chunk_text_def trim_return_def split: if_splits dest: append_butlast_last_id)
  ultimately show "\<exists>as k bs. c = as @ k @ bs \<and> d = as @ bs \<and> (k = l \<or> k = l @ [return] \<or> k = l @ [newline] \<or> k = l @ [return, newline])"
    using d by blast
qed

lemma remove_line_Inl: "(\<exists>d. remove_line c l = Inr d) \<longleftrightarrow> count_list (key_lines c) l = 1"
  by (auto simp: count_key_lines remove_line_def split: list.splits)

text \<open>A line that is not a comment and holds a token.\<close>

definition mentions :: "string \<Rightarrow> string \<Rightarrow> bool" where
  "mentions token text \<longleftrightarrow> (let fs = GoStrings.fields text in
     fs \<noteq> [] \<and> \<not> has_prefix (hd fs) ''#'' \<and> contains ('' '' @ join_with CHR '' '' fs @ '' '') ('' '' @ token @ '' ''))"

lemma foldl_scan_line:
  "foldl (scan_line l key i) (n, a, b) ts = (n + count_list ts l, a \<or> (\<exists>t\<in>set ts. t \<noteq> l \<and> mentions key t),
     b \<or> (\<exists>t\<in>set ts. t \<noteq> l \<and> mentions (line_marker_prefix @ i) t))"
  by (induction ts arbitrary: n a b) (auto simp: scan_line_def mentions_def Let_def)

lemma scan_keys_lines:
  "scan_keys c l key i = (count_list (key_lines c) l, \<exists>t\<in>set (key_lines c). t \<noteq> l \<and> mentions key t,
     \<exists>t\<in>set (key_lines c). t \<noteq> l \<and> mentions (line_marker_prefix @ i) t)"
  unfolding scan_keys_def key_lines_def[symmetric] by (simp add: foldl_scan_line)

section \<open>The line of a grant\<close>

lemma public_key_chars:
  assumes "public_wire v = Inr w"
  shows "v = key_type @ '' '' @ base64_encode w"
proof -
  from assms have "has_prefix v (key_type @ '' '')" "base64_encode w = drop 12 v"
    by (auto simp: public_wire_def Let_def split: if_splits option.splits)
  moreover have "length (key_type @ '' '') = 12" by (simp add: key_type_def)
  ultimately show ?thesis by (metis append.assoc append_take_drop_id has_prefix_def)
qed

lemma base64_clean: "clean_line (base64_encode w)"
proof -
  have "char_of (10 :: nat) = newline" "char_of (13 :: nat) = return" by (simp_all add: char_of_nat_eq)
  with filter_encoded[of w] show ?thesis by (auto simp: clean_line_def filter_id_conv)
qed

lemma clean_append [simp]: "clean_line (a @ b) \<longleftrightarrow> clean_line a \<and> clean_line b"
  by (auto simp: clean_line_def)

lemma clean_Cons [simp]: "clean_line []" "clean_line (c # s) \<longleftrightarrow> c \<noteq> newline \<and> c \<noteq> return \<and> clean_line s"
  by (auto simp: clean_line_def)

lemma pair_id_clean:
  assumes "id_pattern i"
  shows "clean_line i"
proof -
  have "\<not> is_alnum newline" "\<not> is_alnum return" by (simp_all add: evaluate)
  with assms show ?thesis by (cases i) (auto simp: id_pattern_def led_run_def run_of_def list_all_iff clean_line_def)
qed

lemma grant_line_clean:
  assumes "grant_line key i = Inr l"
  shows "clean_line l"
proof -
  from assms obtain w where w: "public_wire key = Inr w" and i: "id_pattern i"
    and l: "l = ''restrict '' @ key @ '' '' @ line_marker_prefix @ i"
    by (auto simp: grant_line_def canonical_public_key_def split: if_splits)
  have "clean_line line_marker_prefix" "clean_line key_type"
    by (simp_all add: line_marker_prefix_def key_type_def)
  with public_key_chars[OF w] pair_id_clean[OF i] base64_clean[of w] show ?thesis by (simp add: l)
qed

section \<open>Properties\<close>

text \<open>C30: when the scan does not count the line of a grant in a keys file, the line appended to it is
  removed without a trace: the bytes are the ones before, except that a last line that had no
  terminator has one now. It holds for every file, whatever its line ends are.\<close>

theorem grant_line_round_trip:
  assumes "grant_line key i = Inr line" and "fst (scan_keys contents line key i) = 0"
  shows "remove_line (append_line contents line) line
    = Inr (if contents = [] \<or> last contents = newline then contents else contents @ line_end contents)"
proof -
  have "line \<notin> set (key_lines contents)" using assms(2) by (simp add: scan_keys_lines count_list_0_iff)
  from append_line_removed[OF grant_line_clean[OF assms(1)] this] show ?thesis by (auto simp: terminated_def)
qed

text \<open>C29: the edits refine the operations on the list of lines, and leave the other bytes alone, for
  files that do not end in a carriage return without a newline. Appending the line of a grant
  adds it at the end of the list, and writes after the unchanged bytes of the file at most one
  line end before the line and one after it. Removing it succeeds exactly when it is there once,
  takes it out of the list, and cuts out of the bytes just the line and its own line end. The
  scan counts the line and looks for the key and the marker in the others.\<close>

theorem key_edits_refine:
  assumes "grant_line key i = Inr line" and "contents = [] \<or> last contents \<noteq> return"
  shows "key_lines (append_line contents line) = key_lines contents @ [line]
    \<and> (\<exists>pad. append_line contents line = contents @ pad @ line @ line_end contents \<and> pad \<in> {[], line_end contents})
    \<and> ((\<exists>d. remove_line contents line = Inr d) = (count_list (key_lines contents) line = 1))
    \<and> (\<forall>d. remove_line contents line = Inr d \<longrightarrow> key_lines d = filter (\<lambda>t. t \<noteq> line) (key_lines contents)
         \<and> (\<exists>as k bs. contents = as @ k @ bs \<and> d = as @ bs
              \<and> k \<in> {line, line @ [return], line @ [newline], line @ [return, newline]}))
    \<and> scan_keys contents line key i = (count_list (key_lines contents) line,
         \<exists>t\<in>set (key_lines contents). t \<noteq> line \<and> mentions key t,
         \<exists>t\<in>set (key_lines contents). t \<noteq> line \<and> mentions (line_marker_prefix @ i) t)"
proof (intro conjI allI impI)
  show "key_lines (append_line contents line) = key_lines contents @ [line]"
    using key_lines_append[OF grant_line_clean[OF assms(1)]] key_lines_terminated[OF assms(2)] by simp
  show "\<exists>pad. append_line contents line = contents @ pad @ line @ line_end contents \<and> pad \<in> {[], line_end contents}"
    by (auto simp: append_line_def)
  show "(\<exists>d. remove_line contents line = Inr d) = (count_list (key_lines contents) line = 1)"
    by (rule remove_line_Inl)
  fix d assume "remove_line contents line = Inr d"
  note removed = remove_line_Inr[OF this]
  show "key_lines d = filter (\<lambda>t. t \<noteq> line) (key_lines contents)" by (rule removed(2))
  show "\<exists>as k bs. contents = as @ k @ bs \<and> d = as @ bs \<and> k \<in> {line, line @ [return], line @ [newline], line @ [return, newline]}"
    using removed(3) by simp
qed (rule scan_keys_lines)

section \<open>Witnesses\<close>

definition sample_pair_key :: string where
  "sample_pair_key = key_type @ '' '' @ base64_encode (key_wire (replicate 32 CHR ''k''))"

definition sample_line :: string where
  "sample_line = ''restrict '' @ sample_pair_key @ '' '' @ line_marker_prefix @ ''p''"

lemma sample_grant_line: "grant_line sample_pair_key ''p'' = Inr sample_line"
  using public_wire_of_key[of "replicate 32 CHR ''k''"]
  by (simp add: grant_line_def canonical_public_key_def sample_pair_key_def sample_line_def id_pattern_def evaluate)

theorem grant_line_round_trip_witness: "remove_line (append_line ''x'' sample_line) sample_line = Inr (''x'' @ [newline])"
proof -
  have "sample_line \<noteq> ''x''" by (simp add: sample_line_def)
  then have "fst (scan_keys ''x'' sample_line sample_pair_key ''p'') = 0"
    by (simp add: scan_keys_lines key_lines_chunks chunk_text_def trim_return_def)
  from grant_line_round_trip[OF sample_grant_line this] show ?thesis by (simp add: line_end_def has_prefix_def)
qed

theorem key_edits_refine_witness: "key_lines (append_line ''x'' sample_line) = [''x'', sample_line]"
proof -
  have "key_lines ''x'' = [''x'']" by (simp add: key_lines_chunks chunk_text_def trim_return_def)
  with key_edits_refine[OF sample_grant_line, of "''x''"] show ?thesis by simp
qed

end
