(* ===== verification/PairRecords.thy ===== *)
theory PairRecords
  imports PairKeys Journal
begin

text \<open>
  The documents of a pairing (\<open>internal/pairing\<close>, \<open>client.go\<close>, \<open>host.go\<close>, \<open>revoke.go\<close>, \<open>revoke_wire.go\<close>):
  the host offer, the enrollment request and receipt that cross between the two sides, and the
  records each side keeps, with their digests, their JSON form and the validations. Decoding reads a
  nested target with the reader of theory Target, as its \<open>UnmarshalJSON\<close> does.
\<close>

section \<open>Documents\<close>

definition max_pair_document :: nat where "max_pair_document = 64 * 2 ^ 10"

record server_ssh =
  sv_host :: string
  sv_port :: "16 word"
  sv_user :: string
  sv_host_public_key :: string

record host_offer =
  ho_schema_version :: int
  ho_bootstrap_id :: string
  ho_expires :: int
  ho_platform :: string
  ho_connection :: server_ssh
  ho_installed :: target
  ho_installation_id :: string
  ho_root_identity :: string
  ho_account_identity :: string

record enrollment_intent =
  ei_schema_version :: int
  ei_pair_id :: string
  ei_operation_id :: string
  ei_offer_hash :: string
  ei_public_key :: string
  ei_expires :: int

record enrollment_receipt =
  er_schema_version :: int
  er_pair_id :: string
  er_operation_id :: string
  er_intent_sha :: string
  er_platform :: string
  er_scope_sha :: string
  er_target :: target
  er_public_key :: string

record pair_pending =
  pp_schema_version :: int
  pp_name :: string
  pp_offer :: host_offer
  pp_intent :: enrollment_intent

record grant_record =
  gr_schema_version :: int
  gr_pair_id :: string
  gr_offer_sha :: string
  gr_intent_sha :: string
  gr_installation_id :: string
  gr_account_identity :: string
  gr_login :: string
  gr_keys_file :: string
  gr_shared_keys_file :: bool
  gr_line :: string
  gr_receipt :: enrollment_receipt
  gr_receipt_sha :: string
  gr_granted :: int

record tombstone =
  tb_schema_version :: int
  tb_pair_id :: string
  tb_grant_sha :: string
  tb_source :: string
  tb_requested :: int

record revoke_result =
  rv_schema_version :: int
  rv_pair_id :: string
  rv_state :: string
  rv_keys_before :: string
  rv_keys_after :: string
  rv_tombstone :: string

record revocation =
  rc_schema_version :: int
  rc_pair_id :: string
  rc_host :: string
  rc_result :: "revoke_result option"

record revoke_request =
  rq_schema :: int
  rq_pair_id :: string
  rq_key_hash :: string

text \<open>The wrappers of documents whose digest came through an independent channel.\<close>

datatype trusted_offer = TrustedOffer host_offer
datatype trusted_intent = TrustedIntent enrollment_intent
datatype trusted_receipt = TrustedReceipt enrollment_receipt

section \<open>JSON form and digests\<close>

definition server_json :: "server_ssh \<Rightarrow> json" where
  "server_json s = JObj [(''host'', JStr (sv_host s)), (''port'', JNum (uint (sv_port s))), (''user'', JStr (sv_user s)),
     (''host_public_key'', JStr (sv_host_public_key s))]"

definition offer_json :: "ctl_lib \<Rightarrow> host_offer \<Rightarrow> err + json" where
  "offer_json lib off =
    bind_res (cl_time lib (ho_expires off)) (\<lambda>expires.
    bind_res (target_json (cl_target lib) (ho_installed off)) (\<lambda>installed.
      Inr (JObj [(''schema_version'', JNum (ho_schema_version off)), (''bootstrap_id'', JStr (ho_bootstrap_id off)),
        (''expires'', JStr expires), (''platform'', JStr (ho_platform off)), (''connection'', server_json (ho_connection off)),
        (''installed'', installed), (''installation_id'', JStr (ho_installation_id off)),
        (''root_identity'', JStr (ho_root_identity off)), (''account_identity'', JStr (ho_account_identity off))])))"

definition intent_json :: "ctl_lib \<Rightarrow> enrollment_intent \<Rightarrow> err + json" where
  "intent_json lib i =
    bind_res (cl_time lib (ei_expires i)) (\<lambda>expires.
      Inr (JObj [(''schema_version'', JNum (ei_schema_version i)), (''pair_id'', JStr (ei_pair_id i)),
        (''operation_id'', JStr (ei_operation_id i)), (''offer_hash'', JStr (ei_offer_hash i)),
        (''public_key'', JStr (ei_public_key i)), (''expires'', JStr expires)]))"

definition enrollment_json :: "ctl_lib \<Rightarrow> enrollment_receipt \<Rightarrow> err + json" where
  "enrollment_json lib r =
    bind_res (target_json (cl_target lib) (er_target r)) (\<lambda>paired.
      Inr (JObj [(''schema_version'', JNum (er_schema_version r)), (''pair_id'', JStr (er_pair_id r)),
        (''operation_id'', JStr (er_operation_id r)), (''intent_sha'', JStr (er_intent_sha r)),
        (''platform'', JStr (er_platform r)), (''scope_sha'', JStr (er_scope_sha r)), (''target'', paired),
        (''public_key'', JStr (er_public_key r))]))"

definition pending_json :: "ctl_lib \<Rightarrow> pair_pending \<Rightarrow> err + json" where
  "pending_json lib p =
    bind_res (offer_json lib (pp_offer p)) (\<lambda>offer.
    bind_res (intent_json lib (pp_intent p)) (\<lambda>intent.
      Inr (JObj [(''schema_version'', JNum (pp_schema_version p)), (''name'', JStr (pp_name p)), (''offer'', offer), (''intent'', intent)])))"

definition grant_json :: "ctl_lib \<Rightarrow> grant_record \<Rightarrow> err + json" where
  "grant_json lib g =
    bind_res (enrollment_json lib (gr_receipt g)) (\<lambda>receipt.
    bind_res (cl_time lib (gr_granted g)) (\<lambda>granted.
      Inr (JObj [(''schema_version'', JNum (gr_schema_version g)), (''pair_id'', JStr (gr_pair_id g)),
        (''offer_sha'', JStr (gr_offer_sha g)), (''intent_sha'', JStr (gr_intent_sha g)),
        (''installation_id'', JStr (gr_installation_id g)), (''account_identity'', JStr (gr_account_identity g)),
        (''login'', JStr (gr_login g)), (''keys_file'', JStr (gr_keys_file g)),
        (''shared_keys_file'', JBool (gr_shared_keys_file g)), (''line'', JStr (gr_line g)), (''receipt'', receipt),
        (''receipt_sha'', JStr (gr_receipt_sha g)), (''granted'', JStr granted)])))"

definition tombstone_json :: "ctl_lib \<Rightarrow> tombstone \<Rightarrow> err + json" where
  "tombstone_json lib t =
    bind_res (cl_time lib (tb_requested t)) (\<lambda>requested.
      Inr (JObj [(''schema_version'', JNum (tb_schema_version t)), (''pair_id'', JStr (tb_pair_id t)),
        (''grant_sha'', JStr (tb_grant_sha t)), (''source'', JStr (tb_source t)), (''requested'', JStr requested)]))"

definition revoke_result_json :: "revoke_result \<Rightarrow> json" where
  "revoke_result_json r = JObj [(''schema_version'', JNum (rv_schema_version r)), (''pair_id'', JStr (rv_pair_id r)),
     (''state'', JStr (rv_state r)), (''keys_sha256_before'', JStr (rv_keys_before r)),
     (''keys_sha256_after'', JStr (rv_keys_after r)), (''tombstone_sha256'', JStr (rv_tombstone r))]"

definition revocation_json :: "revocation \<Rightarrow> json" where
  "revocation_json r = JObj ([(''schema_version'', JNum (rc_schema_version r)), (''pair_id'', JStr (rc_pair_id r)),
     (''host'', JStr (rc_host r))] @ (case rc_result r of None \<Rightarrow> [] | Some x \<Rightarrow> [(''result'', revoke_result_json x)]))"

text \<open>\<open>digest\<close> ignores an encoding error, which leaves the bytes empty.\<close>

definition pair_digest :: "ctl_lib \<Rightarrow> string \<Rightarrow> err + json \<Rightarrow> string" where
  "pair_digest lib domain v =
    tl_sha (cl_target lib) (domain @ [CHR 0x00] @ (case v of Inl e \<Rightarrow> '''' | Inr x \<Rightarrow> render x))"

definition offer_digest :: "ctl_lib \<Rightarrow> host_offer \<Rightarrow> string" where
  "offer_digest lib off = pair_digest lib ''blender-box-pairing-offer-v1'' (offer_json lib off)"

definition intent_digest :: "ctl_lib \<Rightarrow> enrollment_intent \<Rightarrow> string" where
  "intent_digest lib i = pair_digest lib ''blender-box-pairing-intent-v1'' (intent_json lib i)"

definition enrollment_digest :: "ctl_lib \<Rightarrow> enrollment_receipt \<Rightarrow> string" where
  "enrollment_digest lib r = pair_digest lib ''blender-box-pairing-enrollment-v1'' (enrollment_json lib r)"

definition scope_digest :: "ctl_lib \<Rightarrow> string \<Rightarrow> string \<Rightarrow> string \<Rightarrow> string \<Rightarrow> string \<Rightarrow> string" where
  "scope_digest lib platform installation account keys_file options =
    pair_digest lib ''blender-box-pairing-scope-v1'' (Inr (JObj [(''platform'', JStr platform), (''installation_id'', JStr installation),
      (''account_identity'', JStr account), (''keys_file'', JStr keys_file), (''options'', JStr options)]))"

section \<open>Decoding\<close>

definition zero_target :: target where
  "zero_target = \<lparr>tg_connection = zero_connection, tg_platform = '''', tg_alias = '''', tg_windows = zero_windows, tg_linux = zero_linux\<rparr>"

definition get_target :: "ctl_lib \<Rightarrow> json option \<Rightarrow> err + target" where
  "get_target lib j = (case j of None \<Rightarrow> Inr zero_target | Some v \<Rightarrow> decode_target_value (cl_target lib) v)"

definition decode_server :: "json option \<Rightarrow> err + server_ssh" where
  "decode_server j =
    bind_res (get_struct [''host'', ''port'', ''user'', ''host_public_key''] j) (\<lambda>kvs.
    bind_res (get_str (field_of ''host'' kvs)) (\<lambda>host.
    bind_res (get_word (field_of ''port'' kvs)) (\<lambda>port.
    bind_res (get_str (field_of ''user'' kvs)) (\<lambda>user.
    bind_res (get_str (field_of ''host_public_key'' kvs)) (\<lambda>key.
      Inr \<lparr>sv_host = host, sv_port = port, sv_user = user, sv_host_public_key = key\<rparr>)))))"

definition offer_names :: "string list" where
  "offer_names = [''schema_version'', ''bootstrap_id'', ''expires'', ''platform'', ''connection'', ''installed'', ''installation_id'',
     ''root_identity'', ''account_identity'']"

definition decode_offer :: "ctl_lib \<Rightarrow> json option \<Rightarrow> err + host_offer" where
  "decode_offer lib j =
    bind_res (get_struct offer_names j) (\<lambda>kvs.
    bind_res (get_int (field_of ''schema_version'' kvs)) (\<lambda>version.
    bind_res (get_str (field_of ''bootstrap_id'' kvs)) (\<lambda>bootstrap.
    bind_res (get_time lib (field_of ''expires'' kvs)) (\<lambda>expires.
    bind_res (get_str (field_of ''platform'' kvs)) (\<lambda>platform.
    bind_res (decode_server (field_of ''connection'' kvs)) (\<lambda>server.
    bind_res (get_target lib (field_of ''installed'' kvs)) (\<lambda>installed.
    bind_res (get_str (field_of ''installation_id'' kvs)) (\<lambda>installation.
    bind_res (get_str (field_of ''root_identity'' kvs)) (\<lambda>root.
    bind_res (get_str (field_of ''account_identity'' kvs)) (\<lambda>account.
      Inr \<lparr>ho_schema_version = version, ho_bootstrap_id = bootstrap, ho_expires = expires, ho_platform = platform,
        ho_connection = server, ho_installed = installed, ho_installation_id = installation, ho_root_identity = root,
        ho_account_identity = account\<rparr>))))))))))"

definition intent_names :: "string list" where
  "intent_names = [''schema_version'', ''pair_id'', ''operation_id'', ''offer_hash'', ''public_key'', ''expires'']"

definition decode_intent :: "ctl_lib \<Rightarrow> json option \<Rightarrow> err + enrollment_intent" where
  "decode_intent lib j =
    bind_res (get_struct intent_names j) (\<lambda>kvs.
    bind_res (get_int (field_of ''schema_version'' kvs)) (\<lambda>version.
    bind_res (get_str (field_of ''pair_id'' kvs)) (\<lambda>pair.
    bind_res (get_str (field_of ''operation_id'' kvs)) (\<lambda>operation.
    bind_res (get_str (field_of ''offer_hash'' kvs)) (\<lambda>hash.
    bind_res (get_str (field_of ''public_key'' kvs)) (\<lambda>key.
    bind_res (get_time lib (field_of ''expires'' kvs)) (\<lambda>expires.
      Inr \<lparr>ei_schema_version = version, ei_pair_id = pair, ei_operation_id = operation, ei_offer_hash = hash,
        ei_public_key = key, ei_expires = expires\<rparr>)))))))"

definition enrollment_names :: "string list" where
  "enrollment_names = [''schema_version'', ''pair_id'', ''operation_id'', ''intent_sha'', ''platform'', ''scope_sha'', ''target'', ''public_key'']"

definition decode_enrollment :: "ctl_lib \<Rightarrow> json option \<Rightarrow> err + enrollment_receipt" where
  "decode_enrollment lib j =
    bind_res (get_struct enrollment_names j) (\<lambda>kvs.
    bind_res (get_int (field_of ''schema_version'' kvs)) (\<lambda>version.
    bind_res (get_str (field_of ''pair_id'' kvs)) (\<lambda>pair.
    bind_res (get_str (field_of ''operation_id'' kvs)) (\<lambda>operation.
    bind_res (get_str (field_of ''intent_sha'' kvs)) (\<lambda>intent.
    bind_res (get_str (field_of ''platform'' kvs)) (\<lambda>platform.
    bind_res (get_str (field_of ''scope_sha'' kvs)) (\<lambda>scope.
    bind_res (get_target lib (field_of ''target'' kvs)) (\<lambda>paired.
    bind_res (get_str (field_of ''public_key'' kvs)) (\<lambda>key.
      Inr \<lparr>er_schema_version = version, er_pair_id = pair, er_operation_id = operation, er_intent_sha = intent,
        er_platform = platform, er_scope_sha = scope, er_target = paired, er_public_key = key\<rparr>)))))))))"

definition decode_pending :: "ctl_lib \<Rightarrow> json option \<Rightarrow> err + pair_pending" where
  "decode_pending lib j =
    bind_res (get_struct [''schema_version'', ''name'', ''offer'', ''intent''] j) (\<lambda>kvs.
    bind_res (get_int (field_of ''schema_version'' kvs)) (\<lambda>version.
    bind_res (get_str (field_of ''name'' kvs)) (\<lambda>name.
    bind_res (decode_offer lib (field_of ''offer'' kvs)) (\<lambda>offer.
    bind_res (decode_intent lib (field_of ''intent'' kvs)) (\<lambda>intent.
      Inr \<lparr>pp_schema_version = version, pp_name = name, pp_offer = offer, pp_intent = intent\<rparr>)))))"

definition grant_names :: "string list" where
  "grant_names = [''schema_version'', ''pair_id'', ''offer_sha'', ''intent_sha'', ''installation_id'', ''account_identity'', ''login'',
     ''keys_file'', ''shared_keys_file'', ''line'', ''receipt'', ''receipt_sha'', ''granted'']"

definition decode_grant :: "ctl_lib \<Rightarrow> json option \<Rightarrow> err + grant_record" where
  "decode_grant lib j =
    bind_res (get_struct grant_names j) (\<lambda>kvs.
    bind_res (get_int (field_of ''schema_version'' kvs)) (\<lambda>version.
    bind_res (get_str (field_of ''pair_id'' kvs)) (\<lambda>pair.
    bind_res (get_str (field_of ''offer_sha'' kvs)) (\<lambda>offer.
    bind_res (get_str (field_of ''intent_sha'' kvs)) (\<lambda>intent.
    bind_res (get_str (field_of ''installation_id'' kvs)) (\<lambda>installation.
    bind_res (get_str (field_of ''account_identity'' kvs)) (\<lambda>account.
    bind_res (get_str (field_of ''login'' kvs)) (\<lambda>login.
    bind_res (get_str (field_of ''keys_file'' kvs)) (\<lambda>keys.
    bind_res (get_bool (field_of ''shared_keys_file'' kvs)) (\<lambda>shared.
    bind_res (get_str (field_of ''line'' kvs)) (\<lambda>line.
    bind_res (decode_enrollment lib (field_of ''receipt'' kvs)) (\<lambda>receipt.
    bind_res (get_str (field_of ''receipt_sha'' kvs)) (\<lambda>sha.
    bind_res (get_time lib (field_of ''granted'' kvs)) (\<lambda>granted.
      Inr \<lparr>gr_schema_version = version, gr_pair_id = pair, gr_offer_sha = offer, gr_intent_sha = intent,
        gr_installation_id = installation, gr_account_identity = account, gr_login = login, gr_keys_file = keys,
        gr_shared_keys_file = shared, gr_line = line, gr_receipt = receipt, gr_receipt_sha = sha, gr_granted = granted\<rparr>))))))))))))))"

definition decode_tombstone :: "ctl_lib \<Rightarrow> json option \<Rightarrow> err + tombstone" where
  "decode_tombstone lib j =
    bind_res (get_struct [''schema_version'', ''pair_id'', ''grant_sha'', ''source'', ''requested''] j) (\<lambda>kvs.
    bind_res (get_int (field_of ''schema_version'' kvs)) (\<lambda>version.
    bind_res (get_str (field_of ''pair_id'' kvs)) (\<lambda>pair.
    bind_res (get_str (field_of ''grant_sha'' kvs)) (\<lambda>grant.
    bind_res (get_str (field_of ''source'' kvs)) (\<lambda>source.
    bind_res (get_time lib (field_of ''requested'' kvs)) (\<lambda>requested.
      Inr \<lparr>tb_schema_version = version, tb_pair_id = pair, tb_grant_sha = grant, tb_source = source, tb_requested = requested\<rparr>))))))"

definition decode_revoke_result :: "json option \<Rightarrow> err + revoke_result" where
  "decode_revoke_result j =
    bind_res (get_struct [''schema_version'', ''pair_id'', ''state'', ''keys_sha256_before'', ''keys_sha256_after'', ''tombstone_sha256''] j) (\<lambda>kvs.
    bind_res (get_int (field_of ''schema_version'' kvs)) (\<lambda>version.
    bind_res (get_str (field_of ''pair_id'' kvs)) (\<lambda>pair.
    bind_res (get_str (field_of ''state'' kvs)) (\<lambda>state.
    bind_res (get_str (field_of ''keys_sha256_before'' kvs)) (\<lambda>before.
    bind_res (get_str (field_of ''keys_sha256_after'' kvs)) (\<lambda>after.
    bind_res (get_str (field_of ''tombstone_sha256'' kvs)) (\<lambda>tomb.
      Inr \<lparr>rv_schema_version = version, rv_pair_id = pair, rv_state = state, rv_keys_before = before, rv_keys_after = after,
        rv_tombstone = tomb\<rparr>)))))))"

definition decode_revocation :: "json option \<Rightarrow> err + revocation" where
  "decode_revocation j =
    bind_res (get_struct [''schema_version'', ''pair_id'', ''host'', ''result''] j) (\<lambda>kvs.
    bind_res (get_int (field_of ''schema_version'' kvs)) (\<lambda>version.
    bind_res (get_str (field_of ''pair_id'' kvs)) (\<lambda>pair.
    bind_res (get_str (field_of ''host'' kvs)) (\<lambda>host.
    bind_res (case field_of ''result'' kvs of None \<Rightarrow> Inr None | Some v \<Rightarrow> bind_res (decode_revoke_result (Some v)) (\<lambda>x. Inr (Some x))) (\<lambda>result.
      Inr \<lparr>rc_schema_version = version, rc_pair_id = pair, rc_host = host, rc_result = result\<rparr>)))))"

text \<open>\<open>strictjson.Decode\<close> of a whole document.\<close>

definition strict_document :: "ctl_lib \<Rightarrow> (json option \<Rightarrow> err + 'a) \<Rightarrow> string \<Rightarrow> err + 'a" where
  "strict_document lib reader text = bind_res (strict_value (tl_parse (cl_target lib)) text) (\<lambda>v. reader (Some v))"

text \<open>\<open>hex.EncodeToString\<close>.\<close>

definition hex_text :: "string \<Rightarrow> string" where
  "hex_text s = concat (map (\<lambda>c. [hex_digit (code c div 16), hex_digit (code c mod 16)]) s)"

section \<open>Validations\<close>

definition direct_of :: "server_ssh \<Rightarrow> string \<Rightarrow> direct_ssh" where
  "direct_of s fp = \<lparr>ds_host = sv_host s, ds_port = sv_port s, ds_user = sv_user s, ds_host_public_key = sv_host_public_key s,
     ds_client_public_key_hash = fp\<rparr>"

definition validate_offer :: "ctl_lib \<Rightarrow> host_offer \<Rightarrow> err option" where
  "validate_offer lib off =
    first_err
     [check (ho_schema_version off \<noteq> 1 \<or> \<not> id_pattern (ho_bootstrap_id off) \<or> \<not> id_pattern (ho_installation_id off)
        \<or> ho_root_identity off = '''' \<or> ho_account_identity off = '''' \<or> ho_expires off = 0 \<or> ho_platform off \<noteq> tg_platform (ho_installed off))
        ''invalid host offer identity'',
      check (cn_direct (target_connection (ho_installed off)) \<noteq> None) ''host offer must contain an installed unpaired target'',
      target_validate (cl_target lib) (ho_installed off),
      (case new_paired (cl_target lib) (ho_installed off) (direct_of (ho_connection off) (replicate 64 CHR ''0'')) of Inl e \<Rightarrow> Some e | Inr t \<Rightarrow> None)]"

definition trust_offer :: "ctl_lib \<Rightarrow> string \<Rightarrow> string \<Rightarrow> int \<Rightarrow> err + trusted_offer" where
  "trust_offer lib data expected now =
    guard_res (check (max_pair_document < length data) ''offer exceeds size limit'')
    (bind_res (strict_document lib (decode_offer lib) data) (\<lambda>v.
     guard_res (first_err
       [validate_offer lib v,
        check (\<not> hex64 expected \<or> offer_digest lib v \<noteq> expected)
          ''host offer requires its exact digest verified through an independent trusted channel'',
        check (ho_expires v \<le> now) ''host offer expired''])
      (Inr (TrustedOffer v))))"

definition trust_receipt :: "ctl_lib \<Rightarrow> string \<Rightarrow> string \<Rightarrow> err + trusted_receipt" where
  "trust_receipt lib data expected =
    guard_res (check (max_pair_document < length data) ''receipt exceeds size limit'')
    (bind_res (strict_document lib (decode_enrollment lib) data) (\<lambda>v.
     guard_res (first_err
       [check (er_schema_version v \<noteq> 1 \<or> \<not> id_pattern (er_pair_id v) \<or> \<not> id_pattern (er_operation_id v) \<or> \<not> hex64 (er_intent_sha v)
          \<or> \<not> hex64 (er_scope_sha v) \<or> er_platform v \<noteq> tg_platform (er_target v)) ''invalid enrollment receipt'',
        check (cn_direct (target_connection (er_target v)) = None) ''enrollment receipt requires paired target'',
        (case canonical_public_key (er_public_key v) of Inl e \<Rightarrow> Some e | Inr k \<Rightarrow> None),
        check (\<not> hex64 expected \<or> enrollment_digest lib v \<noteq> expected)
          ''enrollment receipt requires its exact digest verified through an independent trusted channel''])
      (Inr (TrustedReceipt v))))"

definition trust_intent :: "ctl_lib \<Rightarrow> string \<Rightarrow> string \<Rightarrow> err + trusted_intent" where
  "trust_intent lib data expected =
    guard_res (check (max_pair_document < length data) ''enrollment request exceeds size limit'')
    (bind_res (strict_document lib (decode_intent lib) data) (\<lambda>v.
     guard_res (first_err
       [check (ei_schema_version v \<noteq> 1 \<or> \<not> id_pattern (ei_pair_id v) \<or> \<not> id_pattern (ei_operation_id v) \<or> \<not> hex64 (ei_offer_hash v)
          \<or> ei_expires v = 0) ''invalid enrollment request'',
        (case canonical_public_key (ei_public_key v) of Inl e \<Rightarrow> Some e | Inr k \<Rightarrow> None),
        check (\<not> hex64 expected \<or> intent_digest lib v \<noteq> expected)
          ''enrollment request requires its exact digest verified through an independent trusted channel''])
      (Inr (TrustedIntent v))))"

definition revoke_request_validate :: "revoke_request \<Rightarrow> err option" where
  "revoke_request_validate r =
    check (rq_schema r \<noteq> 1 \<or> \<not> id_pattern (rq_pair_id r) \<or> \<not> hex64 (rq_key_hash r)) ''invalid revoke request''"

definition parse_revoke_result :: "ctl_lib \<Rightarrow> string \<Rightarrow> string \<Rightarrow> err + revoke_result" where
  "parse_revoke_result lib data pair =
    guard_res (check (max_pair_document < length data) ''revoke result exceeds size limit'')
    (bind_res (strict_document lib decode_revoke_result data) (\<lambda>v.
     guard_res (check (rv_schema_version v \<noteq> 1 \<or> rv_pair_id v \<noteq> pair \<or> rv_state v \<noteq> ''revoked'' \<or> \<not> hex64 (rv_keys_before v)
        \<or> \<not> hex64 (rv_keys_after v) \<or> \<not> hex64 (rv_tombstone v)) ''host did not confirm revocation of pair'')
      (Inr v)))"

definition match_receipt :: "ctl_lib \<Rightarrow> pair_pending \<Rightarrow> enrollment_receipt \<Rightarrow> err + target" where
  "match_receipt lib p r =
    bind_res (key_fingerprint (tl_sha (cl_target lib)) (ei_public_key (pp_intent p))) (\<lambda>fp.
    bind_res (new_paired (cl_target lib) (ho_installed (pp_offer p)) (direct_of (ho_connection (pp_offer p)) fp)) (\<lambda>expected.
    guard_res (check (er_schema_version r \<noteq> 1 \<or> er_pair_id r \<noteq> ei_pair_id (pp_intent p) \<or> er_operation_id r \<noteq> ei_operation_id (pp_intent p)
        \<or> er_intent_sha r \<noteq> intent_digest lib (pp_intent p) \<or> er_public_key r \<noteq> ei_public_key (pp_intent p)
        \<or> er_platform r \<noteq> ho_platform (pp_offer p)
        \<or> target_fingerprint (cl_target lib) (er_target r) \<noteq> target_fingerprint (cl_target lib) expected \<or> \<not> hex64 (er_scope_sha r))
        ''receipt does not match the retained pairing intent and offered authority'')
      (Inr expected)))"

end
