(* ===== verification/PairClient.thy ===== *)
theory PairClient
  imports PairRecords TargetStore SshKeyGuarantees
begin

text \<open>
  The controller's side of a pairing: \<open>internal/pairing/client.go\<close>, \<open>preparation.go\<close> and \<open>revoke.go\<close>. A
  preparation reserves an identity and a key under a name, an intent names the key, an accepted receipt of
  the host makes a paired target; a revocation asks the host, then proves with a fresh connection that the
  key is rejected, and only then forgets what is stored.

  The host at the other end (\<open>Remote\<close>) is an argument of the model with a state of its own; \<open>pc_log\<close> keeps
  the calls and their answers. The clock, the context, the random bytes and the checkpoints of the tests are
  arguments. A result that is returned together with an error is a pair.
\<close>

section \<open>The client\<close>

text \<open>\<open>errors.As\<close> of an error of the transport: the class is empty when there is none.\<close>

record remote_failure =
  rf_class :: string
  rf_err :: err

record 'w remote =
  rm_revoke :: "target \<Rightarrow> revoke_request \<Rightarrow> 'w \<Rightarrow> (remote_failure + revoke_result) \<times> 'w"
  rm_probe :: "target \<Rightarrow> 'w \<Rightarrow> remote_failure option \<times> 'w"

datatype client_call =
    Revocation revoke_request "remote_failure + revoke_result"
  | Probe target "remote_failure option"

record 'w pair_client =
  pc_disk :: disk
  pc_remote :: 'w
  pc_log :: "client_call list"

record 'w client_env =
  cv_lib :: ctl_lib
  cv_keys :: key_library
  cv_disk :: disk_env
  cv_root :: string
  cv_remote :: "'w remote"
  cv_windows :: bool
  cv_now :: "'w pair_client \<Rightarrow> int"
  cv_context :: "'w pair_client \<Rightarrow> err option"
  cv_at :: "string \<Rightarrow> 'w pair_client \<Rightarrow> err option"
  cv_random :: "'w pair_client \<Rightarrow> err + string"

type_synonym ('w, 'a) cact = "('w pair_client, 'a) act"

definition on_store :: "'a dact \<Rightarrow> ('w, 'a) cact" where
  "on_store m s = (case m (pc_disk s) of (r, d) \<Rightarrow> (r, s\<lparr>pc_disk := d\<rparr>))"

definition client_context :: "'w client_env \<Rightarrow> ('w, unit) cact" where
  "client_context env = andthen (look (cv_context env)) refuse"

definition client_at :: "'w client_env \<Rightarrow> string \<Rightarrow> ('w, unit) cact" where
  "client_at env stage = andthen (look (cv_at env stage)) refuse"

definition ask_revoke :: "'w client_env \<Rightarrow> target \<Rightarrow> revoke_request \<Rightarrow> ('w, remote_failure + revoke_result) cact" where
  "ask_revoke env t r s =
    (case rm_revoke (cv_remote env) t r (pc_remote s) of
       (x, w) \<Rightarrow> (Inr x, s\<lparr>pc_remote := w, pc_log := Revocation r x # pc_log s\<rparr>))"

definition ask_probe :: "'w client_env \<Rightarrow> target \<Rightarrow> ('w, remote_failure option) cact" where
  "ask_probe env t s =
    (case rm_probe (cv_remote env) t (pc_remote s) of
       (x, w) \<Rightarrow> (Inr x, s\<lparr>pc_remote := w, pc_log := Probe t x # pc_log s\<rparr>))"

section \<open>Records\<close>

definition client_path :: "string \<Rightarrow> string \<Rightarrow> string" where
  "client_path name f = path_clean (''pairings/'' @ name @ ''/'' @ f @ ''.json'')"

definition seed_path :: "string \<Rightarrow> string" where
  "seed_path name = path_clean (''pairings/'' @ name @ ''/preparation/seed'')"

definition key_placeholder :: string where
  "key_placeholder = ''ssh-ed25519 AAAAC3NzaC1lZDI1NTE5AAAAIAAAAAAAAAAAAAAAAAAAAAAAAAAAAAAAAAAAAAAAAAAA''"

definition read_document :: "'w client_env \<Rightarrow> string \<Rightarrow> (json option \<Rightarrow> err + 'a) \<Rightarrow> ('w, 'a) cact" where
  "read_document env relative reader =
    andthen (on_store (read_durable (cv_disk env) (cv_root env) relative max_pair_document)) (\<lambda>data.
      of_res (strict_document (cv_lib env) reader data))"

definition pending_conflict :: "ctl_lib \<Rightarrow> string \<Rightarrow> pair_pending \<Rightarrow> bool" where
  "pending_conflict lib name p \<longleftrightarrow> pp_schema_version p \<noteq> 1 \<or> pp_name p \<noteq> name \<or> ei_schema_version (pp_intent p) \<noteq> 1
     \<or> \<not> id_pattern (ei_pair_id (pp_intent p)) \<or> \<not> id_pattern (ei_operation_id (pp_intent p))
     \<or> ei_offer_hash (pp_intent p) \<noteq> offer_digest lib (pp_offer p) \<or> ei_expires (pp_intent p) \<noteq> ho_expires (pp_offer p)"

definition intent_refusal :: "ctl_lib \<Rightarrow> string \<Rightarrow> pair_pending \<Rightarrow> err option" where
  "intent_refusal lib name p =
    first_err
     [check (pending_conflict lib name p) ''conflicting pairing intent'',
      validate_offer lib (pp_offer p),
      (case canonical_public_key (ei_public_key (pp_intent p)) of Inl e \<Rightarrow> Some e | Inr k \<Rightarrow> None)]"

definition client_read :: "'w client_env \<Rightarrow> string \<Rightarrow> ('w, pair_pending) cact" where
  "client_read env name =
    then_do (refuse (validate_target_name name))
    (andthen (read_document env (client_path name ''intent'') (decode_pending (cv_lib env))) (\<lambda>p.
      then_do (refuse (intent_refusal (cv_lib env) name p)) (ret p)))"

definition preparation_refusal :: "ctl_lib \<Rightarrow> string \<Rightarrow> pair_pending \<Rightarrow> err option" where
  "preparation_refusal lib name p =
    first_err
     [check (pending_conflict lib name p \<or> ei_public_key (pp_intent p) \<noteq> key_placeholder) ''conflicting pairing preparation'',
      validate_offer lib (pp_offer p)]"

definition read_preparation :: "'w client_env \<Rightarrow> string \<Rightarrow> ('w, pair_pending) cact" where
  "read_preparation env name =
    then_do (refuse (validate_target_name name))
    (andthen (read_document env (client_path name ''preparation'') (decode_pending (cv_lib env))) (\<lambda>p.
      then_do (refuse (preparation_refusal (cv_lib env) name p)) (ret p)))"

definition read_receipt :: "'w client_env \<Rightarrow> pair_pending \<Rightarrow> ('w, enrollment_receipt) cact" where
  "read_receipt env p =
    andthen (read_document env (client_path (pp_name p) ''receipt'') (decode_enrollment (cv_lib env))) (\<lambda>r.
      then_do (refuse (case match_receipt (cv_lib env) p r of Inl e \<Rightarrow> Some e | Inr t \<Rightarrow> None)) (ret r))"

definition revocation_ok :: "revocation \<Rightarrow> bool" where
  "revocation_ok r \<longleftrightarrow> rc_schema_version r = 1 \<and> id_pattern (rc_pair_id r)
     \<and> (rc_host r = ''revoked'' \<and> (case rc_result r of None \<Rightarrow> False
          | Some x \<Rightarrow> rv_schema_version x = 1 \<and> rv_pair_id x = rc_pair_id r \<and> rv_state x = ''revoked'')
        \<or> rc_host r = ''already-rejected'' \<and> rc_result r = None)"

definition read_revocation :: "'w client_env \<Rightarrow> string \<Rightarrow> ('w, revocation) cact" where
  "read_revocation env name =
    andthen (read_document env (client_path name ''revocation'') decode_revocation) (\<lambda>r.
      then_do (refuse (check (\<not> revocation_ok r) ''invalid revocation record'')) (ret r))"

text \<open>Publish, then read what won.\<close>

definition publish_then_read :: "'w client_env \<Rightarrow> string \<Rightarrow> string \<Rightarrow> ('w, 'a) cact \<Rightarrow> ('w, 'a) cact" where
  "publish_then_read env relative data reader =
    andthen (attempt (on_store (private_publish (cv_disk env) (cv_root env) relative data False))) (\<lambda>published.
    andthen (attempt reader) (\<lambda>read.
      case (read, published) of
        (Inl e, Inl p) \<Rightarrow> fail p
      | (Inl e, Inr u) \<Rightarrow> fail e
      | (Inr x, _) \<Rightarrow> ret x))"

definition publish_revocation :: "'w client_env \<Rightarrow> string \<Rightarrow> revocation \<Rightarrow> ('w, revocation) cact" where
  "publish_revocation env name r =
    publish_then_read env (client_path name ''revocation'') (render (revocation_json r)) (read_revocation env name)"

section \<open>Preparation\<close>

definition same_intent :: "enrollment_intent \<Rightarrow> enrollment_intent \<Rightarrow> bool" where
  "same_intent l r \<longleftrightarrow> ei_schema_version l = ei_schema_version r \<and> ei_pair_id l = ei_pair_id r
     \<and> ei_operation_id l = ei_operation_id r \<and> ei_offer_hash l = ei_offer_hash r \<and> ei_public_key l = ei_public_key r
     \<and> ei_expires l = ei_expires r"

definition without_key :: "enrollment_intent \<Rightarrow> enrollment_intent" where
  "without_key i = i\<lparr>ei_public_key := key_placeholder\<rparr>"

definition reserve_name :: "'w client_env \<Rightarrow> string \<Rightarrow> host_offer \<Rightarrow> ('w, pair_pending) cact" where
  "reserve_name env name offer =
    (let lib = cv_lib env in
     andthen (andthen (look (cv_random env)) of_res) (\<lambda>ids.
     let intent = \<lparr>ei_schema_version = 1, ei_pair_id = hex_text (take 16 ids), ei_operation_id = hex_text (drop 16 ids),
           ei_offer_hash = offer_digest lib offer, ei_public_key = key_placeholder, ei_expires = ho_expires offer\<rparr>;
         candidate = \<lparr>pp_schema_version = 1, pp_name = name, pp_offer = offer, pp_intent = intent\<rparr> in
     andthen (of_res (pending_json lib candidate)) (\<lambda>v.
     then_do (refuse (check (max_pair_document < length (render v)) ''private record exceeds size limit''))
     (andthen (publish_then_read env (client_path name ''preparation'') (render v) (read_preparation env name)) (\<lambda>winner.
      then_do (refuse (check (ei_offer_hash (pp_intent winner) \<noteq> ei_offer_hash intent) ''name already has a different pairing preparation''))
       (ret winner))))))"

text \<open>\<open>sshkey.Reserved\<close> with its first checks.\<close>

definition reserved_key :: "'w client_env \<Rightarrow> string \<Rightarrow> bool \<Rightarrow> ('w, reserved_key) cact" where
  "reserved_key env name create =
    then_do (refuse (check (cv_windows env) ''SSH credential generation and reading are unsupported on Windows''))
    (then_do (client_context env)
     (on_store (reserved (cv_keys env) (cv_disk env) (cv_root env) (seed_path name) create)))"

definition retained_intent :: "pair_pending \<Rightarrow> err + pair_pending \<Rightarrow> err option" where
  "retained_intent reservation r =
    (case r of
       Inr existing \<Rightarrow> check (\<not> same_intent (without_key (pp_intent existing)) (pp_intent reservation)) ''intent conflicts with retained preparation''
     | Inl e \<Rightarrow> if err_is e NotExist then None else Some e)"

definition prepare_reserved :: "'w client_env \<Rightarrow> pair_pending \<Rightarrow> ('w, enrollment_intent) cact" where
  "prepare_reserved env reservation =
    (let lib = cv_lib env; name = pp_name reservation in
     then_do (client_at env ''reservation'')
     (andthen (attempt (client_read env name)) (\<lambda>existing.
      then_do (refuse (retained_intent reservation existing))
      (andthen (reserved_key env name (case existing of Inl e \<Rightarrow> err_is e NotExist | Inr x \<Rightarrow> False)) (\<lambda>key.
       then_do (client_at env ''seed'')
       (let expected = reservation\<lparr>pp_intent := (pp_intent reservation)\<lparr>ei_public_key := rk_public_key key\<rparr>\<rparr> in
        then_do (refuse (case existing of Inl e \<Rightarrow> None
          | Inr x \<Rightarrow> check (\<not> same_intent (pp_intent x) (pp_intent expected)) ''intent conflicts with retained preparation key''))
        (andthen (of_res (pending_json lib expected)) (\<lambda>v.
         andthen (publish_then_read env (client_path name ''intent'') (render v) (client_read env name)) (\<lambda>durable.
         then_do (refuse (check (\<not> same_intent (pp_intent durable) (pp_intent expected)) ''intent conflicts with retained preparation key''))
         (then_do (client_at env ''intent'')
         (then_do (client_context env)
         (then_do (on_store (key_publish (cv_keys env) (cv_disk env) key (cv_root env)))
         (then_do (client_at env ''credential'')
          (ret (pp_intent durable)))))))))))))))"

definition pair_prepare :: "'w client_env \<Rightarrow> string \<Rightarrow> trusted_offer \<Rightarrow> ('w, enrollment_intent) cact" where
  "pair_prepare env name trusted =
    (case trusted of TrustedOffer offer \<Rightarrow>
     let lib = cv_lib env in
     then_do (refuse (check (cv_windows env) ''SSH credential preparation is unsupported on Windows until private ACL ownership is enforced''))
     (then_do (refuse (validate_target_name name))
     (then_do (refuse (validate_offer lib offer))
     (andthen (look (cv_now env)) (\<lambda>now.
     then_do (refuse (check (ho_expires offer \<le> now) ''host offer expired''))
     (then_do (client_context env)
     (andthen (attempt (client_read env name)) (\<lambda>existing.
      case existing of
        Inr p \<Rightarrow>
          then_do (refuse (check (ei_offer_hash (pp_intent p) \<noteq> offer_digest lib offer) ''name already has a different pairing intent''))
          (andthen (read_preparation env name) (prepare_reserved env))
      | Inl e \<Rightarrow>
          if \<not> err_is e NotExist then fail e
          else
            andthen (attempt (on_store (store_show (cl_target lib) (cv_disk env) (cv_root env) name))) (\<lambda>shown.
              case shown of
                Inr t \<Rightarrow> fail (Msg ''target name already exists'')
              | Inl x \<Rightarrow>
                  if \<not> err_is x NotExist then fail x
                  else andthen (reserve_name env name offer) (prepare_reserved env))))))))))"

definition verify_credential :: "'w client_env \<Rightarrow> pair_pending \<Rightarrow> ('w, unit) cact" where
  "verify_credential env p =
    andthen (read_preparation env (pp_name p)) (\<lambda>reservation.
    then_do (refuse (check (\<not> same_intent (without_key (pp_intent p)) (pp_intent reservation)) ''intent conflicts with retained preparation''))
    (andthen (reserved_key env (pp_name p) False) (\<lambda>key.
     then_do (refuse (check (rk_public_key key \<noteq> ei_public_key (pp_intent p)) ''intent conflicts with retained preparation key''))
      (on_store (key_verify (cv_keys env) (cv_disk env) key (cv_root env))))))"

section \<open>Completion\<close>

definition retain_receipt :: "'w client_env \<Rightarrow> string \<Rightarrow> string \<Rightarrow> ('w, unit) cact" where
  "retain_receipt env name encoded =
    andthen (attempt (on_store (private_publish (cv_disk env) (cv_root env) (client_path name ''receipt'') encoded False))) (\<lambda>r.
      case r of
        Inr u \<Rightarrow> skip
      | Inl e \<Rightarrow>
          if \<not> err_is e Exist then fail e
          else andthen (on_store (read_durable (cv_disk env) (cv_root env) (client_path name ''receipt'') max_pair_document)) (\<lambda>existing.
            refuse (check (existing \<noteq> encoded) ''pairing already has a different receipt'')))"

definition save_paired :: "'w client_env \<Rightarrow> string \<Rightarrow> target \<Rightarrow> ('w, target) cact" where
  "save_paired env name expected =
    (let lib = cl_target (cv_lib env) in
     andthen (attempt (on_store (store_save lib (cv_disk env) (cv_root env) name expected False))) (\<lambda>r.
       case r of
         Inr selected \<Rightarrow> ret selected
       | Inl e \<Rightarrow>
           if \<not> err_is e Exist then fail (Wrap ''receipt retained; target publication unresolved'' e)
           else andthen (attempt (on_store (store_show_durable lib (cv_disk env) (cv_root env) name))) (\<lambda>shown.
             case shown of
               Inl x \<Rightarrow> fail (Wrap ''receipt retained; target publication unresolved'' x)
             | Inr existing \<Rightarrow>
                 if target_fingerprint lib existing = target_fingerprint lib expected then ret existing
                 else fail (Msg ''receipt retained; target publication conflicts with existing target''))))"

definition pair_complete :: "'w client_env \<Rightarrow> string \<Rightarrow> trusted_receipt \<Rightarrow> ('w, target) cact" where
  "pair_complete env name trusted =
    (case trusted of TrustedReceipt receipt \<Rightarrow>
     andthen (client_read env name) (\<lambda>p.
     andthen (of_res (match_receipt (cv_lib env) p receipt)) (\<lambda>expected.
     then_do (verify_credential env p)
     (andthen (of_res (enrollment_json (cv_lib env) receipt)) (\<lambda>v.
      then_do (retain_receipt env name (render v)) (save_paired env name expected))))))"

section \<open>Inspection\<close>

record pair_view =
  pv_schema_version :: int
  pv_pair_id :: string
  pv_access :: string
  pv_readiness :: string
  pv_next :: string

definition view_of :: "string \<Rightarrow> string \<Rightarrow> string \<Rightarrow> pair_view" where
  "view_of i access next =
    \<lparr>pv_schema_version = 1, pv_pair_id = i, pv_access = access, pv_readiness = ''unchecked'', pv_next = next\<rparr>"

definition preparation_view :: "string \<Rightarrow> pair_view" where
  "preparation_view i = view_of i ''preparation-pending'' ''repeat preparation with the original trusted host offer''"

text \<open>The view of an intent whose credential could not be verified.\<close>

definition unverified_view :: "'w client_env \<Rightarrow> string \<Rightarrow> pair_pending \<Rightarrow> err \<Rightarrow> ('w, pair_view) cact" where
  "unverified_view env name p e =
    (let i = ei_pair_id (pp_intent p);
         conflict = ret (view_of i ''conflict'' ''restore the original client credential from an authorized source'') in
     if \<not> err_is e NotExist then conflict
     else andthen (attempt (read_preparation env name)) (\<lambda>reservation.
       case reservation of
         Inl x \<Rightarrow> conflict
       | Inr y \<Rightarrow> andthen (attempt (reserved_key env name False)) (\<lambda>key.
           case key of
             Inl x \<Rightarrow> conflict
           | Inr k \<Rightarrow> if rk_public_key k = ei_public_key (pp_intent p) then ret (preparation_view i) else conflict)))"

definition intent_view :: "'w client_env \<Rightarrow> string \<Rightarrow> pair_pending \<Rightarrow> ('w, pair_view) cact" where
  "intent_view env name p =
    (let lib = cl_target (cv_lib env); i = ei_pair_id (pp_intent p) in
     andthen (attempt (verify_credential env p)) (\<lambda>verified.
       case verified of
         Inl e \<Rightarrow> unverified_view env name p e
       | Inr u \<Rightarrow>
           andthen (attempt (read_receipt env p)) (\<lambda>accepted.
             case accepted of
               Inl e \<Rightarrow>
                 if err_is e NotExist
                 then ret (view_of i ''prepared-unconfirmed'' ''retain request and key; import the trusted host enrollment receipt'')
                 else fail e
             | Inr receipt \<Rightarrow>
                 andthen (attempt (on_store (store_show_durable lib (cv_disk env) (cv_root env) name))) (\<lambda>shown.
                   case shown of
                     Inl e \<Rightarrow>
                       if err_is e NotExist
                       then ret (view_of i ''enrolled-publication-pending'' ''repeat completion with the original trusted receipt'')
                       else fail e
                   | Inr selected \<Rightarrow>
                       ret (if target_fingerprint lib selected = target_fingerprint lib (er_target receipt)
                         then view_of i ''enrolled'' ''run doctor with this target and the intended Scenario payload''
                         else view_of i ''conflict'' ''named target differs; preserve retained pairing state'')))))"

definition pair_inspect :: "'w client_env \<Rightarrow> string \<Rightarrow> ('w, pair_view) cact" where
  "pair_inspect env name =
    then_do (refuse (validate_target_name name))
    (andthen (attempt (read_revocation env name)) (\<lambda>revoked.
      case revoked of
        Inr r \<Rightarrow>
          andthen (attempt (on_store (read_durable (cv_disk env) (cv_root env) (client_path name ''receipt'') max_pair_document))) (\<lambda>receipt.
            ret (case receipt of
                Inl e \<Rightarrow> if err_is e NotExist
                   then view_of (rc_pair_id r) ''forget-pending'' ''repeat pair forget to finish removing local state''
                   else view_of (rc_pair_id r) ''revocation-pending'' ''repeat pair revoke to prove a fresh paired connection is rejected''
              | Inr data \<Rightarrow> view_of (rc_pair_id r) ''revocation-pending'' ''repeat pair revoke to prove a fresh paired connection is rejected''))
      | Inl e \<Rightarrow>
          if \<not> err_is e NotExist then fail e
          else andthen (attempt (client_read env name)) (\<lambda>existing.
            case existing of
              Inr p \<Rightarrow> intent_view env name p
            | Inl x \<Rightarrow>
                if \<not> err_is x NotExist then fail x
                else andthen (attempt (read_preparation env name)) (\<lambda>reservation.
                  case reservation of
                    Inr y \<Rightarrow> ret (preparation_view (ei_pair_id (pp_intent y)))
                  | Inl z \<Rightarrow>
                      if err_is z NotExist
                      then ret (view_of '''' ''none'' ''no local pairing state; prepare a pairing from a trusted host offer'')
                      else fail z))))"

section \<open>Forgetting\<close>

record forget_result =
  fr_schema_version :: int
  fr_pair_id :: string
  fr_remote_access :: string
  fr_next :: string

definition host_command :: "target \<Rightarrow> string \<Rightarrow> string \<Rightarrow> string" where
  "host_command installed operation i =
    (let root = if tg_platform installed = ''linux'' then lt_work_root (tg_linux installed) else wt_work_root (tg_windows installed) in
     ''blender-box pair '' @ operation @ '' --state-root '' @ root @ '' --pair '' @ i @ (if operation = ''revoke'' then '' --apply'' else ''''))"

text \<open>What \<open>forget\<close> will report; the revocation record is missing when its pair id is empty.\<close>

definition forget_report :: "pair_pending \<Rightarrow> bool \<Rightarrow> enrollment_receipt option \<Rightarrow> revocation \<Rightarrow> forget_result" where
  "forget_report p exported receipt r =
    (let i = ei_pair_id (pp_intent p);
         shown = (if rc_pair_id r \<noteq> '''' then rc_pair_id r else i) in
     if rc_host r = ''revoked'' then \<lparr>fr_schema_version = 1, fr_pair_id = shown, fr_remote_access = ''revoked'', fr_next = ''''\<rparr>
     else case receipt of
         Some x \<Rightarrow> \<lparr>fr_schema_version = 1, fr_pair_id = shown, fr_remote_access = ''not-revoked'',
            fr_next = ''remove the key on the host with `'' @ host_command (ho_installed (pp_offer p)) ''revoke'' (er_pair_id x) @ ''`''\<rparr>
       | None \<Rightarrow>
           if exported then \<lparr>fr_schema_version = 1, fr_pair_id = shown, fr_remote_access = ''unconfirmed'',
              fr_next = ''the host may have applied the enrollment request; check with `'' @ host_command (ho_installed (pp_offer p)) ''status'' i @ ''`''\<rparr>
           else \<lparr>fr_schema_version = 1, fr_pair_id = shown, fr_remote_access = ''none'', fr_next = ''''\<rparr>)"

definition forget_target :: "'w client_env \<Rightarrow> string \<Rightarrow> enrollment_receipt \<Rightarrow> unit dact" where
  "forget_target env name receipt =
    (let lib = cl_target (cv_lib env) in
     tolerate_missing (andthen (store_show_durable lib (cv_disk env) (cv_root env) name) (\<lambda>saved.
       if target_fingerprint lib saved = target_fingerprint lib (er_target receipt)
       then andthen (store_forget lib (cv_disk env) (cv_root env) name) (\<lambda>t. skip)
       else skip)))"

definition forget_records :: "'w client_env \<Rightarrow> string \<Rightarrow> unit dact" where
  "forget_records env name =
    (let de = cv_disk env; root = cv_root env in
     each tolerate_missing
      [private_remove de root (client_path name ''intent'') max_pair_document,
       private_remove de root (client_path name ''preparation'') max_pair_document,
       private_remove de root (seed_path name) max_pair_document,
       remove_directory de root (path_dir (seed_path name)),
       private_remove de root (client_path name ''revocation'') max_pair_document])"

definition forget_local :: "'w client_env \<Rightarrow> string \<Rightarrow> pair_pending \<Rightarrow> bool \<Rightarrow> enrollment_receipt option \<Rightarrow> revocation \<Rightarrow> ('w, forget_result) cact" where
  "forget_local env name p exported receipt r =
    (let de = cv_disk env; root = cv_root env in
     then_do (case receipt of None \<Rightarrow> skip | Some x \<Rightarrow> on_store (forget_target env name x))
     (then_do (on_store (tolerate_missing (private_remove de root (client_path name ''receipt'') max_pair_document)))
     (then_do (if exported
        then andthen (of_res (key_fingerprint (tl_sha (cl_target (cv_lib env))) (ei_public_key (pp_intent p)))) (\<lambda>fp. on_store (key_remove de root fp))
        else skip)
     (then_do (on_store (forget_records env name))
     (andthen (attempt (on_store (remove_directory de root (path_clean (''pairings/'' @ name))))) (\<lambda>removed.
      case removed of
        Inl e \<Rightarrow> if err_is e NotExist then fail (Wrap ''no local pairing state'' e) else fail (Wrap ''remove pairing directory'' e)
      | Inr u \<Rightarrow> ret (forget_report p exported receipt r)))))))"

definition zero_revocation :: revocation where
  "zero_revocation = \<lparr>rc_schema_version = 0, rc_pair_id = '''', rc_host = '''', rc_result = None\<rparr>"

definition zero_pending :: pair_pending where
  "zero_pending = \<lparr>pp_schema_version = 0, pp_name = '''',
     pp_offer = \<lparr>ho_schema_version = 0, ho_bootstrap_id = '''', ho_expires = 0, ho_platform = '''',
       ho_connection = \<lparr>sv_host = '''', sv_port = 0, sv_user = '''', sv_host_public_key = ''''\<rparr>, ho_installed = zero_target,
       ho_installation_id = '''', ho_root_identity = '''', ho_account_identity = ''''\<rparr>,
     pp_intent = \<lparr>ei_schema_version = 0, ei_pair_id = '''', ei_operation_id = '''', ei_offer_hash = '''', ei_public_key = '''', ei_expires = 0\<rparr>\<rparr>"

text \<open>A record that may be missing.\<close>

definition if_there :: "('w, 'a) cact \<Rightarrow> ('w, 'a option) cact" where
  "if_there m = andthen (attempt m) (\<lambda>r. case r of Inl e \<Rightarrow> if err_is e NotExist then ret None else fail e | Inr a \<Rightarrow> ret (Some a))"

definition pair_forget :: "'w client_env \<Rightarrow> string \<Rightarrow> bool \<Rightarrow> ('w, forget_result) cact" where
  "pair_forget env name keep_remote_access =
    then_do (client_context env)
    (andthen (if_there (client_read env name)) (\<lambda>existing.
     andthen (case existing of Some p \<Rightarrow> ret p
       | None \<Rightarrow> andthen (if_there (read_preparation env name)) (\<lambda>x. ret (case x of None \<Rightarrow> zero_pending | Some y \<Rightarrow> y))) (\<lambda>p.
     andthen (case existing of None \<Rightarrow> ret None | Some y \<Rightarrow> if_there (read_receipt env p)) (\<lambda>receipt.
     andthen (if_there (read_revocation env name)) (\<lambda>revoked.
      let r = (case revoked of None \<Rightarrow> zero_revocation | Some x \<Rightarrow> x) in
      then_do (refuse (check (receipt \<noteq> None \<and> rc_host r \<noteq> ''revoked'' \<and> \<not> keep_remote_access) ''pair still has accepted remote access''))
        (forget_local env name p (existing \<noteq> None) receipt r))))))"

section \<open>Revocation\<close>

record revoke_outcome =
  ro_schema_version :: int
  ro_pair_id :: string
  ro_state :: string
  ro_host :: string
  ro_failure :: string
  ro_next :: string

text \<open>What the host answered, or an outcome that ends the attempt with an error.\<close>

definition confirm_revocation :: "'w client_env \<Rightarrow> string \<Rightarrow> pair_pending \<Rightarrow> enrollment_receipt \<Rightarrow> ('w, (revoke_outcome \<times> err) + revocation) cact" where
  "confirm_revocation env name p receipt =
    (let i = er_pair_id receipt;
         fp = (case key_fingerprint (tl_sha (cl_target (cv_lib env))) (er_public_key receipt) of Inl e \<Rightarrow> '''' | Inr x \<Rightarrow> x) in
     andthen (ask_revoke env (er_target receipt) \<lparr>rq_schema = 1, rq_pair_id = i, rq_key_hash = fp\<rparr>) (\<lambda>answer.
       case answer of
         Inr result \<Rightarrow>
           andthen (publish_revocation env name \<lparr>rc_schema_version = 1, rc_pair_id = i, rc_host = ''revoked'', rc_result = Some result\<rparr>) (\<lambda>r. ret (Inr r))
       | Inl f \<Rightarrow>
           if rf_class f = ''auth-rejected''
           then andthen (publish_revocation env name \<lparr>rc_schema_version = 1, rc_pair_id = i, rc_host = ''already-rejected'', rc_result = None\<rparr>) (\<lambda>r. ret (Inr r))
           else ret (Inl (\<lparr>ro_schema_version = 1, ro_pair_id = i, ro_state = ''unconfirmed'', ro_host = '''', ro_failure = rf_class f,
                 ro_next = ''retry pair revoke '' @ name @ '' once the host is reachable, or remove the key on the host with `''
                   @ host_command (ho_installed (pp_offer p)) ''revoke'' i @ ''`''\<rparr>,
               Wrap ''revocation unconfirmed; local pairing state kept'' (rf_err f)))))"

text \<open>The proof with a fresh connection, and what follows from it.\<close>

definition prove_rejection :: "'w client_env \<Rightarrow> string \<Rightarrow> pair_pending \<Rightarrow> enrollment_receipt \<Rightarrow> revocation \<Rightarrow> ('w, revoke_outcome \<times> err option) cact" where
  "prove_rejection env name p receipt r =
    (let i = er_pair_id receipt;
         outcome = \<lparr>ro_schema_version = 1, ro_pair_id = i, ro_state = '''', ro_host = rc_host r, ro_failure = '''', ro_next = ''''\<rparr> in
     andthen (ask_probe env (er_target receipt)) (\<lambda>answer.
       case answer of
         None \<Rightarrow>
           ret (outcome\<lparr>ro_state := ''host-revoked-unconfirmed'',
               ro_next := ''check the host for another authorized copy of this key, then repeat pair revoke '' @ name\<rparr>,
             Some (Msg ''host reported revocation but a fresh paired connection still authenticates; local pairing state kept''))
       | Some f \<Rightarrow>
           if rf_class f = ''auth-rejected'' then
             andthen (attempt (forget_local env name p True (Some receipt) r)) (\<lambda>forgotten.
               case forgotten of
                 Inl e \<Rightarrow> fail (Wrap ''fresh paired connection rejected; local cleanup incomplete'' e)
               | Inr x \<Rightarrow>
                   ret (if rc_host r = ''already-rejected''
                     then outcome\<lparr>ro_state := ''key-rejected'',
                       ro_next := ''the host returned no revocation result in this attempt, but a fresh paired connection is rejected; confirm on the host with `''
                         @ host_command (ho_installed (pp_offer p)) ''status'' i @ ''`''\<rparr>
                     else outcome\<lparr>ro_state := ''revoked''\<rparr>, None))
           else
             ret (outcome\<lparr>ro_state := ''host-revoked-unconfirmed'', ro_failure := rf_class f,
                 ro_next := ''repeat pair revoke '' @ name @ ''; only the fresh-connection rejection check repeats''\<rparr>,
               Some (Wrap ''fresh paired connection not proven rejected; local pairing state kept'' (rf_err f)))))"

definition client_revoke :: "'w client_env \<Rightarrow> string \<Rightarrow> ('w, revoke_outcome \<times> err option) cact" where
  "client_revoke env name =
    andthen (client_read env name) (\<lambda>p.
    andthen (attempt (read_receipt env p)) (\<lambda>accepted.
      case accepted of
        Inl e \<Rightarrow> if err_is e NotExist then fail (Msg ''pairing has no accepted enrollment receipt; run pair forget'') else fail e
      | Inr receipt \<Rightarrow>
          andthen (if_there (read_revocation env name)) (\<lambda>existing.
          andthen (case existing of Some r \<Rightarrow> ret (Inr r) | None \<Rightarrow> confirm_revocation env name p receipt) (\<lambda>x.
            case x of
              Inl (outcome, e) \<Rightarrow> ret (outcome, Some e)
            | Inr r \<Rightarrow>
                then_do (refuse (check (rc_pair_id r \<noteq> er_pair_id receipt) ''revocation record names a different pair''))
                  (prove_rejection env name p receipt r)))))"

end
