(* ===== verification/HostMaintenance.thy ===== *)
theory HostMaintenance
  imports HostGuarantees
begin

text \<open>
  \<open>internal/host/maintenance.go\<close> and \<open>setup_maintenance.go\<close>: changes of the host that are not part of a
  Run, such as pairing and setup, happen under the operation lock and the launch lock, and only after
  an inspection has found no Run that is active or unresolved. The names that \<open>os.ReadDir\<close> returns
  are arguments: those of \<open>runs\<close> and those of \<open>receipts\<close>. A receipt that holds a key twice is a
  \<open>Damaged\<close> one.
\<close>

record maintenance_env =
  mt_host :: host_env
  mt_runs :: "host_state \<Rightarrow> string list"
  mt_receipts :: "host_state \<Rightarrow> string list"

section \<open>The claim of a setup\<close>

definition setup_claim_validate :: "setup_claim \<Rightarrow> err option" where
  "setup_claim_validate c =
    first_err
     [check (\<not> tagged_run ''bbxi_'' hex_char 32 32 (su_installation_id c) \<or> \<not> tagged_run ''bbxo_'' hex_char 32 32 (su_operation_id c)
        \<or> \<not> tagged_run ''bbxe_'' hex_char 32 32 (su_execution_token c) \<or> \<not> hex64 (su_request_sha256 c))
        ''invalid pending setup identity'',
      check (su_schema_version c \<noteq> 1 \<or> su_root_identity c = '''' \<or> su_owner_sid c = '''' \<or> su_deadline c = 0)
        ''invalid pending setup claim'']"

definition read_setup_claim :: "host_env \<Rightarrow> setup_claim hact" where
  "read_setup_claim env =
    andthen (lstat env (\<lambda>s. hs_setup s \<noteq> Absent)) (\<lambda>there.
      if \<not> there then fail NotExist
      else andthen (read_json env hs_setup) (\<lambda>claim.
        then_do (refuse (setup_claim_validate claim)) (ret claim)))"

definition inspect_setup_claim :: "host_env \<Rightarrow> setup_claim option \<Rightarrow> unit hact" where
  "inspect_setup_claim env ours =
    (case ours of
       None \<Rightarrow> reject_pending_setup env
     | Some mine \<Rightarrow>
         then_do (refuse (setup_claim_validate mine))
         (andthen (read_setup_claim env) (\<lambda>current.
           if current \<noteq> mine then fail (Msg ''pending setup execution changed'') else skip)))"

definition publish_setup_claim :: "host_env \<Rightarrow> setup_claim \<Rightarrow> unit hact" where
  "publish_setup_claim env claim =
    then_do (refuse (setup_claim_validate claim))
      (io env (\<lambda>s. if hs_setup s \<noteq> Absent then (Inl Exist, s) else (Inr (), s\<lparr>hs_setup := Stored claim\<rparr>)))"

definition clear_setup_claim :: "host_env \<Rightarrow> setup_claim \<Rightarrow> unit hact" where
  "clear_setup_claim env claim =
    then_do (inspect_setup_claim env (Some claim)) (save env (\<lambda>s. s\<lparr>hs_setup := Absent\<rparr>))"

section \<open>The inspection\<close>

definition max_authorities :: nat where "max_authorities = 4096"

definition inspect_receipt :: "host_env \<Rightarrow> string \<Rightarrow> unit hact" where
  "inspect_receipt env name =
    (if \<not> has_suffix name ''.json'' then fail (Msg ''unknown Run receipt'')
     else let run = take (length name - 5) name in
       andthen (read_json env (\<lambda>s. hs_receipts s run)) (\<lambda>r.
         then_do (refuse (check (rr_schema_version r \<noteq> 1 \<or> claim_validate (rr_claim r) \<noteq> None
             \<or> name \<noteq> lc_run_id (rr_claim r) @ ''.json'' \<or> \<not> cleanup_known (rr_cleanup r) \<or> \<not> terminal (rr_state r))
             ''unresolved Run receipt''))
          (refuse (check (rr_session_id r \<noteq> '''' \<and> session_id_validate (rr_session_id r) \<noteq> None) ''invalid Session identity''))))"

definition inspect_setup_maintenance :: "maintenance_env \<Rightarrow> setup_claim option \<Rightarrow> unit hact" where
  "inspect_setup_maintenance env ours =
    (let h = mt_host env in
     then_do (inspect_setup_claim h ours)
     (andthen (lstat h (\<lambda>s. hs_lock s \<noteq> Absent)) (\<lambda>locked.
      if locked then fail (Msg ''active or unresolved host authority: host-lock.json'')
      else andthen (lstat h (\<lambda>s. hs_pending s \<noteq> Absent)) (\<lambda>pending.
        if pending then fail (Msg ''active or unresolved host authority: pending-request.json'')
        else andthen (io h (look (mt_runs env))) (\<lambda>runs.
          then_do (refuse (check (max_authorities < length runs) ''excessive retained Run authority''))
          (then_do (refuse (check (runs \<noteq> []) ''active or unresolved Run root''))
          (andthen (io h (look (mt_receipts env))) (\<lambda>names.
            then_do (refuse (check (max_authorities < length names) ''excessive retained Run authority''))
             (each (inspect_receipt h) names)))))))))"

text \<open>\<open>tryAcquireLaunch\<close> with the check of its answer, and the release. A lock that could not be tried
  is not held.\<close>

definition try_launch :: "host_env \<Rightarrow> bool hact" where
  "try_launch env =
    then_do (io env (ret ())) (\<lambda>s. if hs_launch s then (Inr False, s) else (Inr True, s\<lparr>hs_launch := True\<rparr>))"

definition hold_launch :: "host_env \<Rightarrow> unit hact" where
  "hold_launch env = andthen (try_launch env) (\<lambda>acquired. if acquired then skip else fail (Msg ''launch-in-progress''))"

definition release_launch :: "unit hact" where
  "release_launch = change (\<lambda>s. s\<lparr>hs_launch := False\<rparr>)"

text \<open>An operation of the host inside a larger component, which keeps the host's state in a part of its
  own.\<close>

definition on_host :: "('s \<Rightarrow> host_state) \<Rightarrow> (host_state \<Rightarrow> 's \<Rightarrow> 's) \<Rightarrow> 'a hact \<Rightarrow> ('s, 'a) act" where
  "on_host get put m s = (case m (get s) of (r, h) \<Rightarrow> (r, put h s))"

definition enter_maintenance :: "maintenance_env \<Rightarrow> unit hact" where
  "enter_maintenance env = then_do (io (mt_host env) (ret ())) (then_do (acquire_operation (mt_host env)) (hold_launch (mt_host env)))"

text \<open>\<open>WithSetupMaintenance\<close> and \<open>WithMaintenance\<close>.\<close>

definition with_setup_maintenance :: "('s \<Rightarrow> host_state) \<Rightarrow> (host_state \<Rightarrow> 's \<Rightarrow> 's) \<Rightarrow> maintenance_env \<Rightarrow> setup_claim option
    \<Rightarrow> ('s, 'a) act \<Rightarrow> ('s, 'a) act" where
  "with_setup_maintenance get put env ours action =
    then_do (on_host get put (enter_maintenance env))
     (ensuring (then_do (on_host get put (inspect_setup_maintenance env ours)) action) (on_host get put release_launch))"

definition with_maintenance :: "('s \<Rightarrow> host_state) \<Rightarrow> (host_state \<Rightarrow> 's \<Rightarrow> 's) \<Rightarrow> maintenance_env \<Rightarrow> ('s, 'a) act \<Rightarrow> ('s, 'a) act" where
  "with_maintenance get put env action = with_setup_maintenance get put env None action"

section \<open>What the inspection finds\<close>

definition names_present :: "maintenance_env \<Rightarrow> host_state \<Rightarrow> bool" where
  "names_present env s \<longleftrightarrow> (\<forall>t run. hs_roots t = hs_roots s \<longrightarrow> hs_staging t = hs_staging s \<longrightarrow> hs_receipts t = hs_receipts s \<longrightarrow>
     (hs_roots t run \<noteq> NoRoot \<or> hs_staging t run \<noteq> NoRoot \<longrightarrow> mt_runs env t \<noteq> [])
     \<and> (hs_receipts t run \<noteq> Absent \<longrightarrow> run @ ''.json'' \<in> set (mt_receipts env t)))"

lemma names_presentD:
  assumes "names_present env s" and "hs_roots t = hs_roots s" and "hs_staging t = hs_staging s" and "hs_receipts t = hs_receipts s"
  shows "hs_roots t run \<noteq> NoRoot \<or> hs_staging t run \<noteq> NoRoot \<Longrightarrow> mt_runs env t \<noteq> []"
    "hs_receipts t run \<noteq> Absent \<Longrightarrow> run @ ''.json'' \<in> set (mt_receipts env t)"
  using assms unfolding names_present_def by blast+

text \<open>No Run is active: nothing holds the lock, nothing is to be launched, no files of a run are left and
  every receipt is settled.\<close>

definition settled_receipt :: "string \<Rightarrow> run_receipt slot \<Rightarrow> bool" where
  "settled_receipt run f \<longleftrightarrow> (case f of Absent \<Rightarrow> True | Damaged \<Rightarrow> False
     | Stored r \<Rightarrow> lc_run_id (rr_claim r) = run \<and> cleanup_known (rr_cleanup r) \<and> terminal (rr_state r))"

definition idle :: "host_state \<Rightarrow> bool" where
  "idle s \<longleftrightarrow> hs_lock s = Absent \<and> hs_pending s = Absent
     \<and> (\<forall>run. hs_roots s run = NoRoot \<and> hs_staging s run = NoRoot \<and> settled_receipt run (hs_receipts s run))"

text \<open>Everything but the tick is as before.\<close>

definition same_host :: "host_state \<Rightarrow> host_state \<Rightarrow> bool" where
  "same_host s t \<longleftrightarrow> hs_lock t = hs_lock s \<and> hs_pending t = hs_pending s \<and> hs_roots t = hs_roots s \<and> hs_staging t = hs_staging s
     \<and> hs_receipts t = hs_receipts s \<and> hs_setup t = hs_setup s \<and> hs_launch t = hs_launch s \<and> hs_log t = hs_log s"

interpretation unchanged: history same_host
  by unfold_locales (auto simp: same_host_def)

lemma unchanged_io: "(\<And>t. snd (m t) = t) \<Longrightarrow> unchanged.made (io env m) (\<lambda>a t. \<exists>u. fst (m u) = Inr a \<and> same_host u t) s"
  by (auto simp: unchanged.made_def wp_def io_def Let_def same_host_def prod_eq_iff split: fault.split sum.splits prod.splits)

lemma unchanged_look: "unchanged.made (io env (look f)) (\<lambda>a t. \<exists>u. f u = a \<and> same_host u t) s"
  by (rule unchanged.made_weaken[OF unchanged_io]) (auto simp: look_def)

lemma unchanged_lstat: "unchanged.made (lstat env f) (\<lambda>a t. \<exists>u. f u = a \<and> same_host u t) s"
  unfolding lstat_def by (rule unchanged_look)

lemma unchanged_read: "unchanged.made (read_json env f) (\<lambda>a t. \<exists>u. f u = Stored a \<and> same_host u t) s"
  unfolding read_json_def
  by (rule unchanged.made_weaken[OF unchanged_io], simp, elim exE conjE, rename_tac u, case_tac "f u") (auto simp: read_result_def)

lemma unchanged_setup_claim:
  "unchanged.made (inspect_setup_claim env ours) (\<lambda>_ t. hs_setup t = (case ours of None \<Rightarrow> Absent | Some c \<Rightarrow> Stored c)) s"
proof (cases ours)
  case None
  show ?thesis unfolding inspect_setup_claim_def reject_pending_setup_def None option.case
    by (rule unchanged.made_bind[OF unchanged_lstat]) (auto intro!: unchanged.made_control simp: same_host_def)
next
  case (Some c)
  have read: "unchanged.made (read_setup_claim env) (\<lambda>a t. hs_setup t = Stored a) u" for u
    unfolding read_setup_claim_def
    by (rule unchanged.made_bind[OF unchanged_lstat])
      (auto intro!: unchanged.made_control unchanged.made_bind[OF unchanged_read] unchanged.made_check simp: same_host_def)
  show ?thesis unfolding inspect_setup_claim_def Some option.case
    by (rule unchanged.made_check, rule unchanged.made_bind[OF read]) (auto intro!: unchanged.made_control)
qed

lemma json_name: "has_suffix n ''.json'' \<Longrightarrow> n = take (length n - 5) n @ ''.json''"
  by (auto simp: has_suffix_def has_prefix_iff)

lemma unchanged_receipt:
  "unchanged.made (inspect_receipt env name) (\<lambda>_ t. \<forall>run. name = run @ ''.json'' \<longrightarrow> settled_receipt run (hs_receipts t run)) s"
proof (cases "has_suffix name ''.json''")
  case True
  then obtain n where n: "name = n @ ''.json''" by (metis json_name)
  show ?thesis unfolding inspect_receipt_def Let_def
    by (rule unchanged.made_if, rule unchanged.made_control, rule unchanged.made_bind[OF unchanged_read], rule unchanged.made_check,
        rule unchanged.made_refuse) (auto simp: n settled_receipt_def same_host_def split: slot.splits)
qed (auto simp: inspect_receipt_def unchanged.made_control)

lemma same_hostD:
  "same_host s t \<Longrightarrow> hs_lock t = hs_lock s \<and> hs_pending t = hs_pending s \<and> hs_roots t = hs_roots s \<and> hs_staging t = hs_staging s
     \<and> hs_receipts t = hs_receipts s \<and> hs_setup t = hs_setup s \<and> hs_launch t = hs_launch s \<and> hs_log t = hs_log s"
  by (simp add: same_host_def)

lemma unchanged_receipts:
  "unchanged.made (each (inspect_receipt env) names)
    (\<lambda>_ t. \<forall>n\<in>set names. \<forall>run. n = run @ ''.json'' \<longrightarrow> settled_receipt run (hs_receipts t run)) s"
  by (rule unchanged.made_each_all[OF unchanged_receipt]) (auto dest!: same_hostD)

lemma unchanged_inspection:
  assumes "names_present env s"
  shows "unchanged.made (inspect_setup_maintenance env ours)
    (\<lambda>_ t. idle t \<and> hs_setup t = (case ours of None \<Rightarrow> Absent | Some c \<Rightarrow> Stored c)) s"
proof -
  have refuse: "unchanged.made (refuse c) (\<lambda>_ _. True) u" for c u by (simp add: unchanged.made_control)
  show ?thesis unfolding inspect_setup_maintenance_def Let_def
  proof (rule unchanged.made_then[OF unchanged_setup_claim], rule unchanged.made_bind[OF unchanged_lstat], rule unchanged.made_if,
      rule unchanged.made_control, rule unchanged.made_bind[OF unchanged_lstat], rule unchanged.made_if, rule unchanged.made_control,
      rule unchanged.made_bind[OF unchanged_look], rule unchanged.made_check, rule unchanged.made_check, rule unchanged.made_bind[OF unchanged_look],
      rule unchanged.made_check, rule unchanged.made_weaken[OF unchanged_receipts], goal_cases)
    case (1 t locked u pending v runs w names x b y)
    note trans = unchanged.trans
    have wy: "same_host w y" by (rule trans[OF 1(13,16)])
    have vy: "same_host v y" by (rule trans[OF 1(9) wy])
    have uy: "same_host u y" by (rule trans[OF 1(6) vy])
    have ty: "same_host t y" by (rule trans[OF 1(3) uy])
    have sy: "same_host s y" by (rule trans[OF 1(1) ty])
    from 1(4,5) obtain l where l: "hs_lock l = Absent" "same_host l u" by auto
    from 1(7,8) obtain p where p: "hs_pending p = Absent" "same_host p v" by auto
    from 1(10,12) obtain r where r: "mt_runs env r = []" "same_host r w" by auto
    from 1(14) obtain n where n: "mt_receipts env n = names" "same_host n x" by auto
    have roots: "hs_roots r run = NoRoot \<and> hs_staging r run = NoRoot" for run
      using names_presentD(1)[OF assms, of r run] r(1) same_hostD[OF trans[OF r(2) wy]] same_hostD[OF sy] by auto
    have receipts: "settled_receipt run (hs_receipts y run)" for run
    proof (cases "hs_receipts y run = Absent")
      case False
      with same_hostD[OF trans[OF n(2) 1(16)]] have "hs_receipts n run \<noteq> Absent" by simp
      then have "run @ ''.json'' \<in> set names"
        using names_presentD(2)[OF assms, of n run] n(1) same_hostD[OF trans[OF n(2) 1(16)]] same_hostD[OF sy] by simp
      with 1(17) show ?thesis by blast
    qed (simp add: settled_receipt_def)
    have "idle y"
      using l(1) p(1) roots receipts same_hostD[OF trans[OF l(2) uy]] same_hostD[OF trans[OF p(2) vy]] same_hostD[OF trans[OF r(2) wy]]
      by (simp add: idle_def)
    then show ?case using 1(2) same_hostD[OF ty] by simp
  qed
qed

section \<open>Maintenance inside a larger component\<close>

locale embedded_host =
  fixes get :: "'s \<Rightarrow> host_state"
    and put :: "host_state \<Rightarrow> 's \<Rightarrow> 's"
  assumes get_put: "get (put h s) = h"
    and put_put: "put h (put g s) = put h s"
    and put_get: "put (get s) s = s"
begin

lemma on_host_run: "m (get s) = (r, h) \<Longrightarrow> on_host get put m s = (r, put h s)"
  by (simp add: on_host_def)

text \<open>The action of a maintenance sees an idle host and holds the launch lock; when it is not reached,
  the host is as before.\<close>

lemma maintenance_cases:
  assumes names: "names_present env (get s)" and run: "with_setup_maintenance get put env ours action s = (res, t)"
  obtains (refused) e h where "res = Inl e" "t = put h s" "hs_launch h \<longrightarrow> hs_launch (get s)" "same_host (get s) (h\<lparr>hs_launch := hs_launch (get s)\<rparr>)"
    | (acted) h v where "idle h" "hs_launch h" "same_host (get s) (h\<lparr>hs_launch := hs_launch (get s)\<rparr>)"
        "hs_setup h = (case ours of None \<Rightarrow> Absent | Some c \<Rightarrow> Stored c)"
        "action (put h s) = (res, v)" "t = put ((get v)\<lparr>hs_launch := False\<rparr>) v"
proof -
  obtain e g where enter: "enter_maintenance env (get s) = (e, g)" by (cases "enter_maintenance env (get s)")
  then have same: "same_host (get s) (g\<lparr>hs_launch := hs_launch (get s)\<rparr>)" "e = Inr () \<Longrightarrow> hs_launch g"
    "e \<noteq> Inr () \<Longrightarrow> hs_launch g = hs_launch (get s)"
    by (auto simp: enter_maintenance_def hold_launch_def try_launch_def acquire_operation_def then_do_def run_simps io_def Let_def same_host_def
        split: fault.splits if_splits)
  from enter have e: "on_host get put (enter_maintenance env) s = (e, put g s)" by (simp add: on_host_def)
  show thesis
  proof (cases e)
    case (Inl x)
    with run e have "res = Inl x" "t = put g s" by (simp_all add: with_setup_maintenance_def then_do_def run_simps)
    with same Inl show thesis by (intro refused) simp_all
  next
    case (Inr y)
    obtain i h where inspect: "inspect_setup_maintenance env ours g = (i, h)" by (cases "inspect_setup_maintenance env ours g")
    from names same(1) have here_names: "names_present env g" by (simp add: names_present_def same_host_def)
    from unchanged.made_state[OF unchanged_inspection[OF here_names, of ours]] inspect have gh: "same_host g h" by simp
    with same Inr have sh: "same_host (get s) (h\<lparr>hs_launch := hs_launch (get s)\<rparr>)" "hs_launch h" by (auto simp: same_host_def)
    have here: "on_host get put (inspect_setup_maintenance env ours) (put g s) = (i, put h s)"
      using inspect by (simp add: on_host_def get_put put_put)
    show thesis
    proof (cases i)
      case (Inl x)
      with run e Inr here have "res = Inl x" "t = put (h\<lparr>hs_launch := False\<rparr>) s"
        by (simp_all add: with_setup_maintenance_def then_do_def run_simps ensuring_def on_host_def release_launch_def get_put put_put)
      with sh show thesis by (intro refused[of x "h\<lparr>hs_launch := False\<rparr>"]) (simp_all add: same_host_def)
    next
      case (Inr z)
      obtain a v where a: "action (put h s) = (a, v)" by (cases "action (put h s)")
      with run e \<open>e = Inr y\<close> here Inr have "res = a" "t = put ((get v)\<lparr>hs_launch := False\<rparr>) v"
        by (simp_all add: with_setup_maintenance_def then_do_def run_simps ensuring_def on_host_def release_launch_def get_put put_put)
      moreover from unchanged.made_result[OF unchanged_inspection[OF here_names, of ours]] inspect Inr
      have "idle h" "hs_setup h = (case ours of None \<Rightarrow> Absent | Some c \<Rightarrow> Stored c)" by auto
      ultimately show thesis using sh a by (intro acted) simp_all
    qed
  qed
qed

end

text \<open>The host alone.\<close>

interpretation alone_host: embedded_host "\<lambda>s. s" "\<lambda>h s. h"
  by unfold_locales simp_all

text \<open>C8: a maintenance action runs only in a host without a Run: the lock is free, nothing waits to be
  launched, no files of a run are left, every receipt is settled, no other setup is pending, and the launch
  lock is held while it runs. When the action is refused, the host is as before.\<close>

theorem maintenance_excludes_runs:
  assumes "names_present env s" and "with_setup_maintenance (\<lambda>s. s) (\<lambda>h s. h) env ours action s = (res, t)"
  shows "(\<exists>h v. idle h \<and> hs_launch h \<and> hs_setup h = (case ours of None \<Rightarrow> Absent | Some c \<Rightarrow> Stored c)
      \<and> action h = (res, v) \<and> t = v\<lparr>hs_launch := False\<rparr>)
    \<or> (\<exists>e. res = Inl e \<and> same_host s (t\<lparr>hs_launch := hs_launch s\<rparr>) \<and> (hs_launch t \<longrightarrow> hs_launch s))"
  using alone_host.maintenance_cases[OF assms] by metis

definition quiet_maintenance :: "maintenance_env" where
  "quiet_maintenance = \<lparr>mt_host = quiet_host, mt_runs = (\<lambda>s. []), mt_receipts = (\<lambda>s. [])\<rparr>"

theorem maintenance_excludes_runs_witness:
  "\<exists>t. with_setup_maintenance (\<lambda>s. s) (\<lambda>h s. h) quiet_maintenance None (ret True) empty_host = (Inr True, t)
     \<and> (\<exists>h. idle h \<and> hs_launch h \<and> t = h\<lparr>hs_launch := False\<rparr>)"
proof -
  let ?r = "with_setup_maintenance (\<lambda>s. s) (\<lambda>h s. h) quiet_maintenance None (ret True) empty_host"
  have "fst ?r = Inr True"
    by (simp add: with_setup_maintenance_def enter_maintenance_def hold_launch_def try_launch_def on_host_def inspect_setup_maintenance_def
        inspect_setup_claim_def quiet_maintenance_def release_launch_def max_authorities_def evaluate)
  then obtain t where t: "?r = (Inr True, t)" by (metis prod.collapse)
  have "names_present quiet_maintenance empty_host"
    by (simp add: names_present_def empty_host_def)
  from maintenance_excludes_runs[OF this t] t show ?thesis by (auto simp: ret_def)
qed

end
