(* ===== verification/PairHost.thy ===== *)
theory PairHost
  imports PairRecords HostMaintenance
begin

text \<open>
  \<open>internal/pairing/host.go\<close>: the host's side of a pairing. A grant authorizes one marked line of the
  account's keys file and is recorded before the line is appended; a tombstone authorizes its removal,
  is recorded before the line is removed, and forbids that it comes back. Both are records of the private
  storage in the state root, and the keys file is changed under the host's maintenance locks only.

  The platform (\<open>Platform\<close>: who owns the host, the keys file with a compare-and-swap) is an argument of the
  model with a state of its own, as are the clock, the context, the random bytes and the checkpoints of
  the tests. \<open>ph_edits\<close> keeps the calls of \<open>ReplaceKeys\<close> with the state at each of them.
\<close>

section \<open>The platform\<close>

record authority_facts =
  pa_installed :: target
  pa_installation_id :: string
  pa_root_identity :: string
  pa_account_identity :: string
  pa_login :: string
  pa_port :: "16 word"
  pa_host_public_key :: string
  pa_keys_file :: string
  pa_shared_keys_file :: bool

record keys_file =
  kf_path :: string
  kf_exists :: bool
  kf_bytes :: string
  kf_sha :: string
  kf_security :: string

record 'p platform =
  pf_authority :: "string \<Rightarrow> string \<Rightarrow> ('p, authority_facts) act"
  pf_read :: "string \<Rightarrow> ('p, keys_file) act"
  pf_replace :: "keys_file \<Rightarrow> string \<Rightarrow> ('p, unit) act"

text \<open>One edit: the file as it was read, the new contents, and the records and the host at that moment.\<close>

record keys_edit =
  ke_file :: keys_file
  ke_contents :: string
  ke_disk :: disk
  ke_host :: host_state

record 'p pair_host =
  ph_disk :: disk
  ph_host :: host_state
  ph_platform :: 'p
  ph_edits :: "keys_edit list"

record 'p pair_env =
  hv_lib :: ctl_lib
  hv_disk :: disk_env
  hv_root :: string
  hv_maintenance :: maintenance_env
  hv_platform :: "'p platform"
  hv_now :: "'p pair_host \<Rightarrow> int"
  hv_context :: "'p pair_host \<Rightarrow> err option"
  hv_at :: "string \<Rightarrow> 'p pair_host \<Rightarrow> err option"
  hv_random :: "'p pair_host \<Rightarrow> err + string"

type_synonym ('p, 'a) pact = "('p pair_host, 'a) act"

definition on_records :: "'p pair_env \<Rightarrow> 'a dact \<Rightarrow> ('p, 'a) pact" where
  "on_records env m s = (case m (ph_disk s) of (r, d) \<Rightarrow> (r, s\<lparr>ph_disk := d\<rparr>))"

definition on_platform :: "('p, 'a) act \<Rightarrow> ('p, 'a) pact" where
  "on_platform m s = (case m (ph_platform s) of (r, p) \<Rightarrow> (r, s\<lparr>ph_platform := p\<rparr>))"

definition put_host :: "host_state \<Rightarrow> 'p pair_host \<Rightarrow> 'p pair_host" where
  "put_host h s = s\<lparr>ph_host := h\<rparr>"

definition read_keys :: "'p pair_env \<Rightarrow> string \<Rightarrow> ('p, keys_file) pact" where
  "read_keys env path = on_platform (pf_read (hv_platform env) path)"

definition replace_keys :: "'p pair_env \<Rightarrow> keys_file \<Rightarrow> string \<Rightarrow> ('p, unit) pact" where
  "replace_keys env f contents =
    then_do (change (\<lambda>s. s\<lparr>ph_edits := \<lparr>ke_file = f, ke_contents = contents, ke_disk = ph_disk s, ke_host = ph_host s\<rparr> # ph_edits s\<rparr>))
      (on_platform (pf_replace (hv_platform env) f contents))"

text \<open>\<open>ctx.Err()\<close> and \<open>Host.at\<close>.\<close>

definition check_context :: "'p pair_env \<Rightarrow> ('p, unit) pact" where
  "check_context env = andthen (look (hv_context env)) refuse"

definition checkpoint :: "'p pair_env \<Rightarrow> string \<Rightarrow> ('p, unit) pact" where
  "checkpoint env stage = andthen (look (hv_at env stage)) refuse"

section \<open>Records\<close>

text \<open>\<open>filepath.Join("pairings", ...)\<close>.\<close>

definition offer_path :: "string \<Rightarrow> string" where "offer_path sha = path_clean (''pairings/offers/'' @ sha @ ''.json'')"
definition grant_path :: "string \<Rightarrow> string" where "grant_path i = path_clean (''pairings/grants/'' @ i @ ''.json'')"
definition tomb_path :: "string \<Rightarrow> string" where "tomb_path i = path_clean (''pairings/tombstones/'' @ i @ ''.json'')"

definition pair_sha :: "'p pair_env \<Rightarrow> string \<Rightarrow> string" where
  "pair_sha env = tl_sha (cl_target (hv_lib env))"

text \<open>The bytes behind a hexadecimal text, and OpenSSH's form of a fingerprint.\<close>

definition hex_value :: "char \<Rightarrow> nat" where
  "hex_value c = (if is_digit c then code c - 48 else code c - 87)"

fun unhex :: "string \<Rightarrow> string" where
  "unhex (a # b # s) = char_of (16 * hex_value a + hex_value b) # unhex s"
| "unhex _ = []"

definition display_fingerprint :: "'p pair_env \<Rightarrow> string \<Rightarrow> string" where
  "display_fingerprint env key =
    (let wire = (case base64_decode (if has_prefix key (key_type @ '' '') then drop 12 key else key) of None \<Rightarrow> '''' | Some w \<Rightarrow> w) in
     ''SHA256:'' @ filter (\<lambda>c. c \<noteq> CHR ''='') (base64_encode (unhex (pair_sha env wire))))"

definition access_state :: "bool \<Rightarrow> nat \<Rightarrow> bool \<Rightarrow> string" where
  "access_state tombstoned exact foreign =
    (if 1 < exact \<or> foreign then ''conflict''
     else if \<not> tombstoned \<and> exact = 0 then ''granting''
     else if \<not> tombstoned then ''granted''
     else if exact = 1 then ''revoking''
     else ''revoked'')"

definition read_record :: "'p pair_env \<Rightarrow> string \<Rightarrow> (json option \<Rightarrow> err + 'a) \<Rightarrow> ('p, string \<times> 'a) pact" where
  "read_record env relative reader =
    andthen (on_records env (read_durable (hv_disk env) (hv_root env) relative max_pair_document)) (\<lambda>data.
    andthen (of_res (strict_document (hv_lib env) reader data)) (\<lambda>v. ret (data, v)))"

definition read_offer :: "'p pair_env \<Rightarrow> string \<Rightarrow> ('p, host_offer) pact" where
  "read_offer env sha =
    then_do (refuse (check (\<not> hex64 sha) ''invalid offer hash''))
    (andthen (attempt (read_record env (offer_path sha) (decode_offer (hv_lib env)))) (\<lambda>r.
      case r of
        Inl e \<Rightarrow> if err_is e NotExist then fail (Msg ''request names an offer this host did not issue'') else fail e
      | Inr (data, v) \<Rightarrow>
          then_do (refuse (validate_offer (hv_lib env) v))
          (then_do (refuse (check (offer_digest (hv_lib env) v \<noteq> sha) ''retained offer does not match its digest''))
           (ret v))))"

definition grant_refusal :: "ctl_lib \<Rightarrow> string \<Rightarrow> grant_record \<Rightarrow> err option" where
  "grant_refusal lib i g =
    (let line = grant_line (er_public_key (gr_receipt g)) i in
     check (gr_schema_version g \<noteq> 1 \<or> gr_pair_id g \<noteq> i \<or> er_pair_id (gr_receipt g) \<noteq> i
         \<or> gr_receipt_sha g \<noteq> enrollment_digest lib (gr_receipt g) \<or> line \<noteq> Inr (gr_line g) \<or> gr_keys_file g = '''')
       ''retained grant is corrupt'')"

definition read_grant :: "'p pair_env \<Rightarrow> string \<Rightarrow> ('p, grant_record \<times> string) pact" where
  "read_grant env i =
    then_do (refuse (check (\<not> id_pattern i) ''invalid pair id''))
    (andthen (read_record env (grant_path i) (decode_grant (hv_lib env))) (\<lambda>(data, g).
      then_do (refuse (grant_refusal (hv_lib env) i g)) (ret (g, data))))"

definition read_tombstone :: "'p pair_env \<Rightarrow> string \<Rightarrow> ('p, (tombstone \<times> string) option) pact" where
  "read_tombstone env i =
    andthen (attempt (read_record env (tomb_path i) (decode_tombstone (hv_lib env)))) (\<lambda>r.
      case r of
        Inl e \<Rightarrow> if err_is e NotExist then ret None else fail e
      | Inr (data, t) \<Rightarrow>
          then_do (refuse (check (tb_schema_version t \<noteq> 1 \<or> tb_pair_id t \<noteq> i) ''retained tombstone is corrupt''))
           (ret (Some (t, data))))"

section \<open>Offer\<close>

text \<open>Durations are in milliseconds, as times are.\<close>

definition default_offer_ttl :: int where "default_offer_ttl = 30 * 60 * 1000"
definition max_offer_ttl :: int where "max_offer_ttl = 24 * 60 * 60 * 1000"

definition pair_offer :: "'p pair_env \<Rightarrow> string \<Rightarrow> string \<Rightarrow> int \<Rightarrow> ('p, string \<times> string) pact" where
  "pair_offer env installation address ttl0 =
    (let ttl = (if ttl0 = 0 then default_offer_ttl else ttl0); lib = hv_lib env in
     then_do (refuse (check (ttl < 0 \<or> max_offer_ttl < ttl) ''offer expiry must be within 24h''))
     (then_do (refuse (check (\<not> id_pattern installation) ''invalid installation id''))
     (andthen (on_platform (pf_authority (hv_platform env) (hv_root env) installation)) (\<lambda>facts.
      andthen (andthen (look (hv_random env)) of_res) (\<lambda>random.
      andthen (look (hv_now env)) (\<lambda>now.
      let offer = \<lparr>ho_schema_version = 1, ho_bootstrap_id = ''bbxb_'' @ hex_text random, ho_expires = now + ttl,
            ho_platform = tg_platform (pa_installed facts),
            ho_connection = \<lparr>sv_host = address, sv_port = pa_port facts, sv_user = pa_login facts, sv_host_public_key = pa_host_public_key facts\<rparr>,
            ho_installed = pa_installed facts, ho_installation_id = pa_installation_id facts,
            ho_root_identity = pa_root_identity facts, ho_account_identity = pa_account_identity facts\<rparr> in
      then_do (refuse (validate_offer lib offer))
      (andthen (of_res (offer_json lib offer)) (\<lambda>v.
       then_do (check_context env)
       (let sha = offer_digest lib offer in
        then_do (on_records env (private_publish (hv_disk env) (hv_root env) (offer_path sha) (render v) False))
          (ret (render v, sha)))))))))))"

section \<open>Enroll\<close>

record enrollment =
  en_schema_version :: int
  en_pair_id :: string
  en_state :: string
  en_installation_id :: string
  en_login :: string
  en_keys_file :: string
  en_shared_keys_file :: bool
  en_line :: string
  en_fingerprint :: string
  en_keys_before :: string
  en_keys_after :: string
  en_receipt :: string
  en_receipt_sha :: string

definition same_authority :: "ctl_lib \<Rightarrow> authority_facts \<Rightarrow> host_offer \<Rightarrow> bool" where
  "same_authority lib a offer \<longleftrightarrow> pa_installation_id a = ho_installation_id offer \<and> pa_root_identity a = ho_root_identity offer
     \<and> pa_account_identity a = ho_account_identity offer
     \<and> target_fingerprint (cl_target lib) (pa_installed a) = target_fingerprint (cl_target lib) (ho_installed offer)
     \<and> pa_host_public_key a = sv_host_public_key (ho_connection offer) \<and> pa_port a = sv_port (ho_connection offer)
     \<and> pa_login a = sv_user (ho_connection offer)"

definition new_grant :: "'p pair_env \<Rightarrow> enrollment_intent \<Rightarrow> ('p, grant_record) pact" where
  "new_grant env intent =
    (let lib = hv_lib env in
     andthen (read_offer env (ei_offer_hash intent)) (\<lambda>offer.
     then_do (refuse (check (ei_expires intent \<noteq> ho_expires offer) ''request expiry does not match the offer''))
     (andthen (look (hv_now env)) (\<lambda>now.
     then_do (refuse (check (ho_expires offer \<le> now) ''offer expired; issue a new offer''))
     (andthen (on_platform (pf_authority (hv_platform env) (hv_root env) (ho_installation_id offer))) (\<lambda>a.
     then_do (refuse (check (\<not> same_authority lib a offer) ''host identity changed since the offer; issue a new offer''))
     (andthen (of_res (key_fingerprint (pair_sha env) (ei_public_key intent))) (\<lambda>fp.
      andthen (of_res (new_paired (cl_target lib) (ho_installed offer) (direct_of (ho_connection offer) fp))) (\<lambda>paired.
      andthen (of_res (grant_line (ei_public_key intent) (ei_pair_id intent))) (\<lambda>line.
      andthen (look (hv_now env)) (\<lambda>granted.
      let receipt = \<lparr>er_schema_version = 1, er_pair_id = ei_pair_id intent, er_operation_id = ei_operation_id intent,
            er_intent_sha = intent_digest lib intent, er_platform = ho_platform offer,
            er_scope_sha = scope_digest lib (ho_platform offer) (ho_installation_id offer) (ho_account_identity offer) (pa_keys_file a) ''restrict'',
            er_target = paired, er_public_key = ei_public_key intent\<rparr> in
      ret \<lparr>gr_schema_version = 1, gr_pair_id = ei_pair_id intent, gr_offer_sha = ei_offer_hash intent,
        gr_intent_sha = er_intent_sha receipt, gr_installation_id = ho_installation_id offer,
        gr_account_identity = ho_account_identity offer, gr_login = sv_user (ho_connection offer), gr_keys_file = pa_keys_file a,
        gr_shared_keys_file = pa_shared_keys_file a, gr_line = line, gr_receipt = receipt,
        gr_receipt_sha = enrollment_digest lib receipt, gr_granted = granted\<rparr>)))))))))))"

definition scan_for :: "string \<Rightarrow> grant_record \<Rightarrow> nat \<times> bool \<times> bool" where
  "scan_for bytes g = scan_keys bytes (gr_line g) (er_public_key (gr_receipt g)) (gr_pair_id g)"

definition scan_grant :: "keys_file \<Rightarrow> grant_record \<Rightarrow> err + nat" where
  "scan_grant keys g =
    (case scan_for (kf_bytes keys) g of (exact, foreign_key, foreign_marker) \<Rightarrow>
      if foreign_key then Inl (Msg ''already contains this key outside the pairing line'')
      else if foreign_marker then Inl (Msg ''contains pair with a different key'')
      else if 1 < exact then Inl (Msg ''contains pair several times'')
      else Inr exact)"

definition refuse_revoked :: "'p pair_env \<Rightarrow> string \<Rightarrow> ('p, unit) pact" where
  "refuse_revoked env i =
    andthen (read_tombstone env i) (\<lambda>t. refuse (check (t \<noteq> None) ''pairing was revoked; prepare a new pairing''))"

text \<open>The grant of a request: the retained one, or a new one that is not recorded yet.\<close>

definition find_grant :: "'p pair_env \<Rightarrow> enrollment_intent \<Rightarrow> ('p, bool \<times> grant_record) pact" where
  "find_grant env intent =
    andthen (attempt (read_grant env (ei_pair_id intent))) (\<lambda>r.
      case r of
        Inr (g, data) \<Rightarrow>
          then_do (refuse (check (gr_intent_sha g \<noteq> intent_digest (hv_lib env) intent) ''pair id is already bound to a different request''))
          (then_do (refuse_revoked env (ei_pair_id intent)) (ret (True, g)))
      | Inl e \<Rightarrow> if err_is e NotExist then andthen (new_grant env intent) (\<lambda>g. ret (False, g)) else fail e)"

definition retain_grant :: "'p pair_env \<Rightarrow> string \<Rightarrow> grant_record \<Rightarrow> ('p, grant_record) pact" where
  "retain_grant env intent_sha g =
    andthen (of_res (grant_json (hv_lib env) g)) (\<lambda>v.
    andthen (attempt (on_records env (private_publish (hv_disk env) (hv_root env) (grant_path (gr_pair_id g)) (render v) False))) (\<lambda>r.
    then_do (refuse (case r of Inl e \<Rightarrow> if err_is e Exist then None else Some e | Inr u \<Rightarrow> None))
    (andthen (read_grant env (gr_pair_id g)) (\<lambda>(durable, data).
     then_do (refuse (check (gr_intent_sha durable \<noteq> intent_sha) ''pair id is already bound to a different request''))
      (ret durable)))))"

text \<open>The action of an enrollment under the maintenance locks.\<close>

definition admit_line :: "'p pair_env \<Rightarrow> grant_record \<Rightarrow> ('p, grant_record \<times> string \<times> string) pact" where
  "admit_line env g =
    then_do (checkpoint env ''grant'')
    (then_do (refuse_revoked env (gr_pair_id g))
    (andthen (read_keys env (gr_keys_file g)) (\<lambda>keys.
     andthen (of_res (scan_grant keys g)) (\<lambda>exact.
     then_do (if exact = 0 then replace_keys env keys (append_line (kf_bytes keys) (gr_line g)) else skip)
     (then_do (checkpoint env ''keys'')
     (andthen (read_keys env (gr_keys_file g)) (\<lambda>after.
      then_do (refuse (check (fst (scan_for (kf_bytes after) g) \<noteq> 1) ''pairing line not verified after write''))
       (ret (g, kf_sha keys, kf_sha after)))))))))"

definition enroll_action :: "'p pair_env \<Rightarrow> string \<Rightarrow> bool \<Rightarrow> grant_record \<Rightarrow> ('p, grant_record \<times> string \<times> string) pact" where
  "enroll_action env intent_sha there g =
    andthen (if there then ret g else retain_grant env intent_sha g) (admit_line env)"

definition preview_of :: "'p pair_env \<Rightarrow> grant_record \<Rightarrow> enrollment" where
  "preview_of env g =
    \<lparr>en_schema_version = 1, en_pair_id = gr_pair_id g, en_state = ''preview'', en_installation_id = gr_installation_id g,
     en_login = gr_login g, en_keys_file = gr_keys_file g, en_shared_keys_file = gr_shared_keys_file g, en_line = gr_line g,
     en_fingerprint = display_fingerprint env (er_public_key (gr_receipt g)), en_keys_before = '''', en_keys_after = '''',
     en_receipt = '''', en_receipt_sha = ''''\<rparr>"

definition pair_enroll :: "'p pair_env \<Rightarrow> trusted_intent \<Rightarrow> bool \<Rightarrow> ('p, enrollment) pact" where
  "pair_enroll env trusted apply =
    (case trusted of TrustedIntent intent \<Rightarrow>
     then_do (refuse (check (ei_schema_version intent \<noteq> 1) ''zero trust wrapper''))
     (andthen (find_grant env intent) (\<lambda>(there, g).
      let result = preview_of env g in
      if \<not> apply then
        andthen (read_keys env (gr_keys_file g)) (\<lambda>keys.
        andthen (of_res (scan_grant keys g)) (\<lambda>exact. ret (result\<lparr>en_keys_before := kf_sha keys\<rparr>)))
      else
        then_do (check_context env)
        (andthen (with_maintenance ph_host put_host (hv_maintenance env)
            (enroll_action env (intent_digest (hv_lib env) intent) there g)) (\<lambda>(final, before, after).
         andthen (of_res (enrollment_json (hv_lib env) (gr_receipt final))) (\<lambda>v.
          ret (result\<lparr>en_keys_before := before, en_keys_after := after, en_state := ''granted'',
            en_receipt := render v, en_receipt_sha := gr_receipt_sha final\<rparr>)))))))"

section \<open>Revoke\<close>

definition retain_tombstone :: "'p pair_env \<Rightarrow> string \<Rightarrow> string \<Rightarrow> string \<Rightarrow> ('p, string) pact" where
  "retain_tombstone env i grant_bytes source =
    andthen (read_tombstone env i) (\<lambda>t.
      case t of
        Some (tomb, data) \<Rightarrow> ret data
      | None \<Rightarrow>
          andthen (look (hv_now env)) (\<lambda>now.
          andthen (of_res (tombstone_json (hv_lib env) \<lparr>tb_schema_version = 1, tb_pair_id = i, tb_grant_sha = pair_sha env grant_bytes,
              tb_source = source, tb_requested = now\<rparr>)) (\<lambda>v.
          andthen (attempt (on_records env (private_publish (hv_disk env) (hv_root env) (tomb_path i) (render v) False))) (\<lambda>r.
          then_do (refuse (case r of Inl e \<Rightarrow> if err_is e Exist then None else Some e | Inr u \<Rightarrow> None))
          (andthen (read_tombstone env i) (\<lambda>again. ret (case again of None \<Rightarrow> '''' | Some (tomb, data) \<Rightarrow> data)))))))"

definition drop_line :: "'p pair_env \<Rightarrow> grant_record \<Rightarrow> ('p, string \<times> string) pact" where
  "drop_line env g =
    then_do (checkpoint env ''tombstone'')
    (andthen (read_keys env (gr_keys_file g)) (\<lambda>keys.
     let exact = fst (scan_for (kf_bytes keys) g) in
     then_do (refuse (check (1 < exact) ''contains pair several times''))
     (then_do (if exact = 1 then andthen (of_res (remove_line (kf_bytes keys) (gr_line g))) (replace_keys env keys) else skip)
     (then_do (checkpoint env ''keys'')
     (andthen (read_keys env (gr_keys_file g)) (\<lambda>after.
      case scan_for (kf_bytes after) g of (exact', foreign_key, foreign_marker) \<Rightarrow>
        then_do (refuse (check (exact' \<noteq> 0) ''pairing line still present after removal''))
        (then_do (refuse (check (foreign_key \<or> foreign_marker) ''still holds the key or marker on a different line''))
         (ret (kf_sha keys, kf_sha after)))))))))"

definition revoke_action :: "'p pair_env \<Rightarrow> string \<Rightarrow> string \<Rightarrow> string \<Rightarrow> grant_record \<Rightarrow> ('p, string \<times> string \<times> string) pact" where
  "revoke_action env i grant_bytes source g =
    andthen (retain_tombstone env i grant_bytes source) (\<lambda>tomb.
    andthen (drop_line env g) (\<lambda>(before, after). ret (tomb, before, after)))"

definition owner_refusal :: "'p pair_env \<Rightarrow> string \<Rightarrow> grant_record \<Rightarrow> err option" where
  "owner_refusal env key_hash g =
    (if key_hash = '''' then None
     else case key_fingerprint (pair_sha env) (er_public_key (gr_receipt g)) of
         Inl e \<Rightarrow> Some e
       | Inr fp \<Rightarrow> check (fp \<noteq> key_hash) ''client key does not own pair'')"

definition pair_revoke :: "'p pair_env \<Rightarrow> string \<Rightarrow> string \<Rightarrow> string \<Rightarrow> bool \<Rightarrow> ('p, revoke_result) pact" where
  "pair_revoke env i key_hash source apply =
    then_do (refuse (check (source \<noteq> ''host-local'' \<and> source \<noteq> ''paired-ssh'') ''invalid revoke source''))
    (andthen (attempt (read_grant env i)) (\<lambda>r.
      case r of
        Inl e \<Rightarrow> if err_is e NotExist then fail (Msg ''unknown pair id'') else fail e
      | Inr (g, grant_bytes) \<Rightarrow>
          then_do (refuse (owner_refusal env key_hash g))
          (let result = \<lparr>rv_schema_version = 1, rv_pair_id = i, rv_state = '''', rv_keys_before = '''', rv_keys_after = '''', rv_tombstone = ''''\<rparr> in
           if \<not> apply then
             andthen (read_tombstone env i) (\<lambda>t.
             andthen (read_keys env (gr_keys_file g)) (\<lambda>keys.
               case scan_for (kf_bytes keys) g of (exact, foreign_key, foreign_marker) \<Rightarrow>
                 ret (result\<lparr>rv_state := access_state (t \<noteq> None) exact (foreign_key \<or> foreign_marker), rv_keys_before := kf_sha keys\<rparr>)))
           else
             then_do (check_context env)
             (andthen (with_maintenance ph_host put_host (hv_maintenance env) (revoke_action env i grant_bytes source g)) (\<lambda>(tomb, before, after).
               ret (result\<lparr>rv_tombstone := pair_sha env tomb, rv_keys_before := before, rv_keys_after := after, rv_state := ''revoked''\<rparr>))))))"

section \<open>Status\<close>

record grant_view =
  gv_schema_version :: int
  gv_pair_id :: string
  gv_state :: string
  gv_installation_id :: string
  gv_login :: string
  gv_keys_file :: string
  gv_fingerprint :: string
  gv_granted :: int
  gv_revoked :: "int option"

definition view_grant :: "'p pair_env \<Rightarrow> string \<Rightarrow> ('p, grant_view) pact" where
  "view_grant env i =
    andthen (attempt (read_grant env i)) (\<lambda>r.
      case r of
        Inl e \<Rightarrow> if err_is e NotExist then fail (Msg ''unknown pair id'') else fail e
      | Inr (g, data) \<Rightarrow>
          andthen (read_tombstone env i) (\<lambda>t.
          andthen (read_keys env (gr_keys_file g)) (\<lambda>keys.
            case scan_for (kf_bytes keys) g of (exact, foreign_key, foreign_marker) \<Rightarrow>
              ret \<lparr>gv_schema_version = 1, gv_pair_id = i, gv_state = access_state (t \<noteq> None) exact (foreign_key \<or> foreign_marker),
                gv_installation_id = gr_installation_id g, gv_login = gr_login g, gv_keys_file = gr_keys_file g,
                gv_fingerprint = display_fingerprint env (er_public_key (gr_receipt g)), gv_granted = gr_granted g,
                gv_revoked = map_option (\<lambda>(tomb, bytes). tb_requested tomb) t\<rparr>)))"

fun view_grants :: "'p pair_env \<Rightarrow> string list \<Rightarrow> ('p, grant_view list) pact" where
  "view_grants env [] = ret []"
| "view_grants env (i # is) = andthen (view_grant env i) (\<lambda>v. andthen (view_grants env is) (\<lambda>vs. ret (v # vs)))"

definition pair_status :: "'p pair_env \<Rightarrow> string \<Rightarrow> ('p, grant_view list) pact" where
  "pair_status env i =
    (if i \<noteq> '''' then view_grants env [i]
     else
       andthen (attempt (on_records env (private_directory (hv_disk env) (hv_root env) ''pairings/grants'' False))) (\<lambda>r.
         case r of
           Inl e \<Rightarrow> if err_is e NotExist then ret [] else fail e
         | Inr d \<Rightarrow>
             andthen (on_records env (read_dir (hv_disk env) d)) (\<lambda>names.
               then_do (refuse (check (4096 < length names) ''excessive retained grants''))
                (view_grants env (sort (map (\<lambda>n. take (length n - 5) n) (filter (\<lambda>n. has_suffix n ''.json'') names)))))))"

end
