(* ===== verification/PairHostGuarantees.thy ===== *)
theory PairHostGuarantees
  imports PairHost RecordFound
begin

text \<open>
  What the host's side of a pairing promises: the keys file changes only as a recorded grant says and
  only in a host without a Run, a revoked pairing never comes back, and repeating an enrollment returns
  the same receipt. \<open>paired\<close> is the history that says so; its rules follow the operations of theory
  PairHost.
\<close>

section \<open>The records of pairings\<close>

definition pair_dirs :: "string \<Rightarrow> string list" where "pair_dirs d = [''pairings'', d]"
definition pair_file :: "string \<Rightarrow> string" where "pair_file x = x @ ''.json''"

definition pair_sealed :: "string \<Rightarrow> path set" where
  "pair_sealed root = sealed root (pair_dirs ''offers'') \<union> sealed root (pair_dirs ''grants'') \<union> sealed root (pair_dirs ''tombstones'')"

definition pair_peaceful :: "string \<Rightarrow> disk_env \<Rightarrow> bool" where
  "pair_peaceful root env \<longleftrightarrow> store_root root \<and> spares env (pair_sealed root \<union> temporaries (parts root @ pair_dirs ''offers'')
     \<union> temporaries (parts root @ pair_dirs ''grants'') \<union> temporaries (parts root @ pair_dirs ''tombstones''))"

definition pair_kind :: "string \<Rightarrow> bool" where
  "pair_kind d \<longleftrightarrow> d \<in> {''offers'', ''grants'', ''tombstones''}"

text \<open>Names that the code writes: pair ids and hexadecimal digests.\<close>

lemma id_chars:
  assumes "id_pattern i"
  shows "i \<noteq> ''''" "CHR ''/'' \<notin> set i" "CHR ''.'' \<noteq> hd i"
proof -
  have no: "\<not> is_alnum CHR ''/''" "\<not> is_alnum CHR ''.''" by (simp_all add: evaluate)
  with assms show "i \<noteq> ''''" "CHR ''/'' \<notin> set i" "CHR ''.'' \<noteq> hd i"
    by (cases i; auto simp: id_pattern_def led_run_def run_of_def list_all_iff)+
qed

lemma hex_id: "hex64 s \<Longrightarrow> s \<noteq> '''' \<and> CHR ''/'' \<notin> set s \<and> CHR ''.'' \<noteq> hd s"
proof -
  assume s: "hex64 s"
  have no: "\<not> hex_char CHR ''/''" "\<not> hex_char CHR ''.''" by (simp_all add: evaluate)
  with s show ?thesis by (cases s) (auto simp: hex64_def run_of_def list_all_iff)
qed

lemma pair_record_file:
  assumes "i \<noteq> ''''" and "CHR ''/'' \<notin> set i" and "CHR ''.'' \<noteq> hd i"
  shows "record_file (pair_file i)"
  using assms by (cases i) (auto simp: record_file_def proper_name_def pair_file_def has_prefix_iff)

lemma pair_dirs_proper: "pair_kind d \<Longrightarrow> proper_dir (pair_dirs d)" "dir_name (pair_dirs d) = ''pairings/'' @ d"
  by (auto simp: pair_dirs_def proper_dir_def proper_name_def dir_name_def pair_kind_def)

lemma pair_clean:
  assumes "pair_kind d" and "record_file b"
  shows "path_clean (''pairings/'' @ d @ CHR ''/'' # b) = dir_name (pair_dirs d) @ CHR ''/'' # b"
proof -
  from assms(2) have "proper_name b" by (simp add: record_file_def)
  then have "safe_components (split_on CHR ''/'' (dir_name (pair_dirs d) @ CHR ''/'' # b))"
    using pair_dirs_proper(1)[OF assms(1)] by (auto simp: record_split proper_dir_def safe_components_def proper_name_def list_all_iff)
  from safe_components_clean(1)[OF this] show ?thesis by (simp add: pair_dirs_proper(2))
qed

lemma pair_paths:
  "id_pattern i \<Longrightarrow> grant_path i = dir_name (pair_dirs ''grants'') @ CHR ''/'' # pair_file i"
  "id_pattern i \<Longrightarrow> tomb_path i = dir_name (pair_dirs ''tombstones'') @ CHR ''/'' # pair_file i"
  "hex64 s \<Longrightarrow> offer_path s = dir_name (pair_dirs ''offers'') @ CHR ''/'' # pair_file s"
proof -
  show "offer_path s = dir_name (pair_dirs ''offers'') @ CHR ''/'' # pair_file s" if "hex64 s"
    using pair_clean[of "''offers''", OF _ pair_record_file] hex_id[OF that] by (simp add: offer_path_def pair_file_def pair_kind_def)
  assume i: "id_pattern i"
  have "record_file (pair_file i)" by (rule pair_record_file[OF id_chars[OF i]])
  with pair_clean[of "''grants''"] pair_clean[of "''tombstones''"]
  show "grant_path i = dir_name (pair_dirs ''grants'') @ CHR ''/'' # pair_file i"
    "tomb_path i = dir_name (pair_dirs ''tombstones'') @ CHR ''/'' # pair_file i"
    by (simp_all add: grant_path_def tomb_path_def pair_file_def pair_kind_def)
qed

lemma pair_chain:
  assumes "pair_kind d" and "record_file b"
  shows "record_chain root (pair_dirs d) b \<subseteq> pair_sealed root"
  using sealed_chain[OF assms(2), of root "pair_dirs d"] assms(1) by (auto simp: pair_sealed_def pair_kind_def)

lemma pair_temporaries: "pair_sealed root \<inter> temporaries (parts root @ pair_dirs d) = {}"
proof -
  have False if "proper_name b" "\<not> has_prefix b ''.pending-''" "parts root @ pair_dirs d @ [''.pending-'' @ x] \<in> record_chain root (pair_dirs e) b" for b x e
  proof -
    have "prefix (parts root @ pair_dirs d @ [''.pending-'' @ x]) (parts root @ pair_dirs e @ [b])"
      using that(3) by (simp add: record_chain_def record_path_def chain_def)
    then have "''.pending-'' @ x = b" by (simp add: pair_dirs_def)
    with that(2) show False by (auto simp: has_prefix_iff)
  qed
  then show ?thesis unfolding pair_sealed_def sealed_def by (auto simp: temporaries_def record_file_def)
qed

lemma pair_spares: "pair_peaceful root env \<Longrightarrow> spares env (pair_sealed root)"
  "pair_peaceful root env \<Longrightarrow> pair_kind d \<Longrightarrow> spares env (pair_sealed root \<union> temporaries (parts root @ pair_dirs d))"
  unfolding pair_peaceful_def pair_kind_def by (auto elim!: spares_subset)

text \<open>What is kept of a pairing.\<close>

definition granted :: "ctl_lib \<Rightarrow> string \<Rightarrow> disk \<Rightarrow> string \<Rightarrow> grant_record \<Rightarrow> bool" where
  "granted lib root d i g \<longleftrightarrow> (\<exists>data. stored d root (pair_dirs ''grants'') (pair_file i) data
     \<and> strict_document lib (decode_grant lib) data = Inr g \<and> grant_refusal lib i g = None)"

definition buried :: "ctl_lib \<Rightarrow> string \<Rightarrow> disk \<Rightarrow> string \<Rightarrow> string \<Rightarrow> bool" where
  "buried lib root d i data \<longleftrightarrow> stored d root (pair_dirs ''tombstones'') (pair_file i) data
     \<and> (\<exists>t. strict_document lib (decode_tombstone lib) data = Inr t \<and> tb_schema_version t = 1 \<and> tb_pair_id t = i)"

lemma granted_unique: "granted lib root d i g \<Longrightarrow> granted lib root d i h \<Longrightarrow> h = g"
  by (auto simp: granted_def stored_def)

lemma granted_evolves:
  assumes "granted lib root d i g" and "evolves (pair_sealed root) d e" and "id_pattern i"
  shows "granted lib root e i g"
  using assms(1) stored_evolves[OF _ assms(2) pair_chain[of "''grants''", OF _ pair_record_file[OF id_chars[OF assms(3)]]]]
  by (auto simp: granted_def pair_kind_def)

lemma buried_evolves:
  assumes "buried lib root d i c" and "evolves (pair_sealed root) d e" and "id_pattern i"
  shows "buried lib root e i c"
  using assms(1) stored_evolves[OF _ assms(2) pair_chain[of "''tombstones''", OF _ pair_record_file[OF id_chars[OF assms(3)]]]]
  by (simp add: buried_def pair_kind_def)

section \<open>The history of a pairing\<close>

definition rightful_edit :: "ctl_lib \<Rightarrow> string \<Rightarrow> keys_edit \<Rightarrow> bool" where
  "rightful_edit lib root e \<longleftrightarrow> (\<exists>i g. granted lib root (ke_disk e) i g
     \<and> (scan_for (kf_bytes (ke_file e)) g = (0, False, False) \<and> ke_contents e = append_line (kf_bytes (ke_file e)) (gr_line g)
        \<or> remove_line (kf_bytes (ke_file e)) (gr_line g) = Inr (ke_contents e)))"

text \<open>The edits in between are of the host \<open>h\<close>; there are none without one.\<close>

definition paired :: "ctl_lib \<Rightarrow> string \<Rightarrow> host_state option \<Rightarrow> 'p pair_host \<Rightarrow> 'p pair_host \<Rightarrow> bool" where
  "paired lib root h s t \<longleftrightarrow> evolves (pair_sealed root) (ph_disk s) (ph_disk t) \<and> ph_host t = ph_host s
     \<and> (\<exists>es. ph_edits t = es @ ph_edits s \<and> list_all (\<lambda>e. Some (ke_host e) = h \<and> rightful_edit lib root e) es)"

interpretation pairing: history "paired lib root h" for lib root h
proof (unfold_locales, goal_cases)
  case (2 s t u)
  then obtain es fs where "ph_edits t = es @ ph_edits s" "ph_edits u = fs @ ph_edits t"
    "list_all (\<lambda>e. Some (ke_host e) = h \<and> rightful_edit lib root e) es" "list_all (\<lambda>e. Some (ke_host e) = h \<and> rightful_edit lib root e) fs"
    by (auto simp: paired_def)
  with 2 show ?case unfolding paired_def by (intro conjI exI[of _ "fs @ es"]) (auto intro: disk.trans)
qed (simp add: paired_def disk.refl)

abbreviation pair_made :: "'p pair_env \<Rightarrow> host_state option \<Rightarrow> ('p, 'a) pact \<Rightarrow> ('a \<Rightarrow> 'p pair_host \<Rightarrow> bool) \<Rightarrow> 'p pair_host \<Rightarrow> bool" where
  "pair_made env h \<equiv> pairing.made (hv_lib env) (hv_root env) h"

abbreviation pair_kept :: "'p pair_env \<Rightarrow> host_state option \<Rightarrow> 'p pair_host \<Rightarrow> 'p pair_host \<Rightarrow> bool" where
  "pair_kept env h \<equiv> paired (hv_lib env) (hv_root env) h"

definition orderly :: "'p pair_env \<Rightarrow> 'p pair_host \<Rightarrow> bool" where
  "orderly env s \<longleftrightarrow> pair_peaceful (hv_root env) (hv_disk env) \<and> flushed_in (pair_sealed (hv_root env)) (ph_disk s)"

lemma orderly_kept: "orderly env s \<Longrightarrow> pair_kept env h s t \<Longrightarrow> orderly env t"
  unfolding orderly_def flushed_in_def paired_def using evolves_raw by blast

lemma pair_records:
  "disk.made (pair_sealed (hv_root env)) m Q (ph_disk s) \<Longrightarrow> pair_made env h (on_records env m) (\<lambda>a t. Q a (ph_disk t)) s"
  by (auto simp: pairing.made_def disk.made_def wp_def on_records_def paired_def split: prod.splits sum.splits)

lemma pair_platform: "pair_made env h (on_platform m) (\<lambda>_ _. True) s"
  by (auto simp: pairing.made_def wp_def on_platform_def paired_def disk.refl split: prod.splits sum.splits)

lemma pair_look: "pair_made env h (look f) (\<lambda>a t. a = f t) s"
  by (simp add: pairing.made_def wp_look pairing.refl)

lemma pair_of_res: "pair_made env h (of_res r) (\<lambda>a t. r = Inr a) s"
  by (cases r) (auto simp: pairing.made_def wp_of_res pairing.refl)

lemma pair_true: "pair_made env h m Q s \<Longrightarrow> pair_made env h m (\<lambda>_ _. True) s"
  by (erule pairing.made_weaken) simp

lemma pair_read_keys: "pair_made env h (read_keys env p) (\<lambda>_ _. True) s"
  unfolding read_keys_def by (rule pair_platform)

lemma pair_refuse_look: "pair_made env h (andthen (look f) refuse) (\<lambda>_ _. True) s"
  by (rule pairing.made_bind[OF pair_look]) (simp add: pairing.made_control)

lemma pair_checks: "pair_made env h (check_context ev) (\<lambda>_ _. True) s" "pair_made env h (checkpoint ev stage) (\<lambda>_ _. True) s"
  unfolding check_context_def checkpoint_def by (rule pair_refuse_look)+

lemma pair_replace:
  assumes "ph_host s = h" and "rightful_edit (hv_lib env) (hv_root env) \<lparr>ke_file = f, ke_contents = c, ke_disk = ph_disk s, ke_host = h\<rparr>"
  shows "pair_made env (Some h) (replace_keys env f c) (\<lambda>_ _. True) s"
  using assms
  by (auto simp: replace_keys_def pairing.made_def wp_def then_do_def run_simps on_platform_def paired_def disk.refl split: prod.splits sum.splits)

section \<open>Reading records\<close>

lemma pair_chain_id: "pair_kind d \<Longrightarrow> id_pattern i \<Longrightarrow> record_chain root (pair_dirs d) (pair_file i) \<subseteq> pair_sealed root"
  by (rule pair_chain[OF _ pair_record_file[OF id_chars]])

lemma orderly_parts:
  assumes "orderly env s" and "pair_kind d" and "record_file b"
  shows "spares (hv_disk env) (pair_sealed (hv_root env))" "record_chain (hv_root env) (pair_dirs d) b \<subseteq> pair_sealed (hv_root env)"
    "store_root (hv_root env)" "proper_dir (pair_dirs d)" "proper_name b"
    "\<not> raw (entry_at (ph_disk s) (record_path (hv_root env) (pair_dirs d) b))"
proof -
  show K: "record_chain (hv_root env) (pair_dirs d) b \<subseteq> pair_sealed (hv_root env)" by (rule pair_chain[OF assms(2,3)])
  then show "\<not> raw (entry_at (ph_disk s) (record_path (hv_root env) (pair_dirs d) b))"
    using assms(1) record_chain_simps(1)[of "hv_root env" "pair_dirs d" b] unfolding orderly_def flushed_in_def by blast
qed (use assms pair_spares(1) pair_dirs_proper(1) in \<open>auto simp: orderly_def pair_peaceful_def record_file_def\<close>)

lemma pair_read_record:
  assumes "orderly env s" and "pair_kind d" and "record_file b"
  shows "pair_made env h (read_record env (dir_name (pair_dirs d) @ CHR ''/'' # b) reader)
    (\<lambda>r t. stored (ph_disk t) (hv_root env) (pair_dirs d) b (fst r) \<and> strict_document (hv_lib env) reader (fst r) = Inr (snd r)) s"
proof -
  note o = orderly_parts[OF assms]
  show ?thesis unfolding read_record_def
  proof (rule pairing.made_bind[OF pair_records[OF made_read_durable[OF o(1-6)]]], rule pairing.made_bind[OF pair_of_res],
      rule pairing.made_ret, goal_cases)
    case (1 data t v u)
    then show ?case using stored_evolves[OF 1(2) _ o(2)] by (simp add: paired_def)
  qed
qed

text \<open>A record that is there and can be decoded is not reported missing.\<close>

lemma read_record_found:
  assumes "orderly env s" and "pair_kind d" and "record_file b" and st: "stored (ph_disk s) (hv_root env) (pair_dirs d) b c"
    and dec: "strict_document (hv_lib env) reader c = Inr v"
    and run: "read_record env (dir_name (pair_dirs d) @ CHR ''/'' # b) reader s = (r, t)"
  shows "(\<exists>e. r = Inl e \<and> \<not> err_is e NotExist) \<or> r = Inr (c, v)"
proof -
  note o = orderly_parts[OF assms(1-3)]
  let ?m = "read_durable (hv_disk env) (hv_root env) (dir_name (pair_dirs d) @ CHR ''/'' # b) max_pair_document"
  obtain x u where x: "?m (ph_disk s) = (x, u)" by fastforce
  from st have firm: "firm (ph_disk s) (record_path (hv_root env) (pair_dirs d) b)" by (simp add: stored_def lasting_def)
  show ?thesis
  proof (cases x)
    case (Inl e)
    from found_read_durable[OF o(1,2,4,5,3) firm o(6), of max_pair_document] x Inl have "\<not> err_is e NotExist"
      by (simp add: found_def wp_def)
    with run x Inl show ?thesis by (auto simp: read_record_def on_records_def run_simps)
  next
    case (Inr data)
    from disk.made_result[OF made_read_durable[OF o(1-6)], of max_pair_document data u] x Inr
    have "evolves (pair_sealed (hv_root env)) (ph_disk s) u" "stored u (hv_root env) (pair_dirs d) b data" by auto
    with stored_evolves[OF st _ o(2)] have "data = c" by (auto simp: stored_def)
    with run x Inr dec show ?thesis by (auto simp: read_record_def on_records_def run_simps)
  qed
qed

lemma pair_read_grant:
  assumes "orderly env s"
  shows "pair_made env h (read_grant env i)
    (\<lambda>r t. id_pattern i \<and> granted (hv_lib env) (hv_root env) (ph_disk t) i (fst r)) s"
  unfolding read_grant_def
proof (rule pairing.made_check)
  assume "check (\<not> id_pattern i) ''invalid pair id'' = None"
  then have i: "id_pattern i" by simp
  show "pair_made env h (andthen (read_record env (grant_path i) (decode_grant (hv_lib env)))
    (\<lambda>(data, g). then_do (refuse (grant_refusal (hv_lib env) i g)) (ret (g, data))))
    (\<lambda>r t. id_pattern i \<and> granted (hv_lib env) (hv_root env) (ph_disk t) i (fst r)) s"
    unfolding pair_paths(1)[OF i]
    by (rule pairing.made_bind[OF pair_read_record[OF assms _ pair_record_file[OF id_chars[OF i]]]])
      (auto intro!: pairing.made_prod pairing.made_check pairing.made_ret simp: i granted_def pair_kind_def)
qed

lemma pair_read_tombstone:
  assumes "orderly env s" and i: "id_pattern i"
  shows "pair_made env h (read_tombstone env i)
    (\<lambda>r t. case r of None \<Rightarrow> True | Some (tomb, data) \<Rightarrow> buried (hv_lib env) (hv_root env) (ph_disk t) i data) s"
  unfolding read_tombstone_def pair_paths(2)[OF i]
  by (rule pairing.made_bind[OF pairing.made_attempt[OF pair_read_record[OF assms(1) _ pair_record_file[OF id_chars[OF i]],
        of "''tombstones''" h "decode_tombstone (hv_lib env)"], where Q = "\<lambda>r t. case r of Inl e \<Rightarrow> True
        | Inr x \<Rightarrow> stored (ph_disk t) (hv_root env) (pair_dirs ''tombstones'') (pair_file i) (fst x)
            \<and> strict_document (hv_lib env) (decode_tombstone (hv_lib env)) (fst x) = Inr (snd x)"]])
    (auto intro!: pairing.made_if pairing.made_check pairing.made_control simp: pair_kind_def buried_def split: sum.split)

lemma buried_refuses:
  assumes "orderly env s" and i: "id_pattern i" and b: "buried (hv_lib env) (hv_root env) (ph_disk s) i c"
  shows "\<exists>e. fst (refuse_revoked env i s) = Inl e"
proof -
  from b obtain v where v: "stored (ph_disk s) (hv_root env) (pair_dirs ''tombstones'') (pair_file i) c"
    "strict_document (hv_lib env) (decode_tombstone (hv_lib env)) c = Inr v" "tb_schema_version v = 1" "tb_pair_id v = i"
    by (auto simp: buried_def)
  obtain r t where r: "read_record env (tomb_path i) (decode_tombstone (hv_lib env)) s = (r, t)" by fastforce
  from read_record_found[OF assms(1) _ pair_record_file[OF id_chars[OF i]] v(1,2) r[unfolded pair_paths(2)[OF i]]] v(3,4) r
  show ?thesis by (auto simp: refuse_revoked_def read_tombstone_def run_simps then_do_def pair_kind_def)
qed

section \<open>Enrollment\<close>

lemma granted_kept: "granted (hv_lib env) (hv_root env) (ph_disk s) i g \<Longrightarrow> pair_kept env h s t \<Longrightarrow> id_pattern i \<Longrightarrow>
    granted (hv_lib env) (hv_root env) (ph_disk t) i g"
  by (auto simp: paired_def elim!: granted_evolves)

lemma buried_kept: "buried (hv_lib env) (hv_root env) (ph_disk s) i c \<Longrightarrow> pair_kept env h s t \<Longrightarrow> id_pattern i \<Longrightarrow>
    buried (hv_lib env) (hv_root env) (ph_disk t) i c"
  by (auto simp: paired_def elim!: buried_evolves)

lemma granted_id: "granted lib root d i g \<Longrightarrow> gr_pair_id g = i"
  by (auto simp: granted_def grant_refusal_def Let_def)

lemma pair_publish:
  assumes "orderly env s" and "pair_kind d" and "record_file b"
  shows "pair_made env h (on_records env (private_publish (hv_disk env) (hv_root env) (dir_name (pair_dirs d) @ CHR ''/'' # b) c False)) (\<lambda>_ _. True) s"
  using assms orderly_parts[OF assms] unfolding orderly_def
  by (intro pair_true[OF pair_records[OF made_publish[OF pair_spares(2) _ pair_temporaries]]]) auto

lemma pair_read_offer:
  assumes "orderly env s"
  shows "pair_made env h (read_offer env sha) (\<lambda>_ _. True) s"
  unfolding read_offer_def
proof (rule pairing.made_check)
  assume "check (\<not> hex64 sha) ''invalid offer hash'' = None"
  then have sha: "hex64 sha" by simp
  have "record_file (pair_file sha)" using hex_id[OF sha] by (intro pair_record_file) simp_all
  from pair_read_record[OF assms _ this]
  have "pair_made env h (attempt (read_record env (offer_path sha) (decode_offer (hv_lib env)))) (\<lambda>_ _. True) s"
    unfolding pair_paths(3)[OF sha] by (rule pairing.made_attempt) (simp_all add: pair_kind_def)
  then show "pair_made env h (andthen (attempt (read_record env (offer_path sha) (decode_offer (hv_lib env)))) (\<lambda>r. case r of
        Inl e \<Rightarrow> if err_is e NotExist then fail (Msg ''request names an offer this host did not issue'') else fail e
      | Inr (data, v) \<Rightarrow>
          then_do (refuse (validate_offer (hv_lib env) v))
          (then_do (refuse (check (offer_digest (hv_lib env) v \<noteq> sha) ''retained offer does not match its digest''))
           (ret v)))) (\<lambda>_ _. True) s"
    by (rule pairing.made_bind) (auto intro!: pairing.made_if pairing.made_check pairing.made_control split: sum.split)
qed

lemma pair_authority: "pair_made env h (on_platform (pf_authority p x y)) (\<lambda>_ _. True) s"
  by (rule pair_platform)

lemma pair_new_grant:
  assumes "orderly env s"
  shows "pair_made env h (new_grant env intent) (\<lambda>g t. gr_pair_id g = ei_pair_id intent) s"
  unfolding new_grant_def Let_def
  by (rule pairing.made_bind[OF pair_read_offer[OF assms]] pairing.made_check pairing.made_bind[OF pair_look]
      pairing.made_bind[OF pair_platform] pairing.made_bind[OF pair_of_res] pairing.made_ret)+ simp

lemma pair_refuse_revoked: "orderly env s \<Longrightarrow> id_pattern i \<Longrightarrow> pair_made env h (refuse_revoked env i) (\<lambda>_ _. True) s"
  unfolding refuse_revoked_def by (rule pairing.made_bind[OF pair_read_tombstone]) (simp_all add: pairing.made_control)

lemma pair_find_grant:
  assumes "orderly env s" and i: "id_pattern (ei_pair_id intent)"
  shows "pair_made env h (find_grant env intent) (\<lambda>r t. gr_pair_id (snd r) = ei_pair_id intent \<and>
    (fst r \<longrightarrow> granted (hv_lib env) (hv_root env) (ph_disk t) (ei_pair_id intent) (snd r)
       \<and> gr_intent_sha (snd r) = intent_digest (hv_lib env) intent)) s"
  unfolding find_grant_def
proof (rule pairing.made_bind[OF pairing.made_attempt[OF pair_read_grant[OF assms(1)], where Q = "\<lambda>r t. case r of Inl e \<Rightarrow> True
      | Inr x \<Rightarrow> granted (hv_lib env) (hv_root env) (ph_disk t) (ei_pair_id intent) (fst x)"]], simp, simp, goal_cases)
  case (1 r t)
  have t: "orderly env t" by (rule orderly_kept[OF assms(1) 1(1)])
  show ?case
  proof (cases r)
    case (Inl e)
    then show ?thesis
      by (auto intro!: pairing.made_control pairing.made_bind[OF pair_new_grant[OF t]])
  next
    case (Inr x)
    obtain g data where x: "x = (g, data)" by fastforce
    with 1(2) Inr have g: "granted (hv_lib env) (hv_root env) (ph_disk t) (ei_pair_id intent) g" by simp
    show ?thesis unfolding Inr sum.case x prod.case
      by (rule pairing.made_check, rule pairing.made_then[OF pair_refuse_revoked[OF t i]])
        (auto intro!: pairing.made_ret granted_id[OF g] dest: granted_kept[OF g _ i])
  qed
qed

lemma pair_retain_grant:
  assumes "orderly env s" and i: "id_pattern (gr_pair_id g)"
  shows "pair_made env h (retain_grant env sha g) (\<lambda>d t. granted (hv_lib env) (hv_root env) (ph_disk t) (gr_pair_id g) d \<and> gr_intent_sha d = sha) s"
  unfolding retain_grant_def pair_paths(1)[OF i]
proof (rule pairing.made_bind[OF pair_of_res],
    rule pairing.made_bind[OF pairing.made_attempt[OF pair_publish[OF _ _ pair_record_file[OF id_chars[OF i]]], where Q = "\<lambda>_ _. True"]], goal_cases)
  case (5 v t r u)
  show ?case
    by (rule pairing.made_check, rule pairing.made_bind[OF pair_read_grant[OF orderly_kept[OF assms(1) pairing.trans[OF 5(1,3)]]]])
      (auto intro!: pairing.made_prod pairing.made_check pairing.made_ret)
qed (use orderly_kept[OF assms(1)] in \<open>simp_all add: pair_kind_def\<close>)

lemma pair_admit_line:
  assumes "orderly env s" and g: "granted (hv_lib env) (hv_root env) (ph_disk s) (gr_pair_id g) g" and i: "id_pattern (gr_pair_id g)" and k: "ph_host s = k"
  shows "pair_made env (Some k) (admit_line env g) (\<lambda>r t. fst r = g) s"
  unfolding admit_line_def
proof (rule pairing.made_then[OF pair_checks(2)], rule pairing.made_then[OF pair_refuse_revoked[OF orderly_kept[OF assms(1)] i]], assumption,
    rule pairing.made_bind[OF pair_read_keys], rule pairing.made_bind[OF pair_of_res], goal_cases)
  case (1 t u keys v exact w)
  have sw: "pair_kept env (Some k) s w" using 1(1,3,5,7) by (blast intro: pairing.trans)
  have edit: "pair_made env (Some k) (if exact = 0 then replace_keys env keys (append_line (kf_bytes keys) (gr_line g)) else skip) (\<lambda>_ _. True) w"
  proof (rule pairing.made_if)
    assume "exact = 0"
    with 1(8) have none: "scan_for (kf_bytes keys) g = (0, False, False)"
      by (auto simp: scan_grant_def split: prod.splits if_splits)
    show "pair_made env (Some k) (replace_keys env keys (append_line (kf_bytes keys) (gr_line g))) (\<lambda>_ _. True) w"
    proof (rule pair_replace)
      show "ph_host w = k" using sw k by (simp add: paired_def)
      show "rightful_edit (hv_lib env) (hv_root env) \<lparr>ke_file = keys, ke_contents = append_line (kf_bytes keys) (gr_line g), ke_disk = ph_disk w, ke_host = k\<rparr>"
        unfolding rightful_edit_def using none granted_kept[OF g sw i] by auto
    qed
  qed (rule pairing.made_ret, simp)
  show ?case
    by (rule pairing.made_then[OF edit], rule pairing.made_then[OF pair_checks(2)], rule pairing.made_bind[OF pair_read_keys],
        rule pairing.made_check, rule pairing.made_ret) simp
qed

lemma pair_enroll_action:
  assumes "orderly env s" and i: "id_pattern (gr_pair_id g)" and k: "ph_host s = k"
    and g: "there \<Longrightarrow> granted (hv_lib env) (hv_root env) (ph_disk s) (gr_pair_id g) g"
  shows "pair_made env (Some k) (enroll_action env sha there g)
    (\<lambda>r t. granted (hv_lib env) (hv_root env) (ph_disk t) (gr_pair_id g) (fst r) \<and> (there \<longrightarrow> fst r = g) \<and> (\<not> there \<longrightarrow> gr_intent_sha (fst r) = sha)) s"
  unfolding enroll_action_def
proof (rule pairing.made_bind[where P = "\<lambda>d t. granted (hv_lib env) (hv_root env) (ph_disk t) (gr_pair_id g) d
      \<and> (there \<longrightarrow> d = g) \<and> (\<not> there \<longrightarrow> gr_intent_sha d = sha)"], goal_cases)
  case 1
  show ?case
    by (rule pairing.made_if) (use g in \<open>auto intro!: pairing.made_ret pairing.made_weaken[OF pair_retain_grant[OF assms(1) i]]\<close>)
next
  case (2 d t)
  then have id: "gr_pair_id d = gr_pair_id g" by (blast dest: granted_id)
  have "ph_host t = k" using 2(1) k by (simp add: paired_def)
  with 2 id i orderly_kept[OF assms(1) 2(1)]
  have "pair_made env (Some k) (admit_line env d) (\<lambda>r t. fst r = d) t" by (intro pair_admit_line) simp_all
  then show ?case
    by (rule pairing.made_weaken) (use 2(2) i in \<open>auto elim!: granted_kept\<close>)
qed

section \<open>Revocation\<close>

lemma pair_retain_tombstone:
  assumes "orderly env s" and i: "id_pattern i"
  shows "pair_made env h (retain_tombstone env i bytes source) (\<lambda>c t. c = '''' \<or> buried (hv_lib env) (hv_root env) (ph_disk t) i c) s"
  unfolding retain_tombstone_def
proof (rule pairing.made_bind[OF pair_read_tombstone[OF assms]], goal_cases)
  case (1 r t)
  have ot: "orderly env t" by (rule orderly_kept[OF assms(1) 1(1)])
  show ?case
  proof (cases r)
    case None
    show ?thesis unfolding None option.case pair_paths(2)[OF i]
    proof (rule pairing.made_bind[OF pair_look], rule pairing.made_bind[OF pair_of_res],
        rule pairing.made_bind[OF pairing.made_attempt[OF pair_publish[OF _ _ pair_record_file[OF id_chars[OF i]]], where Q = "\<lambda>_ _. True"]], goal_cases)
      case (5 now u v w x y)
      have "orderly env y" using 5(1,3,5) by (blast intro: orderly_kept[OF ot] pairing.trans)
      from pair_read_tombstone[OF this i] show ?case
        by (intro pairing.made_check) (rule pairing.made_bind, assumption, rule pairing.made_ret, auto split: option.splits)
    qed (use orderly_kept[OF ot] in \<open>auto simp: pair_kind_def intro: pairing.trans\<close>)
  next
    case (Some x)
    with 1(2) show ?thesis by (cases x) (simp add: pairing.made_ret)
  qed
qed

lemma pair_drop_line:
  assumes g: "granted (hv_lib env) (hv_root env) (ph_disk s) i g" and i: "id_pattern i" and k: "ph_host s = k"
  shows "pair_made env (Some k) (drop_line env g) (\<lambda>_ _. True) s"
  unfolding drop_line_def Let_def
proof (rule pairing.made_then[OF pair_checks(2)], rule pairing.made_bind[OF pair_read_keys], rule pairing.made_check, goal_cases)
  case (1 t keys u)
  let ?m = "andthen (of_res (remove_line (kf_bytes keys) (gr_line g))) (replace_keys env keys)"
  have su: "pair_kept env (Some k) s u" using 1(1,3) by (rule pairing.trans)
  have edit: "pair_made env (Some k) ?m (\<lambda>_ _. True) u"
  proof (rule pairing.made_bind[OF pair_of_res], rule pair_replace, goal_cases)
    case (1 c w)
    with su k show ?case by (simp add: paired_def)
  next
    case (2 c w)
    with granted_kept[OF g pairing.trans[OF su 2(1)] i] show ?case unfolding rightful_edit_def by auto
  qed
  show ?case
    by (rule pairing.made_then[OF pairing.made_if[OF edit pairing.made_ret]], simp, rule pairing.made_then[OF pair_checks(2)],
        rule pairing.made_bind[OF pair_read_keys]) (auto intro!: pairing.made_prod pairing.made_check pairing.made_control)
qed

lemma pair_revoke_action:
  assumes "orderly env s" and g: "granted (hv_lib env) (hv_root env) (ph_disk s) i g" and i: "id_pattern i" and k: "ph_host s = k"
  shows "pair_made env (Some k) (revoke_action env i bytes source g)
    (\<lambda>r t. fst r = '''' \<or> buried (hv_lib env) (hv_root env) (ph_disk t) i (fst r)) s"
  unfolding revoke_action_def
proof (rule pairing.made_bind[OF pair_retain_tombstone[OF assms(1) i]], goal_cases)
  case (1 c t)
  show ?case
  proof (rule pairing.made_bind[OF pair_drop_line[OF granted_kept[OF g 1(1) i] i]])
    show "ph_host t = k" using 1(1) k by (simp add: paired_def)
    fix x u assume "pair_kept env (Some k) t u"
    with 1(2) i show "pair_made env (Some k) (case x of (before, after) \<Rightarrow> ret (c, before, after))
        (\<lambda>r t. fst r = '''' \<or> buried (hv_lib env) (hv_root env) (ph_disk t) i (fst r)) u"
      by (cases x) (auto intro!: pairing.made_ret dest: buried_kept)
  qed
qed

section \<open>Whole operations\<close>

text \<open>An edit that a recorded grant justifies, made while no Run is active.\<close>

definition lawful_edit :: "ctl_lib \<Rightarrow> string \<Rightarrow> keys_edit \<Rightarrow> bool" where
  "lawful_edit lib root e \<longleftrightarrow> rightful_edit lib root e \<and> idle (ke_host e) \<and> hs_launch (ke_host e)"

definition lawful :: "ctl_lib \<Rightarrow> string \<Rightarrow> 'p pair_host \<Rightarrow> 'p pair_host \<Rightarrow> bool" where
  "lawful lib root s t \<longleftrightarrow> evolves (pair_sealed root) (ph_disk s) (ph_disk t)
     \<and> (\<exists>es. ph_edits t = es @ ph_edits s \<and> list_all (lawful_edit lib root) es)"

interpretation lawfully: history "lawful lib root" for lib root
proof (unfold_locales, goal_cases)
  case (2 s t u)
  then obtain es fs where "ph_edits t = es @ ph_edits s" "ph_edits u = fs @ ph_edits t" "list_all (lawful_edit lib root) es" "list_all (lawful_edit lib root) fs"
    by (auto simp: lawful_def)
  with 2 show ?case unfolding lawful_def by (intro conjI exI[of _ "fs @ es"]) (auto intro: disk.trans)
qed (simp add: lawful_def disk.refl)

abbreviation lawful_made :: "'p pair_env \<Rightarrow> ('p, 'a) pact \<Rightarrow> ('a \<Rightarrow> 'p pair_host \<Rightarrow> bool) \<Rightarrow> 'p pair_host \<Rightarrow> bool" where
  "lawful_made env \<equiv> lawfully.made (hv_lib env) (hv_root env)"

lemma paired_silent: "paired lib root None s t \<longleftrightarrow> evolves (pair_sealed root) (ph_disk s) (ph_disk t) \<and> ph_host t = ph_host s \<and> ph_edits t = ph_edits s"
  by (auto simp: paired_def list_all_iff)

lemma lawful_silent: "pair_made env None m Q s \<Longrightarrow> lawful_made env m (\<lambda>a t. pair_kept env None s t \<and> Q a t) s"
  unfolding pairing.made_def lawfully.made_def by (erule wp_mono) (auto simp: paired_silent lawful_def)

interpretation pair_embedding: embedded_host ph_host put_host
  by unfold_locales (simp_all add: put_host_def)

lemma put_host_simps [simp]: "ph_disk (put_host h s) = ph_disk s" "ph_edits (put_host h s) = ph_edits s" "ph_host (put_host h s) = h"
  by (simp_all add: put_host_def)

lemma lawful_maintenance:
  assumes names: "names_present (hv_maintenance env) (ph_host s)"
    and act: "\<And>h. idle h \<Longrightarrow> hs_launch h \<Longrightarrow> pair_made env (Some h) action (\<lambda>a t. Q a (ph_disk t)) (put_host h s)"
  shows "lawful_made env (with_maintenance ph_host put_host (hv_maintenance env) action) (\<lambda>a t. Q a (ph_disk t)) s"
proof -
  have "lawful (hv_lib env) (hv_root env) s t \<and> (\<forall>a. r = Inr a \<longrightarrow> Q a (ph_disk t))"
    if run: "with_maintenance ph_host put_host (hv_maintenance env) action s = (r, t)" for r t
    using names run[unfolded with_maintenance_def]
  proof (cases rule: pair_embedding.maintenance_cases)
    case (refused e h)
    then show ?thesis by (simp add: lawful_def disk.refl)
  next
    case (acted h v)
    from pairing.made_state[OF act[OF acted(1,2)]] pairing.made_result[OF act[OF acted(1,2)]] acted
    show ?thesis by (auto simp: lawful_def paired_def lawful_edit_def list_all_iff)
  qed
  then show ?thesis by (auto simp: lawfully.made_def wp_def split: prod.splits sum.splits)
qed

lemma orderly_lawful: "orderly env s \<Longrightarrow> lawful (hv_lib env) (hv_root env) s t \<Longrightarrow> orderly env t"
  unfolding orderly_def flushed_in_def lawful_def using evolves_raw by blast

text \<open>What a successful enrollment returns.\<close>

definition enrolled :: "ctl_lib \<Rightarrow> string \<Rightarrow> enrollment_intent \<Rightarrow> enrollment \<Rightarrow> disk \<Rightarrow> bool" where
  "enrolled lib root intent r d \<longleftrightarrow> id_pattern (ei_pair_id intent) \<and> (\<exists>g v. granted lib root d (ei_pair_id intent) g \<and> gr_intent_sha g = intent_digest lib intent
     \<and> enrollment_json lib (gr_receipt g) = Inr v \<and> en_receipt r = render v \<and> en_receipt_sha r = gr_receipt_sha g)"

lemma find_grant_id: "\<not> id_pattern (ei_pair_id intent) \<Longrightarrow> fst (find_grant env intent s) = Inl (Msg ''invalid pair id'')"
  by (simp add: find_grant_def read_grant_def run_simps then_do_def)

lemma lawful_enroll:
  assumes o: "orderly env s" and names: "names_present (hv_maintenance env) (ph_host s)"
  shows "lawful_made env (pair_enroll env (TrustedIntent intent) apply)
    (\<lambda>r t. apply \<longrightarrow> enrolled (hv_lib env) (hv_root env) intent r (ph_disk t)) s"
proof (cases "id_pattern (ei_pair_id intent)")
  case True
  show ?thesis unfolding pair_enroll_def trusted_intent.case Let_def
  proof (rule lawfully.made_check, rule lawfully.made_bind[OF lawful_silent[OF pair_find_grant[OF o True]]], rule lawfully.made_prod,
      rule lawfully.made_if, goal_cases)
    case (1 x t there g)
    show ?case
      by (rule lawfully.made_bind[OF lawful_silent[OF pair_read_keys]], rule lawfully.made_bind[OF lawful_silent[OF pair_of_res]],
          rule lawfully.made_ret) (use 1 in simp)
  next
    case (2 x t there g)
    let ?sha = "intent_digest (hv_lib env) intent"
    from 2 have g: "gr_pair_id g = ei_pair_id intent"
      "there \<Longrightarrow> granted (hv_lib env) (hv_root env) (ph_disk t) (ei_pair_id intent) g" "there \<Longrightarrow> gr_intent_sha g = ?sha"
      by auto
    have kept: "pair_kept env None s t" using 2 by blast
    show ?case
    proof (rule lawfully.made_then[OF lawful_silent[OF pair_checks(1)]], goal_cases)
      case (1 u)
      from 1(2) have tu: "pair_kept env None t u" by blast
      from kept tu have su: "pair_kept env None s u" by (rule pairing.trans)
      then have host: "ph_host u = ph_host s" by (simp add: paired_def)
      have "lawful_made env (with_maintenance ph_host put_host (hv_maintenance env) (enroll_action env ?sha there g))
          (\<lambda>r t. granted (hv_lib env) (hv_root env) (ph_disk t) (ei_pair_id intent) (fst r) \<and> gr_intent_sha (fst r) = ?sha) u"
      proof (rule lawful_maintenance)
        fix h assume "idle h" "hs_launch h"
        have "orderly env (put_host h u)" using orderly_kept[OF o su] by (simp add: orderly_def)
        then have "pair_made env (Some h) (enroll_action env ?sha there g)
          (\<lambda>r t. granted (hv_lib env) (hv_root env) (ph_disk t) (gr_pair_id g) (fst r) \<and> (there \<longrightarrow> fst r = g) \<and> (\<not> there \<longrightarrow> gr_intent_sha (fst r) = ?sha))
          (put_host h u)"
          by (rule pair_enroll_action) (use g True tu in \<open>auto dest: granted_kept\<close>)
        then show "pair_made env (Some h) (enroll_action env ?sha there g)
          (\<lambda>r t. granted (hv_lib env) (hv_root env) (ph_disk t) (ei_pair_id intent) (fst r) \<and> gr_intent_sha (fst r) = ?sha) (put_host h u)"
          by (rule pairing.made_weaken) (use g in auto)
      qed (simp add: host names)
      then show ?case
      proof (rule lawfully.made_bind, goal_cases)
        case (1 r w)
        obtain g' before after where r: "r = (g', before, after)" by (cases r)
        show ?case unfolding r prod.case
        proof (rule lawfully.made_bind[OF lawful_silent[OF pair_of_res]], rule lawfully.made_ret, goal_cases)
          case (1 v y)
          then have "granted (hv_lib env) (hv_root env) (ph_disk y) (ei_pair_id intent) g'"
            using \<open>granted _ _ _ _ (fst r) \<and> _\<close> True by (auto simp: r dest: granted_kept)
          with \<open>granted _ _ _ _ (fst r) \<and> _\<close> 1 True show ?case by (auto simp: r enrolled_def)
        qed
      qed
    qed
  qed
next
  case False
  have "lawful_made env (find_grant env intent) (\<lambda>_ _. False) s"
    using find_grant_id[OF False, of env s]
    by (auto simp: lawfully.made_def wp_def find_grant_def read_grant_def run_simps then_do_def lawful_def disk.refl False)
  then show ?thesis unfolding pair_enroll_def trusted_intent.case Let_def
    by (intro lawfully.made_check) (rule lawfully.made_bind, assumption, simp)
qed

text \<open>A successful revocation has found or recorded a tombstone, unless it reports the digest of nothing.\<close>

lemma lawful_revoke:
  assumes o: "orderly env s" and names: "names_present (hv_maintenance env) (ph_host s)"
  shows "lawful_made env (pair_revoke env i key_hash source apply)
    (\<lambda>r t. apply \<longrightarrow> id_pattern i \<and> (\<exists>g. granted (hv_lib env) (hv_root env) (ph_disk t) i g)
      \<and> (rv_tombstone r = pair_sha env '''' \<or> (\<exists>c. buried (hv_lib env) (hv_root env) (ph_disk t) i c))) s"
proof -
  have read: "pair_made env None (attempt (read_grant env i)) (\<lambda>r t. case r of Inl e \<Rightarrow> True
      | Inr x \<Rightarrow> id_pattern i \<and> granted (hv_lib env) (hv_root env) (ph_disk t) i (fst x)) s"
    by (rule pairing.made_attempt[OF pair_read_grant[OF o]]) simp_all
  show ?thesis unfolding pair_revoke_def
  proof (rule lawfully.made_check, rule lawfully.made_bind[OF lawful_silent[OF read]], goal_cases)
    case (1 x t)
    then have kept: "pair_kept env None s t" by blast
    show ?case
    proof (cases x)
      case (Inl e)
      then show ?thesis by (simp add: lawfully.made_control)
    next
      case (Inr y)
      obtain g bytes where y: "y = (g, bytes)" by fastforce
      from 1 Inr y have i: "id_pattern i" and g: "granted (hv_lib env) (hv_root env) (ph_disk t) i g" by auto
      show ?thesis unfolding Inr y sum.case prod.case Let_def
      proof (rule lawfully.made_check, rule lawfully.made_if, goal_cases)
        case 1
        then show ?case
          by (intro lawfully.made_bind[OF lawful_silent[OF pair_true[OF pair_read_tombstone[OF orderly_kept[OF o kept] i]]]]
              lawfully.made_bind[OF lawful_silent[OF pair_read_keys]] lawfully.made_prod lawfully.made_ret) simp
      next
        case 2
        show ?case
        proof (rule lawfully.made_then[OF lawful_silent[OF pair_checks(1)]], goal_cases)
          case (1 u)
          then have tu: "pair_kept env None t u" by blast
          from kept tu have su: "pair_kept env None s u" by (rule pairing.trans)
          then have host: "ph_host u = ph_host s" by (simp add: paired_def)
          have "lawful_made env (with_maintenance ph_host put_host (hv_maintenance env) (revoke_action env i bytes source g))
              (\<lambda>r t. fst r = '''' \<or> buried (hv_lib env) (hv_root env) (ph_disk t) i (fst r)) u"
          proof (rule lawful_maintenance)
            fix h assume "idle h" "hs_launch h"
            have "orderly env (put_host h u)" using orderly_kept[OF o su] by (simp add: orderly_def)
            then show "pair_made env (Some h) (revoke_action env i bytes source g)
                (\<lambda>r t. fst r = '''' \<or> buried (hv_lib env) (hv_root env) (ph_disk t) i (fst r)) (put_host h u)"
              by (rule pair_revoke_action) (use granted_kept[OF g tu i] i in simp_all)
          qed (simp add: host names)
          then show ?case
          proof (rule lawfully.made_bind, goal_cases)
            case (1 r w)
            from 1(1) have "evolves (pair_sealed (hv_root env)) (ph_disk u) (ph_disk w)" by (simp add: lawful_def)
            from granted_evolves[OF granted_kept[OF g tu i] this i]
            show ?case by (cases r) (use 1 i in \<open>auto intro!: lawfully.made_ret\<close>)
          qed
        qed
      qed
    qed
  qed
qed

section \<open>A revoked pairing stays out\<close>

lemma read_grant_found:
  assumes o: "orderly env s" and i: "id_pattern i" and g: "granted (hv_lib env) (hv_root env) (ph_disk s) i g"
    and run: "read_grant env i s = (r, t)"
  shows "(\<exists>e. r = Inl e \<and> \<not> err_is e NotExist) \<or> (\<exists>c. r = Inr (g, c))"
proof -
  from g obtain c where c: "stored (ph_disk s) (hv_root env) (pair_dirs ''grants'') (pair_file i) c"
    "strict_document (hv_lib env) (decode_grant (hv_lib env)) c = Inr g" "grant_refusal (hv_lib env) i g = None"
    by (auto simp: granted_def)
  obtain x u where x: "read_record env (grant_path i) (decode_grant (hv_lib env)) s = (x, u)" by fastforce
  from read_record_found[OF o _ pair_record_file[OF id_chars[OF i]] c(1,2) x[unfolded pair_paths(1)[OF i]]] run x c(3)
  show ?thesis by (auto simp: read_grant_def run_simps then_do_def i pair_kind_def)
qed

lemma buried_silent:
  assumes "orderly env s" and "id_pattern i" and "buried (hv_lib env) (hv_root env) (ph_disk s) i c"
  shows "pair_made env None (refuse_revoked env i) (\<lambda>_ _. False) s"
  using buried_refuses[OF assms] pair_refuse_revoked[OF assms(1,2), of None]
  by (auto simp: pairing.made_def wp_def split: prod.splits sum.splits)

lemma buried_action:
  assumes o: "orderly env s" and i: "id_pattern (gr_pair_id g)" and b: "buried (hv_lib env) (hv_root env) (ph_disk s) (gr_pair_id g) c"
  shows "pair_made env None (enroll_action env sha there g) (\<lambda>_ _. False) s"
  unfolding enroll_action_def
proof (rule pairing.made_bind[where P = "\<lambda>d t. gr_pair_id d = gr_pair_id g"], goal_cases)
  case 1
  show ?case
    by (rule pairing.made_if) (auto intro!: pairing.made_ret pairing.made_weaken[OF pair_retain_grant[OF o i]] granted_id)
next
  case (2 d t)
  show ?case unfolding admit_line_def
  proof (rule pairing.made_then[OF pair_checks(2)], goal_cases)
    case (1 u)
    with 2(1) have su: "pair_kept env None s u" by (blast intro: pairing.trans)
    from buried_silent[OF orderly_kept[OF o su] i buried_kept[OF b su i]] 2(2)
    have "pair_made env None (refuse_revoked env (gr_pair_id d)) (\<lambda>_ _. False) u" by simp
    then show ?case by (rule pairing.made_then) simp
  qed
qed

lemma buried_enroll:
  assumes o: "orderly env s" and i: "id_pattern (ei_pair_id intent)"
    and g: "granted (hv_lib env) (hv_root env) (ph_disk s) (ei_pair_id intent) g"
    and b: "buried (hv_lib env) (hv_root env) (ph_disk s) (ei_pair_id intent) c"
  shows "pair_made env None (pair_enroll env (TrustedIntent intent) apply) (\<lambda>_ _. False) s"
proof -
  obtain r t where r: "read_grant env (ei_pair_id intent) s = (r, t)" by fastforce
  have st: "pair_kept env None s t" using pairing.made_state[OF pair_read_grant[OF o, of None "ei_pair_id intent"]] r by simp
  have "pair_made env None (find_grant env intent) (\<lambda>_ _. False) s"
  proof (cases r)
    case (Inl e)
    with read_grant_found[OF o i g r] have "\<not> err_is e NotExist" by simp
    with r st Inl show ?thesis by (simp add: find_grant_def pairing.made_def wp_def run_simps)
  next
    case (Inr x)
    obtain g' bytes where x: "x = (g', bytes)" by fastforce
    have "pair_made env None (then_do (refuse (check (gr_intent_sha g' \<noteq> intent_digest (hv_lib env) intent) ''pair id is already bound to a different request''))
        (then_do (refuse_revoked env (ei_pair_id intent)) (ret (True, g')))) (\<lambda>_ _. False) t"
      by (rule pairing.made_check, rule pairing.made_then[OF buried_silent[OF orderly_kept[OF o st] i buried_kept[OF b st i]]]) simp
    then show ?thesis using r st Inr x
      by (auto simp: find_grant_def pairing.made_def wp_def run_simps intro: pairing.trans split: prod.splits sum.splits)
  qed
  then show ?thesis unfolding pair_enroll_def trusted_intent.case
    by (intro pairing.made_check) (rule pairing.made_bind, assumption, simp)
qed

lemma never_result: "pair_made env None m (\<lambda>_ _. False) s \<Longrightarrow> m s = (r, t) \<Longrightarrow> (\<exists>e. r = Inl e) \<and> ph_edits t = ph_edits s"
  by (auto simp: pairing.made_def wp_def paired_silent split: sum.splits)

section \<open>Guarantees\<close>

text \<open>A preview edits nothing.\<close>

lemma silent_find_grant:
  assumes "orderly env s"
  shows "pair_made env h (find_grant env intent) (\<lambda>_ _. True) s"
proof (cases "id_pattern (ei_pair_id intent)")
  case False
  then show ?thesis by (auto simp: pairing.made_def wp_def find_grant_def read_grant_def run_simps then_do_def pairing.refl)
qed (rule pair_true[OF pair_find_grant[OF assms]])

lemma silent_preview:
  assumes "orderly env s"
  shows "pair_made env None (pair_enroll env (TrustedIntent intent) False) (\<lambda>_ _. True) s"
  unfolding pair_enroll_def trusted_intent.case Let_def
  by (rule pairing.made_check, rule pairing.made_bind[OF silent_find_grant[OF assms]])
    (auto intro!: pairing.made_prod pairing.made_bind[OF pair_read_keys] pairing.made_bind[OF pair_of_res] pairing.made_control)

lemma silent_inspection:
  assumes o: "orderly env s"
  shows "pair_made env None (pair_revoke env i key_hash source False) (\<lambda>_ _. True) s"
  unfolding pair_revoke_def
proof (rule pairing.made_check, rule pairing.made_bind[OF pairing.made_attempt[OF pair_read_grant[OF o],
      where Q = "\<lambda>r _. case r of Inl e \<Rightarrow> True | Inr x \<Rightarrow> id_pattern i"]], goal_cases)
  case (3 x t)
  show ?case
  proof (cases x)
    case (Inl e)
    then show ?thesis by (simp add: pairing.made_control)
  next
    case (Inr y)
    with 3 show ?thesis unfolding Inr sum.case Let_def
      by (intro pairing.made_prod pairing.made_check)
        (auto intro!: pairing.made_bind[OF pair_true[OF pair_read_tombstone[OF orderly_kept[OF o 3(2)]]]] pairing.made_bind[OF pair_read_keys]
          pairing.made_prod pairing.made_ret)
  qed
qed simp_all

text \<open>C19: the authorized keys file is changed only as a recorded grant says. Every edit that an enrollment
  or a revocation asks of the platform, whether or not the operation succeeds, appends the line of a grant
  that is stored at that moment to contents without its key and marker, or removes exactly that line; it is
  made while no Run is active and with the launch lock held. Without \<open>apply\<close> there is no edit. Records on
  the disk stay.\<close>

theorem keys_change_only_as_granted:
  assumes "orderly env s" and "names_present (hv_maintenance env) (ph_host s)"
    and "t = snd (pair_enroll env (TrustedIntent intent) apply s) \<or> t = snd (pair_revoke env i key_hash source apply s)"
  shows "evolves (pair_sealed (hv_root env)) (ph_disk s) (ph_disk t)
    \<and> (\<exists>es. ph_edits t = es @ ph_edits s \<and> list_all (lawful_edit (hv_lib env) (hv_root env)) es)
    \<and> (\<not> apply \<longrightarrow> ph_edits t = ph_edits s)"
  using assms(3) lawfully.made_state[OF lawful_enroll[OF assms(1,2)], of intent "apply"]
    lawfully.made_state[OF lawful_revoke[OF assms(1,2)], of i key_hash source "apply"]
    pairing.made_state[OF silent_preview[OF assms(1)], of intent] pairing.made_state[OF silent_inspection[OF assms(1)], of i key_hash source]
  by (cases "apply") (auto simp: lawful_def paired_silent)

text \<open>C20: a revoked pairing stays out. After a revocation that succeeded with a tombstone, in every later
  state of the records and under any faults, an enrollment with the pair id fails without an edit of the
  keys file; and so does one that passed its first checks before the revocation and enters the maintenance
  locks after it.\<close>

theorem revoked_pairing_stays_out:
  assumes "orderly env s" and "names_present (hv_maintenance env) (ph_host s)"
    and "pair_revoke env (ei_pair_id intent) key_hash source True s = (Inr r, t)" and "rv_tombstone r \<noteq> pair_sha env ''''"
    and "orderly env' u" and "hv_lib env' = hv_lib env" and "hv_root env' = hv_root env"
    and "evolves (pair_sealed (hv_root env)) (ph_disk t) (ph_disk u)"
  shows "(\<exists>e v. pair_enroll env' (TrustedIntent intent) apply u = (Inl e, v) \<and> ph_edits v = ph_edits u)
    \<and> (gr_pair_id g = ei_pair_id intent \<longrightarrow> (\<exists>e v. enroll_action env' sha there g u = (Inl e, v) \<and> ph_edits v = ph_edits u))"
proof -
  from lawfully.made_result[OF lawful_revoke[OF assms(1,2)] assms(3)] assms(4) obtain h c where
    i: "id_pattern (ei_pair_id intent)" and t: "granted (hv_lib env) (hv_root env) (ph_disk t) (ei_pair_id intent) h"
      "buried (hv_lib env) (hv_root env) (ph_disk t) (ei_pair_id intent) c"
    by auto
  from granted_evolves[OF t(1) assms(8) i] buried_evolves[OF t(2) assms(8) i]
  have u: "granted (hv_lib env') (hv_root env') (ph_disk u) (ei_pair_id intent) h"
    "buried (hv_lib env') (hv_root env') (ph_disk u) (ei_pair_id intent) c"
    by (simp_all add: assms(6,7))
  show ?thesis
  proof (intro conjI impI)
    show "\<exists>e v. pair_enroll env' (TrustedIntent intent) apply u = (Inl e, v) \<and> ph_edits v = ph_edits u"
      using never_result[OF buried_enroll[OF assms(5) i u, of "apply"] prod.collapse[symmetric]] by (metis prod.collapse)
    assume "gr_pair_id g = ei_pair_id intent"
    with buried_action[OF assms(5), of g c sha there] i u(2)
    have "pair_made env' None (enroll_action env' sha there g) (\<lambda>_ _. False) u" by simp
    from never_result[OF this prod.collapse[symmetric]]
    show "\<exists>e v. enroll_action env' sha there g u = (Inl e, v) \<and> ph_edits v = ph_edits u" by (metis prod.collapse)
  qed
qed

text \<open>C21: the receipt of an enrollment is final. Of two enrollments with one pair id that succeed, at any
  later time and under any faults in between, both answer the same request and return the same receipt,
  byte for byte, with the same digest.\<close>

theorem enrollment_receipt_is_final:
  assumes "orderly env s" and "names_present (hv_maintenance env) (ph_host s)"
    and "pair_enroll env (TrustedIntent intent) True s = (Inr r, t)"
    and "orderly env' u" and "names_present (hv_maintenance env') (ph_host u)" and "hv_lib env' = hv_lib env" and "hv_root env' = hv_root env"
    and "evolves (pair_sealed (hv_root env)) (ph_disk t) (ph_disk u)"
    and "pair_enroll env' (TrustedIntent intent') True u = (Inr r', v)" and "ei_pair_id intent' = ei_pair_id intent"
  shows "en_receipt r' = en_receipt r \<and> en_receipt_sha r' = en_receipt_sha r
    \<and> intent_digest (hv_lib env) intent' = intent_digest (hv_lib env) intent"
proof -
  from lawfully.made_result[OF lawful_enroll[OF assms(1,2)] assms(3)]
  have "enrolled (hv_lib env) (hv_root env) intent r (ph_disk t)" by simp
  moreover from lawfully.made_result[OF lawful_enroll[OF assms(4,5)] assms(9)]
  have "evolves (pair_sealed (hv_root env)) (ph_disk u) (ph_disk v)" "enrolled (hv_lib env) (hv_root env) intent' r' (ph_disk v)"
    by (simp_all add: lawful_def assms(6,7))
  ultimately show ?thesis
    using assms(8,10) granted_evolves granted_unique disk.trans unfolding enrolled_def by (metis sum.inject(2))
qed

end
