(* ===== verification/PairClientGuarantees.thy ===== *)
theory PairClientGuarantees
  imports PairClient PairHostGuarantees
begin

text \<open>
  What the controller's side of a pairing promises: a prepared intent is final and its key is stored, and a
  revocation forgets what is stored only after a fresh connection was rejected.
\<close>

section \<open>The places of a pairing\<close>

definition client_dirs :: "string \<Rightarrow> string list" where "client_dirs name = [''pairings'', name]"

definition client_place :: "string \<Rightarrow> string list \<Rightarrow> bool" where
  "client_place name ds \<longleftrightarrow> ds \<in> {client_dirs name, client_dirs name @ [''preparation''], [''targets'']} \<or> (\<exists>fp. hex64 fp \<and> ds = credential_dirs fp)"

definition client_sealed :: "string \<Rightarrow> string \<Rightarrow> path set" where
  "client_sealed root name = (\<Union>ds\<in>Collect (client_place name). sealed root ds)"

definition client_peaceful :: "string \<Rightarrow> string \<Rightarrow> disk_env \<Rightarrow> bool" where
  "client_peaceful root name env \<longleftrightarrow> store_root root
     \<and> spares env (client_sealed root name \<union> (\<Union>ds\<in>Collect (client_place name). temporaries (parts root @ ds)))"

text \<open>Names of targets and digests are plain components.\<close>

definition plain_component :: "string \<Rightarrow> bool" where
  "plain_component c \<longleftrightarrow> c \<noteq> '''' \<and> CHR ''/'' \<notin> set c \<and> hd c \<noteq> CHR ''.''"

lemma plain_file: "plain_component c \<Longrightarrow> record_file c" "plain_component c \<Longrightarrow> plain_component (c @ ''.json'')"
  by (cases c; auto simp: plain_component_def record_file_def proper_name_def has_prefix_iff)+

lemma target_name_plain: "validate_target_name name = None \<Longrightarrow> plain_component name"
proof -
  have no: "\<not> is_lower CHR ''/''" "\<not> is_lower CHR ''.''" "\<not> is_digit CHR ''/''" "\<not> is_digit CHR ''.''" by (simp_all add: evaluate)
  assume "validate_target_name name = None"
  with no show ?thesis
    by (cases name) (auto simp: validate_target_name_def led_run_def run_of_def list_all_iff plain_component_def)
qed

lemma hex_plain: "hex64 fp \<Longrightarrow> plain_component fp"
  using hex_id[of fp] by (auto simp: plain_component_def)

lemma plain_literals: "plain_component ''pairings''" "plain_component ''preparation''" "plain_component ''targets''" "plain_component ''credentials''"
    "plain_component ''seed''" "plain_component ''id_ed25519''"
    "plain_component ''intent''" "plain_component ''receipt''" "plain_component ''revocation''"
  by (simp_all add: plain_component_def)

lemma place_plain: "plain_component name \<Longrightarrow> client_place name ds \<Longrightarrow> ds \<noteq> [] \<and> list_all plain_component ds"
  by (auto simp: client_place_def client_dirs_def credential_dirs_def plain_literals hex_plain)

lemma place_proper: "plain_component name \<Longrightarrow> client_place name ds \<Longrightarrow> proper_dir ds"
  using place_plain[of name ds] plain_file(1) by (auto simp: proper_dir_def record_file_def list_all_iff)

lemma record_name_clean:
  assumes "proper_dir ds" and "proper_name b"
  shows "path_clean (dir_name ds @ CHR ''/'' # b) = dir_name ds @ CHR ''/'' # b"
proof -
  have "safe_components (split_on CHR ''/'' (dir_name ds @ CHR ''/'' # b))"
    using assms by (auto simp: record_split proper_dir_def safe_components_def proper_name_def list_all_iff)
  then show ?thesis by (rule safe_components_clean(1))
qed

lemma client_paths:
  assumes "plain_component name"
  shows "plain_component f \<Longrightarrow> client_path name f = dir_name (client_dirs name) @ CHR ''/'' # (f @ ''.json'')"
    "seed_path name = dir_name (client_dirs name @ [''preparation'']) @ CHR ''/'' # ''seed''"
    "profile_path name = dir_name [''targets''] @ CHR ''/'' # (name @ ''.json'')"
proof -
  have places: "proper_dir (client_dirs name)" "proper_dir (client_dirs name @ [''preparation''])" "proper_dir [''targets'']"
    by (rule place_proper[OF assms]; simp add: client_place_def)+
  have named: "proper_name (f @ ''.json'')" if "plain_component f" for f using plain_file that by (auto simp: record_file_def)
  have seed: "proper_name ''seed''" by (simp add: proper_name_def)
  show "client_path name f = dir_name (client_dirs name) @ CHR ''/'' # (f @ ''.json'')" if "plain_component f"
    using record_name_clean[OF places(1) named[OF that]] by (simp add: client_path_def client_dirs_def dir_name_def)
  show "seed_path name = dir_name (client_dirs name @ [''preparation'']) @ CHR ''/'' # ''seed''"
    using record_name_clean[OF places(2) seed] by (simp add: seed_path_def client_dirs_def dir_name_def)
  show "profile_path name = dir_name [''targets''] @ CHR ''/'' # (name @ ''.json'')"
    using record_name_clean[OF places(3) named[OF assms]] by (simp add: profile_path_def dir_name_def)
qed

lemma client_chain: "client_place name ds \<Longrightarrow> record_file b \<Longrightarrow> record_chain root ds b \<subseteq> client_sealed root name"
  using sealed_chain[of b root ds] by (auto simp: client_sealed_def)

lemma client_temporaries:
  assumes "plain_component name"
  shows "client_sealed root name \<inter> temporaries (parts root @ ds) = {}"
proof -
  have False if e: "client_place name es" and b: "record_file b" and p: "parts root @ ds @ [''.pending-'' @ x] \<in> record_chain root es b" for es b x
  proof -
    from p have "prefix (parts root @ ds @ [''.pending-'' @ x]) (parts root @ es @ [b])"
      by (simp add: record_chain_def record_path_def chain_def)
    then have "''.pending-'' @ x \<in> set (es @ [b])" by (auto dest!: set_mono_prefix)
    with b place_plain[OF assms e] show False
      by (auto simp: record_file_def has_prefix_iff plain_component_def list_all_iff)
  qed
  then show ?thesis unfolding client_sealed_def sealed_def by (auto simp: temporaries_def)
qed

lemma client_spares:
  "client_peaceful root name env \<Longrightarrow> spares env (client_sealed root name)"
  "client_peaceful root name env \<Longrightarrow> client_place name ds \<Longrightarrow> spares env (client_sealed root name \<union> temporaries (parts root @ ds))"
  unfolding client_peaceful_def by (auto elim!: spares_subset)

section \<open>The history of a client\<close>

definition client_later :: "string \<Rightarrow> string \<Rightarrow> 'w pair_client \<Rightarrow> 'w pair_client \<Rightarrow> bool" where
  "client_later root name s t \<longleftrightarrow> evolves (client_sealed root name) (pc_disk s) (pc_disk t) \<and> (\<exists>es. pc_log t = es @ pc_log s)"

interpretation client: history "client_later root name" for root name
proof (unfold_locales, goal_cases)
  case (2 s t u)
  then show ?case by (auto simp: client_later_def intro: disk.trans)
qed (simp add: client_later_def disk.refl)

abbreviation client_made :: "'w client_env \<Rightarrow> string \<Rightarrow> ('w, 'a) cact \<Rightarrow> ('a \<Rightarrow> 'w pair_client \<Rightarrow> bool) \<Rightarrow> 'w pair_client \<Rightarrow> bool" where
  "client_made env \<equiv> client.made (cv_root env)"

definition keeping :: "string \<Rightarrow> string \<Rightarrow> disk_env \<Rightarrow> disk \<Rightarrow> bool" where
  "keeping root name env d \<longleftrightarrow> plain_component name \<and> client_peaceful root name env \<and> flushed_in (client_sealed root name) d"

abbreviation retained :: "'w client_env \<Rightarrow> string \<Rightarrow> 'w pair_client \<Rightarrow> bool" where
  "retained env name s \<equiv> keeping (cv_root env) name (cv_disk env) (pc_disk s)"

lemma keeping_evolves: "keeping root name env d \<Longrightarrow> evolves (client_sealed root name) d e \<Longrightarrow> keeping root name env e"
  unfolding keeping_def flushed_in_def using evolves_raw by blast

lemma retained_later: "retained env name s \<Longrightarrow> client_later (cv_root env) name s t \<Longrightarrow> retained env name t"
  by (auto simp: client_later_def elim: keeping_evolves)

lemma client_disk:
  "disk.made (client_sealed (cv_root env) name) m Q (pc_disk s) \<Longrightarrow> client_made env name (on_store m) (\<lambda>a t. Q a (pc_disk t)) s"
  by (auto simp: client.made_def disk.made_def wp_def on_store_def client_later_def split: prod.splits sum.splits)

lemma client_look: "client_made env name (look f) (\<lambda>a t. a = f t) s"
  by (simp add: client.made_def wp_look client.refl)

lemma client_of_res: "client_made env name (of_res r) (\<lambda>a t. r = Inr a) s"
  by (cases r) (auto simp: client.made_def wp_of_res client.refl)

lemma client_true: "client_made env name m Q s \<Longrightarrow> client_made env name m (\<lambda>_ _. True) s"
  by (erule client.made_weaken) simp

lemma client_checks: "client_made env name (client_context ev) (\<lambda>_ _. True) s" "client_made env name (client_at ev stage) (\<lambda>_ _. True) s"
  unfolding client_context_def client_at_def
  by (rule client.made_bind[OF client_look], simp add: client.made_control)+

lemma client_asks: "client_made env name (ask_revoke ev t r) (\<lambda>_ _. True) s"
  by (auto simp: client.made_def wp_def ask_revoke_def client_later_def disk.refl split: prod.splits)

lemma keeping_parts:
  assumes "keeping root name env d" and "client_place name ds" and "record_file b"
  shows "spares env (client_sealed root name)" "record_chain root ds b \<subseteq> client_sealed root name"
    "store_root root" "proper_dir ds" "proper_name b" "\<not> raw (entry_at d (record_path root ds b))"
proof -
  show K: "record_chain root ds b \<subseteq> client_sealed root name" by (rule client_chain[OF assms(2,3)])
  then show "\<not> raw (entry_at d (record_path root ds b))"
    using assms(1) record_chain_simps(1)[of root ds b] unfolding keeping_def flushed_in_def by blast
qed (use assms client_spares(1) place_proper in \<open>auto simp: keeping_def client_peaceful_def record_file_def\<close>)

lemma disk_read_at:
  assumes "keeping root name env d" and "client_place name ds" and "record_file b"
  shows "disk.made (client_sealed root name) (read_durable env root (dir_name ds @ CHR ''/'' # b) limit) (\<lambda>c t. stored t root ds b c) d"
  by (rule made_read_durable) (rule keeping_parts[OF assms])+

lemma disk_publish_at:
  assumes "keeping root name env d" and "client_place name ds" and "record_file b"
  shows "disk.made (client_sealed root name) (private_publish env root (dir_name ds @ CHR ''/'' # b) c False) (\<lambda>_ t. stored t root ds b c) d"
proof (rule made_publish)
  show "spares env (client_sealed root name \<union> temporaries (parts root @ ds))"
    using assms by (auto simp: keeping_def intro: client_spares)
  show "client_sealed root name \<inter> temporaries (parts root @ ds) = {}"
    using assms(1) by (intro client_temporaries) (simp add: keeping_def)
qed (rule keeping_parts[OF assms])+

lemma stored_kept: "stored d root ds b c \<Longrightarrow> evolves (client_sealed root name) d e \<Longrightarrow> client_place name ds \<Longrightarrow> record_file b \<Longrightarrow> stored e root ds b c"
  by (rule stored_evolves[OF _ _ client_chain])

section \<open>Keys\<close>

definition key_kept :: "key_library \<Rightarrow> string \<Rightarrow> string \<Rightarrow> disk \<Rightarrow> bool" where
  "key_kept keys root public d \<longleftrightarrow> (\<exists>fp private. key_fingerprint (kl_sha keys) public = Inr fp \<and> hex64 fp
     \<and> stored d root (credential_dirs fp) ''id_ed25519'' private)"

lemma key_kept_evolves: "key_kept keys root public d \<Longrightarrow> evolves (client_sealed root name) d e \<Longrightarrow> key_kept keys root public e"
  unfolding key_kept_def
  by (elim exE conjE, intro exI conjI, assumption, assumption, rule stored_kept)
    (auto simp: client_place_def plain_literals plain_file(1))

lemma hex_fingerprint: "(\<And>x. hex64 (sha x)) \<Longrightarrow> key_fingerprint sha public = Inr fp \<Longrightarrow> hex64 fp"
  by (auto simp: key_fingerprint_def)

lemma disk_key_verify:
  assumes d: "keeping root name env d" and hex: "\<And>x. hex64 (kl_sha keys x)"
  shows "disk.made (client_sealed root name) (key_verify keys env key root) (\<lambda>_. key_kept keys root (rk_public_key key)) d"
  unfolding key_verify_def
proof (rule disk.made_if, rule disk.made_control, rule disk.made_bind[OF made_of_resI[of _ "\<lambda>fp _. key_fingerprint (kl_sha keys) (rk_public_key key) = Inr fp"]], assumption, goal_cases)
  case (1 fp t)
  then have fp: "hex64 fp" by (blast intro: hex_fingerprint hex)
  have place: "client_place name (credential_dirs fp)" using fp by (auto simp: client_place_def)
  show ?case unfolding credential_record(1)[OF fp] sum.case Let_def credential_name_def
    by (rule disk.made_bind[OF disk_read_at[OF keeping_evolves[OF d 1(2)] place plain_file(1)[OF plain_literals(6)]]])
      (use 1(3) fp in \<open>auto intro!: disk.made_if disk.made_control simp: key_kept_def\<close>)
qed

lemma disk_key_publish:
  assumes d: "keeping root name env d" and hex: "\<And>x. hex64 (kl_sha keys x)"
  shows "disk.made (client_sealed root name) (key_publish keys env key root) (\<lambda>_. key_kept keys root (rk_public_key key)) d"
  unfolding key_publish_def
proof (rule disk.made_if, rule disk.made_control, rule disk.made_bind[OF made_of_resI[of _ "\<lambda>fp _. key_fingerprint (kl_sha keys) (rk_public_key key) = Inr fp"]], assumption, goal_cases)
  case (1 fp t)
  then have fp: "hex64 fp" by (blast intro: hex_fingerprint hex)
  have place: "client_place name (credential_dirs fp)" using fp by (auto simp: client_place_def)
  note t = keeping_evolves[OF d 1(2)]
  show ?case unfolding credential_record(1)[OF fp] sum.case Let_def credential_name_def
  proof (rule disk.made_bind[OF disk.made_attempt[OF disk_publish_at[OF t place plain_file(1)[OF plain_literals(6)]], where Q = "\<lambda>_ _. True"]],
      simp, simp, rule disk.made_bind[OF disk.made_attempt[OF disk_key_verify[OF keeping_evolves[OF t] hex],
        where Q = "\<lambda>r u. case r of Inl e \<Rightarrow> True | Inr x \<Rightarrow> key_kept keys root (rk_public_key key) u"]], assumption, simp, simp, goal_cases)
    case (1 published u verified v)
    then show ?case by (cases verified; cases published) (simp_all add: disk.made_control)
  qed
qed

lemma disk_reserved:
  assumes d: "keeping root name env d" and place: "client_place name ds" and b: "record_file b"
  shows "disk.made (client_sealed root name) (reserved keys env root (dir_name ds @ CHR ''/'' # b) create) (\<lambda>_ _. True) d"
proof -
  let ?n = "dir_name ds @ CHR ''/'' # b"
  have read: "disk.made (client_sealed root name) (attempt (read_durable env root ?n seed_size)) (\<lambda>_ _. True) e"
    if "evolves (client_sealed root name) d e" for e
    by (rule disk.made_attempt[OF disk_read_at[OF keeping_evolves[OF d that] place b]]) simp_all
  have seed: "disk.made (client_sealed root name) (create_seed keys env root ?n) (\<lambda>_ _. True) e"
    if e: "evolves (client_sealed root name) d e" for e
    unfolding create_seed_def
  proof (rule disk.made_bind[OF made_look[where Q = "\<lambda>_ _. True"]], simp, rule disk.made_bind[OF made_of_resI[where Q = "\<lambda>_ _. True"]], simp,
      rule disk.made_bind[OF disk.made_attempt[OF disk_publish_at[OF _ place b], where Q = "\<lambda>_ _. True"]], goal_cases)
    case (4 n u c v r w)
    have "evolves (client_sealed root name) d w" using e 4(1,3,5) by (blast intro: disk.trans)
    from read[OF this] show ?case
      by (rule disk.made_bind) (auto intro!: disk.made_control split: sum.split)
  qed (use e in \<open>auto intro: keeping_evolves[OF d] disk.trans\<close>)
  show ?thesis unfolding reserved_def
    by (rule disk.made_bind[OF read[OF disk.refl]], rule disk.made_bind[where P = "\<lambda>_ _. True"])
      (auto intro!: disk.made_control disk.made_if seed split: sum.split)
qed

section \<open>Reading\<close>

definition intended :: "ctl_lib \<Rightarrow> string \<Rightarrow> string \<Rightarrow> disk \<Rightarrow> pair_pending \<Rightarrow> bool" where
  "intended lib root name d p \<longleftrightarrow> (\<exists>data. stored d root (client_dirs name) ''intent.json'' data
     \<and> strict_document lib (decode_pending lib) data = Inr p \<and> intent_refusal lib name p = None)"

lemma intended_unique: "intended lib root name d p \<Longrightarrow> intended lib root name d q \<Longrightarrow> q = p"
  by (auto simp: intended_def stored_def)

lemma intent_file: "record_file ''intent.json''" "record_file ''preparation.json''" "record_file ''receipt.json''" "record_file ''revocation.json''"
  using plain_file plain_literals by force+

lemma own_place: "client_place name (client_dirs name)" "client_place name (client_dirs name @ [''preparation''])"
  by (simp_all add: client_place_def)

lemma intended_evolves: "intended lib root name d p \<Longrightarrow> evolves (client_sealed root name) d e \<Longrightarrow> intended lib root name e p"
  unfolding intended_def by (elim exE conjE, intro exI conjI, rule stored_kept) (auto simp: own_place intent_file)

lemma client_read_document:
  assumes s: "retained env name s" and f: "plain_component f"
  shows "client_made env name (read_document env (client_path name f) reader)
    (\<lambda>v t. \<exists>data. stored (pc_disk t) (cv_root env) (client_dirs name) (f @ ''.json'') data \<and> strict_document (cv_lib env) reader data = Inr v) s"
proof -
  have name: "plain_component name" using s by (simp add: keeping_def)
  have named: "record_file (f @ ''.json'')" by (rule plain_file(1)[OF plain_file(2)[OF f]])
  show ?thesis unfolding read_document_def client_paths(1)[OF name f]
  proof (rule client.made_bind[OF client_disk[OF disk_read_at[OF s own_place(1) named]]], rule client.made_weaken[OF client_of_res], goal_cases)
    case (1 data t v u)
    then have "stored (pc_disk u) (cv_root env) (client_dirs name) (f @ ''.json'') data"
      by (intro stored_kept[OF 1(2) _ own_place(1) named]) (simp add: client_later_def)
    with 1(4) show ?case by blast
  qed
qed

lemma client_made_read:
  assumes s: "retained env name s"
  shows "client_made env name (client_read env name) (\<lambda>p t. intended (cv_lib env) (cv_root env) name (pc_disk t) p) s"
  unfolding client_read_def
  by (rule client.made_check, rule client.made_bind[OF client_read_document[OF s plain_literals(7)]])
    (auto intro!: client.made_check client.made_ret simp: intended_def)

lemma client_made_preparation:
  assumes s: "retained env name s"
  shows "client_made env name (read_preparation env name) (\<lambda>p _. pp_name p = name) s"
  unfolding read_preparation_def
  by (rule client.made_check, rule client.made_bind[OF client_read_document[OF s plain_literals(2)]])
    (auto intro!: client.made_check client.made_ret simp: preparation_refusal_def pending_conflict_def)

lemma client_made_receipt:
  assumes s: "retained env name s" and p: "pp_name p = name"
  shows "client_made env name (read_receipt env p) (\<lambda>_ _. True) s"
  unfolding read_receipt_def p
  by (rule client.made_bind[OF client_read_document[OF s plain_literals(8)]]) (auto intro!: client.made_check client.made_ret)

lemma client_made_revocation:
  assumes s: "retained env name s"
  shows "client_made env name (read_revocation env name) (\<lambda>_ _. True) s"
  unfolding read_revocation_def
  by (rule client.made_bind[OF client_read_document[OF s plain_literals(9)]]) (auto intro!: client.made_check client.made_ret)

lemma client_publish_then_read:
  assumes s: "retained env name s" and f: "plain_component f"
    and reader: "\<And>t. client_later (cv_root env) name s t \<Longrightarrow> client_made env name reader P t"
  shows "client_made env name (publish_then_read env (client_path name f) data reader) P s"
proof -
  have name: "plain_component name" using s by (simp add: keeping_def)
  have named: "record_file (f @ ''.json'')" by (rule plain_file(1)[OF plain_file(2)[OF f]])
  show ?thesis unfolding publish_then_read_def client_paths(1)[OF name f]
  proof (rule client.made_bind[OF client.made_attempt[OF client_disk[OF disk_publish_at[OF s own_place(1) named]], where Q = "\<lambda>_ _. True"]], simp, simp,
      rule client.made_bind[OF client.made_attempt[OF reader, where Q = "\<lambda>r t. case r of Inl e \<Rightarrow> True | Inr v \<Rightarrow> P v t"]], assumption, simp, simp, goal_cases)
    case (1 published t read u)
    then show ?case by (cases read; cases published) (simp_all add: client.made_control)
  qed
qed

lemma client_publish_revocation: "retained env name s \<Longrightarrow> client_made env name (publish_revocation env name r) (\<lambda>_ _. True) s"
  unfolding publish_revocation_def
  by (rule client_publish_then_read[OF _ plain_literals(9)]) (auto intro: client_made_revocation retained_later)

section \<open>Preparing\<close>

definition prepared :: "'w client_env \<Rightarrow> string \<Rightarrow> enrollment_intent \<Rightarrow> disk \<Rightarrow> bool" where
  "prepared env name i d \<longleftrightarrow> (\<exists>p. intended (cv_lib env) (cv_root env) name d p \<and> pp_intent p = i)
     \<and> key_kept (cv_keys env) (cv_root env) (ei_public_key i) d"

lemma client_reserved_key:
  assumes "retained env name s"
  shows "client_made env name (reserved_key env name create) (\<lambda>_ _. True) s"
proof -
  have name: "plain_component name" using assms by (simp add: keeping_def)
  show ?thesis unfolding reserved_key_def client_paths(2)[OF name]
    by (rule client.made_check, rule client.made_then[OF client_checks(1)], rule client_disk, rule disk_reserved)
      (auto simp: own_place plain_file plain_literals intro: retained_later[OF assms])
qed

lemma client_prepare_reserved:
  assumes s: "retained env name s" and p: "pp_name p = name" and hex: "\<And>x. hex64 (kl_sha (cv_keys env) x)"
  shows "client_made env name (prepare_reserved env p) (\<lambda>i t. prepared env name i (pc_disk t)) s"
proof -
  note later = retained_later[OF s]
  note read = client.made_attempt[OF client_made_read, where Q = "\<lambda>_ _. True"]
  have publish: "client_made env name (publish_then_read env (client_path name ''intent'') data (client_read env name))
      (\<lambda>q t. intended (cv_lib env) (cv_root env) name (pc_disk t) q) d" if d: "client_later (cv_root env) name s d" for data d
    by (rule client_publish_then_read[OF later[OF d] plain_literals(7)]) (rule client_made_read[OF later[OF client.trans[OF d]]])
  show ?thesis unfolding prepare_reserved_def Let_def p
  proof (rule client.made_then[OF client_checks(2)], rule client.made_bind[OF read[OF later]], assumption, simp, simp,
      rule client.made_check, rule client.made_bind[OF client_reserved_key[OF later]], erule (1) client.trans,
      rule client.made_then[OF client_checks(2)], rule client.made_check, rule client.made_bind[OF client_of_res], goal_cases)
    case 1
    note d = client.trans[OF 1(1) client.trans[OF 1(3) client.trans[OF 1(6) client.trans[OF 1(8) 1(11)]]]]
    show ?case
    proof (rule client.made_bind[OF publish[OF d]], rule client.made_check, rule client.made_then[OF client_checks(2)], rule client.made_then[OF client_checks(1)],
        rule client.made_then[OF client_disk[OF disk_key_publish[OF later hex]]], goal_cases)
      case 1
      show ?case by (rule client.trans[OF d client.trans[OF 1(1) client.trans[OF 1(4,6)]]])
    next
      case (2 q e f g h)
      note eg = client.trans[OF 2(4) client.trans[OF 2(6,8)]]
      show ?case
      proof (rule client.made_then[OF client_checks(2)], rule client.made_ret, goal_cases)
        case (1 i)
        from client.trans[OF eg 1(1)] 1(1)
        have kept: "evolves (client_sealed (cv_root env) name) (pc_disk e) (pc_disk i)" "evolves (client_sealed (cv_root env) name) (pc_disk h) (pc_disk i)"
          by (simp_all add: client_later_def)
        from intended_evolves[OF 2(2) kept(1)] key_kept_evolves[OF 2(9) kept(2)] 2(3) show ?case
          by (auto simp: prepared_def same_intent_def)
      qed
    qed
  qed
qed

lemma client_reserve_name:
  assumes s: "retained env name s"
  shows "client_made env name (reserve_name env name offer) (\<lambda>p _. pp_name p = name) s"
proof -
  have publish: "client_made env name (publish_then_read env (client_path name ''preparation'') data (read_preparation env name)) (\<lambda>p _. pp_name p = name) t"
    if "client_later (cv_root env) name s t" for data t
    by (rule client_publish_then_read[OF retained_later[OF s that] plain_literals(2)])
      (rule client_made_preparation[OF retained_later[OF s client.trans[OF that]]])
  have random: "client_made env name (andthen (look (cv_random env)) of_res) (\<lambda>_ _. True) s"
    by (rule client.made_bind[OF client_look]) (rule client_true[OF client_of_res])
  show ?thesis unfolding reserve_name_def Let_def
  proof (rule client.made_bind[OF random], rule client.made_bind[OF client_of_res], rule client.made_check,
      rule client.made_bind[OF publish], goal_cases)
    case (2 ids t v u q w)
    then show ?case by (intro client.made_check) (simp add: client.made_ret)
  qed (blast intro: client.trans)
qed

lemma client_show:
  assumes s: "retained env name s"
  shows "client_made env name (on_store (store_show lib (cv_disk env) (cv_root env) name)) (\<lambda>_ _. True) s"
proof -
  have name: "plain_component name" using s by (simp add: keeping_def)
  have place: "client_place name [''targets'']" by (simp add: client_place_def)
  note parts = keeping_parts[OF s place plain_file(1)[OF plain_file(2)[OF name]]]
  have wrap: "disk.made K m Q d \<Longrightarrow> disk.made K (wrapping x m) Q d" for K m Q x and d :: disk
    by (auto simp: disk.made_def wp_def wrapping_def split: prod.splits sum.splits)
  show ?thesis unfolding store_show_def client_paths(3)[OF name]
    by (rule client_disk, rule disk.made_check, rule disk.made_bind[OF wrap[OF made_private_read[OF parts(1,2,4-6)]]])
      (rule made_of_resI, simp)
qed

lemma client_prepare:
  assumes s: "retained env name s" and hex: "\<And>x. hex64 (kl_sha (cv_keys env) x)"
  shows "client_made env name (pair_prepare env name offer) (\<lambda>i t. prepared env name i (pc_disk t)) s"
proof (cases offer)
  case (TrustedOffer off)
  note later = retained_later[OF s]
  have go: "client_made env name (andthen m (prepare_reserved env)) (\<lambda>i t. prepared env name i (pc_disk t)) t"
    if t: "client_later (cv_root env) name s t" and m: "client_made env name m (\<lambda>p _. pp_name p = name) t" for m t
    by (rule client.made_bind[OF m], rule client_prepare_reserved[OF later[OF client.trans[OF t]] _ hex])
  show ?thesis unfolding TrustedOffer pair_prepare_def trusted_offer.case Let_def
  proof (rule client.made_check, rule client.made_check, rule client.made_check, rule client.made_bind[OF client_look], rule client.made_check,
      rule client.made_then[OF client_checks(1)], rule client.made_bind[OF client.made_attempt[OF client_made_read[OF later], where Q = "\<lambda>_ _. True"]],
      blast intro: client.trans, simp, simp, goal_cases)
    case (1 now t u existing v)
    have v: "client_later (cv_root env) name s v" using 1(4,7,9) by (blast intro: client.trans)
    show ?case
    proof (cases existing)
      case (Inr p)
      then show ?thesis by (simp, intro client.made_check go[OF v] client_made_preparation later[OF v])
    next
      case (Inl e)
      show ?thesis unfolding Inl sum.case
      proof (rule client.made_if, rule client.made_control, rule client.made_bind[OF client.made_attempt[OF client_show[OF later[OF v]], where Q = "\<lambda>_ _. True"]],
          simp, simp, goal_cases)
        case (1 shown w)
        then show ?case
          by (cases shown) (auto intro!: client.made_control go[OF client.trans[OF v]] client_reserve_name later[OF client.trans[OF v]])
      qed
    qed
  qed
qed

section \<open>Revoking\<close>

definition rejection_proven :: "'w pair_client \<Rightarrow> 'w pair_client \<Rightarrow> bool" where
  "rejection_proven s t \<longleftrightarrow> (\<exists>tgt f es. pc_log t = Probe tgt (Some f) # es @ pc_log s \<and> rf_class f = ''auth-rejected'')"

lemma rejection_later: "client_later root name s t \<Longrightarrow> rejection_proven t u \<Longrightarrow> rejection_proven s u"
  by (auto simp: client_later_def rejection_proven_def)

lemma keeps_log_store [keeps_intros]: "keeps (\<lambda>s. pc_log s = l) (on_store m)"
  by (auto simp: keeps_def on_store_def split: prod.splits)

lemma keeps_log_forget: "keeps (\<lambda>s. pc_log s = l) (forget_local env name p exported receipt r)"
  unfolding forget_local_def Let_def by (intro keeps_intros)

text \<open>The conditions on a revocation that is under way since \<open>s\<close>.\<close>

definition revoking :: "string \<Rightarrow> string \<Rightarrow> 'w pair_client \<Rightarrow> 'w pair_client \<Rightarrow> bool" where
  "revoking root name s t \<longleftrightarrow> client_later root name s t \<or> rejection_proven s t"

abbreviation revoke_wp :: "'w client_env \<Rightarrow> string \<Rightarrow> 'w pair_client \<Rightarrow> ('w, revoke_outcome \<times> err option) cact \<Rightarrow> 'w pair_client \<Rightarrow> bool" where
  "revoke_wp env name s m \<equiv> wp m (\<lambda>x t. revoking (cv_root env) name s t \<and> (snd x = None \<longrightarrow> rejection_proven s t)) (\<lambda>_. revoking (cv_root env) name s)"

lemma revoke_bind:
  assumes "client_made env name m P t" and "client_later (cv_root env) name s t"
    and "\<And>a u. client_later (cv_root env) name s u \<Longrightarrow> client_later (cv_root env) name t u \<Longrightarrow> P a u \<Longrightarrow> revoke_wp env name s (f a) u"
  shows "revoke_wp env name s (andthen m f) t"
  using assms(1) unfolding client.made_def wp_andthen
  by (rule wp_mono) (use assms(2,3) in \<open>auto simp: revoking_def intro: client.trans\<close>)

lemma revoke_fail: "client_later (cv_root env) name s t \<Longrightarrow> revoke_wp env name s (fail e) t"
  by (simp add: wp_simps revoking_def)

lemma revoke_probe:
  assumes s: "client_later (cv_root env) name s t"
  shows "revoke_wp env name s (prove_rejection env name p receipt r) t"
proof -
  obtain x w where probe: "rm_probe (cv_remote env) (er_target receipt) (pc_remote t) = (x, w)" by fastforce
  let ?u = "t\<lparr>pc_remote := w, pc_log := Probe (er_target receipt) x # pc_log t\<rparr>"
  have ask: "ask_probe env (er_target receipt) t = (Inr x, ?u)" by (simp add: ask_probe_def probe)
  have u: "client_later (cv_root env) name s ?u" using s by (auto simp: client_later_def)
  show ?thesis
  proof (cases x)
    case None
    with u show ?thesis by (simp add: prove_rejection_def Let_def wp_def ask run_simps revoking_def)
  next
    case (Some f)
    show ?thesis
    proof (cases "rf_class f = ''auth-rejected''")
      case False
      with u Some show ?thesis by (simp add: prove_rejection_def Let_def wp_def ask run_simps revoking_def)
    next
      case True
      have rej: "rejection_proven s v" if "pc_log v = pc_log ?u" for v
        using that s True Some by (auto simp: rejection_proven_def client_later_def)
      have "keeps (\<lambda>s. pc_log s = pc_log ?u) (forget_local env name p True (Some receipt) r)" by (rule keeps_log_forget)
      from keepsD[OF this, of ?u] have "pc_log (snd (forget_local env name p True (Some receipt) r ?u)) = pc_log ?u" by simp
      then show ?thesis
        using rej True Some
        by (auto simp: prove_rejection_def Let_def wp_def ask run_simps revoking_def split: prod.splits sum.splits)
    qed
  qed
qed

lemma client_if_there: "client_made env name m (\<lambda>_ _. True) s \<Longrightarrow> client_made env name (if_there m) (\<lambda>_ _. True) s"
  unfolding if_there_def
  by (rule client.made_bind[OF client.made_attempt[where Q = "\<lambda>_ _. True"]], assumption) (auto intro!: client.made_control split: sum.split)

lemma client_confirm:
  assumes s: "retained env name s"
  shows "client_made env name (confirm_revocation env name p receipt) (\<lambda>_ _. True) s"
  unfolding confirm_revocation_def Let_def
proof (rule client.made_bind[OF client_asks], goal_cases)
  case (1 x t)
  have publish: "client_made env name (andthen (publish_revocation env name y) (\<lambda>r. ret (Inr r))) (\<lambda>_ _. True) t" for y
    by (rule client.made_bind[OF client_publish_revocation[OF retained_later[OF s 1(1)]]]) (simp add: client.made_ret)
  then show ?case by (cases x) (auto intro!: client.made_if client.made_ret)
qed

lemma client_revoke_keeps:
  assumes s: "retained env name s"
  shows "revoke_wp env name s (client_revoke env name) s"
  unfolding client_revoke_def
proof (rule revoke_bind[OF client_made_read[OF s] client.refl], goal_cases)
  case (1 p t)
  then have p: "pp_name p = name" by (auto simp: intended_def intent_refusal_def pending_conflict_def)
  show ?case
  proof (rule revoke_bind[OF client.made_attempt[OF client_made_receipt[OF retained_later[OF s 1(1)] p], where Q = "\<lambda>_ _. True"] 1(1)], simp, simp, goal_cases)
    case (1 accepted u)
    show ?case
    proof (cases accepted)
      case (Inl e)
      with 1(1) show ?thesis by (simp add: revoke_fail)
    next
      case (Inr receipt)
      show ?thesis unfolding Inr sum.case
      proof (rule revoke_bind[OF client_if_there[OF client_made_revocation[OF retained_later[OF s 1(1)]]] 1(1)], goal_cases)
        case (1 existing v)
        have "client_made env name (case existing of None \<Rightarrow> confirm_revocation env name p receipt | Some r \<Rightarrow> ret (Inr r)) (\<lambda>_ _. True) v"
          by (cases existing) (simp_all add: client.made_ret client_confirm[OF retained_later[OF s 1(1)]])
        then show ?case
        proof (rule revoke_bind[OF _ 1(1)], goal_cases)
          case (1 x w)
          show ?case
          proof (cases x)
            case (Inl y)
            obtain outcome e where "y = (outcome, e)" by fastforce
            with 1(1) Inl show ?thesis by (simp add: wp_simps revoking_def)
          next
            case (Inr r)
            show ?thesis unfolding Inr sum.case
              by (rule wp_then_doI, simp add: wp_refuse revoke_probe[OF 1(1)] split: option.split) (use 1(1) in \<open>simp add: revoking_def\<close>)
          qed
        qed
      qed
    qed
  qed
qed

section \<open>Guarantees\<close>

text \<open>C23: a prepared intent is final as long as it is kept. Two preparations of one name that succeed,
  under any faults in between and whatever offer the second is made from, return the same intent, provided that
  nothing stored for the pairing is removed or replaced between the two (no \<open>pair forget\<close> and no completed
  revocation of the name, after which a preparation starts anew); and the credential of its public key is
  stored, durably, when they return.\<close>

theorem prepared_intent_is_final:
  fixes env :: "'w client_env" and env' :: "'w client_env"
  assumes "retained env name s" and "\<And>x. hex64 (kl_sha (cv_keys env) x)" and "pair_prepare env name offer s = (Inr i, t)"
    and "evolves (client_sealed (cv_root env) name) (pc_disk t) (pc_disk u)"
    and "client_peaceful (cv_root env) name (cv_disk env')" and "cv_root env' = cv_root env" and "cv_lib env' = cv_lib env" and "cv_keys env' = cv_keys env"
    and "pair_prepare env' name offer' u = (Inr j, v)"
  shows "j = i \<and> (\<exists>fp private. key_fingerprint (kl_sha (cv_keys env)) (ei_public_key i) = Inr fp
      \<and> stored (pc_disk v) (cv_root env) (credential_dirs fp) ''id_ed25519'' private)"
proof -
  from client.made_result[OF client_prepare[OF assms(1,2)] assms(3)]
  have t: "client_later (cv_root env) name s t" "prepared env name i (pc_disk t)" by blast+
  have "retained env name u" using keeping_evolves[OF retained_later[OF assms(1) t(1)] assms(4)] .
  with assms(5,6) have "retained env' name u" by (simp add: keeping_def)
  moreover have "hex64 (kl_sha (cv_keys env') x)" for x using assms(2) by (simp add: assms(8))
  ultimately have v: "client_later (cv_root env') name u v" "prepared env' name j (pc_disk v)"
    using client.made_result[OF client_prepare assms(9)] by blast+
  have "evolves (client_sealed (cv_root env) name) (pc_disk t) (pc_disk v)"
    using assms(4) v(1) by (auto simp: client_later_def assms(6) intro: disk.trans)
  with t(2) have "prepared env name i (pc_disk v)"
    unfolding prepared_def by (blast intro: intended_evolves key_kept_evolves)
  with v(2) have "j = i" unfolding prepared_def assms(6-8) by (blast dest: intended_unique)
  with \<open>prepared env name i (pc_disk v)\<close> show ?thesis unfolding prepared_def key_kept_def by blast
qed

text \<open>C22: a revocation forgets only a key that is rejected. Whether or not it succeeds, either everything that
  is stored for the pairing stays (the intent, the receipt, the seed, the credential, the target), or its last
  call of the host was a fresh connection that was rejected; and it succeeds in the latter case only.\<close>

theorem forgets_only_rejected_key:
  assumes "retained env name s" and "client_revoke env name s = (res, t)"
  shows "(evolves (client_sealed (cv_root env) name) (pc_disk s) (pc_disk t) \<or> rejection_proven s t)
    \<and> (\<forall>outcome. res = Inr (outcome, None) \<longrightarrow> rejection_proven s t)"
  using client_revoke_keeps[OF assms(1)] assms(2)
  by (auto simp: wp_def revoking_def client_later_def split: sum.splits)

end
