(* ===== verification/PairCodec.thy ===== *)
theory PairCodec
  imports PairRecords TargetCodec JournalGuarantees
begin

text \<open>
  The documents of a pairing cross from one side to the other: what one side encodes, the other decodes to
  the same value, passes the strict scan, and trusts with the digest that the encoder has computed.
\<close>

section \<open>Members\<close>

definition server_members :: "server_ssh \<Rightarrow> (string \<times> json) list" where
  "server_members s =
    [(''host'', JStr (sv_host s)), (''port'', JNum (uint (sv_port s))), (''user'', JStr (sv_user s)),
     (''host_public_key'', JStr (sv_host_public_key s))]"

lemma server_fields: "canonical_fields (server_members s)"
  by (simp add: canonical_fields_def server_members_def canonical_key_def evaluate)

lemma server_lookup:
  "field_of ''host'' (server_members s) = Some (JStr (sv_host s))"
  "field_of ''port'' (server_members s) = Some (JNum (uint (sv_port s)))"
  "field_of ''user'' (server_members s) = Some (JStr (sv_user s))"
  "field_of ''host_public_key'' (server_members s) = Some (JStr (sv_host_public_key s))"
  by (rule field_of_member[OF server_fields], simp add: server_members_def)+

definition offer_members :: "host_offer \<Rightarrow> string \<Rightarrow> json \<Rightarrow> (string \<times> json) list" where
  "offer_members off x y =
    [(''schema_version'', JNum (ho_schema_version off)), (''bootstrap_id'', JStr (ho_bootstrap_id off)),
     (''expires'', JStr x), (''platform'', JStr (ho_platform off)), (''connection'', server_json (ho_connection
     off)), (''installed'', y), (''installation_id'', JStr (ho_installation_id off)), (''root_identity'', JStr
     (ho_root_identity off)), (''account_identity'', JStr (ho_account_identity off))]"

lemma offer_fields: "canonical_fields (offer_members off x y)"
  by (simp add: canonical_fields_def offer_members_def canonical_key_def evaluate)

lemma offer_lookup:
  "field_of ''schema_version'' (offer_members off x y) = Some (JNum (ho_schema_version off))"
  "field_of ''bootstrap_id'' (offer_members off x y) = Some (JStr (ho_bootstrap_id off))"
  "field_of ''expires'' (offer_members off x y) = Some (JStr x)"
  "field_of ''platform'' (offer_members off x y) = Some (JStr (ho_platform off))"
  "field_of ''connection'' (offer_members off x y) = Some (server_json (ho_connection off))"
  "field_of ''installed'' (offer_members off x y) = Some (y)"
  "field_of ''installation_id'' (offer_members off x y) = Some (JStr (ho_installation_id off))"
  "field_of ''root_identity'' (offer_members off x y) = Some (JStr (ho_root_identity off))"
  "field_of ''account_identity'' (offer_members off x y) = Some (JStr (ho_account_identity off))"
  by (rule field_of_member[OF offer_fields], simp add: offer_members_def)+

definition intent_members :: "enrollment_intent \<Rightarrow> string \<Rightarrow> (string \<times> json) list" where
  "intent_members i x =
    [(''schema_version'', JNum (ei_schema_version i)), (''pair_id'', JStr (ei_pair_id i)), (''operation_id'', JStr
     (ei_operation_id i)), (''offer_hash'', JStr (ei_offer_hash i)), (''public_key'', JStr (ei_public_key i)),
     (''expires'', JStr x)]"

lemma intent_fields: "canonical_fields (intent_members i x)"
  by (simp add: canonical_fields_def intent_members_def canonical_key_def evaluate)

lemma intent_lookup:
  "field_of ''schema_version'' (intent_members i x) = Some (JNum (ei_schema_version i))"
  "field_of ''pair_id'' (intent_members i x) = Some (JStr (ei_pair_id i))"
  "field_of ''operation_id'' (intent_members i x) = Some (JStr (ei_operation_id i))"
  "field_of ''offer_hash'' (intent_members i x) = Some (JStr (ei_offer_hash i))"
  "field_of ''public_key'' (intent_members i x) = Some (JStr (ei_public_key i))"
  "field_of ''expires'' (intent_members i x) = Some (JStr x)"
  by (rule field_of_member[OF intent_fields], simp add: intent_members_def)+

definition enrollment_members :: "enrollment_receipt \<Rightarrow> json \<Rightarrow> (string \<times> json) list" where
  "enrollment_members r y =
    [(''schema_version'', JNum (er_schema_version r)), (''pair_id'', JStr (er_pair_id r)), (''operation_id'', JStr
     (er_operation_id r)), (''intent_sha'', JStr (er_intent_sha r)), (''platform'', JStr (er_platform r)),
     (''scope_sha'', JStr (er_scope_sha r)), (''target'', y), (''public_key'', JStr (er_public_key r))]"

lemma enrollment_fields: "canonical_fields (enrollment_members r y)"
  by (simp add: canonical_fields_def enrollment_members_def canonical_key_def evaluate)

lemma enrollment_lookup:
  "field_of ''schema_version'' (enrollment_members r y) = Some (JNum (er_schema_version r))"
  "field_of ''pair_id'' (enrollment_members r y) = Some (JStr (er_pair_id r))"
  "field_of ''operation_id'' (enrollment_members r y) = Some (JStr (er_operation_id r))"
  "field_of ''intent_sha'' (enrollment_members r y) = Some (JStr (er_intent_sha r))"
  "field_of ''platform'' (enrollment_members r y) = Some (JStr (er_platform r))"
  "field_of ''scope_sha'' (enrollment_members r y) = Some (JStr (er_scope_sha r))"
  "field_of ''target'' (enrollment_members r y) = Some (y)"
  "field_of ''public_key'' (enrollment_members r y) = Some (JStr (er_public_key r))"
  by (rule field_of_member[OF enrollment_fields], simp add: enrollment_members_def)+

definition pending_members :: "pair_pending \<Rightarrow> json \<Rightarrow> json \<Rightarrow> (string \<times> json) list" where
  "pending_members p y z =
    [(''schema_version'', JNum (pp_schema_version p)), (''name'', JStr (pp_name p)), (''offer'', y), (''intent'',
     z)]"

lemma pending_fields: "canonical_fields (pending_members p y z)"
  by (simp add: canonical_fields_def pending_members_def canonical_key_def evaluate)

lemma pending_lookup:
  "field_of ''schema_version'' (pending_members p y z) = Some (JNum (pp_schema_version p))"
  "field_of ''name'' (pending_members p y z) = Some (JStr (pp_name p))"
  "field_of ''offer'' (pending_members p y z) = Some (y)"
  "field_of ''intent'' (pending_members p y z) = Some (z)"
  by (rule field_of_member[OF pending_fields], simp add: pending_members_def)+

section \<open>Decoding what was encoded\<close>

abbreviation keyed :: "json \<Rightarrow> bool" where "keyed v \<equiv> well_keyed (\<lambda>t. t \<noteq> TNull) canonical_key v"

lemma server_reads_back: "decode_server (Some (server_json s)) = Inr s" "keyed (server_json s)"
proof -
  have form: "server_json s = JObj (server_members s)" by (simp add: server_json_def server_members_def)
  have "known_fields [''host'', ''port'', ''user'', ''host_public_key''] (server_members s)"
    by (rule known_members) (simp add: server_members_def)
  then show "decode_server (Some (server_json s)) = Inr s" by (simp add: form decode_server_def server_lookup)
  show "keyed (server_json s)" unfolding form by (rule members_keyed[OF server_fields]) (simp add: server_members_def)
qed

lemma offer_reads_back:
  assumes json: "offer_json lib off = Inr v" and rb: "times_read_back lib"
    and ok: "int_ok (ho_schema_version off)" "canonical_target (ho_installed off)"
  shows "decode_offer lib (Some v) = Inr off" "keyed v"
proof -
  from json obtain x y where x: "cl_time lib (ho_expires off) = Inr x" and y: "target_json (cl_target lib) (ho_installed off) = Inr y"
    and v: "v = JObj (offer_members off x y)"
    by (auto simp: offer_json_def offer_members_def)
  note t = target_reads_back[OF y ok(2)]
  have "known_fields offer_names (offer_members off x y)" by (rule known_members) (simp add: offer_members_def offer_names_def)
  with t(2) x rb ok(1) show "decode_offer lib (Some v) = Inr off"
    by (simp add: v decode_offer_def offer_lookup server_reads_back get_target_def get_time_def times_read_back_def)
  show "keyed v" unfolding v
    by (rule members_keyed[OF offer_fields]) (simp add: offer_members_def server_reads_back t(1) del: well_keyed.simps(1,2))
qed

lemma intent_reads_back:
  assumes json: "intent_json lib i = Inr v" and rb: "times_read_back lib" and ok: "int_ok (ei_schema_version i)"
  shows "decode_intent lib (Some v) = Inr i" "keyed v"
proof -
  from json obtain x where x: "cl_time lib (ei_expires i) = Inr x" and v: "v = JObj (intent_members i x)"
    by (auto simp: intent_json_def intent_members_def)
  have "known_fields intent_names (intent_members i x)" by (rule known_members) (simp add: intent_members_def intent_names_def)
  with x rb ok show "decode_intent lib (Some v) = Inr i"
    by (simp add: v decode_intent_def intent_lookup get_time_def times_read_back_def)
  show "keyed v" unfolding v by (rule members_keyed[OF intent_fields]) (simp add: intent_members_def)
qed

lemma enrollment_reads_back:
  assumes json: "enrollment_json lib r = Inr v" and ok: "int_ok (er_schema_version r)" "canonical_target (er_target r)"
  shows "decode_enrollment lib (Some v) = Inr r" "keyed v"
proof -
  from json obtain y where y: "target_json (cl_target lib) (er_target r) = Inr y" and v: "v = JObj (enrollment_members r y)"
    by (auto simp: enrollment_json_def enrollment_members_def)
  note t = target_reads_back[OF y ok(2)]
  have "known_fields enrollment_names (enrollment_members r y)" by (rule known_members) (simp add: enrollment_members_def enrollment_names_def)
  with t(2) ok(1) show "decode_enrollment lib (Some v) = Inr r"
    by (simp add: v decode_enrollment_def enrollment_lookup get_target_def)
  show "keyed v" unfolding v
    by (rule members_keyed[OF enrollment_fields]) (simp add: enrollment_members_def t(1) del: well_keyed.simps(1,2))
qed

lemma pending_reads_back:
  assumes json: "pending_json lib p = Inr v" and rb: "times_read_back lib"
    and ok: "int_ok (pp_schema_version p)" "int_ok (ho_schema_version (pp_offer p))" "int_ok (ei_schema_version (pp_intent p))"
      "canonical_target (ho_installed (pp_offer p))"
  shows "decode_pending lib (Some v) = Inr p" "keyed v"
proof -
  from json obtain y z where y: "offer_json lib (pp_offer p) = Inr y" and z: "intent_json lib (pp_intent p) = Inr z"
    and v: "v = JObj (pending_members p y z)"
    by (auto simp: pending_json_def pending_members_def)
  note offer = offer_reads_back[OF y rb ok(2,4)] and intent = intent_reads_back[OF z rb ok(3)]
  have "known_fields [''schema_version'', ''name'', ''offer'', ''intent''] (pending_members p y z)"
    by (rule known_members) (simp add: pending_members_def)
  with offer(1) intent(1) ok(1) show "decode_pending lib (Some v) = Inr p" by (simp add: v decode_pending_def pending_lookup)
  show "keyed v" unfolding v
    by (rule members_keyed[OF pending_fields]) (simp add: pending_members_def offer(2) intent(2) del: well_keyed.simps(1,2))
qed

lemma document_read:
  assumes "keyed v" and "reads_back lib v" and "reader (Some v) = Inr x"
  shows "strict_document lib reader (render v) = Inr x"
  using assms strict_admits_keyed[OF assms(1)] by (simp add: strict_document_def strict_value_def reads_back_def)

section \<open>Trust\<close>

text \<open>What the sender has checked, and what the transport leaves as it is.\<close>

definition sound_offer :: "ctl_lib \<Rightarrow> int \<Rightarrow> host_offer \<Rightarrow> bool" where
  "sound_offer lib now off \<longleftrightarrow> validate_offer lib off = None \<and> canonical_target (ho_installed off) \<and> now < ho_expires off"

definition sound_request :: "enrollment_intent \<Rightarrow> bool" where
  "sound_request i \<longleftrightarrow> ei_schema_version i = 1 \<and> id_pattern (ei_pair_id i) \<and> id_pattern (ei_operation_id i) \<and> hex64 (ei_offer_hash i)
     \<and> ei_expires i \<noteq> 0 \<and> canonical_public_key (ei_public_key i) = Inr (ei_public_key i)"

definition sound_receipt :: "enrollment_receipt \<Rightarrow> bool" where
  "sound_receipt r \<longleftrightarrow> er_schema_version r = 1 \<and> id_pattern (er_pair_id r) \<and> id_pattern (er_operation_id r) \<and> hex64 (er_intent_sha r)
     \<and> hex64 (er_scope_sha r) \<and> er_platform r = tg_platform (er_target r) \<and> cn_direct (tg_connection (er_target r)) \<noteq> None
     \<and> canonical_target (er_target r) \<and> canonical_public_key (er_public_key r) = Inr (er_public_key r)"

definition delivered :: "ctl_lib \<Rightarrow> json \<Rightarrow> bool" where
  "delivered lib v \<longleftrightarrow> reads_back lib v \<and> length (render v) \<le> max_pair_document"

definition digest_refusal :: "string \<Rightarrow> err" where
  "digest_refusal m = Msg (m @ '' requires its exact digest verified through an independent trusted channel'')"

lemma int_ok_1: "int_ok 1"
  by (simp add: int_ok_def)

text \<open>C24: the documents of a pairing cross. An offer, a request and a receipt as their senders make them are
  trusted by the other side, unchanged, with exactly the digest of the value that was sent; with any other
  digest they are refused.\<close>

theorem pairing_documents_cross:
  assumes "times_read_back lib" and "\<And>s. hex64 (tl_sha (cl_target lib) s)"
    and "sound_offer lib now off" and "offer_json lib off = Inr u" and "delivered lib u"
    and "sound_request i" and "intent_json lib i = Inr v" and "delivered lib v"
    and "sound_receipt r" and "enrollment_json lib r = Inr w" and "delivered lib w"
  shows "trust_offer lib (render u) d now =
      (if d = offer_digest lib off then Inr (TrustedOffer off) else Inl (digest_refusal ''host offer''))
    \<and> trust_intent lib (render v) d =
      (if d = intent_digest lib i then Inr (TrustedIntent i) else Inl (digest_refusal ''enrollment request''))
    \<and> trust_receipt lib (render w) d =
      (if d = enrollment_digest lib r then Inr (TrustedReceipt r) else Inl (digest_refusal ''enrollment receipt''))"
proof -
  have offer: "int_ok (ho_schema_version off)" "canonical_target (ho_installed off)"
    using assms(3) by (simp_all add: sound_offer_def validate_offer_def int_ok_1)
  have request: "int_ok (ei_schema_version i)" using assms(6) by (simp add: sound_request_def int_ok_1)
  have receipt: "int_ok (er_schema_version r)" "canonical_target (er_target r)" using assms(9) by (simp_all add: sound_receipt_def int_ok_1)
  have rb: "reads_back lib u" "reads_back lib v" "reads_back lib w" using assms(5,8,11) by (simp_all add: delivered_def)
  have "strict_document lib (decode_offer lib) (render u) = Inr off" "strict_document lib (decode_intent lib) (render v) = Inr i"
    "strict_document lib (decode_enrollment lib) (render w) = Inr r"
    using document_read[where reader = "decode_offer lib", OF offer_reads_back(2)[OF assms(4,1) offer] rb(1) offer_reads_back(1)[OF assms(4,1) offer]]
    document_read[where reader = "decode_intent lib", OF intent_reads_back(2)[OF assms(7,1) request] rb(2) intent_reads_back(1)[OF assms(7,1) request]]
    document_read[where reader = "decode_enrollment lib", OF enrollment_reads_back(2)[OF assms(10) receipt] rb(3) enrollment_reads_back(1)[OF assms(10) receipt]]
    by blast+
  moreover have "hex64 (offer_digest lib off)" "hex64 (intent_digest lib i)" "hex64 (enrollment_digest lib r)"
    using assms(2) by (simp_all add: offer_digest_def intent_digest_def enrollment_digest_def pair_digest_def)
  ultimately show ?thesis
    using assms(3,5,6,8,9,11)
    by (auto simp: trust_offer_def trust_intent_def trust_receipt_def delivered_def digest_refusal_def sound_offer_def sound_request_def
        sound_receipt_def target_connection_def check_def)
qed

end
