(* ===== verification/QuietStore.thy ===== *)
theory QuietStore
  imports PrivateStore
begin

text \<open>
  What the private storage does when nothing else happens to the disk: directories are created where they
  are missing, a record is published and read back, and a record that exists is not replaced.
\<close>

lemma wp_step: "wp m (\<lambda>r t. r = a \<and> P t) E s \<Longrightarrow> (\<And>t. P t \<Longrightarrow> wp (f a) Q E t) \<Longrightarrow> wp (andthen m f) Q E s"
  unfolding wp_andthen by (erule wp_mono) auto

section \<open>Growing\<close>

text \<open>What is created on the way to \<open>p\<close> are private directories.\<close>

definition grown :: "path \<Rightarrow> disk \<Rightarrow> disk \<Rightarrow> bool" where
  "grown p s t \<longleftrightarrow> (\<forall>q. entry_at t q = entry_at s q \<or> entry_at s q = None \<and> entry_at t q = Some (EDir True) \<and> q \<in> chain p)"

lemma grown_refl: "grown p s s"
  by (simp add: grown_def)

lemma grown_trans: "grown p s t \<Longrightarrow> grown p t u \<Longrightarrow> grown p s u"
  unfolding grown_def by metis

lemma grown_same: "entry_at t = entry_at s \<Longrightarrow> grown p s t"
  by (simp add: grown_def)

lemma grown_entry: "grown p s t \<Longrightarrow> entry_at s q = Some e \<Longrightarrow> entry_at t q = Some e"
  unfolding grown_def by (metis option.distinct(1))

lemma grown_directory: "grown p s t \<Longrightarrow> is_directory s q \<Longrightarrow> is_directory t q"
  by (auto simp: is_directory_def split: option.splits dest: grown_entry)

lemma grown_full: "grown p s t \<Longrightarrow> (\<And>q. q \<in> chain p \<Longrightarrow> entry_at s q \<noteq> None) \<Longrightarrow> entry_at t = entry_at s"
  unfolding grown_def by (rule ext) metis

lemma entry_place: "entry_at (place p e s) q = (if q = p then Some e else entry_at s q)"
  by (simp add: entry_at_def place_def update_conv')

lemma quiet_sys: "sys quiet_disk m s = m (begin_call quiet_disk s)"
  by (simp add: sys_def quiet_disk_simps Let_def)

lemma quiet_begin: "entry_at (begin_call quiet_disk s) = entry_at s"
  by (simp add: fun_eq_iff entry_at_def begin_call_def quiet_disk_simps)

lemma directory_same: "entry_at t = entry_at s \<Longrightarrow> is_directory t q = is_directory s q"
  by (simp add: is_directory_def)

lemma quiet_call: "wp (sys quiet_disk m) Q E s = wp m Q E (begin_call quiet_disk s)"
  by (simp add: wp_def quiet_sys)

lemma quiet_stat: "wp (stat_entry quiet_disk p) Q E s =
    (case entry_at s p of None \<Rightarrow> E NotExist (begin_call quiet_disk s) | Some e \<Rightarrow> Q e (begin_call quiet_disk s))"
  unfolding stat_entry_def quiet_call by (simp add: wp_def quiet_begin split: option.split)

lemma quiet_check_directory:
  "entry_at s p = Some (EDir True) \<Longrightarrow> p \<noteq> [] \<Longrightarrow> wp (check_directory quiet_disk p) (\<lambda>_ t. entry_at t = entry_at s) E s"
  by (simp add: check_directory_def wp_andthen quiet_stat wp_refuse quiet_begin)

lemma quiet_create_directory:
  assumes "entry_at s p = Some (EDir True) \<or> entry_at s p = None" and "p \<in> chain q" and "is_directory s (butlast p)"
  shows "wp (create_directory quiet_disk p) (\<lambda>_ t. grown q s t \<and> entry_at t p = Some (EDir True)) E s"
  using assms unfolding create_directory_def wp_andthen wp_attempt mkdir_def quiet_call
  by (auto simp: wp_def quiet_begin directory_same[OF quiet_begin] grown_def entry_place chain_def run_simps)

lemma quiet_enter:
  assumes "list_all proper_name cs" and "is_directory s current" and "current @ cs = p"
    and "\<And>n. 0 < n \<Longrightarrow> n \<le> length cs \<Longrightarrow> entry_at s (current @ take n cs) = Some (EDir True) \<or> create \<and> entry_at s (current @ take n cs) = None"
  shows "wp (enter_directories quiet_disk create current cs)
    (\<lambda>r t. r = p \<and> grown p s t \<and> (\<forall>n. 0 < n \<longrightarrow> n \<le> length cs \<longrightarrow> entry_at t (current @ take n cs) = Some (EDir True))) E s"
  using assms
proof (induction cs arbitrary: current s)
  case Nil
  then show ?case by (simp add: wp_ret grown_refl)
next
  case (Cons c cs)
  let ?d = "current @ [c]"
  have c: "proper_name c" "list_all proper_name cs" using Cons.prems(1) by simp_all
  have inner: "entry_at s (?d @ take n cs) = Some (EDir True) \<or> create \<and> entry_at s (?d @ take n cs) = None" if "n \<le> length cs" for n
    using Cons.prems(4)[of "Suc n"] that by simp
  have first: "entry_at s ?d = Some (EDir True) \<or> create \<and> entry_at s ?d = None" using inner[of 0] by simp
  have make: "wp (if create then create_directory quiet_disk ?d else skip) (\<lambda>_ t. grown p s t \<and> entry_at t ?d = Some (EDir True)) E s"
  proof (cases create)
    case True
    have "?d \<in> chain p" using Cons.prems(3) by (auto simp: chain_def)
    with True show ?thesis using quiet_create_directory[of s ?d p] first Cons.prems(2) by simp
  qed (use first in \<open>simp add: wp_ret grown_refl\<close>)
  show ?case unfolding enter_directories.simps Let_def proper_join[OF c(1)]
  proof (rule wp_then_seq[OF make], elim conjE, rule wp_then_seq[OF quiet_check_directory], assumption, simp, goal_cases)
    case (1 t u)
    have u: "grown p s u" "entry_at u ?d = Some (EDir True)" using 1 grown_trans[OF 1(1) grown_same[OF 1(3)]] by simp_all
    have "entry_at u (?d @ take n cs) = Some (EDir True) \<or> create \<and> entry_at u (?d @ take n cs) = None" if "n \<le> length cs" for n
      using inner[OF that] u(1) unfolding grown_def by metis
    with Cons.IH[OF c(2), of u ?d] u(2) Cons.prems(3)
    have "wp (enter_directories quiet_disk create ?d cs)
      (\<lambda>r t. r = p \<and> grown p u t \<and> (\<forall>n. 0 < n \<longrightarrow> n \<le> length cs \<longrightarrow> entry_at t (?d @ take n cs) = Some (EDir True))) E u"
      by (simp add: is_directory_def)
    then show ?case
    proof (rule wp_mono, goal_cases)
      case (1 r v)
      have "entry_at v (current @ take n (c # cs)) = Some (EDir True)" if "0 < n" "n \<le> length (c # cs)" for n
        using 1 that grown_entry[of p u v, OF _ u(2)] by (cases n; cases "n - 1") auto
      with 1 u(1) show ?case by (blast intro: grown_trans)
    qed
  qed
qed

lemma quiet_sync_parents:
  "(\<And>q. q \<in> chain (butlast p) \<Longrightarrow> is_directory s q) \<Longrightarrow> wp (sync_parents quiet_disk p) (\<lambda>_ t. entry_at t = entry_at s) E s"
proof (induction p arbitrary: s rule: rev_induct)
  case Nil
  then show ?case by (simp add: sync_parents.simps wp_ret)
next
  case (snoc x p)
  have p: "is_directory s p" using snoc.prems[of p] by (cases "p = []") (simp_all add: is_directory_def chain_def)
  have "wp (sync_directory quiet_disk p) (\<lambda>_ t. entry_at t = entry_at s) E s"
    unfolding sync_directory_def quiet_call using p
    by (simp add: wp_def directory_same[OF quiet_begin] quiet_begin keep_entries_def entry_at_def[abs_def]) (simp add: begin_call_def quiet_disk_simps)
  then show ?case unfolding sync_parents.simps[of _ "p @ [x]"]
  proof (simp, rule wp_then_seq, goal_cases)
    case (1 t)
    have "is_directory t q" if "q \<in> chain (butlast p)" for q
      using that snoc.prems[of q] directory_same[OF 1(2)] by (auto simp: chain_def dest!: prefix_order.order_trans[OF _ prefixeq_butlast])
    from wp_mono[OF snoc.IH[OF this]] 1(2) show ?case by simp
  qed
qed

section \<open>The directory of a record\<close>

lemma root_not_empty:
  assumes "store_root root"
  shows "parts root \<noteq> []"
proof
  assume "parts root = []"
  then have "\<forall>c\<in>set (split_on CHR ''/'' root). c = ''''" by (auto simp: parts_def filter_empty_conv)
  moreover have "\<forall>c\<in>set cs. c = '''' \<Longrightarrow> foldl (clean_step r) acc cs = acc" for cs r acc
    by (induction cs) (simp_all add: clean_step_def)
  ultimately have "foldl (clean_step r) acc (split_on CHR ''/'' root) = acc" for r acc by blast
  with assms show False by (auto simp: store_root_def path_clean_def has_prefix_iff)
qed

text \<open>The way to a record: the root and what is below it are private directories, where they exist.\<close>

definition way :: "bool \<Rightarrow> disk \<Rightarrow> string \<Rightarrow> string list \<Rightarrow> bool" where
  "way create s root ds \<longleftrightarrow> store_root root \<and> proper_dir ds
     \<and> (\<forall>q\<in>chain (butlast (parts root)). is_directory s q \<or> create \<and> entry_at s q = None)
     \<and> (\<forall>n\<le>length ds. entry_at s (parts root @ take n ds) = Some (EDir True) \<or> create \<and> entry_at s (parts root @ take n ds) = None)"

lemma quiet_mkdir:
  assumes "is_directory s q \<or> entry_at s q = None" and "q \<in> chain p" and "is_directory s (butlast q)"
  shows "wp (mkdir_if_missing quiet_disk q) (\<lambda>_ t. grown p s t \<and> is_directory t q) E s"
  using assms unfolding mkdir_if_missing_def quiet_call
  by (auto simp: wp_def quiet_begin directory_same[OF quiet_begin] grown_def entry_place is_directory_def)

lemma quiet_each:
  assumes "\<And>n t. i \<le> n \<Longrightarrow> n < j \<Longrightarrow> I n t \<Longrightarrow> wp (f n) (\<lambda>_. I (Suc n)) E t" and "I i s" and "i \<le> j"
  shows "wp (each f [i..<j]) (\<lambda>_. I j) E s"
  using assms
proof (induction "j - i" arbitrary: i s)
  case 0
  then show ?case by (simp add: wp_ret)
next
  case (Suc k)
  then have "i < j" by simp
  moreover have "wp (each f [Suc i..<j]) (\<lambda>_. I j) E t" if "I (Suc i) t" for t
    by (rule Suc.hyps(1)) (use Suc that in auto)
  ultimately show ?case using Suc.prems(1)[of i s] Suc.prems(2)
    by (simp add: upt_conv_Cons wp_andthen) (erule wp_mono, auto)
qed

lemma quiet_mkdir_all:
  assumes "\<And>q. q \<in> chain r \<Longrightarrow> is_directory s q \<or> entry_at s q = None" and "prefix r p"
  shows "wp (mkdir_all_private quiet_disk r) (\<lambda>_ t. grown p s t \<and> (\<forall>q\<in>chain r. is_directory t q)) E s"
proof -
  define I where "I n t \<longleftrightarrow> grown p s t \<and> (\<forall>m<n. is_directory t (take m r))" for n t
  have "wp (mkdir_all_private quiet_disk r) (\<lambda>_. I (Suc (length r))) E s"
    unfolding mkdir_all_private_def
  proof (rule quiet_each)
    fix n t assume n: "1 \<le> n" "n < Suc (length r)" and I: "I n t"
    then have q: "take n r \<in> chain r" "butlast (take n r) = take (n - 1) r" by (auto simp: chain_def butlast_take take_is_prefix)
    have "entry_at t (take n r) = entry_at s (take n r) \<or> entry_at t (take n r) = Some (EDir True)"
      using I unfolding I_def grown_def by blast
    then have "is_directory t (take n r) \<or> entry_at t (take n r) = None"
      using assms(1)[OF q(1)] by (auto simp: is_directory_def)
    moreover have "take n r \<in> chain p" using q(1) assms(2) by (auto simp: chain_def)
    moreover have "is_directory t (take (n - 1) r)" using I n by (simp add: I_def)
    ultimately have "wp (mkdir_if_missing quiet_disk (take n r)) (\<lambda>_ u. grown p t u \<and> is_directory u (take n r)) E t"
      using quiet_mkdir[of t "take n r" p] q(2) by simp
    then show "wp (mkdir_if_missing quiet_disk (take n r)) (\<lambda>_. I (Suc n)) E t"
      by (rule wp_mono) (use I in \<open>auto simp: I_def less_Suc_eq intro: grown_trans grown_directory\<close>)
  qed (simp_all add: I_def grown_refl is_directory_def)
  then show ?thesis
  proof (rule wp_mono, goal_cases)
    case (1 u t)
    have "is_directory t q" if "q \<in> chain r" for q
    proof -
      have "q = take (length q) r" "length q < Suc (length r)" using that by (auto simp: chain_def prefix_def)
      then obtain m where "q = take m r" "m < Suc (length r)" by blast
      with 1 show ?thesis by (simp add: I_def)
    qed
    with 1 show ?case by (simp add: I_def)
  qed
qed

lemma wp_allowed: "\<not> b \<Longrightarrow> wp m Q E s \<Longrightarrow> wp (then_do (refuse (check b x)) m) Q E s"
  by (simp add: then_do_def wp_andthen wp_refuse)

lemma chain_append: "q \<in> chain (p @ cs) \<Longrightarrow> q \<in> chain (butlast p) \<or> (\<exists>n\<le>length cs. q = p @ take n cs)"
proof -
  assume "q \<in> chain (p @ cs)"
  then have q: "q \<noteq> []" and pre: "prefix q (p @ cs)" by (auto simp: chain_def)
  from pre consider (above) "prefix q p" | (below) us where "q = p @ us" "prefix us cs" by (auto simp: prefix_append)
  then show ?thesis
  proof cases
    case above
    show ?thesis
    proof (cases "q = p")
      case True
      then show ?thesis by (intro disjI2 exI[of _ 0]) simp
    next
      case False
      with above q show ?thesis by (cases p rule: rev_cases) (auto simp: chain_def)
    qed
  next
    case below
    then have "us = take (length us) cs" "length us \<le> length cs" by (auto simp: prefix_def)
    with below show ?thesis by blast
  qed
qed

lemma chain_butlast: "q \<in> chain (butlast p) \<Longrightarrow> q \<in> chain p"
  using prefixeq_butlast[of p] by (auto simp: chain_def intro: prefix_order.order_trans)

lemma way_directory: "way False s root ds \<Longrightarrow> q \<in> chain (parts root @ ds) \<Longrightarrow> is_directory s q"
  using chain_append[of q "parts root" ds] by (auto simp: way_def is_directory_def)

lemma way_same: "way False s root ds \<Longrightarrow> entry_at t = entry_at s \<Longrightarrow> way False t root ds"
proof -
  assume w: "way False s root ds" and t: "entry_at t = entry_at s"
  have "is_directory t = is_directory s" by (rule ext) (rule directory_same[OF t])
  with w t show ?thesis by (simp add: way_def)
qed

lemma way_full: "way False s root ds \<Longrightarrow> grown (parts root @ ds) s t \<Longrightarrow> entry_at t = entry_at s"
proof (erule grown_full)
  fix q
  assume "way False s root ds" and "q \<in> chain (parts root @ ds)"
  from way_directory[OF this] this(2) show "entry_at s q \<noteq> None" by (auto simp: is_directory_def chain_def split: option.splits)
qed

lemma way_open: "way False s root ds \<Longrightarrow> way create s root ds"
  by (auto simp: way_def)

lemma quiet_root:
  assumes w: "way create s root ds"
  shows "wp (if create then mkdir_all_private quiet_disk (parts root) else skip)
    (\<lambda>_ t. grown (parts root @ ds) s t \<and> (\<forall>q\<in>chain (butlast (parts root)). is_directory t q) \<and> entry_at t (parts root) = Some (EDir True)) E s"
proof -
  have ne: "parts root \<noteq> []" using w root_not_empty by (auto simp: way_def)
  have own: "entry_at s (parts root) = Some (EDir True) \<or> create \<and> entry_at s (parts root) = None" using w by (auto simp: way_def dest: spec[of _ 0])
  show ?thesis
  proof (cases create)
    case True
    have "is_directory s q \<or> entry_at s q = None" if "q \<in> chain (parts root)" for q
      using that chain_append[of q "parts root" "[]"] w own by (auto simp: way_def is_directory_def)
    from quiet_mkdir_all[where r = "parts root" and p = "parts root @ ds", OF this]
    have "wp (mkdir_all_private quiet_disk (parts root)) (\<lambda>_ t. grown (parts root @ ds) s t \<and> (\<forall>q\<in>chain (parts root). is_directory t q)) E s" by simp
    then show ?thesis unfolding if_P[OF True]
    proof (rule wp_mono, goal_cases)
      case (1 u t)
      then have up: "\<forall>q\<in>chain (butlast (parts root)). is_directory t q" using chain_butlast by blast
      have "is_directory t (parts root)" using 1 ne by (simp add: chain_def)
      then have "entry_at t (parts root) \<noteq> None" using ne by (auto simp: is_directory_def split: option.splits)
      moreover have "entry_at t (parts root) = entry_at s (parts root) \<or> entry_at t (parts root) = Some (EDir True)"
        using 1 unfolding grown_def by blast
      ultimately show ?case using 1 up own by auto
    qed
  qed (use w own in \<open>simp add: wp_ret grown_refl way_def\<close>)
qed

lemma quiet_private_directory:
  assumes w: "way create s root ds"
  shows "wp (private_directory quiet_disk root (dir_name ds) create)
    (\<lambda>p t. p = parts root @ ds \<and> grown p s t \<and> way False t root ds) E s"
proof -
  let ?p = "parts root @ ds"
  have root: "store_root root" and d: "proper_dir ds" using w by (simp_all add: way_def)
  note ne = root_not_empty[OF root] and clean = dir_clean[OF d]
  show ?thesis unfolding private_directory_def dir_split[OF d] if_not_P[OF clean(2)]
  proof (rule wp_allowed, use root in \<open>simp add: store_root_def\<close>, rule wp_allowed, use clean in simp, rule wp_then_seq[OF quiet_root[OF w]],
      elim conjE, rule wp_then_seq[OF quiet_check_directory], assumption, rule ne, goal_cases)
    case (1 t u)
    have u: "grown ?p s u" "\<forall>q\<in>chain (butlast (parts root)). is_directory u q" "entry_at u (parts root) = Some (EDir True)"
      using 1 grown_trans[OF 1(1) grown_same[OF 1(4)]] by (simp_all add: directory_same[OF 1(4)])
    have inner: "entry_at u (parts root @ take n ds) = Some (EDir True) \<or> create \<and> entry_at u (parts root @ take n ds) = None" if "n \<le> length ds" for n
    proof -
      have "entry_at u (parts root @ take n ds) = entry_at s (parts root @ take n ds) \<or> entry_at u (parts root @ take n ds) = Some (EDir True)"
        using u(1) unfolding grown_def by blast
      with w that show ?thesis by (auto simp: way_def)
    qed
    have "list_all proper_name ds" using d by (simp add: proper_dir_def)
    from quiet_enter[OF this _ HOL.refl inner] u(3)
    have enter: "wp (enter_directories quiet_disk create (parts root) ds)
      (\<lambda>r t. r = ?p \<and> grown ?p u t \<and> (\<forall>n. 0 < n \<longrightarrow> n \<le> length ds \<longrightarrow> entry_at t (parts root @ take n ds) = Some (EDir True))) E u"
      by (simp add: is_directory_def)
    show ?case unfolding wp_andthen
    proof (rule wp_mono[OF enter], elim conjE, simp only:, goal_cases)
      case (1 r v)
      have "entry_at v (parts root @ take n ds) = Some (EDir True)" if "n \<le> length ds" for n
        using 1 grown_entry[OF 1(2) u(3)] that by (cases n) simp_all
      then have "way False v root ds"
        using 1(2) u root d by (auto simp: way_def intro: grown_directory)
      then have sync: "wp (if create then sync_parents quiet_disk ?p else skip) (\<lambda>_ w. entry_at w = entry_at v) E v"
        by (cases create) (simp_all add: wp_ret, rule quiet_sync_parents, erule way_directory, erule chain_butlast)
      show ?case
        by (rule wp_then_seq[OF sync])
          (use u(1) 1 \<open>way False v root ds\<close> in \<open>auto simp: wp_ret intro: way_same grown_trans grown_same\<close>)
    qed assumption
  qed
qed

section \<open>Records\<close>

lemma record_way:
  assumes "way create s root ds" and "proper_name b"
  shows "path_dir (dir_name ds @ CHR ''/'' # b) = dir_name ds" "join_component p (path_base (dir_name ds @ CHR ''/'' # b)) = p @ [b]"
    "joined root (dir_name ds @ CHR ''/'' # b) = record_path root ds b"
  using assms record_dir[of ds b] record_base[of b "dir_name ds"] record_joined[of root ds b] by (simp_all add: way_def record_path_def)

lemma quiet_read_path:
  assumes "entry_at s p = Some (EFile True c f)" and "length c \<le> limit"
  shows "wp (read_path quiet_disk p limit True) (\<lambda>r t. r = c \<and> entry_at t = entry_at s) E s"
  using assms by (simp add: read_path_def then_do_def wp_andthen wp_refuse quiet_call wp_ret quiet_stat quiet_begin unsafe_read_def)

lemma quiet_read:
  assumes w: "way False s root ds" and b: "proper_name b" and f: "entry_at s (record_path root ds b) = Some (EFile True c f)" "length c \<le> limit"
  shows "wp (read_durable quiet_disk root (dir_name ds @ CHR ''/'' # b) limit) (\<lambda>r t. r = c \<and> entry_at t = entry_at s) E s"
  unfolding read_durable_def private_read_def record_way[OF w b] andthen_assoc
proof (subst wp_andthen, rule wp_mono[OF quiet_private_directory[OF w]], elim conjE, simp only: flip: append_assoc, goal_cases)
  case (1 p t)
  have t: "entry_at t = entry_at s" by (rule way_full[OF w 1(2)])
  have "entry_at t ((parts root @ ds) @ [b]) = Some (EFile True c f)" using f(1) by (simp add: t record_path_def)
  from quiet_read_path[OF this f(2)] show ?case unfolding wp_andthen
  proof (rule wp_mono, elim conjE, simp only:, goal_cases)
    case (1 r u)
    have "way False u root ds" by (rule way_same[OF w]) (simp add: 1 t)
    then have "wp (sync_parents quiet_disk (record_path root ds b)) (\<lambda>_ v. entry_at v = entry_at u) E u"
      by (intro quiet_sync_parents) (simp add: record_path_def butlast_append way_directory)
    then show ?case by (rule wp_then_seq) (simp add: wp_ret 1 t)
  qed assumption
qed assumption

lemma quiet_publish_exists:
  assumes w: "way False s root ds" and b: "proper_name b" and f: "entry_at s (record_path root ds b) = Some (EFile True c' f)"
    and c: "length c \<le> max_record"
  shows "wp (private_publish quiet_disk root (dir_name ds @ CHR ''/'' # b) c False) Q (\<lambda>e t. e = Exist \<and> entry_at t = entry_at s) s"
  unfolding private_publish_def record_way[OF w b] Let_def
proof (rule wp_allowed, use c in simp, subst wp_andthen, rule wp_mono[OF quiet_private_directory[OF way_open[OF w]]], elim conjE, simp only: flip: append_assoc, goal_cases)
  case (1 p t)
  have t: "entry_at t = entry_at s" by (rule way_full[OF w 1(2)])
  have "entry_at t ((parts root @ ds) @ [b]) = Some (EFile True c' f)" using f(1) by (simp add: t record_path_def)
  then show ?case
    by (simp add: then_do_def wp_andthen check_destination_def wp_attempt quiet_stat wp_refuse wp_fail quiet_begin t)
qed assumption

lemma wp_ensuring: "wp (ensuring m c) Q E s = wp m (\<lambda>a t. Q a (snd (c t))) (\<lambda>e t. E e (snd (c t))) s"
  by (simp add: wp_def ensuring_def split: prod.splits sum.splits)

lemma quiet_remove: "q \<noteq> p \<Longrightarrow> entry_at (snd (remove_entry quiet_disk p t)) q = entry_at t q"
  by (auto simp: remove_entry_def quiet_sys quiet_begin erase_def entry_at_def delete_conv' split: option.split entry.split)
    (auto simp: begin_call_def quiet_disk_simps)

lemma way_elsewhere: "way False t root ds \<Longrightarrow> (\<And>q. q \<in> chain (parts root @ ds) \<Longrightarrow> entry_at v q = entry_at t q) \<Longrightarrow> way False v root ds"
proof -
  assume w: "way False t root ds" and same: "\<And>q. q \<in> chain (parts root @ ds) \<Longrightarrow> entry_at v q = entry_at t q"
  have "parts root \<noteq> []" using w root_not_empty by (auto simp: way_def)
  then have "parts root @ take n ds \<in> chain (parts root @ ds)" for n
    by (simp add: chain_def) (metis append_take_drop_id prefixI append_assoc)
  moreover have "q \<in> chain (parts root @ ds)" if "q \<in> chain (butlast (parts root))" for q
    using chain_butlast[OF that] by (auto simp: chain_def)
  ultimately show ?thesis using w same by (simp add: way_def is_directory_def)
qed

abbreviation temp_file :: string where "temp_file \<equiv> ''.pending-1''"

lemma keep_entry: "entry_at (keep_entries d s) = entry_at s"
  by (simp add: fun_eq_iff keep_entries_def entry_at_def)

lemma quiet_fill:
  assumes d: "entry_at t d = Some (EDir True)" "d \<noteq> []" and b: "b \<noteq> temp_file"
    and absent: "entry_at t (d @ [b]) = None" "entry_at t (d @ [temp_file]) = None"
  shows "wp (then_do (check_destination quiet_disk (d @ [b]) False)
      (andthen (create_temp quiet_disk d) (\<lambda>temporary.
       ensuring
        (then_do (fill_temp quiet_disk temporary c)
         (then_do (publish_at quiet_disk temporary (d @ [b]) False)
          (sync_directory quiet_disk d)))
        (remove_entry quiet_disk temporary))))
    (\<lambda>_ u. entry_at u (d @ [b]) = Some (EFile True c True) \<and> (\<forall>q. q \<noteq> d @ [b] \<longrightarrow> q \<noteq> d @ [temp_file] \<longrightarrow> entry_at u q = entry_at t q)) (\<lambda>_ _. False) t"
proof -
  have dest: "wp (check_destination quiet_disk (d @ [b]) False) (\<lambda>_ u. entry_at u = entry_at t) (\<lambda>_ _. False) t"
    by (simp add: check_destination_def wp_andthen wp_attempt quiet_stat absent wp_ret quiet_begin)
  have create: "wp (create_temp quiet_disk d) (\<lambda>p u. p = d @ [temp_file] \<and> entry_at u = (entry_at t)(d @ [temp_file] \<mapsto> EFile True '''' False)) (\<lambda>_ _. False) u"
    if u: "entry_at u = entry_at t" for u
    using d by (simp add: create_temp_def create_file_def wp_def quiet_sys quiet_begin u absent temp_name_def quiet_disk_simps is_directory_def
        fun_eq_iff entry_place)
  have fill: "wp (fill_temp quiet_disk p c) (\<lambda>_ v. entry_at v = (entry_at t)(p \<mapsto> EFile True c True)) (\<lambda>_ _. False) u"
    if u: "entry_at u = (entry_at t)(p \<mapsto> EFile True '''' False)" for u p
    using u by (simp add: fill_temp_def then_do_def run_simps write_temp_def flush_file_def close_file_def wp_def quiet_sys quiet_begin
        quiet_disk_simps fun_eq_iff entry_place ret_def Let_def)
  have publish: "wp (publish_at quiet_disk (d @ [temp_file]) (d @ [b]) False)
      (\<lambda>_ v. entry_at v = (entry_at t)(d @ [temp_file] \<mapsto> EFile True c True, d @ [b] \<mapsto> EFile True c True)) (\<lambda>_ _. False) u"
    if u: "entry_at u = (entry_at t)(d @ [temp_file] \<mapsto> EFile True c True)" for u
    using b absent by (simp add: publish_at_def wp_def quiet_sys quiet_begin u fun_eq_iff entry_place)
  have sync: "wp (sync_directory quiet_disk d) (\<lambda>_ v. entry_at v = entry_at u) (\<lambda>_ _. False) u" if "entry_at u d = Some (EDir True)" for u
    using that by (simp add: sync_directory_def wp_def quiet_sys is_directory_def quiet_begin keep_entry)
  show ?thesis
  proof (rule wp_then_seq[OF dest], rule wp_step[OF create], assumption, unfold wp_ensuring, rule wp_then_seq[OF fill], assumption,
      rule wp_then_seq[OF publish], assumption, rule wp_mono[OF sync], goal_cases)
    case (1 u v w x)
    then show ?case using d by (simp add: fun_eq_iff)
  next
    case (2 u v w x a y)
    have "entry_at (snd (remove_entry quiet_disk (d @ [temp_file]) y)) q = entry_at y q" if "q \<noteq> d @ [temp_file]" for q
      by (rule quiet_remove[OF that])
    with 2 b show ?case by simp
  qed
qed

lemma quiet_publish_new:
  assumes w: "way True s root ds" and b: "proper_name b" "b \<noteq> temp_file" and c: "length c \<le> max_record"
    and f: "entry_at s (record_path root ds b) = None" "entry_at s (record_path root ds temp_file) = None"
  shows "wp (private_publish quiet_disk root (dir_name ds @ CHR ''/'' # b) c False)
    (\<lambda>_ t. way False t root ds \<and> entry_at t (record_path root ds b) = Some (EFile True c True)) (\<lambda>_ _. False) s"
  unfolding private_publish_def record_way[OF w b(1)] Let_def
proof (rule wp_allowed, use c in simp, subst wp_andthen, rule wp_mono[OF quiet_private_directory[OF w]], elim conjE, simp only: flip: append_assoc, goal_cases)
  case (1 p t)
  let ?d = "parts root @ ds"
  have ne: "?d \<noteq> []" using w root_not_empty by (auto simp: way_def)
  have up: "entry_at t ?d = Some (EDir True)" using 1(3) by (auto simp: way_def dest: spec[of _ "length ds"])
  have inside: "?d @ [x] \<notin> chain ?d" for x by (auto simp: chain_def dest: prefix_length_le)
  then have absent: "entry_at t (?d @ [b]) = None" "entry_at t (?d @ [temp_file]) = None"
    using 1(2) f unfolding grown_def record_path_def by (metis append_assoc)+
  show ?case
  proof (rule wp_mono[OF quiet_fill[OF up ne b(2) absent, of c]], goal_cases)
    case (1 a u)
    have "entry_at u q = entry_at t q" if "q \<in> chain ?d" for q using 1 that inside by metis
    from way_elsewhere[OF \<open>way False t root ds\<close> this] 1 show ?case by (simp add: record_path_def)
  qed
qed assumption

section \<open>What is published is read\<close>

lemma wp_run: "wp m Q (\<lambda>_ _. False) s \<Longrightarrow> \<exists>r t. m s = (Inr r, t) \<and> Q r t"
  by (auto simp: wp_def split: prod.splits sum.splits)

text \<open>C15: on a disk that nothing else touches, a record within the limits is published, whichever of its
  directories exist already; a read then returns its contents, and from then on another publication
  reports that the record exists and changes nothing.\<close>

theorem published_record_is_read:
  assumes "way True s root ds" and "proper_name b" and "b \<noteq> temp_file" and "length c \<le> max_record" and "length c' \<le> max_record"
    and "entry_at s (record_path root ds b) = None" and "entry_at s (record_path root ds temp_file) = None"
  shows "\<exists>t u v. private_publish quiet_disk root (dir_name ds @ CHR ''/'' # b) c False s = (Inr (), t)
    \<and> read_durable quiet_disk root (dir_name ds @ CHR ''/'' # b) (length c) t = (Inr c, u)
    \<and> private_publish quiet_disk root (dir_name ds @ CHR ''/'' # b) c' False u = (Inl Exist, v) \<and> entry_at v = entry_at t"
proof -
  from wp_run[OF quiet_publish_new[OF assms(1-4,6,7)]] obtain t where
    t: "private_publish quiet_disk root (dir_name ds @ CHR ''/'' # b) c False s = (Inr (), t)" "way False t root ds"
      "entry_at t (record_path root ds b) = Some (EFile True c True)" by auto
  from wp_run[OF quiet_read[OF t(2) assms(2) t(3)]] obtain u where
    u: "read_durable quiet_disk root (dir_name ds @ CHR ''/'' # b) (length c) t = (Inr c, u)" "entry_at u = entry_at t" by auto
  have "wp (private_publish quiet_disk root (dir_name ds @ CHR ''/'' # b) c' False) (\<lambda>_ _. False) (\<lambda>e v. e = Exist \<and> entry_at v = entry_at u) u"
    using quiet_publish_exists[OF way_same[OF t(2) u(2)] assms(2) _ assms(5)] t(3) by (simp add: u(2))
  then obtain v where "private_publish quiet_disk root (dir_name ds @ CHR ''/'' # b) c' False u = (Inl Exist, v)" "entry_at v = entry_at u"
    by (auto simp: wp_def split: prod.splits sum.splits)
  with t(1) u show ?thesis by auto
qed

theorem published_record_is_read_witness:
  "\<exists>t u v. private_publish quiet_disk ''/c'' ''runs/x.json'' ''abc'' False empty_disk = (Inr (), t)
    \<and> read_durable quiet_disk ''/c'' ''runs/x.json'' 3 t = (Inr ''abc'', u)
    \<and> private_publish quiet_disk ''/c'' ''runs/x.json'' ''d'' False u = (Inl Exist, v)"
proof -
  have empty: "entry_at empty_disk q = None" for q by (simp add: entry_at_def empty_disk_def)
  then have "way True empty_disk ''/c'' [''runs'']"
    using sample_name(2) by (auto simp: way_def proper_dir_def proper_name_def)
  from published_record_is_read[OF this, of "''x.json''" "''abc''" "''d''"] show ?thesis
    by (auto simp: proper_name_def max_record_def empty dir_name_def numeral_3_eq_3)
qed

end
