(* ===== verification/PairSample.thy ===== *)
theory PairSample
  imports PairHostGuarantees TargetCodec JournalGuarantees QuietStore
begin

text \<open>
  A pairing that is computed: a host with one recorded grant, which is enrolled twice, then revoked, and
  whose revocation is repeated. The properties of theory PairHostGuarantees are applied to it.
\<close>

section \<open>The documents\<close>

definition target_value :: json where
  "target_value = JObj [(''schema_version'', JNum 2), (''platform'', JStr ''linux''), (''ssh_alias'', JStr ''box''), config_member sample_target]"

lemma target_value: "target_json lib sample_target = Inr target_value"
  by (simp add: target_json_def sample_target_ok target_value_def) (simp add: sample_target_def target_connection_def zero_connection_def)

lemma target_value_read: "decode_target_value lib target_value = Inr sample_target" "well_keyed (\<lambda>t. t \<noteq> TNull) canonical_key target_value"
  using target_reads_back[OF target_value sample_target_valid(2)] by blast+

definition receipt_members :: "(string \<times> json) list" where
  "receipt_members = [(''pair_id'', JStr ''p''), (''target'', target_value), (''public_key'', JStr sample_pair_key)]"

definition grant_members :: "(string \<times> json) list" where
  "grant_members = [(''schema_version'', JNum 1), (''pair_id'', JStr ''p''), (''intent_sha'', JStr sample_hash), (''keys_file'', JStr ''k''),
     (''line'', JStr sample_line), (''receipt'', JObj receipt_members), (''receipt_sha'', JStr sample_hash)]"

definition tomb_members :: "(string \<times> json) list" where
  "tomb_members = [(''schema_version'', JNum 1), (''pair_id'', JStr ''p''), (''source'', JStr ''host-local'')]"

lemma sample_fields: "canonical_fields receipt_members" "canonical_fields grant_members" "canonical_fields tomb_members"
  by (simp_all add: receipt_members_def grant_members_def tomb_members_def canonical_fields_def canonical_key_def evaluate)

lemma sample_keyed:
  "well_keyed (\<lambda>t. t \<noteq> TNull) canonical_key (JObj grant_members)" "well_keyed (\<lambda>t. t \<noteq> TNull) canonical_key (JObj tomb_members)"
proof -
  have "well_keyed (\<lambda>t. t \<noteq> TNull) canonical_key (JObj receipt_members)"
    by (rule members_keyed[OF sample_fields(1)]) (simp add: receipt_members_def target_value_read(2) del: well_keyed.simps(1,2))
  then show "well_keyed (\<lambda>t. t \<noteq> TNull) canonical_key (JObj grant_members)"
    by (intro members_keyed[OF sample_fields(2)]) (simp add: grant_members_def del: well_keyed.simps(1,2))
  show "well_keyed (\<lambda>t. t \<noteq> TNull) canonical_key (JObj tomb_members)"
    by (rule members_keyed[OF sample_fields(3)]) (simp add: tomb_members_def)
qed

text \<open>A parser that knows the two texts, and a digest that tells the empty text from others.\<close>

definition pair_lib :: ctl_lib where
  "pair_lib = sample_ctl\<lparr>cl_target := \<lparr>tl_up = id, tl_ip = (\<lambda>s. False),
     tl_parse = (\<lambda>s. if s = ''G'' then Some (JObj grant_members) else if s = ''T'' then Some (JObj tomb_members) else None),
     tl_sha = (\<lambda>s. if s = '''' then replicate 64 CHR ''1'' else sample_hash)\<rparr>\<rparr>"

definition sample_receipt :: enrollment_receipt where
  "sample_receipt = \<lparr>er_schema_version = 0, er_pair_id = ''p'', er_operation_id = '''', er_intent_sha = '''', er_platform = '''',
     er_scope_sha = '''', er_target = sample_target, er_public_key = sample_pair_key\<rparr>"

definition sample_grant :: grant_record where
  "sample_grant = \<lparr>gr_schema_version = 1, gr_pair_id = ''p'', gr_offer_sha = '''', gr_intent_sha = sample_hash, gr_installation_id = '''',
     gr_account_identity = '''', gr_login = '''', gr_keys_file = ''k'', gr_shared_keys_file = False, gr_line = sample_line,
     gr_receipt = sample_receipt, gr_receipt_sha = sample_hash, gr_granted = 0\<rparr>"

definition sample_tomb :: tombstone where
  "sample_tomb = \<lparr>tb_schema_version = 1, tb_pair_id = ''p'', tb_grant_sha = '''', tb_source = ''host-local'', tb_requested = 0\<rparr>"

lemma canonical_names: "list_all canonical_key grant_names" "list_all canonical_key enrollment_names"
    "list_all canonical_key [''schema_version'', ''pair_id'', ''grant_sha'', ''source'', ''requested'']"
  by (simp_all add: grant_names_def enrollment_names_def canonical_key_def evaluate)

lemma sample_lookup:
  "n \<in> set grant_names \<Longrightarrow> field_of n grant_members = map_of grant_members n"
  "n \<in> set enrollment_names \<Longrightarrow> field_of n receipt_members = map_of receipt_members n"
  "n \<in> {''schema_version'', ''pair_id'', ''grant_sha'', ''source'', ''requested''} \<Longrightarrow> field_of n tomb_members = map_of tomb_members n"
  using canonical_names by (auto intro!: field_of_canonical sample_fields simp: list_all_iff)

lemma sample_known:
  "known_fields grant_names grant_members" "known_fields enrollment_names receipt_members"
  "known_fields [''schema_version'', ''pair_id'', ''grant_sha'', ''source'', ''requested''] tomb_members"
  by (rule known_fields_subset; simp add: grant_members_def receipt_members_def tomb_members_def grant_names_def enrollment_names_def)+

lemma get_missing: "get_str None = Inr ''''" "get_int None = Inr 0" "get_bool None = Inr False" "get_time lib None = Inr 0"
  by (simp_all add: get_str_def get_int_def get_bool_def get_time_def get_int_ptr_def)

lemma sample_members:
  "field_of ''schema_version'' receipt_members = None"
  "field_of ''pair_id'' receipt_members = Some (JStr ''p'')"
  "field_of ''operation_id'' receipt_members = None"
  "field_of ''intent_sha'' receipt_members = None"
  "field_of ''platform'' receipt_members = None"
  "field_of ''scope_sha'' receipt_members = None"
  "field_of ''target'' receipt_members = Some (target_value)"
  "field_of ''public_key'' receipt_members = Some (JStr sample_pair_key)"
  "field_of ''schema_version'' grant_members = Some (JNum 1)"
  "field_of ''pair_id'' grant_members = Some (JStr ''p'')"
  "field_of ''offer_sha'' grant_members = None"
  "field_of ''intent_sha'' grant_members = Some (JStr sample_hash)"
  "field_of ''installation_id'' grant_members = None"
  "field_of ''account_identity'' grant_members = None"
  "field_of ''login'' grant_members = None"
  "field_of ''keys_file'' grant_members = Some (JStr ''k'')"
  "field_of ''shared_keys_file'' grant_members = None"
  "field_of ''line'' grant_members = Some (JStr sample_line)"
  "field_of ''receipt'' grant_members = Some (JObj receipt_members)"
  "field_of ''receipt_sha'' grant_members = Some (JStr sample_hash)"
  "field_of ''granted'' grant_members = None"
  "field_of ''schema_version'' tomb_members = Some (JNum 1)"
  "field_of ''pair_id'' tomb_members = Some (JStr ''p'')"
  "field_of ''grant_sha'' tomb_members = None"
  "field_of ''source'' tomb_members = Some (JStr ''host-local'')"
  "field_of ''requested'' tomb_members = None"
  by (simp_all add: sample_lookup grant_names_def enrollment_names_def) (simp_all add: receipt_members_def grant_members_def tomb_members_def)

lemma sample_receipt_read: "decode_enrollment pair_lib (Some (JObj receipt_members)) = Inr sample_receipt"
  by (simp add: decode_enrollment_def sample_known sample_members get_missing get_target_def target_value_read sample_receipt_def)

lemma sample_documents:
  "strict_document pair_lib (decode_grant pair_lib) ''G'' = Inr sample_grant"
  "strict_document pair_lib (decode_tombstone pair_lib) ''T'' = Inr sample_tomb"
proof -
  have "strict_value (tl_parse (cl_target pair_lib)) ''G'' = Inr (JObj grant_members)"
    "strict_value (tl_parse (cl_target pair_lib)) ''T'' = Inr (JObj tomb_members)"
    using strict_admits_keyed[OF sample_keyed(1)] strict_admits_keyed[OF sample_keyed(2)]
    by (simp_all add: strict_value_def pair_lib_def del: tokens.simps)
  then show "strict_document pair_lib (decode_grant pair_lib) ''G'' = Inr sample_grant"
    "strict_document pair_lib (decode_tombstone pair_lib) ''T'' = Inr sample_tomb"
    by (simp_all add: strict_document_def decode_grant_def decode_tombstone_def sample_known sample_members get_missing
        sample_receipt_read int_ok_def sample_grant_def sample_tomb_def)
qed

section \<open>The host\<close>

text \<open>The keys file is a text that is replaced as a whole.\<close>

definition sample_keys :: "string \<Rightarrow> string \<Rightarrow> keys_file" where
  "sample_keys path c = \<lparr>kf_path = path, kf_exists = True, kf_bytes = c, kf_sha = sample_hash, kf_security = ''''\<rparr>"

definition pair_platform :: "string platform" where
  "pair_platform = \<lparr>pf_authority = (\<lambda>root i. fail (Msg ''no authority'')), pf_read = (\<lambda>path c. (Inr (sample_keys path c), c)),
     pf_replace = (\<lambda>f c p. (Inr (), c))\<rparr>"

definition sample_pair_env :: "string pair_env" where
  "sample_pair_env = \<lparr>hv_lib = pair_lib, hv_disk = quiet_disk, hv_root = ''/c'', hv_maintenance = quiet_maintenance,
     hv_platform = pair_platform, hv_now = (\<lambda>s. 10), hv_context = (\<lambda>s. None), hv_at = (\<lambda>x s. None), hv_random = (\<lambda>s. Inr '''')\<rparr>"

definition grant_files :: "(path \<times> entry) list" where
  "grant_files = [([''c''], EDir True), ([''c'', ''pairings''], EDir True), ([''c'', ''pairings'', ''grants''], EDir True),
     ([''c'', ''pairings'', ''grants'', ''p.json''], EFile True ''G'' True)]"

definition tomb_files :: "(path \<times> entry) list" where
  "tomb_files = grant_files @ [([''c'', ''pairings'', ''tombstones''], EDir True),
     ([''c'', ''pairings'', ''tombstones'', ''p.json''], EFile True ''T'' True)]"

definition sample_intent :: enrollment_intent where
  "sample_intent = \<lparr>ei_schema_version = 1, ei_pair_id = ''p'', ei_operation_id = ''o'', ei_offer_hash = '''', ei_public_key = '''', ei_expires = 10\<rparr>"

lemma pair_env_simps:
  "hv_lib sample_pair_env = pair_lib" "hv_disk sample_pair_env = quiet_disk" "hv_root sample_pair_env = ''/c''"
  "hv_maintenance sample_pair_env = quiet_maintenance" "hv_platform sample_pair_env = pair_platform" "hv_context sample_pair_env s = None"
  "hv_at sample_pair_env x s = None" "hv_now sample_pair_env s = 10"
  by (simp_all add: sample_pair_env_def)

lemma sample_pair_paths:
  "grant_path ''p'' = ''pairings/grants/p.json''" "tomb_path ''p'' = ''pairings/tombstones/p.json''" "id_pattern ''p''"
  "path_dir ''pairings/grants/p.json'' = ''pairings/grants''" "path_base ''pairings/grants/p.json'' = ''p.json''"
  "path_dir ''pairings/tombstones/p.json'' = ''pairings/tombstones''" "path_base ''pairings/tombstones/p.json'' = ''p.json''"
  "joined ''/c'' ''pairings/grants/p.json'' = [''c'', ''pairings'', ''grants'', ''p.json'']"
  "joined ''/c'' ''pairings/tombstones/p.json'' = [''c'', ''pairings'', ''tombstones'', ''p.json'']"
  "split_on CHR ''/'' ''pairings/grants'' = [''pairings'', ''grants'']" "split_on CHR ''/'' ''pairings/tombstones'' = [''pairings'', ''tombstones'']"
  "path_clean ''pairings/grants'' = ''pairings/grants''" "path_clean ''pairings/tombstones'' = ''pairings/tombstones''"
  "join_component q ''pairings'' = q @ [''pairings'']" "join_component q ''grants'' = q @ [''grants'']"
  "join_component q ''tombstones'' = q @ [''tombstones'']" "join_component q ''p.json'' = q @ [''p.json'']"
  "has_prefix ''pairings/grants'' x = (take (length x) ''pairings/grants'' = x)"
  "has_prefix ''pairings/tombstones'' x = (take (length x) ''pairings/tombstones'' = x)"
  "parts ''/c'' = [''c'']" "has_prefix ''/c'' ''/''" "path_clean ''/c'' = ''/c''"
  by (simp_all add: grant_path_def tomb_path_def id_pattern_def evaluate)

lemma pair_sha_simps: "intent_digest pair_lib x = sample_hash" "enrollment_digest pair_lib y = sample_hash"
    "pair_sha sample_pair_env ''T'' = sample_hash" "pair_sha sample_pair_env '''' \<noteq> sample_hash"
  by (simp_all add: intent_digest_def enrollment_digest_def pair_digest_def pair_sha_def pair_env_simps pair_lib_def sample_hash_def)

lemma sample_grant_ok: "grant_refusal pair_lib ''p'' sample_grant = None"
  by (simp add: grant_refusal_def sample_grant_def sample_receipt_def sample_grant_line pair_sha_simps)

lemma sample_receipt_json: "\<exists>v. enrollment_json pair_lib sample_receipt = Inr v"
  by (simp add: enrollment_json_def sample_receipt_def target_value)

lemma sample_scans:
  "scan_for '''' sample_grant = (0, False, False)" "scan_for (append_line '''' sample_line) sample_grant = (1, False, False)"
proof -
  have "key_lines '''' = []" by (simp add: key_lines_chunks)
  moreover have "key_lines (append_line '''' sample_line) = [sample_line]"
    using key_lines_append[OF grant_line_clean[OF sample_grant_line], of "''''"] calculation by (simp add: terminated_def)
  ultimately show "scan_for '''' sample_grant = (0, False, False)" "scan_for (append_line '''' sample_line) sample_grant = (1, False, False)"
    by (simp_all add: scan_for_def scan_keys_lines sample_grant_def sample_receipt_def)
qed

section \<open>Its runs\<close>

text \<open>A host without a Run, with the records \<open>fs\<close>, the keys \<open>k\<close>, \<open>n\<close> edits and the launch lock held or not.\<close>

definition quietly :: "(path \<times> entry) list \<Rightarrow> string \<Rightarrow> nat \<Rightarrow> bool \<Rightarrow> string pair_host \<Rightarrow> bool" where
  "quietly fs k n b s \<longleftrightarrow> dk_now (ph_disk s) = fs \<and> ph_platform s = k \<and> length (ph_edits s) = n
     \<and> ph_host s = empty_host\<lparr>hs_launch := b, hs_tick := hs_tick (ph_host s)\<rparr>"

lemmas pair_read_simps = sample_disk_simps sample_pair_paths pair_env_simps grant_files_def tomb_files_def max_pair_document_def wp_def
  read_record_def on_records_def quietly_def

lemma runs_read_grant:
  "quietly fs k n b s \<Longrightarrow> fs = grant_files \<or> fs = tomb_files \<Longrightarrow>
    wp (read_grant sample_pair_env ''p'') (\<lambda>r t. r = (sample_grant, ''G'') \<and> quietly fs k n b t) E s"
  by (auto simp: read_grant_def pair_read_simps sample_documents sample_grant_ok)

lemma sample_tomb_simps: "tb_schema_version sample_tomb = 1" "tb_pair_id sample_tomb = ''p''"
  by (simp_all add: sample_tomb_def)

lemma runs_read_tombstone:
  "quietly grant_files k n b s \<Longrightarrow> wp (read_tombstone sample_pair_env ''p'') (\<lambda>r t. r = None \<and> quietly grant_files k n b t) E s"
  "quietly tomb_files k n b s \<Longrightarrow> wp (read_tombstone sample_pair_env ''p'') (\<lambda>r t. r = Some (sample_tomb, ''T'') \<and> quietly tomb_files k n b t) E s"
  by (auto simp: read_tombstone_def pair_read_simps sample_documents sample_tomb_simps)

lemma runs_keys:
  "quietly fs k n b s \<Longrightarrow> wp (read_keys sample_pair_env p) (\<lambda>r t. r = sample_keys p k \<and> quietly fs k n b t) E s"
  "quietly fs k n b s \<Longrightarrow> wp (replace_keys sample_pair_env f c) (\<lambda>r t. quietly fs c (Suc n) b t) E s"
  by (auto simp: read_keys_def replace_keys_def on_platform_def pair_env_simps pair_platform_def quietly_def wp_def run_simps sequencing)

lemma runs_checks:
  "quietly fs k n b s \<Longrightarrow> wp (checkpoint sample_pair_env x) (\<lambda>_. quietly fs k n b) E s"
  "quietly fs k n b s \<Longrightarrow> wp (check_context sample_pair_env) (\<lambda>_. quietly fs k n b) E s"
  by (simp_all add: checkpoint_def check_context_def pair_env_simps wp_simps)

lemma runs_maintenance:
  assumes s: "quietly fs k n False s" and act: "\<And>u. quietly fs k n True u \<Longrightarrow> wp action (\<lambda>r. P r) E u"
    and P: "\<And>r u h. P r u \<Longrightarrow> Q r (put_host ((ph_host u)\<lparr>hs_launch := False\<rparr>) u)" and E: "\<And>e u. E e u = False"
  shows "wp (with_maintenance ph_host put_host quiet_maintenance action) Q E s"
proof -
  define tick where "tick = hs_tick (ph_host s)"
  with s have h: "ph_host s = empty_host\<lparr>hs_launch := False, hs_tick := tick\<rparr>" by (simp add: quietly_def)
  have run: "with_maintenance ph_host put_host quiet_maintenance action s =
    (case action (put_host (empty_host\<lparr>hs_launch := True, hs_tick := Suc (Suc (Suc (Suc (Suc (Suc (Suc (Suc tick)))))))\<rparr>) s) of (r, v) \<Rightarrow> (r, put_host ((ph_host v)\<lparr>hs_launch := False\<rparr>) v))"
    using h by (simp add: with_maintenance_def with_setup_maintenance_def enter_maintenance_def hold_launch_def try_launch_def on_host_def
        inspect_setup_maintenance_def inspect_setup_claim_def quiet_maintenance_def release_launch_def max_authorities_def step_tick_def
        pair_embedding.put_put evaluate split: prod.splits sum.splits)
  have "quietly fs k n True (put_host (empty_host\<lparr>hs_launch := True, hs_tick := Suc (Suc (Suc (Suc (Suc (Suc (Suc (Suc tick)))))))\<rparr>) s)"
    using s by (auto simp: quietly_def put_host_def)
  from act[OF this] show ?thesis
    unfolding wp_def run by (auto simp: E split: prod.splits sum.splits intro: P)
qed

lemma sample_grant_simps: "gr_pair_id sample_grant = ''p''" "gr_keys_file sample_grant = ''k''" "gr_line sample_grant = sample_line"
    "gr_receipt sample_grant = sample_receipt" "gr_intent_sha sample_grant = sample_hash" "ei_pair_id sample_intent = ''p''"
    "ei_schema_version sample_intent = 1" "kf_bytes (sample_keys p c) = c"
  by (simp_all add: sample_grant_def sample_intent_def sample_keys_def)

lemma of_res_known: "r = Inr x \<Longrightarrow> andthen (of_res r) f = f x"
  by (rule ext) (simp add: andthen_def of_res_def)

lemma runs_not_revoked: "quietly grant_files k n b s \<Longrightarrow> wp (refuse_revoked sample_pair_env ''p'') (\<lambda>_. quietly grant_files k n b) E s"
  unfolding refuse_revoked_def by (rule wp_step[OF runs_read_tombstone(1)]) (simp_all add: wp_simps)

definition line_file :: string where "line_file = append_line '''' sample_line"

lemma runs_admit:
  assumes s: "quietly grant_files k n b s" and k: "k = '''' \<and> i = 1 \<or> k = line_file \<and> i = 0"
  shows "wp (admit_line sample_pair_env sample_grant) (\<lambda>r t. fst r = sample_grant \<and> quietly grant_files line_file (n + i) b t) E s"
proof -
  have edit: "wp (if 1 - i = 0 then replace_keys sample_pair_env f (append_line k sample_line) else skip)
      (\<lambda>_. quietly grant_files line_file (n + i) b) E t" if t: "quietly grant_files k n b t" for f t
    using k t runs_keys(2)[OF t] by (auto simp: line_file_def wp_simps)
  have exact: "scan_grant (sample_keys p k) sample_grant = Inr (1 - i)" for p
    using k by (auto simp: scan_grant_def sample_grant_simps sample_scans line_file_def)
  show ?thesis unfolding admit_line_def sample_grant_simps
  proof (rule wp_then_seq[OF runs_checks(1)[OF s]], rule wp_then_seq[OF runs_not_revoked], assumption,
      rule wp_step[OF runs_keys(1)], assumption, unfold of_res_known[OF exact] sample_grant_simps,
      rule wp_then_seq[OF edit], assumption, rule wp_then_seq[OF runs_checks(1)], assumption,
      rule wp_step[OF runs_keys(1)], assumption, goal_cases)
    case (1 t)
    then show ?case by (simp add: sample_grant_simps sample_scans line_file_def wp_simps then_do_def)
  qed
qed

lemma runs_find_grant:
  "quietly grant_files k n b s \<Longrightarrow>
    wp (find_grant sample_pair_env sample_intent) (\<lambda>r t. r = (True, sample_grant) \<and> quietly grant_files k n b t) E s"
  unfolding find_grant_def sample_grant_simps wp_andthen wp_attempt
  by (rule wp_mono[OF runs_read_grant], assumption)
    (auto simp: then_do_def wp_simps sample_grant_simps pair_env_simps pair_sha_simps intro: wp_mono[OF runs_not_revoked])

lemma no_refusal: "\<not> b \<Longrightarrow> then_do (refuse (check b x)) m = m"
  by (rule ext) (simp add: then_do_def run_simps)

lemma quietly_released: "quietly fs k n True u \<Longrightarrow> quietly fs k n False (put_host ((ph_host u)\<lparr>hs_launch := False\<rparr>) u)"
  by (cases "ph_host u") (simp add: quietly_def put_host_def empty_host_def)

lemma runs_enroll:
  assumes s: "quietly grant_files k n False s" and k: "k = '''' \<and> i = 1 \<or> k = line_file \<and> i = 0"
  shows "wp (pair_enroll sample_pair_env (TrustedIntent sample_intent) True) (\<lambda>r t. quietly grant_files line_file (n + i) False t) (\<lambda>_ _. False) s"
proof -
  obtain v where v: "enrollment_json pair_lib sample_receipt = Inr v" using sample_receipt_json by blast
  have act: "wp (enroll_action sample_pair_env x True sample_grant)
      (\<lambda>r t. fst r = sample_grant \<and> quietly grant_files line_file (n + i) True t) (\<lambda>_ _. False) u"
    if "quietly grant_files k n True u" for u x
    using runs_admit[OF that k] by (simp add: enroll_action_def)
  have held: "wp (with_maintenance ph_host put_host quiet_maintenance (enroll_action sample_pair_env x True sample_grant))
      (\<lambda>r t. fst r = sample_grant \<and> quietly grant_files line_file (n + i) False t) (\<lambda>_ _. False) u"
    if "quietly grant_files k n False u" for u x
    by (rule runs_maintenance[OF that act]) (use quietly_released in auto)
  show ?thesis unfolding pair_enroll_def trusted_intent.case sample_grant_simps Let_def
  proof (subst no_refusal, simp, rule wp_step[OF runs_find_grant[OF s]], unfold prod.case not_True_eq_False if_False pair_env_simps,
      rule wp_then_seq[OF runs_checks(2)], assumption, unfold wp_andthen, rule wp_mono[OF held], assumption, goal_cases)
    case (1 t u r w)
    then show ?case by (cases r) (simp add: wp_simps sample_grant_simps v)
  qed
qed

lemma runs_revoke:
  assumes s: "quietly tomb_files '''' n False s"
  shows "wp (pair_revoke sample_pair_env ''p'' '''' ''host-local'' True)
    (\<lambda>r t. rv_tombstone r = sample_hash \<and> rv_state r = ''revoked'' \<and> quietly tomb_files '''' n False t) (\<lambda>_ _. False) s"
proof -
  have drop: "wp (drop_line sample_pair_env sample_grant) (\<lambda>_. quietly tomb_files '''' n True) (\<lambda>_ _. False) u"
    if u: "quietly tomb_files '''' n True u" for u
    unfolding drop_line_def Let_def sample_grant_simps
  proof (rule wp_then_seq[OF runs_checks(1)[OF u]], rule wp_step[OF runs_keys(1)], assumption, unfold sample_grant_simps sample_scans,
      subst no_refusal, simp, simp add: then_do_def, fold then_do_def, rule wp_then_seq[OF runs_checks(1)], assumption,
      rule wp_step[OF runs_keys(1)], assumption, goal_cases)
    case (1 t v w)
    then show ?case by (simp add: sample_grant_simps sample_scans wp_simps then_do_def)
  qed
  have act: "wp (revoke_action sample_pair_env ''p'' x y sample_grant) (\<lambda>r t. fst r = ''T'' \<and> quietly tomb_files '''' n True t) (\<lambda>_ _. False) u"
    if u: "quietly tomb_files '''' n True u" for u x y
    unfolding revoke_action_def retain_tombstone_def andthen_assoc
    by (rule wp_step[OF runs_read_tombstone(2)[OF u]]) (simp add: wp_andthen, rule wp_mono[OF drop], auto simp: wp_simps)
  have held: "wp (with_maintenance ph_host put_host quiet_maintenance (revoke_action sample_pair_env ''p'' x y sample_grant))
      (\<lambda>r t. fst r = ''T'' \<and> quietly tomb_files '''' n False t) (\<lambda>_ _. False) u"
    if "quietly tomb_files '''' n False u" for u x y
    by (rule runs_maintenance[OF that act]) (use quietly_released in auto)
  show ?thesis unfolding pair_revoke_def Let_def
  proof (subst no_refusal, simp, unfold wp_andthen wp_attempt, rule wp_mono[OF runs_read_grant[OF s]], simp, goal_cases)
    case (1 r t)
    then have r: "r = (sample_grant, ''G'')" and t: "quietly tomb_files '''' n False t" by auto
    have owner: "then_do (refuse (owner_refusal sample_pair_env '''' sample_grant)) m = m" for m :: "(string, revoke_result) pact"
      by (rule ext) (simp add: owner_refusal_def then_do_def run_simps)
    show ?case unfolding r sum.case prod.case owner not_True_eq_False if_False pair_env_simps
    proof (rule wp_then_seq[OF runs_checks(2)[OF t]], unfold wp_andthen, rule wp_mono[OF held], assumption, goal_cases)
      case (1 u r w)
      then show ?case by (cases r) (simp add: wp_simps pair_sha_simps)
    qed
  qed
qed

section \<open>The properties on the sample\<close>

definition sample_pair_host :: "(path \<times> entry) list \<Rightarrow> string pair_host" where
  "sample_pair_host fs = \<lparr>ph_disk = \<lparr>dk_now = fs, dk_kept = [], dk_tick = 0\<rparr>, ph_host = empty_host, ph_platform = '''', ph_edits = []\<rparr>"

lemma sample_pair_quietly: "quietly fs '''' 0 False (sample_pair_host fs)"
  by (simp add: quietly_def sample_pair_host_def empty_host_def)

lemma sample_orderly:
  assumes "quietly fs k n False s" and "fs = grant_files \<or> fs = tomb_files"
  shows "orderly sample_pair_env s" "names_present (hv_maintenance sample_pair_env) (ph_host s)"
proof -
  have "\<not> raw (map_of grant_files p)" "\<not> raw (map_of tomb_files p)" for p
    by (auto simp: grant_files_def tomb_files_def raw_def)
  then show "orderly sample_pair_env s"
    using assms sample_name(2) by (auto simp: orderly_def pair_env_simps pair_peaceful_def alone_spares flushed_in_def entry_at_def quietly_def)
  from assms(1) have "hs_roots (ph_host s) = (\<lambda>_. NoRoot)" "hs_staging (ph_host s) = (\<lambda>_. NoRoot)" "hs_receipts (ph_host s) = (\<lambda>_. Absent)"
    by (cases "ph_host s"; simp add: quietly_def empty_host_def)+
  then show "names_present (hv_maintenance sample_pair_env) (ph_host s)" by (simp add: names_present_def)
qed

theorem keys_change_only_as_granted_witness:
  "\<exists>r t e. pair_enroll sample_pair_env (TrustedIntent sample_intent) True (sample_pair_host grant_files) = (Inr r, t)
     \<and> ph_edits t = [e] \<and> lawful_edit pair_lib ''/c'' e"
proof -
  let ?s = "sample_pair_host grant_files"
  note start = sample_pair_quietly[of grant_files]
  from wp_run[OF runs_enroll[OF start, of 1]] obtain r t where
    t: "pair_enroll sample_pair_env (TrustedIntent sample_intent) True ?s = (Inr r, t)" "quietly grant_files line_file 1 False t" by auto
  have "t = snd (pair_enroll sample_pair_env (TrustedIntent sample_intent) True ?s)" by (simp add: t(1))
  with keys_change_only_as_granted[OF sample_orderly[OF start], of t sample_intent True "''p''" "''''" "''''"]
  obtain es where es: "ph_edits t = es" "list_all (lawful_edit pair_lib ''/c'') es"
    by (auto simp: pair_env_simps sample_pair_host_def)
  with t(2) obtain e where "es = [e]" by (auto simp: quietly_def length_Suc_conv)
  with es t(1) show ?thesis by auto
qed

theorem revoked_pairing_stays_out_witness:
  "\<exists>r t e v. pair_revoke sample_pair_env ''p'' '''' ''host-local'' True (sample_pair_host tomb_files) = (Inr r, t)
     \<and> pair_enroll sample_pair_env (TrustedIntent sample_intent) True t = (Inl e, v) \<and> ph_edits v = ph_edits t"
proof -
  note start = sample_pair_quietly[of tomb_files]
  from wp_run[OF runs_revoke[OF start]] obtain r t where
    t: "pair_revoke sample_pair_env (ei_pair_id sample_intent) '''' ''host-local'' True (sample_pair_host tomb_files) = (Inr r, t)"
      "rv_tombstone r = sample_hash" "quietly tomb_files '''' 0 False t"
    by (auto simp: sample_grant_simps)
  have "rv_tombstone r \<noteq> pair_sha sample_pair_env ''''" using t(2) pair_sha_simps(4) by simp
  from revoked_pairing_stays_out[OF sample_orderly[OF start] t(1) this sample_orderly(1)[OF t(3)] HOL.refl HOL.refl disk.refl, of True sample_grant "''''" False]
    t(1) show ?thesis by (auto simp: sample_grant_simps)
qed

theorem enrollment_receipt_is_final_witness:
  "\<exists>r t r' v. pair_enroll sample_pair_env (TrustedIntent sample_intent) True (sample_pair_host grant_files) = (Inr r, t)
     \<and> pair_enroll sample_pair_env (TrustedIntent sample_intent) True t = (Inr r', v)
     \<and> en_receipt r' = en_receipt r \<and> en_receipt_sha r' = en_receipt_sha r"
proof -
  note start = sample_pair_quietly[of grant_files]
  from wp_run[OF runs_enroll[OF start, of 1]] obtain r t where
    t: "pair_enroll sample_pair_env (TrustedIntent sample_intent) True (sample_pair_host grant_files) = (Inr r, t)"
      "quietly grant_files line_file 1 False t" by auto
  from wp_run[OF runs_enroll[OF t(2), of 0]] obtain r' v where
    v: "pair_enroll sample_pair_env (TrustedIntent sample_intent) True t = (Inr r', v)" by auto
  from enrollment_receipt_is_final[OF sample_orderly[OF start] t(1) sample_orderly[OF t(2)] HOL.refl HOL.refl disk.refl v HOL.refl] t(1) v
  show ?thesis by blast
qed

end
