(* ===== verification/PairClientSample.thy ===== *)
theory PairClientSample
  imports PairClientGuarantees PairCodec PairSample QuietStore
begin

text \<open>
  A pairing of the controller that is computed: its documents, a preparation that is repeated and a
  revocation that is not proven, to which the properties of theories PairCodec and PairClientGuarantees are applied.
\<close>

section \<open>The documents\<close>

text \<open>A rendered text is at most six times as long as the bytes it renders.\<close>

lemma render_bound:
  assumes "ascii s"
  shows "length (render_string s) \<le> 6 * length s + 2"
proof -
  have "length (escape_rune (True, code c, [c])) \<le> 6" for c by (simp add: escape_rune_def)
  then have "length (concat (map (escape_rune \<circ> (\<lambda>c. (True, code c, [c]))) s)) \<le> 6 * length s"
    by (induction s) (auto intro: add_mono)
  with assms show ?thesis by (simp add: render_string_def decode_ascii)
qed

lemma b64_ascii: "n < 64 \<Longrightarrow> code (b64_char n) < 128"
  by (cases "n < 26"; cases "n < 52"; cases "n < 62"; cases "n = 62") (simp_all add: b64_char_def code_char code_symbols)

lemma base64_ascii: "ascii (base64_encode s)"
  by (induction s rule: base64_encode.induct) (simp_all add: ascii_def b64_ascii b64_parts code_symbols)

lemma sample_key_facts: "ascii sample_pair_key" "length sample_pair_key = 80" "canonical_public_key sample_pair_key = Inr sample_pair_key"
proof -
  have wire: "length (key_wire (replicate 32 CHR ''k'')) = 51" by (simp add: key_wire_eq key_type_length)
  show "ascii sample_pair_key"
    using base64_ascii by (simp add: sample_pair_key_def ascii_def key_type_def evaluate)
  show "length sample_pair_key = 80" using base64_length[of "key_wire (replicate 32 CHR ''k'')"] wire
    by (simp add: sample_pair_key_def key_type_length)
  show "canonical_public_key sample_pair_key = Inr sample_pair_key"
    using public_wire_of_key[of "replicate 32 CHR ''k''"] by (simp add: canonical_public_key_def sample_pair_key_def)
qed

definition sample_offer :: host_offer where
  "sample_offer = \<lparr>ho_schema_version = 1, ho_bootstrap_id = ''b'', ho_expires = 10, ho_platform = ''linux'',
     ho_connection = \<lparr>sv_host = ''h'', sv_port = 22, sv_user = ''u'', sv_host_public_key = sample_pair_key\<rparr>, ho_installed = sample_target,
     ho_installation_id = ''i'', ho_root_identity = ''r'', ho_account_identity = ''a''\<rparr>"

definition sample_direct :: direct_ssh where
  "sample_direct = \<lparr>ds_host = ''h'', ds_port = 22, ds_user = ''u'', ds_host_public_key = sample_pair_key, ds_client_public_key_hash = sample_hash\<rparr>"

definition sample_paired :: target where
  "sample_paired = sample_target\<lparr>tg_alias := '''', tg_connection := \<lparr>cn_alias = '''', cn_direct = Some sample_direct\<rparr>\<rparr>"

definition sample_request :: enrollment_intent where
  "sample_request = \<lparr>ei_schema_version = 1, ei_pair_id = ''p'', ei_operation_id = ''o'', ei_offer_hash = sample_hash,
     ei_public_key = sample_pair_key, ei_expires = 10\<rparr>"

definition sample_enrollment :: enrollment_receipt where
  "sample_enrollment = \<lparr>er_schema_version = 1, er_pair_id = ''p'', er_operation_id = ''o'', er_intent_sha = sample_hash, er_platform = ''linux'',
     er_scope_sha = sample_hash, er_target = sample_paired, er_public_key = sample_pair_key\<rparr>"

definition paired_value :: json where
  "paired_value = JObj [(''schema_version'', JNum 3), (''platform'', JStr ''linux''), (''ssh'', JObj (direct_members sample_direct)),
     config_member sample_target]"

definition offer_value :: json where "offer_value = JObj (offer_members sample_offer ''T'' target_value)"
definition request_value :: json where "request_value = JObj (intent_members sample_request ''T'')"
definition enrollment_value :: json where "enrollment_value = JObj (enrollment_members sample_enrollment paired_value)"

text \<open>A parser that knows the three texts.\<close>

definition paper_lib :: ctl_lib where
  "paper_lib = sample_ctl\<lparr>cl_target := \<lparr>tl_up = id, tl_ip = (\<lambda>s. False),
     tl_parse = (\<lambda>s. if s = render offer_value then Some offer_value else if s = render request_value then Some request_value
        else if s = render enrollment_value then Some enrollment_value else None),
     tl_sha = (\<lambda>s. sample_hash)\<rparr>\<rparr>"

lemma sample_paired_ok: "target_validate lib sample_paired = None" "canonical_target sample_paired"
    "new_paired lib sample_target sample_direct = Inr sample_paired"
proof -
  have d: "direct_validate lib sample_direct = None"
    using sample_key_facts(3) sample_hash_facts(1) by (simp add: sample_direct_def direct_validate_def evaluate)
  then show ok: "target_validate lib sample_paired = None"
    by (simp add: sample_paired_def sample_target_def target_validate_def target_connection_def connection_validate_def sample_linux_valid
        check_def or_else_def)
  show "canonical_target sample_paired"
    using sample_target_valid(2) by (simp add: sample_paired_def sample_target_def canonical_target_def target_connection_def)
  show "new_paired lib sample_target sample_direct = Inr sample_paired"
    using ok d by (simp add: new_paired_def paired_connection_def checked_target_def connection_validate_def sample_paired_def
        check_def or_else_def)
qed

lemma paired_value: "target_json lib sample_paired = Inr paired_value"
  using sample_paired_ok(1) by (simp add: target_json_def paired_value_def)
    (simp add: sample_paired_def sample_target_def target_connection_def config_member_def)

lemma paper_values:
  "offer_json paper_lib sample_offer = Inr offer_value" "intent_json paper_lib sample_request = Inr request_value"
  "enrollment_json paper_lib sample_enrollment = Inr enrollment_value"
proof -
  have time: "cl_time paper_lib 10 = Inr ''T''" by (simp add: paper_lib_def sample_ctl_def)
  show "offer_json paper_lib sample_offer = Inr offer_value"
    by (simp add: offer_json_def sample_offer_def time target_value offer_value_def offer_members_def)
  show "intent_json paper_lib sample_request = Inr request_value"
    by (simp add: intent_json_def sample_request_def time request_value_def intent_members_def)
  show "enrollment_json paper_lib sample_enrollment = Inr enrollment_value"
    by (simp add: enrollment_json_def sample_enrollment_def paired_value enrollment_value_def enrollment_members_def)
qed

lemma sample_names_plain:
  "list_all plain_char ''schema_version''" "list_all plain_char ''bootstrap_id''" "list_all plain_char ''pair_id''"
  "list_all plain_char ''operation_id''" "list_all plain_char ''offer_hash''" "list_all plain_char ''intent_sha''"
  "list_all plain_char ''p''" "list_all plain_char ''o''"
  by (simp_all add: plain_char_def evaluate)

lemma paper_texts:
  "render request_value \<noteq> render offer_value" "render enrollment_value \<noteq> render offer_value" "render enrollment_value \<noteq> render request_value"
  using sample_names_plain
  by (simp_all add: offer_value_def request_value_def enrollment_value_def offer_members_def intent_members_def enrollment_members_def
      sample_offer_def sample_request_def sample_enrollment_def render_plain digits_1 commas_def)

lemma paper_ascii: "ascii sample_hash" "ascii linux_distribution" "ascii provenance_id"
  using sample_hash_facts(2) by (auto simp: ascii_def list_all_iff dest: plain_code(1)) (auto simp: linux_distribution_def provenance_id_def code_def)

text \<open>A bound on the length of a rendered value whose texts are ASCII.\<close>

fun weight :: "json \<Rightarrow> nat" where
  "weight (JNum n) = length (render_int n)"
| "weight (JStr s) = 6 * length s + 2"
| "weight (JObj kvs) = 2 + sum_list (map (\<lambda>(k, v). 6 * length k + 4 + weight v) kvs)"
| "weight v = length (render v)"

fun all_ascii :: "json \<Rightarrow> bool" where
  "all_ascii (JStr s) = ascii s"
| "all_ascii (JObj kvs) = list_all (\<lambda>(k, v). ascii k \<and> all_ascii v) kvs"
| "all_ascii v = True"

lemma commas_length: "length (commas xs) \<le> sum_list (map (\<lambda>x. Suc (length x)) xs)"
proof -
  have "length (join_with c xs) \<le> sum_list (map (\<lambda>x. Suc (length x)) xs)" for c :: char
    by (induction c xs rule: join_with.induct) simp_all
  then show ?thesis by (simp add: commas_def)
qed

lemma render_weight: "all_ascii v \<Longrightarrow> length (render v) \<le> weight v"
proof (induction v rule: weight.induct)
  case (3 kvs)
  have "Suc (length (render_string k @ '':'' @ render v)) \<le> 6 * length k + 4 + weight v" if "(k, v) \<in> set kvs" for k v
    using 3(1)[OF that] 3(2) that render_bound[of k] by (force simp: list_all_iff)
  then have "sum_list (map (\<lambda>x. Suc (length x)) (map (\<lambda>(k, v). render_string k @ '':'' @ render v) kvs))
      \<le> sum_list (map (\<lambda>(k, v). 6 * length k + 4 + weight v) kvs)"
    by (simp only: map_map) (rule sum_list_mono, auto)
  with commas_length[of "map (\<lambda>(k, v). render_string k @ '':'' @ render v) kvs"] show ?case by simp
next
  case (2 s)
  with render_bound[of s] show ?case by simp
qed simp_all

lemma digits_short: "render_int 2 = ''2''" "render_int 3 = ''3''" "render_int 22 = ''22''" "render_int 1000 = ''1000''"
  by (simp_all add: render_int_def digits.simps) (code_simp+)

lemmas paper_defs = offer_value_def request_value_def enrollment_value_def offer_members_def intent_members_def enrollment_members_def
  sample_offer_def sample_request_def sample_enrollment_def target_value_def paired_value_def config_member_def sample_target_def sample_linux_def
  linux_members_def direct_members_def sample_direct_def server_json_def

lemma paper_short: "length (render offer_value) \<le> max_pair_document" "length (render request_value) \<le> max_pair_document"
   "length (render enrollment_value) \<le> max_pair_document"
proof -
  have a: "all_ascii offer_value" "all_ascii request_value" "all_ascii enrollment_value"
    using paper_ascii sample_key_facts(1) by (simp_all add: paper_defs) (simp_all add: ascii_def code_def)
  have w: "weight offer_value \<le> max_pair_document" "weight request_value \<le> max_pair_document" "weight enrollment_value \<le> max_pair_document"
    using digits_1 digits_short sample_hash_facts(3) sample_key_facts(2)
    by (simp_all add: paper_defs linux_distribution_def provenance_id_def max_pair_document_def)
  show "length (render offer_value) \<le> max_pair_document" "length (render request_value) \<le> max_pair_document"
   "length (render enrollment_value) \<le> max_pair_document"
    using order_trans[OF render_weight[OF a(1)] w(1)] order_trans[OF render_weight[OF a(2)] w(2)] order_trans[OF render_weight[OF a(3)] w(3)] by blast+
qed

section \<open>The documents cross\<close>

lemma sample_letters: "id_pattern ''b''" "id_pattern ''i''" "id_pattern ''p''" "id_pattern ''o''"
  by (simp_all add: id_pattern_def evaluate)

lemma sample_offer_ok: "validate_offer lib sample_offer = None"
proof -
  have "direct_of (ho_connection sample_offer) (replicate 64 CHR ''0'') = sample_direct"
    by (simp add: direct_of_def sample_offer_def sample_direct_def sample_hash_def)
  then show ?thesis
    using sample_paired_ok(3)[of "cl_target lib"] sample_target_ok[of "cl_target lib"] sample_letters
    by (simp add: validate_offer_def) (simp add: sample_offer_def sample_target_def target_connection_def zero_connection_def)
qed

theorem pairing_documents_cross_witness:
  "trust_offer paper_lib (render offer_value) sample_hash 5 = Inr (TrustedOffer sample_offer)
    \<and> trust_intent paper_lib (render request_value) sample_hash = Inr (TrustedIntent sample_request)
    \<and> trust_receipt paper_lib (render enrollment_value) sample_hash = Inr (TrustedReceipt sample_enrollment)"
proof -
  have sha: "tl_sha (cl_target paper_lib) s = sample_hash" for s by (simp add: paper_lib_def)
  have rb: "times_read_back paper_lib" by (simp add: paper_lib_def times_read_back_def sample_ctl_def)
  have hex: "hex64 (tl_sha (cl_target paper_lib) s)" for s using sample_hash_facts(1) by (simp add: sha)
  have sent: "delivered paper_lib offer_value" "delivered paper_lib request_value" "delivered paper_lib enrollment_value"
    using paper_texts paper_short by (simp_all add: delivered_def reads_back_def paper_lib_def)
  have offer: "sound_offer paper_lib 5 sample_offer"
    using sample_offer_ok sample_target_valid(2) by (simp add: sound_offer_def) (simp add: sample_offer_def)
  have request: "sound_request sample_request"
    using sample_letters sample_hash_facts(1) sample_key_facts(3) by (simp add: sound_request_def sample_request_def)
  have receipt: "sound_receipt sample_enrollment"
    using sample_letters sample_hash_facts(1) sample_key_facts(3) sample_paired_ok(2)
    by (simp add: sound_receipt_def sample_enrollment_def) (simp add: sample_paired_def sample_target_def)
  have "offer_digest paper_lib sample_offer = sample_hash" "intent_digest paper_lib sample_request = sample_hash"
    "enrollment_digest paper_lib sample_enrollment = sample_hash"
    by (simp_all add: offer_digest_def intent_digest_def enrollment_digest_def pair_digest_def sha)
  with pairing_documents_cross[OF rb hex offer paper_values(1) sent(1) request paper_values(2) sent(2) receipt paper_values(3) sent(3), of sample_hash]
  show ?thesis by simp
qed

section \<open>A pairing on disk\<close>

definition sample_pending :: pair_pending where
  "sample_pending = \<lparr>pp_schema_version = 1, pp_name = ''x'', pp_offer = sample_offer, pp_intent = sample_request\<rparr>"

definition sample_reservation :: pair_pending where
  "sample_reservation = sample_pending\<lparr>pp_intent := without_key sample_request\<rparr>"

definition pending_value :: json where "pending_value = JObj (pending_members sample_pending offer_value request_value)"
definition reservation_value :: json where
  "reservation_value = JObj (pending_members sample_reservation offer_value (JObj (intent_members (without_key sample_request) ''T'')))"

definition sample_revocation :: revocation where
  "sample_revocation = \<lparr>rc_schema_version = 1, rc_pair_id = ''p'', rc_host = ''already-rejected'', rc_result = None\<rparr>"

definition revocation_members :: "(string \<times> json) list" where
  "revocation_members = [(''schema_version'', JNum 1), (''pair_id'', JStr ''p''), (''host'', JStr ''already-rejected'')]"

definition client_lib :: ctl_lib where
  "client_lib = sample_ctl\<lparr>cl_target := \<lparr>tl_up = id, tl_ip = (\<lambda>s. False),
     tl_parse = (\<lambda>s. if s = ''I'' then Some pending_value else if s = ''P'' then Some reservation_value
        else if s = ''R'' then Some enrollment_value else if s = ''V'' then Some (JObj revocation_members) else None),
     tl_sha = (\<lambda>s. sample_hash)\<rparr>\<rparr>"

lemma client_lib_simps: "times_read_back client_lib" "tl_sha (cl_target client_lib) s = sample_hash" "cl_time client_lib 10 = Inr ''T''"
  by (simp_all add: client_lib_def times_read_back_def sample_ctl_def)

lemma client_values:
  "pending_json client_lib sample_pending = Inr pending_value" "pending_json client_lib sample_reservation = Inr reservation_value"
  "enrollment_json client_lib sample_enrollment = Inr enrollment_value"
proof -
  have "offer_json client_lib sample_offer = Inr offer_value"
    by (simp add: offer_json_def sample_offer_def client_lib_simps target_value offer_value_def offer_members_def)
  then show "pending_json client_lib sample_pending = Inr pending_value" "pending_json client_lib sample_reservation = Inr reservation_value"
    by (simp_all add: pending_json_def sample_pending_def sample_reservation_def pending_value_def reservation_value_def pending_members_def
        intent_json_def sample_request_def without_key_def client_lib_simps request_value_def intent_members_def)
  show "enrollment_json client_lib sample_enrollment = Inr enrollment_value"
    by (simp add: enrollment_json_def sample_enrollment_def paired_value enrollment_value_def enrollment_members_def)
qed

lemma parsed_document:
  "keyed v \<Longrightarrow> tl_parse (cl_target client_lib) d = Some v \<Longrightarrow> reader (Some v) = Inr x \<Longrightarrow> strict_document client_lib reader d = Inr x"
  using strict_admits_keyed by (simp add: strict_document_def strict_value_def)

lemma client_documents:
  "strict_document client_lib (decode_pending client_lib) ''I'' = Inr sample_pending"
  "strict_document client_lib (decode_pending client_lib) ''P'' = Inr sample_reservation"
  "strict_document client_lib (decode_enrollment client_lib) ''R'' = Inr sample_enrollment"
  "strict_document client_lib decode_revocation ''V'' = Inr sample_revocation"
proof -
  have parse: "tl_parse (cl_target client_lib) ''I'' = Some pending_value" "tl_parse (cl_target client_lib) ''P'' = Some reservation_value"
    "tl_parse (cl_target client_lib) ''R'' = Some enrollment_value" "tl_parse (cl_target client_lib) ''V'' = Some (JObj revocation_members)"
    by (simp_all add: client_lib_def)
  have versions: "int_ok (pp_schema_version sample_pending)" "int_ok (ho_schema_version (pp_offer sample_pending))"
    "int_ok (ei_schema_version (pp_intent sample_pending))" "canonical_target (ho_installed (pp_offer sample_pending))"
    "int_ok (pp_schema_version sample_reservation)" "int_ok (ho_schema_version (pp_offer sample_reservation))"
    "int_ok (ei_schema_version (pp_intent sample_reservation))" "canonical_target (ho_installed (pp_offer sample_reservation))"
    "int_ok (er_schema_version sample_enrollment)" "canonical_target (er_target sample_enrollment)"
    using sample_target_valid(2) sample_paired_ok(2)
    by (simp_all add: sample_pending_def sample_reservation_def sample_offer_def sample_request_def without_key_def sample_enrollment_def int_ok_1)
  note pending = pending_reads_back[OF client_values(1) client_lib_simps(1) versions(1-4)]
  note reservation = pending_reads_back[OF client_values(2) client_lib_simps(1) versions(5-8)]
  note enrollment = enrollment_reads_back[OF client_values(3) versions(9,10)]
  show "strict_document client_lib (decode_pending client_lib) ''I'' = Inr sample_pending" by (rule parsed_document[where reader = "decode_pending client_lib", OF pending(2) parse(1) pending(1)])
  show "strict_document client_lib (decode_pending client_lib) ''P'' = Inr sample_reservation" by (rule parsed_document[where reader = "decode_pending client_lib", OF reservation(2) parse(2) reservation(1)])
  show "strict_document client_lib (decode_enrollment client_lib) ''R'' = Inr sample_enrollment" by (rule parsed_document[where reader = "decode_enrollment client_lib", OF enrollment(2) parse(3) enrollment(1)])
  have revocation_fields: "canonical_fields revocation_members"
    by (simp add: revocation_members_def canonical_fields_def canonical_key_def evaluate)
  have names: "list_all canonical_key [''schema_version'', ''pair_id'', ''host'', ''result'']" by (simp add: canonical_key_def evaluate)
  have lookup: "field_of n revocation_members = map_of revocation_members n" if "n \<in> {''schema_version'', ''pair_id'', ''host'', ''result''}" for n
    using names that by (auto intro!: field_of_canonical revocation_fields simp: list_all_iff)
  have "known_fields [''schema_version'', ''pair_id'', ''host'', ''result''] revocation_members"
    by (rule known_fields_subset; simp add: revocation_members_def)
  then have "decode_revocation (Some (JObj revocation_members)) = Inr sample_revocation"
    by (simp add: decode_revocation_def lookup) (simp add: revocation_members_def sample_revocation_def int_ok_1)
  moreover have "keyed (JObj revocation_members)" by (rule members_keyed[OF revocation_fields]) (simp add: revocation_members_def)
  ultimately show "strict_document client_lib decode_revocation ''V'' = Inr sample_revocation" by (intro parsed_document[where reader = decode_revocation, OF _ parse(4)])
qed

definition sample_records :: "(path \<times> entry) list" where
  "sample_records = [([''c''], EDir True), ([''c'', ''pairings''], EDir True), ([''c'', ''pairings'', ''x''], EDir True),
     ([''c'', ''pairings'', ''x'', ''preparation''], EDir True), ([''c'', ''credentials''], EDir True), ([''c'', ''credentials'', sample_hash], EDir True),
     ([''c'', ''pairings'', ''x'', ''intent.json''], EFile True ''I'' True),
     ([''c'', ''pairings'', ''x'', ''preparation.json''], EFile True ''P'' True),
     ([''c'', ''pairings'', ''x'', ''receipt.json''], EFile True ''R'' True),
     ([''c'', ''pairings'', ''x'', ''revocation.json''], EFile True ''V'' True),
     ([''c'', ''pairings'', ''x'', ''preparation'', ''seed''], EFile True (replicate 32 CHR ''s'') True),
     ([''c'', ''credentials'', sample_hash, ''id_ed25519''], EFile True ''K'' True)]"

definition client_keys :: key_library where
  "client_keys = \<lparr>kl_sha = (\<lambda>s. sample_hash), kl_private_key = (\<lambda>s. replicate 64 CHR ''k''), kl_pem = (\<lambda>s. ''K''), kl_random = (\<lambda>n. Inr '''')\<rparr>"

text \<open>A host that still lets the key in.\<close>

definition sample_remote :: "unit remote" where
  "sample_remote = \<lparr>rm_revoke = (\<lambda>t r w. (Inl \<lparr>rf_class = ''unreachable'', rf_err = Msg ''no route''\<rparr>, w)), rm_probe = (\<lambda>t w. (None, w))\<rparr>"

definition sample_client_env :: "unit client_env" where
  "sample_client_env = \<lparr>cv_lib = client_lib, cv_keys = client_keys, cv_disk = quiet_disk, cv_root = ''/c'', cv_remote = sample_remote,
     cv_windows = False, cv_now = (\<lambda>s. 5), cv_context = (\<lambda>s. None), cv_at = (\<lambda>x s. None), cv_random = (\<lambda>s. Inr '''')\<rparr>"

definition sample_client :: "unit pair_client" where
  "sample_client = \<lparr>pc_disk = \<lparr>dk_now = sample_records, dk_kept = [], dk_tick = 0\<rparr>, pc_remote = (), pc_log = []\<rparr>"

lemma client_env_simps:
  "cv_lib sample_client_env = client_lib" "cv_keys sample_client_env = client_keys" "cv_disk sample_client_env = quiet_disk"
  "cv_root sample_client_env = ''/c''" "cv_remote sample_client_env = sample_remote" "cv_windows sample_client_env = False"
  "cv_now sample_client_env s = 5" "cv_context sample_client_env s = None" "cv_at sample_client_env x s = None"
  "kl_sha client_keys = (\<lambda>s. sample_hash)"
  by (simp_all add: sample_client_env_def client_keys_def)

text \<open>The visible files are those of the sample.\<close>

definition in_place :: "unit pair_client \<Rightarrow> bool" where
  "in_place s \<longleftrightarrow> entry_at (pc_disk s) = map_of sample_records"

lemma in_place_sample: "in_place sample_client"
  by (simp add: in_place_def sample_client_def fun_eq_iff entry_at_def)

lemma client_places: "plain_component ''x''" "store_root ''/c''" "hex64 sample_hash" "parts ''/c'' = [''c'']" "validate_target_name ''x'' = None"
  using sample_name(2) sample_hash_facts(1) by (simp_all add: plain_component_def validate_target_name_def reserved_target_name_def evaluate)

lemma sample_record_facts:
  "map_of sample_records [''c''] = Some (EDir True)" "map_of sample_records [''c'', ''pairings''] = Some (EDir True)"
  "map_of sample_records [''c'', ''pairings'', ''x''] = Some (EDir True)" "map_of sample_records [''c'', ''pairings'', ''x'', ''preparation''] = Some (EDir True)"
  "map_of sample_records [''c'', ''credentials''] = Some (EDir True)" "map_of sample_records [''c'', ''credentials'', sample_hash] = Some (EDir True)"
  "map_of sample_records [''c'', ''pairings'', ''x'', ''intent.json''] = Some (EFile True ''I'' True)"
  "map_of sample_records [''c'', ''pairings'', ''x'', ''preparation.json''] = Some (EFile True ''P'' True)"
  "map_of sample_records [''c'', ''pairings'', ''x'', ''receipt.json''] = Some (EFile True ''R'' True)"
  "map_of sample_records [''c'', ''pairings'', ''x'', ''revocation.json''] = Some (EFile True ''V'' True)"
  "map_of sample_records [''c'', ''pairings'', ''x'', ''preparation'', ''seed''] = Some (EFile True (replicate 32 CHR ''s'') True)"
  "map_of sample_records [''c'', ''credentials'', sample_hash, ''id_ed25519''] = Some (EFile True ''K'' True)"
  by (simp_all add: sample_records_def)

lemma sample_ways:
  assumes "in_place s" and "ds \<in> {client_dirs ''x'', client_dirs ''x'' @ [''preparation''], credential_dirs sample_hash}"
  shows "way False (pc_disk s) ''/c'' ds"
proof -
  have "client_place ''x'' ds" using assms(2) client_places(3) by (auto simp: client_place_def)
  then have d: "proper_dir ds" by (rule place_proper[OF client_places(1)])
  have "map_of sample_records ([''c''] @ take n ds) = Some (EDir True)" if "n \<le> length ds" for n
  proof -
    have "length ds \<le> 3" using assms(2) by (auto simp: client_dirs_def credential_dirs_def)
    with that have "n = 0 \<or> n = 1 \<or> n = 2 \<or> n = 3" by linarith
    with that assms(2) show ?thesis by (auto simp: client_dirs_def credential_dirs_def sample_record_facts)
  qed
  with d assms(1) client_places show ?thesis by (auto simp: way_def in_place_def chain_def)
qed

lemma in_place_put: "in_place s \<Longrightarrow> entry_at d = entry_at (pc_disk s) \<Longrightarrow> in_place (s\<lparr>pc_disk := d\<rparr>)"
  by (simp add: in_place_def)

lemma wp_on_store: "wp (on_store m) Q E s = wp m (\<lambda>a d. Q a (s\<lparr>pc_disk := d\<rparr>)) (\<lambda>e d. E e (s\<lparr>pc_disk := d\<rparr>)) (pc_disk s)"
  by (simp add: wp_def on_store_def split: prod.splits sum.splits)

lemma runs_read:
  assumes s: "in_place s" and ds: "ds \<in> {client_dirs ''x'', client_dirs ''x'' @ [''preparation''], credential_dirs sample_hash}"
    and b: "proper_name b" and f: "map_of sample_records (''c'' # ds @ [b]) = Some (EFile True c True)" "length c \<le> limit"
  shows "wp (on_store (read_durable quiet_disk ''/c'' (dir_name ds @ CHR ''/'' # b) limit)) (\<lambda>r t. r = c \<and> in_place t) E s"
    "wp (attempt (on_store (private_publish quiet_disk ''/c'' (dir_name ds @ CHR ''/'' # b) x False))) (\<lambda>r t. in_place t) E s"
proof -
  note w = sample_ways[OF s ds]
  have at: "entry_at (pc_disk s) (record_path ''/c'' ds b) = Some (EFile True c True)"
    using s f(1) client_places(4) by (simp add: in_place_def record_path_def)
  show "wp (on_store (read_durable quiet_disk ''/c'' (dir_name ds @ CHR ''/'' # b) limit)) (\<lambda>r t. r = c \<and> in_place t) E s"
    unfolding wp_on_store by (rule wp_mono[OF quiet_read[OF w b at f(2)]]) (use s in \<open>auto intro: in_place_put\<close>)
  show "wp (attempt (on_store (private_publish quiet_disk ''/c'' (dir_name ds @ CHR ''/'' # b) x False))) (\<lambda>r t. in_place t) E s"
  proof (cases "length x \<le> max_record")
    case True
    show ?thesis unfolding wp_attempt wp_on_store
      by (rule wp_mono[OF quiet_publish_exists[OF w b at True, of "\<lambda>_ _. False"]]) (use s in \<open>auto intro: in_place_put\<close>)
  next
    case False
    then show ?thesis unfolding wp_attempt wp_on_store
      using s by (simp add: private_publish_def then_do_def wp_andthen wp_refuse in_place_def)
  qed
qed

section \<open>Its runs\<close>

lemma sample_client_paths:
  "client_path ''x'' ''intent'' = dir_name (client_dirs ''x'') @ CHR ''/'' # ''intent.json''"
  "client_path ''x'' ''preparation'' = dir_name (client_dirs ''x'') @ CHR ''/'' # ''preparation.json''"
  "client_path ''x'' ''receipt'' = dir_name (client_dirs ''x'') @ CHR ''/'' # ''receipt.json''"
  "client_path ''x'' ''revocation'' = dir_name (client_dirs ''x'') @ CHR ''/'' # ''revocation.json''"
  "seed_path ''x'' = dir_name (client_dirs ''x'' @ [''preparation'']) @ CHR ''/'' # ''seed''"
  using client_paths(1)[OF client_places(1) plain_literals(7)] client_paths(1)[OF client_places(1) plain_literals(2)]
    client_paths(1)[OF client_places(1) plain_literals(8)] client_paths(1)[OF client_places(1) plain_literals(9)] client_paths(2)[OF client_places(1)]
  by simp_all

lemma runs_document:
  assumes "in_place s" and "b \<in> {''intent.json'', ''preparation.json'', ''receipt.json'', ''revocation.json''}"
    and "map_of sample_records [''c'', ''pairings'', ''x'', b] = Some (EFile True c True)" and "length c \<le> 1"
    and "strict_document client_lib reader c = Inr v"
  shows "wp (read_document sample_client_env (dir_name (client_dirs ''x'') @ CHR ''/'' # b) reader) (\<lambda>r t. r = v \<and> in_place t) E s"
proof -
  have b: "proper_name b" using assms(2) by (auto simp: proper_name_def)
  have c: "length c \<le> max_pair_document" using assms(4) by (simp add: max_pair_document_def)
  show ?thesis unfolding read_document_def client_env_simps
    by (rule wp_step[OF runs_read(1)[OF assms(1) _ b _ c]]) (use assms(3,5) in \<open>simp_all add: client_dirs_def wp_of_res\<close>)
qed

lemma sample_pending_ok:
  "intent_refusal client_lib ''x'' sample_pending = None" "preparation_refusal client_lib ''x'' sample_reservation = None"
  "match_receipt client_lib sample_pending sample_enrollment = Inr sample_paired"
proof -
  have sha: "offer_digest client_lib off = sample_hash" "intent_digest client_lib i = sample_hash" "target_fingerprint (cl_target client_lib) tgt = sample_hash" for off i tgt
    by (simp_all add: offer_digest_def intent_digest_def pair_digest_def target_fingerprint_def client_lib_simps)
  have p: "pp_offer sample_pending = sample_offer" "pp_offer sample_reservation = sample_offer"
    by (simp_all add: sample_pending_def sample_reservation_def)
  show "intent_refusal client_lib ''x'' sample_pending = None"
    using sample_letters sample_key_facts(3) sample_offer_ok
    by (simp add: intent_refusal_def pending_conflict_def sha p) (simp add: sample_pending_def sample_request_def sample_offer_def)
  show "preparation_refusal client_lib ''x'' sample_reservation = None"
    using sample_letters sample_offer_ok
    by (simp add: preparation_refusal_def pending_conflict_def sha p)
      (simp add: sample_reservation_def sample_pending_def sample_request_def sample_offer_def without_key_def)
  have "public_wire sample_pair_key = Inr (key_wire (replicate 32 CHR ''k''))"
    using public_wire_of_key[of "replicate 32 CHR ''k''"] by (simp add: sample_pair_key_def)
  then have fp: "key_fingerprint (tl_sha (cl_target client_lib)) sample_pair_key = Inr sample_hash"
    by (simp add: key_fingerprint_def client_lib_simps)
  have direct: "direct_of (ho_connection sample_offer) sample_hash = sample_direct" "ho_installed sample_offer = sample_target"
    "ho_platform sample_offer = ''linux''"
    by (simp_all add: direct_of_def sample_offer_def sample_direct_def)
  show "match_receipt client_lib sample_pending sample_enrollment = Inr sample_paired"
    using fp sample_paired_ok(3)[of "cl_target client_lib"] sample_hash_facts(1)
    by (simp add: match_receipt_def p direct sha) (simp add: sample_pending_def sample_request_def sample_enrollment_def direct)
qed

lemma runs_client_read: "in_place s \<Longrightarrow> wp (client_read sample_client_env ''x'') (\<lambda>r t. r = sample_pending \<and> in_place t) E s"
  unfolding client_read_def client_env_simps sample_client_paths
  by (simp add: client_places(5) then_do_def wp_andthen wp_refuse)
    (rule wp_mono[OF runs_document], auto simp: sample_record_facts client_documents wp_simps sample_pending_ok)

lemma runs_preparation: "in_place s \<Longrightarrow> wp (read_preparation sample_client_env ''x'') (\<lambda>r t. r = sample_reservation \<and> in_place t) E s"
  unfolding read_preparation_def client_env_simps sample_client_paths
  by (simp add: client_places(5) then_do_def wp_andthen wp_refuse)
    (rule wp_mono[OF runs_document], auto simp: sample_record_facts client_documents wp_simps sample_pending_ok)

lemma sample_pending_name: "pp_name sample_pending = ''x''" "pp_name sample_reservation = ''x''"
  by (simp_all add: sample_pending_def sample_reservation_def)

lemma runs_receipt: "in_place s \<Longrightarrow> wp (read_receipt sample_client_env sample_pending) (\<lambda>r t. r = sample_enrollment \<and> in_place t) E s"
  unfolding read_receipt_def client_env_simps sample_pending_name sample_client_paths
  by (rule wp_step[OF runs_document]) (auto simp: sample_record_facts client_documents wp_simps sample_pending_ok then_do_def)

lemma runs_revocation: "in_place s \<Longrightarrow> wp (read_revocation sample_client_env ''x'') (\<lambda>r t. r = sample_revocation \<and> in_place t) E s"
  unfolding read_revocation_def client_env_simps sample_client_paths
  by (rule wp_step[OF runs_document])
    (auto simp: sample_record_facts client_documents wp_simps then_do_def revocation_ok_def sample_revocation_def sample_letters)

definition held_key :: reserved_key where "held_key = \<lparr>rk_public_key = sample_pair_key, rk_private = ''K''\<rparr>"

lemma key_of_seed: "key_from_seed client_keys seed = held_key"
  by (simp add: key_from_seed_def client_keys_def held_key_def sample_pair_key_def Let_def)

lemma sample_seed_size: "max_key_bytes = 16384" "seed_size = 32" by (simp_all add: max_key_bytes_def seed_size_def)

lemma runs_reserved: "in_place s \<Longrightarrow> wp (reserved_key sample_client_env ''x'' b) (\<lambda>r t. r = held_key \<and> in_place t) E s"
proof -
  assume s: "in_place s"
  have seed: "wp (on_store (read_durable quiet_disk ''/c'' (dir_name (client_dirs ''x'' @ [''preparation'']) @ CHR ''/'' # ''seed'') 32))
      (\<lambda>r t. r = replicate 32 CHR ''s'' \<and> in_place t) F s" for F
    by (rule runs_read(1)[OF s]) (simp_all add: proper_name_def client_dirs_def sample_record_facts)
  show ?thesis
    unfolding reserved_key_def client_env_simps sample_client_paths client_context_def
    by (simp add: then_do_def wp_simps client_env_simps reserved_def sample_seed_size wp_on_store)
      (rule wp_mono[OF seed[of "\<lambda>_ _. False", unfolded wp_on_store, simplified]], auto simp: wp_simps key_of_seed)
qed

lemma runs_key_publish:
  assumes s: "in_place s"
  shows "wp (on_store (key_publish client_keys quiet_disk held_key ''/c'')) (\<lambda>_. in_place) E s"
proof -
  have "public_wire sample_pair_key = Inr (key_wire (replicate 32 CHR ''k''))"
    using public_wire_of_key[of "replicate 32 CHR ''k''"] by (simp add: sample_pair_key_def)
  then have fp: "key_fingerprint (kl_sha client_keys) (rk_public_key held_key) = Inr sample_hash"
    by (simp add: key_fingerprint_def client_env_simps held_key_def)
  have b: "proper_name ''id_ed25519''" by (simp add: proper_name_def)
  have priv: "rk_private held_key = ''K''" by (simp add: held_key_def)
  let ?n = "dir_name (credential_dirs sample_hash) @ CHR ''/'' # ''id_ed25519''"
  have read: "wp (on_store (read_durable quiet_disk ''/c'' ?n max_key_bytes)) (\<lambda>r t. r = ''K'' \<and> in_place t) F t" if "in_place t" for t F
    by (rule runs_read(1)[OF that _ b]) (simp_all add: credential_dirs_def sample_record_facts sample_seed_size)
  have publish: "wp (attempt (on_store (private_publish quiet_disk ''/c'' ?n ''K'' False))) (\<lambda>_. in_place) F s" for F
    by (rule runs_read(2)[OF s _ b, of _ "''K''" 1]) (simp_all add: credential_dirs_def sample_record_facts)
  have go: "wp (attempt (private_publish quiet_disk ''/c'' ?n ''K'' False)) (\<lambda>_ d. in_place (s\<lparr>pc_disk := d\<rparr>)) (\<lambda>_ _. False) (pc_disk s)"
    using publish[of "\<lambda>_ _. False"] unfolding wp_attempt wp_on_store .
  have again: "wp (read_durable quiet_disk ''/c'' ?n max_key_bytes) (\<lambda>r e. r = ''K'' \<and> in_place (s\<lparr>pc_disk := e\<rparr>)) (\<lambda>_ _. False) d" if "in_place (s\<lparr>pc_disk := d\<rparr>)" for d
    using read[OF that, of "\<lambda>_ _. False"] unfolding wp_on_store by simp
  show ?thesis unfolding wp_on_store key_publish_def credential_record(1)[OF client_places(3)] fp priv credential_name_def
    using client_places(3) credential_record(1)[OF client_places(3)]
    by (simp add: wp_andthen wp_of_res Let_def credential_name_def) (rule wp_mono[OF go],
      simp_all add: wp_attempt key_verify_def priv fp wp_andthen wp_of_res credential_name_def,
      rule wp_mono[OF again], auto simp: wp_simps split: sum.splits)
qed

lemma runs_control: "in_place s \<Longrightarrow> wp (client_at sample_client_env x) (\<lambda>_. in_place) E s" "in_place s \<Longrightarrow> wp (client_context sample_client_env) (\<lambda>_. in_place) E s"
  by (simp_all add: client_at_def client_context_def wp_simps client_env_simps)

lemma runs_prepare_reserved:
  assumes "in_place s"
  shows "wp (prepare_reserved sample_client_env sample_reservation) (\<lambda>r t. r = sample_request \<and> in_place t) E s"
proof -
  have read: "wp (attempt (client_read sample_client_env ''x'')) (\<lambda>r t. r = Inr sample_pending \<and> in_place t) F t" if "in_place t" for t F
    using runs_client_read[OF that, of "\<lambda>_ _. False"] unfolding wp_attempt by (rule wp_mono) auto
  have same: "retained_intent sample_reservation (Inr sample_pending) = None"
    by (simp add: retained_intent_def same_intent_def sample_reservation_def sample_pending_def without_key_def)
  have expected: "sample_reservation\<lparr>pp_intent := (pp_intent sample_reservation)\<lparr>ei_public_key := rk_public_key held_key\<rparr>\<rparr> = sample_pending"
    by (simp add: sample_reservation_def sample_pending_def without_key_def held_key_def sample_request_def)
  have intent: "(pp_intent sample_reservation)\<lparr>ei_public_key := rk_public_key held_key\<rparr> = pp_intent sample_pending"
    by (simp add: sample_reservation_def sample_pending_def without_key_def held_key_def sample_request_def)
  have put: "wp (publish_then_read sample_client_env (client_path ''x'' ''intent'') data (client_read sample_client_env ''x'')) (\<lambda>r t. r = sample_pending \<and> in_place t) E t"
    if t: "in_place t" for data t
  proof -
    have b: "proper_name ''intent.json''" by (simp add: proper_name_def)
    have publish: "wp (attempt (on_store (private_publish quiet_disk ''/c'' (client_path ''x'' ''intent'') data False))) (\<lambda>_. in_place) E t"
      unfolding sample_client_paths by (rule runs_read(2)[OF t _ b, of _ "''I''" 1]) (simp_all add: client_dirs_def sample_record_facts)
    show ?thesis unfolding publish_then_read_def client_env_simps
    proof (subst wp_andthen, rule wp_mono[OF publish], goal_cases)
      case (1 published u)
      show ?case by (rule wp_step[OF read[OF 1]]) (simp add: wp_simps)
    qed
  qed
  have same_key: "same_intent i i" for i by (simp add: same_intent_def)
  show ?thesis unfolding prepare_reserved_def Let_def client_env_simps sample_pending_name expected
  proof (rule wp_then_seq[OF runs_control(1)[OF assms]], rule wp_step[OF read], assumption, unfold same, simp add: then_do_def wp_andthen wp_refuse,
      rule wp_mono[OF runs_reserved], assumption, elim conjE, goal_cases)
    case (1 s t key u)
    show ?case unfolding 1(3) expected
    proof (simp add: then_do_def client_values same_key intent wp_andthen wp_refuse wp_of_res client_env_simps, rule wp_mono[OF runs_control(1)], goal_cases)
      case (2 x v)
      note v = this
      show ?case
      proof (simp only: wp_andthen wp_refuse wp_of_res option.case sum.case, rule wp_mono[OF put], rule v, elim conjE, simp add: same_key wp_refuse, goal_cases)
        case (1 y w)
        note w = 1(2)
        show ?case unfolding wp_andthen wp_refuse option.case
          by (rule wp_mono[OF runs_control(1)[OF w]], rule wp_mono[OF runs_control(2)], assumption, rule wp_mono[OF runs_key_publish], assumption,
            rule wp_mono[OF runs_control(1)], assumption) (simp_all add: wp_ret sample_pending_def)
      qed
    qed (use 1 in simp_all)
  qed
qed

lemma runs_prepare:
  assumes "in_place s"
  shows "wp (pair_prepare sample_client_env ''x'' (TrustedOffer sample_offer)) (\<lambda>r t. r = sample_request \<and> in_place t) E s"
proof -
  have read: "wp (attempt (client_read sample_client_env ''x'')) (\<lambda>r t. r = Inr sample_pending \<and> in_place t) F t" if "in_place t" for t F
    using runs_client_read[OF that, of "\<lambda>_ _. False"] unfolding wp_attempt by (rule wp_mono) auto
  have hash: "ei_offer_hash (pp_intent sample_pending) = sample_hash" "offer_digest client_lib sample_offer = sample_hash" "ho_expires sample_offer = 10"
    by (simp_all add: sample_pending_def sample_request_def sample_offer_def offer_digest_def pair_digest_def client_lib_simps)
  show ?thesis unfolding pair_prepare_def trusted_offer.case Let_def client_env_simps
  proof (simp add: client_places(5) sample_offer_ok then_do_def wp_andthen wp_refuse wp_look client_env_simps hash(3), rule wp_mono[OF runs_control(2)[OF assms]], goal_cases)
    case (1 x t)
    show ?case
    proof (rule wp_step[OF read[OF 1]], unfold sum.case hash, goal_cases)
      case (1 u)
      have "wp (andthen (read_preparation sample_client_env ''x'') (prepare_reserved sample_client_env)) (\<lambda>r t. r = sample_request \<and> in_place t) E u"
        by (rule wp_step[OF runs_preparation[OF 1]]) (rule runs_prepare_reserved)
      then show ?case by (simp add: wp_andthen wp_refuse)
    qed
  qed
qed


lemma runs_revoke_client:
  assumes "in_place s"
  shows "wp (client_revoke sample_client_env ''x'')
    (\<lambda>r t. in_place t \<and> ro_state (fst r) = ''host-revoked-unconfirmed'' \<and> snd r \<noteq> None) E s"
proof -
  have attempted: "wp (attempt m) (\<lambda>r t. r = Inr a \<and> in_place t) E t" if "\<And>F. wp m (\<lambda>r t. r = a \<and> in_place t) F t" for m :: "(unit, 'z) cact" and a t
    using that[of "\<lambda>_ _. False"] unfolding wp_attempt by (rule wp_mono) auto
  have names: "rc_pair_id sample_revocation = er_pair_id sample_enrollment" by (simp add: sample_revocation_def sample_enrollment_def)
  have probe: "wp (prove_rejection sample_client_env ''x'' sample_pending sample_enrollment sample_revocation)
      (\<lambda>r t. in_place t \<and> ro_state (fst r) = ''host-revoked-unconfirmed'' \<and> snd r \<noteq> None) E t" if "in_place t" for t
    using that by (simp add: prove_rejection_def Let_def wp_def run_simps ask_probe_def client_env_simps sample_remote_def in_place_def)
  show ?thesis unfolding client_revoke_def
  proof (rule wp_step[OF runs_client_read[OF assms]], rule wp_step[OF attempted[OF runs_receipt]], assumption, unfold sum.case if_there_def andthen_assoc,
      rule wp_step[OF attempted[OF runs_revocation]], assumption, unfold sum.case andthen_ret option.case, goal_cases)
    case (1 t u v)
    then show ?case using probe[OF 1(3)] by (simp add: names then_do_def wp_andthen wp_refuse)
  qed
qed

section \<open>The properties on the sample\<close>

lemma sample_retained: "in_place s \<Longrightarrow> retained sample_client_env ''x'' s" "client_peaceful ''/c'' ''x'' quiet_disk"
proof -
  have "\<not> raw (map_of sample_records p)" for p by (auto simp: sample_records_def raw_def)
  moreover show "client_peaceful ''/c'' ''x'' quiet_disk" using client_places(2) by (simp add: client_peaceful_def alone_spares)
  ultimately show "in_place s \<Longrightarrow> retained sample_client_env ''x'' s"
    using client_places(1) by (simp add: keeping_def client_env_simps flushed_in_def in_place_def)
qed

theorem prepared_intent_is_final_witness:
  "\<exists>t u. pair_prepare sample_client_env ''x'' (TrustedOffer sample_offer) sample_client = (Inr sample_request, t)
    \<and> pair_prepare sample_client_env ''x'' (TrustedOffer sample_offer) t = (Inr sample_request, u)
    \<and> (\<exists>fp private. key_fingerprint (\<lambda>s. sample_hash) sample_pair_key = Inr fp \<and> stored (pc_disk u) ''/c'' (credential_dirs fp) ''id_ed25519'' private)"
proof -
  from wp_run[OF runs_prepare[OF in_place_sample]] obtain t where
    t: "pair_prepare sample_client_env ''x'' (TrustedOffer sample_offer) sample_client = (Inr sample_request, t)" "in_place t" by auto
  from wp_run[OF runs_prepare[OF t(2)]] obtain u where
    u: "pair_prepare sample_client_env ''x'' (TrustedOffer sample_offer) t = (Inr sample_request, u)" by auto
  have hex: "hex64 (kl_sha (cv_keys sample_client_env) x)" for x using client_places(3) by (simp add: client_env_simps)
  have key: "ei_public_key sample_request = sample_pair_key" by (simp add: sample_request_def)
  have peace: "client_peaceful (cv_root sample_client_env) ''x'' (cv_disk sample_client_env)" using sample_retained(2) by (simp add: client_env_simps)
  from prepared_intent_is_final[OF sample_retained(1)[OF in_place_sample] hex t(1) disk.refl peace HOL.refl HOL.refl HOL.refl u]
  show ?thesis using t(1) u by (simp add: client_env_simps key)
qed

theorem forgets_only_rejected_key_witness:
  "\<exists>outcome e t. client_revoke sample_client_env ''x'' sample_client = (Inr (outcome, Some e), t) \<and> ro_state outcome = ''host-revoked-unconfirmed''
    \<and> (evolves (client_sealed ''/c'' ''x'') (pc_disk sample_client) (pc_disk t) \<or> rejection_proven sample_client t)"
proof -
  from wp_run[OF runs_revoke_client[OF in_place_sample]] obtain outcome e t where
    t: "client_revoke sample_client_env ''x'' sample_client = (Inr (outcome, Some e), t)" "ro_state outcome = ''host-revoked-unconfirmed''" by auto
  from forgets_only_rejected_key[OF sample_retained(1)[OF in_place_sample] t(1)] t show ?thesis by (auto simp: client_env_simps)
qed

end
