(* ===== verification/SshTransport.thy ===== *)
theory SshTransport
  imports TargetCodec PairKeys JsonRender
begin

text \<open>
  The ssh transport (\<open>internal/ssh/failure.go\<close>, \<open>ssh.go\<close>): the classification of what OpenSSH reports, the
  bounded output buffers, the client configuration of a paired connection and the result of a call. The
  ssh program, the lower-case table, \<open>netip.ParseAddr\<close>, the stored credential and the temporary directory
  are arguments; the files of a connection are listed instead of written and removed again.
\<close>

section \<open>Failures\<close>

datatype failure_class = HostUnreachable | TailscaleUnreachable | HostKeyMismatch | AuthRejected

fun class_text :: "failure_class \<Rightarrow> string" where
  "class_text HostUnreachable = ''host-unreachable''"
| "class_text TailscaleUnreachable = ''tailscale-unreachable''"
| "class_text HostKeyMismatch = ''host-key-mismatch''"
| "class_text AuthRejected = ''auth-rejected''"

fun next_step :: "failure_class \<Rightarrow> string" where
  "next_step HostUnreachable = ''check that the host is on, sshd is running, and this machine can reach its address and port''"
| "next_step TailscaleUnreachable = ''connect this machine to the tailnet (`tailscale status`) and check that the host is online there''"
| "next_step HostKeyMismatch = ''the host identity differs from the pinned key; do not replace trust; verify the host on its console and pair again from a new offer''"
| "next_step AuthRejected = ''the host refused this client key; check the pairing on the host with `pair status --state-root`, or pair again''"

record ssh_failure =
  sf_class :: failure_class
  sf_detail :: string

definition failure_text :: "ssh_failure \<Rightarrow> string" where
  "failure_text f = class_text (sf_class f) @ '': '' @ next_step (sf_class f) @ (if sf_detail f = '''' then '''' else ''. '' @ sf_detail f)"

text \<open>An address as \<open>netip.ParseAddr\<close> gives it; an IPv6 address with a zone is in no prefix.\<close>

datatype ip_addr = V4 "32 word" | V6 "128 word" string

record ssh_lib =
  sl_low :: "nat \<Rightarrow> nat"
  sl_addr :: "string \<Rightarrow> ip_addr option"

fun in_tailscale_prefix :: "ip_addr \<Rightarrow> bool" where
  "in_tailscale_prefix (V4 a) = (drop_bit 22 a = drop_bit 22 0x64400000)"
| "in_tailscale_prefix (V6 a zone) = (zone = '''' \<and> drop_bit 80 a = 0xfd7a115ca1e0)"

definition lower_rune :: "(nat \<Rightarrow> nat) \<Rightarrow> nat \<Rightarrow> nat" where
  "lower_rune low r = (if r < 0x80 then (if between 65 90 r then r + 32 else r) else low r)"

definition to_lower :: "(nat \<Rightarrow> nat) \<Rightarrow> string \<Rightarrow> string" where
  "to_lower low s = encode_runes (map (lower_rune low) (runes s))"

definition trim_chars :: "string \<Rightarrow> string \<Rightarrow> string" where
  "trim_chars s chars = trim_right (dropWhile (\<lambda>c. c \<in> set chars) s) chars"

definition trim_suffix :: "string \<Rightarrow> string \<Rightarrow> string" where
  "trim_suffix s p = (if has_suffix s p then take (length s - length p) s else s)"

definition tailscale_address :: "ssh_lib \<Rightarrow> string \<Rightarrow> bool" where
  "tailscale_address lib host =
    (case sl_addr lib (trim_chars host ''[]'') of
       Some a \<Rightarrow> in_tailscale_prefix a
     | None \<Rightarrow> has_suffix (to_lower (sl_low lib) (trim_suffix host ''.'')) ''.ts.net'')"

definition stderr_patterns :: "(string \<times> failure_class) list" where
  "stderr_patterns =
    [(''host key verification failed'', HostKeyMismatch),
     (''remote host identification has changed'', HostKeyMismatch),
     (''permission denied (publickey'', AuthRejected),
     (''connection refused'', HostUnreachable),
     (''timed out'', HostUnreachable),
     (''no route to host'', HostUnreachable),
     (''network is unreachable'', HostUnreachable),
     (''could not resolve hostname'', HostUnreachable)]"

text \<open>The two loops: the first pattern that some line contains, with the first such line.\<close>

fun first_line :: "ssh_lib \<Rightarrow> string \<Rightarrow> string list \<Rightarrow> string option" where
  "first_line lib fragment [] = None"
| "first_line lib fragment (l # ls) = (if contains (to_lower (sl_low lib) l) fragment then Some l else first_line lib fragment ls)"

fun first_pattern :: "ssh_lib \<Rightarrow> string \<Rightarrow> string list \<Rightarrow> (string \<times> failure_class) list \<Rightarrow> ssh_failure option" where
  "first_pattern lib host ls [] = None"
| "first_pattern lib host ls ((fragment, class) # ps) =
    (case first_line lib fragment ls of
       Some l \<Rightarrow> Some \<lparr>sf_class = (if class = HostUnreachable \<and> tailscale_address lib host then TailscaleUnreachable else class),
          sf_detail = trim_space l\<rparr>
     | None \<Rightarrow> first_pattern lib host ls ps)"

definition classify :: "ssh_lib \<Rightarrow> int \<Rightarrow> string \<Rightarrow> string \<Rightarrow> ssh_failure option" where
  "classify lib exit stderr host =
    (if exit \<noteq> 255 then None else first_pattern lib host (split_on newline stderr) stderr_patterns)"

text \<open>The exit status is missing when the error is none of the ssh program.\<close>

definition classify_exit :: "ssh_lib \<Rightarrow> int option \<Rightarrow> string \<Rightarrow> connection \<Rightarrow> ssh_failure option" where
  "classify_exit lib exit stderr c =
    (case exit of
       None \<Rightarrow> None
     | Some n \<Rightarrow> classify lib n stderr (case cn_direct c of None \<Rightarrow> cn_alias c | Some d \<Rightarrow> ds_host d))"

section \<open>Bounded output\<close>

record bounded_buffer =
  bb_bytes :: string
  bb_limit :: nat
  bb_exceeded :: bool

definition new_buffer :: "nat \<Rightarrow> bounded_buffer" where
  "new_buffer limit = \<lparr>bb_bytes = '''', bb_limit = limit, bb_exceeded = False\<rparr>"

text \<open>A write always reports that all of its bytes were written.\<close>

definition buffer_write :: "string \<Rightarrow> bounded_buffer \<Rightarrow> bounded_buffer" where
  "buffer_write content b =
    (let remaining = int (bb_limit b) - int (length (bb_bytes b)) in
     if remaining \<le> 0 then b\<lparr>bb_exceeded := True\<rparr>
     else if remaining < int (length content) then b\<lparr>bb_bytes := bb_bytes b @ take (nat remaining) content, bb_exceeded := True\<rparr>
     else b\<lparr>bb_bytes := bb_bytes b @ content\<rparr>)"

section \<open>A connection\<close>

definition double_backslashes :: "string \<Rightarrow> string" where
  "double_backslashes s = concat (map (\<lambda>c. if c = CHR 0x5C then [CHR 0x5C, CHR 0x5C] else [c]) s)"

definition escape_quotes :: "string \<Rightarrow> string" where
  "escape_quotes s = concat (map (\<lambda>c. if c = CHR 0x22 then [CHR 0x5C, CHR 0x22] else [c]) s)"

definition ssh_quote :: "string \<Rightarrow> string" where
  "ssh_quote v = [CHR 0x22] @ escape_quotes (double_backslashes v) @ [CHR 0x22]"

definition fixed_options :: "string list" where
  "fixed_options =
    [''HostKeyAlias blender-box-pinned'', ''HostKeyAlgorithms ssh-ed25519'', ''GlobalKnownHostsFile none'', ''StrictHostKeyChecking yes'',
     ''VerifyHostKeyDNS no'', ''UpdateHostKeys no'',
     ''BatchMode yes'', ''PreferredAuthentications publickey'', ''PubkeyAuthentication yes'', ''IdentitiesOnly yes'', ''IdentityAgent none'',
     ''CertificateFile none'', ''PKCS11Provider none'', ''PasswordAuthentication no'', ''KbdInteractiveAuthentication no'',
     ''HostbasedAuthentication no'', ''GSSAPIAuthentication no'',
     ''ControlMaster no'', ''ControlPath none'', ''ControlPersist no'', ''ForwardAgent no'', ''ForwardX11 no'', ''ClearAllForwardings yes'',
     ''Tunnel no'', ''ProxyCommand none'', ''ProxyJump none'', ''CanonicalizeHostname no'', ''PermitLocalCommand no'', ''RequestTTY no'',
     ''RemoteCommand none'', ''ConnectTimeout 30'', ''ConnectionAttempts 1'']"

definition ssh_config :: "direct_ssh \<Rightarrow> string \<Rightarrow> string \<Rightarrow> string" where
  "ssh_config d key_path hosts_path =
    ''Host *'' @ [newline]
    @ '' HostName '' @ ssh_quote (ds_host d) @ [newline] @ '' Port '' @ render_int (uint (ds_port d)) @ [newline]
    @ '' User '' @ ssh_quote (ds_user d) @ [newline]
    @ '' IdentityFile '' @ ssh_quote key_path @ [newline] @ '' UserKnownHostsFile '' @ ssh_quote hosts_path @ [newline]
    @ concat (map (\<lambda>l. CHR '' '' # l @ [newline]) fixed_options)"

record ssh_environment =
  se_root :: "err + string"
  se_credential :: "string \<Rightarrow> string \<Rightarrow> err + string"
  se_directory :: "err + string"
  se_write :: "string \<Rightarrow> string \<Rightarrow> err option"

record ssh_call =
  sc_options :: "string list"
  sc_host :: string
  sc_files :: "(string \<times> string) list"

text \<open>\<open>prepare\<close>. The code writes the three files in no fixed order; a failure ends the call and leaves none.\<close>

definition prepare_ssh :: "target_lib \<Rightarrow> ssh_environment \<Rightarrow> connection \<Rightarrow> err + ssh_call" where
  "prepare_ssh lib env c =
    guard_res (connection_validate lib c)
     (case cn_direct c of
        None \<Rightarrow> Inr \<lparr>sc_options = [], sc_host = cn_alias c, sc_files = []\<rparr>
      | Some d \<Rightarrow>
          bind_res (se_root env) (\<lambda>root.
          bind_res (case se_credential env root (ds_client_public_key_hash d) of Inl e \<Rightarrow> Inl (Wrap ''paired SSH credential'' e) | Inr k \<Rightarrow> Inr k) (\<lambda>key.
          bind_res (se_directory env) (\<lambda>directory.
          let key_path = path_clean (directory @ ''/identity''); hosts_path = path_clean (directory @ ''/known_hosts'');
              config_path = path_clean (directory @ ''/config'');
              written = [(key_path, key), (hosts_path, ''blender-box-pinned '' @ ds_host_public_key d @ [newline]),
                (config_path, ssh_config d key_path hosts_path)] in
          guard_res (first_err (map (\<lambda>(p, contents). se_write env p contents) written))
           (Inr \<lparr>sc_options = [''-F'', config_path], sc_host = ''blender-box-pinned'', sc_files = written\<rparr>)))))"

definition ssh_arguments :: "ssh_call \<Rightarrow> string list \<Rightarrow> string list" where
  "ssh_arguments call remote =
    sc_options call @ [''-o'', ''RequestTTY=no'', ''-o'', ''RemoteCommand=none'', ''--'', sc_host call] @ remote"

section \<open>The result of a call\<close>

text \<open>What the ssh program did: the chunks it wrote, and its error with the exit status when it has one.\<close>

record ssh_outcome =
  so_stdout :: "string list"
  so_stderr :: "string list"
  so_error :: "(int option \<times> err) option"

definition max_stdout :: nat where "max_stdout = 24 * 2 ^ 20"
definition max_stderr :: nat where "max_stderr = 64 * 2 ^ 10"

datatype ssh_error = Classified ssh_failure | Plain err

definition ssh_result :: "ssh_lib \<Rightarrow> connection \<Rightarrow> ssh_outcome \<Rightarrow> ssh_error + string" where
  "ssh_result lib c out =
    (let stdout = fold buffer_write (so_stdout out) (new_buffer max_stdout);
         stderr = fold buffer_write (so_stderr out) (new_buffer max_stderr);
         exceeded = bb_exceeded stdout \<or> bb_exceeded stderr;
         limit = Inl (Plain (Msg ''SSH output exceeded its limit'')) in
     case so_error out of
       None \<Rightarrow> if exceeded then limit else Inr (bb_bytes stdout)
     | Some (exit, e) \<Rightarrow>
         if exceeded then limit
         else case classify_exit lib exit (bb_bytes stderr) c of
             Some f \<Rightarrow> Inl (Classified f)
           | None \<Rightarrow> if bb_bytes stderr \<noteq> '''' then Inl (Plain (Msg (''SSH failed: '' @ bb_bytes stderr))) else Inl (Plain (Wrap ''SSH failed'' e)))"

definition ssh_run :: "target_lib \<Rightarrow> ssh_lib \<Rightarrow> ssh_environment \<Rightarrow> (string list \<Rightarrow> string \<Rightarrow> ssh_outcome) \<Rightarrow> connection \<Rightarrow> string list \<Rightarrow> string
    \<Rightarrow> ssh_error + string" where
  "ssh_run tlib lib env program c remote stdin =
    (case prepare_ssh tlib env c of
       Inl e \<Rightarrow> Inl (Plain e)
     | Inr call \<Rightarrow> ssh_result lib c (program (ssh_arguments call remote) stdin))"

section \<open>Classes\<close>

text \<open>Some line contains the fragment, in lower case.\<close>

definition reports :: "ssh_lib \<Rightarrow> string \<Rightarrow> string \<Rightarrow> bool" where
  "reports lib stderr fragment \<longleftrightarrow> list_ex (\<lambda>l. contains (to_lower (sl_low lib) l) fragment) (split_on newline stderr)"

lemma first_line_None: "first_line lib fragment ls = None \<longleftrightarrow> \<not> list_ex (\<lambda>l. contains (to_lower (sl_low lib) l) fragment) ls"
  by (induction ls) auto

lemma first_pattern_Cons:
  "map_option sf_class (first_pattern lib host (split_on newline stderr) ((fragment, class) # ps)) =
    (if reports lib stderr fragment then Some (if class = HostUnreachable \<and> tailscale_address lib host then TailscaleUnreachable else class)
     else map_option sf_class (first_pattern lib host (split_on newline stderr) ps))"
  using first_line_None[of lib fragment "split_on newline stderr"]
  by (cases "first_line lib fragment (split_on newline stderr)") (simp_all add: reports_def)

lemma classes_by_complaint:
  "map_option sf_class (classify lib exit stderr host) =
    (if exit \<noteq> 255 then None
     else if reports lib stderr ''host key verification failed'' \<or> reports lib stderr ''remote host identification has changed''
       then Some HostKeyMismatch
     else if reports lib stderr ''permission denied (publickey'' then Some AuthRejected
     else if reports lib stderr ''connection refused'' \<or> reports lib stderr ''timed out'' \<or> reports lib stderr ''no route to host''
          \<or> reports lib stderr ''network is unreachable'' \<or> reports lib stderr ''could not resolve hostname''
       then Some (if tailscale_address lib host then TailscaleUnreachable else HostUnreachable)
     else None)"
  by (simp add: classify_def stderr_patterns_def first_pattern_Cons del: first_pattern.simps(2))

text \<open>C25: what a failure is called depends on which complaints occur in the output, not on their order:
  only the exit status of ssh itself is classified, a complaint about the host key wins over a rejected
  key, and that over a host that is not reached, which has a name of its own for a tailnet address.\<close>

theorem failure_classes:
  "map_option sf_class (classify lib exit stderr host) =
    (if exit \<noteq> 255 then None
     else if reports lib stderr ''host key verification failed'' \<or> reports lib stderr ''remote host identification has changed''
       then Some HostKeyMismatch
     else if reports lib stderr ''permission denied (publickey'' then Some AuthRejected
     else if reports lib stderr ''connection refused'' \<or> reports lib stderr ''timed out'' \<or> reports lib stderr ''no route to host''
          \<or> reports lib stderr ''network is unreachable'' \<or> reports lib stderr ''could not resolve hostname''
       then Some (if tailscale_address lib host then TailscaleUnreachable else HostUnreachable)
     else None)"
  by (rule classes_by_complaint)

section \<open>Output\<close>

lemma buffer_kept:
  "\<not> bb_exceeded (fold buffer_write cs b) \<Longrightarrow> length (bb_bytes b) \<le> bb_limit b \<Longrightarrow>
    bb_bytes (fold buffer_write cs b) = bb_bytes b @ concat cs \<and> length (bb_bytes b @ concat cs) \<le> bb_limit b"
proof (induction cs arbitrary: b)
  case (Cons c cs)
  have stays: "bb_exceeded b \<Longrightarrow> bb_exceeded (fold buffer_write cs b)" for cs b
    by (induction cs arbitrary: b) (simp_all add: buffer_write_def Let_def)
  have "\<not> bb_exceeded (buffer_write c b)" using Cons.prems(1) stays by auto
  then have "buffer_write c b = b\<lparr>bb_bytes := bb_bytes b @ c\<rparr>" "length (bb_bytes b @ c) \<le> bb_limit b"
    by (auto simp: buffer_write_def Let_def split: if_splits)
  with Cons.IH[of "buffer_write c b"] Cons.prems(1) show ?case by simp
qed simp

text \<open>C27: a call that returns has the whole of what ssh wrote to its output, at most 24 MiB of it, and ssh
  exited without an error; output that does not fit fails the call instead of being cut.\<close>

theorem call_returns_whole_output:
  assumes "ssh_run tlib lib env program c remote stdin = Inr data"
  shows "\<exists>call. prepare_ssh tlib env c = Inr call
    \<and> so_error (program (ssh_arguments call remote) stdin) = None
    \<and> data = concat (so_stdout (program (ssh_arguments call remote) stdin)) \<and> length data \<le> max_stdout"
proof -
  from assms obtain call where "prepare_ssh tlib env c = Inr call"
    and "ssh_result lib c (program (ssh_arguments call remote) stdin) = Inr data"
    by (auto simp: ssh_run_def split: sum.splits)
  then show ?thesis
    using buffer_kept[of "so_stdout (program (ssh_arguments call remote) stdin)" "new_buffer max_stdout"]
    by (auto simp: ssh_result_def Let_def new_buffer_def split: if_splits option.splits prod.splits)
qed

text \<open>C26: a call that fails with a rejected key was answered so: ssh itself exited with status 255, it
  complained about the key in its whole, untruncated error output, and it had not complained
  about the key of the host.\<close>

theorem rejection_was_reported:
  assumes "ssh_run tlib lib env program c remote stdin = Inl (Classified f)" and "sf_class f = AuthRejected"
  shows "\<exists>call e. prepare_ssh tlib env c = Inr call
    \<and> so_error (program (ssh_arguments call remote) stdin) = Some (Some 255, e)
    \<and> reports lib (concat (so_stderr (program (ssh_arguments call remote) stdin))) ''permission denied (publickey''
    \<and> \<not> reports lib (concat (so_stderr (program (ssh_arguments call remote) stdin))) ''host key verification failed''
    \<and> \<not> reports lib (concat (so_stderr (program (ssh_arguments call remote) stdin))) ''remote host identification has changed''"
proof -
  from assms(1) obtain call where call: "prepare_ssh tlib env c = Inr call"
    and r: "ssh_result lib c (program (ssh_arguments call remote) stdin) = Inl (Classified f)"
    by (auto simp: ssh_run_def split: sum.splits)
  define out where "out = program (ssh_arguments call remote) stdin"
  from r obtain exit e where e: "so_error out = Some (exit, e)" and kept: "\<not> bb_exceeded (fold buffer_write (so_stderr out) (new_buffer max_stderr))"
    and f: "classify_exit lib exit (bb_bytes (fold buffer_write (so_stderr out) (new_buffer max_stderr))) c = Some f"
    by (auto simp: ssh_result_def Let_def out_def[symmetric] split: option.splits prod.splits if_splits)
  have "bb_bytes (fold buffer_write (so_stderr out) (new_buffer max_stderr)) = concat (so_stderr out)"
    using buffer_kept[OF kept] by (simp add: new_buffer_def)
  with f obtain n host where n: "exit = Some n" "classify lib n (concat (so_stderr out)) host = Some f"
    by (auto simp: classify_exit_def split: option.splits)
  have "map_option sf_class (classify lib n (concat (so_stderr out)) host) = Some AuthRejected" using n(2) assms(2) by simp
  then have "n = 255" "reports lib (concat (so_stderr out)) ''permission denied (publickey''"
    "\<not> reports lib (concat (so_stderr out)) ''host key verification failed''"
    "\<not> reports lib (concat (so_stderr out)) ''remote host identification has changed''"
    unfolding classes_by_complaint by (simp_all split: if_splits)
  with call n(1) e show ?thesis by (auto simp: out_def)
qed

section \<open>Configuration\<close>

lemma quote_newline: "newline \<in> set (ssh_quote v) \<longleftrightarrow> newline \<in> set v"
  by (auto simp: ssh_quote_def escape_quotes_def double_backslashes_def split: if_splits)

text \<open>
  Quoting writes one or two characters for each of the value, and none of these words begins with
  a bare quote: the closing quote is where the value ends, whatever follows.
\<close>

definition quoted_char :: "char \<Rightarrow> string" where
  "quoted_char c = (if c = CHR 0x5C \<or> c = CHR 0x22 then [CHR 0x5C, c] else [c])"

lemma quote_chars: "ssh_quote v = [CHR 0x22] @ concat (map quoted_char v) @ [CHR 0x22]"
proof -
  have "escape_quotes (double_backslashes v) = concat (map quoted_char v)"
    by (induction v) (auto simp: escape_quotes_def double_backslashes_def quoted_char_def)
  then show ?thesis by (simp add: ssh_quote_def)
qed

lemma quoted_char_closed:
  "quoted_char c @ x = quoted_char d @ y \<longleftrightarrow> c = d \<and> x = y"
  "quoted_char c @ x \<noteq> CHR 0x22 # y" "CHR 0x22 # y \<noteq> quoted_char c @ x"
  by (auto simp: quoted_char_def)

lemma quoted_chars_closed:
  "concat (map quoted_char v) @ CHR 0x22 # x = concat (map quoted_char w) @ CHR 0x22 # y \<longleftrightarrow> v = w \<and> x = y"
proof (induction v arbitrary: w)
  case Nil
  then show ?case by (cases w) (simp_all add: quoted_char_closed(3))
next
  case (Cons c v)
  then show ?case by (cases w) (simp_all add: quoted_char_closed)
qed

lemma quote_closed: "ssh_quote v @ x = ssh_quote w @ y \<longleftrightarrow> v = w \<and> x = y"
  by (simp add: quote_chars quoted_chars_closed)

lemma quote_inject: "ssh_quote v = ssh_quote w \<longleftrightarrow> v = w"
  using quote_closed[of v "[]" w "[]"] by simp

text \<open>The number of the port is determined by its digits.\<close>

lemma digits_value: "foldl (\<lambda>n c. 10 * n + (code c - 48)) 0 (digits n) = n"
proof (induction n rule: digits.induct)
  case (1 n)
  have "code (char_of (48 + k)) = 48 + k" if "k < 10" for k :: nat
    using that by (simp add: code_def)
  with 1 show ?case by (subst digits.simps) auto
qed

lemma port_inject: "render_int (uint p) = render_int (uint q) \<longleftrightarrow> p = q" for p q :: "'a::len word"
proof
  assume "render_int (uint p) = render_int (uint q)"
  then have "digits (nat (uint p)) = digits (nat (uint q))" by (simp add: render_int_def)
  then have "nat (uint p) = nat (uint q)" by (metis digits_value)
  then show "p = q" by (simp add: word_unat_eq_iff)
qed simp

lemma digits_newline: "newline \<notin> set (digits n)"
proof (induction n rule: digits.induct)
  case (1 n)
  have "newline \<noteq> char_of (48 + k)" if "k < 10" for k :: nat
  proof -
    have "code (char_of (48 + k)) \<noteq> code newline" using that by (simp add: code_def)
    then show ?thesis by auto
  qed
  with 1 show ?case by (subst digits.simps) auto
qed

definition config_lines :: "direct_ssh \<Rightarrow> string \<Rightarrow> string \<Rightarrow> string list" where
  "config_lines d key_path hosts_path =
    ''Host *'' # map (\<lambda>l. CHR '' '' # l)
     ([''HostName '' @ ssh_quote (ds_host d), ''Port '' @ render_int (uint (ds_port d)), ''User '' @ ssh_quote (ds_user d),
       ''IdentityFile '' @ ssh_quote key_path, ''UserKnownHostsFile '' @ ssh_quote hosts_path] @ fixed_options)"

lemma terminated_lines: "concat (map (\<lambda>l. l @ [newline]) ls) = join_with newline (ls @ [''''])"
  by (induction ls) (simp_all add: join_with_Cons)

lemma config_text: "ssh_config d key_path hosts_path = join_with newline (config_lines d key_path hosts_path @ [''''])"
  unfolding terminated_lines[symmetric] by (simp add: ssh_config_def config_lines_def comp_def)

lemma alnum_newline: "\<not> is_alnum newline"
  by (simp add: evaluate)

lemma endpoint_newline:
  assumes "direct_validate lib d = None" and "\<And>h. tl_ip lib h \<Longrightarrow> newline \<notin> set h"
  shows "newline \<notin> set (ds_host d)" "newline \<notin> set (ds_user d)"
  using assms(1) assms(2)[of "ds_host d"] alnum_newline
  by (auto simp: direct_validate_def hostname_pattern_def direct_user_pattern_def led_run_def run_of_def list_all_iff split: list.splits)

lemma config_lines_split:
  assumes "direct_validate lib d = None" and "\<And>h. tl_ip lib h \<Longrightarrow> newline \<notin> set h"
    and "newline \<notin> set key_path" and "newline \<notin> set hosts_path"
  shows "split_on newline (ssh_config d key_path hosts_path) = config_lines d key_path hosts_path @ ['''']"
proof -
  have port: "newline \<notin> set (render_int (uint (ds_port d)))"
    using digits_newline by (simp add: render_int_def)
  have fixed: "\<forall>l\<in>set fixed_options. newline \<notin> set l" by (simp add: fixed_options_def)
  have "\<forall>l\<in>set (config_lines d key_path hosts_path @ ['''']). newline \<notin> set l"
    using endpoint_newline[OF assms(1,2)] assms(3,4) port fixed by (auto simp: config_lines_def quote_newline)
  then show ?thesis unfolding config_text by (simp add: split_join)
qed

text \<open>C28: the client configuration of a validated endpoint is closed. Its lines are exactly the directives
  of the template, so that no value adds a directive or hides one. Quoting is self-delimiting: whatever
  follows a quoted value, it is the quotation of no other value, so that a value ends where it was meant
  to. And the text determines the host, the port, the user and the two paths: different endpoints or
  files give different configurations. The paths of the two files contain no line break, and
  \<open>net.ParseIP\<close> accepts none.\<close>

theorem paired_config_is_closed:
  assumes "direct_validate lib d = None" and "direct_validate lib d' = None"
    and "\<And>h. tl_ip lib h \<Longrightarrow> newline \<notin> set h"
    and "newline \<notin> set (key_path @ hosts_path @ key_path' @ hosts_path')"
  shows "split_on newline (ssh_config d key_path hosts_path) = config_lines d key_path hosts_path @ ['''']
    \<and> (\<forall>v w rest rest'. (ssh_quote v @ rest = ssh_quote w @ rest') = (v = w \<and> rest = rest'))
    \<and> (ssh_config d key_path hosts_path = ssh_config d' key_path' hosts_path'
        \<longrightarrow> ds_host d' = ds_host d \<and> ds_port d' = ds_port d \<and> ds_user d' = ds_user d
          \<and> key_path' = key_path \<and> hosts_path' = hosts_path)"
proof -
  have lines: "split_on newline (ssh_config d key_path hosts_path) = config_lines d key_path hosts_path @ ['''']"
    by (rule config_lines_split[OF assms(1,3)]) (use assms(4) in simp_all)
  have lines': "split_on newline (ssh_config d' key_path' hosts_path') = config_lines d' key_path' hosts_path' @ ['''']"
    by (rule config_lines_split[OF assms(2,3)]) (use assms(4) in simp_all)
  have "config_lines d key_path hosts_path = config_lines d' key_path' hosts_path'"
    if "ssh_config d key_path hosts_path = ssh_config d' key_path' hosts_path'"
    using lines lines' unfolding that by simp
  then show ?thesis using lines by (auto simp: quote_closed config_lines_def quote_inject port_inject)
qed

text \<open>A user of a Windows domain, whose name has a backslash.\<close>

definition sample_endpoint :: direct_ssh where
  "sample_endpoint = \<lparr>ds_host = ''h'', ds_port = 22, ds_user = ''d'' @ [CHR 0x5C] @ ''u'', ds_host_public_key = sample_pair_key,
     ds_client_public_key_hash = replicate 64 CHR ''0''\<rparr>"

lemma sample_endpoint_valid: "direct_validate sample_target_lib sample_endpoint = None"
proof -
  have "canonical_public_key sample_pair_key = Inr sample_pair_key"
    using public_wire_of_key[of "replicate 32 CHR ''k''"] by (simp add: canonical_public_key_def sample_pair_key_def)
  then show ?thesis by (simp add: direct_validate_def sample_endpoint_def evaluate list_all_iff)
qed

theorem paired_config_is_closed_witness:
  "split_on newline (ssh_config sample_endpoint ''/t/identity'' ''/t/known_hosts'') = config_lines sample_endpoint ''/t/identity'' ''/t/known_hosts'' @ ['''']
    \<and> ssh_config sample_endpoint ''/t/identity'' ''/t/known_hosts'' \<noteq> ssh_config sample_endpoint ''/u/identity'' ''/u/known_hosts''"
  using paired_config_is_closed[OF sample_endpoint_valid sample_endpoint_valid, of "''/t/identity''" "''/t/known_hosts''" "''/u/identity''" "''/u/known_hosts''"]
  by (auto simp: sample_target_lib_def)

section \<open>Two calls\<close>

text \<open>A call through an alias, answered by the given program.\<close>

definition sample_alias :: connection where
  "sample_alias = \<lparr>cn_alias = ''host'', cn_direct = None\<rparr>"

definition idle_environment :: ssh_environment where
  "idle_environment = \<lparr>se_root = Inl NotExist, se_credential = (\<lambda>_ _. Inl NotExist), se_directory = Inl NotExist, se_write = (\<lambda>_ _. None)\<rparr>"

definition sample_ssh_lib :: ssh_lib where
  "sample_ssh_lib = \<lparr>sl_low = id, sl_addr = (\<lambda>_. None)\<rparr>"

definition answering :: "string list \<Rightarrow> string list \<Rightarrow> (int option \<times> err) option \<Rightarrow> string list \<Rightarrow> string \<Rightarrow> ssh_outcome" where
  "answering out complaints e arguments stdin = \<lparr>so_stdout = out, so_stderr = complaints, so_error = e\<rparr>"

lemma alias_prepared: "prepare_ssh sample_target_lib idle_environment sample_alias = Inr \<lparr>sc_options = [], sc_host = ''host'', sc_files = []\<rparr>"
  by (simp add: prepare_ssh_def sample_alias_def connection_validate_def evaluate)

theorem call_returns_whole_output_witness:
  "\<exists>call. prepare_ssh sample_target_lib idle_environment sample_alias = Inr call
    \<and> ''ab'' = concat (so_stdout (answering [''a'', ''b''] [] None (ssh_arguments call [''x'']) ''''))"
proof -
  have "ssh_run sample_target_lib sample_ssh_lib idle_environment (answering [''a'', ''b''] [] None) sample_alias [''x''] '''' = Inr ''ab''"
    by (simp add: ssh_run_def alias_prepared ssh_result_def answering_def new_buffer_def buffer_write_def max_stdout_def max_stderr_def)
  from call_returns_whole_output[OF this] show ?thesis by blast
qed

theorem rejection_was_reported_witness:
  "reports sample_ssh_lib ''Permission denied (publickey).'' ''permission denied (publickey''
   \<and> \<not> reports sample_ssh_lib ''Permission denied (publickey).'' ''host key verification failed''"
proof -
  have "ssh_run sample_target_lib sample_ssh_lib idle_environment
      (answering [] [''Permission denied '', ''(publickey).''] (Some (Some 255, Msg ''exit status 255''))) sample_alias [''x''] ''''
    = Inl (Classified \<lparr>sf_class = AuthRejected, sf_detail = ''Permission denied (publickey).''\<rparr>)"
    by (simp add: ssh_run_def alias_prepared, simp add: ssh_result_def answering_def new_buffer_def buffer_write_def max_stdout_def max_stderr_def
      classify_exit_def classify_def stderr_patterns_def sample_alias_def sample_ssh_lib_def to_lower_def lower_rune_def trim_space_def evaluate)
  from rejection_was_reported[OF this] show ?thesis by (simp add: answering_def)
qed

end
