(* ===== verification/Spec2Isabelle.thy ===== *)
theory Spec2Isabelle
  imports JsonStream HostGuarantees SshKeyGuarantees TargetStore RunSample PairClientSample SshTransport
begin

text \<open>
  Blender Box runs a Blender payload in the interactive session of a remote machine. A controller
  (\<open>internal/orchestrator\<close>, \<open>internal/target\<close>, \<open>internal/privatefile\<close>) turns a payload directory into
  a request, records what it is about to do in its private storage, and calls a host adapter. The
  host (\<open>internal/host\<close>) owns one state root: a Host Lock that at most one run holds, staging
  directories, run roots, receipts and a pending launch that a desktop task picks up. Everything
  that crosses between the two is a document with a validation of its own
  (\<open>internal/payload\<close>, \<open>internal/uiaction\<close>, \<open>internal/capture\<close>, \<open>internal/strictjson\<close>,
  \<open>internal/safepath\<close>, \<open>internal/windowstarget\<close>, \<open>internal/linuxtarget\<close>). The development models
  these parts, their failures included, and proves what makes them safe to combine.

  \<^bold>\<open>Theories and sources\<close>

  \<^item> Prelude, GoStrings: error trees, Go's byte strings and the functions of \<open>strings\<close>, \<open>path\<close> and
    \<open>strconv\<close> that the program uses; actions of type \<open>'s \<Rightarrow> (err + 'a) \<times> 's\<close> with their weakest
    precondition \<open>wp\<close>; the locale \<open>history\<close>, a preorder on states with the rules that carry it
    through sequences, branches, loops and failures.
  \<^item> JsonTokens, JsonStream, JsonDecode, JsonRender: \<open>strictjson/decode.go\<close> and the parts of
    \<open>encoding/json\<close> in use. The tokenizer and the parser themselves are arguments; JsonStream
    assumes of the tokenizer that delimiters are matched, which its documentation promises.
  \<^item> SafePath, Capture, UiAction, UiJournal, Payload: the files of the same name.
  \<^item> WindowsTarget, LinuxTarget, Target, TargetCodec, TargetStore: \<open>windowstarget\<close>, \<open>linuxtarget\<close>,
    \<open>target/target.go\<close>, \<open>connection.go\<close> and \<open>store.go\<close>.
  \<^item> RunContract: the claims, requests, receipts, states and evidence manifests of
    \<open>orchestrator/runner.go\<close>; Plan: \<open>orchestrator/plan.go\<close>.
  \<^item> HostState, HostService, HostSettle, HostExecute, HostPending: \<open>host/service.go\<close> and
    \<open>host/uiaction.go\<close>. A state root is the record \<open>host_state\<close>; the files of \<open>service.go\<close> are its
    fields. HostInvariant, HostExecutionInvariant, HostProtocol, HostGuarantees hold the invariant,
    the step relation and the properties.
  \<^item> PrivateFile: \<open>privatefile/file.go\<close> and \<open>file_posix.go\<close>, over a disk with a visible and a stable
    layer, faults and crashes. RecordStore is the contract its clients rely on, as a locale;
    PrivateStore interprets it on PrivateFile; RecordFound adds that a missing record is an answer.
  \<^item> SshKey, SshKeyGuarantees: \<open>sshkey/key.go\<close> and \<open>reserved.go\<close>.
  \<^item> Journal, JournalGuarantees: \<open>orchestrator/journal.go\<close>.
  \<^item> HostMaintenance: \<open>host/maintenance.go\<close> and \<open>setup_maintenance.go\<close>. The locale \<open>embedded_host\<close>
    carries its rule into components that keep the host's state in a part of their own.
  \<^item> PairKeys, PairRecords, PairHost: \<open>pairing/keys.go\<close>, the documents of \<open>pairing/client.go\<close>,
    \<open>revoke.go\<close> and \<open>revoke_wire.go\<close>, and \<open>pairing/host.go\<close>. The platform with the authorized keys file is
    an argument; \<open>ph_edits\<close> keeps its edits. PairHostGuarantees holds the properties, PairSample a
    pairing that is computed, to which they are applied.
  \<^item> PairClient: the operations of \<open>pairing/client.go\<close>, \<open>preparation.go\<close> and \<open>revoke.go\<close>. The host at
    the other end is an argument; \<open>pc_log\<close> keeps the calls. PairCodec shows that the documents
    cross, PairClientGuarantees holds the properties, PairClientSample a pairing on disk that is
    computed. QuietStore says what the private storage does on a disk that nothing else touches.
  \<^item> SshTransport: \<open>ssh/failure.go\<close> and \<open>ssh/ssh.go\<close>, with what the ssh program did as an argument.
  \<^item> Evidence, Runner, RunnerRun: the Evidence Bundle and \<open>Run\<close>, \<open>Status\<close>, \<open>Stop\<close> with the recovery
    of a Run with UI actions (\<open>runner.go\<close>, \<open>orchestrator/uiaction.go\<close>). The host adapter is an
    argument; \<open>ct_calls\<close> keeps its calls together with the disk at each of them.
    EvidenceGuarantees, RunGuarantees, RunEvidence hold the properties, RunSample a whole Run that
    is computed, to which they are applied.

  \<^bold>\<open>What the lemmas show\<close>

  The host keeps one invariant under any interleaving of operations and executions, any faults and
  any answers of the daemon: files of a run exist only while the lock is held for it, and a known
  cleanup is true. On top of it, settlement stops the session before it gives up the lock, and a
  request with a foreign claim changes nothing but a receipt of its own. The private storage publishes atomically and
  durably, across faults, crashes and well-behaved other processes; from its contract follow the
  finality of journal records and of reserved keys. Every Run calls the host only under the claim
  that it has recorded durably, names at most one session, observes the host a bounded number of
  times, and when it succeeds has stored exactly the declared evidence. Maintenance acts only on a
  host without a Run; under it the authorized keys file changes only as a stored grant says, and a
  revoked pairing stays out. The client's intent of a pairing is final while it is kept and its key is stored, and
  what is stored is forgotten only after a fresh connection was rejected; the documents between the
  two sides are trusted unchanged, with exactly the digest of what was sent. A call over ssh returns its whole output, is called
  rejected only when ssh itself says so, and its configuration holds no directive but its own and
  determines the endpoint. The strict scan of JSON admits one complete document and nothing else,
  whatever tokens arrive. The validations are proved equivalent to declarative specifications or
  shown to imply what later code relies on, and every encoder is a right inverse of its decoder on
  valid values.

  \<^bold>\<open>Bounds, loops and fuel\<close>

  Recursion is structural or has a measure: the polling loop of a Run by the time left until its
  deadline, of which every round but the last takes at least one poll interval. Faults and the
  actions of other processes are functions of the number of the system call, so every definition
  is total. Only the scans of JSON tokens carry fuel, two units for each token and two more, which
  JsonTokens shows to be enough for every document and JsonStream for every stream. Machine integers appear where the code depends on their width
  (unsigned ports, 64-bit integers of JSON documents); other integers are unbounded and the
  validations bound them.

  \<^bold>\<open>Not modelled\<close>

  Code that only wraps an operating system or another program: the Windows and Linux runtimes and
  native calls, the installer, the adapters that build command lines, the command
  line, the host's Python programs, \<open>ssh-keygen\<close>. Of the contexts of Go only the effects are visible:
  an error of the adapter or an interrupted wait. Error texts are shortened. A nil slice and an empty
  one are not distinguished. Of a repeated member of a UI journal in evidence the last value counts.
  \<open>filepath.EvalSymlinks\<close> is an argument. On Windows the host repeats a failed removal of a run root
  for a while (\<open>removeRunRootWithRetry\<close>); here a removal fails or succeeds once. A cleanup that
  \<open>Settle\<close> returns together with an error is only the error. How OpenSSH reads the configuration
  that is written for it is not modelled.
\<close>

end
